(* ===== verification/Prelude.thy ===== *)
theory Prelude
  imports Main "HOL-Library.Sublist"
begin

text \<open>
  Shared vocabulary of the development: the theorem collections the component theories extend,
  the generic machine whose invariant argument several components use, clock values, and the
  lemmas on lists, options and association tables that more than one component needs.
\<close>

named_theorems go_str \<open>equations for the strings package\<close>
named_theorems sql \<open>laws of the relational operations\<close>
named_theorems inv_simps \<open>unfoldings of component invariants\<close>

section \<open>Clock values\<close>

text \<open>
  A \<open>time.Time\<close> is an \<open>int\<close> number of nanoseconds. The databases store the text
  \<open>Format(time.RFC3339)\<close>, which keeps whole seconds; for UTC years 0 to 9999 the textual order
  of these strings is the numeric order of the seconds, so a stored time is the \<open>int\<close> number of
  seconds.
\<close>

type_synonym time = int
type_synonym stored_time = int

definition second :: time where
  "second = 1000000000"

definition stamp :: "time \<Rightarrow> stored_time" where
  "stamp t = t div second"

lemma second_pos [simp]: "0 < second"
  by (simp add: second_def)

lemma stamp_mono: "s \<le> t \<Longrightarrow> stamp s \<le> stamp t"
  by (simp add: stamp_def zdiv_mono1)

lemma stamp_add: "stamp (t + k * second) = stamp t + k"
  by (simp add: stamp_def second_def)

section \<open>Machines and their invariants\<close>

text \<open>
  Several components are a state and a set of operations; a run is a list of operations. The
  contract \<open>machine\<close> is that every operation keeps the invariant, and its clients get the
  invariant for every run. Each component interprets it on its own operations.
\<close>

fun run :: "('s \<Rightarrow> 'e \<Rightarrow> 's) \<Rightarrow> 's \<Rightarrow> 'e list \<Rightarrow> 's" where
  "run step s [] = s"
| "run step s (e # es) = run step (step s e) es"

lemma run_append: "run step s (xs @ ys) = run step (run step s xs) ys"
  by (induction xs arbitrary: s) auto

locale machine =
  fixes step :: "'s \<Rightarrow> 'e \<Rightarrow> 's"
    and invar :: "'s \<Rightarrow> bool"
  assumes step_invar: "invar s \<Longrightarrow> invar (step s e)"
begin

lemma run_invar: "invar s \<Longrightarrow> invar (run step s es)"
  by (induction es arbitrary: s) (auto intro: step_invar)

end

section \<open>Lists\<close>

lemma filter_key_notin:
  "k \<notin> set (map f xs) \<Longrightarrow> filter (\<lambda>x. f x \<noteq> k) xs = xs"
  by (induction xs) auto

lemma distinct_map_filterI: "distinct (map f xs) \<Longrightarrow> distinct (map f (filter P xs))"
  by (induction xs) auto

end
