(* ===== verification/Go_Strings.thy ===== *)
theory Go_Strings
  imports Prelude
begin

text \<open>
  The functions of Go's \<open>strings\<close>, \<open>strconv\<close> and \<open>net\<close> packages that the source calls, on
  strings as byte sequences (\<open>string\<close> is a list of 8-bit characters, as a Go string is a byte
  slice). \<open>TrimSpace\<close>, \<open>Fields\<close>, \<open>ToLower\<close> and \<open>EqualFold\<close> are exact on strings of ASCII
  bytes; the Unicode tables behind them are not reproduced, and bytes from 128 up are left alone.
\<close>

section \<open>Characters\<close>

definition is_space :: "char \<Rightarrow> bool" where
  "is_space c \<longleftrightarrow> c \<in> {CHR 0x09, CHR 0x0A, CHR 0x0B, CHR 0x0C, CHR 0x0D, CHR '' ''}"

definition byte :: "char \<Rightarrow> nat" where
  "byte c = of_char c"

definition is_upper :: "char \<Rightarrow> bool" where
  "is_upper c \<longleftrightarrow> 65 \<le> byte c \<and> byte c \<le> 90"

definition is_lower :: "char \<Rightarrow> bool" where
  "is_lower c \<longleftrightarrow> 97 \<le> byte c \<and> byte c \<le> 122"

definition is_digit :: "char \<Rightarrow> bool" where
  "is_digit c \<longleftrightarrow> 48 \<le> byte c \<and> byte c \<le> 57"

definition is_ctl :: "char \<Rightarrow> bool" where
  "is_ctl c \<longleftrightarrow> byte c < 32 \<or> byte c = 127"

definition ascii :: "string \<Rightarrow> bool" where
  "ascii s \<longleftrightarrow> list_all (\<lambda>c. byte c < 128) s"

definition lower_char :: "char \<Rightarrow> char" where
  "lower_char c = (if is_upper c then char_of (byte c + 32) else c)"

lemma byte_less [simp]: "byte c < 256"
  unfolding byte_def by (rule nat_of_char_less_256)

lemma byte_char_of [simp]: "n < 256 \<Longrightarrow> byte (char_of n) = n"
  by (simp add: byte_def)

lemma char_of_byte [simp]: "char_of (byte c) = c"
  by (simp add: byte_def)

lemma byte_inject [simp]: "byte c = byte d \<longleftrightarrow> c = d"
  by (simp add: byte_def)

lemma byte_lower_char: "byte (lower_char c) = (if is_upper c then byte c + 32 else byte c)"
  by (simp add: lower_char_def is_upper_def)

lemma not_upper_lower_char [simp]: "\<not> is_upper (lower_char c)"
  by (simp add: is_upper_def byte_lower_char)

lemma lower_char_idem [simp]: "lower_char (lower_char c) = lower_char c"
  by (subst (1) lower_char_def) simp

lemma is_space_lower_char [simp]: "is_space (lower_char c) = is_space c"
proof -
  have "is_space d \<longleftrightarrow> byte d \<in> {9, 10, 11, 12, 13, 32}" for d
    unfolding is_space_def by (auto simp: byte_def simp flip: byte_inject)
  then show ?thesis
    by (auto simp: byte_lower_char is_upper_def)
qed

section \<open>Trimming, prefixes, case\<close>

definition trim_left :: "string \<Rightarrow> string" where
  "trim_left s = dropWhile is_space s"

definition trim_right :: "string \<Rightarrow> string" where
  "trim_right s = rev (dropWhile is_space (rev s))"

definition trim_space :: "string \<Rightarrow> string" where
  "trim_space s = trim_right (trim_left s)"

definition trim_set :: "char set \<Rightarrow> string \<Rightarrow> string" where
  "trim_set cs s = rev (dropWhile (\<lambda>c. c \<in> cs) (rev (dropWhile (\<lambda>c. c \<in> cs) s)))"

definition trim_right_set :: "char set \<Rightarrow> string \<Rightarrow> string" where
  "trim_right_set cs s = rev (dropWhile (\<lambda>c. c \<in> cs) (rev s))"

definition to_lower :: "string \<Rightarrow> string" where
  "to_lower s = map lower_char s"

definition equal_fold :: "string \<Rightarrow> string \<Rightarrow> bool" where
  "equal_fold s t \<longleftrightarrow> to_lower s = to_lower t"

definition has_prefix :: "string \<Rightarrow> string \<Rightarrow> bool" where
  "has_prefix s p \<longleftrightarrow> take (length p) s = p"

definition has_suffix :: "string \<Rightarrow> string \<Rightarrow> bool" where
  "has_suffix s p \<longleftrightarrow> has_prefix (rev s) (rev p)"

definition trim_prefix :: "string \<Rightarrow> string \<Rightarrow> string" where
  "trim_prefix s p = (if has_prefix s p then drop (length p) s else s)"

definition trim_suffix :: "string \<Rightarrow> string \<Rightarrow> string" where
  "trim_suffix s p = (if has_suffix s p then take (length s - length p) s else s)"

fun contains :: "string \<Rightarrow> string \<Rightarrow> bool" where
  "contains [] p = (p = [])"
| "contains (c # s) p = (has_prefix (c # s) p \<or> contains s p)"

lemma has_prefix_append [simp]: "has_prefix (p @ s) p"
  by (simp add: has_prefix_def)

lemma has_prefix_iff: "has_prefix s p \<longleftrightarrow> (\<exists>t. s = p @ t)"
  unfolding has_prefix_def by (metis append_eq_conv_conj)

lemma has_suffix_iff: "has_suffix s p \<longleftrightarrow> (\<exists>t. s = t @ p)"
  unfolding has_suffix_def has_prefix_iff by (metis rev_append rev_rev_ident)

lemma has_prefix_Nil [simp]: "has_prefix s []"
  by (simp add: has_prefix_def)

lemma has_prefix_Cons [simp]: "has_prefix (c # s) (d # p) \<longleftrightarrow> c = d \<and> has_prefix s p"
  by (auto simp: has_prefix_def)

lemma has_prefix_empty [simp]: "has_prefix [] (d # p) = False"
  by (simp add: has_prefix_def)

lemma contains_iff: "contains s p \<longleftrightarrow> (\<exists>a b. s = a @ p @ b)"
proof (induction s)
  case Nil
  then show ?case by simp
next
  case (Cons c s)
  show ?case
  proof
    assume "contains (c # s) p"
    then consider (here) "has_prefix (c # s) p" | (later) "contains s p" by auto
    then show "\<exists>a b. c # s = a @ p @ b"
    proof cases
      case here
      then obtain t where "c # s = p @ t" unfolding has_prefix_iff by blast
      then have "c # s = [] @ p @ t" by simp
      then show ?thesis by blast
    next
      case later
      with Cons obtain a b where "s = a @ p @ b" by blast
      then have "c # s = (c # a) @ p @ b" by simp
      then show ?thesis by blast
    qed
  next
    assume "\<exists>a b. c # s = a @ p @ b"
    then obtain a b where ab: "c # s = a @ p @ b" by blast
    show "contains (c # s) p"
    proof (cases a)
      case Nil
      with ab have "has_prefix (c # s) p" by (auto simp: has_prefix_iff)
      then show ?thesis by simp
    next
      case (Cons d a')
      with ab Cons.IH show ?thesis by auto
    qed
  qed
qed

lemma contains_single [simp]: "contains s [c] \<longleftrightarrow> c \<in> set s"
  by (induction s) (auto simp: has_prefix_def)

lemma to_lower_idem [simp]: "to_lower (to_lower s) = to_lower s"
  by (simp add: to_lower_def)

lemma to_lower_Nil_iff [simp]: "to_lower s = [] \<longleftrightarrow> s = []"
  by (simp add: to_lower_def)

lemma to_lower_append [simp]: "to_lower (s @ t) = to_lower s @ to_lower t"
  by (simp add: to_lower_def)

lemma length_to_lower [simp]: "length (to_lower s) = length s"
  by (simp add: to_lower_def)

lemma trim_left_idem [simp]: "trim_left (trim_left s) = trim_left s"
  by (simp add: trim_left_def)

lemma trim_left_hd: "trim_left s = [] \<or> \<not> is_space (hd (trim_left s))"
  by (metis hd_dropWhile trim_left_def)

lemma trim_left_fix: "s = [] \<or> \<not> is_space (hd s) \<Longrightarrow> trim_left s = s"
  by (cases s) (auto simp: trim_left_def)

lemma trim_right_fix: "s = [] \<or> \<not> is_space (last s) \<Longrightarrow> trim_right s = s"
  by (cases s rule: rev_cases) (auto simp: trim_right_def)

lemma trim_right_last: "trim_right s = [] \<or> \<not> is_space (last (trim_right s))"
proof -
  have "last (rev (dropWhile is_space (rev s))) = hd (dropWhile is_space (rev s))"
    if "dropWhile is_space (rev s) \<noteq> []" using that by (simp add: last_rev)
  then show ?thesis unfolding trim_right_def by (metis hd_dropWhile rev.simps(1))
qed

lemma trim_right_prefix: "\<exists>t. s = trim_right s @ t"
proof -
  have "rev s = takeWhile is_space (rev s) @ dropWhile is_space (rev s)" by simp
  then have "s = rev (dropWhile is_space (rev s)) @ rev (takeWhile is_space (rev s))"
    by (metis rev_append rev_rev_ident)
  then show ?thesis unfolding trim_right_def by blast
qed

lemma trim_space_fix:
  "s = [] \<or> (\<not> is_space (hd s) \<and> \<not> is_space (last s)) \<Longrightarrow> trim_space s = s"
  by (auto simp: trim_space_def trim_left_fix trim_right_fix)

lemma trim_space_ends:
  "trim_space s = [] \<or> (\<not> is_space (hd (trim_space s)) \<and> \<not> is_space (last (trim_space s)))"
proof (cases "trim_space s = []")
  case False
  let ?t = "trim_left s"
  from False have ne: "trim_right ?t \<noteq> []" by (simp add: trim_space_def)
  obtain u where u: "?t = trim_right ?t @ u" using trim_right_prefix by blast
  with ne have "hd ?t = hd (trim_right ?t)" by (metis hd_append2)
  moreover have "\<not> is_space (hd ?t)" using trim_left_hd u ne by (metis append_is_Nil_conv)
  moreover have "\<not> is_space (last (trim_right ?t))" using trim_right_last ne by blast
  ultimately show ?thesis by (simp add: trim_space_def)
qed simp

lemma trim_space_idem [simp]: "trim_space (trim_space s) = trim_space s"
  by (rule trim_space_fix) (rule trim_space_ends)

lemma trim_space_to_lower: "trim_space (to_lower s) = to_lower (trim_space s)"
proof -
  have d: "dropWhile is_space (map lower_char u) = map lower_char (dropWhile is_space u)" for u
    by (induction u) auto
  have r: "rev (map lower_char u) = map lower_char (rev u)" for u
    by (simp add: rev_map)
  show ?thesis
    by (simp only: trim_space_def trim_left_def trim_right_def to_lower_def d r)
qed

lemma trim_space_Nil [simp]: "trim_space [] = []"
  by (simp add: trim_space_fix)

lemma trim_space_no_space: "(\<And>c. c \<in> set s \<Longrightarrow> \<not> is_space c) \<Longrightarrow> trim_space s = s"
  by (rule trim_space_fix) (cases "s = []"; simp)

section \<open>Splitting and joining\<close>

definition hex_digit :: "nat \<Rightarrow> char" where
  "hex_digit n = (if n < 10 then char_of (48 + n) else char_of (55 + n))"

fun split_on :: "char \<Rightarrow> string \<Rightarrow> string list" where
  "split_on c [] = [[]]"
| "split_on c (d # s) =
     (if d = c then [] # split_on c s
      else (case split_on c s of [] \<Rightarrow> [[d]] | p # ps \<Rightarrow> (d # p) # ps))"

text \<open>\<open>strings.Join\<close>.\<close>

fun join :: "string \<Rightarrow> string list \<Rightarrow> string" where
  "join sep [] = []"
| "join sep [p] = p"
| "join sep (p # q # ps) = p @ sep @ join sep (q # ps)"

text \<open>\<open>strings.Cut\<close> at a one-byte separator: the parts before and after, and whether it occurs.\<close>

fun cut :: "char \<Rightarrow> string \<Rightarrow> string \<times> string \<times> bool" where
  "cut c [] = ([], [], False)"
| "cut c (d # s) =
     (if d = c then ([], s, True)
      else (case cut c s of (a, b, f) \<Rightarrow> (d # a, b, f)))"

lemma split_on_not_Nil [simp]: "split_on c s \<noteq> []"
  by (cases s) (auto split: list.splits)

lemma split_on_no_sep: "p \<in> set (split_on c s) \<Longrightarrow> c \<notin> set p"
proof (induction s arbitrary: p)
  case Nil
  then show ?case by simp
next
  case (Cons d s)
  then show ?case by (auto split: if_splits list.splits)
qed

lemma join_split_on: "join [c] (split_on c s) = s"
proof (induction s)
  case Nil
  then show ?case by simp
next
  case (Cons d s)
  obtain p ps where ps: "split_on c s = p # ps" by (cases "split_on c s") auto
  with Cons show ?case by (cases ps) auto
qed

lemma split_on_single: "c \<notin> set p \<Longrightarrow> split_on c p = [p]"
  by (induction p) auto

lemma split_on_append: "c \<notin> set p \<Longrightarrow> split_on c (p @ c # s) = p # split_on c s"
  by (induction p) auto

lemma split_on_join:
  "ps \<noteq> [] \<Longrightarrow> (\<And>p. p \<in> set ps \<Longrightarrow> c \<notin> set p) \<Longrightarrow> split_on c (join [c] ps) = ps"
proof (induction "[c]" ps rule: join.induct)
  case 1
  then show ?case by simp
next
  case (2 p)
  then show ?case by (simp add: split_on_single)
next
  case (3 p q ps)
  then show ?case by (simp add: split_on_append)
qed

lemma cut_found: "c \<notin> set a \<Longrightarrow> cut c (a @ c # b) = (a, b, True)"
  by (induction a) auto

lemma cut_not_found: "c \<notin> set s \<Longrightarrow> cut c s = (s, [], False)"
  by (induction s) auto

lemma cut_eqD: "cut c s = (a, b, f) \<Longrightarrow> c \<notin> set a \<and> s = (if f then a @ c # b else a)"
  by (induction s arbitrary: a b f) (auto split: if_splits prod.splits)

text \<open>\<open>strings.Fields\<close>: the maximal runs of non-space bytes.\<close>

function fields :: "string \<Rightarrow> string list" where
  "fields s =
     (case trim_left s of [] \<Rightarrow> []
      | c # t \<Rightarrow> (c # takeWhile (\<lambda>d. \<not> is_space d) t) # fields (dropWhile (\<lambda>d. \<not> is_space d) t))"
  by pat_completeness auto
termination
proof (relation "measure length")
  fix s t :: string and c
  assume "trim_left s = c # t"
  then have "length (c # t) \<le> length s"
    unfolding trim_left_def by (metis length_dropWhile_le)
  moreover have "length (dropWhile (\<lambda>d. \<not> is_space d) t) \<le> length t"
    by (rule length_dropWhile_le)
  ultimately show "(dropWhile (\<lambda>d. \<not> is_space d) t, s) \<in> measure length" by simp
qed simp

declare fields.simps [simp del]

lemma fields_Nil [simp]: "fields [] = []"
  by (subst fields.simps) (simp add: trim_left_def)

lemma fields_word:
  assumes "w \<noteq> []" and "\<And>c. c \<in> set w \<Longrightarrow> \<not> is_space c"
  shows "fields (w @ s) = (if s = [] \<or> is_space (hd s) then w # fields s else fields (w @ s))"
proof -
  obtain c t where w: "w = c # t" using assms(1) by (cases w) auto
  then have nc: "\<not> is_space c" and nt: "\<And>d. d \<in> set t \<Longrightarrow> \<not> is_space d" using assms(2) by auto
  show ?thesis
  proof (cases "s = [] \<or> is_space (hd s)")
    case True
    then have dw: "dropWhile (\<lambda>d. \<not> is_space d) (t @ s) = s"
      and tw: "takeWhile (\<lambda>d. \<not> is_space d) (t @ s) = t"
      using nt by (cases s; auto)+
    have "trim_left (c # t @ s) = c # t @ s" using nc by (simp add: trim_left_def)
    then have "fields (w @ s) = (c # t) # fields s"
      by (subst fields.simps) (simp add: w dw tw)
    with True w show ?thesis by simp
  qed simp
qed

lemma fields_space: "is_space c \<Longrightarrow> fields (c # s) = fields s"
  by (subst (1 2) fields.simps) (simp add: trim_left_def)

lemma fields_join:
  "(\<And>w. w \<in> set ws \<Longrightarrow> w \<noteq> [] \<and> (\<forall>c \<in> set w. \<not> is_space c)) \<Longrightarrow> fields (join '' '' ws) = ws"
proof (induction "'' ''" ws rule: join.induct)
  case 1
  then show ?case by simp
next
  case (2 p)
  then have "fields (p @ []) = [p]" by (subst fields_word) auto
  then show ?case by simp
next
  case (3 p q ps)
  have sp: "is_space (CHR '' '')" by (simp add: is_space_def)
  have "fields (p @ '' '' @ join '' '' (q # ps)) = p # fields ('' '' @ join '' '' (q # ps))"
    using "3.prems"[of p] sp by (subst fields_word) auto
  also have "fields ('' '' @ join '' '' (q # ps)) = fields (join '' '' (q # ps))"
    by (simp add: fields_space [OF sp])
  also have "\<dots> = q # ps"
    by (rule "3.hyps") (use "3.prems" in auto)
  finally show ?case by simp
qed

text \<open>\<open>strings.ReplaceAll\<close> of a one-byte string.\<close>

definition replace_char :: "char \<Rightarrow> string \<Rightarrow> string \<Rightarrow> string" where
  "replace_char c r s = concat (map (\<lambda>d. if d = c then r else [d]) s)"

lemma replace_char_Nil [simp]: "replace_char c r [] = []"
  by (simp add: replace_char_def)

lemma replace_char_Cons [simp]:
  "replace_char c r (d # s) = (if d = c then r else [d]) @ replace_char c r s"
  by (simp add: replace_char_def)

section \<open>Decimal numbers\<close>

text \<open>\<open>strconv.ParseInt (s, 10, bits)\<close>: an optional sign, at least one digit, digits only, in range.\<close>

fun digits_val :: "nat \<Rightarrow> string \<Rightarrow> nat option" where
  "digits_val acc [] = Some acc"
| "digits_val acc (c # s) = (if is_digit c then digits_val (10 * acc + (byte c - 48)) s else None)"

definition parse_uint :: "string \<Rightarrow> nat option" where
  "parse_uint s = (if s = [] then None else digits_val 0 s)"

definition parse_int :: "nat \<Rightarrow> string \<Rightarrow> int option" where
  "parse_int bits s =
     (case s of [] \<Rightarrow> None
      | c # t \<Rightarrow>
        (if c = CHR ''-'' then
           (case parse_uint t of None \<Rightarrow> None
            | Some n \<Rightarrow> if int n \<le> 2 ^ (bits - 1) then Some (- int n) else None)
         else
           (case parse_uint (if c = CHR ''+'' then t else s) of None \<Rightarrow> None
            | Some n \<Rightarrow> if int n < 2 ^ (bits - 1) then Some (int n) else None)))"

definition parse_int64 :: "string \<Rightarrow> int option" where
  "parse_int64 = parse_int 64"

lemma parse_int64_bounds:
  "parse_int64 s = Some n \<Longrightarrow> - (2 ^ 63) \<le> n \<and> n < 2 ^ 63"
proof -
  assume a: "parse_int64 s = Some n"
  from a show ?thesis
    unfolding parse_int64_def parse_int_def
    by (fastforce split: list.splits if_splits option.splits)
qed

text \<open>\<open>strconv.Itoa\<close> on a natural number.\<close>

function itoa :: "nat \<Rightarrow> string" where
  "itoa n = (if n < 10 then [char_of (48 + n)] else itoa (n div 10) @ [char_of (48 + n mod 10)])"
  by pat_completeness auto
termination
  by (relation "measure id") auto

declare itoa.simps [simp del]

lemma digits_val_append:
  "digits_val acc (s @ t) = (case digits_val acc s of None \<Rightarrow> None | Some n \<Rightarrow> digits_val n t)"
  by (induction s arbitrary: acc) auto

lemma digits_val_itoa: "digits_val 0 (itoa n) = Some n"
proof (induction n rule: itoa.induct)
  case (1 n)
  show ?case
  proof (cases "n < 10")
    case True
    then show ?thesis by (subst itoa.simps) (simp add: is_digit_def)
  next
    case False
    have "is_digit (char_of (48 + n mod 10))" by (simp add: is_digit_def)
    moreover from False 1 have "digits_val 0 (itoa (n div 10)) = Some (n div 10)" by simp
    ultimately have "digits_val 0 (itoa (n div 10) @ [char_of (48 + n mod 10)]) = Some n"
      by (simp add: digits_val_append)
    with False show ?thesis by (subst itoa.simps) simp
  qed
qed

lemma itoa_not_Nil [simp]: "itoa n \<noteq> []"
  by (subst itoa.simps) simp

lemma parse_uint_itoa: "parse_uint (itoa n) = Some n"
  by (simp add: parse_uint_def digits_val_itoa)

section \<open>Addresses\<close>

text \<open>
  \<open>net.SplitHostPort\<close> on an address without brackets: exactly one colon. A bracketed host must
  be followed by a colon and the port.
\<close>

definition split_host_port :: "string \<Rightarrow> (string \<times> string) option" where
  "split_host_port s =
     (case s of
        [] \<Rightarrow> None
      | c # t \<Rightarrow>
        if c = CHR ''['' then
          (case cut (CHR '']'') t of (h, r, f) \<Rightarrow>
            if \<not> f then None
            else (case r of [] \<Rightarrow> None
                  | d # p \<Rightarrow> if d = CHR '':'' \<and> CHR '':'' \<notin> set p \<and> CHR ''['' \<notin> set h \<and> CHR ''['' \<notin> set p \<and> CHR '']'' \<notin> set p
                             then Some (h, p) else None))
        else
          (case cut (CHR '':'') s of (h, p, f) \<Rightarrow>
            if f \<and> CHR '':'' \<notin> set p \<and> CHR ''['' \<notin> set s \<and> CHR '']'' \<notin> set s then Some (h, p) else None))"

text \<open>\<open>hex.EncodeToString\<close>, and \<open>%x\<close> on bytes.\<close>

definition hex_lower :: "nat \<Rightarrow> char" where
  "hex_lower n = (if n < 10 then char_of (48 + n) else char_of (87 + n))"

fun hex_encode :: "string \<Rightarrow> string" where
  "hex_encode [] = []"
| "hex_encode (c # s) = hex_lower (byte c div 16) # hex_lower (byte c mod 16) # hex_encode s"

lemma hex_encode_Nil [simp]: "hex_encode s = [] \<longleftrightarrow> s = []"
  by (cases s) auto

lemmas [go_str] =
  has_prefix_def has_suffix_def trim_prefix_def trim_suffix_def
  to_lower_def lower_char_def is_upper_def is_digit_def byte_def

end
