(* ===== verification/Status.thy ===== *)
theory Status
  imports Go_Strings
begin

text \<open>
  \<open>internal/status/status.go\<close>: the lifecycle state of a node, the table of allowed transitions,
  the snapshot and its publication to watchers. The mutex makes every operation one atomic step,
  except \<open>Watch\<close>, which registers the channel under the lock and primes it after releasing it.
\<close>

section \<open>States and transitions\<close>

datatype state =
  StateStarting | StateIndexing | StateConnecting | StateOnline
| StatePaused | StateOffline | StateError | StateShuttingDown

text \<open>The Go type is an \<open>int\<close> numbered by \<open>iota\<close>; the order of the states is that of the numbers.\<close>

fun state_index :: "state \<Rightarrow> nat" where
  "state_index StateStarting = 0"
| "state_index StateIndexing = 1"
| "state_index StateConnecting = 2"
| "state_index StateOnline = 3"
| "state_index StatePaused = 4"
| "state_index StateOffline = 5"
| "state_index StateError = 6"
| "state_index StateShuttingDown = 7"

lemma state_index_inject [simp]: "state_index s = state_index t \<longleftrightarrow> s = t"
  by (cases s; cases t) auto

instantiation state :: linorder
begin

definition less_eq_state :: "state \<Rightarrow> state \<Rightarrow> bool" where
  "less_eq_state s t \<longleftrightarrow> state_index s \<le> state_index t"

definition less_state :: "state \<Rightarrow> state \<Rightarrow> bool" where
  "less_state s t \<longleftrightarrow> state_index s < state_index t"

instance
  by standard (auto simp: less_eq_state_def less_state_def)

end

fun state_string :: "state \<Rightarrow> string" where
  "state_string StateStarting = ''starting''"
| "state_string StateIndexing = ''indexing''"
| "state_string StateConnecting = ''connecting''"
| "state_string StateOnline = ''online''"
| "state_string StatePaused = ''paused''"
| "state_string StateOffline = ''offline''"
| "state_string StateError = ''error''"
| "state_string StateShuttingDown = ''shutting_down''"

fun state_label :: "state \<Rightarrow> string" where
  "state_label StateStarting = ''Starting''"
| "state_label StateIndexing = ''Indexing''"
| "state_label StateConnecting = ''Connecting''"
| "state_label StateOnline = ''Online''"
| "state_label StatePaused = ''Paused''"
| "state_label StateOffline = ''Offline''"
| "state_label StateError = ''Error''"
| "state_label StateShuttingDown = ''Shutting down''"

fun allowed :: "state \<Rightarrow> state list" where
  "allowed StateStarting =
     [StateIndexing, StateConnecting, StateOnline, StateOffline, StatePaused, StateError, StateShuttingDown]"
| "allowed StateIndexing =
     [StateIndexing, StateConnecting, StateOnline, StateOffline, StatePaused, StateError, StateShuttingDown]"
| "allowed StateConnecting =
     [StateConnecting, StateOnline, StateOffline, StatePaused, StateError, StateShuttingDown]"
| "allowed StateOnline =
     [StateIndexing, StateConnecting, StatePaused, StateOffline, StateError, StateShuttingDown]"
| "allowed StatePaused =
     [StateOnline, StateOffline, StateIndexing, StateConnecting, StateError, StateShuttingDown]"
| "allowed StateOffline =
     [StateConnecting, StateOnline, StateIndexing, StatePaused, StateError, StateShuttingDown]"
| "allowed StateError = [StateStarting, StateOffline, StateShuttingDown]"
| "allowed StateShuttingDown = []"

definition can_transition :: "state \<Rightarrow> state \<Rightarrow> bool" where
  "can_transition frm to \<longleftrightarrow> frm = to \<or> to \<in> set (allowed frm)"

lemma state_string_inject: "state_string s = state_string t \<longleftrightarrow> s = t"
  by (cases s; cases t) auto

lemma can_transition_shutting_down [simp]:
  "can_transition StateShuttingDown t \<longleftrightarrow> t = StateShuttingDown"
  by (auto simp: can_transition_def)

lemma can_transition_to_shutting_down [simp]: "can_transition s StateShuttingDown"
  by (cases s) (auto simp: can_transition_def)

lemma can_transition_to_error [simp]: "can_transition s StateError \<longleftrightarrow> s \<noteq> StateShuttingDown"
  by (cases s) (auto simp: can_transition_def)

section \<open>The snapshot\<close>

record snapshot =
  snap_state :: state
  identity :: string
  node_id :: string
  share_directory :: string
  indexed_files :: int
  total_bytes :: int
  gateway_connected :: bool
  activitypub_active :: bool
  pending_federation_jobs :: int
  active_downloads :: int
  indexing_done :: int
  indexing_total :: int
  last_federation_success :: time
  last_federation_error :: string
  message :: string
  error_text :: string

text \<open>
  A channel of capacity one is its buffered value. \<open>listeners\<close> maps an id to the buffer of its
  channel.
\<close>

record service =
  snap :: snapshot
  listeners :: "nat \<rightharpoonup> snapshot option"
  next_id :: nat

definition zero_snapshot :: snapshot where
  "zero_snapshot = \<lparr>snap_state = StateStarting, identity = [], node_id = [], share_directory = [],
     indexed_files = 0, total_bytes = 0, gateway_connected = False, activitypub_active = False,
     pending_federation_jobs = 0, active_downloads = 0, indexing_done = 0, indexing_total = 0,
     last_federation_success = 0, last_federation_error = [], message = [], error_text = []\<rparr>"

definition new_service :: service where
  "new_service = \<lparr>snap = zero_snapshot\<lparr>snap_state := StateStarting, message := ''Starting''\<rparr>,
     listeners = Map.empty, next_id = 0\<rparr>"

section \<open>Publication\<close>

text \<open>A send with a \<open>default\<close> branch: it fills an empty buffer and is dropped by a full one.\<close>

definition try_send :: "snapshot \<Rightarrow> snapshot option \<Rightarrow> snapshot option" where
  "try_send v b = (case b of None \<Rightarrow> Some v | Some w \<Rightarrow> Some w)"

definition broadcast :: "snapshot \<Rightarrow> (nat \<rightharpoonup> snapshot option) \<Rightarrow> (nat \<rightharpoonup> snapshot option)" where
  "broadcast v ls = (\<lambda>i. map_option (try_send v) (ls i))"

type_synonym status_error = string

definition update :: "(snapshot \<Rightarrow> status_error + snapshot) \<Rightarrow> service \<Rightarrow> status_error option \<times> service" where
  "update fn s =
     (case fn (snap s) of
        Inl e \<Rightarrow> (Some e, s)
      | Inr v \<Rightarrow> (None, s\<lparr>snap := v, listeners := broadcast v (listeners s)\<rparr>))"

definition set_state :: "state \<Rightarrow> service \<Rightarrow> status_error option \<times> service" where
  "set_state nxt =
     update (\<lambda>v.
       if snap_state v = nxt then Inr v
       else if \<not> can_transition (snap_state v) nxt then
         Inl (''invalid status transition '' @ state_string (snap_state v) @ '' -> '' @ state_string nxt)
       else if nxt \<noteq> StateError then Inr (v\<lparr>snap_state := nxt, error_text := []\<rparr>)
       else Inr (v\<lparr>snap_state := nxt\<rparr>))"

definition set_error :: "string \<Rightarrow> service \<Rightarrow> status_error option \<times> service" where
  "set_error msg =
     update (\<lambda>v.
       if \<not> can_transition (snap_state v) StateError \<and> snap_state v \<noteq> StateError then
         Inl (''invalid status transition '' @ state_string (snap_state v) @ '' -> error'')
       else Inr (v\<lparr>snap_state := StateError, error_text := msg, message := msg\<rparr>))"

text \<open>
  \<open>Watch\<close> in its two atomic parts, a receive by the watcher, and the unsubscribe function (the
  \<open>sync.Once\<close> makes its second call a no-op, as removing an absent id is).
\<close>

definition watch_register :: "service \<Rightarrow> (nat \<times> snapshot) \<times> service" where
  "watch_register s =
     (let i = Suc (next_id s)
      in ((i, snap s), s\<lparr>next_id := i, listeners := (listeners s)(i \<mapsto> None)\<rparr>))"

definition watch_prime :: "nat \<Rightarrow> snapshot \<Rightarrow> service \<Rightarrow> service" where
  "watch_prime i cur s =
     (case listeners s i of None \<Rightarrow> s
      | Some b \<Rightarrow> s\<lparr>listeners := (listeners s)(i \<mapsto> try_send cur b)\<rparr>)"

definition receive :: "nat \<Rightarrow> service \<Rightarrow> snapshot option \<times> service" where
  "receive i s =
     (case listeners s i of None \<Rightarrow> (None, s)
      | Some b \<Rightarrow> (b, s\<lparr>listeners := (listeners s)(i \<mapsto> None)\<rparr>))"

definition unsubscribe :: "nat \<Rightarrow> service \<Rightarrow> service" where
  "unsubscribe i s = s\<lparr>listeners := (listeners s)(i := None)\<rparr>"

section \<open>The operations the repository performs\<close>

text \<open>
  Besides \<open>SetState\<close> and \<open>SetError\<close>, every call of \<open>Update\<close> in the repository writes fields
  other than the state; they are collected here (\<open>indexer.setProgress\<close>, \<open>indexer.PublishSummary\<close>,
  the worker's status hook, \<open>Node.refreshLocked\<close>, \<open>Node.Shutdown\<close>, \<open>NewHost\<close>).
\<close>

datatype field_update =
  Progress int int                 \<comment> \<open>total, done\<close>
| Summary_Counts int int           \<comment> \<open>files, bytes\<close>
| Federation_Status int string     \<comment> \<open>pending, last error\<close>
| Downloads int
| Pending_Jobs int
| Refresh string string string int int bool bool string
| Message string
| Shutdown_Fields

fun apply_field :: "field_update \<Rightarrow> snapshot \<Rightarrow> snapshot" where
  "apply_field (Progress t d) v = v\<lparr>indexing_total := t, indexing_done := d\<rparr>"
| "apply_field (Summary_Counts f b) v =
     v\<lparr>indexed_files := f, total_bytes := b, indexing_done := f, indexing_total := f\<rparr>"
| "apply_field (Federation_Status p e) v =
     (let w = v\<lparr>pending_federation_jobs := p\<rparr> in if e \<noteq> [] then w\<lparr>last_federation_error := e\<rparr> else w)"
| "apply_field (Downloads n) v = v\<lparr>active_downloads := n\<rparr>"
| "apply_field (Pending_Jobs n) v = v\<lparr>pending_federation_jobs := n\<rparr>"
| "apply_field (Refresh nid idn dir f b ap gw msg) v =
     v\<lparr>node_id := nid, identity := idn, share_directory := dir, indexed_files := f, total_bytes := b,
       activitypub_active := ap, gateway_connected := gw, message := msg\<rparr>"
| "apply_field (Message msg) v = v\<lparr>message := msg\<rparr>"
| "apply_field Shutdown_Fields v =
     v\<lparr>message := ''Shutting down'', gateway_connected := False, activitypub_active := False\<rparr>"

datatype status_op =
  Set_State state
| Set_Error string
| Fields field_update

fun status_step :: "service \<Rightarrow> status_op \<Rightarrow> service" where
  "status_step s (Set_State t) = snd (set_state t s)"
| "status_step s (Set_Error m) = snd (set_error m s)"
| "status_step s (Fields u) = snd (update (\<lambda>v. Inr (apply_field u v)) s)"

lemma apply_field_state [simp]: "snap_state (apply_field u v) = snap_state v"
  by (cases u) (auto simp: Let_def)

lemma apply_field_error [simp]: "error_text (apply_field u v) = error_text v"
  by (cases u) (auto simp: Let_def)

lemma snap_update: "snap (snd (update fn s)) = (case fn (snap s) of Inl _ \<Rightarrow> snap s | Inr v \<Rightarrow> v)"
  by (simp add: update_def split: sum.splits)

lemma snap_set_state:
  "snap (snd (set_state t s)) =
     (let v = snap s in
      if snap_state v = t \<or> \<not> can_transition (snap_state v) t then v
      else if t = StateError then v\<lparr>snap_state := t\<rparr>
      else v\<lparr>snap_state := t, error_text := []\<rparr>)"
  by (auto simp: set_state_def snap_update Let_def)

lemma snap_set_error:
  "snap (snd (set_error m s)) =
     (let v = snap s in
      if snap_state v = StateShuttingDown then v
      else v\<lparr>snap_state := StateError, error_text := m, message := m\<rparr>)"
  by (auto simp: set_error_def snap_update Let_def)

lemma snap_fields: "snap (snd (update (\<lambda>v. Inr (apply_field u v)) s)) = apply_field u (snap s)"
  by (simp add: snap_update)

lemmas snap_step = snap_set_state snap_set_error snap_fields

section \<open>Invariants of every run\<close>

definition error_only_in_error :: "service \<Rightarrow> bool" where
  "error_only_in_error s \<longleftrightarrow> error_text (snap s) \<noteq> [] \<longrightarrow> snap_state (snap s) = StateError"

interpretation errors: machine status_step error_only_in_error
  by unfold_locales
    (case_tac e; auto simp: error_only_in_error_def snap_step Let_def)

interpretation shutdown: machine status_step "\<lambda>s. snap_state (snap s) = StateShuttingDown"
  by unfold_locales (case_tac e; auto simp: snap_step Let_def)

text \<open>A step that changes the state is a transition of the table.\<close>

lemma status_step_allowed:
  "snap_state (snap (status_step s e)) \<noteq> snap_state (snap s) \<Longrightarrow>
    snap_state (snap (status_step s e)) \<in> set (allowed (snap_state (snap s)))"
  by (cases e; cases "snap_state (snap s)") (auto simp: snap_step Let_def can_transition_def split: if_splits)

text \<open>
  Once a node is shutting down, no sequence of status operations of the repository (state
  changes, errors, field updates) makes it leave that state.
\<close>
theorem shutting_down_final:
  assumes "snap_state (snap s) = StateShuttingDown"
  shows "snap_state (snap (run status_step s ops)) = StateShuttingDown"
  using assms by (rule shutdown.run_invar)

theorem shutting_down_final_witness:
  "snap_state (snap (run status_step (snd (set_state StateShuttingDown new_service))
      [Set_State StateOnline, Set_Error ''x'', Fields (Downloads 1)])) = StateShuttingDown"
  by (rule shutting_down_final)
    (simp add: snap_set_state new_service_def zero_snapshot_def Let_def)

text \<open>
  From a new service, whatever the operations, a user-visible error text is present only in
  the error state: every successful move to another state clears it.
\<close>
theorem error_text_only_in_error_state:
  "error_text (snap (run status_step new_service ops)) = []
   \<or> snap_state (snap (run status_step new_service ops)) = StateError"
proof -
  have "error_only_in_error new_service"
    by (simp add: error_only_in_error_def new_service_def zero_snapshot_def)
  then have "error_only_in_error (run status_step new_service ops)"
    by (rule errors.run_invar)
  then show ?thesis by (auto simp: error_only_in_error_def)
qed

section \<open>What a watcher sees\<close>

lemma listeners_update:
  "listeners (snd (update fn s)) i =
     (case fn (snap s) of Inl _ \<Rightarrow> listeners s i
      | Inr v \<Rightarrow> map_option (try_send v) (listeners s i))"
  by (simp add: update_def broadcast_def split: sum.splits)

lemma try_send_Some [simp]: "try_send v (Some w) = Some w"
  by (simp add: try_send_def)

lemma try_send_None [simp]: "try_send v None = Some v"
  by (simp add: try_send_def)

lemma status_step_full_buffer:
  "listeners s i = Some (Some w) \<Longrightarrow> listeners (status_step s e) i = Some (Some w)"
  by (cases e) (auto simp: set_state_def set_error_def listeners_update split: sum.splits)

lemma run_full_buffer:
  "listeners s i = Some (Some w) \<Longrightarrow> listeners (run status_step s ops) i = Some (Some w)"
  by (induction ops arbitrary: s) (auto simp: status_step_full_buffer)

text \<open>
  Between two receives a watcher keeps the snapshot that is already in its channel: after
  \<open>Watch\<close> and any number of published changes, the first receive returns the snapshot of the
  moment of registration, whatever the service holds by then. Only once the channel is drained is
  the next update delivered.
\<close>
theorem watcher_keeps_stale_snapshot:
  "(case watch_register s of ((i, cur), s1) \<Rightarrow>
     case receive i (run status_step (watch_prime i cur s1) ops) of (seen, s2) \<Rightarrow>
       seen = Some (snap s) \<and>
       (let s3 = status_step s2 (Fields u) in fst (receive i s3) = Some (snap s3)))"
proof -
  let ?i = "Suc (next_id s)"
  let ?s1 = "s\<lparr>next_id := ?i, listeners := (listeners s)(?i \<mapsto> None)\<rparr>"
  let ?r = "run status_step (watch_prime ?i (snap s) ?s1) ops"
  have "listeners (watch_prime ?i (snap s) ?s1) ?i = Some (Some (snap s))"
    by (simp add: watch_prime_def)
  then have full: "listeners ?r ?i = Some (Some (snap s))" by (rule run_full_buffer)
  then have drained: "listeners (snd (receive ?i ?r)) ?i = Some None"
    by (simp add: receive_def)
  have "listeners (status_step (snd (receive ?i ?r)) (Fields u)) ?i =
      Some (Some (snap (status_step (snd (receive ?i ?r)) (Fields u))))"
    by (simp add: listeners_update snap_update drained)
  with full show ?thesis
    by (simp add: watch_register_def Let_def receive_def split: prod.splits)
qed

end
