(* ===== verification/Limiter.thy ===== *)
theory Limiter
  imports Go_Strings "HOL-Library.Word" "HOL-Library.Signed_Division"
begin

text \<open>
  \<open>internal/files/limiter.go\<close>: admission of downloads (a global and a per-client count) and the
  paced reader that holds a download to a bandwidth.
\<close>

section \<open>Admission\<close>

record limits =
  max_concurrent :: int
  per_client :: int
  bandwidth_bps :: int

record limiter =
  lims :: limits
  active :: int
  per_host :: "string \<rightharpoonup> int"

definition new_limiter :: "limits \<Rightarrow> limiter" where
  "new_limiter l =
     \<lparr>lims = l\<lparr>max_concurrent := (if max_concurrent l \<le> 0 then 8 else max_concurrent l),
               per_client := (if per_client l \<le> 0 then 4 else per_client l)\<rparr>,
      active = 0, per_host = Map.empty\<rparr>"

definition client_host :: "string \<Rightarrow> string" where
  "client_host remote_addr =
     (case split_host_port remote_addr of None \<Rightarrow> remote_addr | Some (h, _) \<Rightarrow> h)"

text \<open>Reading an absent key of a Go map gives 0.\<close>

definition host_count :: "limiter \<Rightarrow> string \<Rightarrow> int" where
  "host_count l h = (case per_host l h of None \<Rightarrow> 0 | Some n \<Rightarrow> n)"

datatype limit_error = Too_Many | Too_Many_From_Client

definition acquire :: "string \<Rightarrow> limiter \<Rightarrow> limit_error + (string \<times> limiter)" where
  "acquire remote_addr l =
     (let h = client_host remote_addr in
      if active l \<ge> max_concurrent (lims l) then Inl Too_Many
      else if host_count l h \<ge> per_client (lims l) then Inl Too_Many_From_Client
      else Inr (h, l\<lparr>active := active l + 1, per_host := (per_host l)(h \<mapsto> host_count l h + 1)\<rparr>))"

text \<open>The closure \<open>Acquire\<close> returns, for the host it captured.\<close>

definition release :: "string \<Rightarrow> limiter \<Rightarrow> limiter" where
  "release h l =
     (let n = host_count l h - 1
      in l\<lparr>active := active l - 1,
           per_host := (if n \<le> 0 then (per_host l)(h := None) else (per_host l)(h \<mapsto> n))\<rparr>)"

text \<open>\<open>Node.UpdateSettings\<close> writes two of the limits of the running limiter.\<close>

definition set_limits :: "int \<Rightarrow> int \<Rightarrow> limiter \<Rightarrow> limiter" where
  "set_limits m bw l = l\<lparr>lims := (lims l)\<lparr>max_concurrent := m, bandwidth_bps := bw\<rparr>\<rparr>"

section \<open>Downloads in progress\<close>

text \<open>
  The limiter with the hosts of the downloads that hold a slot: a download acquires once, and its
  deferred call releases once.
\<close>

record pool =
  pool_limiter :: limiter
  holders :: "string list"

datatype pool_event =
  Arrive string      \<comment> \<open>a request from this remote address\<close>
| Finish nat         \<comment> \<open>the holder at this position returns\<close>
| Change_Limits int int

fun remove_at :: "nat \<Rightarrow> 'a list \<Rightarrow> 'a list" where
  "remove_at _ [] = []"
| "remove_at 0 (x # xs) = xs"
| "remove_at (Suc n) (x # xs) = x # remove_at n xs"

fun pool_step :: "pool \<Rightarrow> pool_event \<Rightarrow> pool" where
  "pool_step p (Arrive a) =
     (case acquire a (pool_limiter p) of
        Inl _ \<Rightarrow> p
      | Inr (h, l) \<Rightarrow> \<lparr>pool_limiter = l, holders = h # holders p\<rparr>)"
| "pool_step p (Finish k) =
     (if k < length (holders p)
      then \<lparr>pool_limiter = release (holders p ! k) (pool_limiter p), holders = remove_at k (holders p)\<rparr>
      else p)"
| "pool_step p (Change_Limits m bw) = p\<lparr>pool_limiter := set_limits m bw (pool_limiter p)\<rparr>"

definition empty_pool :: "limits \<Rightarrow> pool" where
  "empty_pool l = \<lparr>pool_limiter = new_limiter l, holders = []\<rparr>"

lemma length_remove_at: "k < length xs \<Longrightarrow> length (remove_at k xs) = length xs - 1"
proof (induction k xs rule: remove_at.induct)
  case (3 n x xs)
  then show ?case by (cases xs) auto
qed auto

lemma count_list_remove_at:
  "k < length xs \<Longrightarrow>
    count_list (remove_at k xs) y = count_list xs y - (if xs ! k = y then 1 else 0)"
proof (induction k xs rule: remove_at.induct)
  case (3 n x xs)
  then have "xs ! n \<in> set xs" by simp
  then have "0 < count_list xs (xs ! n)" by (simp add: count_list_0_iff neq0_conv [symmetric] del: neq0_conv)
  with 3 show ?case by auto
qed auto

text \<open>
  The accounting invariant: the counters are the multiset of the hosts that hold a slot, and a
  host without downloads has no entry in the map.
\<close>

definition accounts :: "pool \<Rightarrow> bool" where
  "accounts p \<longleftrightarrow>
     active (pool_limiter p) = int (length (holders p)) \<and>
     (\<forall>h. per_host (pool_limiter p) h =
        (if h \<in> set (holders p) then Some (int (count_list (holders p) h)) else None))"

lemma accounts_host_count:
  "accounts p \<Longrightarrow> host_count (pool_limiter p) h = int (count_list (holders p) h)"
  by (auto simp: accounts_def host_count_def count_list_0_iff)

lemma accounts_arrive: "accounts p \<Longrightarrow> accounts (pool_step p (Arrive a))"
proof -
  assume a: "accounts p"
  note hc = accounts_host_count [OF a]
  show ?thesis
    using a hc by (auto simp: accounts_def acquire_def Let_def split: sum.splits if_splits)
qed

lemma accounts_finish: "accounts p \<Longrightarrow> accounts (pool_step p (Finish k))"
proof (cases "k < length (holders p)")
  case True
  assume a: "accounts p"
  let ?hs = "holders p" and ?h = "holders p ! k"
  have hc: "host_count (pool_limiter p) ?h = int (count_list ?hs ?h)"
    using a by (rule accounts_host_count)
  have mem: "?h \<in> set ?hs" using True by simp
  have pos: "0 < count_list ?hs ?h" using mem by (metis count_list_0_iff gr0I)
  have cnt: "count_list (remove_at k ?hs) y = count_list ?hs y - (if ?h = y then 1 else 0)" for y
    using True by (rule count_list_remove_at)
  have set: "y \<in> set (remove_at k ?hs) \<longleftrightarrow> 0 < count_list (remove_at k ?hs) y" for y
    by (metis count_list_0_iff gr0I less_numeral_extra(3))
  have set': "y \<in> set ?hs \<longleftrightarrow> 0 < count_list ?hs y" for y
    by (metis count_list_0_iff gr0I less_numeral_extra(3))
  show ?thesis
    using a True pos
    by (auto simp: accounts_def release_def Let_def hc length_remove_at set set' cnt)
next
  case False
  then show "accounts p \<Longrightarrow> accounts (pool_step p (Finish k))" by simp
qed

lemma accounts_limits: "accounts p \<Longrightarrow> accounts (pool_step p (Change_Limits m bw))"
  by (simp add: accounts_def set_limits_def)

interpretation pool: machine pool_step accounts
  by unfold_locales (case_tac e; simp only: accounts_arrive accounts_finish accounts_limits)

lemma accounts_empty: "accounts (empty_pool l)"
  by (simp add: accounts_def empty_pool_def new_limiter_def)

text \<open>
  The contract of an admission control, as the download handler relies on it: a granted slot is
  counted, returning it restores the counters, and a refusal changes nothing (it is a value of
  the error type). The law about returning is stated for well-formed limiters.
\<close>

locale slot_pool =
  fixes take_slot :: "'addr \<Rightarrow> 'l \<Rightarrow> 'e + ('ticket \<times> 'l)"
    and give_slot :: "'ticket \<Rightarrow> 'l \<Rightarrow> 'l"
    and in_use :: "'l \<Rightarrow> int"
    and well_formed :: "'l \<Rightarrow> bool"
  assumes take_in_use: "take_slot a l = Inr (t, l') \<Longrightarrow> in_use l' = in_use l + 1"
    and give_take: "well_formed l \<Longrightarrow> take_slot a l = Inr (t, l') \<Longrightarrow> give_slot t l' = l"
begin

text \<open>A handler that takes a slot, works without touching the pool and gives it back.\<close>

definition with_slot :: "'addr \<Rightarrow> ('e \<Rightarrow> 'r) \<Rightarrow> 'r \<Rightarrow> 'l \<Rightarrow> 'r \<times> 'l" where
  "with_slot a refuse work l =
     (case take_slot a l of Inl e \<Rightarrow> (refuse e, l) | Inr (t, l') \<Rightarrow> (work, give_slot t l'))"

lemma with_slot_restores: "well_formed l \<Longrightarrow> snd (with_slot a refuse work l) = l"
  by (auto simp: with_slot_def give_take split: sum.splits)

lemma with_slot_result:
  "fst (with_slot a refuse work l) = (case take_slot a l of Inl e \<Rightarrow> refuse e | Inr _ \<Rightarrow> work)"
  by (auto simp: with_slot_def split: sum.splits)

end

definition limiter_ok :: "limiter \<Rightarrow> bool" where
  "limiter_ok l \<longleftrightarrow> (\<forall>h n. per_host l h = Some n \<longrightarrow> 0 < n)"

lemma accounts_limiter_ok: "accounts p \<Longrightarrow> limiter_ok (pool_limiter p)"
  unfolding accounts_def limiter_ok_def
  by (auto split: if_splits) (metis count_list_0_iff gr0I)

lemma release_acquire:
  "limiter_ok l \<Longrightarrow> acquire a l = Inr (h, l') \<Longrightarrow> release h l' = l"
proof -
  assume ok: "limiter_ok l" and acq: "acquire a l = Inr (h, l')"
  then have l': "l' = l\<lparr>active := active l + 1, per_host := (per_host l)(h \<mapsto> host_count l h + 1)\<rparr>"
    by (auto simp: acquire_def Let_def split: if_splits)
  show ?thesis
  proof (cases "per_host l h")
    case None
    then show ?thesis by (auto simp: l' release_def host_count_def Let_def fun_eq_iff)
  next
    case (Some n)
    with ok have "0 < n" by (auto simp: limiter_ok_def)
    with Some show ?thesis by (auto simp: l' release_def host_count_def Let_def fun_eq_iff)
  qed
qed

interpretation slots: slot_pool acquire release active limiter_ok
  by unfold_locales
    (auto simp: release_acquire acquire_def Let_def split: if_splits)

text \<open>
  C23. For every sequence of requests, completions and changes of the limits, the limiter's
  counters are exactly the downloads in progress: the total, the number per client, and no entry
  for a client without one.
\<close>
theorem limiter_counts_downloads:
  "(let p = run pool_step (empty_pool l) es in
      active (pool_limiter p) = int (length (holders p)) \<and>
      (\<forall>h. host_count (pool_limiter p) h = int (count_list (holders p) h)) \<and>
      dom (per_host (pool_limiter p)) = set (holders p))"
proof -
  have "accounts (run pool_step (empty_pool l) es)"
    by (rule pool.run_invar) (rule accounts_empty)
  then show ?thesis
    by (auto simp: Let_def accounts_host_count accounts_def dom_def split: if_splits)
qed

fun changes_limits :: "pool_event \<Rightarrow> bool" where
  "changes_limits (Change_Limits _ _) = True"
| "changes_limits _ = False"

definition within_limits :: "pool \<Rightarrow> bool" where
  "within_limits p \<longleftrightarrow>
     int (length (holders p)) \<le> max_concurrent (lims (pool_limiter p)) \<and>
     (\<forall>h. int (count_list (holders p) h) \<le> per_client (lims (pool_limiter p)))"

lemma lims_step: "\<not> changes_limits e \<Longrightarrow> lims (pool_limiter (pool_step p e)) = lims (pool_limiter p)"
  by (cases e) (auto simp: acquire_def release_def Let_def split: sum.splits if_splits)

lemma within_limits_step:
  assumes "accounts p" "within_limits p" "\<not> changes_limits e"
  shows "within_limits (pool_step p e)"
proof (cases e)
  case (Arrive a)
  note hc = accounts_host_count [OF assms(1)]
  have act: "active (pool_limiter p) = int (length (holders p))"
    using assms(1) by (simp add: accounts_def)
  show ?thesis
    using assms(2) by (auto simp: Arrive within_limits_def acquire_def Let_def hc act split: sum.splits if_splits)
next
  case (Finish k)
  show ?thesis
  proof (cases "k < length (holders p)")
    case True
    have len: "length (remove_at k (holders p)) \<le> length (holders p)"
      using True by (simp add: length_remove_at)
    have cnt: "count_list (remove_at k (holders p)) h \<le> count_list (holders p) h" for h
      using True by (simp add: count_list_remove_at)
    have "lims (release h l) = lims l" for h l by (simp add: release_def Let_def)
    with True have eq: "pool_step p e =
        \<lparr>pool_limiter = release (holders p ! k) (pool_limiter p), holders = remove_at k (holders p)\<rparr>"
      and l: "lims (pool_limiter (pool_step p e)) = lims (pool_limiter p)"
      by (simp_all add: Finish)
    show ?thesis
      unfolding within_limits_def l
    proof (intro conjI allI)
      show "int (length (holders (pool_step p e))) \<le> max_concurrent (lims (pool_limiter p))"
        using assms(2) len by (simp add: within_limits_def eq)
      fix h
      have "int (count_list (holders p) h) \<le> per_client (lims (pool_limiter p))"
        using assms(2) by (simp add: within_limits_def)
      with cnt [of h] show "int (count_list (holders (pool_step p e)) h) \<le> per_client (lims (pool_limiter p))"
        by (simp add: eq)
    qed
  next
    case False
    with assms(2) Finish show ?thesis by simp
  qed
next
  case (Change_Limits m bw)
  with assms(3) show ?thesis by simp
qed

text \<open>
  C24. As long as the settings are not changed, never more than \<open>MaxConcurrent\<close> downloads hold a
  slot, and never more than \<open>PerClient\<close> of them belong to one client (with the defaults 8 and 4
  where the configured values are not positive).
\<close>
theorem limiter_bounds:
  assumes "list_all (\<lambda>e. \<not> changes_limits e) es"
  shows "(let p = run pool_step (empty_pool l) es; m = lims (new_limiter l) in
      int (length (holders p)) \<le> max_concurrent m \<and>
      (\<forall>h. int (count_list (holders p) h) \<le> per_client m))"
proof -
  have gen: "accounts (run pool_step p es) \<and> within_limits (run pool_step p es) \<and>
      lims (pool_limiter (run pool_step p es)) = lims (pool_limiter p)"
    if "accounts p" "within_limits p" for p
    using assms that
  proof (induction es arbitrary: p)
    case (Cons e es)
    then have e: "\<not> changes_limits e" and es: "list_all (\<lambda>e. \<not> changes_limits e) es" by auto
    from Cons.IH [OF es pool.step_invar within_limits_step] Cons.prems e
    show ?case by (simp add: lims_step)
  qed simp
  have "within_limits (empty_pool l)"
    by (simp add: within_limits_def empty_pool_def new_limiter_def)
  with gen [OF accounts_empty] have "within_limits (run pool_step (empty_pool l) es)"
    and "lims (pool_limiter (run pool_step (empty_pool l) es)) = lims (pool_limiter (empty_pool l))"
    by blast+
  then show ?thesis by (simp add: Let_def within_limits_def empty_pool_def)
qed

theorem limiter_bounds_witness:
  "(let p = run pool_step (empty_pool \<lparr>max_concurrent = 1, per_client = 0, bandwidth_bps = 0\<rparr>)
              [Arrive ''10.0.0.1:5'', Arrive ''10.0.0.2:6'', Finish 0, Arrive ''10.0.0.1:7''];
        m = lims (new_limiter \<lparr>max_concurrent = 1, per_client = 0, bandwidth_bps = 0\<rparr>) in
      int (length (holders p)) \<le> max_concurrent m \<and>
      (\<forall>h. int (count_list (holders p) h) \<le> per_client m))"
  by (rule limiter_bounds) simp

section \<open>The paced reader\<close>

text \<open>
  \<open>pacedReader\<close> counts the bytes it has passed on in an \<open>int64\<close> and sleeps until the time these
  bytes should have taken. \<open>time.Duration\<close> is an \<open>int64\<close> of nanoseconds: the product
  \<open>time.Duration(p.got) * time.Second\<close> wraps, and the division truncates towards zero.
\<close>

type_synonym int64 = "64 word"

record paced_reader =
  pr_bps :: int64
  pr_got :: int64
  pr_start :: time

definition second64 :: int64 where
  "second64 = 1000000000"

definition div64 :: "int64 \<Rightarrow> int64 \<Rightarrow> int64" where
  "div64 a b = word_of_int (sint a sdiv sint b)"

definition want :: "int64 \<Rightarrow> int64 \<Rightarrow> int64" where
  "want bps got = div64 (got * second64) bps"

text \<open>
  One \<open>Read\<close>: the inner reader returned \<open>n\<close> bytes at clock \<open>t\<close>. The result is the new reader
  and the clock after the sleep (\<open>time.Since\<close> is exact, a sleep of a non-positive duration returns
  at once).
\<close>

definition paced_read :: "nat \<Rightarrow> time \<Rightarrow> paced_reader \<Rightarrow> paced_reader \<times> time" where
  "paced_read n t p =
     (let g = pr_got p + word_of_nat n; d = sint (want (pr_bps p) g) - (t - pr_start p)
      in (p\<lparr>pr_got := g\<rparr>, if d > 0 then t + d else t))"

text \<open>
  A download: each chunk is the number of bytes and the time the inner read took.
\<close>

fun paced_copy :: "(nat \<times> nat) list \<Rightarrow> time \<Rightarrow> paced_reader \<Rightarrow> paced_reader \<times> time" where
  "paced_copy [] t p = (p, t)"
| "paced_copy ((n, dt) # cs) t p =
     (case paced_read n (t + int dt) p of (p', t') \<Rightarrow> paced_copy cs t' p')"

text \<open>The largest byte count whose product with a second still fits into an \<open>int64\<close>.\<close>

definition max_paced :: nat where
  "max_paced = 9223372036"

lemma sint_of_nat_small: "n < 2 ^ 63 \<Longrightarrow> sint (word_of_nat n :: int64) = int n"
proof -
  assume n: "n < 2 ^ 63"
  then have "int n < 2 ^ 63" by (metis of_nat_less_iff of_nat_numeral of_nat_power)
  moreover have "sint (word_of_nat n :: int64) = signed_take_bit 63 (int n)"
    by (simp add: signed_of_nat)
  ultimately show ?thesis by (simp add: signed_take_bit_int_eq_self)
qed

lemma sint_of_int_small: "- (2 ^ 63) \<le> k \<Longrightarrow> k < 2 ^ 63 \<Longrightarrow> sint (word_of_int k :: int64) = k"
  by (simp add: signed_of_int signed_take_bit_int_eq_self)

lemma sint_second_product:
  assumes "n \<le> max_paced"
  shows "sint (word_of_nat n * second64 :: int64) = int n * second"
proof -
  have eq: "(word_of_nat n * second64 :: int64) = word_of_nat (n * 1000000000)"
    by (simp add: second64_def)
  have "n * 1000000000 < 2 ^ 63" using assms by (simp add: max_paced_def)
  then have "sint (word_of_nat (n * 1000000000) :: int64) = int (n * 1000000000)"
    by (rule sint_of_nat_small)
  then show ?thesis unfolding eq by (simp add: second_def)
qed

lemma want_exact:
  assumes "n \<le> max_paced" and "0 < sint bps"
  shows "sint (want bps (word_of_nat n)) = int n * second div sint bps"
proof -
  let ?q = "int n * second div sint bps"
  have "0 \<le> int n * second" by (simp add: second_def)
  then have q: "int n * second sdiv sint bps = ?q"
    using assms(2) by (cases "n = 0") (simp_all add: signed_divide_int_def second_def)
  have "int n \<le> 9223372036" using assms(1) by (simp add: max_paced_def)
  then have up: "int n * second < 2 ^ 63" by (simp add: second_def)
  have "0 \<le> ?q" using assms(2) by (simp add: pos_imp_zdiv_nonneg_iff second_def)
  moreover have "?q \<le> int n * second div 1"
    using assms(2) by (intro zdiv_mono2) (auto simp: second_def)
  ultimately show ?thesis
    unfolding want_def div64_def sint_second_product [OF assms(1)] q
    using up by (intro sint_of_int_small) auto
qed

lemma paced_read_delay:
  assumes "pr_got p = word_of_nat m" and "m + n \<le> max_paced" and "0 < sint (pr_bps p)"
  shows "paced_read n t p =
    (p\<lparr>pr_got := word_of_nat (m + n)\<rparr>,
     max t (pr_start p + int (m + n) * second div sint (pr_bps p)))"
proof -
  have g: "pr_got p + word_of_nat n = word_of_nat (m + n)" by (simp add: assms(1))
  have w: "sint (want (pr_bps p) (word_of_nat (m + n))) = int (m + n) * second div sint (pr_bps p)"
    using assms(2,3) by (rule want_exact)
  show ?thesis
    unfolding paced_read_def g Let_def w by (simp add: max_def del: of_nat_add)
qed

definition copied :: "(nat \<times> nat) list \<Rightarrow> nat" where
  "copied cs = sum_list (map fst cs)"

lemma paced_copy_rate:
  assumes "pr_got p = word_of_nat m" and "m + copied cs \<le> max_paced" and "0 < sint (pr_bps p)"
    and "pr_start p + int m * second div sint (pr_bps p) \<le> t"
  shows "pr_start p + int (m + copied cs) * second div sint (pr_bps p) \<le> snd (paced_copy cs t p)"
  using assms
proof (induction cs arbitrary: m t p)
  case Nil
  then show ?case by (simp add: copied_def)
next
  case (Cons c cs)
  obtain n dt where c: "c = (n, dt)" by (cases c)
  let ?p = "p\<lparr>pr_got := word_of_nat (m + n)\<rparr>"
  let ?t = "max (t + int dt) (pr_start p + int (m + n) * second div sint (pr_bps p))"
  have le: "m + n \<le> max_paced" using Cons.prems(2) by (simp add: c copied_def)
  have step: "paced_read n (t + int dt) p = (?p, ?t)"
    using Cons.prems(1) le Cons.prems(3) by (rule paced_read_delay)
  have tot: "m + n + copied cs = m + copied (c # cs)" by (simp add: c copied_def)
  have simps_of_p: "pr_start ?p = pr_start p" "pr_bps ?p = pr_bps p" by simp_all
  have "pr_start ?p + int (m + n + copied cs) * second div sint (pr_bps ?p) \<le> snd (paced_copy cs ?t ?p)"
  proof (rule Cons.IH)
    show "pr_got ?p = word_of_nat (m + n)" by simp
    show "m + n + copied cs \<le> max_paced" using Cons.prems(2) by (simp add: tot)
    show "0 < sint (pr_bps ?p)" using Cons.prems(3) by simp
    show "pr_start ?p + int (m + n) * second div sint (pr_bps ?p) \<le> ?t" by simp
  qed
  moreover have "paced_copy (c # cs) t p = paced_copy cs ?t ?p"
    by (simp add: c step del: of_nat_add)
  ultimately show ?case by (simp only: tot simps_of_p)
qed

text \<open>
  The bandwidth bound: when the paced reader has passed on \<open>N\<close> bytes, at least
  \<open>N / bps\<close> seconds have passed since it was created, as long as \<open>N\<close> is at most 9223372036
  bytes, however the bytes are cut into reads and however long the inner reads take.
\<close>
theorem paced_reader_rate:
  assumes "0 < sint bps" and "copied cs \<le> max_paced"
  shows "t0 + int (copied cs) * second div sint bps
    \<le> snd (paced_copy cs t0 \<lparr>pr_bps = bps, pr_got = 0, pr_start = t0\<rparr>)"
  using paced_copy_rate [of "\<lparr>pr_bps = bps, pr_got = 0, pr_start = t0\<rparr>" 0 cs t0] assms by simp

theorem paced_reader_rate_witness:
  "(0::time) + int (copied [(2000, 5), (1000, 7)]) * second div sint (1000 :: int64)
    \<le> snd (paced_copy [(2000, 5), (1000, 7)] 0 \<lparr>pr_bps = 1000, pr_got = 0, pr_start = 0\<rparr>)"
  by (rule paced_reader_rate) (simp_all add: copied_def max_paced_def)

lemma want_wraps:
  assumes "max_paced < n" and "n \<le> 2 * max_paced" and "0 < sint bps"
  shows "sint (want bps (word_of_nat n)) \<le> 0"
proof -
  have eq: "(word_of_nat n * second64 :: int64) = word_of_int (int n * 1000000000 - 2 ^ 64)"
    by (simp add: second64_def)
  have lo: "2 ^ 63 \<le> int n * 1000000000" and hi: "int n * 1000000000 < 2 ^ 64"
    using assms(1,2) by (auto simp: max_paced_def)
  have s: "sint (word_of_nat n * second64 :: int64) = int n * 1000000000 - 2 ^ 64"
    unfolding eq by (rule sint_of_int_small) (use lo hi in auto)
  define a where "a = 2 ^ 64 - int n * 1000000000"
  have a: "0 < a" "a \<le> 2 ^ 63" using lo hi by (auto simp: a_def)
  have "(- a) sdiv sint bps = - (a div sint bps)"
    using a assms(3) by (simp add: signed_divide_int_def)
  moreover have "0 \<le> a div sint bps"
    using a assms(3) by (simp add: pos_imp_zdiv_nonneg_iff)
  moreover have "a div sint bps \<le> a div 1"
    by (rule zdiv_mono2) (use a assms(3) in auto)
  ultimately have "- (2 ^ 63) \<le> (- a) sdiv sint bps" and le: "(- a) sdiv sint bps \<le> 0"
    using a by auto
  then have "sint (word_of_int ((- a) sdiv sint bps) :: int64) = (- a) sdiv sint bps"
    by (intro sint_of_int_small) auto
  with le s show ?thesis by (simp add: want_def div64_def a_def)
qed

text \<open>
  Beyond that count the product overflows: once a download has passed on between 9223372037
  and 18446744072 bytes the computed waiting time is not positive, and a read at or after the
  reader's start never sleeps, so the configured bandwidth is no longer enforced.
\<close>
theorem paced_reader_overflow:
  assumes "0 < sint (pr_bps p)" and "pr_got p = word_of_nat m" and "pr_start p \<le> t"
    and "max_paced < m + n" and "m + n \<le> 2 * max_paced"
  shows "snd (paced_read n t p) = t"
proof -
  have g: "pr_got p + word_of_nat n = word_of_nat (m + n)" by (simp add: assms(2))
  have "sint (want (pr_bps p) (word_of_nat (m + n))) \<le> 0"
    using assms(4,5,1) by (rule want_wraps)
  with assms(3) show ?thesis by (simp add: paced_read_def g Let_def del: of_nat_add)
qed

theorem paced_reader_overflow_witness:
  "snd (paced_read 32768 1 \<lparr>pr_bps = 1000, pr_got = word_of_nat 9223372036, pr_start = 0\<rparr>) = 1"
  by (rule paced_reader_overflow [where m = 9223372036]) (simp_all add: max_paced_def)

end
