(* ===== verification/Go_Path.thy ===== *)
theory Go_Path
  imports Go_Strings
begin

text \<open>
  Go's \<open>path/filepath\<close> on Unix: \<open>Clean\<close>, \<open>Join\<close>, \<open>IsAbs\<close>, \<open>Base\<close> and \<open>Rel\<close>, and their laws on
  absolute paths. A cleaned absolute path is \<open>abs_path cs\<close> for a list \<open>cs\<close> of proper components.
\<close>

section \<open>Definitions\<close>

abbreviation slash :: char where "slash \<equiv> CHR ''/''"

definition is_abs :: "string \<Rightarrow> bool" where
  "is_abs s \<longleftrightarrow> has_prefix s ''/''"

text \<open>The lexical processing of the components, with the kept ones in reverse order.\<close>

fun clean_parts :: "bool \<Rightarrow> string list \<Rightarrow> string list \<Rightarrow> string list" where
  "clean_parts rooted st [] = rev st"
| "clean_parts rooted st (p # ps) =
     (if p = [] \<or> p = ''.'' then clean_parts rooted st ps
      else if p = ''..'' then
        (case st of
           q # st' \<Rightarrow> if q \<noteq> ''..'' then clean_parts rooted st' ps else clean_parts rooted (p # st) ps
         | [] \<Rightarrow> if rooted then clean_parts rooted st ps else clean_parts rooted [p] ps)
      else clean_parts rooted (p # st) ps)"

definition clean :: "string \<Rightarrow> string" where
  "clean s =
     (if s = [] then ''.''
      else let out = join ''/'' (clean_parts (is_abs s) [] (split_on slash s))
           in if is_abs s then slash # out else if out = [] then ''.'' else out)"

text \<open>\<open>filepath.Join\<close> of two elements: empty elements are ignored.\<close>

definition path_join :: "string \<Rightarrow> string \<Rightarrow> string" where
  "path_join a b =
     (if a = [] \<and> b = [] then []
      else if a = [] then clean b
      else if b = [] then clean a
      else clean (a @ slash # b))"

definition elems :: "string \<Rightarrow> string list" where
  "elems s = filter (\<lambda>p. p \<noteq> []) (split_on slash s)"

fun strip_common :: "string list \<Rightarrow> string list \<Rightarrow> string list \<times> string list" where
  "strip_common (b # bs) (t # ts) = (if b = t then strip_common bs ts else (b # bs, t # ts))"
| "strip_common bs ts = (bs, ts)"

definition rel :: "string \<Rightarrow> string \<Rightarrow> string option" where
  "rel base targ =
     (let b = clean base; t = clean targ in
      if t = b then Some ''.''
      else let b' = (if b = ''.'' then [] else b) in
        if is_abs b' \<noteq> is_abs t then None
        else case strip_common (elems b') (elems t) of
          (bs, ts) \<Rightarrow>
            if bs \<noteq> [] \<and> hd bs = ''..'' then None
            else Some (join ''/'' (replicate (length bs) ''..'' @ ts)))"

definition base_name :: "string \<Rightarrow> string" where
  "base_name s =
     (if s = [] then ''.''
      else let t = trim_right_set {slash} s in if t = [] then ''/'' else last (split_on slash t))"

section \<open>Proper components\<close>

definition proper :: "string \<Rightarrow> bool" where
  "proper c \<longleftrightarrow> c \<noteq> [] \<and> c \<noteq> ''.'' \<and> c \<noteq> ''..'' \<and> slash \<notin> set c"

definition abs_path :: "string list \<Rightarrow> string" where
  "abs_path cs = slash # join ''/'' cs"

definition comps :: "string \<Rightarrow> string list" where
  "comps s = clean_parts True [] (split_on slash s)"

lemma is_abs_abs_path [simp]: "is_abs (abs_path cs)"
  by (simp add: is_abs_def abs_path_def)

lemma abs_path_not_Nil [simp]: "abs_path cs \<noteq> []"
  by (simp add: abs_path_def)

lemma join_Cons: "ps \<noteq> [] \<Longrightarrow> join sep (p # ps) = p @ sep @ join sep ps"
  by (cases ps) auto

lemma join_append: "ps \<noteq> [] \<Longrightarrow> qs \<noteq> [] \<Longrightarrow> join sep (ps @ qs) = join sep ps @ sep @ join sep qs"
proof (induction ps)
  case (Cons p ps)
  then show ?case by (cases "ps = []") (auto simp: join_Cons)
qed simp

lemma join_Nil_iff: "(\<And>p. p \<in> set ps \<Longrightarrow> p \<noteq> []) \<Longrightarrow> join sep ps = [] \<longleftrightarrow> ps = []"
  by (cases ps; cases "tl ps") (auto simp: join_Cons)

lemma split_abs_path:
  "list_all proper cs \<Longrightarrow> split_on slash (abs_path cs) = [] # (if cs = [] then [[]] else cs)"
  by (cases "cs = []") (auto simp: abs_path_def proper_def list_all_iff intro!: split_on_join)

lemma clean_parts_proper:
  "list_all proper cs \<Longrightarrow> clean_parts r st (cs @ ps) = clean_parts r (rev cs @ st) ps"
  by (induction cs arbitrary: st) (auto simp: proper_def)

lemma clean_parts_result:
  "(\<And>p. p \<in> set ps \<Longrightarrow> slash \<notin> set p) \<Longrightarrow> list_all proper st \<Longrightarrow>
    list_all proper (clean_parts True st ps)"
proof (induction True st ps rule: clean_parts.induct)
  case (1 st)
  then show ?case by (simp add: list_all_rev)
next
  case (2 st p ps)
  then show ?case by (auto simp: proper_def split: list.splits)
qed

lemma comps_proper: "list_all proper (comps s)"
  unfolding comps_def by (rule clean_parts_result) (auto dest: split_on_no_sep)

lemma comps_abs_path: "list_all proper cs \<Longrightarrow> comps (abs_path cs) = cs"
  using clean_parts_proper [of cs True "[]" "[]"]
  by (cases "cs = []") (auto simp: comps_def split_abs_path)

lemma clean_abs: "is_abs s \<Longrightarrow> clean s = abs_path (comps s)"
  by (auto simp: clean_def comps_def abs_path_def is_abs_def Let_def)

lemma clean_abs_path [simp]: "list_all proper cs \<Longrightarrow> clean (abs_path cs) = abs_path cs"
  by (simp add: clean_abs comps_abs_path)

lemma clean_idem_abs: "is_abs s \<Longrightarrow> clean (clean s) = clean s"
  by (simp add: clean_abs comps_abs_path comps_proper)

lemma is_abs_clean: "is_abs s \<Longrightarrow> is_abs (clean s)"
  by (simp add: clean_abs)

lemma abs_path_inject:
  "list_all proper cs \<Longrightarrow> list_all proper ds \<Longrightarrow> abs_path cs = abs_path ds \<longleftrightarrow> cs = ds"
  by (metis comps_abs_path)

lemma split_on_append_sep: "split_on c (s @ c # t) = split_on c s @ split_on c t"
  by (induction s) (auto split: list.splits)

lemma clean_parts_append:
  "clean_parts r st (ps @ qs) = clean_parts r (rev (clean_parts r st ps)) qs"
proof (induction r st ps rule: clean_parts.induct)
  case (1 rooted st)
  then show ?case by simp
next
  case (2 rooted st p ps)
  then show ?case by (auto split: list.splits)
qed

lemma comps_append: "comps (s @ slash # t) = clean_parts True (rev (comps s)) (split_on slash t)"
  by (simp add: comps_def split_on_append_sep clean_parts_append)

lemma join_abs_path:
  assumes "list_all proper cs" and "list_all proper ds" and "ds \<noteq> []"
  shows "path_join (abs_path cs) (join ''/'' ds) = abs_path (cs @ ds)"
proof -
  have ne: "join ''/'' ds \<noteq> []"
    using assms(2,3) by (subst join_Nil_iff) (auto simp: list_all_iff proper_def)
  have "split_on slash (join ''/'' ds) = ds"
    using assms(2,3) by (auto intro!: split_on_join simp: list_all_iff proper_def)
  then have "comps (abs_path cs @ slash # join ''/'' ds) = cs @ ds"
    using clean_parts_proper [OF assms(2), of True "rev cs" "[]"] assms(1)
    by (simp add: comps_append comps_abs_path)
  moreover have "is_abs (abs_path cs @ slash # join ''/'' ds)"
    by (simp add: is_abs_def abs_path_def)
  ultimately show ?thesis by (simp add: path_join_def ne clean_abs)
qed

lemma join_abs_path_single:
  "list_all proper cs \<Longrightarrow> proper d \<Longrightarrow> path_join (abs_path cs) d = abs_path (cs @ [d])"
  using join_abs_path [of cs "[d]"] by simp

lemma elems_abs_path: "list_all proper cs \<Longrightarrow> elems (abs_path cs) = cs"
  by (cases "cs = []")
    (auto simp: elems_def split_abs_path list_all_iff proper_def intro!: filter_True)

lemma strip_common_prefix: "strip_common cs (cs @ ds) = ([], ds)"
  by (induction cs) (cases ds; simp)+

lemma strip_common_spec:
  "strip_common bs ts = (b, t) \<Longrightarrow>
    \<exists>cs. bs = cs @ b \<and> ts = cs @ t \<and> (b = [] \<or> t = [] \<or> hd b \<noteq> hd t)"
proof (induction bs ts rule: strip_common.induct)
  case (1 b' bs t' ts)
  show ?case
  proof (cases "b' = t'")
    case True
    with 1 obtain cs where "bs = cs @ b \<and> ts = cs @ t \<and> (b = [] \<or> t = [] \<or> hd b \<noteq> hd t)" by auto
    with True show ?thesis by (intro exI [of _ "b' # cs"]) auto
  next
    case False
    with 1(2) show ?thesis by (intro exI [of _ "[]"]) auto
  qed
qed auto

lemma rel_abs_path:
  assumes "list_all proper bs" and "list_all proper ts"
  shows "rel (abs_path bs) (abs_path ts) =
    (if ts = bs then Some ''.''
     else Some (case strip_common bs ts of (b, t) \<Rightarrow> join ''/'' (replicate (length b) ''..'' @ t)))"
proof -
  obtain b t where bt: "strip_common bs ts = (b, t)" by (cases "strip_common bs ts")
  then obtain cs where "bs = cs @ b" using strip_common_spec by blast
  with assms(1) have "b = [] \<or> proper (hd b)" by (cases b) auto
  then have hd: "\<not> (b \<noteq> [] \<and> hd b = ''..'')" by (auto simp: proper_def)
  have nd: "abs_path bs \<noteq> ''.''" by (simp add: abs_path_def)
  show ?thesis
    using hd by (auto simp: rel_def Let_def assms abs_path_inject elems_abs_path nd bt)
qed

lemma rel_below:
  assumes "list_all proper cs" and "list_all proper ds" and "ds \<noteq> []"
  shows "rel (abs_path cs) (abs_path (cs @ ds)) = Some (join ''/'' ds)"
  using assms by (subst rel_abs_path) (auto simp: strip_common_prefix)

lemma rel_clean: "is_abs b \<Longrightarrow> is_abs t \<Longrightarrow> rel (clean b) (clean t) = rel b t"
  by (simp add: rel_def clean_idem_abs)

text \<open>
  For absolute paths, the result of \<open>Rel\<close> does not climb (it is not \<open>..\<close> and does not begin with
  \<open>../\<close>) exactly when the target is the base or below it.
\<close>

definition climbs :: "string \<Rightarrow> bool" where
  "climbs r \<longleftrightarrow> r = ''..'' \<or> has_prefix r ''../''"

lemma proper_not_climbs:
  assumes "list_all proper ts" shows "\<not> climbs (join ''/'' ts)"
proof (cases ts)
  case Nil
  then show ?thesis by (simp add: climbs_def)
next
  case (Cons p ps)
  then have p: "proper p" using assms by simp
  show ?thesis
  proof
    assume "climbs (join ''/'' ts)"
    then consider "join ''/'' ts = ''..''" | r where "join ''/'' ts = ''../'' @ r"
      by (auto simp: climbs_def has_prefix_iff)
    then have "hd (split_on slash (join ''/'' ts)) = ''..''"
    proof cases
      case 1
      then show ?thesis by simp
    next
      case 2
      have "split_on slash (''..'' @ slash # r) = ''..'' # split_on slash r"
        by (rule split_on_append) simp
      with 2 show ?thesis by simp
    qed
    moreover have "split_on slash (join ''/'' ts) = ts"
      by (rule split_on_join) (use assms Cons in \<open>auto simp: list_all_iff proper_def\<close>)
    ultimately have "p = ''..''" by (simp add: Cons)
    with p show False by (simp add: proper_def)
  qed
qed

lemma replicate_climbs: "0 < n \<Longrightarrow> climbs (join ''/'' (replicate n ''..'' @ ts))"
proof (cases n)
  case (Suc m)
  show ?thesis
  proof (cases "replicate m ''..'' @ ts = []")
    case True
    then show ?thesis by (simp add: Suc climbs_def)
  next
    case False
    then have "join ''/'' (replicate n ''..'' @ ts) = ''../'' @ join ''/'' (replicate m ''..'' @ ts)"
      by (simp add: Suc join_Cons)
    then show ?thesis unfolding climbs_def by (metis has_prefix_append)
  qed
qed simp

lemma rel_climbs_iff:
  assumes "list_all proper bs" and "list_all proper ts"
  shows "(\<exists>r. rel (abs_path bs) (abs_path ts) = Some r \<and> \<not> climbs r) \<longleftrightarrow> (\<exists>ds. ts = bs @ ds)"
proof
  assume "\<exists>ds. ts = bs @ ds"
  then obtain ds where ds: "ts = bs @ ds" ..
  show "\<exists>r. rel (abs_path bs) (abs_path ts) = Some r \<and> \<not> climbs r"
  proof (cases "ds = []")
    case True
    with ds show ?thesis by (simp add: rel_abs_path assms climbs_def)
  next
    case False
    from assms ds have "list_all proper ds" by simp
    with False show ?thesis
      using rel_below [OF assms(1)] proper_not_climbs ds by blast
  qed
next
  assume "\<exists>r. rel (abs_path bs) (abs_path ts) = Some r \<and> \<not> climbs r"
  then obtain r where r: "rel (abs_path bs) (abs_path ts) = Some r" "\<not> climbs r" by blast
  show "\<exists>ds. ts = bs @ ds"
  proof (cases "ts = bs")
    case False
    obtain b t where bt: "strip_common bs ts = (b, t)" by (cases "strip_common bs ts")
    with r False assms have "r = join ''/'' (replicate (length b) ''..'' @ t)"
      by (simp add: rel_abs_path)
    with r(2) replicate_climbs have "b = []" by (metis length_greater_0_conv)
    with strip_common_spec [OF bt] show ?thesis by auto
  qed simp
qed

lemma rel_not_climbs:
  assumes "list_all proper bs" "list_all proper ts"
    and "rel (abs_path bs) (abs_path ts) = Some r" and "\<not> climbs r"
  shows "\<exists>ds. ts = bs @ ds \<and> r = (if ds = [] then ''.'' else join ''/'' ds)"
proof -
  from assms rel_climbs_iff obtain ds where ds: "ts = bs @ ds" by blast
  show ?thesis
  proof (cases "ds = []")
    case True
    with ds assms show ?thesis by (simp add: rel_abs_path)
  next
    case False
    with ds assms show ?thesis using rel_below [OF assms(1), of ds] by simp
  qed
qed

end
