(* ===== verification/Share_Path.thy ===== *)
theory Share_Path
  imports Go_Path
begin

text \<open>
  \<open>internal/files/path.go\<close> and \<open>open_unix.go\<close>: from an untrusted relative path to a file of the
  share root. The file system is what \<open>Lstat\<close> answers for a path during one call, a partial
  function from paths; a regular file carries its bytes and whether \<open>open\<close> succeeds.
\<close>

section \<open>The file system\<close>

datatype kind = Regular | Directory | Symlink | Special

record finfo =
  fi_kind :: kind
  fi_mtime :: time
  fi_data :: string
  fi_readable :: bool

type_synonym fs = "string \<Rightarrow> finfo option"

definition fi_size :: "finfo \<Rightarrow> int" where
  "fi_size i = int (length (fi_data i))"

datatype path_error =
  Root_Not_Set | Root_Not_Absolute | Lstat_Failed | Root_Not_Directory | Open_Failed
| ErrSymlink | ErrEscape | ErrNotRegular | ErrHidden | Rel_Failed

section \<open>Operations\<close>

definition clean_share_root :: "fs \<Rightarrow> string \<Rightarrow> path_error + string" where
  "clean_share_root fs root =
     (if root = [] then Inl Root_Not_Set
      else if \<not> is_abs root then Inl Root_Not_Absolute
      else let r = clean root in
        case fs r of
          None \<Rightarrow> Inl Lstat_Failed
        | Some i \<Rightarrow>
            if fi_kind i = Symlink then Inl ErrSymlink
            else if fi_kind i \<noteq> Directory then Inl Root_Not_Directory
            else Inr r)"

fun check_parts :: "string list \<Rightarrow> path_error option" where
  "check_parts [] = None"
| "check_parts (p # ps) =
     (if p = ''..'' \<or> p = [] then Some ErrEscape
      else if has_prefix p ''.'' then Some ErrHidden
      else check_parts ps)"

definition rel_from_root :: "string \<Rightarrow> string \<Rightarrow> path_error + string" where
  "rel_from_root root apath =
     (case rel (clean root) (clean apath) of
        None \<Rightarrow> Inl Rel_Failed
      | Some r \<Rightarrow>
          if r = ''.'' then Inr []
          else if r = ''..'' \<or> has_prefix r ''../'' \<or> has_prefix r ''/'' then Inl ErrEscape
          else (case check_parts (split_on slash r) of Some e \<Rightarrow> Inl e | None \<Rightarrow> Inr r))"

definition still_inside :: "string \<Rightarrow> string \<Rightarrow> path_error option" where
  "still_inside root p =
     (case rel root p of
        None \<Rightarrow> Some ErrEscape
      | Some r \<Rightarrow> if r = ''..'' \<or> has_prefix r ''../'' then Some ErrEscape else None)"

text \<open>The loop of \<open>ResolveUnderRoot\<close> over the components, each one inspected with \<open>Lstat\<close>.\<close>

fun walk_parts :: "fs \<Rightarrow> string \<Rightarrow> string \<Rightarrow> string list \<Rightarrow> path_error + string" where
  "walk_parts fs root cur [] = Inr cur"
| "walk_parts fs root cur (p # ps) =
     (let nxt = path_join cur p in
      case fs nxt of
        None \<Rightarrow> Inl Lstat_Failed
      | Some i \<Rightarrow>
          if fi_kind i = Symlink then Inl ErrSymlink
          else (case still_inside root nxt of
                  Some e \<Rightarrow> Inl e
                | None \<Rightarrow> walk_parts fs root nxt ps))"

text \<open>The textual normalisation of the untrusted path, up to the cleaned relative path.\<close>

definition normalize_rel :: "string \<Rightarrow> path_error + string" where
  "normalize_rel raw =
     (let r = replace_char (CHR 0x5C) ''/'' (trim_space raw) in
      if r = [] \<or> r = ''.'' then Inl ErrEscape
      else if CHR 0x00 \<in> set r then Inl ErrEscape
      else if ''..'' \<in> set (split_on slash r) then Inl ErrEscape
      else let cleaned = trim_prefix (clean (slash # r)) ''/'' in
        if cleaned = [] \<or> cleaned = ''.'' then Inl ErrEscape else Inr cleaned)"

definition resolve_under_root :: "fs \<Rightarrow> string \<Rightarrow> string \<Rightarrow> path_error + string" where
  "resolve_under_root fs root0 raw =
     (case clean_share_root fs root0 of
        Inl e \<Rightarrow> Inl e
      | Inr root \<Rightarrow>
          (case normalize_rel raw of
             Inl e \<Rightarrow> Inl e
           | Inr cleaned \<Rightarrow>
               (case rel_from_root root (path_join root cleaned) of
                  Inl e \<Rightarrow> Inl e
                | Inr _ \<Rightarrow> walk_parts fs root root (split_on slash cleaned))))"

definition open_no_follow :: "fs \<Rightarrow> string \<Rightarrow> path_error + string" where
  "open_no_follow fs p =
     (case fs p of
        None \<Rightarrow> Inl Lstat_Failed
      | Some i \<Rightarrow>
          if fi_kind i = Symlink then Inl ErrSymlink
          else if fi_kind i \<noteq> Regular then Inl ErrNotRegular
          else if \<not> fi_readable i then Inl Open_Failed
          else Inr (fi_data i))"

section \<open>Lemmas\<close>

text \<open>A component that may appear in a shared path: proper and not hidden.\<close>

definition visible :: "string \<Rightarrow> bool" where
  "visible c \<longleftrightarrow> c \<noteq> [] \<and> hd c \<noteq> CHR ''.'' \<and> slash \<notin> set c"

lemma visible_proper: "visible c \<Longrightarrow> proper c"
  by (auto simp: visible_def proper_def)

lemma list_visible_proper: "list_all visible cs \<Longrightarrow> list_all proper cs"
  by (auto simp: list_all_iff visible_proper)

lemma has_prefix_dot: "p \<noteq> [] \<Longrightarrow> has_prefix p ''.'' \<longleftrightarrow> hd p = CHR ''.''"
  by (cases p) auto

lemma check_parts_None:
  "check_parts ps = None \<longleftrightarrow> (\<forall>p \<in> set ps. p \<noteq> [] \<and> hd p \<noteq> CHR ''.'')"
  by (induction ps) (auto simp: has_prefix_dot)

lemma clean_share_root_InrD:
  assumes "clean_share_root fs root = Inr r"
  obtains i where "r = abs_path (comps root)" and "is_abs root"
    and "fs r = Some i" and "fi_kind i = Directory"
  using assms by (auto simp: clean_share_root_def Let_def clean_abs split: if_splits option.splits)

lemma join_visible_not_slash:
  assumes "list_all visible ds" and "ds \<noteq> []"
  shows "\<not> has_prefix (join ''/'' ds) ''/''"
proof (cases ds)
  case (Cons d ds')
  then have "d \<noteq> []" and "slash \<notin> set d" using assms by (auto simp: visible_def)
  then obtain c d' where "d = c # d'" "c \<noteq> slash" by (cases d) auto
  with Cons show ?thesis by (cases ds') auto
qed (use assms in simp)

lemma join_not_dot: "list_all proper ds \<Longrightarrow> join ''/'' ds \<noteq> ''.''"
proof
  assume p: "list_all proper ds" and j: "join ''/'' ds = ''.''"
  show False
  proof (cases "ds = []")
    case False
    then have "split_on slash (join ''/'' ds) = ds"
      using p by (auto intro!: split_on_join simp: list_all_iff proper_def)
    with j have "ds = [''.'']" by simp
    with p show False by (simp add: proper_def)
  qed (use j in simp)
qed

lemma rel_from_root_below:
  assumes "list_all proper rs" and "list_all proper ds" and "ds \<noteq> []"
  shows "rel_from_root (abs_path rs) (abs_path (rs @ ds)) =
    (case check_parts ds of Some e \<Rightarrow> Inl e | None \<Rightarrow> Inr (join ''/'' ds))"
proof -
  have sp: "split_on slash (join ''/'' ds) = ds"
    using assms(2,3) by (auto intro!: split_on_join simp: list_all_iff proper_def)
  have nc: "\<not> (join ''/'' ds = ''..'' \<or> has_prefix (join ''/'' ds) ''../'')"
    using proper_not_climbs [OF assms(2)] by (simp add: climbs_def)
  have ns: "\<not> has_prefix (join ''/'' ds) ''/''"
  proof (cases ds)
    case (Cons d ds')
    then have "d \<noteq> []" "slash \<notin> set d" using assms(2) by (auto simp: proper_def)
    then obtain c d' where "d = c # d'" "c \<noteq> slash" by (cases d) auto
    with Cons show ?thesis by (cases ds') auto
  qed (use assms(3) in simp)
  show ?thesis
    using assms nc ns join_not_dot [OF assms(2)]
    by (simp add: rel_from_root_def rel_below sp)
qed

lemma rel_from_root_InrD:
  assumes "is_abs root" and "is_abs apath" and "rel_from_root root apath = Inr r"
  shows "\<exists>ds. comps apath = comps root @ ds \<and> list_all visible ds \<and> r = join ''/'' ds"
proof -
  let ?rs = "comps root" and ?as = "comps apath"
  note pr = comps_proper [of root] comps_proper [of apath]
  from assms obtain q where q: "rel (abs_path ?rs) (abs_path ?as) = Some q"
    and r: "if q = ''.'' then r = [] else \<not> climbs q \<and> check_parts (split_on slash q) = None \<and> r = q"
    by (auto simp: rel_from_root_def clean_abs climbs_def split: option.splits if_splits)
  have "\<not> climbs q" using r by (auto simp: climbs_def split: if_splits)
  with q pr obtain ds where ds: "?as = ?rs @ ds" "q = (if ds = [] then ''.'' else join ''/'' ds)"
    using rel_not_climbs by blast
  have pds: "list_all proper ds" using pr(2) ds(1) by simp
  show ?thesis
  proof (cases "ds = []")
    case True
    with ds r show ?thesis by (intro exI [of _ "[]"]) auto
  next
    case False
    then have sp: "split_on slash (join ''/'' ds) = ds"
      using pds by (auto intro!: split_on_join simp: list_all_iff proper_def)
    from False ds r join_not_dot [OF pds] have "check_parts ds = None" and "r = join ''/'' ds"
      by (auto simp: sp)
    with ds pds show ?thesis
      by (intro exI [of _ ds]) (auto simp: check_parts_None list_all_iff visible_def proper_def)
  qed
qed

lemma still_inside_below:
  assumes "list_all proper rs" and "list_all proper ts"
  shows "still_inside (abs_path rs) (abs_path ts) = None \<longleftrightarrow> (\<exists>ds. ts = rs @ ds)"
  using rel_climbs_iff [OF assms]
  by (auto simp: still_inside_def climbs_def split: option.splits)

text \<open>The loop succeeds exactly when no component is missing or a symlink.\<close>

definition chain_ok :: "fs \<Rightarrow> string list \<Rightarrow> string list \<Rightarrow> bool" where
  "chain_ok fs rs ds \<longleftrightarrow>
     (\<forall>k < length ds. \<exists>i. fs (abs_path (rs @ take (Suc k) ds)) = Some i \<and> fi_kind i \<noteq> Symlink)"

lemma chain_ok_Cons:
  "chain_ok fs rs (d # ds) \<longleftrightarrow>
    (\<exists>i. fs (abs_path (rs @ [d])) = Some i \<and> fi_kind i \<noteq> Symlink) \<and> chain_ok fs (rs @ [d]) ds"
  by (auto simp: chain_ok_def less_Suc_eq_0_disj all_conj_distrib)

lemma walk_parts_iff:
  assumes "list_all proper rs" and "list_all proper es" and "list_all proper ds"
  shows "walk_parts fs (abs_path rs) (abs_path (rs @ es)) ds = Inr p \<longleftrightarrow>
    chain_ok fs (rs @ es) ds \<and> p = abs_path (rs @ es @ ds)"
  using assms
proof (induction ds arbitrary: es)
  case Nil
  then show ?case by (auto simp: chain_ok_def)
next
  case (Cons d ds)
  then have es: "list_all proper (es @ [d])" and d: "proper d" by auto
  have j: "path_join (abs_path (rs @ es)) d = abs_path (rs @ es @ [d])"
    using join_abs_path_single [of "rs @ es" d] Cons.prems by simp
  have si: "still_inside (abs_path rs) (abs_path (rs @ es @ [d])) = None"
    using still_inside_below [of rs "rs @ es @ [d]"] Cons.prems by simp
  from Cons.IH [of "es @ [d]"] es Cons.prems
  have IH: "walk_parts fs (abs_path rs) (abs_path (rs @ es @ [d])) ds = Inr p \<longleftrightarrow>
      chain_ok fs (rs @ es @ [d]) ds \<and> p = abs_path (rs @ es @ d # ds)" by simp
  show ?case
    by (auto simp: Let_def j si IH chain_ok_Cons split: option.splits)
qed

lemma normalize_rel_InrD:
  assumes "normalize_rel raw = Inr c"
  shows "\<exists>ds. ds \<noteq> [] \<and> list_all proper ds \<and> c = join ''/'' ds"
proof -
  let ?r = "replace_char (CHR 0x5C) ''/'' (trim_space raw)"
  have abs: "is_abs (slash # ?r)" by (simp add: is_abs_def)
  from assms have c: "c = trim_prefix (clean (slash # ?r)) ''/''" and ne: "c \<noteq> []"
    by (auto simp: normalize_rel_def Let_def split: if_splits)
  have "c = join ''/'' (comps (slash # ?r))"
    by (simp add: c clean_abs [OF abs] abs_path_def trim_prefix_def)
  moreover from this ne have "comps (slash # ?r) \<noteq> []" by auto
  ultimately show ?thesis using comps_proper by blast
qed

text \<open>What a successful resolution says, in components.\<close>

lemma resolve_InrD:
  assumes "resolve_under_root fs root raw = Inr p"
  shows "\<exists>rs ds i. is_abs root \<and> clean root = abs_path rs \<and> list_all proper rs \<and> ds \<noteq> [] \<and>
    list_all visible ds \<and> p = abs_path (rs @ ds) \<and>
    fs (abs_path rs) = Some i \<and> fi_kind i = Directory \<and> chain_ok fs rs ds"
proof -
  from assms obtain r c where r: "clean_share_root fs root = Inr r"
    and c: "normalize_rel raw = Inr c"
    and rf: "\<exists>q. rel_from_root r (path_join r c) = Inr q"
    and w: "walk_parts fs r r (split_on slash c) = Inr p"
    by (auto simp: resolve_under_root_def split: sum.splits)
  from r obtain i where root: "r = abs_path (comps root)" "is_abs root" "fs r = Some i" "fi_kind i = Directory"
    by (rule clean_share_root_InrD)
  let ?rs = "comps root"
  have rs: "list_all proper ?rs" by (rule comps_proper)
  from normalize_rel_InrD [OF c] obtain ds where ds: "ds \<noteq> []" "list_all proper ds" "c = join ''/'' ds"
    by blast
  have sp: "split_on slash c = ds"
    using ds by (auto intro!: split_on_join simp: list_all_iff proper_def)
  have j: "path_join r c = abs_path (?rs @ ds)"
    using rs ds by (simp add: root(1) join_abs_path)
  from rf obtain q where "rel_from_root (abs_path ?rs) (abs_path (?rs @ ds)) = Inr q"
    by (auto simp: j) (simp add: root(1))
  then have "check_parts ds = None"
    using rs ds by (auto simp: rel_from_root_below split: option.splits)
  then have vis: "list_all visible ds"
    using ds(2) by (auto simp: check_parts_None list_all_iff visible_def proper_def)
  from w have "walk_parts fs (abs_path ?rs) (abs_path (?rs @ [])) ds = Inr p"
    by (simp add: root(1) [symmetric] sp)
  then have "chain_ok fs ?rs ds" "p = abs_path (?rs @ ds)"
    using walk_parts_iff [of ?rs "[]" ds] rs ds(2) by auto
  with root rs ds vis show ?thesis by (intro exI [of _ ?rs] exI [of _ ds] exI [of _ i]) (auto simp: clean_abs)
qed

section \<open>Properties\<close>

text \<open>
  C8. Containment: a path that \<open>ResolveUnderRoot\<close> accepts lies strictly below the cleaned share
  root; none of its components below the root is empty, hidden, \<open>.\<close> or \<open>..\<close>; the root is a
  directory; and at every component from the root down to the file \<open>Lstat\<close> found something that is
  not a symlink. This holds for every raw path and every file system.
\<close>
theorem resolve_stays_inside:
  assumes "resolve_under_root fs root raw = Inr p"
  shows "\<exists>rs ds. clean root = abs_path rs \<and> p = abs_path (rs @ ds) \<and> ds \<noteq> [] \<and>
    (\<forall>d \<in> set ds. d \<noteq> [] \<and> hd d \<noteq> CHR ''.'' \<and> slash \<notin> set d) \<and>
    (\<exists>i. fs (abs_path rs) = Some i \<and> fi_kind i = Directory) \<and>
    (\<forall>k. 0 < k \<and> k \<le> length ds \<longrightarrow>
       (\<exists>i. fs (abs_path (rs @ take k ds)) = Some i \<and> fi_kind i \<noteq> Symlink))"
proof -
  from resolve_InrD [OF assms] obtain rs ds i where
    a: "clean root = abs_path rs" "p = abs_path (rs @ ds)" "ds \<noteq> []" "list_all visible ds"
      "fs (abs_path rs) = Some i" "fi_kind i = Directory" "chain_ok fs rs ds"
    by blast
  have "\<exists>i. fs (abs_path (rs @ take k ds)) = Some i \<and> fi_kind i \<noteq> Symlink"
    if "0 < k" "k \<le> length ds" for k
    using a(7) that by (cases k) (auto simp: chain_ok_def)
  with a show ?thesis
    by (intro exI [of _ rs] exI [of _ ds]) (auto simp: list_all_iff visible_def)
qed

definition demo_fs :: fs where
  "demo_fs p =
     (if p = ''/srv/share'' \<or> p = ''/srv/share/docs''
      then Some \<lparr>fi_kind = Directory, fi_mtime = 0, fi_data = [], fi_readable = True\<rparr>
      else if p = ''/srv/share/docs/a.txt'' \<or> p = ''/srv/share/a.txt''
      then Some \<lparr>fi_kind = Regular, fi_mtime = 0, fi_data = ''hello world'', fi_readable = True\<rparr>
      else if p = ''/srv/share/link''
      then Some \<lparr>fi_kind = Symlink, fi_mtime = 0, fi_data = [], fi_readable = True\<rparr>
      else None)"

lemma demo_resolve: "resolve_under_root demo_fs ''/srv//share/'' ''docs/./a.txt'' = Inr ''/srv/share/docs/a.txt''"
  by code_simp

theorem resolve_stays_inside_witness:
  "\<exists>rs ds. clean ''/srv//share/'' = abs_path rs \<and> ''/srv/share/docs/a.txt'' = abs_path (rs @ ds) \<and> ds \<noteq> [] \<and>
    (\<forall>d \<in> set ds. d \<noteq> [] \<and> hd d \<noteq> CHR ''.'' \<and> slash \<notin> set d) \<and>
    (\<exists>i. demo_fs (abs_path rs) = Some i \<and> fi_kind i = Directory) \<and>
    (\<forall>k. 0 < k \<and> k \<le> length ds \<longrightarrow>
       (\<exists>i. demo_fs (abs_path (rs @ take k ds)) = Some i \<and> fi_kind i \<noteq> Symlink))"
  by (rule resolve_stays_inside) (rule demo_resolve)

text \<open>
  The other direction: which index entries resolve. \<open>plain_name\<close> is what the textual
  normalisation leaves alone.
\<close>

definition plain_name :: "string \<Rightarrow> bool" where
  "plain_name r \<longleftrightarrow> trim_space r = r \<and> CHR 0x5C \<notin> set r \<and> CHR 0x00 \<notin> set r"

lemma replace_char_absent: "c \<notin> set s \<Longrightarrow> replace_char c r s = s"
  by (induction s) auto

lemma normalize_rel_plain:
  assumes "list_all proper ds" and "ds \<noteq> []" and "plain_name (join ''/'' ds)"
  shows "normalize_rel (join ''/'' ds) = Inr (join ''/'' ds)"
proof -
  let ?r = "join ''/'' ds"
  have sp: "split_on slash ?r = ds"
    using assms(1,2) by (auto intro!: split_on_join simp: list_all_iff proper_def)
  have ne: "?r \<noteq> []"
    using assms(1,2) by (subst join_Nil_iff) (auto simp: list_all_iff proper_def)
  have "clean (slash # ?r) = abs_path ds"
    using clean_abs_path [OF assms(1)] by (simp add: abs_path_def)
  then have "trim_prefix (clean (slash # ?r)) ''/'' = ?r"
    by (simp add: abs_path_def trim_prefix_def)
  moreover have "replace_char (CHR 0x5C) ''/'' (trim_space ?r) = ?r" and "CHR 0x00 \<notin> set ?r"
    using assms(3) by (auto simp: plain_name_def replace_char_absent)
  moreover have "''..'' \<notin> set ds" using assms(1) by (auto simp: list_all_iff proper_def)
  ultimately show ?thesis
    using ne join_not_dot [OF assms(1)] by (simp add: normalize_rel_def Let_def sp)
qed

lemma resolve_plain:
  assumes root: "clean_share_root fs root = Inr (abs_path rs)" and rs: "list_all proper rs"
    and ds: "list_all visible ds" "ds \<noteq> []" and plain: "plain_name (join ''/'' ds)"
  shows "resolve_under_root fs root (join ''/'' ds) =
    walk_parts fs (abs_path rs) (abs_path rs) ds"
proof -
  have pds: "list_all proper ds" using ds(1) by (rule list_visible_proper)
  have sp: "split_on slash (join ''/'' ds) = ds"
    using pds ds(2) by (auto intro!: split_on_join simp: list_all_iff proper_def)
  have "check_parts ds = None" using ds(1) by (auto simp: check_parts_None list_all_iff visible_def)
  then have "rel_from_root (abs_path rs) (path_join (abs_path rs) (join ''/'' ds)) = Inr (join ''/'' ds)"
    using rs pds ds(2) by (simp add: join_abs_path rel_from_root_below)
  then show ?thesis
    by (simp add: resolve_under_root_def root normalize_rel_plain [OF pds ds(2) plain] sp)
qed

text \<open>
  Completeness: with a valid share root, a relative path without hidden components, backslash,
  NUL or surrounding white space resolves to the file it names exactly when every component
  exists and none of them is a symlink.
\<close>
theorem resolve_complete:
  assumes "clean_share_root fs root = Inr (abs_path rs)" and "list_all proper rs"
    and "list_all visible ds" and "ds \<noteq> []" and "plain_name (join ''/'' ds)"
  shows "resolve_under_root fs root (join ''/'' ds) = Inr (abs_path (rs @ ds)) \<longleftrightarrow>
    (\<forall>k < length ds. \<exists>i. fs (abs_path (rs @ take (Suc k) ds)) = Some i \<and> fi_kind i \<noteq> Symlink)"
  using walk_parts_iff [of rs "[]" ds fs "abs_path (rs @ ds)"] assms list_visible_proper
  by (simp add: resolve_plain chain_ok_def)

theorem resolve_complete_witness:
  "resolve_under_root demo_fs ''/srv/share'' (join ''/'' [''docs'', ''a.txt'']) =
      Inr (abs_path ([''srv'', ''share''] @ [''docs'', ''a.txt''])) \<longleftrightarrow>
    (\<forall>k < length [''docs'', ''a.txt'']. \<exists>i.
      demo_fs (abs_path ([''srv'', ''share''] @ take (Suc k) [''docs'', ''a.txt''])) = Some i \<and> fi_kind i \<noteq> Symlink)"
proof (rule resolve_complete)
  show "clean_share_root demo_fs ''/srv/share'' = Inr (abs_path [''srv'', ''share''])" by code_simp
  show "list_all proper [''srv'', ''share'']" by code_simp
  show "list_all visible [''docs'', ''a.txt'']" by code_simp
  show "[''docs'', ''a.txt''] \<noteq> []" by simp
  show "plain_name (join ''/'' [''docs'', ''a.txt''])" by code_simp
qed

lemma trim_space_Cons_space: "is_space c \<Longrightarrow> trim_space (c # s) = trim_space s"
  by (simp add: trim_space_def trim_left_def)

lemma resolve_space: "is_space c \<Longrightarrow> resolve_under_root fs root (c # raw) = resolve_under_root fs root raw"
proof -
  assume "is_space c"
  then have "normalize_rel (c # raw) = normalize_rel raw"
    by (simp add: normalize_rel_def trim_space_Cons_space)
  then show ?thesis by (simp only: resolve_under_root_def)
qed

text \<open>
  Two index entries, one file: for a name \<open>d\<close>, the indexer's \<open>RelFromRoot\<close> gives the file
  \<open>" " + d\<close> its own relative path, but \<open>ResolveUnderRoot\<close> trims it, so indexing and downloading
  that entry opens whatever file is called \<open>d\<close>, and the file itself is never resolved.
\<close>
theorem leading_space_resolves_elsewhere:
  assumes "list_all proper rs" and "visible d"
  shows "rel_from_root (abs_path rs) (abs_path (rs @ ['' '' @ d])) = Inr ('' '' @ d) \<and>
    resolve_under_root fs root ('' '' @ d) = resolve_under_root fs root d"
proof
  have v: "visible ('' '' @ d)" using assms(2) by (simp add: visible_def)
  then have "check_parts ['' '' @ d] = None" by (simp add: check_parts_None)
  then show "rel_from_root (abs_path rs) (abs_path (rs @ ['' '' @ d])) = Inr ('' '' @ d)"
    using rel_from_root_below [OF assms(1), of "['' '' @ d]"] visible_proper [OF v] by simp
  show "resolve_under_root fs root ('' '' @ d) = resolve_under_root fs root d"
    using resolve_space [of "CHR '' ''"] by (simp add: is_space_def)
qed

theorem leading_space_resolves_elsewhere_witness:
  "rel_from_root (abs_path [''srv'', ''share'']) (abs_path ([''srv'', ''share''] @ ['' '' @ ''a.txt''])) = Inr ('' '' @ ''a.txt'') \<and>
   resolve_under_root demo_fs ''/srv/share'' ('' '' @ ''a.txt'') = resolve_under_root demo_fs ''/srv/share'' ''a.txt''"
  by (rule leading_space_resolves_elsewhere) (simp_all add: proper_def visible_def)

text \<open>
  The contract of a resolver, as the download handler and the indexer rely on it: a resolved path
  is inside the share, and on an unchanged file system resolution is a function of the entry.
\<close>

definition inside_share :: "fs \<Rightarrow> string \<Rightarrow> string \<Rightarrow> bool" where
  "inside_share fs root p \<longleftrightarrow>
     (\<exists>rs ds. clean root = abs_path rs \<and> p = abs_path (rs @ ds) \<and> ds \<noteq> [] \<and>
        list_all proper rs \<and> list_all visible ds \<and> chain_ok fs rs ds)"

locale share_resolver =
  fixes resolve :: "fs \<Rightarrow> string \<Rightarrow> string \<Rightarrow> 'e + string"
    and open_file :: "fs \<Rightarrow> string \<Rightarrow> 'e + string"
    and inside :: "fs \<Rightarrow> string \<Rightarrow> string \<Rightarrow> bool"
  assumes resolve_inside: "resolve fs root raw = Inr p \<Longrightarrow> inside fs root p"
    and open_regular: "open_file fs p = Inr bytes \<Longrightarrow>
      \<exists>i. fs p = Some i \<and> fi_kind i = Regular \<and> fi_data i = bytes"
begin

lemma resolved_open:
  assumes "resolve fs root raw = Inr p" and "open_file fs p = Inr bytes"
  shows "\<exists>i. inside fs root p \<and> fs p = Some i \<and> fi_kind i = Regular \<and> fi_data i = bytes"
  using resolve_inside [OF assms(1)] open_regular [OF assms(2)] by blast

end

interpretation share: share_resolver resolve_under_root open_no_follow inside_share
proof
  fix fs root raw p
  assume "resolve_under_root fs root raw = Inr p"
  from resolve_InrD [OF this] show "inside_share fs root p"
    unfolding inside_share_def by blast
next
  fix fs p bytes
  assume "open_no_follow fs p = Inr bytes"
  then show "\<exists>i. fs p = Some i \<and> fi_kind i = Regular \<and> fi_data i = bytes"
    by (auto simp: open_no_follow_def split: option.splits if_splits)
qed

end
