(* ===== verification/File_Types.thy ===== *)
theory File_Types
  imports Go_Strings
begin

text \<open>
  \<open>internal/files/types.go\<close>: the indexed record and its views. The zero \<open>time.Time\<close> (year 1)
  is \<open>zero_time\<close>; a stored time is the whole second \<open>rfc3339\<close> keeps.
\<close>

definition zero_time :: time where
  "zero_time = - 62135596800 * second"

definition rfc3339 :: "time \<Rightarrow> time" where
  "rfc3339 t = stamp t * second"

lemma rfc3339_idem [simp]: "rfc3339 (rfc3339 t) = rfc3339 t"
  by (simp add: rfc3339_def stamp_def)

lemma rfc3339_mono: "s \<le> t \<Longrightarrow> rfc3339 s \<le> rfc3339 t"
  by (simp add: rfc3339_def stamp_mono)

lemma rfc3339_zero [simp]: "rfc3339 zero_time = zero_time"
  by (simp add: rfc3339_def zero_time_def stamp_def second_def)

record content_id =
  algorithm :: string
  digest :: string

definition urn :: "content_id \<Rightarrow> string" where
  "urn c =
     (if algorithm c = [] \<or> digest c = [] then []
      else ''fedishare:'' @ algorithm c @ '':'' @ digest c)"

record file_rec =
  rec_id :: string
  relative_path :: string
  filename :: string
  mime_type :: string
  size_bytes :: int
  hash_id :: content_id
  modified_at :: time
  indexed_at :: time
  available :: bool
  visibility :: string

definition zero_rec :: file_rec where
  "zero_rec = \<lparr>rec_id = [], relative_path = [], filename = [], mime_type = [], size_bytes = 0,
     hash_id = \<lparr>algorithm = [], digest = []\<rparr>, modified_at = zero_time, indexed_at = zero_time,
     available = False, visibility = []\<rparr>"

record entry =
  e_id :: string
  e_relative_path :: string
  e_name :: string
  e_mime_type :: string
  e_size :: int
  e_hash_urn :: string
  e_available :: bool
  e_download_url :: string

definition entry_of :: "file_rec \<Rightarrow> entry" where
  "entry_of r =
     \<lparr>e_id = rec_id r, e_relative_path = relative_path r, e_name = filename r,
      e_mime_type = mime_type r, e_size = size_bytes r, e_hash_urn = urn (hash_id r),
      e_available = available r, e_download_url = ''/files/'' @ rec_id r\<rparr>"

record dir_rec =
  dir_id :: string
  dir_path :: string
  dir_name :: string
  dir_indexed_at :: time
  dir_available :: bool

definition visibility_public :: string where
  "visibility_public = ''public''"

text \<open>The visibility test shared by the handler, the outbox and \<open>GetPublicFile\<close>.\<close>

definition is_public :: "file_rec \<Rightarrow> bool" where
  "is_public r \<longleftrightarrow> visibility r = [] \<or> visibility r = visibility_public"

datatype file_error = ErrUnavailable | Database_Error | Random_Error

end
