(* ===== verification/Serve.thy ===== *)
theory Serve
  imports Limiter Share_Path File_Types
begin

text \<open>
  \<open>internal/files/serve.go\<close>: the download handler. One request runs against one state of the file
  system; the response is its status, headers and body. \<open>http.ParseTime\<close> is a parameter. The
  bandwidth pacing of the body is the paced reader of \<open>Limiter\<close> and does not change the bytes.
\<close>

section \<open>Identifiers, header values\<close>

definition is_hex :: "char \<Rightarrow> bool" where
  "is_hex c \<longleftrightarrow> is_digit c \<or> (65 \<le> byte c \<and> byte c \<le> 70) \<or> (97 \<le> byte c \<and> byte c \<le> 102)"

definition valid_opaque_id :: "string \<Rightarrow> bool" where
  "valid_opaque_id s \<longleftrightarrow> 16 \<le> length s \<and> length s \<le> 64 \<and> list_all is_hex s"

definition safe_char :: "char \<Rightarrow> char" where
  "safe_char c = (if is_ctl c \<or> c = CHR 0x22 \<or> c = CHR 0x5C then CHR ''_'' else c)"

text \<open>\<open>url.PathEscape\<close>.\<close>

definition path_unreserved :: "char \<Rightarrow> bool" where
  "path_unreserved c \<longleftrightarrow> is_upper c \<or> is_lower c \<or> is_digit c \<or> c \<in> set ''-_.~$&+:=@''"

definition path_escape :: "string \<Rightarrow> string" where
  "path_escape s =
     concat (map (\<lambda>c. if path_unreserved c then [c]
       else [CHR 0x25, hex_digit (byte c div 16), hex_digit (byte c mod 16)]) s)"

definition content_disposition :: "string \<Rightarrow> string" where
  "content_disposition name =
     (let safe0 = map safe_char name; safe = (if safe0 = [] then ''download'' else safe0)
      in ''attachment; filename='' @ [CHR 0x22] @ safe @ [CHR 0x22] @ ''; filename*=UTF-8'' @
         [CHR 0x27, CHR 0x27] @ path_escape name)"

definition etag_weak_match :: "string \<Rightarrow> string \<Rightarrow> bool" where
  "etag_weak_match header etag \<longleftrightarrow>
     list_ex (\<lambda>part. let p = trim_prefix (trim_space part) ''W/'' in p = etag \<or> p = ''*'')
       (split_on (CHR '','') header)"

section \<open>Ranges\<close>

datatype range_error = Range_Empty | Range_Unit | Range_Dash | Range_Number | Range_Start | Range_Bounds

text \<open>The \<open>switch\<close> of \<open>parseRange\<close>, on the two halves of \<open>first-last\<close>.\<close>

definition range_switch :: "string \<Rightarrow> string \<Rightarrow> int \<Rightarrow> range_error + (int \<times> int) list" where
  "range_switch a b sz =
     (if a = [] \<and> b \<noteq> [] then
        (case parse_int64 b of
           None \<Rightarrow> Inl Range_Number
         | Some sfxn \<Rightarrow>
             if sfxn \<le> 0 then Inr []
             else let sfx = (if sfxn > sz then sz else sfxn) in Inr [(sz - sfx, sz - 1)])
      else if a \<noteq> [] \<and> b = [] then
        (case parse_int64 a of
           None \<Rightarrow> Inl Range_Start
         | Some start \<Rightarrow>
             if start < 0 \<or> start \<ge> sz then Inl Range_Start else Inr [(start, sz - 1)])
      else
        (case parse_int64 a of
           None \<Rightarrow> Inl Range_Number
         | Some start \<Rightarrow>
           (case parse_int64 b of
              None \<Rightarrow> Inl Range_Number
            | Some end \<Rightarrow>
                if start < 0 \<or> end < start \<or> start \<ge> sz then Inl Range_Bounds
                else Inr [(start, (if end \<ge> sz then sz - 1 else end))])))"

definition parse_range :: "string \<Rightarrow> int \<Rightarrow> range_error + (int \<times> int) list" where
  "parse_range header0 sz =
     (let header = trim_space header0 in
      if header = [] then Inr []
      else if sz \<le> 0 then Inl Range_Empty
      else if \<not> has_prefix header ''bytes='' then Inl Range_Unit
      else
        let part = trim_space (hd (split_on (CHR '','') (trim_prefix header ''bytes=''))) in
        if part = [] then Inl Range_Empty
        else case cut (CHR ''-'') part of (a, b, dash) \<Rightarrow>
          if \<not> dash then Inl Range_Dash else range_switch a b sz)"

lemma range_switch_cases:
  "range_switch a b sz = Inr rs \<Longrightarrow> 0 < sz \<Longrightarrow>
     rs = [] \<or> (\<exists>s e. rs = [(s, e)] \<and> 0 \<le> s \<and> s \<le> e \<and> e < sz)"
  unfolding range_switch_def Let_def
  by (simp split: if_split_asm option.split_asm; force)

lemma parse_range_switch:
  assumes "parse_range h sz = Inr rs"
  shows "rs = [] \<or> 0 < sz \<and> (\<exists>a b. range_switch a b sz = Inr rs)"
proof (cases "trim_space h = [] \<or> sz \<le> 0")
  case True
  with assms show ?thesis by (auto simp: parse_range_def Let_def split: if_split_asm)
next
  case False
  let ?part = "trim_space (hd (split_on (CHR '','') (trim_prefix (trim_space h) ''bytes='')))"
  obtain a b d where "cut (CHR ''-'') ?part = (a, b, d)" by (cases "cut (CHR ''-'') ?part") auto
  with False assms have "range_switch a b sz = Inr rs"
    unfolding parse_range_def Let_def by (simp only: split_conv if_False de_Morgan_disj split: if_split_asm) simp_all
  with False show ?thesis by (meson linorder_not_less)
qed

lemma parse_range_cases:
  "parse_range h sz = Inr rs \<Longrightarrow> rs = [] \<or> (\<exists>s e. rs = [(s, e)] \<and> 0 \<le> s \<and> s \<le> e \<and> e < sz)"
  using parse_range_switch range_switch_cases by metis

section \<open>The handler\<close>

record http_request =
  req_method :: string
  remote_addr :: string
  path_id :: string
  h_range :: string
  h_if_none_match :: string
  h_if_modified_since :: string

record http_response =
  status :: nat
  headers :: "string \<rightharpoonup> string"
  body :: string

definition http_error :: "(string \<rightharpoonup> string) \<Rightarrow> string \<Rightarrow> nat \<Rightarrow> http_response" where
  "http_error hs msg code =
     \<lparr>status = code,
      headers = hs(''Content-Length'' := None, ''Content-Type'' \<mapsto> ''text/plain; charset=utf-8'',
                   ''X-Content-Type-Options'' \<mapsto> ''nosniff''),
      body = msg @ [CHR 0x0A]\<rparr>"

text \<open>
  What the options of the handler supply: the share root, the record lookup, the pause flag; whether
  \<open>Seek\<close> to an offset of the opened file succeeds; and the two functions of \<open>net/http\<close> on dates.
\<close>

record download_env =
  env_fs :: fs
  env_root :: string
  env_lookup :: "string \<Rightarrow> file_error + file_rec"
  env_paused :: bool
  env_seek :: "int \<Rightarrow> bool"
  parse_time :: "string \<Rightarrow> time option"
  format_time :: "time \<Rightarrow> string"

definition quote :: "string \<Rightarrow> string" where
  "quote s = [CHR 0x22] @ s @ [CHR 0x22]"

definition base_headers :: "download_env \<Rightarrow> file_rec \<Rightarrow> finfo \<Rightarrow> string \<rightharpoonup> string" where
  "base_headers env r i =
     [''Content-Type'' \<mapsto> mime_type r,
      ''Content-Disposition'' \<mapsto> content_disposition (filename r),
      ''Accept-Ranges'' \<mapsto> ''bytes'',
      ''ETag'' \<mapsto> quote (digest (hash_id r)),
      ''Last-Modified'' \<mapsto> format_time env (fi_mtime i),
      ''X-Content-Type-Options'' \<mapsto> ''nosniff'',
      ''Cache-Control'' \<mapsto> ''private, max-age=0, must-revalidate'']"

definition not_modified :: "download_env \<Rightarrow> http_request \<Rightarrow> file_rec \<Rightarrow> finfo \<Rightarrow> bool" where
  "not_modified env r rc i \<longleftrightarrow>
     (h_if_none_match r \<noteq> [] \<and> etag_weak_match (h_if_none_match r) (quote (digest (hash_id rc)))) \<or>
     (case parse_time env (h_if_modified_since r) of
        None \<Rightarrow> False
      | Some t \<Rightarrow> \<not> (t + second < fi_mtime i))"

text \<open>\<open>strconv.FormatInt\<close> and \<open>%d\<close> on a non-negative number.\<close>

definition format_int :: "int \<Rightarrow> string" where
  "format_int n = (if n < 0 then CHR ''-'' # itoa (nat (- n)) else itoa (nat n))"

text \<open>The part of the handler after the slot was granted: conditional requests, range, body.\<close>

definition serve_file :: "download_env \<Rightarrow> http_request \<Rightarrow> file_rec \<Rightarrow> finfo \<Rightarrow> string \<Rightarrow> http_response" where
  "serve_file env r rc i data =
     (let hs = base_headers env rc i in
      if not_modified env r rc i then \<lparr>status = 304, headers = hs, body = []\<rparr>
      else
        let sz = fi_size i in
        case parse_range (h_range r) sz of
          Inl _ \<Rightarrow> http_error (hs(''Content-Range'' \<mapsto> ''bytes */'' @ format_int sz)) ''invalid range'' 416
        | Inr rs \<Rightarrow>
            (case (if length rs = 1
                   then (fst (hd rs), snd (hd rs), 206,
                         hs(''Content-Range'' \<mapsto> ''bytes '' @ format_int (fst (hd rs)) @ ''-'' @
                              format_int (snd (hd rs)) @ ''/'' @ format_int sz))
                   else (0, sz - 1, 200, hs))
             of (start, end, code, hs1) \<Rightarrow>
               let len0 = end - start + 1; len = (if len0 < 0 then 0 else len0);
                   hs2 = hs1(''Content-Length'' \<mapsto> format_int len)
               in if req_method r = ''HEAD'' then \<lparr>status = code, headers = hs2, body = []\<rparr>
                  else if \<not> env_seek env start then http_error hs2 ''not found'' 404
                  else \<lparr>status = code, headers = hs2,
                        body = take (nat len) (drop (nat start) data)\<rparr>))"

text \<open>
  \<open>admit\<close> is the handler up to the opened file: every check in the order of the code, each with
  the message and status of its \<open>http.Error\<close>. \<open>download\<close> is the whole handler.
\<close>

definition admit :: "download_env \<Rightarrow> http_request \<Rightarrow> (string \<times> nat) + (file_rec \<times> finfo \<times> string)" where
  "admit env r =
     (if req_method r \<noteq> ''GET'' \<and> req_method r \<noteq> ''HEAD'' then Inl (''method not allowed'', 405)
      else if path_id r = [] \<or> \<not> valid_opaque_id (path_id r) then Inl (''not found'', 404)
      else if env_paused env then Inl (''sharing is paused'', 503)
      else case env_lookup env (path_id r) of
        Inl _ \<Rightarrow> Inl (''not found'', 404)
      | Inr rc \<Rightarrow>
          if \<not> available rc then Inl (''not found'', 404)
          else if visibility rc \<noteq> [] \<and> visibility rc \<noteq> visibility_public then Inl (''forbidden'', 403)
          else case resolve_under_root (env_fs env) (env_root env) (relative_path rc) of
            Inl _ \<Rightarrow> Inl (''not found'', 404)
          | Inr p \<Rightarrow>
              (case env_fs env p of
                 None \<Rightarrow> Inl (''not found'', 404)
               | Some i \<Rightarrow>
                   if fi_kind i \<noteq> Regular then Inl (''not found'', 404)
                   else if still_inside (env_root env) p \<noteq> None then Inl (''not found'', 404)
                   else case open_no_follow (env_fs env) p of
                     Inl _ \<Rightarrow> Inl (''not found'', 404)
                   | Inr data \<Rightarrow> Inr (rc, i, data)))"

definition download :: "download_env \<Rightarrow> http_request \<Rightarrow> limiter \<Rightarrow> http_response \<times> limiter" where
  "download env r l =
     (case admit env r of
        Inl (msg, code) \<Rightarrow> (http_error Map.empty msg code, l)
      | Inr (rc, i, data) \<Rightarrow>
          (case acquire (remote_addr r) l of
             Inl _ \<Rightarrow> (http_error Map.empty ''too many downloads'' 429, l)
           | Inr (h, l') \<Rightarrow> (serve_file env r rc i data, release h l')))"

lemma admit_refused: "admit env r = Inl (msg, code) \<Longrightarrow> code \<in> {403, 404, 405, 503}"
  unfolding admit_def by (simp split: if_split_asm sum.split_asm option.split_asm; clarsimp)

lemma admitted:
  assumes "admit env r = Inr (rc, i, data)"
  shows "req_method r = ''GET'' \<or> req_method r = ''HEAD''" "valid_opaque_id (path_id r)" "\<not> env_paused env"
    "env_lookup env (path_id r) = Inr rc" "available rc" "is_public rc"
    "\<exists>p. resolve_under_root (env_fs env) (env_root env) (relative_path rc) = Inr p \<and>
       env_fs env p = Some i \<and> fi_kind i = Regular \<and> data = fi_data i"
  using assms unfolding admit_def is_public_def
  by (simp_all add: open_no_follow_def split: if_split_asm sum.split_asm option.split_asm) (clarsimp+)?

lemma http_error_simps [simp]:
  "status (http_error hs m c) = c" "body (http_error hs m c) = m @ [CHR 0x0A]"
  by (simp_all add: http_error_def)

lemma serve_file_status:
  "status (serve_file env r rc i data) \<in> {200, 206, 304, 404, 416}"
  by (auto simp: serve_file_def Let_def split: sum.splits)

text \<open>A range and the bytes it selects.\<close>

definition slice :: "int \<Rightarrow> int \<Rightarrow> string \<Rightarrow> string" where
  "slice s e data = take (nat (e - s + 1)) (drop (nat s) data)"

lemma serve_file_body:
  assumes "status (serve_file env r rc i data) \<in> {200, 206}" and "fi_data i = data" and "req_method r = ''GET''"
  shows "(status (serve_file env r rc i data) = 200 \<and> parse_range (h_range r) (int (length data)) = Inr [] \<and>
       body (serve_file env r rc i data) = data) \<or>
    (\<exists>s e. status (serve_file env r rc i data) = 206 \<and> 0 \<le> s \<and> s \<le> e \<and> e < int (length data) \<and>
       parse_range (h_range r) (int (length data)) = Inr [(s, e)] \<and>
       body (serve_file env r rc i data) = slice s e data)"
proof -
  have sz: "fi_size i = int (length data)" using assms(2) by (simp add: fi_size_def)
  from assms(1) have nm: "\<not> not_modified env r rc i"
    by (auto simp: serve_file_def Let_def)
  from assms(1) nm obtain rs where rs: "parse_range (h_range r) (int (length data)) = Inr rs"
    by (auto simp: serve_file_def Let_def sz split: sum.splits)
  from parse_range_cases [OF rs] show ?thesis
  proof
    assume "rs = []"
    with rs nm assms(1,3) show ?thesis by (auto simp: serve_file_def Let_def sz split: if_splits)
  next
    assume "\<exists>s e. rs = [(s, e)] \<and> 0 \<le> s \<and> s \<le> e \<and> e < int (length data)"
    then obtain s e where "rs = [(s, e)]" "0 \<le> s" "s \<le> e" "e < int (length data)" by blast
    with rs nm assms(1,3) show ?thesis
      by (intro disjI2 exI [of _ s] exI [of _ e]) (auto simp: serve_file_def Let_def sz slice_def split: if_splits)
  qed
qed

lemma download_serves:
  assumes "status (fst (download env r l)) \<in> {200, 206, 304, 416}"
  obtains rc i data h l' where "admit env r = Inr (rc, i, data)" "acquire (remote_addr r) l = Inr (h, l')"
    "download env r l = (serve_file env r rc i data, release h l')"
proof (cases "admit env r")
  case (Inl e)
  then obtain msg code where "admit env r = Inl (msg, code)" by (cases e) auto
  with admit_refused [OF this] assms show ?thesis by (auto simp: download_def)
next
  case (Inr a)
  then obtain rc i data where a: "admit env r = Inr (rc, i, data)" by (cases a) auto
  show ?thesis
  proof (cases "acquire (remote_addr r) l")
    case (Inl e)
    with a assms show ?thesis by (simp add: download_def)
  next
    case (Inr b)
    with a that show ?thesis by (cases b) (simp add: download_def)
  qed
qed

section \<open>Properties\<close>

text \<open>
  Every byte range \<open>parseRange\<close> returns lies inside the file: at most one range, its start is
  not negative, not after its end, and the end is before the size.
\<close>
theorem parse_range_sound:
  assumes "parse_range h sz = Inr rs" and "(s, e) \<in> set rs"
  shows "rs = [(s, e)] \<and> 0 \<le> s \<and> s \<le> e \<and> e < sz"
  using parse_range_cases [OF assms(1)] assms(2) by auto

theorem parse_range_sound_witness:
  "[(2, 10)] = [(2 :: int, 10 :: int)] \<and> (0 :: int) \<le> 2 \<and> (2 :: int) \<le> 10 \<and> (10 :: int) < 11"
  by (rule parse_range_sound [of "'' bytes=2-99, 4-5''"]) code_simp+

text \<open>
  C1. Confidentiality of downloads: the handler answers 200 or 206 to a GET only for an opaque id
  whose record is available and public, while sharing is not paused; the file it sends is a
  regular file below the share root, reached without a symlink; and the body is the whole file when
  the \<open>Range\<close> header of the request asks for no range (200), or exactly the bytes of the one range
  parsed from that header (206).
\<close>
theorem download_only_shared_bytes:
  assumes "req_method r = ''GET''" and "status (fst (download env r l)) \<in> {200, 206}"
  shows "\<not> env_paused env \<and> valid_opaque_id (path_id r) \<and>
    (\<exists>rc p i. env_lookup env (path_id r) = Inr rc \<and> available rc \<and> is_public rc \<and>
      inside_share (env_fs env) (env_root env) p \<and> env_fs env p = Some i \<and> fi_kind i = Regular \<and>
      (status (fst (download env r l)) = 200 \<and> parse_range (h_range r) (fi_size i) = Inr [] \<and>
         body (fst (download env r l)) = fi_data i \<or>
       (\<exists>s e. status (fst (download env r l)) = 206 \<and> parse_range (h_range r) (fi_size i) = Inr [(s, e)] \<and>
          0 \<le> s \<and> s \<le> e \<and> e < fi_size i \<and> body (fst (download env r l)) = slice s e (fi_data i))))"
proof -
  from assms(2) have "status (fst (download env r l)) \<in> {200, 206, 304, 416}" by blast
  then obtain rc i data h l' where a: "admit env r = Inr (rc, i, data)"
    and d: "download env r l = (serve_file env r rc i data, release h l')"
    by (rule download_serves)
  note adm = admitted [OF a]
  from adm(7) obtain p where p: "resolve_under_root (env_fs env) (env_root env) (relative_path rc) = Inr p"
    "env_fs env p = Some i" "fi_kind i = Regular" and data: "data = fi_data i" by blast
  have ins: "inside_share (env_fs env) (env_root env) p" using p(1) by (rule share.resolve_inside)
  have "status (serve_file env r rc i (fi_data i)) \<in> {200, 206}" using assms(2) by (simp add: d data)
  from serve_file_body [OF this refl assms(1)] adm(2-6) p ins show ?thesis
    unfolding d fst_conv fi_size_def data by blast
qed

definition demo_rec :: file_rec where
  "demo_rec = zero_rec\<lparr>rec_id := ''0123456789abcdef'', relative_path := ''docs/a.txt'',
     filename := ''a.txt'', mime_type := ''text/plain'', size_bytes := 11,
     hash_id := \<lparr>algorithm = ''sha256'', digest = ''d1''\<rparr>, available := True, visibility := ''public''\<rparr>"

definition demo_env :: download_env where
  "demo_env = \<lparr>env_fs = demo_fs, env_root = ''/srv/share'',
     env_lookup = (\<lambda>k. if k = ''0123456789abcdef'' then Inr demo_rec else Inl ErrUnavailable),
     env_paused = False, env_seek = (\<lambda>_. True), parse_time = (\<lambda>_. None), format_time = (\<lambda>_. ''T'')\<rparr>"

definition demo_request :: http_request where
  "demo_request = \<lparr>req_method = ''GET'', remote_addr = ''10.0.0.1:5'', path_id = ''0123456789abcdef'',
     h_range = ''bytes=0-4'', h_if_none_match = [], h_if_modified_since = []\<rparr>"

definition demo_limiter :: limiter where
  "demo_limiter = new_limiter \<lparr>max_concurrent = 8, per_client = 4, bandwidth_bps = 0\<rparr>"

lemma demo_download:
  "status (fst (download demo_env demo_request demo_limiter)) = 206"
  "body (fst (download demo_env demo_request demo_limiter)) = ''hello''"
  by code_simp+

theorem download_only_shared_bytes_witness:
  "\<not> env_paused demo_env \<and> valid_opaque_id (path_id demo_request) \<and>
    (\<exists>rc p i. env_lookup demo_env (path_id demo_request) = Inr rc \<and> available rc \<and> is_public rc \<and>
      inside_share (env_fs demo_env) (env_root demo_env) p \<and> env_fs demo_env p = Some i \<and> fi_kind i = Regular \<and>
      (status (fst (download demo_env demo_request demo_limiter)) = 200 \<and> parse_range (h_range demo_request) (fi_size i) = Inr [] \<and>
         body (fst (download demo_env demo_request demo_limiter)) = fi_data i \<or>
       (\<exists>s e. status (fst (download demo_env demo_request demo_limiter)) = 206 \<and> parse_range (h_range demo_request) (fi_size i) = Inr [(s, e)] \<and>
          0 \<le> s \<and> s \<le> e \<and> e < fi_size i \<and> body (fst (download demo_env demo_request demo_limiter)) = slice s e (fi_data i))))"
  by (rule download_only_shared_bytes) (simp_all add: demo_download, simp add: demo_request_def)

text \<open>
  A download leaves the limiter as it found it: on every branch, early errors included, the
  slot that was taken is given back.
\<close>
theorem download_restores_limiter:
  assumes "limiter_ok l"
  shows "snd (download env r l) = l"
  using assms
  by (auto simp: download_def slots.give_take split: sum.split prod.split)

theorem download_restores_limiter_witness:
  "snd (download demo_env demo_request demo_limiter) = demo_limiter"
  by (rule download_restores_limiter) (simp add: limiter_ok_def demo_limiter_def new_limiter_def)

text \<open>
  A suffix range that asks for no byte (\<open>bytes=-0\<close>) is not an unsatisfiable range: it is
  treated as if there were no \<open>Range\<close> header, for every non-empty file, and the whole file is sent
  with status 200.
\<close>
theorem zero_suffix_sends_whole_file:
  "parse_range ''bytes=-0'' sz = (if sz \<le> 0 then Inl Range_Empty else Inr [])"
proof -
  have "trim_space ''bytes=-0'' = ''bytes=-0''" "has_prefix ''bytes=-0'' ''bytes=''"
    "trim_space (hd (split_on (CHR '','') (trim_prefix ''bytes=-0'' ''bytes=''))) = ''-0''"
    "cut (CHR ''-'') ''-0'' = ([], ''0'', True)" "parse_int64 ''0'' = Some 0"
    by code_simp+
  then show ?thesis
    unfolding parse_range_def Let_def by (simp add: range_switch_def)
qed

lemma is_ctl_safe_char: "\<not> is_ctl (safe_char c)"
  by (simp add: safe_char_def is_ctl_def byte_def)

definition plain_char :: "char \<Rightarrow> bool" where
  "plain_char c \<longleftrightarrow> \<not> is_ctl c \<and> c \<noteq> CHR 0x22"

lemma plain_hex: "n < 16 \<Longrightarrow> plain_char (hex_digit n)"
proof -
  assume n: "n < 16"
  then have "byte (hex_digit n) = (if n < 10 then 48 + n else 55 + n)"
    by (simp add: hex_digit_def byte_def)
  moreover have "byte (CHR 0x22) = 34" by (simp add: byte_def)
  ultimately show ?thesis using n by (auto simp: plain_char_def is_ctl_def split: if_split_asm)
qed

lemma plain_unreserved: "path_unreserved c \<Longrightarrow> plain_char c"
  by (auto simp: path_unreserved_def plain_char_def is_upper_def is_lower_def is_digit_def is_ctl_def byte_def)

lemma path_escape_plain: "c \<in> set (path_escape s) \<Longrightarrow> plain_char c"
proof -
  assume "c \<in> set (path_escape s)"
  then obtain d where "c \<in> set (if path_unreserved d then [d]
      else [CHR 0x25, hex_digit (byte d div 16), hex_digit (byte d mod 16)])"
    unfolding path_escape_def set_concat set_map by blast
  moreover have d: "byte d < 256" by (simp add: byte_def)
  then have "plain_char (hex_digit (byte d div 16))"
    by (intro plain_hex) (simp add: less_mult_imp_div_less)
  moreover have "plain_char (hex_digit (byte d mod 16))" by (intro plain_hex) simp
  moreover have "plain_char (CHR 0x25)" by (simp add: plain_char_def is_ctl_def byte_def)
  ultimately show "plain_char c" using plain_unreserved by (auto split: if_split_asm)
qed

lemma path_escape_no_ctl: "c \<in> set (path_escape s) \<Longrightarrow> \<not> is_ctl c \<and> c \<noteq> CHR 0x22"
  using path_escape_plain by (simp add: plain_char_def)

text \<open>
  No header injection through a file name: whatever bytes the name has, the
  \<open>Content-Disposition\<close> value contains no control character (so no CR or LF), and the double
  quotes it contains are the two that enclose the sanitised name.
\<close>
theorem content_disposition_no_injection:
  "filter is_ctl (content_disposition name) = [] \<and>
   length (filter (\<lambda>c. c = CHR 0x22) (content_disposition name)) = 2"
proof -
  let ?safe = "if map safe_char name = [] then ''download'' else map safe_char name"
  have s: "\<not> is_ctl c \<and> c \<noteq> CHR 0x22" if "c \<in> set ?safe" for c
    using that by (auto simp: is_ctl_safe_char) (auto simp: is_ctl_def byte_def safe_char_def split: if_splits)
  have lit: "\<forall>c \<in> set (''attachment; filename='' @ [CHR 0x22] @ ''; filename*=UTF-8'' @ [CHR 0x27, CHR 0x27]). \<not> is_ctl c"
    by (simp add: is_ctl_def byte_def)
  have f: "filter (\<lambda>c. c = CHR 0x22) ?safe = []" and g: "filter (\<lambda>c. c = CHR 0x22) (path_escape name) = []"
    using s path_escape_no_ctl by (auto simp: filter_empty_conv)
  show ?thesis
  proof
    have "\<forall>c \<in> set (content_disposition name). \<not> is_ctl c"
      unfolding content_disposition_def Let_def using s lit path_escape_no_ctl by auto
    then show "filter is_ctl (content_disposition name) = []" by (simp add: filter_empty_conv)
    show "length (filter (\<lambda>c. c = CHR 0x22) (content_disposition name)) = 2"
      unfolding content_disposition_def Let_def filter_append f g by simp
  qed
qed

end
