(* ===== verification/Sql.thy ===== *)
theory Sql
  imports Go_Strings "HOL-Library.Char_ord" "HOL-Library.List_Lexorder" "HOL-Library.Product_Lexorder"
begin

text \<open>
  The relational operations the stores issue as SQL. A table is the list of its rows in the order
  they were inserted (the rowid order); a statement is a function on that list. \<open>lookup\<close> is a
  \<open>SELECT ... WHERE key = ?\<close> on a unique column, \<open>upsert\<close> an
  \<open>INSERT ... ON CONFLICT(key) DO UPDATE\<close>, \<open>update_where\<close> and \<open>delete_where\<close> the statements of those
  names, \<open>page\<close> a \<open>LIMIT ? OFFSET ?\<close>, and \<open>like\<close> the \<open>LIKE ... ESCAPE\<close> operator of SQLite on texts
  without NUL bytes (for others SQLite leaves the result undefined).
\<close>

section \<open>Unique columns\<close>

definition lookup :: "('r \<Rightarrow> 'k) \<Rightarrow> 'k \<Rightarrow> 'r list \<Rightarrow> 'r option" where
  "lookup key k rows = find (\<lambda>r. key r = k) rows"

fun upsert :: "('r \<Rightarrow> 'k) \<Rightarrow> ('r \<Rightarrow> 'r \<Rightarrow> 'r) \<Rightarrow> 'r \<Rightarrow> 'r list \<Rightarrow> 'r list" where
  "upsert key merge r [] = [r]"
| "upsert key merge r (x # xs) =
     (if key x = key r then merge x r # xs else x # upsert key merge r xs)"

definition update_where :: "('r \<Rightarrow> bool) \<Rightarrow> ('r \<Rightarrow> 'r) \<Rightarrow> 'r list \<Rightarrow> 'r list" where
  "update_where P f rows = map (\<lambda>r. if P r then f r else r) rows"

definition delete_where :: "('r \<Rightarrow> bool) \<Rightarrow> 'r list \<Rightarrow> 'r list" where
  "delete_where P rows = filter (\<lambda>r. \<not> P r) rows"

lemma lookup_Nil [sql]: "lookup key k [] = None"
  by (simp add: lookup_def)

lemma lookup_Cons [sql]: "lookup key k (r # rows) = (if key r = k then Some r else lookup key k rows)"
  by (simp add: lookup_def)

lemma lookup_SomeD: "lookup key k rows = Some r \<Longrightarrow> r \<in> set rows \<and> key r = k"
  by (auto simp: lookup_def find_Some_iff in_set_conv_nth)

lemma lookup_None_iff: "lookup key k rows = None \<longleftrightarrow> k \<notin> key ` set rows"
  by (auto simp: lookup_def find_None_iff)

lemma lookup_distinct:
  "distinct (map key rows) \<Longrightarrow> r \<in> set rows \<Longrightarrow> lookup key (key r) rows = Some r"
  by (induction rows) (auto simp: sql image_iff)

lemma lookup_append:
  "lookup key k (xs @ ys) = (case lookup key k xs of None \<Rightarrow> lookup key k ys | Some r \<Rightarrow> Some r)"
  by (induction xs) (auto simp: sql)

lemma upsert_new: "key r \<notin> key ` set rows \<Longrightarrow> upsert key merge r rows = rows @ [r]"
  by (induction rows) auto

lemma lookup_upsert:
  assumes "\<And>x. key (merge x r) = key x"
  shows "lookup key k (upsert key merge r rows) =
    (if k = key r
     then Some (case lookup key (key r) rows of None \<Rightarrow> r | Some x \<Rightarrow> merge x r)
     else lookup key k rows)"
  by (induction rows) (auto simp: sql assms)

lemma keys_upsert:
  assumes "\<And>x. key (merge x r) = key x"
  shows "map key (upsert key merge r rows) =
    (if key r \<in> key ` set rows then map key rows else map key rows @ [key r])"
  by (induction rows) (auto simp: assms)

lemma distinct_upsert:
  assumes "\<And>x. key (merge x r) = key x" and "distinct (map key rows)"
  shows "distinct (map key (upsert key merge r rows))"
  using assms(2) by (simp add: keys_upsert [where key = key and merge = merge, OF assms(1)])

lemma map_upsert_other:
  assumes "\<And>x. other (merge x r) = other x"
  shows "map other (upsert key merge r rows) =
    (if key r \<in> key ` set rows then map other rows else map other rows @ [other r])"
  by (induction rows) (auto simp: assms)

lemma set_upsert_subset: "set (upsert key merge r rows) \<subseteq> insert r (set rows \<union> (\<lambda>x. merge x r) ` set rows)"
  by (induction rows) auto

lemma map_update_where [sql]:
  assumes "\<And>r. P r \<Longrightarrow> key (f r) = key r"
  shows "map key (update_where P f rows) = map key rows"
  using assms by (simp add: update_where_def)

lemma lookup_update_where [sql]:
  assumes "\<And>r. P r \<Longrightarrow> key (f r) = key r"
  shows "lookup key k (update_where P f rows) =
    map_option (\<lambda>r. if P r then f r else r) (lookup key k rows)"
  using assms by (induction rows) (auto simp: sql update_where_def)

lemma lookup_delete_where [sql]:
  "lookup key k (delete_where (\<lambda>r. key r = j) rows) = (if k = j then None else lookup key k rows)"
  by (induction rows) (auto simp: sql delete_where_def)

lemma distinct_delete_where: "distinct (map key rows) \<Longrightarrow> distinct (map key (delete_where P rows))"
  by (simp add: delete_where_def distinct_map_filterI)

section \<open>A table as a map\<close>

text \<open>
  What a client of a key-value table relies on: after a write the written key reads the written
  value and every other key reads as before. The client's fact is that a sequence of writes
  leaves, under each key, the value written last.
\<close>

locale kv_table =
  fixes get :: "'t \<Rightarrow> 'k \<Rightarrow> 'v option"
    and put :: "'k \<Rightarrow> 'v \<Rightarrow> 't \<Rightarrow> 't"
  assumes get_put: "get (put k v t) j = (if j = k then Some v else get t j)"
begin

lemma get_put_same: "get (put k v t) k = Some v"
  by (simp add: get_put)

lemma get_put_other: "j \<noteq> k \<Longrightarrow> get (put k v t) j = get t j"
  by (simp add: get_put)

lemma get_puts:
  "get (fold (\<lambda>(k, v). put k v) kvs t) j =
     (case map_of (rev kvs) j of None \<Rightarrow> get t j | Some v \<Rightarrow> Some v)"
  by (induction kvs arbitrary: t)
    (auto simp: get_put map_add_def split: option.splits)

end

section \<open>LIMIT and OFFSET\<close>

definition page :: "nat \<Rightarrow> nat \<Rightarrow> 'r list \<Rightarrow> 'r list" where
  "page lim off rows = take lim (drop off rows)"

lemma set_page: "set (page lim off rows) \<subseteq> set rows"
  unfolding page_def by (meson order_trans set_drop_subset set_take_subset)

lemma length_page: "length (page lim off rows) = min lim (length rows - off)"
  by (simp add: page_def)

lemma pages_prefix: "concat (map (\<lambda>i. page lim (i * lim) rows) [0..<n]) = take (n * lim) rows"
proof (induction n)
  case (Suc n)
  have "Suc n * lim = n * lim + lim" by simp
  with Suc show ?case
    unfolding page_def by (simp only: upt_Suc_append le0 map_append concat_append take_add) simp
qed simp

lemma pages_cover:
  assumes "0 < lim" and "length rows \<le> n * lim"
  shows "concat (map (\<lambda>i. page lim (i * lim) rows) [0..<n]) = rows"
  using assms by (simp add: pages_prefix)

section \<open>LIKE\<close>

text \<open>
  SQLite's \<open>LIKE\<close> with \<open>ESCAPE '\'\<close>: a percent sign matches any text, an underscore any one
  character, the escape character makes the next pattern character literal; letters compare
  without case for ASCII. A trailing escape matches nothing.
\<close>

datatype like_tok = Any | One | Lit char

fun like_toks :: "string \<Rightarrow> like_tok list option" where
  "like_toks [] = Some []"
| "like_toks (c # s) =
     (if c = CHR 0x5C then
        (case s of [] \<Rightarrow> None | d # t \<Rightarrow> map_option ((#) (Lit d)) (like_toks t))
      else map_option ((#) (if c = CHR 0x25 then Any else if c = CHR ''_'' then One else Lit c)) (like_toks s))"

fun like_match :: "like_tok list \<Rightarrow> string \<Rightarrow> bool" where
  "like_match [] s = (s = [])"
| "like_match (Any # p) s = (like_match p s \<or> (case s of [] \<Rightarrow> False | c # t \<Rightarrow> like_match (Any # p) t))"
| "like_match (One # p) s = (case s of [] \<Rightarrow> False | c # t \<Rightarrow> like_match p t)"
| "like_match (Lit d # p) s = (case s of [] \<Rightarrow> False | c # t \<Rightarrow> lower_char c = lower_char d \<and> like_match p t)"

definition like :: "string \<Rightarrow> string \<Rightarrow> bool" where
  "like pat s = (case like_toks pat of None \<Rightarrow> False | Some p \<Rightarrow> like_match p s)"

lemma like_match_Any_all: "like_match [Any] s"
  by (induction s) auto

lemma like_match_lits:
  "like_match (map Lit q @ p) s \<longleftrightarrow>
     map lower_char (take (length q) s) = map lower_char q \<and> like_match p (drop (length q) s)"
proof (induction q arbitrary: s)
  case (Cons d q)
  then show ?case by (cases s) auto
qed simp

lemma like_match_Any: "like_match (Any # p) s \<longleftrightarrow> (\<exists>u v. s = u @ v \<and> like_match p v)"
proof (induction s)
  case (Cons c s)
  have "(\<exists>u v. c # s = u @ v \<and> like_match p v) \<longleftrightarrow> like_match p (c # s) \<or> (\<exists>u v. s = u @ v \<and> like_match p v)"
    by (auto simp: Cons_eq_append_conv)
  with Cons show ?case by simp
qed simp

end
