(* ===== verification/File_Store.thy ===== *)
theory File_Store
  imports File_Types Serve Sql
begin

text \<open>
  \<open>internal/files/store.go\<close>: the tables \<open>files\<close> (primary key \<open>id\<close>, unique \<open>relative_path\<close>) and
  \<open>directories\<close>, and the statements of \<open>Store\<close> on them. A stored row keeps its times as the text
  of whole seconds, so writing a record rounds both times down with \<open>rfc3339\<close>. \<open>file_env\<close> is what
  an operation takes from outside: the clock, 16 random bytes for a new id, and which statements
  the database fails. \<open>scanOne\<close> and \<open>scanRows\<close> read every column, so a row read is the row stored.
\<close>

datatype file_stmt =
  Select_Id string | Select_Path string | Select_Hash content_id | Delete_Id string
| Update_Id string | Insert_File string | Update_Missing string | Update_All_Missing
| Select_Available | Select_Count | Select_Page | Select_Known | Insert_Dir string
| Update_Dir_Missing string

record file_db =
  file_rows :: "file_rec list"
  dir_rows :: "dir_rec list"

record file_env =
  clock :: time
  entropy :: "file_db \<Rightarrow> string option"
  fault :: "file_stmt \<Rightarrow> bool"

section \<open>Identifiers\<close>

text \<open>\<open>rand.Read\<close> fills a zeroed array of 16 bytes, or fails.\<close>

definition fill16 :: "string \<Rightarrow> string" where
  "fill16 b = take 16 (b @ replicate 16 (CHR 0x00))"

definition new_opaque_id :: "file_env \<Rightarrow> file_db \<Rightarrow> string option" where
  "new_opaque_id env db = map_option (\<lambda>b. hex_encode (fill16 b)) (entropy env db)"

lemma byte_lt: "byte c < 256"
  by (simp add: byte_def)

lemma is_hex_lower: "n < 16 \<Longrightarrow> is_hex (hex_lower n)"
  by (auto simp: hex_lower_def is_hex_def is_digit_def byte_def)

lemma hex_encode_ok: "length (hex_encode s) = 2 * length s \<and> list_all is_hex (hex_encode s)"
proof (induction s)
  case (Cons c s)
  have "byte c div 16 < 16" using byte_lt [of c] by (simp add: less_mult_imp_div_less)
  moreover have "byte c mod 16 < 16" by simp
  ultimately show ?case using Cons by (simp add: is_hex_lower)
qed simp

section \<open>Statements on the files table\<close>

definition stored :: "file_rec \<Rightarrow> file_rec" where
  "stored r = r\<lparr>modified_at := rfc3339 (modified_at r), indexed_at := rfc3339 (indexed_at r)\<rparr>"

text \<open>The \<open>DO UPDATE SET\<close> list of \<open>Upsert\<close>: every column but \<open>id\<close> and \<open>relative_path\<close>.\<close>

definition merge_file :: "file_rec \<Rightarrow> file_rec \<Rightarrow> file_rec" where
  "merge_file old new = new\<lparr>rec_id := rec_id old, relative_path := relative_path old\<rparr>"

text \<open>\<open>None\<close> is a violated constraint: the primary key of an insert, the unique path of an update.\<close>

definition insert_file :: "file_rec \<Rightarrow> file_rec list \<Rightarrow> file_rec list option" where
  "insert_file r rows =
     (if lookup relative_path (relative_path r) rows = None \<and> lookup rec_id (rec_id r) rows \<noteq> None
      then None else Some (upsert relative_path merge_file r rows))"

definition update_file :: "file_rec \<Rightarrow> file_rec list \<Rightarrow> file_rec list option" where
  "update_file r rows =
     (if lookup rec_id (rec_id r) rows \<noteq> None \<and>
         list_ex (\<lambda>x. rec_id x \<noteq> rec_id r \<and> relative_path x = relative_path r) rows
      then None else Some (update_where (\<lambda>x. rec_id x = rec_id r) (\<lambda>_. r) rows))"

definition get_by_id :: "file_env \<Rightarrow> string \<Rightarrow> file_db \<Rightarrow> file_error + file_rec" where
  "get_by_id env i db =
     (if fault env (Select_Id i) then Inl Database_Error
      else case lookup rec_id i (file_rows db) of None \<Rightarrow> Inl ErrUnavailable | Some r \<Rightarrow> Inr r)"

definition get_by_path :: "file_env \<Rightarrow> string \<Rightarrow> file_db \<Rightarrow> file_error + file_rec" where
  "get_by_path env p db =
     (if fault env (Select_Path p) then Inl Database_Error
      else case lookup relative_path p (file_rows db) of None \<Rightarrow> Inl ErrUnavailable | Some r \<Rightarrow> Inr r)"

definition list_by_hash :: "file_env \<Rightarrow> content_id \<Rightarrow> file_db \<Rightarrow> file_error + file_rec list" where
  "list_by_hash env h db =
     (if fault env (Select_Hash h) then Inl Database_Error
      else Inr (filter (\<lambda>r. hash_id r = h) (file_rows db)))"

definition delete_by_id :: "file_env \<Rightarrow> string \<Rightarrow> file_db \<Rightarrow> file_error option \<times> file_db" where
  "delete_by_id env i db =
     (if fault env (Delete_Id i) then (Some Database_Error, db)
      else (None, db\<lparr>file_rows := delete_where (\<lambda>r. rec_id r = i) (file_rows db)\<rparr>))"

text \<open>The defaults both writers put in before their statement.\<close>

definition with_defaults :: "file_env \<Rightarrow> file_rec \<Rightarrow> file_rec" where
  "with_defaults env r =
     (let r1 = (if visibility r = [] then r\<lparr>visibility := visibility_public\<rparr> else r)
      in if indexed_at r1 = zero_time then r1\<lparr>indexed_at := clock env\<rparr> else r1)"

text \<open>The id \<open>Upsert\<close> writes under: the record's, the one already at its path, or a new one.\<close>

definition upsert_id :: "file_env \<Rightarrow> file_rec \<Rightarrow> file_db \<Rightarrow> string option" where
  "upsert_id env r db =
     (if rec_id r = []
      then (case get_by_path env (relative_path r) db of
              Inr old \<Rightarrow> Some (rec_id old)
            | Inl _ \<Rightarrow> new_opaque_id env db)
      else Some (rec_id r))"

definition upsert_file :: "file_env \<Rightarrow> file_rec \<Rightarrow> file_db \<Rightarrow> (file_error + file_rec) \<times> file_db" where
  "upsert_file env r db =
     (case upsert_id env r db of
        None \<Rightarrow> (Inl Random_Error, db)
      | Some i \<Rightarrow>
          let r' = with_defaults env (r\<lparr>rec_id := i\<rparr>) in
          if fault env (Insert_File (relative_path r)) then (Inl Database_Error, db)
          else (case insert_file (stored r') (file_rows db) of
                  None \<Rightarrow> (Inl Database_Error, db)
                | Some rows \<Rightarrow> (Inr r', db\<lparr>file_rows := rows\<rparr>)))"

text \<open>The record \<open>Save\<close> deletes first: another one that holds the target path.\<close>

definition evict_other :: "file_env \<Rightarrow> file_rec \<Rightarrow> file_db \<Rightarrow> file_error option \<times> file_db" where
  "evict_other env r db =
     (case get_by_path env (relative_path r) db of
        Inr other \<Rightarrow> if rec_id other \<noteq> rec_id r then delete_by_id env (rec_id other) db else (None, db)
      | Inl _ \<Rightarrow> (None, db))"

definition save_file :: "file_env \<Rightarrow> file_rec \<Rightarrow> file_db \<Rightarrow> (file_error + file_rec) \<times> file_db" where
  "save_file env r db =
     (if rec_id r = [] then upsert_file env r db
      else case get_by_id env (rec_id r) db of
        Inl _ \<Rightarrow> upsert_file env r db
      | Inr _ \<Rightarrow>
          (case evict_other env r db of
             (Some e, db1) \<Rightarrow> (Inl e, db1)
           | (None, db1) \<Rightarrow>
               let r' = with_defaults env r in
               if fault env (Update_Id (rec_id r)) then (Inl Database_Error, db1)
               else (case update_file (stored r') (file_rows db1) of
                       None \<Rightarrow> (Inl Database_Error, db1)
                     | Some rows \<Rightarrow> (Inr r', db1\<lparr>file_rows := rows\<rparr>))))"

definition missing_at :: "time \<Rightarrow> file_rec \<Rightarrow> file_rec" where
  "missing_at t r = r\<lparr>available := False, indexed_at := rfc3339 t\<rparr>"

definition mark_missing :: "file_env \<Rightarrow> string \<Rightarrow> file_db \<Rightarrow> file_error option \<times> file_db" where
  "mark_missing env p db =
     (if fault env (Update_Missing p) then (Some Database_Error, db)
      else (None, db\<lparr>file_rows :=
        update_where (\<lambda>r. relative_path r = p) (missing_at (clock env)) (file_rows db)\<rparr>))"

definition mark_all_missing :: "file_env \<Rightarrow> file_db \<Rightarrow> file_error option \<times> file_db" where
  "mark_all_missing env db =
     (if fault env Update_All_Missing then (Some Database_Error, db)
      else (None, db\<lparr>file_rows := update_where (\<lambda>_. True) (missing_at (clock env)) (file_rows db)\<rparr>))"

section \<open>Queries\<close>

definition list_available :: "file_env \<Rightarrow> int \<Rightarrow> file_db \<Rightarrow> file_error + file_rec list" where
  "list_available env limit db =
     (let lim = (if limit \<le> 0 then 200 else limit) in
      if fault env Select_Available then Inl Database_Error
      else Inr (page (nat lim) 0
        (sort_key (\<lambda>r. to_lower (filename r)) (filter available (file_rows db)))))"

definition count_public :: "file_env \<Rightarrow> file_db \<Rightarrow> file_error + nat" where
  "count_public env db =
     (if fault env Select_Count then Inl Database_Error
      else Inr (length (filter (\<lambda>r. available r \<and> is_public r) (file_rows db))))"

text \<open>\<open>strings.ReplaceAll\<close> of one character.\<close>

definition escape_with :: "char \<Rightarrow> string \<Rightarrow> string" where
  "escape_with c s = concat (map (\<lambda>d. if d = c then [CHR 0x5C, d] else [d]) s)"

definition like_contains :: "string \<Rightarrow> string" where
  "like_contains q =
     [CHR 0x25] @ escape_with (CHR ''_'') (escape_with (CHR 0x25) (escape_with (CHR 0x5C) q)) @ [CHR 0x25]"

definition search_term :: "string \<Rightarrow> string" where
  "search_term q0 = (let q = trim_space q0 in if length q > 200 then take 200 q else q)"

definition search_limit :: "int \<Rightarrow> nat" where
  "search_limit limit = nat (if limit \<le> 0 \<or> limit > 80 then 25 else limit)"

definition search_where :: "string \<Rightarrow> file_rec \<Rightarrow> bool" where
  "search_where q r \<longleftrightarrow>
     available r \<and> is_public r \<and>
     (q = [] \<or> like (like_contains q) (filename r) \<or> like (like_contains q) (relative_path r))"

text \<open>\<open>ORDER BY indexed_at DESC, id DESC\<close>; ids are unique, so the order has no ties.\<close>

definition newest_first :: "file_rec list \<Rightarrow> file_rec list" where
  "newest_first rows = rev (sort_key (\<lambda>r. (indexed_at r, rec_id r)) rows)"

definition search_public ::
  "file_env \<Rightarrow> string \<Rightarrow> int \<Rightarrow> int \<Rightarrow> file_db \<Rightarrow> file_error + (file_rec list \<times> nat)" where
  "search_public env q0 offset limit db =
     (let lim = search_limit limit; off = nat (if offset < 0 then 0 else offset); q = search_term q0;
          hits = filter (search_where q) (file_rows db) in
      if fault env Select_Count then Inl Database_Error
      else if fault env Select_Page then Inl Database_Error
      else Inr (page lim off (newest_first hits), length hits))"

definition list_public_page :: "file_env \<Rightarrow> int \<Rightarrow> int \<Rightarrow> file_db \<Rightarrow> file_error + file_rec list" where
  "list_public_page env offset limit db = map_sum id fst (search_public env [] offset limit db)"

definition summary :: "file_env \<Rightarrow> file_db \<Rightarrow> file_error + (nat \<times> int)" where
  "summary env db =
     (if fault env Select_Count then Inl Database_Error
      else let rows = filter available (file_rows db) in Inr (length rows, sum_list (map size_bytes rows)))"

definition known_paths :: "file_env \<Rightarrow> file_db \<Rightarrow> file_error + (string \<rightharpoonup> file_rec)" where
  "known_paths env db =
     (if fault env Select_Known then Inl Database_Error
      else Inr (map_of (rev (map (\<lambda>r. (relative_path r, r)) (file_rows db)))))"

section \<open>Directories\<close>

definition upsert_dir :: "file_env \<Rightarrow> dir_rec \<Rightarrow> file_db \<Rightarrow> file_error option \<times> file_db" where
  "upsert_dir env d db =
     (case (if dir_id d = [] then new_opaque_id env db else Some (dir_id d)) of
        None \<Rightarrow> (Some Random_Error, db)
      | Some i \<Rightarrow>
          let at = (if dir_indexed_at d = zero_time then clock env else dir_indexed_at d);
              d' = d\<lparr>dir_id := i, dir_indexed_at := rfc3339 at\<rparr> in
          if fault env (Insert_Dir (dir_path d)) \<or>
             (lookup dir_path (dir_path d) (dir_rows db) = None \<and> lookup dir_id i (dir_rows db) \<noteq> None)
          then (Some Database_Error, db)
          else (None, db\<lparr>dir_rows :=
            upsert dir_path (\<lambda>old new. new\<lparr>dir_id := dir_id old, dir_path := dir_path old\<rparr>) d' (dir_rows db)\<rparr>))"

definition mark_dir_missing :: "file_env \<Rightarrow> string \<Rightarrow> file_db \<Rightarrow> file_error option \<times> file_db" where
  "mark_dir_missing env p db =
     (if fault env (Update_Dir_Missing p) then (Some Database_Error, db)
      else (None, db\<lparr>dir_rows := update_where (\<lambda>d. dir_path d = p)
        (\<lambda>d. d\<lparr>dir_available := False, dir_indexed_at := rfc3339 (clock env)\<rparr>) (dir_rows db)\<rparr>))"

section \<open>The invariant of the tables\<close>

text \<open>
  Ids and paths are unique in both tables; a stored file has an id and a visibility, and its
  times are whole seconds.
\<close>

definition row_ok :: "file_rec \<Rightarrow> bool" where
  "row_ok r \<longleftrightarrow> rec_id r \<noteq> [] \<and> visibility r \<noteq> [] \<and> stored r = r"

definition rows_ok :: "file_rec list \<Rightarrow> bool" where
  "rows_ok rows \<longleftrightarrow> distinct (map rec_id rows) \<and> distinct (map relative_path rows) \<and> (\<forall>r \<in> set rows. row_ok r)"

definition dirs_ok :: "dir_rec list \<Rightarrow> bool" where
  "dirs_ok rows \<longleftrightarrow> distinct (map dir_id rows) \<and> distinct (map dir_path rows)"

definition files_ok :: "file_db \<Rightarrow> bool" where
  "files_ok db \<longleftrightarrow> rows_ok (file_rows db) \<and> dirs_ok (dir_rows db)"

lemma merge_file_simps [simp]:
  "relative_path (merge_file old new) = relative_path old" "rec_id (merge_file old new) = rec_id old"
  by (simp_all add: merge_file_def)

lemma stored_simps [simp]:
  "rec_id (stored r) = rec_id r" "relative_path (stored r) = relative_path r"
  "visibility (stored r) = visibility r" "available (stored r) = available r" "stored (stored r) = stored r"
  "filename (stored r) = filename r" "size_bytes (stored r) = size_bytes r" "hash_id (stored r) = hash_id r"
  by (simp_all add: stored_def)

lemma with_defaults_simps [simp]:
  "rec_id (with_defaults env r) = rec_id r" "relative_path (with_defaults env r) = relative_path r"
  "visibility (with_defaults env r) \<noteq> []" "available (with_defaults env r) = available r"
  "hash_id (with_defaults env r) = hash_id r" "size_bytes (with_defaults env r) = size_bytes r"
  by (simp_all add: with_defaults_def Let_def visibility_public_def)

lemma stored_fix: "stored r = r \<longleftrightarrow> rfc3339 (modified_at r) = modified_at r \<and> rfc3339 (indexed_at r) = indexed_at r"
  by (cases r) (simp add: stored_def)

lemma row_ok_stored: "rec_id r \<noteq> [] \<Longrightarrow> row_ok (stored (with_defaults env r))"
  by (simp add: row_ok_def)

lemma row_ok_merge: "row_ok old \<Longrightarrow> row_ok new \<Longrightarrow> row_ok (merge_file old new)"
  by (simp add: row_ok_def merge_file_def stored_fix)

lemma row_ok_missing: "row_ok r \<Longrightarrow> row_ok (missing_at t r)"
  by (simp add: row_ok_def missing_at_def stored_fix)

lemma rows_ok_insert:
  assumes "rows_ok rows" "row_ok r" "insert_file r rows = Some rows'"
  shows "rows_ok rows'"
proof -
  from assms(3) have r': "rows' = upsert relative_path merge_file r rows"
    and c: "relative_path r \<in> relative_path ` set rows \<or> rec_id r \<notin> rec_id ` set rows"
    by (auto simp: insert_file_def lookup_None_iff simp flip: not_None_eq split: if_split_asm)
  have "distinct (map rec_id rows')"
    using assms(1) c map_upsert_other [where other = rec_id and key = relative_path and merge = merge_file
      and r = r and rows = rows, OF merge_file_simps(2)]
    by (auto simp: r' rows_ok_def)
  moreover have "distinct (map relative_path rows')"
    unfolding r' using assms(1) by (intro distinct_upsert) (simp_all add: rows_ok_def)
  moreover have "\<forall>x \<in> set rows'. row_ok x"
    using assms(1,2) set_upsert_subset [of relative_path merge_file r rows]
    by (auto simp: r' rows_ok_def intro: row_ok_merge)
  ultimately show ?thesis by (simp add: rows_ok_def)
qed

lemma rows_ok_update_where:
  assumes "rows_ok rows" and "\<And>r. row_ok r \<Longrightarrow> row_ok (f r)"
    and "\<And>r. rec_id (f r) = rec_id r" "\<And>r. relative_path (f r) = relative_path r"
  shows "rows_ok (update_where P f rows)"
  using assms by (auto simp: rows_ok_def map_update_where update_where_def o_def if_distrib cong: if_cong)

lemma rows_ok_delete: "rows_ok rows \<Longrightarrow> rows_ok (delete_where P rows)"
  by (auto simp: rows_ok_def distinct_delete_where) (simp add: delete_where_def)

lemma distinct_update_path:
  assumes "distinct (map relative_path rows)" "distinct (map rec_id rows)"
    and "\<forall>x \<in> set rows. rec_id x \<noteq> rec_id r \<longrightarrow> relative_path x \<noteq> relative_path r"
  shows "distinct (map relative_path (update_where (\<lambda>x. rec_id x = rec_id r) (\<lambda>_. r) rows))"
  using assms by (induction rows) (auto simp: update_where_def image_iff split: if_split_asm)

lemma rows_ok_update:
  assumes "rows_ok rows" "row_ok r" "update_file r rows = Some rows'"
  shows "rows_ok rows'"
proof -
  have r': "rows' = update_where (\<lambda>x. rec_id x = rec_id r) (\<lambda>_. r) rows"
    using assms(3) by (simp add: update_file_def split: if_split_asm)
  have ids: "map rec_id rows' = map rec_id rows"
    by (simp add: r' update_where_def)
  have "distinct (map relative_path rows')"
  proof (cases "lookup rec_id (rec_id r) rows")
    case None
    then have "rows' = rows" unfolding r' update_where_def lookup_None_iff by (intro map_idI) (metis image_eqI)
    then show ?thesis using assms(1) by (simp add: rows_ok_def)
  next
    case (Some x)
    then show ?thesis
      using assms unfolding r'
      by (intro distinct_update_path) (auto simp: rows_ok_def update_file_def list_ex_iff split: if_split_asm)
  qed
  moreover have "\<forall>x \<in> set rows'. row_ok x"
    using assms(1,2) by (auto simp: r' update_where_def rows_ok_def)
  ultimately show ?thesis using assms(1) ids by (simp add: rows_ok_def)
qed

lemma new_opaque_id_ok:
  "new_opaque_id env db = Some i \<Longrightarrow> i \<noteq> [] \<and> valid_opaque_id i"
proof -
  assume "new_opaque_id env db = Some i"
  then obtain b where b: "i = hex_encode (fill16 b)" by (auto simp: new_opaque_id_def)
  have "length (fill16 b) = 16" by (simp add: fill16_def)
  with b hex_encode_ok [of "fill16 b"] show ?thesis by (auto simp: valid_opaque_id_def)
qed

text \<open>What a successful \<open>Upsert\<close> did.\<close>

lemma upsert_file_cases:
  assumes "upsert_file env r db = (res, db')"
  obtains (failed) e where "res = Inl e" "db' = db"
  | (wrote) i rows where "upsert_id env r db = Some i" "res = Inr (with_defaults env (r\<lparr>rec_id := i\<rparr>))"
      "insert_file (stored (with_defaults env (r\<lparr>rec_id := i\<rparr>))) (file_rows db) = Some rows"
      "db' = db\<lparr>file_rows := rows\<rparr>"
proof (cases "upsert_id env r db")
  case None
  with assms failed show ?thesis by (auto simp: upsert_file_def)
next
  case (Some i)
  let ?r = "with_defaults env (r\<lparr>rec_id := i\<rparr>)"
  have up: "(res, db') = (if fault env (Insert_File (relative_path r)) then (Inl Database_Error, db)
      else case insert_file (stored ?r) (file_rows db) of None \<Rightarrow> (Inl Database_Error, db)
        | Some rows \<Rightarrow> (Inr ?r, db\<lparr>file_rows := rows\<rparr>))"
    unfolding assms [symmetric] by (simp add: upsert_file_def Some Let_def)
  show ?thesis
  proof (cases "fault env (Insert_File (relative_path r)) \<or> insert_file (stored ?r) (file_rows db) = None")
    case True
    with up have "res = Inl Database_Error" "db' = db" by (auto split: if_split_asm)
    then show ?thesis by (rule failed)
  next
    case False
    then obtain rows where rows: "insert_file (stored ?r) (file_rows db) = Some rows" by blast
    with up False have "res = Inr ?r" "db' = db\<lparr>file_rows := rows\<rparr>" by simp_all
    with Some rows show ?thesis by (intro wrote)
  qed
qed

lemma upsert_id_ok:
  assumes "files_ok db" "upsert_id env r db = Some i"
  shows "i \<noteq> []"
proof (cases "get_by_path env (relative_path r) db")
  case (Inl e)
  with assms new_opaque_id_ok show ?thesis
    by (auto simp: upsert_id_def split: if_split_asm)
next
  case (Inr old)
  then have "old \<in> set (file_rows db)"
    by (auto simp: get_by_path_def split: if_split_asm option.split_asm dest: lookup_SomeD)
  with assms(1) have "rec_id old \<noteq> []" by (auto simp: files_ok_def rows_ok_def row_ok_def)
  with Inr assms(2) show ?thesis by (auto simp: upsert_id_def split: if_split_asm)
qed

lemma upsert_file_ok:
  assumes "files_ok db" "upsert_file env r db = (res, db')"
  shows "files_ok db'"
  using assms(2)
proof (cases rule: upsert_file_cases)
  case (wrote i rows)
  have "rows_ok rows"
    using assms(1) upsert_id_ok [OF assms(1) wrote(1)]
    by (intro rows_ok_insert [OF _ _ wrote(3)]) (simp_all add: files_ok_def row_ok_stored)
  with assms(1) wrote(4) show ?thesis by (simp add: files_ok_def)
qed (use assms in simp)

lemma delete_by_id_ok: "files_ok db \<Longrightarrow> files_ok (snd (delete_by_id env i db))"
  by (simp add: delete_by_id_def files_ok_def rows_ok_delete)

lemma save_file_ok:
  assumes "files_ok db" "save_file env r db = (res, db')"
  shows "files_ok db'"
proof (cases "rec_id r = [] \<or> (\<exists>e. get_by_id env (rec_id r) db = Inl e)")
  case True
  then have "save_file env r db = upsert_file env r db" unfolding save_file_def by fastforce
  then have "upsert_file env r db = (res, db')" using assms(2) by simp
  with assms show ?thesis by (blast intro: upsert_file_ok)
next
  case False
  then obtain x where x: "get_by_id env (rec_id r) db = Inr x" "rec_id r \<noteq> []"
    by (metis sum.exhaust_sel)
  obtain m db1 where m: "evict_other env r db = (m, db1)" by fastforce
  have db1: "files_ok db1"
    using m assms(1) delete_by_id_ok [OF assms(1), of env]
    by (auto simp: evict_other_def split: sum.split_asm if_split_asm) (metis snd_conv)
  have up: "rows_ok rows" if "update_file (stored (with_defaults env r)) (file_rows db1) = Some rows" for rows
    using db1 x(2) by (intro rows_ok_update [OF _ _ that]) (simp_all add: files_ok_def row_ok_stored)
  show ?thesis
  proof (cases m)
    case None
    then show ?thesis
      using assms(2) x m db1 up
      by (auto simp: save_file_def Let_def files_ok_def split: if_split_asm option.split_asm)
  next
    case (Some e)
    then show ?thesis using assms(2) x m db1 by (simp add: save_file_def)
  qed
qed

lemma mark_missing_ok: "files_ok db \<Longrightarrow> files_ok (snd (mark_missing env p db))"
  by (auto simp: mark_missing_def files_ok_def row_ok_missing intro!: rows_ok_update_where)
    (simp_all add: missing_at_def)

lemma mark_all_missing_ok: "files_ok db \<Longrightarrow> files_ok (snd (mark_all_missing env db))"
  by (auto simp: mark_all_missing_def files_ok_def row_ok_missing intro!: rows_ok_update_where)
    (simp_all add: missing_at_def)

lemma upsert_dir_ok: "files_ok db \<Longrightarrow> files_ok (snd (upsert_dir env d db))"
  by (auto simp: upsert_dir_def Let_def files_ok_def dirs_ok_def map_upsert_other keys_upsert
      lookup_None_iff split: option.split if_split_asm)

lemma mark_dir_missing_ok: "files_ok db \<Longrightarrow> files_ok (snd (mark_dir_missing env p db))"
  by (simp add: mark_dir_missing_def files_ok_def dirs_ok_def map_update_where)


text \<open>The operations of \<open>Store\<close> that write, as one machine.\<close>

datatype file_op =
  Do_Upsert file_rec | Do_Save file_rec | Do_Delete string | Do_Missing string | Do_All_Missing
| Do_Dir dir_rec | Do_Dir_Missing string

fun file_step :: "file_db \<Rightarrow> file_env \<times> file_op \<Rightarrow> file_db" where
  "file_step db (env, Do_Upsert r) = snd (upsert_file env r db)"
| "file_step db (env, Do_Save r) = snd (save_file env r db)"
| "file_step db (env, Do_Delete i) = snd (delete_by_id env i db)"
| "file_step db (env, Do_Missing p) = snd (mark_missing env p db)"
| "file_step db (env, Do_All_Missing) = snd (mark_all_missing env db)"
| "file_step db (env, Do_Dir d) = snd (upsert_dir env d db)"
| "file_step db (env, Do_Dir_Missing p) = snd (mark_dir_missing env p db)"

lemmas file_ops_ok = delete_by_id_ok mark_missing_ok mark_all_missing_ok upsert_dir_ok mark_dir_missing_ok

lemma file_step_ok: "files_ok db \<Longrightarrow> files_ok (file_step db e)"
proof (cases e)
  case (Pair env op)
  assume ok: "files_ok db"
  note up = upsert_file_ok [OF ok, of env] and sv = save_file_ok [OF ok, of env]
  show ?thesis
    unfolding Pair
    by (cases op) (auto simp: ok file_ops_ok intro: up [OF surjective_pairing] sv [OF surjective_pairing])
qed

interpretation file_tables: machine file_step files_ok
  by unfold_locales (rule file_step_ok)

definition empty_files :: file_db where
  "empty_files = \<lparr>file_rows = [], dir_rows = []\<rparr>"

lemma files_ok_empty: "files_ok empty_files"
  by (simp add: files_ok_def rows_ok_def dirs_ok_def empty_files_def)

section \<open>The tables as maps\<close>

definition at_path :: "file_db \<Rightarrow> string \<rightharpoonup> file_rec" where
  "at_path db = (\<lambda>p. lookup relative_path p (file_rows db))"

definition with_id :: "file_db \<Rightarrow> string \<rightharpoonup> file_rec" where
  "with_id db = (\<lambda>i. lookup rec_id i (file_rows db))"

lemma lookup_iff:
  "distinct (map key rows) \<Longrightarrow> lookup key k rows = Some r \<longleftrightarrow> r \<in> set rows \<and> key r = k"
  using lookup_SomeD lookup_distinct by metis

lemma at_path_iff: "files_ok db \<Longrightarrow> at_path db p = Some r \<longleftrightarrow> r \<in> set (file_rows db) \<and> relative_path r = p"
  by (simp add: at_path_def files_ok_def rows_ok_def lookup_iff)

lemma with_id_iff: "files_ok db \<Longrightarrow> with_id db i = Some r \<longleftrightarrow> r \<in> set (file_rows db) \<and> rec_id r = i"
  by (simp add: with_id_def files_ok_def rows_ok_def lookup_iff)

lemma same_path_same_id:
  "files_ok db \<Longrightarrow> r \<in> set (file_rows db) \<Longrightarrow> x \<in> set (file_rows db) \<Longrightarrow>
     relative_path r = relative_path x \<longleftrightarrow> rec_id r = rec_id x"
  unfolding files_ok_def rows_ok_def by (metis distinct_map inj_onD)

lemma at_path_insert:
  assumes "insert_file r (file_rows db) = Some rows"
  shows "at_path (db\<lparr>file_rows := rows\<rparr>) =
    (at_path db)(relative_path r \<mapsto> (case at_path db (relative_path r) of None \<Rightarrow> r | Some x \<Rightarrow> merge_file x r))"
proof -
  have "rows = upsert relative_path merge_file r (file_rows db)"
    using assms by (simp add: insert_file_def split: if_split_asm)
  then show ?thesis
    by (simp add: at_path_def fun_eq_iff lookup_upsert)
qed

lemma at_path_delete:
  assumes "files_ok db" "x \<in> set (file_rows db)"
  shows "at_path (db\<lparr>file_rows := delete_where (\<lambda>r. rec_id r = rec_id x) (file_rows db)\<rparr>) =
    (at_path db)(relative_path x := None)"
proof -
  have "delete_where (\<lambda>r. rec_id r = rec_id x) (file_rows db) =
      delete_where (\<lambda>r. relative_path r = relative_path x) (file_rows db)"
    unfolding delete_where_def using same_path_same_id [OF assms(1) _ assms(2)] by (auto intro!: filter_cong)
  then show ?thesis by (simp add: at_path_def fun_eq_iff lookup_delete_where)
qed

lemma at_path_update:
  assumes ok: "files_ok db" and ok': "files_ok (db\<lparr>file_rows := rows\<rparr>)"
    and x: "with_id db (rec_id r) = Some x" and up: "update_file r (file_rows db) = Some rows"
  shows "at_path (db\<lparr>file_rows := rows\<rparr>) = (at_path db)(relative_path x := None, relative_path r \<mapsto> r)"
proof
  fix p
  have rows: "rows = update_where (\<lambda>y. rec_id y = rec_id r) (\<lambda>_. r) (file_rows db)"
    and free: "\<And>y. y \<in> set (file_rows db) \<Longrightarrow> rec_id y \<noteq> rec_id r \<Longrightarrow> relative_path y \<noteq> relative_path r"
    using up x by (auto simp: update_file_def with_id_def list_ex_iff split: if_split_asm)
  have xin: "x \<in> set (file_rows db)" "rec_id x = rec_id r" using x ok by (simp_all add: with_id_iff)
  have same: "\<And>y. y \<in> set (file_rows db) \<Longrightarrow> relative_path y = relative_path x \<longleftrightarrow> rec_id y = rec_id r"
    using same_path_same_id [OF ok _ xin(1)] xin(2) by simp
  have set: "set rows = insert r {y \<in> set (file_rows db). rec_id y \<noteq> rec_id r}"
    using xin by (auto simp: rows update_where_def image_iff)
  have "at_path (db\<lparr>file_rows := rows\<rparr>) p = Some y \<longleftrightarrow>
      ((at_path db)(relative_path x := None, relative_path r \<mapsto> r)) p = Some y" for y
    using xin free same
    by (auto simp: at_path_iff [OF ok'] at_path_iff [OF ok] set)
  then show "at_path (db\<lparr>file_rows := rows\<rparr>) p = ((at_path db)(relative_path x := None, relative_path r \<mapsto> r)) p"
    by (metis option.exhaust)
qed


lemma at_path_evict:
  assumes "files_ok db" "evict_other env r db = (None, db1)" "\<not> fault env (Select_Path (relative_path r))"
  shows "at_path db1 = (case at_path db (relative_path r) of
      Some other \<Rightarrow> if rec_id other \<noteq> rec_id r then (at_path db)(relative_path r := None) else at_path db
    | None \<Rightarrow> at_path db)" "files_ok db1"
    "\<And>x. x \<in> set (file_rows db1) \<longleftrightarrow> x \<in> set (file_rows db) \<and> (rec_id x = rec_id r \<or> relative_path x \<noteq> relative_path r)"
proof -
  have lk: "at_path db p = lookup relative_path p (file_rows db)" for p by (simp add: at_path_def)
  have main: "at_path db1 = (case at_path db (relative_path r) of
      Some other \<Rightarrow> if rec_id other \<noteq> rec_id r then (at_path db)(relative_path r := None) else at_path db
    | None \<Rightarrow> at_path db) \<and> files_ok db1 \<and>
    (\<forall>x. x \<in> set (file_rows db1) \<longleftrightarrow> x \<in> set (file_rows db) \<and> (rec_id x = rec_id r \<or> relative_path x \<noteq> relative_path r))"
  proof (cases "at_path db (relative_path r)")
    case None
    then have "db1 = db" using assms by (simp add: evict_other_def get_by_path_def lk)
    have "relative_path r \<notin> relative_path ` set (file_rows db)"
      using None by (simp add: lk lookup_None_iff)
    then have "\<And>x. x \<in> set (file_rows db) \<Longrightarrow> relative_path x \<noteq> relative_path r" by (metis image_eqI)
    with \<open>db1 = db\<close> show ?thesis using None assms(1) by auto
  next
    case (Some other)
    then have o: "other \<in> set (file_rows db)" "relative_path other = relative_path r"
      using assms(1) by (simp_all add: at_path_iff)
    show ?thesis
    proof (cases "rec_id other = rec_id r")
      case True
      then have "db1 = db" using Some assms by (simp add: evict_other_def get_by_path_def lk)
      with Some assms(1) True show ?thesis
        using same_path_same_id [OF assms(1) _ o(1)] o(2) by auto
    next
      case False
      then have db1: "db1 = db\<lparr>file_rows := delete_where (\<lambda>x. rec_id x = rec_id other) (file_rows db)\<rparr>"
        using Some assms(2,3)
        by (auto simp: evict_other_def get_by_path_def lk delete_by_id_def split: if_split_asm)
      have "files_ok db1" using assms(1) by (simp add: db1 files_ok_def rows_ok_delete)
      moreover have "x \<in> set (file_rows db1) \<longleftrightarrow> x \<in> set (file_rows db) \<and> (rec_id x = rec_id r \<or> relative_path x \<noteq> relative_path r)" for x
        using same_path_same_id [OF assms(1) _ o(1), of x] o False by (auto simp: db1 delete_where_def)
      ultimately show ?thesis using at_path_delete [OF assms(1) o(1)] Some False o(2) by (simp add: db1)
    qed
  qed
  show "at_path db1 = (case at_path db (relative_path r) of
      Some other \<Rightarrow> if rec_id other \<noteq> rec_id r then (at_path db)(relative_path r := None) else at_path db
    | None \<Rightarrow> at_path db)" "files_ok db1"
    "\<And>x. x \<in> set (file_rows db1) \<longleftrightarrow> x \<in> set (file_rows db) \<and> (rec_id x = rec_id r \<or> relative_path x \<noteq> relative_path r)"
    using main by blast+
qed

lemma upsert_file_at_path:
  assumes "upsert_file env r db = (res, db')"
  shows "case res of
      Inl _ \<Rightarrow> db' = db
    | Inr r' \<Rightarrow> at_path db' = (at_path db)(relative_path r \<mapsto>
        (case at_path db (relative_path r) of None \<Rightarrow> stored r' | Some old \<Rightarrow> (stored r')\<lparr>rec_id := rec_id old\<rparr>))"
  using assms
proof (cases rule: upsert_file_cases)
  case (wrote i rows)
  have m: "merge_file old (stored (with_defaults env (r\<lparr>rec_id := i\<rparr>))) =
      (stored (with_defaults env (r\<lparr>rec_id := i\<rparr>)))\<lparr>rec_id := rec_id old\<rparr>"
    if "at_path db (relative_path r) = Some old" for old
    using that by (auto simp: at_path_def merge_file_def dest!: lookup_SomeD)
  show ?thesis
    using at_path_insert [OF wrote(3)] by (auto simp: wrote(2,4) m split: option.split)
qed simp

text \<open>
  What the writers leave alone: an upsert touches only its own path; a save may besides free the
  path its id had before.
\<close>

lemma upsert_file_frame:
  assumes "upsert_file env r db = (res, db')" and "q \<noteq> relative_path r"
  shows "at_path db' q = at_path db q"
  using upsert_file_at_path [OF assms(1)] assms(2) by (cases res) simp_all

lemma upsert_file_wrote:
  assumes "upsert_file env r db = (Inr r', db')"
  shows "\<exists>i. at_path db' (relative_path r) = Some ((stored r')\<lparr>rec_id := i\<rparr>)"
proof -
  have eq: "stored r' = (stored r')\<lparr>rec_id := rec_id r'\<rparr>" by (simp add: stored_def)
  have "at_path db' (relative_path r) = Some (case at_path db (relative_path r) of
      None \<Rightarrow> stored r' | Some old \<Rightarrow> (stored r')\<lparr>rec_id := rec_id old\<rparr>)"
    using upsert_file_at_path [OF assms] by simp
  then show ?thesis
    by (cases "at_path db (relative_path r)") (metis eq option.simps(4), metis option.simps(5))
qed

lemma evict_frame:
  assumes "files_ok db" "evict_other env r db = (m, db1)"
  shows "files_ok db1" "q \<noteq> relative_path r \<Longrightarrow> at_path db1 q = at_path db q"
    "with_id db1 (rec_id r) = with_id db (rec_id r)"
proof -
  have "db1 = db \<or> (\<exists>x \<in> set (file_rows db). relative_path x = relative_path r \<and> rec_id x \<noteq> rec_id r \<and>
      db1 = db\<lparr>file_rows := delete_where (\<lambda>y. rec_id y = rec_id x) (file_rows db)\<rparr>)"
    using assms(2)
    by (auto simp: evict_other_def get_by_path_def delete_by_id_def split: if_split_asm option.split_asm
        dest!: lookup_SomeD)
  then have "files_ok db1 \<and> (q \<noteq> relative_path r \<longrightarrow> at_path db1 q = at_path db q) \<and>
    with_id db1 (rec_id r) = with_id db (rec_id r)"
  proof
    assume "\<exists>x \<in> set (file_rows db). relative_path x = relative_path r \<and> rec_id x \<noteq> rec_id r \<and>
      db1 = db\<lparr>file_rows := delete_where (\<lambda>y. rec_id y = rec_id x) (file_rows db)\<rparr>"
    then obtain x where x: "x \<in> set (file_rows db)" "relative_path x = relative_path r" "rec_id x \<noteq> rec_id r"
      and db1: "db1 = db\<lparr>file_rows := delete_where (\<lambda>y. rec_id y = rec_id x) (file_rows db)\<rparr>" by blast
    have "files_ok db1" using assms(1) by (simp add: db1 files_ok_def rows_ok_delete)
    moreover have "with_id db1 (rec_id r) = with_id db (rec_id r)"
      using x(3) by (simp add: db1 with_id_def lookup_delete_where)
    ultimately show ?thesis using at_path_delete [OF assms(1) x(1)] x(2) by (simp add: db1)
  qed (use assms(1) in simp)
  then show "files_ok db1" "q \<noteq> relative_path r \<Longrightarrow> at_path db1 q = at_path db q"
    "with_id db1 (rec_id r) = with_id db (rec_id r)" by blast+
qed

lemma save_file_cases:
  assumes "save_file env r db = (res, db')"
  obtains (upserts) "upsert_file env r db = (res, db')"
  | (fails) e m where "res = Inl e" "evict_other env r db = (m, db')"
  | (moves) old db1 rows where "evict_other env r db = (None, db1)" "with_id db (rec_id r) = Some old"
      "update_file (stored (with_defaults env r)) (file_rows db1) = Some rows" "rec_id r \<noteq> []"
      "res = Inr (with_defaults env r)" "db' = db1\<lparr>file_rows := rows\<rparr>"
proof (cases "rec_id r = [] \<or> (\<exists>e. get_by_id env (rec_id r) db = Inl e)")
  case True
  then have "save_file env r db = upsert_file env r db" unfolding save_file_def by fastforce
  with assms show ?thesis by (intro upserts) simp
next
  case False
  then obtain x where x: "get_by_id env (rec_id r) db = Inr x" "rec_id r \<noteq> []"
    by (metis sum.exhaust_sel)
  then have old: "with_id db (rec_id r) = Some x"
    by (simp add: get_by_id_def with_id_def split: if_split_asm option.split_asm)
  obtain m db1 where m: "evict_other env r db = (m, db1)" by fastforce
  show ?thesis
  proof (cases "m \<noteq> None \<or> fault env (Update_Id (rec_id r)) \<or>
      update_file (stored (with_defaults env r)) (file_rows db1) = None")
    case True
    then have "(\<exists>e. res = Inl e) \<and> db' = db1"
      using assms x m by (cases m) (auto simp: save_file_def Let_def split: if_split_asm)
    with m show ?thesis by (auto intro: fails)
  next
    case False
    then obtain rows where "update_file (stored (with_defaults env r)) (file_rows db1) = Some rows" by blast
    with False m x old assms show ?thesis by (intro moves) (auto simp: save_file_def Let_def)
  qed
qed

lemma save_file_frame:
  assumes ok: "files_ok db" and sv: "save_file env r db = (res, db')" and q: "q \<noteq> relative_path r"
  shows "at_path db' q = at_path db q \<or>
    at_path db' q = None \<and> (\<exists>x. with_id db (rec_id r) = Some x \<and> relative_path x = q)"
  using sv
proof (cases rule: save_file_cases)
  case upserts
  then show ?thesis using q by (simp add: upsert_file_frame)
next
  case (fails e m)
  then show ?thesis using q evict_frame(2) [OF ok] by blast
next
  case (moves old db1 rows)
  note ev = evict_frame [OF ok moves(1)]
  have ok': "files_ok (db1\<lparr>file_rows := rows\<rparr>)"
    using save_file_ok [OF ok sv] moves(6) by simp
  have "with_id db1 (rec_id (stored (with_defaults env r))) = Some old" using ev(3) moves(2) by simp
  from at_path_update [OF ev(1) ok' this moves(3)] show ?thesis
    using q ev(2) [OF q] moves(2,6) by auto
qed

lemma save_file_wrote:
  assumes ok: "files_ok db" and sv: "save_file env r db = (Inr r', db')"
  shows "\<exists>i. at_path db' (relative_path r) = Some ((stored r')\<lparr>rec_id := i\<rparr>)"
  using sv
proof (cases rule: save_file_cases)
  case upserts
  then show ?thesis by (rule upsert_file_wrote)
next
  case (moves old db1 rows)
  note ev = evict_frame [OF ok moves(1)]
  have ok': "files_ok (db1\<lparr>file_rows := rows\<rparr>)"
    using save_file_ok [OF ok sv] moves(6) by simp
  have "with_id db1 (rec_id (stored (with_defaults env r))) = Some old" using ev(3) moves(2) by simp
  from at_path_update [OF ev(1) ok' this moves(3)] have "at_path db' (relative_path r) = Some (stored r')"
    using moves(5,6) by simp
  then show ?thesis by (metis (no_types, lifting) file_rec.surjective file_rec.update_convs(1))
qed simp

section \<open>Search\<close>

lemma escape_with_append: "escape_with c (s @ t) = escape_with c s @ escape_with c t"
  by (simp add: escape_with_def)

definition like_escape :: "string \<Rightarrow> string" where
  "like_escape q = escape_with (CHR ''_'') (escape_with (CHR 0x25) (escape_with (CHR 0x5C) q))"

lemma like_escape_simps:
  "like_escape [] = []"
  "like_escape (c # q) =
     (if c = CHR 0x5C \<or> c = CHR 0x25 \<or> c = CHR ''_'' then [CHR 0x5C, c] else [c]) @ like_escape q"
  by (auto simp: like_escape_def escape_with_def)

lemma like_toks_escape:
  "like_toks (like_escape q @ t) = map_option ((@) (map Lit q)) (like_toks t)"
  by (induction q) (auto simp: like_escape_simps option.map_comp o_def option.map_ident)

lemma like_contains_toks: "like_toks (like_contains q) = Some (Any # map Lit q @ [Any])"
  using like_toks_escape [of q "[CHR 0x25]"] by (simp add: like_contains_def like_escape_def)

lemma like_contains_iff:
  "like (like_contains q) s \<longleftrightarrow> (\<exists>u v w. s = u @ v @ w \<and> to_lower v = to_lower q)"
proof
  assume "like (like_contains q) s"
  then obtain u v where s: "s = u @ v" and v: "map lower_char (take (length q) v) = map lower_char q"
    by (auto simp: like_def like_contains_toks like_match_Any like_match_lits simp del: like_match.simps)
  have "s = u @ take (length q) v @ drop (length q) v" by (simp add: s)
  with v show "\<exists>u v w. s = u @ v @ w \<and> to_lower v = to_lower q"
    unfolding to_lower_def by blast
next
  assume "\<exists>u v w. s = u @ v @ w \<and> to_lower v = to_lower q"
  then obtain u v w where s: "s = u @ v @ w" and v: "map lower_char v = map lower_char q"
    by (auto simp: to_lower_def)
  then have "length v = length q" by (metis length_map)
  with v have "like_match (map Lit q @ [Any]) (v @ w)"
    by (simp add: like_match_lits like_match_Any_all del: like_match.simps)
  then show "like (like_contains q) s"
    unfolding like_def like_contains_toks option.case like_match_Any s by blast
qed

lemma search_limit_le: "search_limit limit \<le> 80"
  by (auto simp: search_limit_def nat_le_iff)

lemma set_newest_first [simp]: "set (newest_first rows) = set rows"
  by (simp add: newest_first_def)

lemma length_newest_first [simp]: "length (newest_first rows) = length rows"
  by (simp add: newest_first_def)

lemma sorted_newest_first:
  "sorted_wrt (\<lambda>r s. (indexed_at s, rec_id s) \<le> (indexed_at r, rec_id r)) (newest_first rows)"
proof -
  have "sorted_wrt (\<le>) (map (\<lambda>r. (indexed_at r, rec_id r)) (sort_key (\<lambda>r. (indexed_at r, rec_id r)) rows))"
    by simp
  then show ?thesis unfolding newest_first_def sorted_wrt_rev sorted_wrt_map .
qed

lemma distinct_newest_first: "distinct (map rec_id rows) \<Longrightarrow> distinct (newest_first rows)"
  by (simp add: newest_first_def distinct_map)

section \<open>Properties\<close>

text \<open>
  C15. Whatever sequence of the store's writing operations runs, with any clock, any random bytes and
  any failing statements: ids and paths stay unique, every stored file has a non-empty id and
  visibility, and every stored time is a whole second.
\<close>
theorem file_store_invariant:
  "files_ok (run file_step empty_files ops)"
  by (rule file_tables.run_invar [OF files_ok_empty])

text \<open>
  \<open>Upsert\<close> is a map update at the record's path: when it succeeds, the path reads the written
  record (times rounded to seconds) under the id the path already had, if it had one, and every
  other path reads as before. When it fails the table is unchanged.
\<close>
theorem upsert_file_updates_path:
  assumes "upsert_file env r db = (res, db')"
  shows "case res of
      Inl _ \<Rightarrow> db' = db
    | Inr r' \<Rightarrow> at_path db' = (at_path db)(relative_path r \<mapsto>
        (case at_path db (relative_path r) of None \<Rightarrow> stored r' | Some old \<Rightarrow> (stored r')\<lparr>rec_id := rec_id old\<rparr>))"
  by (rule upsert_file_at_path [OF assms])

definition demo_env_files :: file_env where
  "demo_env_files = \<lparr>clock = 5 * second, entropy = (\<lambda>_. Some ''0123456789abcdef''), fault = (\<lambda>_. False)\<rparr>"

lemma demo_upsert:
  "upsert_file demo_env_files demo_rec empty_files =
     (Inr (with_defaults demo_env_files demo_rec),
      \<lparr>file_rows = [stored (with_defaults demo_env_files demo_rec)], dir_rows = []\<rparr>)"
proof -
  have "upsert_id demo_env_files demo_rec empty_files = Some (rec_id demo_rec)"
    by (simp add: upsert_id_def demo_rec_def)
  moreover have "demo_rec\<lparr>rec_id := rec_id demo_rec\<rparr> = demo_rec" by simp
  ultimately show ?thesis
    by (simp add: upsert_file_def insert_file_def empty_files_def demo_env_files_def sql Let_def)
qed

theorem upsert_file_updates_path_witness:
  "at_path \<lparr>file_rows = [stored (with_defaults demo_env_files demo_rec)], dir_rows = []\<rparr> =
     (at_path empty_files)(relative_path demo_rec \<mapsto> stored (with_defaults demo_env_files demo_rec))"
  using upsert_file_updates_path [OF demo_upsert] by (simp add: at_path_def empty_files_def sql)

text \<open>
  \<open>Save\<close> of a record with a known id is a move: the id keeps one row, which now reads the
  written record at its new path; the path it had before is free; a different record that held the
  new path is gone; every other path reads as before.
\<close>
theorem save_file_moves:
  assumes "files_ok db" and "with_id db (rec_id r) = Some old" and "rec_id r \<noteq> []"
    and "\<not> fault env (Select_Id (rec_id r))" and "\<not> fault env (Select_Path (relative_path r))"
    and "save_file env r db = (Inr r', db')"
  shows "at_path db' = (at_path db)(relative_path old := None, relative_path r \<mapsto> stored r')"
proof -
  have "get_by_id env (rec_id r) db = Inr old"
    using assms(2,4) by (simp add: get_by_id_def with_id_def)
  then obtain db1 where ev: "evict_other env r db = (None, db1)"
    using assms(3,6) by (auto simp: save_file_def split: prod.split_asm option.split_asm)
  note db1 = at_path_evict [OF assms(1) ev assms(5)]
  from \<open>get_by_id env (rec_id r) db = Inr old\<close> obtain rows where
    up: "update_file (stored (with_defaults env r)) (file_rows db1) = Some rows"
    and r': "r' = with_defaults env r" "db' = db1\<lparr>file_rows := rows\<rparr>"
    using assms(3,6) ev by (auto simp: save_file_def Let_def split: if_split_asm option.split_asm)
  have old: "with_id db1 (rec_id (stored (with_defaults env r))) = Some old"
    using assms(1,2) db1(2,3) by (simp add: with_id_iff)
  have ok': "files_ok (db1\<lparr>file_rows := rows\<rparr>)"
    using db1(2) assms(3) rows_ok_update [OF _ _ up] by (simp add: files_ok_def row_ok_stored)
  have oldp: "at_path db (relative_path old) = Some old" "rec_id old = rec_id r"
    using assms(1,2) by (simp_all add: with_id_iff at_path_iff)
  show ?thesis
    unfolding r'(2) at_path_update [OF db1(2) ok' old up] db1(1) r'(1)
    by (auto simp: fun_eq_iff split: option.split)
qed

definition moved_rec :: file_rec where
  "moved_rec = demo_rec\<lparr>relative_path := ''b.txt'', indexed_at := second\<rparr>"

lemma moved_rec_simps:
  "rec_id moved_rec = rec_id demo_rec" "relative_path moved_rec = ''b.txt''" "rec_id demo_rec \<noteq> []"
  "relative_path demo_rec = ''docs/a.txt''" "visibility demo_rec \<noteq> []" "with_defaults env moved_rec = moved_rec"
  by (simp_all add: moved_rec_def demo_rec_def with_defaults_def zero_time_def second_def)

theorem save_file_moves_witness:
  "at_path \<lparr>file_rows = [stored moved_rec], dir_rows = []\<rparr> =
    (at_path \<lparr>file_rows = [stored demo_rec], dir_rows = []\<rparr>)(relative_path (stored demo_rec) := None,
       relative_path moved_rec \<mapsto> stored moved_rec)"
proof (rule save_file_moves [where env = demo_env_files and r = moved_rec])
  show "files_ok \<lparr>file_rows = [stored demo_rec], dir_rows = []\<rparr>"
    by (simp add: files_ok_def rows_ok_def row_ok_def dirs_ok_def moved_rec_simps)
  show "save_file demo_env_files moved_rec \<lparr>file_rows = [stored demo_rec], dir_rows = []\<rparr> =
      (Inr moved_rec, \<lparr>file_rows = [stored moved_rec], dir_rows = []\<rparr>)"
    by (simp add: save_file_def get_by_id_def evict_other_def get_by_path_def update_file_def sql
        demo_env_files_def Let_def update_where_def moved_rec_simps)
qed (simp_all add: with_id_def sql demo_env_files_def moved_rec_simps)

text \<open>
  C37. Search finds substrings, whatever characters the query has: the escaped \<open>LIKE\<close> pattern matches
  exactly the texts that contain the query, comparing ASCII letters without case; percent signs,
  underscores and backslashes in the query match themselves.
\<close>
theorem like_contains_matches_substrings:
  "like (like_contains q) s \<longleftrightarrow> (\<exists>u v w. s = u @ v @ w \<and> to_lower v = to_lower q)"
  by (rule like_contains_iff)

text \<open>
  The public listing shows only public files: every record \<open>SearchPublic\<close> returns is stored, is
  available, is public and contains the query in its name or path; at most 80 are returned, newest
  first; and the total counts all records with these properties.
\<close>
theorem search_public_only_public:
  assumes "search_public env q offset limit db = Inr (recs, cnt)"
  shows "(\<forall>r \<in> set recs. r \<in> set (file_rows db) \<and> available r \<and> is_public r) \<and>
    length recs \<le> 80 \<and>
    sorted_wrt (\<lambda>r s. (indexed_at s, rec_id s) \<le> (indexed_at r, rec_id r)) recs \<and>
    cnt = length (filter (search_where (search_term q)) (file_rows db))"
proof -
  let ?hits = "filter (search_where (search_term q)) (file_rows db)"
  let ?off = "nat (if offset < 0 then 0 else offset)"
  from assms have recs: "recs = page (search_limit limit) ?off (newest_first ?hits)" and tot: "cnt = length ?hits"
    by (simp_all add: search_public_def Let_def split: if_split_asm)
  have "set recs \<subseteq> set ?hits" using set_page [of "search_limit limit" ?off "newest_first ?hits"] recs by simp
  then have "\<forall>r \<in> set recs. r \<in> set (file_rows db) \<and> available r \<and> is_public r"
    by (auto simp: search_where_def)
  moreover have "length recs \<le> 80" using search_limit_le [of limit] by (simp add: recs length_page min.coboundedI1)
  moreover have "sorted_wrt (\<lambda>r s. (indexed_at s, rec_id s) \<le> (indexed_at r, rec_id r)) recs"
    unfolding recs page_def using sorted_newest_first sorted_wrt_take sorted_wrt_drop by blast
  ultimately show ?thesis using tot by blast
qed

lemma demo_search:
  "search_public demo_env_files ''A.T'' (-3) 0 \<lparr>file_rows = [demo_rec], dir_rows = []\<rparr> = Inr ([demo_rec], 1)"
proof -
  have "search_where (search_term ''A.T'') demo_rec"
    by (simp add: search_where_def is_public_def demo_rec_def visibility_public_def) code_simp
  then show ?thesis
    by (simp add: search_public_def Let_def newest_first_def page_def search_limit_def demo_env_files_def)
qed

theorem search_public_only_public_witness:
  "available demo_rec \<and> is_public demo_rec \<and>
   1 = length (filter (search_where (search_term ''A.T'')) [demo_rec])"
  using search_public_only_public [OF demo_search] by simp

text \<open>
  Paging is complete: reading consecutive pages of a size from 1 to 80 until the offset passes
  the total gives every public file exactly once.
\<close>
theorem list_public_pages_complete:
  assumes "files_ok db" and "\<not> fault env Select_Count" and "\<not> fault env Select_Page"
    and "0 < sz" and "sz \<le> 80"
    and "length (filter (\<lambda>r. available r \<and> is_public r) (file_rows db)) \<le> n * sz"
  shows "let recs = concat (map (\<lambda>i. case list_public_page env (int (i * sz)) (int sz) db of Inr p \<Rightarrow> p | Inl _ \<Rightarrow> []) [0..<n])
    in distinct recs \<and> set recs = {r \<in> set (file_rows db). available r \<and> is_public r}"
proof -
  let ?hits = "filter (search_where []) (file_rows db)"
  have sw: "search_where [] = (\<lambda>r. available r \<and> is_public r)" by (simp add: search_where_def fun_eq_iff)
  have t: "search_term [] = []" by (simp add: search_term_def Let_def)
  have pg: "list_public_page env (int (i * sz)) (int sz) db = Inr (page sz (i * sz) (newest_first ?hits))" for i
    using assms(2-5) by (simp add: list_public_page_def search_public_def Let_def search_limit_def t
        del: of_nat_mult)
  have d: "distinct (map rec_id ?hits)"
    using assms(1) by (auto simp: files_ok_def rows_ok_def intro: distinct_map_filterI)
  have "concat (map (\<lambda>i. page sz (i * sz) (newest_first ?hits)) [0..<n]) = newest_first ?hits"
    using assms(4,6) by (intro pages_cover) (simp_all add: sw)
  moreover have "set (newest_first ?hits) = {r \<in> set (file_rows db). available r \<and> is_public r}"
    by (auto simp: sw)
  ultimately show ?thesis
    using distinct_newest_first [OF d] by (simp only: pg sum.case Let_def)
qed

theorem list_public_pages_complete_witness:
  "let recs = concat (map (\<lambda>i. case list_public_page demo_env_files (int (i * 1)) (int 1)
        \<lparr>file_rows = [stored demo_rec], dir_rows = []\<rparr> of Inr p \<Rightarrow> p | Inl _ \<Rightarrow> []) [0..<2])
    in distinct recs \<and> set recs = {r \<in> set (file_rows \<lparr>file_rows = [stored demo_rec], dir_rows = []\<rparr>). available r \<and> is_public r}"
proof (rule list_public_pages_complete)
  show "files_ok \<lparr>file_rows = [stored demo_rec], dir_rows = []\<rparr>"
    by (simp add: files_ok_def rows_ok_def row_ok_def dirs_ok_def) (simp add: demo_rec_def)
qed (simp_all add: demo_env_files_def)

end
