(* ===== verification/Indexer.thy ===== *)
theory Indexer
  imports File_Store Status
begin

text \<open>
  \<open>internal/indexer/indexer.go\<close> and \<open>internal/files/mime.go\<close>, \<open>hash.go\<close>: the walk over the share,
  the indexing of one file with its move detection, the removal of records whose file is gone, and
  the changes reported to federation. \<open>index_env\<close> is what one operation sees: the file store's
  environment, the file system, the walked tree, the observations of \<open>waitStable\<close>, SHA-256, the MIME
  tables of the standard library, and the order in which Go iterates over a map.
\<close>

section \<open>Environment\<close>

datatype node = Node string kind "finfo option" bool "node list"

text \<open>
  A directory entry: its name, the type \<open>ReadDir\<close> reports, what \<open>d.Info()\<close> returns (\<open>None\<close> is an
  error), whether the directory can be listed, and its entries in the order of \<open>WalkDir\<close>.
\<close>

record index_env =
  ix_store :: file_env
  ix_root :: string
  ix_fs :: fs
  ix_tree :: node
  ix_obs :: "string \<Rightarrow> nat \<Rightarrow> time \<times> finfo option"
  ix_sha :: "string \<Rightarrow> string"
  ix_type_by_ext :: "string \<Rightarrow> string"
  ix_sniff :: "string \<Rightarrow> string"
  ix_order :: "file_rec list \<Rightarrow> file_rec list"
  ix_cancelled :: "string \<Rightarrow> bool"
  ix_hook :: bool

datatype change_kind = Change_Create | Change_Update | Change_Delete

type_synonym change = "change_kind \<times> file_rec"

datatype index_error =
  Path_Failure path_error | Lstat_Failure | Symlink_Failure | Hash_Failure path_error
| Store_Failure file_error | Walk_Failure

section \<open>Files on disk\<close>

text \<open>\<open>filepath.Ext\<close>: from the last dot of the last element.\<close>

definition path_ext :: "string \<Rightarrow> string" where
  "path_ext p =
     (let b = last (split_on slash p) in
      if CHR ''.'' \<in> set b then CHR ''.'' # last (split_on (CHR ''.'') b) else [])"

definition octet_stream :: string where
  "octet_stream = ''application/octet-stream''"

definition detect_mime :: "index_env \<Rightarrow> string \<Rightarrow> string" where
  "detect_mime env p =
     (let ext = to_lower (path_ext p) in
      if ext \<noteq> [] \<and> ix_type_by_ext env ext \<noteq> [] then ix_type_by_ext env ext
      else case open_no_follow (ix_fs env) p of
        Inl _ \<Rightarrow> octet_stream
      | Inr data \<Rightarrow> (let buf = take 512 data in if buf = [] then octet_stream else ix_sniff env buf))"

definition hash_file :: "index_env \<Rightarrow> string \<Rightarrow> path_error + content_id" where
  "hash_file env p =
     map_sum id (\<lambda>data. \<lparr>algorithm = ''sha256'', digest = ix_sha env data\<rparr>) (open_no_follow (ix_fs env) p)"

definition file_unchanged :: "fs \<Rightarrow> string \<Rightarrow> file_rec \<Rightarrow> bool" where
  "file_unchanged fs p r =
     (case fs p of
        None \<Rightarrow> False
      | Some i \<Rightarrow>
          fi_kind i = Regular \<and> fi_size i = size_bytes r \<and>
          (available r \<and> digest (hash_id r) \<noteq> [] \<and> rfc3339 (fi_mtime i) = rfc3339 (modified_at r)))"

text \<open>
  \<open>waitStable\<close>: at most six looks at the file, each with the time it is made; \<open>prev\<close> is the
  previous look.
\<close>

fun wait_stable :: "nat \<Rightarrow> (nat \<Rightarrow> time \<times> finfo option) \<Rightarrow> nat \<Rightarrow> finfo option \<Rightarrow> index_error + finfo option" where
  "wait_stable 0 obs i prev = Inr prev"
| "wait_stable (Suc n) obs i prev =
     (case obs i of
        (_, None) \<Rightarrow> Inl Lstat_Failure
      | (now, Some info) \<Rightarrow>
          if fi_kind info = Symlink then Inl Symlink_Failure
          else if now - fi_mtime info > second then Inr (Some info)
          else (case prev of
                  Some p \<Rightarrow>
                    if fi_size p = fi_size info \<and> fi_mtime p = fi_mtime info then Inr (Some info)
                    else wait_stable n obs (i + 1) (Some info)
                | None \<Rightarrow> wait_stable n obs (i + 1) (Some info)))"

definition max_stable_try :: nat where
  "max_stable_try = 6"

section \<open>Changes\<close>

definition emit :: "index_env \<Rightarrow> change_kind \<Rightarrow> file_rec \<Rightarrow> change list" where
  "emit env k r = (if \<not> ix_hook env \<or> rec_id r = [] then [] else [(k, r)])"

section \<open>Moves\<close>

text \<open>The three records the loop of \<open>moveCandidate\<close> collects; an empty id is an unset one.\<close>

record candidates =
  same_path :: file_rec
  missing :: file_rec
  stale :: file_rec

definition candidate_step :: "index_env \<Rightarrow> string \<Rightarrow> string \<Rightarrow> candidates \<Rightarrow> file_rec \<Rightarrow> candidates" where
  "candidate_step env root p c r =
     (if relative_path r = p then c\<lparr>same_path := r\<rparr>
      else if \<not> available r then (if rec_id (missing c) = [] then c\<lparr>missing := r\<rparr> else c)
      else case resolve_under_root (ix_fs env) root (relative_path r) of
        Inl _ \<Rightarrow> (if rec_id (stale c) = [] then c\<lparr>stale := r\<rparr> else c)
      | Inr a \<Rightarrow> (if ix_fs env a = None \<and> rec_id (stale c) = [] then c\<lparr>stale := r\<rparr> else c))"

definition no_candidates :: candidates where
  "no_candidates = \<lparr>same_path = zero_rec, missing = zero_rec, stale = zero_rec\<rparr>"

definition move_candidate :: "index_env \<Rightarrow> string \<Rightarrow> string \<Rightarrow> content_id \<Rightarrow> file_db \<Rightarrow> file_rec option" where
  "move_candidate env root p sm db =
     (case list_by_hash (ix_store env) sm db of
        Inl _ \<Rightarrow> None
      | Inr matches \<Rightarrow>
          if matches = [] then None
          else let c = foldl (candidate_step env root p) no_candidates matches in
            if rec_id (missing c) \<noteq> [] then Some (missing c)
            else if rec_id (stale c) \<noteq> [] then Some (stale c)
            else if rec_id (same_path c) \<noteq> [] then Some (same_path c)
            else None)"

section \<open>Indexing one file\<close>

text \<open>
  What \<open>indexFileLocked\<close> reads before it writes: the observed size and time, the digest, the MIME
  type. A look that never succeeds does not happen: the loop runs at least once.
\<close>

definition observe :: "index_env \<Rightarrow> string \<Rightarrow> string \<Rightarrow> index_error + (finfo \<times> content_id \<times> string)" where
  "observe env root p =
     (case resolve_under_root (ix_fs env) root p of
        Inl e \<Rightarrow> Inl (Path_Failure e)
      | Inr resolved \<Rightarrow>
          (case wait_stable max_stable_try (ix_obs env resolved) 0 None of
             Inl e \<Rightarrow> Inl e
           | Inr None \<Rightarrow> Inl Lstat_Failure
           | Inr (Some info) \<Rightarrow>
               (case hash_file env resolved of
                  Inl e \<Rightarrow> Inl (Hash_Failure e)
                | Inr sm \<Rightarrow> Inr (info, sm, detect_mime env resolved))))"

text \<open>The previous record of the path, replaced by a moved one; the replaced record is deleted.\<close>

definition pick_previous :: "index_env \<Rightarrow> string \<Rightarrow> string \<Rightarrow> content_id \<Rightarrow> file_db \<Rightarrow> file_rec \<times> file_db" where
  "pick_previous env root p sm db =
     (let prev = (case get_by_path (ix_store env) p db of Inl _ \<Rightarrow> zero_rec | Inr r \<Rightarrow> r) in
      case move_candidate env root p sm db of
        None \<Rightarrow> (prev, db)
      | Some cand \<Rightarrow>
          (cand, if rec_id prev \<noteq> [] \<and> rec_id prev \<noteq> rec_id cand
                 then snd (delete_by_id (ix_store env) (rec_id prev) db) else db))"

definition index_record :: "string \<Rightarrow> file_rec \<Rightarrow> finfo \<Rightarrow> content_id \<Rightarrow> string \<Rightarrow> file_rec" where
  "index_record p prev info sm mime =
     \<lparr>rec_id = rec_id prev, relative_path = p, filename = base_name p, mime_type = mime,
      size_bytes = fi_size info, hash_id = sm, modified_at = fi_mtime info, indexed_at = zero_time,
      available = True,
      visibility = (if visibility prev \<noteq> [] then visibility prev else visibility_public)\<rparr>"

text \<open>The write by id when there is one, else by path; and the change that is reported.\<close>

definition write_record :: "file_env \<Rightarrow> file_rec \<Rightarrow> file_db \<Rightarrow> (file_error + file_rec) \<times> file_db" where
  "write_record env r db = (if rec_id r \<noteq> [] then save_file env r db else upsert_file env r db)"

definition report :: "index_env \<Rightarrow> file_rec \<Rightarrow> file_rec \<Rightarrow> change list" where
  "report env prev saved =
     (if rec_id prev \<noteq> [] \<and> available prev \<and> hash_id prev = hash_id saved \<and>
         size_bytes prev = size_bytes saved \<and> relative_path prev = relative_path saved
      then []
      else emit env (if rec_id prev \<noteq> [] then Change_Update else Change_Create) saved)"

definition index_file ::
  "index_env \<Rightarrow> string \<Rightarrow> string \<Rightarrow> file_db \<Rightarrow> index_error option \<times> file_db \<times> change list" where
  "index_file env root p db =
     (case observe env root p of
        Inl e \<Rightarrow> (Some e, db, [])
      | Inr (info, sm, mime) \<Rightarrow>
          (case pick_previous env root p sm db of
             (prev, db1) \<Rightarrow>
               (case write_record (ix_store env) (index_record p prev info sm mime) db1 of
                  (Inl e, db2) \<Rightarrow> (Some (Store_Failure e), db2, [])
                | (Inr saved, db2) \<Rightarrow> (None, db2, report env prev saved))))"

definition index_path :: "index_env \<Rightarrow> string \<Rightarrow> file_db \<Rightarrow> index_error option \<times> file_db \<times> change list" where
  "index_path env apath db =
     (case clean_share_root (ix_fs env) (ix_root env) of
        Inl e \<Rightarrow> (Some (Path_Failure e), db, [])
      | Inr root \<Rightarrow>
          (case rel_from_root root apath of
             Inl e \<Rightarrow> (Some (Path_Failure e), db, [])
           | Inr p \<Rightarrow> index_file env root p db))"

definition remove_path :: "index_env \<Rightarrow> string \<Rightarrow> file_db \<Rightarrow> index_error option \<times> file_db \<times> change list" where
  "remove_path env apath db =
     (let p = (case rel_from_root (clean (ix_root env)) (clean apath) of Inl _ \<Rightarrow> apath | Inr p \<Rightarrow> p);
          found = get_by_path (ix_store env) p db in
      case mark_missing (ix_store env) p db of
        (Some e, db1) \<Rightarrow> (Some (Store_Failure e), db1, [])
      | (None, db1) \<Rightarrow>
          let cs = (case found of
                      Inr r \<Rightarrow> if available r then emit env Change_Delete (r\<lparr>available := False\<rparr>) else []
                    | Inl _ \<Rightarrow> [])
          in (case mark_dir_missing (ix_store env) p db1 of
                (m, db2) \<Rightarrow> (map_option Store_Failure m, db2, cs)))"

section \<open>The walk\<close>

text \<open>
  What the callback of the second \<open>WalkDir\<close> does at each entry, in order: index a file, record a
  directory, or stop the walk with an error. Hidden directories are skipped, other entries that
  \<open>RelFromRoot\<close> refuses and entries without information are passed over.
\<close>

datatype walk_event = Ev_File string string | Ev_Dir string string | Ev_Abort

fun walk_node :: "index_env \<Rightarrow> string \<Rightarrow> string \<Rightarrow> node \<Rightarrow> walk_event list" where
  "walk_node env root dir (Node name k info listed children) =
     (let p = path_join dir name;
          descend = (if k \<noteq> Directory then []
                     else if \<not> listed then [Ev_Abort]
                     else concat (map (walk_node env root p) children)) in
      if ix_cancelled env p then [Ev_Abort]
      else case rel_from_root root p of
        Inl e \<Rightarrow> if k = Directory \<and> e = ErrHidden then [] else descend
      | Inr r \<Rightarrow>
          (case info of
             None \<Rightarrow> descend
           | Some i \<Rightarrow>
               if fi_kind i = Symlink then []
               else if k = Directory then Ev_Dir r name # descend
               else if fi_kind i \<noteq> Regular then []
               else [Ev_File r p]))"

fun walk_root :: "index_env \<Rightarrow> string \<Rightarrow> node \<Rightarrow> walk_event list" where
  "walk_root env root (Node name k info listed children) =
     (if ix_cancelled env root then [Ev_Abort]
      else if \<not> listed then [Ev_Abort]
      else concat (map (walk_node env root root) children))"

text \<open>
  The first walk only counts: entries that are neither hidden, nor symlinks, nor directories. It ends at a directory
  that cannot be read; \<open>count_node\<close> says whether it goes on, and what was counted.
\<close>

fun count_all :: "(bool \<times> nat) list \<Rightarrow> bool \<times> nat" where
  "count_all [] = (True, 0)"
| "count_all ((go, n) # cs) = (if go then apsnd ((+) n) (count_all cs) else (False, n))"

fun count_node :: "node \<Rightarrow> bool \<times> nat" where
  "count_node (Node name k info listed children) =
     (let below = (if k \<noteq> Directory then (True, 0)
                   else if \<not> listed then (False, 0) else count_all (map count_node children)) in
      if has_prefix name ''.'' then (True, 0)
      else case info of
        None \<Rightarrow> below
      | Some i \<Rightarrow>
          if fi_kind i = Symlink then (True, 0)
          else if k = Directory then below else (True, 1))"

definition count_files :: "node \<Rightarrow> nat" where
  "count_files t =
     (case t of Node _ _ _ listed children \<Rightarrow> if listed then snd (count_all (map count_node children)) else 0)"

record scan_state =
  sc_db :: file_db
  sc_changes :: "change list"
  sc_seen :: "string list"
  sc_failed :: "string list"
  sc_done :: nat

text \<open>One callback action; \<open>sc_failed\<close> is the log of files whose indexing returned an error.\<close>

definition scan_index :: "index_env \<Rightarrow> string \<Rightarrow> string \<Rightarrow> scan_state \<Rightarrow> scan_state" where
  "scan_index env root p s =
     (case index_file env root p (sc_db s) of
        (None, db, cs) \<Rightarrow> s\<lparr>sc_db := db, sc_changes := sc_changes s @ cs\<rparr>
      | (Some _, db, cs) \<Rightarrow>
          s\<lparr>sc_db := db, sc_changes := sc_changes s @ cs, sc_failed := sc_failed s @ [p]\<rparr>)"

definition scan_file :: "(string \<rightharpoonup> file_rec) \<Rightarrow> index_env \<Rightarrow> string \<Rightarrow> string \<Rightarrow> string \<Rightarrow> scan_state \<Rightarrow> scan_state" where
  "scan_file known env root p apath s =
     (case known p of
        None \<Rightarrow> scan_index env root p s
      | Some old \<Rightarrow>
          if \<not> file_unchanged (ix_fs env) apath old then scan_index env root p s
          else if \<not> available old then
            (case upsert_file (ix_store env) (old\<lparr>available := True\<rparr>) (sc_db s) of
               (Inr r, db) \<Rightarrow> s\<lparr>sc_db := db, sc_changes := sc_changes s @ emit env Change_Create r\<rparr>
             | (Inl _, db) \<Rightarrow> s\<lparr>sc_db := db\<rparr>)
          else s)"

fun scan_events :: "(string \<rightharpoonup> file_rec) \<Rightarrow> index_env \<Rightarrow> string \<Rightarrow> walk_event list \<Rightarrow> scan_state \<Rightarrow> bool \<times> scan_state" where
  "scan_events known env root [] s = (True, s)"
| "scan_events known env root (Ev_Abort # es) s = (False, s)"
| "scan_events known env root (Ev_Dir p name # es) s =
     scan_events known env root es
       (s\<lparr>sc_db := snd (upsert_dir (ix_store env)
          \<lparr>dir_id = [], dir_path = p, dir_name = name, dir_indexed_at = zero_time, dir_available = True\<rparr>
          (sc_db s))\<rparr>)"
| "scan_events known env root (Ev_File p apath # es) s =
     scan_events known env root es
       ((scan_file known env root p apath (s\<lparr>sc_seen := sc_seen s @ [p]\<rparr>))\<lparr>sc_done := sc_done s + 1\<rparr>)"

text \<open>The loop over the records known before the walk whose path the walk did not see.\<close>

fun drop_unseen :: "index_env \<Rightarrow> string list \<Rightarrow> file_rec list \<Rightarrow> file_db \<Rightarrow> change list \<Rightarrow>
    index_error option \<times> file_db \<times> change list" where
  "drop_unseen env seen [] db cs = (None, db, cs)"
| "drop_unseen env seen (r # rs) db cs =
     (if relative_path r \<in> set seen then drop_unseen env seen rs db cs
      else if (case get_by_id (ix_store env) (rec_id r) db of
                 Inr current \<Rightarrow> available current \<and> relative_path current \<noteq> relative_path r
               | Inl _ \<Rightarrow> False)
      then drop_unseen env seen rs db cs
      else case mark_missing (ix_store env) (relative_path r) db of
        (Some e, db1) \<Rightarrow> (Some (Store_Failure e), db1, cs)
      | (None, db1) \<Rightarrow>
          drop_unseen env seen rs db1
            (if available r then cs @ emit env Change_Delete (r\<lparr>available := False\<rparr>) else cs))"

record scan_result =
  res_error :: "index_error option"
  res_db :: file_db
  res_changes :: "change list"
  res_seen :: "string list"
  res_failed :: "string list"
  res_progress :: "nat \<times> nat"

definition scan :: "index_env \<Rightarrow> file_db \<Rightarrow> scan_result" where
  "scan env db =
     (case clean_share_root (ix_fs env) (ix_root env) of
        Inl e \<Rightarrow> \<lparr>res_error = Some (Path_Failure e), res_db = db, res_changes = [], res_seen = [],
                   res_failed = [], res_progress = (0, 0)\<rparr>
      | Inr root \<Rightarrow>
          (case known_paths (ix_store env) db of
             Inl e \<Rightarrow> \<lparr>res_error = Some (Store_Failure e), res_db = db, res_changes = [], res_seen = [],
                        res_failed = [], res_progress = (0, 0)\<rparr>
           | Inr known \<Rightarrow>
               let tot = count_files (ix_tree env) in
               (case scan_events known env root (walk_root env root (ix_tree env))
                       \<lparr>sc_db = db, sc_changes = [], sc_seen = [], sc_failed = [], sc_done = 0\<rparr> of
                  (False, s) \<Rightarrow>
                    \<lparr>res_error = Some Walk_Failure, res_db = sc_db s, res_changes = sc_changes s,
                     res_seen = sc_seen s, res_failed = sc_failed s, res_progress = (tot, sc_done s)\<rparr>
                | (True, s) \<Rightarrow>
                    (case drop_unseen env (sc_seen s) (ix_order env (file_rows db)) (sc_db s) (sc_changes s) of
                       (e, db', cs) \<Rightarrow>
                         \<lparr>res_error = e, res_db = db', res_changes = cs, res_seen = sc_seen s,
                          res_failed = sc_failed s,
                          res_progress = (if e = None then (tot, tot) else (tot, sc_done s))\<rparr>))))"

section \<open>Progress\<close>

definition set_progress :: "nat \<Rightarrow> nat \<Rightarrow> service \<Rightarrow> service" where
  "set_progress tot dn svc =
     snd (update (\<lambda>v. Inr (v\<lparr>indexing_total := int tot, indexing_done := int dn\<rparr>)) svc)"

definition publish_summary :: "index_env \<Rightarrow> file_db \<Rightarrow> service \<Rightarrow> service" where
  "publish_summary env db svc =
     (case summary (ix_store env) db of
        Inl _ \<Rightarrow> svc
      | Inr (n, bytes) \<Rightarrow>
          snd (update (\<lambda>v. Inr (v\<lparr>indexed_files := int n, total_bytes := bytes,
            indexing_done := int n, indexing_total := int n\<rparr>)) svc))"

section \<open>Moves and the frame of indexing\<close>

text \<open>A path that resolves under the root to something that exists.\<close>

definition reachable :: "index_env \<Rightarrow> string \<Rightarrow> string \<Rightarrow> bool" where
  "reachable env root q \<longleftrightarrow>
     (case resolve_under_root (ix_fs env) root q of Inl _ \<Rightarrow> False | Inr a \<Rightarrow> ix_fs env a \<noteq> None)"

text \<open>A record a new file may take over.\<close>

definition takeable :: "index_env \<Rightarrow> string \<Rightarrow> string \<Rightarrow> file_rec \<Rightarrow> bool" where
  "takeable env root p r \<longleftrightarrow>
     relative_path r = p \<or> \<not> available r \<or> \<not> reachable env root (relative_path r)"

definition takes :: "index_env \<Rightarrow> string \<Rightarrow> string \<Rightarrow> file_rec list \<Rightarrow> file_rec \<Rightarrow> bool" where
  "takes env root p rs r \<longleftrightarrow> rec_id r = [] \<or> r \<in> set rs \<and> takeable env root p r"

lemma candidate_step_takes:
  assumes "takes env root p rs (same_path c)" "takes env root p rs (missing c)" "takes env root p rs (stale c)"
    and "r \<in> set rs"
  shows "takes env root p rs (same_path (candidate_step env root p c r)) \<and>
    takes env root p rs (missing (candidate_step env root p c r)) \<and>
    takes env root p rs (stale (candidate_step env root p c r))"
proof -
  have t: "takes env root p rs r" if "relative_path r = p \<or> \<not> available r \<or> \<not> reachable env root (relative_path r)"
    using that assms(4) by (simp add: takes_def takeable_def)
  have s: "\<not> reachable env root (relative_path r)" if "resolve_under_root (ix_fs env) root (relative_path r) = Inl e" for e
    using that by (simp add: reachable_def)
  have u: "\<not> reachable env root (relative_path r)"
    if "resolve_under_root (ix_fs env) root (relative_path r) = Inr a" "ix_fs env a = None" for a
    using that by (simp add: reachable_def)
  show ?thesis
    using assms t s u unfolding candidate_step_def
    by (simp split: sum.split)
qed

lemma candidates_take:
  assumes "takes env root p rs (same_path c)" "takes env root p rs (missing c)" "takes env root p rs (stale c)"
    and "set xs \<subseteq> set rs"
  shows "takes env root p rs (same_path (foldl (candidate_step env root p) c xs)) \<and>
    takes env root p rs (missing (foldl (candidate_step env root p) c xs)) \<and>
    takes env root p rs (stale (foldl (candidate_step env root p) c xs))"
  using assms
proof (induction xs arbitrary: c)
  case (Cons x xs)
  then show ?case using candidate_step_takes [of env root p rs c x] by simp
qed simp

lemma move_candidate_takes:
  assumes "move_candidate env root p sm db = Some cand"
  shows "cand \<in> set (file_rows db)" "hash_id cand = sm" "takeable env root p cand" "rec_id cand \<noteq> []"
proof -
  let ?ms = "filter (\<lambda>r. hash_id r = sm) (file_rows db)"
  let ?c = "foldl (candidate_step env root p) no_candidates ?ms"
  have z: "takes env root p ?ms zero_rec" by (simp add: takes_def zero_rec_def)
  have t: "takes env root p ?ms (same_path ?c) \<and> takes env root p ?ms (missing ?c) \<and> takes env root p ?ms (stale ?c)"
    by (rule candidates_take) (simp_all add: no_candidates_def z)
  have c: "cand \<in> {same_path ?c, missing ?c, stale ?c}" "rec_id cand \<noteq> []"
    using assms by (auto simp: move_candidate_def list_by_hash_def Let_def split: if_split_asm)
  with t have "takes env root p ?ms cand" by auto
  with c show "cand \<in> set (file_rows db)" "hash_id cand = sm" "takeable env root p cand" "rec_id cand \<noteq> []"
    by (auto simp: takes_def)
qed

lemma pick_previous_spec:
  assumes ok: "files_ok db" and pick: "pick_previous env root p sm db = (prev, db1)"
  shows "files_ok db1" "q \<noteq> p \<Longrightarrow> at_path db1 q = at_path db q"
    "rec_id prev = [] \<or> (\<exists>x. with_id db1 (rec_id prev) = Some x \<and> x = prev \<and> takeable env root p prev)"
proof -
  define old where "old = (case get_by_path (ix_store env) p db of Inl _ \<Rightarrow> zero_rec | Inr r \<Rightarrow> r)"
  have pk: "(prev, db1) = (case move_candidate env root p sm db of None \<Rightarrow> (old, db)
      | Some cand \<Rightarrow> (cand, if rec_id old \<noteq> [] \<and> rec_id old \<noteq> rec_id cand
                 then snd (delete_by_id (ix_store env) (rec_id old) db) else db))"
    unfolding pick [symmetric] pick_previous_def Let_def old_def ..
  have old: "rec_id old = [] \<or> old \<in> set (file_rows db) \<and> relative_path old = p"
    by (auto simp: old_def get_by_path_def zero_rec_def split: option.split dest: lookup_SomeD)
  have "files_ok db1 \<and> (q \<noteq> p \<longrightarrow> at_path db1 q = at_path db q) \<and>
    (rec_id prev = [] \<or> with_id db1 (rec_id prev) = Some prev \<and> takeable env root p prev)"
  proof (cases "move_candidate env root p sm db")
    case None
    then have "prev = old" "db1 = db" using pk by simp_all
    then show ?thesis using ok old by (auto simp: with_id_iff takeable_def)
  next
    case (Some cand)
    note mc = move_candidate_takes [OF Some]
    have prev: "prev = cand" and db1: "db1 = (if rec_id old \<noteq> [] \<and> rec_id old \<noteq> rec_id cand
        then snd (delete_by_id (ix_store env) (rec_id old) db) else db)"
      using pk Some by simp_all
    show ?thesis
    proof (cases "db1 = db")
      case True
      then show ?thesis using ok mc prev by (simp add: with_id_iff)
    next
      case False
      then have o: "old \<in> set (file_rows db)" "relative_path old = p" "rec_id old \<noteq> rec_id cand"
        and d: "db1 = db\<lparr>file_rows := delete_where (\<lambda>r. rec_id r = rec_id old) (file_rows db)\<rparr>"
        using old db1 by (auto simp: delete_by_id_def split: if_split_asm)
      have "files_ok db1" using ok by (simp add: d files_ok_def rows_ok_delete)
      moreover have "with_id db1 (rec_id cand) = Some cand"
        using o(3) ok mc(1) by (simp add: d with_id_def lookup_delete_where) (simp add: files_ok_def rows_ok_def lookup_iff)
      ultimately show ?thesis using at_path_delete [OF ok o(1)] o(2) mc(3) prev by (simp add: d)
    qed
  qed
  then show "files_ok db1" "q \<noteq> p \<Longrightarrow> at_path db1 q = at_path db q"
    "rec_id prev = [] \<or> (\<exists>x. with_id db1 (rec_id prev) = Some x \<and> x = prev \<and> takeable env root p prev)"
    by blast+
qed

lemma index_record_simps [simp]:
  "relative_path (index_record p prev info sm mime) = p" "rec_id (index_record p prev info sm mime) = rec_id prev"
  "available (index_record p prev info sm mime)" "hash_id (index_record p prev info sm mime) = sm"
  "size_bytes (index_record p prev info sm mime) = fi_size info"
  "modified_at (index_record p prev info sm mime) = fi_mtime info"
  by (simp_all add: index_record_def)

lemma index_file_cases:
  assumes "index_file env root p db = (e, db', cs)"
  obtains (unread) err where "e = Some err" "db' = db" "cs = []"
  | (failed) info sm mime prev db1 err where "observe env root p = Inr (info, sm, mime)"
      "pick_previous env root p sm db = (prev, db1)"
      "write_record (ix_store env) (index_record p prev info sm mime) db1 = (Inl err, db')" "e \<noteq> None"
  | (written) info sm mime prev db1 saved where "observe env root p = Inr (info, sm, mime)"
      "pick_previous env root p sm db = (prev, db1)"
      "write_record (ix_store env) (index_record p prev info sm mime) db1 = (Inr saved, db')" "e = None"
      "cs = report env prev saved"
proof (cases "observe env root p")
  case (Inl err)
  with assms show ?thesis by (intro unread [of err]) (auto simp: index_file_def)
next
  case (Inr a)
  then obtain info sm mime where o: "observe env root p = Inr (info, sm, mime)" by (cases a) auto
  obtain prev db1 where pp: "pick_previous env root p sm db = (prev, db1)" by fastforce
  obtain res db2 where w: "write_record (ix_store env) (index_record p prev info sm mime) db1 = (res, db2)"
    by fastforce
  show ?thesis
  proof (cases res)
    case (Inl err)
    with assms o pp w show ?thesis by (intro failed) (auto simp: index_file_def)
  next
    case (Inr saved)
    with assms o pp w show ?thesis by (intro written) (auto simp: index_file_def)
  qed
qed

lemma write_record_frame:
  assumes ok: "files_ok db" and w: "write_record env r db = (res, db')" and q: "q \<noteq> relative_path r"
  shows "at_path db' q = at_path db q \<or>
    at_path db' q = None \<and> (\<exists>x. rec_id r \<noteq> [] \<and> with_id db (rec_id r) = Some x \<and> relative_path x = q)"
proof (cases "rec_id r = []")
  case True
  with w upsert_file_frame [OF _ q] show ?thesis by (simp add: write_record_def)
next
  case False
  with w save_file_frame [OF ok _ q] show ?thesis by (simp add: write_record_def)
qed

lemma write_record_ok:
  assumes "files_ok db" "write_record env r db = (res, db')"
  shows "files_ok db'"
proof (cases "rec_id r = []")
  case True
  with assms upsert_file_ok show ?thesis by (simp add: write_record_def)
next
  case False
  with assms save_file_ok show ?thesis by (simp add: write_record_def)
qed

lemma write_record_wrote:
  "files_ok db \<Longrightarrow> write_record env r db = (Inr r', db') \<Longrightarrow>
     \<exists>i. at_path db' (relative_path r) = Some ((stored r')\<lparr>rec_id := i\<rparr>)"
  using upsert_file_wrote save_file_wrote by (auto simp: write_record_def split: if_split_asm)

lemma index_file_ok:
  assumes "files_ok db" "index_file env root p db = (e, db', cs)"
  shows "files_ok db'"
  using assms(2)
proof (cases rule: index_file_cases)
  case (failed info sm mime prev db1 err)
  then show ?thesis using write_record_ok pick_previous_spec(1) [OF assms(1)] by blast
next
  case (written info sm mime prev db1 saved)
  then show ?thesis using write_record_ok pick_previous_spec(1) [OF assms(1)] by blast
qed (use assms in simp)

lemma write_after_pick_frame:
  assumes ok: "files_ok db" and pick: "pick_previous env root p sm db = (prev, db1)"
    and w: "write_record (ix_store env) (index_record p prev info sm mime) db1 = (res, db')" and q: "q \<noteq> p"
  shows "at_path db' q = at_path db q \<or>
    at_path db' q = None \<and> (\<exists>x. at_path db q = Some x \<and> (\<not> available x \<or> \<not> reachable env root q))"
proof -
  note pp = pick_previous_spec [OF ok pick]
  have "q \<noteq> relative_path (index_record p prev info sm mime)" using q by simp
  from write_record_frame [OF pp(1) w this]
  consider "at_path db' q = at_path db1 q"
    | x where "at_path db' q = None" "rec_id prev \<noteq> []" "with_id db1 (rec_id prev) = Some x" "relative_path x = q"
    by auto
  then show ?thesis
  proof cases
    case 2
    then have "x = prev" "takeable env root p prev" using pp(3) by auto
    moreover have "at_path db1 q = Some x" using 2 pp(1) by (simp add: at_path_iff with_id_iff)
    ultimately show ?thesis using 2(1,4) pp(2) [OF q] q by (auto simp: takeable_def)
  qed (use pp(2) [OF q] in simp)
qed

lemma index_file_frame:
  assumes ok: "files_ok db" and ix: "index_file env root p db = (e, db', cs)" and q: "q \<noteq> p"
  shows "at_path db' q = at_path db q \<or>
    at_path db' q = None \<and> (\<exists>x. at_path db q = Some x \<and> (\<not> available x \<or> \<not> reachable env root q))"
  using ix
proof (cases rule: index_file_cases)
  case (failed info sm mime prev db1 err)
  from write_after_pick_frame [OF ok failed(2,3) q] show ?thesis .
next
  case (written info sm mime prev db1 saved)
  from write_after_pick_frame [OF ok written(2,3) q] show ?thesis .
qed simp








text \<open>What a record says about the file that was observed.\<close>

definition describes :: "index_env \<Rightarrow> string \<Rightarrow> string \<Rightarrow> file_rec \<Rightarrow> bool" where
  "describes env root p r \<longleftrightarrow>
     (case observe env root p of
        Inl _ \<Rightarrow> False
      | Inr (info, sm, mime) \<Rightarrow>
          available r \<and> hash_id r = sm \<and> size_bytes r = fi_size info \<and>
          modified_at r = rfc3339 (fi_mtime info) \<and> mime_type r = mime \<and> filename r = base_name p)"

lemma saved_record:
  assumes "write_record env r db = (Inr saved, db')"
  shows "\<exists>i. saved = with_defaults env (r\<lparr>rec_id := i\<rparr>)"
proof (cases "rec_id r = []")
  case True
  with assms have "upsert_file env r db = (Inr saved, db')" by (simp add: write_record_def)
  then show ?thesis by (cases rule: upsert_file_cases) auto
next
  case False
  have r: "with_defaults env r = with_defaults env (r\<lparr>rec_id := rec_id r\<rparr>)" by simp
  from False assms have "save_file env r db = (Inr saved, db')" by (simp add: write_record_def)
  then show ?thesis
  proof (cases rule: save_file_cases)
    case upserts
    then show ?thesis by (cases rule: upsert_file_cases) auto
  next
    case (moves old db1 rows)
    then show ?thesis using r by (metis sum.inject(2))
  qed simp
qed

lemma with_defaults_keeps:
  "mime_type (with_defaults env r) = mime_type r" "filename (with_defaults env r) = filename r"
  "modified_at (with_defaults env r) = modified_at r"
  by (simp_all add: with_defaults_def Let_def)

lemma index_file_describes:
  assumes ok: "files_ok db" and ix: "index_file env root p db = (None, db', cs)"
  shows "\<exists>r. at_path db' p = Some r \<and> describes env root p r"
  using ix
proof (cases rule: index_file_cases)
  case (written info sm mime prev db1 saved)
  obtain i where i: "at_path db' p = Some ((stored saved)\<lparr>rec_id := i\<rparr>)"
    using write_record_wrote [OF pick_previous_spec(1) [OF ok written(2)] written(3)] by auto
  obtain j where "saved = with_defaults (ix_store env) ((index_record p prev info sm mime)\<lparr>rec_id := j\<rparr>)"
    using saved_record [OF written(3)] by blast
  then have "describes env root p ((stored saved)\<lparr>rec_id := i\<rparr>)"
    using written(1) by (simp add: describes_def with_defaults_keeps stored_def index_record_def)
  with i show ?thesis by blast
qed simp_all

section \<open>A scan against the disk\<close>

text \<open>
  A seen file is right in the index: either it was read in this scan, or its record was known
  before and \<open>FileUnchanged\<close> held of it.
\<close>

definition up_to_date :: "index_env \<Rightarrow> string \<Rightarrow> file_db \<Rightarrow> string \<Rightarrow> file_rec \<Rightarrow> bool" where
  "up_to_date env root db0 q r \<longleftrightarrow>
     available r \<and>
     (describes env root q r \<or>
      at_path db0 q = Some r \<and> (\<exists>apath. rel_from_root root apath = Inr q \<and> file_unchanged (ix_fs env) apath r))"

definition scan_inv :: "index_env \<Rightarrow> string \<Rightarrow> file_db \<Rightarrow> scan_state \<Rightarrow> bool" where
  "scan_inv env root db0 s \<longleftrightarrow>
     files_ok (sc_db s) \<and>
     (\<forall>q. q \<notin> set (sc_seen s) \<longrightarrow>
        (at_path (sc_db s) q = at_path db0 q \<or>
         at_path (sc_db s) q = None \<and> (\<exists>x. at_path db0 q = Some x \<and> (\<not> available x \<or> \<not> reachable env root q)))) \<and>
     (\<forall>q \<in> set (sc_seen s). q \<notin> set (sc_failed s) \<longrightarrow> reachable env root q \<longrightarrow> at_path (sc_db s) q \<noteq> None) \<and>
     (\<forall>q \<in> set (sc_seen s). \<forall>r. at_path (sc_db s) q = Some r \<longrightarrow>
        up_to_date env root db0 q r \<or> q \<in> set (sc_failed s) \<and> at_path db0 q = Some r)"




lemma missing_at_simps [simp]:
  "relative_path (missing_at t r) = relative_path r" "rec_id (missing_at t r) = rec_id r"
  "\<not> available (missing_at t r)"
  by (simp_all add: missing_at_def)








lemma scan_inv_done [simp]: "scan_inv env root db0 (s\<lparr>sc_done := n\<rparr>) = scan_inv env root db0 s"
  by (simp add: scan_inv_def)






lemma scan_cases:
  assumes "res_error (scan env db) = None"
  obtains known s where
    "clean_share_root (ix_fs env) (ix_root env) = Inr (clean (ix_root env))"
    "known_paths (ix_store env) db = Inr known"
    "scan_events known env (clean (ix_root env)) (walk_root env (clean (ix_root env)) (ix_tree env))
       \<lparr>sc_db = db, sc_changes = [], sc_seen = [], sc_failed = [], sc_done = 0\<rparr> = (True, s)"
    "drop_unseen env (sc_seen s) (ix_order env (file_rows db)) (sc_db s) (sc_changes s) =
       (None, res_db (scan env db), res_changes (scan env db))"
    "res_seen (scan env db) = sc_seen s" "res_failed (scan env db) = sc_failed s"
proof -
  obtain root where root: "clean_share_root (ix_fs env) (ix_root env) = Inr root"
    using assms by (auto simp: scan_def split: sum.split_asm)
  then have rc: "root = clean (ix_root env)"
    by (auto simp: clean_share_root_def Let_def split: if_split_asm option.split_asm)
  obtain known where known: "known_paths (ix_store env) db = Inr known"
    using assms root by (auto simp: scan_def split: sum.split_asm)
  obtain b s where ev: "scan_events known env root (walk_root env root (ix_tree env))
       \<lparr>sc_db = db, sc_changes = [], sc_seen = [], sc_failed = [], sc_done = 0\<rparr> = (b, s)" by fastforce
  have b: "b" using assms root known ev by (cases b) (simp_all add: scan_def Let_def)
  obtain e db' cs where du: "drop_unseen env (sc_seen s) (ix_order env (file_rows db)) (sc_db s) (sc_changes s) = (e, db', cs)"
    by (metis prod_cases3)
  have "e = None" using assms root known ev b du by (simp add: scan_def Let_def)
  with root known ev b du rc show ?thesis by (intro that) (simp_all add: scan_def Let_def)
qed

lemma scan_events_seen:
  "scan_events known env root es s = (True, s') \<Longrightarrow>
     set (sc_seen s') = set (sc_seen s) \<union> {p. \<exists>apath. Ev_File p apath \<in> set es}"
proof (induction known env root es s rule: scan_events.induct)
  case (4 known env root p apath es s)
  have seen: "sc_seen (scan_file known env root p apath t) = sc_seen t" for t
    by (auto simp: scan_file_def scan_index_def split: option.split prod.split sum.split)
  from 4 show ?case by (auto simp: seen)
qed auto

section \<open>Which files a walk sees\<close>

text \<open>A regular file of the tree below listed directories, given by the names on the way.\<close>

fun node_name :: "node \<Rightarrow> string" where
  "node_name (Node name k info listed children) = name"

fun tree_file :: "node \<Rightarrow> string list \<Rightarrow> bool" where
  "tree_file (Node name k info listed children) [] =
     (k \<noteq> Directory \<and> (case info of None \<Rightarrow> False | Some i \<Rightarrow> fi_kind i = Regular))"
| "tree_file (Node name k info listed children) (c # cs) =
     (k = Directory \<and> listed \<and> (case info of None \<Rightarrow> True | Some i \<Rightarrow> fi_kind i \<noteq> Symlink) \<and>
      list_ex (\<lambda>n. node_name n = c \<and> tree_file n cs) children)"

lemma tree_file_ConsD:
  assumes "tree_file (Node name k info listed children) (c # cs)"
  obtains k' info' l' ch' where "Node c k' info' l' ch' \<in> set children" "tree_file (Node c k' info' l' ch') cs"
    "k = Directory" "listed" "case info of None \<Rightarrow> True | Some i \<Rightarrow> fi_kind i \<noteq> Symlink"
proof -
  from assms obtain n where n: "n \<in> set children" "node_name n = c" "tree_file n cs" and k: "k = Directory" "listed"
    "case info of None \<Rightarrow> True | Some i \<Rightarrow> fi_kind i \<noteq> Symlink"
    by (auto simp: list_ex_iff)
  show ?thesis
  proof (cases n)
    case (Node nm k' info' l' ch')
    with n k show ?thesis by (intro that [of k' info' l' ch']) simp_all
  qed
qed

lemma walk_node_complete:
  assumes "tree_file (Node c k info listed children) cs" "list_all visible (es @ c # cs)"
    and "list_all proper rs" "\<And>q. \<not> ix_cancelled env q"
  shows "Ev_File (join ''/'' (es @ c # cs)) (abs_path (rs @ es @ c # cs))
    \<in> set (walk_node env (abs_path rs) (abs_path (rs @ es)) (Node c k info listed children))"
  using assms(1,2)
proof (induction cs arbitrary: c k info listed children es)
  case (Nil c k info listed children es)
  have pr: "list_all proper (es @ [c])" using Nil(2) list_visible_proper by blast
  have p: "path_join (abs_path (rs @ es)) c = abs_path (rs @ es @ [c])"
    using join_abs_path_single [of "rs @ es" c] assms(3) pr by simp
  have r: "rel_from_root (abs_path rs) (abs_path (rs @ es @ [c])) = Inr (join ''/'' (es @ [c]))"
    using rel_from_root_below [OF assms(3) pr] Nil(2)
    by (simp add: check_parts_None [THEN iffD2] visible_def list_all_iff)
  obtain i where "info = Some i" "fi_kind i = Regular" "k \<noteq> Directory"
    using Nil(1) by (auto split: option.split_asm)
  then show ?case by (simp add: Let_def p r assms(4))
next
  case (Cons d cs c k info listed children es)
  have pr: "list_all proper (es @ [c])" using Cons.prems(2) by (intro list_visible_proper) simp
  have p: "path_join (abs_path (rs @ es)) c = abs_path (rs @ es @ [c])"
    using join_abs_path_single [of "rs @ es" c] assms(3) pr by simp
  have r: "rel_from_root (abs_path rs) (abs_path (rs @ es @ [c])) = Inr (join ''/'' (es @ [c]))"
    using rel_from_root_below [OF assms(3) pr] Cons.prems(2)
    by (simp add: check_parts_None [THEN iffD2] visible_def list_all_iff)
  from Cons.prems(1) obtain k' info' l' ch' where n: "Node d k' info' l' ch' \<in> set children"
    "tree_file (Node d k' info' l' ch') cs" and k: "k = Directory" "listed"
    "case info of None \<Rightarrow> True | Some i \<Rightarrow> fi_kind i \<noteq> Symlink"
    by (rule tree_file_ConsD)
  have "Ev_File (join ''/'' ((es @ [c]) @ d # cs)) (abs_path (rs @ (es @ [c]) @ d # cs))
      \<in> set (walk_node env (abs_path rs) (abs_path (rs @ es @ [c])) (Node d k' info' l' ch'))"
    using Cons.IH [OF n(2), of "es @ [c]"] Cons.prems(2) by simp
  then have ev: "Ev_File (join ''/'' (es @ c # d # cs)) (abs_path (rs @ es @ c # d # cs))
      \<in> set (walk_node env (abs_path rs) (abs_path (rs @ es @ [c])) (Node d k' info' l' ch'))"
    by (simp only: append_assoc append_Cons append_Nil)
  have sub: "set (walk_node env (abs_path rs) (abs_path (rs @ es @ [c])) n) \<subseteq>
      set (walk_node env (abs_path rs) (abs_path (rs @ es)) (Node c k info listed children))"
    if "n \<in> set children" for n
    using that k by (cases info) (auto simp: Let_def p r assms(4))
  from subsetD [OF sub [OF n(1)] ev] show ?case .
qed

lemma walk_root_complete:
  assumes "tree_file tree cs" "cs \<noteq> []" "list_all visible cs" "list_all proper rs" "\<And>q. \<not> ix_cancelled env q"
  shows "Ev_File (join ''/'' cs) (abs_path (rs @ cs)) \<in> set (walk_root env (abs_path rs) tree)"
proof -
  obtain c cs' where cs: "cs = c # cs'" using assms(2) by (cases cs) auto
  obtain nm k info l ch where t: "tree = Node nm k info l ch" by (cases tree)
  obtain k' info' l' ch' where n: "Node c k' info' l' ch' \<in> set ch"
    "tree_file (Node c k' info' l' ch') cs'" and l: l
    using tree_file_ConsD [OF assms(1) [unfolded cs t]] .
  have "Ev_File (join ''/'' cs) (abs_path (rs @ cs)) \<in>
      set (walk_node env (abs_path rs) (abs_path rs) (Node c k' info' l' ch'))"
    using walk_node_complete [OF n(2), of "[]" rs env] assms(3-5) cs by simp
  with n(1) l assms(5) show ?thesis by (simp add: t del: walk_node.simps) blast
qed

section \<open>Duplicates\<close>

lemma candidate_missing:
  assumes "r \<in> set xs" "\<not> available r" "relative_path r \<noteq> p" "\<forall>x \<in> set xs. rec_id x \<noteq> []"
    and "rec_id (missing c) \<noteq> [] \<longrightarrow> \<not> available (missing c) \<and> missing c \<in> set ys" "set xs \<subseteq> set ys"
  shows "let m = missing (foldl (candidate_step env root p) c xs)
    in rec_id m \<noteq> [] \<and> \<not> available m \<and> m \<in> set ys"
  using assms
proof (induction xs arbitrary: c)
  case (Cons x xs)
  have keep: "rec_id (missing c') \<noteq> [] \<and> \<not> available (missing c') \<and> missing c' \<in> set ys \<Longrightarrow> set zs \<subseteq> set ys \<Longrightarrow>
    (let m = missing (foldl (candidate_step env root p) c' zs) in rec_id m \<noteq> [] \<and> \<not> available m \<and> m \<in> set ys)"
    for c' zs
    by (induction zs arbitrary: c') (auto simp: candidate_step_def split: sum.split)
  show ?case
  proof (cases "x = r")
    case True
    then have "rec_id (missing (candidate_step env root p c x)) \<noteq> [] \<and>
        \<not> available (missing (candidate_step env root p c x)) \<and> missing (candidate_step env root p c x) \<in> set ys"
      using Cons.prems by (auto simp: candidate_step_def)
    from keep [OF this] Cons.prems(6) show ?thesis by simp
  next
    case False
    have "rec_id (missing (candidate_step env root p c x)) \<noteq> [] \<longrightarrow>
        \<not> available (missing (candidate_step env root p c x)) \<and> missing (candidate_step env root p c x) \<in> set ys"
      using Cons.prems by (auto simp: candidate_step_def split: sum.split)
    with Cons.IH [of "candidate_step env root p c x"] Cons.prems False show ?thesis by simp
  qed
qed simp

lemma move_candidate_missing:
  assumes ok: "files_ok db" and "\<not> fault (ix_store env) (Select_Hash sm)"
    and m: "m \<in> set (file_rows db)" "hash_id m = sm" "\<not> available m" "relative_path m \<noteq> p"
  obtains m' where "move_candidate env root p sm db = Some m'" "m' \<in> set (file_rows db)" "\<not> available m'" "rec_id m' \<noteq> []"
proof -
  let ?ms = "filter (\<lambda>r. hash_id r = sm) (file_rows db)"
  have ids: "\<forall>x \<in> set ?ms. rec_id x \<noteq> []" using ok by (auto simp: files_ok_def rows_ok_def row_ok_def)
  have "let m = missing (foldl (candidate_step env root p) no_candidates ?ms)
      in rec_id m \<noteq> [] \<and> \<not> available m \<and> m \<in> set ?ms"
    using m ids by (intro candidate_missing) (auto simp: no_candidates_def zero_rec_def)
  moreover have "?ms \<noteq> []" using m by (auto simp: filter_empty_conv)
  ultimately show ?thesis
    using assms(2) by (intro that) (auto simp: move_candidate_def list_by_hash_def Let_def)
qed

section \<open>An example\<close>

definition demo_ix :: index_env where
  "demo_ix = \<lparr>ix_store = demo_env_files, ix_root = ''/srv/share'', ix_fs = demo_fs,
     ix_tree = Node ''share'' Directory None True
       [Node ''docs'' Directory (demo_fs ''/srv/share/docs'') True
         [Node ''a.txt'' Regular (demo_fs ''/srv/share/docs/a.txt'') True []]],
     ix_obs = (\<lambda>p i. (100 * second, demo_fs p)), ix_sha = hex_encode,
     ix_type_by_ext = (\<lambda>e. if e = ''.txt'' then ''text/plain'' else []), ix_sniff = (\<lambda>_. octet_stream),
     ix_order = (\<lambda>xs. xs), ix_cancelled = (\<lambda>_. False), ix_hook = True\<rparr>"

lemma demo_scan_values:
  "(\<lambda>r. (res_error r, res_seen r, res_failed r)) (scan demo_ix empty_files) = (None, [''docs/a.txt''], [])"
  by code_simp

lemma demo_scan:
  "res_error (scan demo_ix empty_files) = None"
  "res_seen (scan demo_ix empty_files) = [''docs/a.txt'']"
  "res_failed (scan demo_ix empty_files) = []"
  "reachable demo_ix (clean (ix_root demo_ix)) ''docs/a.txt''"
  "tree_file (ix_tree demo_ix) [''docs'', ''a.txt'']"
  using demo_scan_values by simp_all code_simp+

section \<open>Properties\<close>



text \<open>
  A scan sees every file it should: when it returns no error (and is not cancelled), each regular
  file of the walked tree whose names on the way are all visible is among the seen paths, and every
  seen path consists of visible names only.
\<close>
theorem scan_sees_visible_files:
  assumes "res_error (scan env db) = None" and "\<And>q. \<not> ix_cancelled env q"
    and "tree_file (ix_tree env) cs" and "cs \<noteq> []" and "list_all visible cs"
  shows "join ''/'' cs \<in> set (res_seen (scan env db))"
proof -
  let ?root = "clean (ix_root env)"
  obtain known s where root: "clean_share_root (ix_fs env) (ix_root env) = Inr ?root"
    and ev: "scan_events known env ?root (walk_root env ?root (ix_tree env))
       \<lparr>sc_db = db, sc_changes = [], sc_seen = [], sc_failed = [], sc_done = 0\<rparr> = (True, s)"
    and seen: "res_seen (scan env db) = sc_seen s"
    using scan_cases [OF assms(1)] by blast
  have r: "?root = abs_path (comps (ix_root env))" using root by (rule clean_share_root_InrD)
  have "Ev_File (join ''/'' cs) (abs_path (comps (ix_root env) @ cs)) \<in> set (walk_root env ?root (ix_tree env))"
    unfolding r using assms(2-5) comps_proper by (intro walk_root_complete)
  with scan_events_seen [OF ev] show ?thesis unfolding seen by auto
qed

theorem scan_sees_visible_files_witness:
  "join ''/'' [''docs'', ''a.txt''] \<in> set (res_seen (scan demo_ix empty_files))"
  by (rule scan_sees_visible_files [OF demo_scan(1) _ demo_scan(5)])
    (simp_all add: visible_def, simp add: demo_ix_def)

text \<open>
  Indexing one file, when it succeeds, leaves at its path an available record with the digest, size,
  time, type and name that were read, and takes away at most records of paths that were unavailable
  or no longer resolve to a file.
\<close>
theorem index_file_result:
  assumes "files_ok db" and "index_file env root p db = (None, db', cs)"
  shows "(\<exists>r. at_path db' p = Some r \<and> describes env root p r) \<and>
    (\<forall>q r. q \<noteq> p \<and> at_path db q = Some r \<and> available r \<and> reachable env root q \<longrightarrow> at_path db' q = Some r) \<and>
    files_ok db'"
proof (intro conjI allI impI)
  show "\<exists>r. at_path db' p = Some r \<and> describes env root p r" by (rule index_file_describes [OF assms])
  show "files_ok db'" by (rule index_file_ok [OF assms])
  fix q r
  assume q: "q \<noteq> p \<and> at_path db q = Some r \<and> available r \<and> reachable env root q"
  with index_file_frame [OF assms, of q] show "at_path db' q = Some r" by auto
qed

theorem index_file_result_witness:
  "\<exists>r. at_path (fst (snd (index_file demo_ix ''/srv/share'' ''docs/a.txt'' empty_files))) ''docs/a.txt'' = Some r \<and>
     describes demo_ix ''/srv/share'' ''docs/a.txt'' r"
proof -
  have "fst (index_file demo_ix ''/srv/share'' ''docs/a.txt'' empty_files) = None" by code_simp
  then have "index_file demo_ix ''/srv/share'' ''docs/a.txt'' empty_files =
      (None, fst (snd (index_file demo_ix ''/srv/share'' ''docs/a.txt'' empty_files)),
       snd (snd (index_file demo_ix ''/srv/share'' ''docs/a.txt'' empty_files)))"
    by (metis prod.collapse)
  from index_file_result [OF files_ok_empty this] show ?thesis by blast
qed

text \<open>
  A duplicate of a missing file costs a live record its id: when the file at \<open>p\<close> is indexed again
  while some unavailable record elsewhere has the same digest, and no statement fails, then the
  record that was available at \<open>p\<close> is deleted, the path is taken over by a record that was
  unavailable, and no deletion is reported for the id that was public until then.
\<close>
theorem duplicate_takes_over_live_id:
  assumes "files_ok db" and "\<And>st. \<not> fault (ix_store env) st"
    and "observe env root p = Inr (info, sm, mime)"
    and "at_path db p = Some live" and "available live"
    and "m \<in> set (file_rows db)" and "hash_id m = sm" and "\<not> available m"
    and "index_file env root p db = (e, db', cs)"
  shows "e = None \<and> with_id db' (rec_id live) = None \<and>
    (\<exists>m' \<in> set (file_rows db). \<not> available m' \<and> map_option rec_id (at_path db' p) = Some (rec_id m')) \<and>
    (\<forall>r. (Change_Delete, r) \<notin> set cs)"
proof -
  have live: "live \<in> set (file_rows db)" "relative_path live = p" using assms(1,4) by (simp_all add: at_path_iff)
  have "m \<noteq> live" using assms(5,8) by auto
  then have "relative_path m \<noteq> p"
    using at_path_iff [OF assms(1), of p] assms(4,6) by (metis option.inject)
  from move_candidate_missing [OF assms(1,2,6,7,8) this] obtain m' where
    mc: "move_candidate env root p sm db = Some m'" and m': "m' \<in> set (file_rows db)" "\<not> available m'" "rec_id m' \<noteq> []" .
  have "rec_id live \<noteq> rec_id m'"
  proof
    assume eq: "rec_id live = rec_id m'"
    have "with_id db (rec_id live) = Some live" "with_id db (rec_id m') = Some m'"
      using live(1) m'(1) assms(1) by (simp_all add: with_id_iff)
    with eq have "live = m'" by (metis option.inject)
    with assms(5) m'(2) show False by simp
  qed
  moreover have "rec_id live \<noteq> []" using live(1) assms(1) by (simp add: files_ok_def rows_ok_def row_ok_def)
  ultimately have ids: "rec_id live \<noteq> rec_id m'" "rec_id live \<noteq> []" .
  define db1 where "db1 = db\<lparr>file_rows := delete_where (\<lambda>r. rec_id r = rec_id live) (file_rows db)\<rparr>"
  have gp: "get_by_path (ix_store env) p db = Inr live"
    using assms(2,4) by (simp add: get_by_path_def at_path_def)
  have pk: "pick_previous env root p sm db = (m', db1)"
    by (simp add: pick_previous_def gp mc ids delete_by_id_def assms(2) db1_def)
  have ok1: "files_ok db1" using assms(1) by (simp add: db1_def files_ok_def rows_ok_delete)
  have p1: "at_path db1 p = None"
    using at_path_delete [OF assms(1) live(1)] live(2) by (simp add: db1_def)
  have w1: "with_id db1 (rec_id m') = Some m'"
    using pick_previous_spec(3) [OF assms(1) pk] m'(3) by auto
  define r where "r = index_record p m' info sm mime"
  have r: "rec_id r = rec_id m'" "relative_path r = p" by (simp_all add: r_def)
  have ev: "evict_other (ix_store env) r db1 = (None, db1)"
    using p1 assms(2) by (simp add: evict_other_def get_by_path_def at_path_def r)
  have free: "\<not> list_ex (\<lambda>x. rec_id x \<noteq> rec_id m' \<and> relative_path x = p) (file_rows db1)"
    using p1 at_path_iff [OF ok1, of p] by (auto simp: list_ex_iff)
  define rows where "rows = update_where (\<lambda>x. rec_id x = rec_id m') (\<lambda>_. stored (with_defaults (ix_store env) r)) (file_rows db1)"
  have up: "update_file (stored (with_defaults (ix_store env) r)) (file_rows db1) = Some rows"
    using free by (simp add: update_file_def rows_def r)
  have w: "write_record (ix_store env) r db1 = (Inr (with_defaults (ix_store env) r), db1\<lparr>file_rows := rows\<rparr>)"
    using w1 m'(3) assms(2) ev up
    by (simp add: write_record_def save_file_def get_by_id_def with_id_def r Let_def)
  from assms(9) have res: "e = None" "db' = db1\<lparr>file_rows := rows\<rparr>" "cs = report env m' (with_defaults (ix_store env) r)"
    using w by (simp_all add: index_file_def assms(3) pk r_def)
  have "with_id db' (rec_id live) = None"
  proof -
    have "rec_id live \<notin> rec_id ` set (file_rows db1)" by (auto simp: db1_def delete_where_def)
    moreover have "map rec_id rows = map rec_id (file_rows db1)"
      by (simp add: rows_def update_where_def r)
    then have "rec_id ` set rows = rec_id ` set (file_rows db1)" by (metis set_map)
    ultimately show ?thesis by (simp add: with_id_def res(2) lookup_None_iff)
  qed
  moreover have "at_path db' p = Some (stored (with_defaults (ix_store env) r))"
  proof -
    have "files_ok (db1\<lparr>file_rows := rows\<rparr>)" using write_record_ok [OF ok1 w] .
    moreover have "with_id db1 (rec_id (stored (with_defaults (ix_store env) r))) = Some m'" using w1 by (simp add: r)
    ultimately show ?thesis using at_path_update [OF ok1 _ _ up] by (simp add: res(2) r)
  qed
  moreover have "\<forall>x. (Change_Delete, x) \<notin> set cs" by (simp add: res(3) report_def emit_def)
  ultimately show ?thesis using res(1) m' by (auto simp: r)
qed

definition dup_live :: file_rec where
  "dup_live = demo_rec\<lparr>hash_id := \<lparr>algorithm = ''sha256'', digest = hex_encode ''hello world''\<rparr>\<rparr>"

definition dup_missing :: file_rec where
  "dup_missing = dup_live\<lparr>rec_id := ''fedcba9876543210'', relative_path := ''old.txt'', available := False\<rparr>"

definition dup_db :: file_db where
  "dup_db = \<lparr>file_rows = [dup_live, dup_missing], dir_rows = []\<rparr>"

theorem duplicate_takes_over_live_id_witness:
  "fst (index_file demo_ix ''/srv/share'' ''docs/a.txt'' dup_db) = None \<and>
   with_id (fst (snd (index_file demo_ix ''/srv/share'' ''docs/a.txt'' dup_db))) (rec_id dup_live) = None"
proof -
  have ok: "files_ok dup_db"
    by (simp add: files_ok_def rows_ok_def row_ok_def dirs_ok_def dup_db_def dup_live_def dup_missing_def
        demo_rec_def visibility_public_def stored_fix zero_rec_def)
  have nf: "\<not> fault (ix_store demo_ix) st" for st by (simp add: demo_ix_def demo_env_files_def)
  have obs: "observe demo_ix ''/srv/share'' ''docs/a.txt'' =
      Inr (\<lparr>fi_kind = Regular, fi_mtime = 0, fi_data = ''hello world'', fi_readable = True\<rparr>, hash_id dup_live, ''text/plain'')"
    by code_simp
  have at: "at_path dup_db ''docs/a.txt'' = Some dup_live" "available dup_live"
    by (simp_all add: at_path_def dup_db_def sql dup_live_def demo_rec_def)
  have m: "dup_missing \<in> set (file_rows dup_db)" "hash_id dup_missing = hash_id dup_live" "\<not> available dup_missing"
    by (simp_all add: dup_db_def dup_missing_def)
  show ?thesis
    using duplicate_takes_over_live_id [OF ok nf obs at m] by (metis prod.collapse)
qed

end
