(* ===== verification/Watcher.thy ===== *)
theory Watcher
  imports Indexer
begin

text \<open>
  \<open>internal/indexer/watch.go\<close>: the debounced watcher. Its state is the timers: one per file name and
  one for a full scan, each with the time it is due; a timer that is started again replaces the
  one before. The watched directories are those \<open>addTree\<close> gave to \<open>fsnotify\<close>. A timer that fires
  yields the jobs its closure runs.
\<close>

record fs_event =
  ev_name :: string
  ev_create :: bool
  ev_write :: bool
  ev_remove :: bool
  ev_rename :: bool
  ev_chmod :: bool

record watcher =
  pending :: "string \<rightharpoonup> time"
  scan_timer :: "time option"
  watched :: "string list"

datatype job = Job_Scan | Job_Index string | Job_Remove string | Job_Summary

definition debounce :: time where
  "debounce = 400000000"

definition new_watcher :: watcher where
  "new_watcher = \<lparr>pending = Map.empty, scan_timer = None, watched = []\<rparr>"

definition is_dotfile :: "string \<Rightarrow> bool" where
  "is_dotfile name = has_prefix name ''.''"

text \<open>\<open>addTree\<close>: the directories of a tree, hidden ones and what is below them left out.\<close>

fun add_tree :: "bool \<Rightarrow> string \<Rightarrow> node \<Rightarrow> string list" where
  "add_tree is_root p (Node name k info listed children) =
     (if k \<noteq> Directory then []
      else if is_dotfile name \<and> \<not> is_root then []
      else
        let below = (if listed then concat (map (\<lambda>n. add_tree False (path_join p (node_name n)) n) children) else []) in
        case info of
          None \<Rightarrow> below
        | Some i \<Rightarrow> if fi_kind i = Symlink then [] else p # below)"

definition schedule_scan :: "time \<Rightarrow> watcher \<Rightarrow> watcher" where
  "schedule_scan t w = w\<lparr>scan_timer := Some (t + debounce)\<rparr>"

definition schedule :: "time \<Rightarrow> string \<Rightarrow> watcher \<Rightarrow> watcher" where
  "schedule t name w = w\<lparr>pending := (pending w)(name \<mapsto> t + debounce)\<rparr>"

text \<open>\<open>handle\<close>: \<open>new_dir\<close> is the tree at the event's name when \<open>Lstat\<close> shows a directory there.\<close>

definition handle_event :: "fs \<Rightarrow> (string \<Rightarrow> node) \<Rightarrow> time \<Rightarrow> fs_event \<Rightarrow> watcher \<Rightarrow> watcher" where
  "handle_event fs tree_at t ev w =
     (let name = ev_name ev;
          is_new_dir = (case fs name of
            Some i \<Rightarrow> fi_kind i = Directory \<and> \<not> is_dotfile (base_name name)
          | None \<Rightarrow> False) in
      if ev_create ev \<and> is_new_dir then
        schedule_scan t (w\<lparr>watched := watched w @ add_tree True name (tree_at name)\<rparr>)
      else if ev_remove ev \<or> ev_rename ev then
        schedule_scan t (w\<lparr>pending := (pending w)(name := None)\<rparr>)
      else if ev_create ev \<or> ev_write ev \<or> ev_chmod ev then schedule t name w
      else w)"

definition handle_error :: "time \<Rightarrow> watcher \<Rightarrow> watcher" where
  "handle_error t w = schedule_scan t w"

definition fire_scan :: "watcher \<Rightarrow> job list \<times> watcher" where
  "fire_scan w = ([Job_Scan, Job_Summary], w\<lparr>scan_timer := None\<rparr>)"

definition fire_name :: "fs \<Rightarrow> string \<Rightarrow> watcher \<Rightarrow> job list \<times> watcher" where
  "fire_name fs name w =
     ((case fs name of
         None \<Rightarrow> [Job_Remove name, Job_Summary]
       | Some i \<Rightarrow> if fi_kind i = Directory then [] else [Job_Index name, Job_Summary]),
      w\<lparr>pending := (pending w)(name := None)\<rparr>)"

definition flush_cancel :: "watcher \<Rightarrow> watcher" where
  "flush_cancel w = w\<lparr>pending := Map.empty, scan_timer := None\<rparr>"

section \<open>Runs\<close>

text \<open>
  A run of the loop with the clock: events and errors arrive at the current time, time passes, and
  a timer fires when it is due. \<open>changed\<close> records, for each name, when it was last reported and not
  yet looked at; \<open>jobs\<close> the jobs run so far.
\<close>

record watch_run =
  wr_now :: time
  wr_watcher :: watcher
  changed :: "string \<rightharpoonup> time"
  jobs :: "job list"

datatype watch_input =
  In_Event fs "string \<Rightarrow> node" fs_event
| In_Error
| In_Wait nat
| In_Fire_Name fs string
| In_Fire_Scan

definition relevant :: "fs_event \<Rightarrow> bool" where
  "relevant ev \<longleftrightarrow> ev_create ev \<or> ev_write ev \<or> ev_remove ev \<or> ev_rename ev \<or> ev_chmod ev"

fun watch_step :: "watch_run \<Rightarrow> watch_input \<Rightarrow> watch_run" where
  "watch_step s (In_Event fs tree_at ev) =
     s\<lparr>wr_watcher := handle_event fs tree_at (wr_now s) ev (wr_watcher s),
       changed := (if relevant ev then (changed s)(ev_name ev \<mapsto> wr_now s) else changed s)\<rparr>"
| "watch_step s In_Error = s\<lparr>wr_watcher := handle_error (wr_now s) (wr_watcher s)\<rparr>"
| "watch_step s (In_Wait d) = s\<lparr>wr_now := wr_now s + int d\<rparr>"
| "watch_step s (In_Fire_Name fs name) =
     (case pending (wr_watcher s) name of
        Some due \<Rightarrow>
          if due \<le> wr_now s then
            (case fire_name fs name (wr_watcher s) of
               (js, w) \<Rightarrow> s\<lparr>wr_watcher := w, jobs := jobs s @ js,
                           changed := (changed s)(name := None)\<rparr>)
          else s
      | None \<Rightarrow> s)"
| "watch_step s In_Fire_Scan =
     (case scan_timer (wr_watcher s) of
        Some due \<Rightarrow>
          if due \<le> wr_now s then
            (case fire_scan (wr_watcher s) of
               (js, w) \<Rightarrow> s\<lparr>wr_watcher := w, jobs := jobs s @ js, changed := (changed s) |` {n. pending w n \<noteq> None}\<rparr>)
          else s
      | None \<Rightarrow> s)"

text \<open>
  No change is forgotten and none is acted on early: a changed name has its own timer or the scan
  timer is running; both are due at the latest 400 ms after now; a name's own timer is due 400 ms
  after that name was last reported, or earlier only if it was reported as part of a directory.
\<close>

definition watch_inv :: "watch_run \<Rightarrow> bool" where
  "watch_inv s \<longleftrightarrow>
     (\<forall>n t. changed s n = Some t \<longrightarrow>
        t \<le> wr_now s \<and> (pending (wr_watcher s) n \<noteq> None \<or> scan_timer (wr_watcher s) \<noteq> None)) \<and>
     (\<forall>n due. pending (wr_watcher s) n = Some due \<longrightarrow> due \<le> wr_now s + debounce) \<and>
     (\<forall>due. scan_timer (wr_watcher s) = Some due \<longrightarrow> due \<le> wr_now s + debounce)"

lemma handle_event_simps:
  "scan_timer (handle_event fs tr t ev w) = Some (t + debounce) \<or>
   scan_timer (handle_event fs tr t ev w) = scan_timer w \<and>
     (pending (handle_event fs tr t ev w) = pending w \<and> \<not> relevant ev \<or>
      pending (handle_event fs tr t ev w) = (pending w)(ev_name ev \<mapsto> t + debounce))"
  by (auto simp: handle_event_def Let_def schedule_scan_def schedule_def relevant_def)

lemma handle_event_pending:
  "pending (handle_event fs tr t ev w) n \<noteq> pending w n \<Longrightarrow>
     n = ev_name ev \<and> (pending (handle_event fs tr t ev w) n = None \<or>
       pending (handle_event fs tr t ev w) n = Some (t + debounce))"
  by (auto simp: handle_event_def Let_def schedule_scan_def schedule_def split: if_split_asm option.split_asm)

lemma watch_step_inv: "watch_inv s \<Longrightarrow> watch_inv (watch_step s i)"
proof (cases i)
  case (In_Event fs tr ev)
  assume inv: "watch_inv s"
  let ?w = "wr_watcher s" and ?w' = "handle_event fs tr (wr_now s) ev (wr_watcher s)"
  note h = handle_event_simps [of fs tr "wr_now s" ev ?w]
  have p: "pending ?w' n = Some due \<Longrightarrow> due \<le> wr_now s + debounce" for n due
    using inv handle_event_pending [of fs tr "wr_now s" ev ?w n]
    by (cases "pending ?w' n = pending ?w n") (auto simp: watch_inv_def)
  have sc: "scan_timer ?w' = Some due \<Longrightarrow> due \<le> wr_now s + debounce" for due
    using h inv by (auto simp: watch_inv_def)
  have c: "t \<le> wr_now s \<and> (pending ?w' n \<noteq> None \<or> scan_timer ?w' \<noteq> None)"
    if "changed (watch_step s i) n = Some t" for n t
    using h inv that unfolding In_Event by (auto simp: watch_inv_def split: if_split_asm)
  show ?thesis using p sc c unfolding In_Event by (simp add: watch_inv_def)
next
  case In_Error
  then show "watch_inv s \<Longrightarrow> ?thesis" by (auto simp: watch_inv_def handle_error_def schedule_scan_def)
next
  case (In_Wait d)
  then show "watch_inv s \<Longrightarrow> ?thesis" by (fastforce simp: watch_inv_def)
next
  case (In_Fire_Name fs name)
  then show "watch_inv s \<Longrightarrow> ?thesis"
    by (auto simp: watch_inv_def fire_name_def split: option.split if_split_asm)
next
  case In_Fire_Scan
  then show "watch_inv s \<Longrightarrow> ?thesis"
    by (auto simp: watch_inv_def fire_scan_def restrict_map_def split: option.split if_split_asm)
qed

interpretation watching: machine watch_step watch_inv
  by unfold_locales (rule watch_step_inv)

definition watch_start :: "time \<Rightarrow> watch_run" where
  "watch_start t = \<lparr>wr_now = t, wr_watcher = new_watcher, changed = Map.empty, jobs = []\<rparr>"

lemma watch_inv_start: "watch_inv (watch_start t)"
  by (simp add: watch_inv_def watch_start_def new_watcher_def)

text \<open>
  C25. The watcher loses no change: after any sequence of file events, errors, waits and fired timers,
  every name that was reported and not looked at since has a running timer, its own or that of a
  full scan, which is due within 400 ms.
\<close>
theorem watcher_loses_no_change:
  assumes "changed (run watch_step (watch_start t) is) n = Some at"
  shows "\<exists>due \<le> wr_now (run watch_step (watch_start t) is) + debounce.
    pending (wr_watcher (run watch_step (watch_start t) is)) n = Some due \<or>
    scan_timer (wr_watcher (run watch_step (watch_start t) is)) = Some due"
proof -
  let ?s = "run watch_step (watch_start t) is"
  have inv: "watch_inv ?s" by (rule watching.run_invar [OF watch_inv_start])
  then have "pending (wr_watcher ?s) n \<noteq> None \<or> scan_timer (wr_watcher ?s) \<noteq> None"
    using assms unfolding watch_inv_def by blast
  then obtain due where "pending (wr_watcher ?s) n = Some due \<or> scan_timer (wr_watcher ?s) = Some due"
    by blast
  with inv show ?thesis unfolding watch_inv_def by blast
qed

definition demo_event :: fs_event where
  "demo_event = \<lparr>ev_name = ''/srv/share/a.txt'', ev_create = False, ev_write = True, ev_remove = False,
     ev_rename = False, ev_chmod = False\<rparr>"

theorem watcher_loses_no_change_witness:
  "\<exists>due \<le> wr_now (run watch_step (watch_start 0) [In_Event demo_fs (\<lambda>_. Node [] Regular None False []) demo_event, In_Wait 5]) + debounce.
    pending (wr_watcher (run watch_step (watch_start 0) [In_Event demo_fs (\<lambda>_. Node [] Regular None False []) demo_event, In_Wait 5])) ''/srv/share/a.txt'' = Some due \<or>
    scan_timer (wr_watcher (run watch_step (watch_start 0) [In_Event demo_fs (\<lambda>_. Node [] Regular None False []) demo_event, In_Wait 5])) = Some due"
  by (rule watcher_loses_no_change [where at = 0]) (simp add: relevant_def demo_event_def watch_start_def)

end
