(* ===== verification/Base64.thy ===== *)
theory Base64
  imports Go_Strings
begin

text \<open>
  \<open>base64.StdEncoding\<close> of the standard library, as the signatures and challenges use it: the padded
  encoding, and the decoder, which skips line breaks and does not look at the unused bits of the
  last character.
\<close>

definition b64_alphabet :: string where
  "b64_alphabet = ''ABCDEFGHIJKLMNOPQRSTUVWXYZabcdefghijklmnopqrstuvwxyz0123456789+/''"

definition b64_char :: "nat \<Rightarrow> char" where
  "b64_char n = b64_alphabet ! n"

definition b64_val :: "char \<Rightarrow> nat option" where
  "b64_val c =
     (let n = byte c in
      if 65 \<le> n \<and> n \<le> 90 then Some (n - 65)
      else if 97 \<le> n \<and> n \<le> 122 then Some (n - 71)
      else if 48 \<le> n \<and> n \<le> 57 then Some (n + 4)
      else if n = 43 then Some 62
      else if n = 47 then Some 63
      else None)"

fun b64_encode :: "string \<Rightarrow> string" where
  "b64_encode [] = []"
| "b64_encode [a] = [b64_char (byte a div 4), b64_char (byte a mod 4 * 16), CHR ''='', CHR ''='']"
| "b64_encode [a, b] =
     [b64_char (byte a div 4), b64_char (byte a mod 4 * 16 + byte b div 16), b64_char (byte b mod 16 * 4), CHR ''='']"
| "b64_encode (a # b # c # s) =
     b64_char (byte a div 4) # b64_char (byte a mod 4 * 16 + byte b div 16) #
     b64_char (byte b mod 16 * 4 + byte c div 64) # b64_char (byte c mod 64) # b64_encode s"

definition quad1 :: "nat \<Rightarrow> nat \<Rightarrow> char" where "quad1 v w = char_of (v * 4 + w div 16)"
definition quad2 :: "nat \<Rightarrow> nat \<Rightarrow> char" where "quad2 w x = char_of (w mod 16 * 16 + x div 4)"
definition quad3 :: "nat \<Rightarrow> nat \<Rightarrow> char" where "quad3 x y = char_of (x mod 4 * 64 + y)"

fun b64_quads :: "string \<Rightarrow> string option" where
  "b64_quads [] = Some []"
| "b64_quads (p # q # r # t # rest) =
     (case (b64_val p, b64_val q) of
        (Some v, Some w) \<Rightarrow>
          (case b64_val r of
             Some x \<Rightarrow>
               (case b64_val t of
                  Some y \<Rightarrow> map_option (\<lambda>bs. quad1 v w # quad2 w x # quad3 x y # bs) (b64_quads rest)
                | None \<Rightarrow> if t = CHR ''='' \<and> rest = [] then Some [quad1 v w, quad2 w x] else None)
           | None \<Rightarrow> if r = CHR ''='' \<and> t = CHR ''='' \<and> rest = [] then Some [quad1 v w] else None)
      | _ \<Rightarrow> None)"
| "b64_quads _ = None"

definition b64_decode :: "string \<Rightarrow> string option" where
  "b64_decode s = b64_quads (filter (\<lambda>c. c \<noteq> CHR 0x0D \<and> c \<noteq> CHR 0x0A) s)"

lemma b64_table:
  "map (\<lambda>c. map_option int (b64_val c)) b64_alphabet = map (\<lambda>n. Some (int n)) [0..<64]"
  "length b64_alphabet = 64" "CHR 0x0D \<notin> set b64_alphabet" "CHR 0x0A \<notin> set b64_alphabet"
  by (simp_all add: b64_alphabet_def b64_val_def byte_def upt_rec)

lemma b64_val_char: "n < 64 \<Longrightarrow> b64_val (b64_char n) = Some n"
proof -
  assume n: "n < 64"
  have "map (\<lambda>c. map_option int (b64_val c)) b64_alphabet ! n = map (\<lambda>n. Some (int n)) [0..<64] ! n"
    by (simp only: b64_table(1))
  with n have "map_option int (b64_val (b64_char n)) = Some (int n)" by (simp add: b64_table(2) b64_char_def)
  then show ?thesis by auto
qed

lemma b64_char_break: "n < 64 \<Longrightarrow> b64_char n \<noteq> CHR 0x0D \<and> b64_char n \<noteq> CHR 0x0A"
  using b64_table(2-4) nth_mem [of n b64_alphabet] by (auto simp: b64_char_def simp del: nth_mem)

lemma byte_bound: "byte c < 256"
  by (simp add: byte_def)

lemma six_bits:
  "byte a div 4 < 64" "byte a mod 4 * 16 < 64" "byte a mod 4 * 16 + byte b div 16 < 64"
  "byte b mod 16 * 4 < 64" "byte b mod 16 * 4 + byte c div 64 < 64" "byte c mod 64 < 64"
proof -
  have d: "byte a div 4 < 64" "byte b div 16 < 16" "byte c div 64 < 4"
    using byte_bound [of a] byte_bound [of b] byte_bound [of c]
    by (simp_all add: less_mult_imp_div_less)
  have m: "byte a mod 4 < 4" "byte b mod 16 < 16" "byte c mod 64 < 64" by simp_all
  from d m show "byte a div 4 < 64" "byte a mod 4 * 16 < 64" "byte a mod 4 * 16 + byte b div 16 < 64"
    "byte b mod 16 * 4 < 64" "byte b mod 16 * 4 + byte c div 64 < 64" "byte c mod 64 < 64"
    by linarith+
qed

lemma quad1_inv: "quad1 (byte a div 4) (byte a mod 4 * 16 + k) = a" if "k < 16"
proof -
  have "(byte a mod 4 * 16 + k) div 16 = byte a mod 4" using that by simp
  then show ?thesis by (simp add: quad1_def)
qed

lemma quad2_inv: "quad2 (j * 16 + byte b div 16) (byte b mod 16 * 4 + k) = b" if "k < 4"
proof -
  have "byte b div 16 < 16" using byte_bound [of b] by (simp add: less_mult_imp_div_less)
  then have "(j * 16 + byte b div 16) mod 16 = byte b div 16" by simp
  moreover have "(byte b mod 16 * 4 + k) div 4 = byte b mod 16" using that by simp
  ultimately show ?thesis by (simp add: quad2_def)
qed

lemma quad3_inv: "quad3 (j * 4 + byte c div 64) (byte c mod 64) = c"
proof -
  have "byte c div 64 < 4" using byte_bound [of c] by (simp add: less_mult_imp_div_less)
  then have "(j * 4 + byte c div 64) mod 4 = byte c div 64" by simp
  then show ?thesis by (simp add: quad3_def)
qed

lemma b64_quads_encode: "b64_quads (b64_encode s) = Some s"
proof (induction s rule: b64_encode.induct)
  case (2 a)
  have "b64_val (CHR ''='') = None" by (simp add: b64_val_def byte_def)
  then show ?case
    using quad1_inv [of 0 a] by (simp add: b64_val_char six_bits)
next
  case (3 a b)
  have e: "b64_val (CHR ''='') = None" by (simp add: b64_val_def byte_def)
  have k: "byte b div 16 < 16" using byte_bound [of b] by (simp add: less_mult_imp_div_less)
  show ?case
    using quad1_inv [OF k, of a] quad2_inv [of 0 "byte a mod 4" b] by (simp add: b64_val_char six_bits e)
next
  case (4 a b c s)
  have k: "byte b div 16 < 16" using byte_bound [of b] by (simp add: less_mult_imp_div_less)
  have l: "byte c div 64 < 4" using byte_bound [of c] by (simp add: less_mult_imp_div_less)
  show ?case
    using quad1_inv [OF k, of a] quad2_inv [OF l, of "byte a mod 4" b] quad3_inv [of "byte b mod 16" c] 4
    by (simp add: b64_val_char six_bits)
qed simp

lemma b64_encode_no_break: "filter (\<lambda>c. c \<noteq> CHR 0x0D \<and> c \<noteq> CHR 0x0A) (b64_encode s) = b64_encode s"
  by (induction s rule: b64_encode.induct) (simp_all add: b64_char_break six_bits)

lemma b64_decode_encode [simp]: "b64_decode (b64_encode s) = Some s"
  by (simp add: b64_decode_def b64_encode_no_break b64_quads_encode)

text \<open>Two texts that decode to the same bytes: the last character before the padding is not unique.\<close>

lemma b64_malleable: "b64_decode ''QQ=='' = b64_decode ''QR=='' \<and> b64_decode ''QQ=='' = Some ''A''"
  by code_simp

text \<open>
  In general: when one byte is left over, the last character before the padding carries four unused
  bits, so its successor in the alphabet decodes to the same bytes.
\<close>

fun respell :: "string \<Rightarrow> string" where
  "respell [p, q, r, t] =
     (case b64_val q of Some v \<Rightarrow> if r = CHR ''='' then [p, b64_char (v + 1), r, t] else [p, q, r, t] | None \<Rightarrow> [p, q, r, t])"
| "respell (p # q # r # t # rest) = p # q # r # t # respell rest"
| "respell s = s"

lemma b64_char_in: "n < 64 \<Longrightarrow> b64_char n \<in> set b64_alphabet"
  using b64_table(2) by (simp add: b64_char_def)

lemma b64_char_inj: "m < 64 \<Longrightarrow> n < 64 \<Longrightarrow> b64_char m = b64_char n \<longleftrightarrow> m = n"
  by (metis b64_val_char option.inject)

lemma b64_val_pad: "b64_val (CHR ''='') = None"
  by code_simp

lemma padded_quad:
  assumes "v < 64" "x < 64"
  shows "b64_quads [b64_char v, b64_char x, CHR ''='', CHR ''=''] = Some [quad1 v x]"
    and "respell [b64_char v, b64_char x, CHR ''='', CHR ''=''] = [b64_char v, b64_char (x + 1), CHR ''='', CHR ''='']"
  using assms by (simp_all only: b64_quads.simps respell.simps b64_val_char b64_val_pad option.case prod.case if_True
      list.simps simp_thms)

lemma respell_quads:
  "length s mod 3 = 1 \<Longrightarrow>
   b64_quads (respell (b64_encode s)) = Some s \<and> respell (b64_encode s) \<noteq> b64_encode s \<and>
   set (respell (b64_encode s)) \<subseteq> insert (CHR ''='') (set b64_alphabet)"
proof (induction s rule: b64_encode.induct)
  case (2 a)
  have x: "byte a mod 4 * 16 < 64" "byte a mod 4 * 16 + 1 < 64" "byte a div 4 < 64" using six_bits [of a] by linarith+
  have "quad1 (byte a div 4) (byte a mod 4 * 16 + 1) = a" by (rule quad1_inv) simp
  then show ?case
    using x padded_quad [OF x(3,1)] padded_quad(1) [OF x(3,2)] b64_char_inj [OF x(2,1)] b64_char_in [OF x(3)] b64_char_in [OF x(2)]
    by (simp only: b64_encode.simps) simp
next
  case (3 a b)
  then show ?case by simp
next
  case (4 a b c s)
  note "4.prems"
  moreover have "length (a # b # c # s) = length s + 3" by simp
  ultimately have s: "length s mod 3 = 1" by (metis mod_add_self2)
  then have "s \<noteq> []" by auto
  then obtain x t where t: "b64_encode s = x # t" by (cases s rule: b64_encode.cases) auto
  have k: "byte b div 16 < 16" "byte c div 64 < 4"
    using byte_bound [of b] byte_bound [of c] by (simp_all add: less_mult_imp_div_less)
  show ?case
    using "4.IH" [OF s] quad1_inv [OF k(1), of a] quad2_inv [OF k(2), of "byte a mod 4" b] quad3_inv [of "byte b mod 16" c] t
    by (simp add: b64_val_char six_bits b64_char_in)
qed simp

lemma respell_decodes:
  assumes "length s mod 3 = 1"
  shows "b64_decode (respell (b64_encode s)) = Some s" "respell (b64_encode s) \<noteq> b64_encode s"
    "set (respell (b64_encode s)) \<subseteq> insert (CHR ''='') (set b64_alphabet)"
proof -
  note r = respell_quads [OF assms]
  show sub: "set (respell (b64_encode s)) \<subseteq> insert (CHR ''='') (set b64_alphabet)" using r by simp
  have "filter (\<lambda>c. c \<noteq> CHR 0x0D \<and> c \<noteq> CHR 0x0A) (respell (b64_encode s)) = respell (b64_encode s)"
    using sub b64_table(3,4) by (intro filter_True) auto
  then show "b64_decode (respell (b64_encode s)) = Some s" using r by (simp add: b64_decode_def)
  show "respell (b64_encode s) \<noteq> b64_encode s" using r by simp
qed

end
