(* ===== verification/Http_Header.thy ===== *)
theory Http_Header
  imports Go_Strings
begin

text \<open>
  \<open>net/http.Header\<close>: a map from canonical keys to the values in order of arrival, with the
  canonicalisation of \<open>textproto\<close>; and \<open>internal/tunnel/hop.go\<close>.
\<close>

section \<open>Paths on the wire\<close>

text \<open>
  \<open>url.PathUnescape\<close>, the path of a request from its \<open>EscapedPath\<close>, and the segments \<open>ServeMux\<close> compares and
  hands to \<open>PathValue\<close>: it splits the escaped path and unescapes each part alone, keeping it when it cannot.
  \<open>escape_path\<close> is the way back of \<open>URL.String\<close>.
\<close>

definition hex_value :: "char \<Rightarrow> nat option" where
  "hex_value c =
     (if is_digit c then Some (byte c - 48)
      else if 97 \<le> byte c \<and> byte c \<le> 102 then Some (byte c - 87)
      else if 65 \<le> byte c \<and> byte c \<le> 70 then Some (byte c - 55)
      else None)"

fun path_unescape :: "string \<Rightarrow> string option" where
  "path_unescape [] = Some []"
| "path_unescape (c # s) =
     (if c \<noteq> CHR 0x25 then map_option ((#) c) (path_unescape s)
      else case s of
        a # b # t \<Rightarrow>
          (case (hex_value a, hex_value b) of
             (Some x, Some y) \<Rightarrow> map_option ((#) (char_of (16 * x + y))) (path_unescape t)
           | _ \<Rightarrow> None)
      | _ \<Rightarrow> None)"

definition unescaped :: "string \<Rightarrow> string" where
  "unescaped s = (case path_unescape s of Some t \<Rightarrow> t | None \<Rightarrow> s)"

definition segments :: "string \<Rightarrow> string list" where
  "segments path = map unescaped (split_on (CHR ''/'') path)"

definition escape_path :: "string \<Rightarrow> string" where
  "escape_path s =
     concat (map (\<lambda>c. if is_upper c \<or> is_lower c \<or> is_digit c \<or> c \<in> set ''-_.~$&+,/:;=@'' then [c]
       else [CHR 0x25, hex_digit (byte c div 16), hex_digit (byte c mod 16)]) s)"

lemma path_unescape_slash:
  "path_unescape (s @ CHR ''/'' # t) =
     (case path_unescape s of None \<Rightarrow> None | Some a \<Rightarrow> map_option (\<lambda>b. a @ CHR ''/'' # b) (path_unescape t))"
proof (induction s rule: path_unescape.induct)
  case (2 c s)
  have slash: "hex_value (CHR ''/'') = None" by (simp add: hex_value_def is_digit_def byte_def)
  show ?case
  proof (cases "c = CHR 0x25")
    case False
    then show ?thesis using 2(1) by (auto simp: option.map_comp o_def split: option.split)
  next
    case c: True
    show ?thesis
    proof (cases s)
      case Nil
      then show ?thesis using c slash by (auto split: list.split option.split)
    next
      case (Cons a u)
      show ?thesis
      proof (cases u)
        case Nil
        then show ?thesis using c Cons slash by (auto split: option.split)
      next
        case u: (Cons b v)
        then show ?thesis using c Cons 2(2) [OF _ Cons u refl] by (auto simp: option.map_comp o_def split: option.split)
      qed
    qed
  qed
qed (simp add: option.map_comp o_def)

lemma unescaped_Nil: "unescaped s = [] \<longleftrightarrow> s = []"
proof (cases s)
  case (Cons c t)
  have "path_unescape (c # t) \<noteq> Some []" by (auto split: option.split list.split)
  then show ?thesis by (auto simp: unescaped_def Cons simp del: path_unescape.simps split: option.split)
qed (simp add: unescaped_def)

text \<open>The first segment of a path against its unescaped form.\<close>

lemma first_segment:
  assumes "segments e = [] # s # rest"
  obtains "unescaped e = CHR ''/'' # s" | t where "unescaped e = CHR ''/'' # s @ CHR ''/'' # t"
  | u t where "unescaped e = CHR ''/'' # u @ CHR ''/'' # t" "CHR ''/'' \<notin> set u" "unescaped u = s"
proof -
  obtain s1 ss where sp: "split_on (CHR ''/'') e = [] # s1 # ss" and s1: "unescaped s1 = s"
    using assms by (auto simp: segments_def map_eq_Cons_conv unescaped_Nil)
  have ns: "CHR ''/'' \<notin> set s1" using split_on_no_sep [of s1 "CHR ''/''" e] sp by simp
  have e: "e = join [CHR ''/''] ([] # s1 # ss)" using join_split_on [of "CHR ''/''" e] sp by simp
  have one: "path_unescape (CHR ''/'' # t) = map_option ((#) (CHR ''/'')) (path_unescape t)" for t by simp
  show thesis
  proof (cases ss)
    case Nil
    then have "unescaped e = CHR ''/'' # s" using e s1 by (auto simp: unescaped_def split: option.split)
    then show thesis by (rule that(1))
  next
    case (Cons x xs)
    then obtain t where t: "e = CHR ''/'' # s1 @ CHR ''/'' # t" using e by auto
    show thesis
    proof (cases "path_unescape e")
      case None
      then have "unescaped e = CHR ''/'' # s1 @ CHR ''/'' # t" by (simp add: unescaped_def t)
      then show thesis using that(3) ns s1 by blast
    next
      case (Some p)
      then obtain b where "path_unescape s1 = Some s" "p = CHR ''/'' # s @ CHR ''/'' # b"
        using s1 unfolding t one path_unescape_slash by (auto simp: unescaped_def split: option.splits)
      then show thesis using that(2) Some by (simp add: unescaped_def)
    qed
  qed
qed

section \<open>Headers\<close>

type_synonym header = "string \<rightharpoonup> string list"

definition is_token_char :: "char \<Rightarrow> bool" where
  "is_token_char c \<longleftrightarrow> is_digit c \<or> is_upper c \<or> is_lower c \<or> c \<in> set ''!#$%&*+-.^_`|~'' \<or> byte c = 39"

definition upper_char :: "char \<Rightarrow> char" where
  "upper_char c = (if is_lower c then char_of (byte c - 32) else c)"

fun title_case :: "bool \<Rightarrow> string \<Rightarrow> string" where
  "title_case up [] = []"
| "title_case up (c # s) = (if up then upper_char c else lower_char c) # title_case (c = CHR ''-'') s"

definition canonical_key :: "string \<Rightarrow> string" where
  "canonical_key k = (if list_all is_token_char k then title_case True k else k)"

definition header_values :: "string \<Rightarrow> header \<Rightarrow> string list" where
  "header_values k h = (case h (canonical_key k) of None \<Rightarrow> [] | Some vs \<Rightarrow> vs)"

definition header_get :: "string \<Rightarrow> header \<Rightarrow> string" where
  "header_get k h = (case header_values k h of [] \<Rightarrow> [] | v # vs \<Rightarrow> v)"

definition header_set :: "string \<Rightarrow> string \<Rightarrow> header \<Rightarrow> header" where
  "header_set k v h = h(canonical_key k \<mapsto> [v])"

definition header_add :: "string \<Rightarrow> string \<Rightarrow> header \<Rightarrow> header" where
  "header_add k v h = h(canonical_key k \<mapsto> header_values k h @ [v])"

definition header_del :: "string \<Rightarrow> header \<Rightarrow> header" where
  "header_del k h = h(canonical_key k := None)"

lemma header_get_set [simp]: "header_get k (header_set k v h) = v"
  by (simp add: header_get_def header_values_def header_set_def)

lemma token_title_case: "list_all is_token_char k \<Longrightarrow> list_all is_token_char (title_case up k)"
proof (induction k arbitrary: up)
  case (Cons c k)
  have u: "is_token_char (upper_char c)" if "is_token_char c"
    using that by (auto simp: upper_char_def is_token_char_def is_upper_def is_lower_def)
  have l: "is_token_char (lower_char c)" if "is_token_char c"
    using that by (auto simp: lower_char_def is_token_char_def is_upper_def is_lower_def)
  from Cons u l show ?case by simp
qed simp

lemma upper_char_upper [simp]: "upper_char (upper_char c) = upper_char c"
  by (auto simp: upper_char_def is_lower_def)

lemma dash_byte: "c = CHR ''-'' \<longleftrightarrow> byte c = 45"
proof -
  have "byte (CHR ''-'') = 45" by (simp add: byte_def)
  then show ?thesis by (metis byte_inject)
qed

lemma byte_upper_char: "byte (upper_char c) = (if is_lower c then byte c - 32 else byte c)"
proof (cases "is_lower c")
  case True
  moreover have "byte c - 32 < 256" using byte_less [of c] by linarith
  ultimately show ?thesis by (simp add: upper_char_def)
qed (simp add: upper_char_def)

lemma upper_char_dash [simp]: "upper_char c = CHR ''-'' \<longleftrightarrow> c = CHR ''-''"
  unfolding dash_byte byte_upper_char by (auto simp: is_lower_def)

lemma lower_char_dash [simp]: "lower_char c = CHR ''-'' \<longleftrightarrow> c = CHR ''-''"
  unfolding dash_byte byte_lower_char by (auto simp: is_upper_def)

lemma title_case_idem: "title_case up (title_case up k) = title_case up k"
  by (induction k arbitrary: up) auto

lemma canonical_key_idem [simp]: "canonical_key (canonical_key k) = canonical_key k"
  by (simp add: canonical_key_def token_title_case title_case_idem)

text \<open>A header built by \<open>Set\<close>, \<open>Add\<close> and \<open>Del\<close>: canonical keys, each with a value.\<close>

definition header_ok :: "header \<Rightarrow> bool" where
  "header_ok h \<longleftrightarrow> finite (dom h) \<and> (\<forall>k vs. h k = Some vs \<longrightarrow> canonical_key k = k \<and> vs \<noteq> [])"

lemma header_ok_empty [simp]: "header_ok Map.empty"
  by (simp add: header_ok_def)

lemma header_ok_edits:
  "header_ok h \<Longrightarrow> header_ok (header_set k v h)" "header_ok h \<Longrightarrow> header_ok (header_add k v h)"
  "header_ok h \<Longrightarrow> header_ok (header_del k h)"
  by (auto simp: header_ok_def header_set_def header_add_def header_del_def)

text \<open>Ranging over a header in some order and adding every value gives the header back.\<close>

definition add_all :: "string list \<Rightarrow> header \<Rightarrow> header \<Rightarrow> header" where
  "add_all order h h0 = fold (\<lambda>k. fold (header_add k) (case h k of None \<Rightarrow> [] | Some vs \<Rightarrow> vs)) order h0"

lemma fold_header_add:
  "canonical_key k = k \<Longrightarrow>
     fold (header_add k) vs h = (if vs = [] then h else h(k \<mapsto> (case h k of None \<Rightarrow> [] | Some us \<Rightarrow> us) @ vs))"
  by (induction vs arbitrary: h) (auto simp: header_add_def header_values_def)

lemma add_all_apply:
  assumes "header_ok h" "distinct order" "set order \<subseteq> dom h" "\<And>k. k \<in> set order \<Longrightarrow> h0 k = None"
  shows "add_all order h h0 = (\<lambda>k. if k \<in> set order then h k else h0 k)"
  using assms(2-)
proof (induction order arbitrary: h0)
  case (Cons k ks)
  obtain vs where vs: "h k = Some vs" "canonical_key k = k" "vs \<noteq> []"
    using Cons.prems(2) assms(1) by (auto simp: header_ok_def)
  have "add_all (k # ks) h h0 = add_all ks h (h0(k \<mapsto> vs))"
    using vs Cons.prems(3) [of k] by (simp add: add_all_def fold_header_add)
  also have "\<dots> = (\<lambda>j. if j \<in> set ks then h j else (h0(k \<mapsto> vs)) j)"
    using Cons.prems by (intro Cons.IH) auto
  finally show ?case using Cons.prems vs by (auto simp: fun_eq_iff)
qed (simp add: add_all_def)

lemma add_all_same:
  assumes "header_ok h" "distinct order" "set order = dom h"
  shows "add_all order h Map.empty = h"
  using add_all_apply [OF assms(1,2), of Map.empty] assms(3) by (auto simp: fun_eq_iff dom_def)

section \<open>Hop-by-hop headers\<close>

definition hop_by_hop :: "string list" where
  "hop_by_hop = [''Connection'', ''Keep-Alive'', ''Proxy-Authenticate'', ''Proxy-Authorization'', ''Te'',
     ''Trailer'', ''Transfer-Encoding'', ''Upgrade'']"

definition strip_hop :: "header \<Rightarrow> header" where
  "strip_hop h = fold header_del hop_by_hop (fold header_del (header_values ''Connection'' h) h)"

lemma header_dels: "fold header_del ks h = (\<lambda>k. if k \<in> canonical_key ` set ks then None else h k)"
  by (induction ks arbitrary: h) (auto simp: header_del_def fun_eq_iff)

lemma strip_hop_apply:
  "strip_hop h k =
     (if k \<in> canonical_key ` set hop_by_hop \<or> k \<in> canonical_key ` set (header_values ''Connection'' h)
      then None else h k)"
  by (simp add: strip_hop_def header_dels)

lemma canonical_hop: "map canonical_key hop_by_hop = hop_by_hop"
  by code_simp

lemma strip_hop_hop: "k \<in> set hop_by_hop \<Longrightarrow> strip_hop h k = None"
  using canonical_hop by (metis imageI list.set_map strip_hop_apply)

lemma strip_hop_idem: "strip_hop (strip_hop h) = strip_hop h"
proof -
  have "canonical_key ''Connection'' = ''Connection''" by code_simp
  then have "header_values ''Connection'' (strip_hop h) = []"
    using strip_hop_hop [of "''Connection''" h] by (simp add: header_values_def hop_by_hop_def)
  then show ?thesis by (simp add: fun_eq_iff strip_hop_apply)
qed

lemma header_ok_strip_hop: "header_ok h \<Longrightarrow> header_ok (strip_hop h)"
  by (auto simp: header_ok_def strip_hop_apply intro: finite_subset [of _ "dom h"] split: if_splits)

text \<open>
  A comma-separated \<open>Connection\<close> value is not split: the headers it names are passed on. A
  request whose \<open>Connection\<close> header reads \<open>close, X-Secret\<close> keeps its \<open>X-Secret\<close> header.
\<close>
theorem strip_hop_keeps_listed_headers:
  "strip_hop ((h(''Connection'' := Some [''close, X-Secret'']))(''X-Secret'' := Some vs)) ''X-Secret'' = Some vs"
proof -
  have c: "canonical_key ''Connection'' = ''Connection''" "canonical_key ''close, X-Secret'' = ''close, X-Secret''"
    by code_simp+
  show ?thesis
    unfolding strip_hop_apply list.set_map [symmetric] canonical_hop
    by (simp add: header_values_def c hop_by_hop_def)
qed

end
