(* ===== verification/Frame.thy ===== *)
theory Frame
  imports Go_Strings
begin

text \<open>
  \<open>internal/tunnel/frame.go\<close> and the body frames of \<open>client.go\<close> and \<open>internal/gateway/server.go\<close>: the
  length-prefixed frames of a tunnel as bytes. Reading from a stream either needs more bytes
  (\<open>io.ReadFull\<close> would wait, or fail at the end of the stream), or fails, or yields a frame and
  the rest of the stream.
\<close>

definition max_frame :: nat where "max_frame = 8 * 2 ^ 20"
definition chunk_size :: nat where "chunk_size = 64 * 2 ^ 10"

definition type_hello :: nat where "type_hello = 1"
definition type_challenge :: nat where "type_challenge = 2"
definition type_auth :: nat where "type_auth = 3"
definition type_auth_ok :: nat where "type_auth_ok = 4"
definition type_auth_fail :: nat where "type_auth_fail = 5"
definition type_ping :: nat where "type_ping = 6"
definition type_pong :: nat where "type_pong = 7"
definition type_http_req :: nat where "type_http_req = 8"
definition type_http_res_head :: nat where "type_http_res_head = 9"
definition type_http_res_body :: nat where "type_http_res_body = 10"
definition type_http_res_end :: nat where "type_http_res_end = 11"

text \<open>\<open>binary.BigEndian\<close> on 32 bits.\<close>

definition put_uint32 :: "nat \<Rightarrow> string" where
  "put_uint32 n =
     [char_of (n div 256 div 256 div 256 mod 256), char_of (n div 256 div 256 mod 256),
      char_of (n div 256 mod 256), char_of (n mod 256)]"

definition get_uint32 :: "char \<Rightarrow> char \<Rightarrow> char \<Rightarrow> char \<Rightarrow> nat" where
  "get_uint32 a b c d = ((byte a * 256 + byte b) * 256 + byte c) * 256 + byte d"

type_synonym frame = "nat \<times> string"

definition write_frame :: "frame \<Rightarrow> string option" where
  "write_frame f =
     (case f of (typ, payload) \<Rightarrow>
        if length payload > max_frame then None
        else Some (put_uint32 (length payload) @ [char_of typ] @ payload))"

datatype read_result = Need_More | Too_Large nat | Got frame string

definition read_frame :: "string \<Rightarrow> read_result" where
  "read_frame s =
     (case s of
        a # b # c # d # t # rest \<Rightarrow>
          let n = get_uint32 a b c d in
          if n > max_frame then Too_Large n
          else if length rest < n then Need_More
          else Got (byte t, take n rest) (drop n rest)
      | _ \<Rightarrow> Need_More)"

lemma get_put_uint32:
  assumes "n < 2 ^ 32"
  shows "get_uint32 (char_of (n div 256 div 256 div 256 mod 256)) (char_of (n div 256 div 256 mod 256))
    (char_of (n div 256 mod 256)) (char_of (n mod 256)) = n"
proof -
  define q1 q2 q3 where "q1 = n div 256" and "q2 = q1 div 256" and "q3 = q2 div 256"
  have "q3 < 256"
    using assms by (simp add: q1_def q2_def q3_def less_mult_imp_div_less)
  then have "q3 mod 256 * 256 + q2 mod 256 = q2" by (simp add: q3_def)
  moreover have "q2 * 256 + q1 mod 256 = q1" by (simp add: q2_def)
  moreover have "q1 * 256 + n mod 256 = n" by (simp add: q1_def)
  moreover have b: "byte (char_of (k mod 256)) = k mod 256" for k by (simp add: byte_def)
  ultimately show ?thesis
    unfolding get_uint32_def q1_def [symmetric] q2_def [symmetric] q3_def [symmetric] b by simp
qed

lemma read_write_frame:
  assumes "typ < 256" and "write_frame (typ, payload) = Some bs"
  shows "read_frame (bs @ rest) = Got (typ, payload) rest"
proof -
  have len: "length payload \<le> max_frame" and bs: "bs = put_uint32 (length payload) @ [char_of typ] @ payload"
    using assms(2) by (auto simp: write_frame_def split: if_split_asm)
  have "length payload < 2 ^ 32" using len by (simp add: max_frame_def)
  from get_put_uint32 [OF this] show ?thesis
    using len assms(1) by (simp add: bs read_frame_def put_uint32_def Let_def byte_def)
qed

lemma read_frame_bound:
  "read_frame s = Got (typ, payload) rest \<Longrightarrow> length payload \<le> max_frame \<and> typ < 256 \<and> length rest < length s"
  by (auto simp: read_frame_def Let_def byte_def split: list.split_asm if_split_asm)

section \<open>Streams of frames\<close>

text \<open>
  The contract of a framing that its clients use: a written frame is read back and the reader
  stops exactly behind it. The client's facts are about whole streams.
\<close>

locale framing =
  fixes enc :: "'f \<Rightarrow> string option"
    and dec :: "string \<Rightarrow> ('f \<times> string) option"
    and good :: "'f \<Rightarrow> bool"
  assumes dec_enc: "good f \<Longrightarrow> enc f = Some bs \<Longrightarrow> dec (bs @ rest) = Some (f, rest)"
    and dec_shorter: "dec s = Some (f, rest) \<Longrightarrow> length rest < length s"
    and dec_empty: "dec [] = None"
begin

function dec_all :: "string \<Rightarrow> 'f list \<times> string" where
  "dec_all s = (case dec s of None \<Rightarrow> ([], s) | Some (f, rest) \<Rightarrow> (case dec_all rest of (fs, t) \<Rightarrow> (f # fs, t)))"
  by pat_completeness auto
termination
  by (relation "measure length") (auto dest: dec_shorter)

declare dec_all.simps [simp del]

fun enc_all :: "'f list \<Rightarrow> string option" where
  "enc_all [] = Some []"
| "enc_all (f # fs) =
     (case enc f of None \<Rightarrow> None | Some b \<Rightarrow> (case enc_all fs of None \<Rightarrow> None | Some bs \<Rightarrow> Some (b @ bs)))"

lemma dec_enc_all:
  assumes "list_all good fs" and "enc_all fs = Some bs" and "dec rest = None"
  shows "dec_all (bs @ rest) = (fs, rest)"
  using assms(1,2)
proof (induction fs arbitrary: bs)
  case Nil
  then show ?case using assms(3) by (simp add: dec_all.simps)
next
  case (Cons f fs)
  then obtain b bs' where b: "enc f = Some b" "enc_all fs = Some bs'" "bs = b @ bs'"
    by (auto split: option.split_asm)
  have "dec (b @ (bs' @ rest)) = Some (f, bs' @ rest)" using dec_enc Cons.prems(1) b(1) by simp
  moreover have "dec_all (bs' @ rest) = (fs, rest)" using Cons.IH Cons.prems(1) b(2) by simp
  ultimately show ?case by (subst dec_all.simps) (simp add: b(3))
qed

end

definition frame_dec :: "string \<Rightarrow> (frame \<times> string) option" where
  "frame_dec s = (case read_frame s of Got f rest \<Rightarrow> Some (f, rest) | _ \<Rightarrow> None)"

interpretation frames: framing write_frame frame_dec "\<lambda>(typ, payload). typ < 256"
proof
  fix f bs rest
  assume "case f of (typ, payload) \<Rightarrow> typ < 256" "write_frame f = Some bs"
  then show "frame_dec (bs @ rest) = Some (f, rest)"
    by (cases f) (simp add: frame_dec_def read_write_frame)
next
  fix s f rest
  assume "frame_dec s = Some (f, rest)"
  then show "length rest < length s"
    by (cases f) (auto simp: frame_dec_def split: read_result.split_asm dest: read_frame_bound)
next
  show "frame_dec [] = None" by (simp add: frame_dec_def read_frame_def)
qed

text \<open>
  C29. Round trip of the tunnel: a sequence of frames written to the connection, whatever their
  number, is read back as the same sequence, and an incomplete frame behind them is left unread.
\<close>
theorem frames_roundtrip:
  assumes "list_all (\<lambda>(typ, payload). typ < 256 \<and> length payload \<le> max_frame) fs"
    and "frame_dec rest = None"
  shows "\<exists>bs. frames.enc_all fs = Some bs \<and> frames.dec_all (bs @ rest) = (fs, rest)"
proof -
  have "\<exists>bs. frames.enc_all fs = Some bs"
    using assms(1) by (induction fs) (auto simp: write_frame_def)
  then obtain bs where bs: "frames.enc_all fs = Some bs" ..
  have "list_all (\<lambda>(typ, payload). typ < 256) fs"
    using assms(1) by (auto simp: list_all_iff)
  from frames.dec_enc_all [OF this bs assms(2)] bs show ?thesis by blast
qed

theorem frames_roundtrip_witness:
  "\<exists>bs. frames.enc_all [(8, ''{}''), (6, [])] = Some bs \<and>
     frames.dec_all (bs @ ''ab'') = ([(8, ''{}''), (6, [])], ''ab'')"
  by (rule frames_roundtrip) (simp_all add: max_frame_def frame_dec_def read_frame_def)

lemma base256: "y < 256 \<Longrightarrow> (x * 256 + y) mod 256 = y" "y < 256 \<Longrightarrow> (x * 256 + y) div 256 = (x :: nat)"
  by simp_all

lemma put_get_uint32: "put_uint32 (get_uint32 a b c d) = [a, b, c, d]"
proof -
  have bnd: "byte x < 256" for x by (simp add: byte_def)
  define n where "n = get_uint32 a b c d"
  have n: "n = ((byte a * 256 + byte b) * 256 + byte c) * 256 + byte d"
    by (simp add: n_def get_uint32_def)
  have "n mod 256 = byte d" and n1: "n div 256 = (byte a * 256 + byte b) * 256 + byte c"
    unfolding n by (rule base256 [OF bnd])+
  moreover have "n div 256 mod 256 = byte c" and n2: "n div 256 div 256 = byte a * 256 + byte b"
    unfolding n1 by (rule base256 [OF bnd])+
  moreover have "n div 256 div 256 mod 256 = byte b" "n div 256 div 256 div 256 mod 256 = byte a"
    unfolding n2 base256 [OF bnd] using bnd [of a] by simp_all
  ultimately show ?thesis unfolding n_def [symmetric] put_uint32_def by simp
qed

text \<open>
  Memory bound of the reader: a frame that is accepted has at most \<open>MaxFrame\<close> bytes of payload
  and is exactly what the stream began with; a longer announced length is refused on the five
  header bytes alone, before any of its payload is read.
\<close>
theorem read_frame_bounded:
  "case read_frame s of
     Got (typ, payload) rest \<Rightarrow> length payload \<le> max_frame \<and> s = put_uint32 (length payload) @ [char_of typ] @ payload @ rest
   | Too_Large n \<Rightarrow> max_frame < n \<and> read_frame (take 5 s) = Too_Large n
   | Need_More \<Rightarrow> True"
proof (cases "read_frame s")
  case (Too_Large n)
  then obtain a b c d t rest where s: "s = a # b # c # d # t # rest" and n: "n = get_uint32 a b c d" "max_frame < n"
    by (auto simp: read_frame_def Let_def split: list.split_asm if_split_asm)
  then show ?thesis using Too_Large by (simp add: read_frame_def Let_def)
next
  case (Got f rest)
  then obtain a b c d t r where s: "s = a # b # c # d # t # r" and n: "get_uint32 a b c d \<le> max_frame"
    "get_uint32 a b c d \<le> length r" "f = (byte t, take (get_uint32 a b c d) r)" "rest = drop (get_uint32 a b c d) r"
    by (auto simp: read_frame_def Let_def split: list.split_asm if_split_asm)
  have "put_uint32 (length (take (get_uint32 a b c d) r)) = [a, b, c, d]"
    using n(2) put_get_uint32 by (simp add: min_absorb2)
  then show ?thesis using Got n s by simp
qed simp

section \<open>Body frames\<close>

text \<open>
  The 16-byte request id in front of a body chunk: \<open>encodeBody\<close> of the node, \<open>decodeBody\<close> of the
  gateway.
\<close>

definition encode_body :: "string \<Rightarrow> string \<Rightarrow> string" where
  "encode_body i data = take 16 (i @ replicate 16 (CHR 0x00)) @ data"

definition decode_body :: "string \<Rightarrow> (string \<times> string) option" where
  "decode_body payload = (if length payload < 16 then None else Some (take 16 payload, drop 16 payload))"

lemma decode_encode_body: "length i = 16 \<Longrightarrow> decode_body (encode_body i data) = Some (i, data)"
  by (simp add: decode_body_def encode_body_def)

text \<open>The loop of \<open>streamWriter.Write\<close>: chunks of at most 64 KiB.\<close>

function chunks :: "string \<Rightarrow> string list" where
  "chunks p = (if p = [] then [] else take chunk_size p # chunks (drop chunk_size p))"
  by pat_completeness auto
termination
  by (relation "measure length") (auto simp: chunk_size_def)

declare chunks.simps [simp del]

lemma concat_chunks [simp]: "concat (chunks p) = p"
proof (induction p rule: chunks.induct)
  case (1 p)
  then show ?case by (subst chunks.simps) simp
qed

lemma chunks_size: "c \<in> set (chunks p) \<Longrightarrow> 0 < length c \<and> length c \<le> chunk_size"
proof (induction p rule: chunks.induct)
  case (1 p)
  then show ?case
    by (subst (asm) chunks.simps) (auto simp: chunk_size_def split: if_split_asm)
qed

lemma body_fits: "c \<in> set (chunks p) \<Longrightarrow> length (encode_body i c) \<le> max_frame"
  using chunks_size [of c p] unfolding encode_body_def max_frame_def chunk_size_def by simp linarith

end
