(* ===== verification/Json.thy ===== *)
theory Json
  imports Go_Strings
begin

text \<open>
  Documents as \<open>encoding/json\<close> presents them to the code (\<open>map[string]any\<close>), URLs as \<open>net/url\<close>
  presents them, and the helpers of \<open>internal/federation/jsonutil.go\<close>. The text level of both
  packages is a parameter of the definitions that use it: a parser from text to a document or a
  URL. \<open>simple_url\<close> is a parser for plain URLs, used by the examples.
\<close>

section \<open>Documents\<close>

datatype json =
  JNull | JBool bool | JNum int | JStr string | JArr "json list" | JObj "(string \<times> json) list"

text \<open>A Go map read at a key: the last of several equal keys counts, a missing key reads as nil.\<close>

definition field :: "string \<Rightarrow> (string \<times> json) list \<Rightarrow> json" where
  "field k m = (case map_of (rev m) k of None \<Rightarrow> JNull | Some v \<Rightarrow> v)"

text \<open>
  A struct field of type \<open>string\<close> in \<open>json.Unmarshal\<close>: names match without case, null leaves the
  field as it is, another type is an error (\<open>None\<close>).
\<close>

fun string_field :: "string \<Rightarrow> (string \<times> json) list \<Rightarrow> string \<Rightarrow> string option" where
  "string_field name [] cur = Some cur"
| "string_field name ((k, v) # m) cur =
     (if equal_fold k name then
        (case v of
           JStr s \<Rightarrow> string_field name m s
         | JNull \<Rightarrow> string_field name m cur
         | _ \<Rightarrow> None)
      else string_field name m cur)"

fun bool_field :: "string \<Rightarrow> (string \<times> json) list \<Rightarrow> bool \<Rightarrow> bool option" where
  "bool_field name [] cur = Some cur"
| "bool_field name ((k, v) # m) cur =
     (if equal_fold k name then
        (case v of
           JBool b \<Rightarrow> bool_field name m b
         | JNull \<Rightarrow> bool_field name m cur
         | _ \<Rightarrow> None)
      else bool_field name m cur)"

definition type_of :: "json \<Rightarrow> string" where
  "type_of v =
     (case v of
        JStr s \<Rightarrow> s
      | JArr (JStr s # _) \<Rightarrow> s
      | _ \<Rightarrow> [])"

definition as_string :: "json \<Rightarrow> string" where
  "as_string v = (case v of JStr s \<Rightarrow> trim_space s | _ \<Rightarrow> [])"

definition as_map :: "json \<Rightarrow> (string \<times> json) list option" where
  "as_map v = (case v of JObj m \<Rightarrow> Some m | _ \<Rightarrow> None)"

definition object_id :: "json \<Rightarrow> string" where
  "object_id v =
     (if as_string v \<noteq> [] then as_string v
      else case as_map v of Some m \<Rightarrow> as_string (field ''id'' m) | None \<Rightarrow> [])"

definition actor_iri :: "json \<Rightarrow> string" where
  "actor_iri v =
     (if as_string v \<noteq> [] then as_string v
      else case as_map v of Some m \<Rightarrow> as_string (field ''id'' m) | None \<Rightarrow> [])"

definition decode_map :: "(string \<Rightarrow> json option) \<Rightarrow> string \<Rightarrow> (string \<times> json) list option" where
  "decode_map parse body =
     (case parse body of
        Some (JObj m) \<Rightarrow> Some m
      | Some JNull \<Rightarrow> Some []
      | _ \<Rightarrow> None)"

section \<open>IRIs\<close>

record url =
  u_scheme :: string
  u_host :: string
  u_hostname :: string
  u_port :: string
  u_path :: string
  u_query :: string
  u_user :: bool

type_synonym url_parser = "string \<Rightarrow> url option"

definition is_http_url :: "url_parser \<Rightarrow> string \<Rightarrow> bool" where
  "is_http_url parse raw =
     (case parse raw of
        None \<Rightarrow> False
      | Some u \<Rightarrow> u_host u \<noteq> [] \<and> (to_lower (u_scheme u) = ''http'' \<or> to_lower (u_scheme u) = ''https''))"

definition host_of :: "url_parser \<Rightarrow> string \<Rightarrow> string" where
  "host_of parse raw = (case parse raw of None \<Rightarrow> [] | Some u \<Rightarrow> to_lower (u_hostname u))"

definition iri_key :: "string \<Rightarrow> string" where
  "iri_key a = trim_suffix (to_lower (trim_space a)) ''/''"

definition same_iri :: "string \<Rightarrow> string \<Rightarrow> bool" where
  "same_iri a b \<longleftrightarrow> iri_key a = iri_key b"

definition actor_from_key_id :: "string \<Rightarrow> string" where
  "actor_from_key_id key_id = (case cut (CHR ''#'') key_id of (a, _, found) \<Rightarrow> if found then a else key_id)"

lemma same_iri_refl [simp]: "same_iri a a"
  by (simp add: same_iri_def)

lemma same_iri_sym: "same_iri a b = same_iri b a"
  by (auto simp: same_iri_def)

lemma same_iri_trans: "same_iri a b \<Longrightarrow> same_iri b c \<Longrightarrow> same_iri a c"
  by (simp add: same_iri_def)

lemma actor_from_plain: "CHR ''#'' \<notin> set k \<Longrightarrow> actor_from_key_id k = k"
  by (simp add: actor_from_key_id_def cut_not_found)

text \<open>Scheme, authority and path of a URL without user information, query or escapes.\<close>

definition simple_url :: url_parser where
  "simple_url raw =
     (case cut (CHR '':'') raw of (sch, rest, f) \<Rightarrow>
        if f \<and> has_prefix rest ''//'' then
          (case cut (CHR ''/'') (trim_prefix rest ''//'') of (auth, p, g) \<Rightarrow>
             (case cut (CHR '':'') auth of (h, port, c) \<Rightarrow>
                (case cut (CHR ''?'') (if g then CHR ''/'' # p else []) of (pth, q, _) \<Rightarrow>
                   Some \<lparr>u_scheme = sch, u_host = auth, u_hostname = h, u_port = port, u_path = pth,
                         u_query = q, u_user = False\<rparr>)))
        else None)"

end
