(* ===== verification/Tunnel_Auth.thy ===== *)
theory Tunnel_Auth
  imports Frame Base64 Json Prelude
begin

text \<open>
  \<open>internal/tunnel/auth.go\<close> and \<open>proto.go\<close>: the challenge a gateway issues and a node signs. RSA,
  SHA-256, the PEM parser, the RFC 3339 parser and the JSON text level are parameters, collected
  in \<open>crypto\<close>; keys are opaque strings.
\<close>

record crypto =
  parse_public :: "string \<Rightarrow> string option"
  rsa_verify :: "string \<Rightarrow> string \<Rightarrow> string \<Rightarrow> bool"
  rsa_sign :: "string \<Rightarrow> string \<Rightarrow> string option"
  sha256 :: "string \<Rightarrow> string"
  parse_rfc3339 :: "string \<Rightarrow> time option"
  parse_json :: "string \<Rightarrow> json option"
  print_json :: "json \<Rightarrow> string"

record hello =
  hello_username :: string
  hello_key :: string
  hello_node_id :: string
  hello_display :: string

record challenge =
  nonce :: string
  issued_at :: string

text \<open>The JSON objects of the messages, and what \<open>json.Unmarshal\<close> makes of a document.\<close>

definition hello_json :: "hello \<Rightarrow> json" where
  "hello_json h =
     JObj ([(''username'', JStr (hello_username h)), (''public_key_pem'', JStr (hello_key h))] @
       (if hello_node_id h = [] then [] else [(''node_id'', JStr (hello_node_id h))]) @
       (if hello_display h = [] then [] else [(''display_name'', JStr (hello_display h))]))"

definition challenge_json :: "challenge \<Rightarrow> json" where
  "challenge_json c = JObj [(''nonce'', JStr (nonce c)), (''issued_at'', JStr (issued_at c))]"

definition object_fields :: "json \<Rightarrow> (string \<times> json) list option" where
  "object_fields j = (case j of JObj m \<Rightarrow> Some m | JNull \<Rightarrow> Some [] | _ \<Rightarrow> None)"

definition read_hello :: "crypto \<Rightarrow> string \<Rightarrow> hello option" where
  "read_hello cr s =
     (case parse_json cr s of
        None \<Rightarrow> None
      | Some j \<Rightarrow> (case object_fields j of
          None \<Rightarrow> None
        | Some m \<Rightarrow>
           (case (string_field ''username'' m [], string_field ''public_key_pem'' m [],
                  string_field ''node_id'' m [], string_field ''display_name'' m []) of
              (Some u, Some k, Some n, Some d) \<Rightarrow>
                Some \<lparr>hello_username = u, hello_key = k, hello_node_id = n, hello_display = d\<rparr>
            | _ \<Rightarrow> None)))"

definition read_challenge :: "crypto \<Rightarrow> string \<Rightarrow> challenge option" where
  "read_challenge cr s =
     (case parse_json cr s of
        None \<Rightarrow> None
      | Some j \<Rightarrow> (case object_fields j of
          None \<Rightarrow> None
        | Some m \<Rightarrow>
           (case (string_field ''nonce'' m [], string_field ''issued_at'' m []) of
              (Some n, Some t) \<Rightarrow> Some \<lparr>nonce = n, issued_at = t\<rparr>
            | _ \<Rightarrow> None)))"

text \<open>The messages with one string field: \<open>Auth\<close>, \<open>AuthOK\<close>, \<open>AuthFail\<close>, \<open>HTTPResEnd\<close>.\<close>

definition single_json :: "string \<Rightarrow> string \<Rightarrow> json" where
  "single_json name v = JObj [(name, JStr v)]"

definition read_single :: "crypto \<Rightarrow> string \<Rightarrow> string \<Rightarrow> string option" where
  "read_single cr name s =
     (case parse_json cr s of
        None \<Rightarrow> None
      | Some j \<Rightarrow> (case object_fields j of None \<Rightarrow> None | Some m \<Rightarrow> string_field name m []))"

text \<open>
  The documented behaviour of the JSON package the round trips rest on: a flat object whose keys and
  values are ASCII strings is read back as it was written (bytes that are not UTF-8 are not).
\<close>

definition flat_object :: "json \<Rightarrow> bool" where
  "flat_object j =
     (case j of
        JObj m \<Rightarrow> list_all (\<lambda>(k, v). ascii k \<and> (case v of JStr s \<Rightarrow> ascii s | _ \<Rightarrow> False)) m
      | _ \<Rightarrow> False)"

definition json_ok :: "crypto \<Rightarrow> bool" where
  "json_ok cr \<longleftrightarrow> (\<forall>j. flat_object j \<longrightarrow> parse_json cr (print_json cr j) = Some j)"

definition ascii_hello :: "hello \<Rightarrow> bool" where
  "ascii_hello h \<longleftrightarrow>
     ascii (hello_username h) \<and> ascii (hello_key h) \<and> ascii (hello_node_id h) \<and> ascii (hello_display h)"

lemma read_hello_print: "json_ok cr \<Longrightarrow> ascii_hello h \<Longrightarrow> read_hello cr (print_json cr (hello_json h)) = Some h"
proof -
  have f: "\<not> equal_fold ''username'' ''public_key_pem''" "\<not> equal_fold ''username'' ''node_id''"
    "\<not> equal_fold ''username'' ''display_name''" "\<not> equal_fold ''public_key_pem'' ''username''"
    "\<not> equal_fold ''public_key_pem'' ''node_id''" "\<not> equal_fold ''public_key_pem'' ''display_name''"
    "\<not> equal_fold ''node_id'' ''username''" "\<not> equal_fold ''node_id'' ''public_key_pem''"
    "\<not> equal_fold ''node_id'' ''display_name''" "\<not> equal_fold ''display_name'' ''username''"
    "\<not> equal_fold ''display_name'' ''public_key_pem''" "\<not> equal_fold ''display_name'' ''node_id''"
    by code_simp+
  have s: "equal_fold k k" for k by (simp add: equal_fold_def)
  assume "json_ok cr" "ascii_hello h"
  moreover have "ascii ''username''" "ascii ''public_key_pem''" "ascii ''node_id''" "ascii ''display_name''"
    by code_simp+
  ultimately have "parse_json cr (print_json cr (hello_json h)) = Some (hello_json h)"
    by (simp add: json_ok_def flat_object_def hello_json_def ascii_hello_def)
  then show ?thesis
    by (simp add: read_hello_def hello_json_def object_fields_def f s)
qed

lemma read_challenge_print: "json_ok cr \<Longrightarrow> ascii (nonce c) \<Longrightarrow> ascii (issued_at c) \<Longrightarrow> read_challenge cr (print_json cr (challenge_json c)) = Some c"
proof -
  have f: "\<not> equal_fold ''nonce'' ''issued_at''" "\<not> equal_fold ''issued_at'' ''nonce''" by code_simp+
  have s: "equal_fold k k" for k by (simp add: equal_fold_def)
  assume "json_ok cr" "ascii (nonce c)" "ascii (issued_at c)"
  moreover have "ascii ''nonce''" "ascii ''issued_at''" by code_simp+
  ultimately have "parse_json cr (print_json cr (challenge_json c)) = Some (challenge_json c)"
    by (simp add: json_ok_def flat_object_def challenge_json_def)
  then show ?thesis
    by (simp add: read_challenge_def challenge_json_def object_fields_def f s)
qed

lemma read_single_print:
  "json_ok cr \<Longrightarrow> ascii name \<Longrightarrow> ascii v \<Longrightarrow> read_single cr name (print_json cr (single_json name v)) = Some v"
  by (simp add: json_ok_def flat_object_def read_single_def single_json_def object_fields_def equal_fold_def)

section \<open>The signed bytes\<close>

definition newline :: char where "newline = CHR 0x0A"

definition challenge_domain :: string where
  "challenge_domain = ''fedishare-tunnel-v1''"

definition challenge_bytes :: "string \<Rightarrow> string \<Rightarrow> string \<Rightarrow> string" where
  "challenge_bytes username n issued =
     challenge_domain @ [newline] @ to_lower (trim_space username) @ [newline] @ n @ [newline] @ issued"

definition sign_challenge :: "crypto \<Rightarrow> string option \<Rightarrow> string \<Rightarrow> string \<Rightarrow> string \<Rightarrow> string option" where
  "sign_challenge cr key username n issued =
     (case key of
        None \<Rightarrow> None
      | Some k \<Rightarrow> map_option b64_encode (rsa_sign cr k (sha256 cr (challenge_bytes username n issued))))"

definition verify_challenge :: "crypto \<Rightarrow> string \<Rightarrow> string \<Rightarrow> string \<Rightarrow> string \<Rightarrow> string \<Rightarrow> bool" where
  "verify_challenge cr pub username n issued sig_b64 =
     (case b64_decode sig_b64 of
        None \<Rightarrow> False
      | Some raw \<Rightarrow> rsa_verify cr pub (sha256 cr (challenge_bytes username n issued)) raw)"

datatype issued_error = Invalid_Issued_At | Challenge_In_Future | Challenge_Expired

definition check_issued_at :: "crypto \<Rightarrow> string \<Rightarrow> time \<Rightarrow> issued_error option" where
  "check_issued_at cr issued now =
     (case parse_rfc3339 cr issued of
        None \<Rightarrow> Some Invalid_Issued_At
      | Some t \<Rightarrow>
          if t > now + 30 * second then Some Challenge_In_Future
          else if now - t > 120 * second then Some Challenge_Expired
          else None)"

lemma check_issued_window:
  "check_issued_at cr issued now = None \<longleftrightarrow>
     (\<exists>t. parse_rfc3339 cr issued = Some t \<and> now - 120 * second \<le> t \<and> t \<le> now + 30 * second)"
  by (auto simp: check_issued_at_def split: option.split)

definition no_newline :: "string \<Rightarrow> bool" where
  "no_newline s \<longleftrightarrow> newline \<notin> set s"

lemma append_newline_eq:
  "no_newline a \<Longrightarrow> no_newline b \<Longrightarrow> a @ newline # s = b @ newline # t \<longleftrightarrow> a = b \<and> s = t"
proof (induction a arbitrary: b)
  case Nil
  then show ?case by (cases b) (auto simp: no_newline_def)
next
  case (Cons c a)
  then show ?case by (cases b) (auto simp: no_newline_def)
qed

text \<open>
  The signed bytes bind every part: if the names and nonces contain no line break, two
  challenges with the same bytes are for the same user (up to case and surrounding space), nonce
  and time; so a signature made for one cannot be presented for another.
\<close>
theorem challenge_bytes_injective:
  assumes "no_newline (to_lower (trim_space u1))" "no_newline (to_lower (trim_space u2))"
    and "no_newline n1" "no_newline n2"
    and "challenge_bytes u1 n1 i1 = challenge_bytes u2 n2 i2"
  shows "to_lower (trim_space u1) = to_lower (trim_space u2) \<and> n1 = n2 \<and> i1 = i2"
  using assms(5) append_newline_eq [OF assms(1,2)] append_newline_eq [OF assms(3,4)]
  by (simp add: challenge_bytes_def)

theorem challenge_bytes_injective_witness:
  "to_lower (trim_space '' Bob'') = to_lower (trim_space ''bob '') \<and> ''n1'' = ''n1'' \<and> ''t'' = ''t''"
  by (rule challenge_bytes_injective) (code_simp | simp add: no_newline_def newline_def)+

end
