(* ===== verification/Database.thy ===== *)
theory Database
  imports Sql
begin

text \<open>
  \<open>internal/database/database.go\<close>: the numbered migrations with the table that records them, and
  the key-value table \<open>config\<close>. What a migration does to the schema is the work of SQLite, so the
  schema is an abstract value and running a script a function of it; a transaction that fails leaves
  both the schema and \<open>schema_migrations\<close> as they were.
\<close>

section \<open>Migration names\<close>

text \<open>
  \<open>fmt.Sscanf(name, "%d_", &version)\<close>: blanks, an optional sign, digits of a 64-bit integer, and the
  underscore.
\<close>

definition scan_version :: "string \<Rightarrow> int option" where
  "scan_version name =
     (let s = dropWhile (\<lambda>c. is_space c \<and> c \<noteq> CHR 0x0A) name;
          (sgn, t) = (case s of c # r \<Rightarrow> if c = CHR ''+'' \<or> c = CHR ''-'' then ([c], r) else ([], s)
                      | [] \<Rightarrow> ([], []));
          ds = takeWhile is_digit t in
      if ds = [] then None
      else case dropWhile is_digit t of
        [] \<Rightarrow> None
      | u # _ \<Rightarrow> if u = CHR ''_'' then parse_int64 (sgn @ ds) else None)"

definition parse_version :: "string \<Rightarrow> int option" where
  "parse_version name =
     (case scan_version name of
        None \<Rightarrow> None
      | Some v \<Rightarrow> if v < 1 then None else Some v)"

section \<open>Migrate\<close>

datatype mig_error =
  Create_Failed | Read_Dir_Failed | Bad_Version string | Check_Failed int | Read_Failed string
| Begin_Failed string | Apply_Failed string | Record_Failed string | Commit_Failed string

record mig_file =
  mf_name :: string
  mf_dir :: bool
  mf_body :: string

record mig_row =
  mr_version :: int
  mr_name :: string
  mr_applied_at :: stored_time

record 's mig_db =
  schema :: 's
  applied :: "mig_row list"

text \<open>Which of the statements of one run fail, and what a script does to the schema.\<close>

record 's mig_env =
  mig_clock :: time
  mig_files :: "mig_file list"
  mig_exec :: "string \<Rightarrow> 's \<Rightarrow> 's option"
  mig_fault :: "mig_error \<Rightarrow> bool"

definition migration_files :: "mig_file list \<Rightarrow> mig_file list" where
  "migration_files fs = sort_key mf_name (filter (\<lambda>f. \<not> mf_dir f \<and> has_suffix (mf_name f) ''.sql'') fs)"

definition migration_applied :: "'s mig_env \<Rightarrow> int \<Rightarrow> 's mig_db \<Rightarrow> mig_error + bool" where
  "migration_applied env v db =
     (if mig_fault env (Check_Failed v) then Inl (Check_Failed v)
      else Inr (lookup mr_version v (applied db) \<noteq> None))"

text \<open>The transaction of one migration: the script, the record, the commit.\<close>

definition apply_migration :: "'s mig_env \<Rightarrow> mig_file \<Rightarrow> int \<Rightarrow> 's mig_db \<Rightarrow> mig_error option \<times> 's mig_db" where
  "apply_migration env f v db =
     (let name = mf_name f in
      if mig_fault env (Read_Failed name) then (Some (Read_Failed name), db)
      else if mig_fault env (Begin_Failed name) then (Some (Begin_Failed name), db)
      else case mig_exec env (mf_body f) (schema db) of
        None \<Rightarrow> (Some (Apply_Failed name), db)
      | Some s \<Rightarrow>
          if mig_fault env (Record_Failed name) \<or> lookup mr_version v (applied db) \<noteq> None
          then (Some (Record_Failed name), db)
          else if mig_fault env (Commit_Failed name) then (Some (Commit_Failed name), db)
          else (None, \<lparr>schema = s, applied = applied db @
                 [\<lparr>mr_version = v, mr_name = name, mr_applied_at = stamp (mig_clock env)\<rparr>]\<rparr>))"

fun apply_all :: "'s mig_env \<Rightarrow> mig_file list \<Rightarrow> 's mig_db \<Rightarrow> mig_error option \<times> 's mig_db" where
  "apply_all env [] db = (None, db)"
| "apply_all env (f # fs) db =
     (case parse_version (mf_name f) of
        None \<Rightarrow> (Some (Bad_Version (mf_name f)), db)
      | Some v \<Rightarrow>
          (case migration_applied env v db of
             Inl e \<Rightarrow> (Some e, db)
           | Inr True \<Rightarrow> apply_all env fs db
           | Inr False \<Rightarrow>
               (case apply_migration env f v db of
                  (Some e, db') \<Rightarrow> (Some e, db')
                | (None, db') \<Rightarrow> apply_all env fs db')))"

definition migrate :: "'s mig_env \<Rightarrow> 's mig_db \<Rightarrow> mig_error option \<times> 's mig_db" where
  "migrate env db =
     (if mig_fault env Create_Failed then (Some Create_Failed, db)
      else if mig_fault env Read_Dir_Failed then (Some Read_Dir_Failed, db)
      else apply_all env (migration_files (mig_files env)) db)"

text \<open>
  The specification of the schema: running, in order, the scripts of the recorded migrations
  from the schema the database was created with.
\<close>

fun replay :: "('n \<Rightarrow> string) \<Rightarrow> (string \<Rightarrow> 's \<Rightarrow> 's option) \<Rightarrow> 'n list \<Rightarrow> 's \<Rightarrow> 's option" where
  "replay body exec [] s = Some s"
| "replay body exec (n # ns) s = (case exec (body n) s of None \<Rightarrow> None | Some t \<Rightarrow> replay body exec ns t)"

lemma replay_append:
  "replay body exec (xs @ ys) s = (case replay body exec xs s of None \<Rightarrow> None | Some t \<Rightarrow> replay body exec ys t)"
  by (induction xs arbitrary: s) (auto split: option.splits)

definition schema_ok :: "(string \<Rightarrow> string) \<Rightarrow> 's \<Rightarrow> 's mig_env \<Rightarrow> 's mig_db \<Rightarrow> bool" where
  "schema_ok body s0 env db \<longleftrightarrow>
     distinct (map mr_version (applied db)) \<and>
     replay body (mig_exec env) (map mr_name (applied db)) s0 = Some (schema db)"

lemma apply_migration_ok:
  assumes "schema_ok body s0 env db" "body (mf_name f) = mf_body f"
  shows "schema_ok body s0 env (snd (apply_migration env f v db))"
  using assms
  by (auto simp: apply_migration_def schema_ok_def Let_def replay_append lookup_None_iff split: option.split)

lemma apply_all_ok:
  assumes "schema_ok body s0 env db" "\<And>f. f \<in> set fs \<Longrightarrow> body (mf_name f) = mf_body f"
  shows "schema_ok body s0 env (snd (apply_all env fs db))"
  using assms
proof (induction env fs db rule: apply_all.induct)
  case (2 env f fs db)
  have f: "schema_ok body s0 env (snd (apply_migration env f v db))" for v
    using apply_migration_ok [OF "2.prems"(1)] "2.prems"(2) by simp
  show ?case
    using 2 f by (auto split: option.split sum.split bool.split prod.split)
      (metis snd_conv)+
qed simp

text \<open>After a run without error every migration file's version is recorded.\<close>

definition recorded :: "'s mig_db \<Rightarrow> mig_file \<Rightarrow> bool" where
  "recorded db f \<longleftrightarrow>
     (case parse_version (mf_name f) of None \<Rightarrow> False | Some v \<Rightarrow> v \<in> mr_version ` set (applied db))"

lemma apply_migration_grows:
  "apply_migration env f v db = (None, db') \<Longrightarrow> mr_version ` set (applied db') = insert v (mr_version ` set (applied db))"
  by (auto simp: apply_migration_def Let_def split: if_splits option.splits)

lemma apply_all_grows:
  "apply_all env fs db = (None, db') \<Longrightarrow>
     mr_version ` set (applied db) \<subseteq> mr_version ` set (applied db') \<and> (\<forall>f \<in> set fs. recorded db' f)"
proof (induction env fs db rule: apply_all.induct)
  case (2 env f fs db)
  obtain v where v: "parse_version (mf_name f) = Some v"
    using "2.prems" by (auto split: option.splits)
  then consider (old) "migration_applied env v db = Inr True" "apply_all env fs db = (None, db')"
    | (new) db1 where "migration_applied env v db = Inr False" "apply_migration env f v db = (None, db1)"
        "apply_all env fs db1 = (None, db')"
    using "2.prems" by (auto split: sum.splits bool.splits prod.splits option.splits)
  then show ?case
  proof cases
    case old
    with "2.IH"(1) [OF v old(1)] v show ?thesis
      by (auto simp: recorded_def migration_applied_def lookup_None_iff split: if_splits)
  next
    case new
    with "2.IH"(2) [OF v new(1) refl new(2) [symmetric] refl new(3)] v apply_migration_grows [OF new(2)] show ?thesis
      by (auto simp: recorded_def)
  qed
qed simp

lemma apply_all_recorded:
  assumes "\<forall>f \<in> set fs. recorded db f" "\<And>v. \<not> mig_fault env (Check_Failed v)"
  shows "apply_all env fs db = (None, db)"
  using assms
  by (induction fs) (auto simp: recorded_def migration_applied_def lookup_None_iff split: option.split_asm)

section \<open>The config table\<close>

record config_row =
  conf_key :: string
  conf_value :: string
  conf_updated :: stored_time

datatype conf_stmt = Conf_Get string | Conf_Set string

definition config_value :: "config_row list \<Rightarrow> string \<Rightarrow> string option" where
  "config_value rows k = map_option conf_value (lookup conf_key k rows)"

definition get_config :: "(conf_stmt \<Rightarrow> bool) \<Rightarrow> string \<Rightarrow> config_row list \<Rightarrow> string + string option" where
  "get_config fault k rows =
     (if fault (Conf_Get k) then Inl (''get config '' @ k) else Inr (config_value rows k))"

definition merge_config :: "config_row \<Rightarrow> config_row \<Rightarrow> config_row" where
  "merge_config old new = new\<lparr>conf_key := conf_key old\<rparr>"

definition config_put :: "time \<Rightarrow> string \<Rightarrow> string \<Rightarrow> config_row list \<Rightarrow> config_row list" where
  "config_put now k v rows =
     upsert conf_key merge_config \<lparr>conf_key = k, conf_value = v, conf_updated = stamp now\<rparr> rows"

definition set_config ::
  "(conf_stmt \<Rightarrow> bool) \<Rightarrow> time \<Rightarrow> string \<Rightarrow> string \<Rightarrow> config_row list \<Rightarrow> string option \<times> config_row list" where
  "set_config fault now k v rows =
     (if fault (Conf_Set k) then (Some (''set config '' @ k), rows) else (None, config_put now k v rows))"

lemma config_value_put: "config_value (config_put now k v rows) j = (if j = k then Some v else config_value rows j)"
  by (auto simp: config_value_def config_put_def lookup_upsert merge_config_def split: option.split)

interpretation config: kv_table config_value "config_put now" for now
  by unfold_locales (rule config_value_put)

section \<open>Properties\<close>

text \<open>
  Migrations are atomic and ordered: from a database whose schema is the replay of its recorded
  migrations, any run of \<open>Migrate\<close>, whatever statement of it fails, ends in a database whose schema
  is again exactly the replay of the recorded ones, each version recorded at most once.
\<close>

theorem migrate_atomic:
  assumes "schema_ok body s0 env db"
    and "\<And>f. f \<in> set (mig_files env) \<Longrightarrow> body (mf_name f) = mf_body f"
  shows "schema_ok body s0 env (snd (migrate env db))"
proof -
  have "schema_ok body s0 env (snd (apply_all env (migration_files (mig_files env)) db))"
    by (rule apply_all_ok [OF assms(1)]) (use assms(2) in \<open>auto simp: migration_files_def\<close>)
  with assms(1) show ?thesis by (simp add: migrate_def)
qed

definition demo_migrations :: "string list mig_env" where
  "demo_migrations = \<lparr>mig_clock = 5 * second,
     mig_files = [\<lparr>mf_name = ''002_files.sql'', mf_dir = False, mf_body = ''b''\<rparr>,
                  \<lparr>mf_name = ''001_initial.sql'', mf_dir = False, mf_body = ''a''\<rparr>,
                  \<lparr>mf_name = ''embed.go'', mf_dir = False, mf_body = ''x''\<rparr>],
     mig_exec = (\<lambda>b s. Some (s @ [b])), mig_fault = (\<lambda>_. False)\<rparr>"

definition demo_body :: "string \<Rightarrow> string" where
  "demo_body n = (if n = ''002_files.sql'' then ''b'' else if n = ''001_initial.sql'' then ''a'' else ''x'')"

lemma demo_migrate: "migrate demo_migrations \<lparr>schema = [], applied = []\<rparr> =
    (None, \<lparr>schema = [''a'', ''b''], applied =
      [\<lparr>mr_version = 1, mr_name = ''001_initial.sql'', mr_applied_at = 5\<rparr>,
       \<lparr>mr_version = 2, mr_name = ''002_files.sql'', mr_applied_at = 5\<rparr>]\<rparr>)"
  by code_simp

theorem migrate_atomic_witness:
  "schema_ok demo_body [] demo_migrations (snd (migrate demo_migrations \<lparr>schema = [], applied = []\<rparr>))"
  by (rule migrate_atomic) (auto simp: schema_ok_def demo_migrations_def demo_body_def)

text \<open>
  A run that returns no error has recorded every migration file, and a further run, at any later
  time, changes nothing: migrations are applied once.
\<close>

theorem migrate_idempotent:
  assumes "migrate env db = (None, db')" and "\<And>e. \<not> mig_fault env e"
  shows "migrate (env\<lparr>mig_clock := t\<rparr>) db' = (None, db')"
proof -
  have "apply_all env (migration_files (mig_files env)) db = (None, db')"
    using assms by (simp add: migrate_def)
  then have r: "\<forall>f \<in> set (migration_files (mig_files env)). recorded db' f"
    using apply_all_grows by blast
  have "apply_all (env\<lparr>mig_clock := t\<rparr>) (migration_files (mig_files env)) db' = (None, db')"
    by (rule apply_all_recorded [OF r]) (simp add: assms(2))
  with assms(2) show ?thesis by (simp add: migrate_def)
qed

theorem migrate_idempotent_witness:
  "(let db = snd (migrate demo_migrations \<lparr>schema = [], applied = []\<rparr>)
    in migrate (demo_migrations\<lparr>mig_clock := 9\<rparr>) db = (None, db))"
  unfolding demo_migrate snd_conv Let_def
  by (rule migrate_idempotent [OF demo_migrate]) (simp add: demo_migrations_def)

text \<open>
  The config table is a map: after any sequence of successful \<open>SetConfig\<close> calls, \<open>GetConfig\<close> returns
  for every key the value written last, or the value it had before.
\<close>

theorem config_reads_last_write:
  "get_config (\<lambda>_. False) k (fold (\<lambda>(k, v) rows. snd (set_config (\<lambda>_. False) now k v rows)) kvs rows) =
     Inr (case map_of (rev kvs) k of None \<Rightarrow> config_value rows k | Some v \<Rightarrow> Some v)"
proof -
  have "(\<lambda>(k, v) rows. snd (set_config (\<lambda>_. False) now k v rows)) = (\<lambda>(k, v). config_put now k v)"
    by (auto simp: set_config_def fun_eq_iff)
  then show ?thesis
    by (simp add: get_config_def config.get_puts)
qed

end
