(* ===== verification/Gateway_Store.thy ===== *)
theory Gateway_Store
  imports Sql
begin

text \<open>
  \<open>internal/gateway/store.go\<close>: the two tables of the public gateway, the actors with the public key
  each user name is bound to, and the nonces of the handshakes. A statement may fail; \<open>gw_fault\<close> says
  which ones do in the environment of one call. \<open>COALESCE(column, '')\<close> makes an absent text read as
  the empty one, so these columns are strings.
\<close>

record gw_row =
  gw_user :: string
  gw_key :: string
  gw_node :: string
  gw_actor :: string
  gw_finger :: string
  gw_first :: stored_time
  gw_last :: stored_time

record nonce_row =
  nonce_text :: string
  nonce_expires :: stored_time

record gw_db =
  gw_actors :: "gw_row list"
  gw_nonces :: "nonce_row list"

datatype gw_stmt =
  Gw_Select string | Gw_Insert string | Gw_Update string | Gw_List
| Gw_Purge | Gw_Insert_Nonce string

record gw_env =
  gw_clock :: time
  gw_fault :: "gw_stmt \<Rightarrow> bool"

datatype gw_error =
  Gw_Required | Username_Taken | Gw_Database | Gw_No_Rows | Empty_Nonce | Nonce_Used

definition empty_gw :: gw_db where
  "empty_gw = \<lparr>gw_actors = [], gw_nonces = []\<rparr>"

section \<open>Actors\<close>

definition user_key :: "string \<Rightarrow> string" where
  "user_key u = to_lower (trim_space u)"

definition normalize_pem :: "string \<Rightarrow> string" where
  "normalize_pem pem = trim_space pem"

definition select_key :: "gw_env \<Rightarrow> string \<Rightarrow> gw_db \<Rightarrow> gw_error + string" where
  "select_key env u db =
     (if gw_fault env (Gw_Select u) then Inl Gw_Database
      else case lookup gw_user u (gw_actors db) of None \<Rightarrow> Inl Gw_No_Rows | Some r \<Rightarrow> Inr (gw_key r))"

definition update_actor :: "gw_env \<Rightarrow> string \<Rightarrow> (gw_row \<Rightarrow> gw_row) \<Rightarrow> gw_db \<Rightarrow> gw_error option \<times> gw_db" where
  "update_actor env u f db =
     (if gw_fault env (Gw_Update u) then (Some Gw_Database, db)
      else (None, db\<lparr>gw_actors := update_where (\<lambda>r. gw_user r = u) f (gw_actors db)\<rparr>))"

definition register :: "gw_env \<Rightarrow> string \<Rightarrow> string \<Rightarrow> string \<Rightarrow> gw_db \<Rightarrow> gw_error option \<times> gw_db" where
  "register env username pem node db =
     (let u = user_key username; k = normalize_pem pem; now = stamp (gw_clock env) in
      if u = [] \<or> k = [] then (Some Gw_Required, db)
      else case select_key env u db of
        Inl Gw_No_Rows \<Rightarrow>
          if gw_fault env (Gw_Insert u) then (Some Gw_Database, db)
          else (None, db\<lparr>gw_actors := gw_actors db @
                 [\<lparr>gw_user = u, gw_key = k, gw_node = node, gw_actor = [], gw_finger = [],
                   gw_first = now, gw_last = now\<rparr>]\<rparr>)
      | Inl e \<Rightarrow> (Some e, db)
      | Inr existing \<Rightarrow>
          if normalize_pem existing \<noteq> k then (Some Username_Taken, db)
          else update_actor env u (\<lambda>r. r\<lparr>gw_node := node, gw_last := now\<rparr>) db)"

definition list_actors :: "gw_env \<Rightarrow> int \<Rightarrow> gw_db \<Rightarrow> gw_error + gw_row list" where
  "list_actors env limit db =
     (let lim = (if limit \<le> 0 \<or> limit > 500 then 500 else limit) in
      if gw_fault env Gw_List then Inl Gw_Database
      else Inr (page (nat lim) 0 (sort_key gw_user (gw_actors db))))"

definition get_actor :: "gw_env \<Rightarrow> string \<Rightarrow> gw_db \<Rightarrow> gw_error + gw_row" where
  "get_actor env username db =
     (let u = user_key username in
      if gw_fault env (Gw_Select u) then Inl Gw_Database
      else case lookup gw_user u (gw_actors db) of None \<Rightarrow> Inl Gw_No_Rows | Some r \<Rightarrow> Inr r)"

definition save_actor :: "gw_env \<Rightarrow> string \<Rightarrow> string \<Rightarrow> gw_db \<Rightarrow> gw_error option \<times> gw_db" where
  "save_actor env username body db = update_actor env (user_key username) (\<lambda>r. r\<lparr>gw_actor := body\<rparr>) db"

definition save_webfinger :: "gw_env \<Rightarrow> string \<Rightarrow> string \<Rightarrow> gw_db \<Rightarrow> gw_error option \<times> gw_db" where
  "save_webfinger env username body db = update_actor env (user_key username) (\<lambda>r. r\<lparr>gw_finger := body\<rparr>) db"

section \<open>Nonces\<close>

definition purge_nonces :: "gw_env \<Rightarrow> gw_db \<Rightarrow> gw_db" where
  "purge_nonces env db =
     db\<lparr>gw_nonces := delete_where (\<lambda>r. nonce_expires r < stamp (gw_clock env)) (gw_nonces db)\<rparr>"

definition consume_nonce :: "gw_env \<Rightarrow> string \<Rightarrow> time \<Rightarrow> gw_db \<Rightarrow> gw_error option \<times> gw_db" where
  "consume_nonce env n expires db =
     (if n = [] then (Some Empty_Nonce, db)
      else if gw_fault env Gw_Purge then (Some Gw_Database, db)
      else let db1 = purge_nonces env db in
        if gw_fault env (Gw_Insert_Nonce n) \<or> lookup nonce_text n (gw_nonces db1) \<noteq> None
        then (Some Nonce_Used, db1)
        else (None, db1\<lparr>gw_nonces := gw_nonces db1 @ [\<lparr>nonce_text = n, nonce_expires = stamp expires\<rparr>]\<rparr>))"

section \<open>Runs of the store\<close>

datatype gw_op =
  Op_Register string string string | Op_Save_Actor string string | Op_Save_Finger string string
| Op_Nonce string time

definition gw_step :: "gw_db \<Rightarrow> gw_env \<times> gw_op \<Rightarrow> gw_db" where
  "gw_step db eo =
     (case eo of (env, oper) \<Rightarrow>
        (case oper of
           Op_Register u k n \<Rightarrow> snd (register env u k n db)
         | Op_Save_Actor u b \<Rightarrow> snd (save_actor env u b db)
         | Op_Save_Finger u b \<Rightarrow> snd (save_webfinger env u b db)
         | Op_Nonce n e \<Rightarrow> snd (consume_nonce env n e db)))"

definition gw_ok :: "gw_db \<Rightarrow> bool" where
  "gw_ok db \<longleftrightarrow>
     distinct (map gw_user (gw_actors db)) \<and> distinct (map nonce_text (gw_nonces db)) \<and>
     (\<forall>r \<in> set (gw_actors db). gw_user r \<noteq> [] \<and> gw_user r = user_key (gw_user r) \<and>
        gw_key r \<noteq> [] \<and> gw_key r = normalize_pem (gw_key r))"

lemma user_key_idem [simp]: "user_key (user_key u) = user_key u"
  by (simp add: user_key_def trim_space_to_lower)

lemma normalize_pem_idem [simp]: "normalize_pem (normalize_pem k) = normalize_pem k"
  by (simp add: normalize_pem_def)

text \<open>An update that keeps user name and key keeps the table well formed and every binding.\<close>

definition keeps_key :: "(gw_row \<Rightarrow> gw_row) \<Rightarrow> bool" where
  "keeps_key f \<longleftrightarrow> (\<forall>r. gw_user (f r) = gw_user r \<and> gw_key (f r) = gw_key r)"

lemma update_actor_ok: "gw_ok db \<Longrightarrow> keeps_key f \<Longrightarrow> gw_ok (snd (update_actor env u f db))"
  by (auto simp: update_actor_def gw_ok_def keeps_key_def update_where_def o_def if_distrib cong: if_cong)

lemma keeps_key_simps [simp]:
  "keeps_key (\<lambda>r. r\<lparr>gw_node := n, gw_last := t\<rparr>)" "keeps_key (\<lambda>r. r\<lparr>gw_actor := b\<rparr>)"
  "keeps_key (\<lambda>r. r\<lparr>gw_finger := b\<rparr>)"
  by (simp_all add: keeps_key_def)

lemma register_cases:
  obtains (same) e where "register env username pem node db = (Some e, db)"
  | (insert) "register env username pem node db = (None, db\<lparr>gw_actors := gw_actors db @
        [\<lparr>gw_user = user_key username, gw_key = normalize_pem pem, gw_node = node, gw_actor = [], gw_finger = [],
          gw_first = stamp (gw_clock env), gw_last = stamp (gw_clock env)\<rparr>]\<rparr>)"
      "user_key username \<noteq> []" "normalize_pem pem \<noteq> []"
      "lookup gw_user (user_key username) (gw_actors db) = None"
  | (touch) existing where "register env username pem node db =
        update_actor env (user_key username) (\<lambda>r. r\<lparr>gw_node := node, gw_last := stamp (gw_clock env)\<rparr>) db"
      "lookup gw_user (user_key username) (gw_actors db) = Some existing"
      "normalize_pem (gw_key existing) = normalize_pem pem"
proof -
  let ?u = "user_key username" and ?k = "normalize_pem pem"
  consider (bad) "?u = [] \<or> ?k = [] \<or> gw_fault env (Gw_Select ?u)"
    | (new) "?u \<noteq> []" "?k \<noteq> []" "\<not> gw_fault env (Gw_Select ?u)" "lookup gw_user ?u (gw_actors db) = None"
    | (old) r where "?u \<noteq> []" "?k \<noteq> []" "\<not> gw_fault env (Gw_Select ?u)" "lookup gw_user ?u (gw_actors db) = Some r"
    by fastforce
  then show thesis
  proof cases
    case bad
    then have "\<exists>e. register env username pem node db = (Some e, db)"
      by (auto simp: register_def select_key_def Let_def)
    then show thesis using same by blast
  next
    case new
    then show thesis
    proof (cases "gw_fault env (Gw_Insert ?u)")
      case True
      with new have "register env username pem node db = (Some Gw_Database, db)"
        by (simp add: register_def select_key_def Let_def)
      then show thesis by (rule same)
    next
      case False
      with new show thesis by (intro insert) (simp_all add: register_def select_key_def Let_def)
    qed
  next
    case old
    then show thesis
    proof (cases "normalize_pem (gw_key r) = ?k")
      case True
      with old show thesis by (intro touch [of r]) (simp_all add: register_def select_key_def Let_def)
    next
      case False
      with old have "register env username pem node db = (Some Username_Taken, db)"
        by (simp add: register_def select_key_def Let_def)
      then show thesis by (rule same)
    qed
  qed
qed

lemma register_ok:
  assumes "gw_ok db"
  shows "gw_ok (snd (register env username pem node db))"
proof (cases rule: register_cases [of env username pem node db])
  case insert
  with assms show ?thesis by (auto simp: gw_ok_def lookup_None_iff)
next
  case touch
  with assms show ?thesis by (simp add: update_actor_ok)
qed (use assms in simp)

lemma purge_ok: "gw_ok db \<Longrightarrow> gw_ok (purge_nonces env db)"
  by (simp add: gw_ok_def purge_nonces_def distinct_delete_where)

lemma consume_cases:
  obtains (same) e where "consume_nonce env n x db = (Some e, db)"
  | (used) "consume_nonce env n x db = (Some Nonce_Used, purge_nonces env db)"
  | (fresh) "consume_nonce env n x db = (None, (purge_nonces env db)\<lparr>gw_nonces :=
        gw_nonces (purge_nonces env db) @ [\<lparr>nonce_text = n, nonce_expires = stamp x\<rparr>]\<rparr>)"
      "n \<noteq> []" "lookup nonce_text n (gw_nonces (purge_nonces env db)) = None"
proof -
  consider (bad) "n = [] \<or> gw_fault env Gw_Purge"
    | (dup) "n \<noteq> []" "\<not> gw_fault env Gw_Purge"
        "gw_fault env (Gw_Insert_Nonce n) \<or> lookup nonce_text n (gw_nonces (purge_nonces env db)) \<noteq> None"
    | (new) "n \<noteq> []" "\<not> gw_fault env Gw_Purge"
        "\<not> gw_fault env (Gw_Insert_Nonce n)" "lookup nonce_text n (gw_nonces (purge_nonces env db)) = None"
    by blast
  then show thesis
  proof cases
    case bad
    then have "\<exists>e. consume_nonce env n x db = (Some e, db)" by (auto simp: consume_nonce_def)
    then show thesis using same by blast
  next
    case dup
    then show thesis by (intro used) (simp add: consume_nonce_def Let_def)
  next
    case new
    then show thesis by (intro fresh) (simp_all add: consume_nonce_def Let_def)
  qed
qed

lemma consume_ok: "gw_ok db \<Longrightarrow> gw_ok (snd (consume_nonce env n x db))"
  by (cases rule: consume_cases [of env n x db])
    (use purge_ok [of db env] in \<open>auto simp: gw_ok_def lookup_None_iff\<close>)

lemma gw_step_ok: "gw_ok db \<Longrightarrow> gw_ok (gw_step db eo)"
  by (auto simp: gw_step_def save_actor_def save_webfinger_def register_ok consume_ok update_actor_ok
      split: prod.split gw_op.split)

interpretation gw: machine gw_step gw_ok
  by unfold_locales (rule gw_step_ok)

text \<open>The key a user name is bound to.\<close>

definition bound_key :: "gw_db \<Rightarrow> string \<Rightarrow> string option" where
  "bound_key db u = map_option gw_key (lookup gw_user (user_key u) (gw_actors db))"

lemma bound_key_update_actor: "keeps_key f \<Longrightarrow> bound_key (snd (update_actor env v f db)) u = bound_key db u"
  by (auto simp: update_actor_def bound_key_def keeps_key_def lookup_update_where option.map_comp o_def
      split: option.split intro!: option.map_cong)

lemma bound_key_register:
  "bound_key db u = Some k \<Longrightarrow> bound_key (snd (register env v pem node db)) u = Some k"
  by (cases rule: register_cases [of env v pem node db])
    (auto simp: bound_key_update_actor, auto simp: bound_key_def lookup_append)

lemma bound_key_nonce: "bound_key (snd (consume_nonce env n x db)) u = bound_key db u"
  by (cases rule: consume_cases [of env n x db]) (simp_all add: bound_key_def purge_nonces_def)

lemma gw_step_bound: "bound_key db u = Some k \<Longrightarrow> bound_key (gw_step db eo) u = Some k"
  by (auto simp: gw_step_def save_actor_def save_webfinger_def bound_key_register bound_key_nonce
      bound_key_update_actor split: prod.split gw_op.split)

interpretation binding: machine gw_step "\<lambda>db. bound_key db u = Some k" for u k
  by unfold_locales (rule gw_step_bound)

lemma register_success:
  assumes "register env u pem node db = (None, db')" "gw_ok db"
  shows "bound_key db' u = Some (normalize_pem pem)"
  using assms(1)
proof (cases rule: register_cases [of env u pem node db])
  case insert
  with assms(1) show ?thesis by (auto simp: bound_key_def lookup_append sql)
next
  case (touch r)
  have "gw_key r = normalize_pem pem"
    using touch assms(2) lookup_SomeD by (fastforce simp: gw_ok_def)
  then have "bound_key db u = Some (normalize_pem pem)"
    using touch(2) by (simp add: bound_key_def)
  moreover have "db' = snd (update_actor env (user_key u) (\<lambda>r. r\<lparr>gw_node := node, gw_last := stamp (gw_clock env)\<rparr>) db)"
    using touch(1) assms(1) by (metis snd_conv)
  ultimately show ?thesis by (simp add: bound_key_update_actor)
qed simp

lemma register_other_key:
  assumes "bound_key db u = Some k" "register env u pem node db = (None, db')" "gw_ok db"
  shows "normalize_pem pem = k"
  using assms register_success [OF assms(2,3)] bound_key_register [OF assms(1), of env u pem node] by simp

text \<open>A nonce that is stored and not yet expired at the clock of the environment.\<close>

definition holds_nonce :: "string \<Rightarrow> stored_time \<Rightarrow> gw_db \<Rightarrow> bool" where
  "holds_nonce n x db \<longleftrightarrow> \<lparr>nonce_text = n, nonce_expires = x\<rparr> \<in> set (gw_nonces db)"

lemma purge_holds: "holds_nonce n x db \<Longrightarrow> stamp (gw_clock env) \<le> x \<Longrightarrow> holds_nonce n x (purge_nonces env db)"
  by (simp add: holds_nonce_def purge_nonces_def delete_where_def)

lemma gw_step_holds:
  assumes "holds_nonce n x db" "stamp (gw_clock (fst eo)) \<le> x"
  shows "holds_nonce n x (gw_step db eo)"
proof -
  obtain env oper where eo: "eo = (env, oper)" by (cases eo)
  have a: "holds_nonce n x (snd (update_actor env u f db))" for u f
    using assms(1) by (simp add: update_actor_def holds_nonce_def)
  have r: "holds_nonce n x (snd (register env u k nd db))" for u k nd
    by (cases rule: register_cases [of env u k nd db]) (use assms(1) a in \<open>simp_all add: holds_nonce_def\<close>)
  have c: "holds_nonce n x (snd (consume_nonce env m y db))" for m y
    by (cases rule: consume_cases [of env m y db])
      (use assms purge_holds [of n x db env] eo in \<open>auto simp: holds_nonce_def\<close>)
  show ?thesis
    by (simp add: eo gw_step_def save_actor_def save_webfinger_def a r c split: gw_op.split)
qed

lemma run_holds:
  assumes "holds_nonce n x db" "\<forall>eo \<in> set es. stamp (gw_clock (fst eo)) \<le> x"
  shows "holds_nonce n x (run gw_step db es)"
  using assms by (induction es arbitrary: db) (auto intro: gw_step_holds)

lemma consume_held:
  assumes "holds_nonce n x db" "stamp (gw_clock env) \<le> x"
  shows "fst (consume_nonce env n y db) \<noteq> None"
proof (cases rule: consume_cases [of env n y db])
  case fresh
  with purge_holds [OF assms] show ?thesis by (auto simp: lookup_None_iff holds_nonce_def image_iff)
qed simp_all

lemma consume_success: "consume_nonce env n x db = (None, db') \<Longrightarrow> holds_nonce n (stamp x) db'"
  by (cases rule: consume_cases [of env n x db]) (auto simp: holds_nonce_def)

section \<open>Properties\<close>

text \<open>
  C27. The first key wins for good: once a registration of a user name has succeeded, after any run of
  the store's operations, with any clocks and any failing statements, a registration of that name
  (in any case, with any blanks around it) succeeds only with the same key.
\<close>

theorem first_key_wins:
  assumes "gw_ok db" "register env u pem node db = (None, dba)"
    and "user_key v = user_key u" "register env' v pem' node' (run gw_step dba es) = (None, dbb)"
  shows "normalize_pem pem' = normalize_pem pem"
proof -
  have ok: "gw_ok dba" using register_ok [OF assms(1), of env u pem node] assms(2) by simp
  have "bound_key (run gw_step dba es) u = Some (normalize_pem pem)"
    by (rule binding.run_invar [OF register_success [OF assms(2,1)]])
  then have "bound_key (run gw_step dba es) v = Some (normalize_pem pem)"
    using assms(3) by (simp add: bound_key_def)
  from register_other_key [OF this assms(4) gw.run_invar [OF ok]] show ?thesis .
qed

definition demo_gw :: gw_env where
  "demo_gw = \<lparr>gw_clock = 100 * second, gw_fault = (\<lambda>_. False)\<rparr>"

theorem first_key_wins_witness:
  "normalize_pem '' KEY'' = normalize_pem ''KEY''"
  by (rule first_key_wins [where db = empty_gw and env = demo_gw and u = "''alice''" and node = "''n''"
      and v = "'' Alice''" and env' = demo_gw and node' = "''m''" and es = "[(demo_gw, Op_Nonce ''x'' 5)]"
      and dba = "snd (register demo_gw ''alice'' ''KEY'' ''n'' empty_gw)"
      and dbb = "snd (register demo_gw '' Alice'' '' KEY'' ''m''
        (run gw_step (snd (register demo_gw ''alice'' ''KEY'' ''n'' empty_gw)) [(demo_gw, Op_Nonce ''x'' 5)]))"])
    code_simp+

text \<open>
  A challenge nonce is accepted once: after \<open>ConsumeNonce\<close> has accepted it, every later attempt,
  whatever ran in between, is refused as long as no clock reading has passed its expiry.
\<close>

theorem nonce_used_once:
  assumes "consume_nonce env n x db = (None, db1)"
    and "\<forall>eo \<in> set es. stamp (gw_clock (fst eo)) \<le> stamp x" "stamp (gw_clock env') \<le> stamp x"
  shows "fst (consume_nonce env' n y (run gw_step db1 es)) \<noteq> None"
  by (rule consume_held [OF run_holds [OF consume_success [OF assms(1)] assms(2)] assms(3)])

theorem nonce_used_once_witness:
  "fst (consume_nonce demo_gw ''abc'' 9 (run gw_step (snd (consume_nonce demo_gw ''abc'' (200 * second) empty_gw))
     [(demo_gw, Op_Nonce ''x'' 5)])) \<noteq> None"
  by (rule nonce_used_once [where env = demo_gw and db = empty_gw and x = "200 * second"]) code_simp+

text \<open>
  Every operation keeps the gateway's tables well formed: user names and nonces unique, every name
  in its normal form with a non-empty key.
\<close>

theorem gateway_store_invariant: "gw_ok (run gw_step empty_gw es)"
  by (rule gw.run_invar) (simp add: gw_ok_def empty_gw_def)

end
