(* ===== verification/Http_Writer.thy ===== *)
theory Http_Writer
  imports Http_Header
begin

text \<open>
  \<open>net/http.ResponseWriter\<close> as the handlers use it: the header map being built, the status and
  header sent, and the bytes handed over. \<open>None\<close> is the panic of \<open>WriteHeader\<close> on a status code
  outside 100 to 999. How \<open>net/http\<close> frames the body on the wire is not modelled.
\<close>

record writer =
  w_header :: header
  w_sent :: "(int \<times> header) option"
  w_info :: "(int \<times> header) list"
  w_body :: string

definition new_writer :: writer where
  "new_writer = \<lparr>w_header = Map.empty, w_sent = None, w_info = [], w_body = []\<rparr>"

text \<open>A second status is ignored; an informational one (other than 101) does not end the header.\<close>

definition write_header :: "int \<Rightarrow> writer \<Rightarrow> writer option" where
  "write_header code w =
     (if w_sent w \<noteq> None then Some w
      else if code < 100 \<or> code > 999 then None
      else if code \<le> 199 \<and> code \<noteq> 101 then Some (w\<lparr>w_info := w_info w @ [(code, w_header w)]\<rparr>)
      else Some (w\<lparr>w_sent := Some (code, w_header w)\<rparr>))"

definition body_allowed :: "int \<Rightarrow> bool" where
  "body_allowed code \<longleftrightarrow> \<not> (100 \<le> code \<and> code \<le> 199) \<and> code \<noteq> 204 \<and> code \<noteq> 304"

definition write_data :: "string \<Rightarrow> writer \<Rightarrow> writer option" where
  "write_data data w =
     (case write_header 200 w of
        None \<Rightarrow> None
      | Some w1 \<Rightarrow>
          Some (if body_allowed (fst (the (w_sent w1))) then w1\<lparr>w_body := w_body w1 @ data\<rparr> else w1))"

definition set_header :: "string \<Rightarrow> string \<Rightarrow> writer \<Rightarrow> writer" where
  "set_header k v w = w\<lparr>w_header := header_set k v (w_header w)\<rparr>"

text \<open>\<open>http.Error\<close> and \<open>http.NotFound\<close>, with the status codes of the code.\<close>

definition writer_error :: "string \<Rightarrow> int \<Rightarrow> writer \<Rightarrow> writer" where
  "writer_error msg code w =
     (let h = header_set ''X-Content-Type-Options'' ''nosniff''
           (header_set ''Content-Type'' ''text/plain; charset=utf-8''
             (header_del ''Content-Length'' (w_header w)));
          w1 = w\<lparr>w_header := h\<rparr> in
      case write_header code w1 of
        None \<Rightarrow> w1
      | Some w2 \<Rightarrow> (case write_data (msg @ [CHR 0x0A]) w2 of None \<Rightarrow> w2 | Some w3 \<Rightarrow> w3))"

definition not_found :: "writer \<Rightarrow> writer" where
  "not_found w = writer_error ''404 page not found'' 404 w"

text \<open>What a handler does to its writer, as a list of calls.\<close>

datatype action = A_Set string string | A_Add string string | A_Del string | A_Status int | A_Write string

definition edit_header :: "action \<Rightarrow> header \<Rightarrow> header" where
  "edit_header a h =
     (case a of A_Set k v \<Rightarrow> header_set k v h | A_Add k v \<Rightarrow> header_add k v h | A_Del k \<Rightarrow> header_del k h | _ \<Rightarrow> h)"

definition apply_action :: "action \<Rightarrow> writer \<Rightarrow> writer option" where
  "apply_action a w =
     (case a of
        A_Status code \<Rightarrow> write_header code w
      | A_Write p \<Rightarrow> write_data p w
      | _ \<Rightarrow> Some (w\<lparr>w_header := edit_header a (w_header w)\<rparr>))"

fun run_actions :: "action list \<Rightarrow> writer \<Rightarrow> writer option" where
  "run_actions [] w = Some w"
| "run_actions (a # as) w = (case apply_action a w of None \<Rightarrow> None | Some w' \<Rightarrow> run_actions as w')"

text \<open>A handler that returns without having written sends status 200.\<close>

definition run_handler :: "action list \<Rightarrow> writer option" where
  "run_handler as = (case run_actions as new_writer of None \<Rightarrow> None | Some w \<Rightarrow> write_header 200 w)"

text \<open>No informational status, no status that panics.\<close>

definition final_codes :: "action list \<Rightarrow> bool" where
  "final_codes as \<longleftrightarrow> list_all (\<lambda>a. case a of A_Status c \<Rightarrow> 200 \<le> c \<and> c \<le> 999 | _ \<Rightarrow> True) as"

lemma write_header_fresh:
  "w_sent w = None \<Longrightarrow> 200 \<le> code \<Longrightarrow> code \<le> 999 \<Longrightarrow> write_header code w = Some (w\<lparr>w_sent := Some (code, w_header w)\<rparr>)"
  by (simp add: write_header_def)

lemma write_header_sent: "w_sent w = Some s \<Longrightarrow> write_header code w = Some w"
  by (simp add: write_header_def)

lemma write_data_sent:
  "w_sent w = Some (code, h) \<Longrightarrow> body_allowed code \<Longrightarrow> write_data data w = Some (w\<lparr>w_body := w_body w @ data\<rparr>)"
  by (simp add: write_data_def write_header_sent)

lemma write_data_dropped:
  "w_sent w = Some (code, h) \<Longrightarrow> \<not> body_allowed code \<Longrightarrow> write_data data w = Some w"
  by (simp add: write_data_def write_header_sent)

lemma write_data_fresh:
  "w_sent w = None \<Longrightarrow>
     write_data data w = Some (w\<lparr>w_sent := Some (200, w_header w), w_body := w_body w @ data\<rparr>)"
  by (simp add: write_data_def write_header_fresh body_allowed_def)

lemma run_actions_sent: "run_actions as w = Some w' \<Longrightarrow> w_sent w = Some s \<Longrightarrow> w_sent w' = Some s"
proof (induction as arbitrary: w)
  case (Cons a as)
  then obtain w1 where a: "apply_action a w = Some w1" "run_actions as w1 = Some w'"
    by (auto split: option.splits)
  have "w_sent w1 = Some s"
    using a(1) Cons.prems(2)
    by (auto simp: apply_action_def write_header_sent write_data_def split: action.splits)
  with Cons.IH a(2) show ?case by blast
qed simp

lemma write_header_bad: "w_sent w = None \<Longrightarrow> code < 100 \<or> 999 < code \<Longrightarrow> write_header code w = None"
  by (auto simp: write_header_def)

end
