(* ===== verification/Tunnel_Client.thy ===== *)
theory Tunnel_Client
  imports Http_Writer Tunnel_Auth
begin

text \<open>
  \<open>internal/tunnel/client.go\<close>: the node's side of the tunnel, from the handshake of \<open>Connect\<close> to the
  loop of \<open>Serve\<close>, which turns each \<open>HTTPReq\<close> frame into a call of the local handler and streams the
  response back as frames. The JSON form of the three structured messages is the \<open>codec\<close>;
  \<open>header_order\<close> is the order in which Go ranges over a header map.
\<close>

section \<open>The connection and the messages\<close>

text \<open>
  The frames written so far; \<open>c_up n\<close> says whether the connection takes a frame after \<open>n\<close> frames. A
  frame above the limit is refused by \<open>WriteFrame\<close>.
\<close>

record conn =
  c_out :: "frame list"
  c_up :: "nat \<Rightarrow> bool"

definition conn_write :: "frame \<Rightarrow> conn \<Rightarrow> bool \<times> conn" where
  "conn_write f c =
     (if length (snd f) > max_frame \<or> \<not> c_up c (length (c_out c)) then (False, c)
      else (True, c\<lparr>c_out := c_out c @ [f]\<rparr>))"

record http_req =
  rq_id :: string
  rq_method :: string
  rq_path :: string
  rq_query :: string
  rq_header :: header
  rq_body :: string

record res_head =
  hd_id :: string
  hd_status :: int
  hd_header :: header

record codec =
  enc_req :: "http_req \<Rightarrow> string"
  dec_req :: "string \<Rightarrow> http_req option"
  enc_head :: "res_head \<Rightarrow> string"
  dec_head :: "string \<Rightarrow> res_head option"
  enc_end :: "string \<Rightarrow> string"
  dec_end :: "string \<Rightarrow> string option"
  header_order :: "header \<Rightarrow> string list"

section \<open>The stream writer\<close>

record stream_writer =
  sw_conn :: conn
  sw_id :: string
  sw_header :: header
  sw_wrote :: bool

definition new_stream :: "conn \<Rightarrow> string \<Rightarrow> stream_writer" where
  "new_stream c i = \<lparr>sw_conn = c, sw_id = i, sw_header = Map.empty, sw_wrote = False\<rparr>"

definition send_frame :: "nat \<Rightarrow> string \<Rightarrow> stream_writer \<Rightarrow> bool \<times> stream_writer" where
  "send_frame typ payload w =
     (case conn_write (typ, payload) (sw_conn w) of (ok, c) \<Rightarrow> (ok, w\<lparr>sw_conn := c\<rparr>))"

definition stream_write_header :: "codec \<Rightarrow> int \<Rightarrow> stream_writer \<Rightarrow> stream_writer" where
  "stream_write_header cd code w =
     (if sw_wrote w then w
      else snd (send_frame type_http_res_head
        (enc_head cd \<lparr>hd_id = sw_id w, hd_status = code, hd_header = strip_hop (sw_header w)\<rparr>)
        (w\<lparr>sw_wrote := True\<rparr>)))"

fun stream_chunks :: "string list \<Rightarrow> stream_writer \<Rightarrow> stream_writer" where
  "stream_chunks [] w = w"
| "stream_chunks (p # ps) w =
     (case send_frame type_http_res_body (encode_body (sw_id w) p) w of
        (True, w') \<Rightarrow> stream_chunks ps w'
      | (False, w') \<Rightarrow> w')"

definition stream_write :: "codec \<Rightarrow> string \<Rightarrow> stream_writer \<Rightarrow> stream_writer" where
  "stream_write cd p w =
     stream_chunks (chunks p) (if sw_wrote w then w else stream_write_header cd 200 w)"

definition stream_action :: "codec \<Rightarrow> action \<Rightarrow> stream_writer \<Rightarrow> stream_writer" where
  "stream_action cd a w =
     (case a of
        A_Status code \<Rightarrow> stream_write_header cd code w
      | A_Write p \<Rightarrow> stream_write cd p w
      | _ \<Rightarrow> w\<lparr>sw_header := edit_header a (sw_header w)\<rparr>)"

definition send_end :: "codec \<Rightarrow> string \<Rightarrow> stream_writer \<Rightarrow> stream_writer" where
  "send_end cd i w = snd (send_frame type_http_res_end (enc_end cd i) w)"

section \<open>Proxied requests\<close>

text \<open>The request the local handler sees.\<close>

record node_request =
  nr_method :: string
  nr_uri :: string
  nr_header :: header
  nr_host :: string
  nr_body :: string
  nr_remote :: string

definition request_uri :: "http_req \<Rightarrow> string" where
  "request_uri rq =
     (let p0 = rq_path rq;
          p1 = (if p0 = [] then ''/'' else p0);
          p2 = (if \<not> has_prefix p1 ''/'' then ''/'' @ p1 else p1)
      in if rq_query rq \<noteq> [] then p2 @ ''?'' @ rq_query rq else p2)"

definition node_view :: "http_req \<Rightarrow> node_request" where
  "node_view rq =
     (let h = strip_hop (rq_header rq); host = header_get ''Host'' h in
      \<lparr>nr_method = (if rq_method rq = [] then ''GET'' else rq_method rq), nr_uri = request_uri rq,
       nr_header = h, nr_host = (if host \<noteq> [] then host else ''gateway.invalid''), nr_body = rq_body rq,
       nr_remote = ''gateway''\<rparr>)"

definition write_error :: "codec \<Rightarrow> string \<Rightarrow> int \<Rightarrow> string \<Rightarrow> stream_writer \<Rightarrow> stream_writer" where
  "write_error cd i code msg w =
     (let w1 = snd (send_frame type_http_res_head
            (enc_head cd \<lparr>hd_id = i, hd_status = code,
               hd_header = [''Content-Type'' \<mapsto> [''text/plain; charset=utf-8'']]\<rparr>) w);
          w2 = snd (send_frame type_http_res_body (encode_body i msg) w1)
      in send_end cd i w2)"

text \<open>
  \<open>handleHTTP\<close>: \<open>new_request m u\<close> says whether \<open>http.NewRequest\<close> accepts the method and the URL; the
  handler is what it does to its writer.
\<close>

definition handle_http ::
  "codec \<Rightarrow> (string \<Rightarrow> string \<Rightarrow> bool) \<Rightarrow> (node_request \<Rightarrow> action list) \<Rightarrow> http_req \<Rightarrow> conn \<Rightarrow> conn" where
  "handle_http cd new_request handler rq c =
     (if rq_id rq = [] \<or> length (rq_id rq) \<noteq> 16 then c
      else
        let u = request_uri rq; w = new_stream c (rq_id rq) in
        if \<not> new_request (rq_method rq) (''http://gateway.invalid'' @ u)
        then sw_conn (write_error cd (rq_id rq) 400 ''invalid request'' w)
        else
          let w1 = fold (stream_action cd) (handler (node_view rq)) w;
              w2 = (if sw_wrote w1 then w1 else stream_write_header cd 200 w1)
          in sw_conn (send_end cd (rq_id rq) w2))"

section \<open>The loop of Serve\<close>

datatype serve_result = Serving conn | Handling http_req conn

definition serve_frame :: "codec \<Rightarrow> frame \<Rightarrow> conn \<Rightarrow> serve_result" where
  "serve_frame cd f c =
     (case f of (typ, payload) \<Rightarrow>
        if typ = type_ping then Serving (snd (conn_write (type_pong, []) c))
        else if typ = type_pong then Serving c
        else if typ = type_http_req then
          (case dec_req cd payload of None \<Rightarrow> Serving c | Some rq \<Rightarrow> Handling rq c)
        else Serving c)"

definition ping_tick :: "conn \<Rightarrow> conn" where
  "ping_tick c = snd (conn_write (type_ping, []) c)"

section \<open>Connect\<close>

datatype connect_error =
  Connect_IO | Expected_Challenge nat | Bad_Challenge | Sign_Failed | Rejected string | Unexpected_Reply nat

record client =
  cl_username :: string
  cl_public_key :: string
  cl_node_id :: string
  cl_display :: string
  cl_key :: "string option"

text \<open>
  \<open>Connect\<close> after the upgrade, against the replies of the gateway (\<open>None\<close> is a read error). The
  result is the error, if any, with the connection; the frames it holds were sent.
\<close>

definition client_hello :: "client \<Rightarrow> hello" where
  "client_hello cl =
     \<lparr>hello_username = to_lower (trim_space (cl_username cl)), hello_key = cl_public_key cl,
      hello_node_id = cl_node_id cl, hello_display = cl_display cl\<rparr>"

definition auth_reply :: "crypto \<Rightarrow> frame option \<Rightarrow> connect_error option" where
  "auth_reply cr reply =
     (case reply of
        None \<Rightarrow> Some Connect_IO
      | Some (typ, payload) \<Rightarrow>
          if typ = type_auth_ok then None
          else if typ = type_auth_fail then
            (let msg = (case read_single cr ''error'' payload of None \<Rightarrow> [] | Some m \<Rightarrow> m) in
             Some (Rejected (if msg = [] then ''gateway rejected the tunnel'' else msg)))
          else Some (Unexpected_Reply typ))"

definition client_connect ::
  "crypto \<Rightarrow> client \<Rightarrow> frame option \<Rightarrow> frame option \<Rightarrow> conn \<Rightarrow> connect_error option \<times> conn" where
  "client_connect cr cl reply1 reply2 c =
     (case conn_write (type_hello, print_json cr (hello_json (client_hello cl))) c of
        (False, c1) \<Rightarrow> (Some Connect_IO, c1)
      | (True, c1) \<Rightarrow>
          (case reply1 of
             None \<Rightarrow> (Some Connect_IO, c1)
           | Some (typ, payload) \<Rightarrow>
               if typ \<noteq> type_challenge then (Some (Expected_Challenge typ), c1)
               else (case read_challenge cr payload of
                 None \<Rightarrow> (Some Bad_Challenge, c1)
               | Some ch \<Rightarrow>
                   (case sign_challenge cr (cl_key cl) (cl_username cl) (nonce ch) (issued_at ch) of
                      None \<Rightarrow> (Some Sign_Failed, c1)
                    | Some sg \<Rightarrow>
                        (case conn_write (type_auth, print_json cr (single_json ''signature'' sg)) c1 of
                           (False, c2) \<Rightarrow> (Some Connect_IO, c2)
                         | (True, c2) \<Rightarrow> (auth_reply cr reply2, c2))))))"

end
