(* ===== verification/Gateway_Session.thy ===== *)
theory Gateway_Session
  imports Tunnel_Client "HOL-Library.AList"
begin

text \<open>
  \<open>internal/gateway/server.go\<close>, the live session of a node: \<open>proxy\<close>, the frames \<open>readLoop\<close>
  dispatches to \<open>onHead\<close>, \<open>onBody\<close> and \<open>onEnd\<close>, \<open>close\<close>, and the \<open>capture\<close> writer. Each handler of the
  session is one step; a step that panics in the goroutine of the session ends the process, which
  is the result \<open>None\<close>. Pending requests are an association list under distinct ids. A step is
  atomic: the code holds the session's mutex only while it looks up a pending request, so that a
  write to a request whose caller has just given up is not part of the model.
\<close>

section \<open>The writer of a proxied request\<close>

record capture =
  cap_buf :: string
  cap_code :: int
  cap_wrote :: bool

record gw_writer =
  gw_out :: writer
  gw_cap :: "capture option"

definition max_cache_body :: nat where "max_cache_body = 256 * 2 ^ 10"
definition max_inbox_body :: nat where "max_inbox_body = 2 ^ 20"
definition max_pending :: nat where "max_pending = 32"

definition new_capture :: capture where
  "new_capture = \<lparr>cap_buf = [], cap_code = 0, cap_wrote = False\<rparr>"

definition gw_write_header :: "int \<Rightarrow> gw_writer \<Rightarrow> gw_writer option" where
  "gw_write_header code g =
     (case write_header code (gw_out g) of
        None \<Rightarrow> None
      | Some w \<Rightarrow> Some (g\<lparr>gw_out := w,
          gw_cap := map_option (\<lambda>c. c\<lparr>cap_code := code, cap_wrote := True\<rparr>) (gw_cap g)\<rparr>))"

definition cap_store :: "string \<Rightarrow> capture \<Rightarrow> capture" where
  "cap_store p c =
     (if length (cap_buf c) < max_cache_body
      then c\<lparr>cap_buf := cap_buf c @ take (max_cache_body - length (cap_buf c)) p\<rparr>
      else c)"

definition gw_write :: "string \<Rightarrow> gw_writer \<Rightarrow> gw_writer option" where
  "gw_write p g =
     (case (case gw_cap g of Some c \<Rightarrow> if cap_wrote c then Some g else gw_write_header 200 g | None \<Rightarrow> Some g) of
        None \<Rightarrow> None
      | Some g1 \<Rightarrow>
          (case write_data p (gw_out g1) of
             None \<Rightarrow> None
           | Some w \<Rightarrow> Some (g1\<lparr>gw_out := w, gw_cap := map_option (cap_store p) (gw_cap g1)\<rparr>)))"

section \<open>The session\<close>

datatype proxy_error = Err_Offline | Err_Read_Body | Err_Too_Large | Err_Random | Err_Write | Err_Context

text \<open>\<open>errc\<close> is a channel of capacity one: what it holds, if anything.\<close>

record pending_req =
  p_w :: gw_writer
  p_wrote :: bool
  p_errc :: "proxy_error option option"

record session =
  se_user :: string
  se_pending :: "(string \<times> pending_req) list"
  se_closed :: bool
  se_conn :: conn

definition new_session :: "string \<Rightarrow> conn \<Rightarrow> session" where
  "new_session u c = \<lparr>se_user = u, se_pending = [], se_closed = False, se_conn = c\<rparr>"

definition offer :: "proxy_error option \<Rightarrow> pending_req \<Rightarrow> pending_req" where
  "offer e p = (if p_errc p = None then p\<lparr>p_errc := Some e\<rparr> else p)"

definition set_pending :: "string \<Rightarrow> pending_req \<Rightarrow> session \<Rightarrow> session" where
  "set_pending i p s = s\<lparr>se_pending := AList.update i p (se_pending s)\<rparr>"

definition drop_pending :: "string \<Rightarrow> session \<Rightarrow> session" where
  "drop_pending i s = s\<lparr>se_pending := AList.delete i (se_pending s)\<rparr>"

text \<open>
  \<open>close\<close>: the second component is what the callers waiting in \<open>proxy\<close> receive; their entries are
  gone from the map, and nothing is written to the closed connection any more.
\<close>

definition session_close :: "session \<Rightarrow> session \<times> (string \<times> pending_req) list" where
  "session_close s =
     (if se_closed s then (s, [])
      else (s\<lparr>se_closed := True, se_pending := [], se_conn := (se_conn s)\<lparr>c_up := (\<lambda>_. False)\<rparr>\<rparr>, map (\<lambda>(i, p). (i, offer (Some Err_Offline) p)) (se_pending s)))"

record gw_request =
  gr_method :: string
  gr_escaped :: string
  gr_query :: string
  gr_header :: header
  gr_host :: string
  gr_body :: "string option"

text \<open>\<open>URL.Path\<close> and \<open>URL.EscapedPath\<close> of one request.\<close>

definition gr_path :: "gw_request \<Rightarrow> string" where
  "gr_path r = unescaped (gr_escaped r)"

definition proxied :: "gw_request \<Rightarrow> string \<Rightarrow> string \<Rightarrow> http_req" where
  "proxied r i b =
     \<lparr>rq_id = i, rq_method = gr_method r, rq_path = gr_path r, rq_query = gr_query r,
      rq_header = (let h = strip_hop (gr_header r) in if gr_host r \<noteq> [] then header_set ''Host'' (gr_host r) h else h),
      rq_body = b\<rparr>"

text \<open>
  \<open>proxy\<close> up to the point where it waits: an error with the writer, or the session with the new
  pending request. \<open>new_id\<close> is the outcome of \<open>newReqID\<close>; \<open>gr_body\<close> is the first megabyte and one
  byte of the request body, \<open>None\<close> if reading fails.
\<close>

definition reply_error :: "string \<Rightarrow> int \<Rightarrow> gw_writer \<Rightarrow> gw_writer" where
  "reply_error msg code g =
     g\<lparr>gw_out := writer_error msg code (gw_out g),
       gw_cap := map_option (\<lambda>c. cap_store (msg @ [CHR 0x0A]) (c\<lparr>cap_code := code, cap_wrote := True\<rparr>)) (gw_cap g)\<rparr>"

definition proxy_begin ::
  "codec \<Rightarrow> string option \<Rightarrow> gw_request \<Rightarrow> gw_writer \<Rightarrow> session \<Rightarrow> (proxy_error \<times> gw_writer) + string \<times> session" where
  "proxy_begin cd new_id r g s =
     (case gr_body r of
        None \<Rightarrow> Inl (Err_Read_Body, reply_error ''could not read body'' 400 g)
      | Some b \<Rightarrow>
          if length b > max_inbox_body then Inl (Err_Too_Large, reply_error ''request body too large'' 413 g)
          else (case new_id of
            None \<Rightarrow> Inl (Err_Random, reply_error ''internal error'' 500 g)
          | Some i \<Rightarrow>
              if se_closed s \<or> length (se_pending s) \<ge> max_pending then Inl (Err_Offline, g)
              else
                let s1 = set_pending i \<lparr>p_w = g, p_wrote = False, p_errc = None\<rparr> s in
                (case conn_write (type_http_req, enc_req cd (proxied r i b)) (se_conn s1) of
                   (False, c) \<Rightarrow> Inl (Err_Write, g)
                 | (True, c) \<Rightarrow> Inr (i, s1\<lparr>se_conn := c\<rparr>))))"

text \<open>What \<open>proxy\<close> returns once the channel delivers, or the request's context ends.\<close>

definition proxy_result :: "proxy_error option \<Rightarrow> pending_req \<Rightarrow> proxy_error option" where
  "proxy_result e p = (if e \<noteq> None \<and> p_wrote p then None else e)"

section \<open>Frames from the node\<close>

definition pend_head :: "codec \<Rightarrow> res_head \<Rightarrow> pending_req \<Rightarrow> pending_req option" where
  "pend_head cd head p =
     (let h = strip_hop (hd_header head);
          w = gw_out (p_w p);
          g = (p_w p)\<lparr>gw_out := w\<lparr>w_header := add_all (header_order cd h) h (w_header w)\<rparr>\<rparr>;
          code = (if hd_status head = 0 then 200 else hd_status head) in
      case gw_write_header code g of
        None \<Rightarrow> None
      | Some g' \<Rightarrow> Some (p\<lparr>p_w := g', p_wrote := True\<rparr>))"

definition pend_body :: "string \<Rightarrow> pending_req \<Rightarrow> pending_req option" where
  "pend_body data p =
     (case (if p_wrote p then Some p
            else map_option (\<lambda>g. p\<lparr>p_w := g, p_wrote := True\<rparr>) (gw_write_header 200 (p_w p))) of
        None \<Rightarrow> None
      | Some p1 \<Rightarrow> map_option (\<lambda>g. p1\<lparr>p_w := g\<rparr>) (gw_write data (p_w p1)))"

definition with_pending :: "string \<Rightarrow> (pending_req \<Rightarrow> pending_req option) \<Rightarrow> session \<Rightarrow> session option" where
  "with_pending i f s =
     (case map_of (se_pending s) i of
        None \<Rightarrow> Some s
      | Some p \<Rightarrow> map_option (\<lambda>p'. set_pending i p' s) (f p))"

definition on_head :: "codec \<Rightarrow> res_head \<Rightarrow> session \<Rightarrow> session option" where
  "on_head cd head s = with_pending (hd_id head) (pend_head cd head) s"

definition on_body :: "string \<Rightarrow> string \<Rightarrow> session \<Rightarrow> session option" where
  "on_body i data s = with_pending i (pend_body data) s"

definition on_end :: "string \<Rightarrow> session \<Rightarrow> session option" where
  "on_end i s = with_pending i (\<lambda>p. Some (offer None p)) s"

text \<open>One iteration of \<open>readLoop\<close>.\<close>

definition session_frame :: "codec \<Rightarrow> frame \<Rightarrow> session \<Rightarrow> session option" where
  "session_frame cd f s =
     (case f of (typ, payload) \<Rightarrow>
        if typ = type_ping then Some (s\<lparr>se_conn := snd (conn_write (type_pong, []) (se_conn s))\<rparr>)
        else if typ = type_pong then Some s
        else if typ = type_http_res_head then
          (case dec_head cd payload of None \<Rightarrow> Some s | Some head \<Rightarrow> on_head cd head s)
        else if typ = type_http_res_body then
          (case decode_body payload of None \<Rightarrow> Some s | Some (i, data) \<Rightarrow> on_body i data s)
        else if typ = type_http_res_end then
          (case dec_end cd payload of None \<Rightarrow> Some s | Some i \<Rightarrow> on_end i s)
        else Some s)"

text \<open>
  Everything that happens to a session: a frame from the node, the 20-second ping, the begin of a
  proxied request, the return of one (its deferred removal from the map), and its end: \<open>attach\<close>
  closes the session it replaces, \<open>detach\<close> the one whose \<open>readLoop\<close> has returned.
\<close>

datatype session_event =
  Se_Frame frame | Se_Tick | Se_Begin "string option" gw_request gw_writer | Se_Return string
| Se_Close

definition session_step :: "codec \<Rightarrow> session_event \<Rightarrow> session \<Rightarrow> session option" where
  "session_step cd e s =
     (case e of
        Se_Frame f \<Rightarrow> session_frame cd f s
      | Se_Tick \<Rightarrow> Some (s\<lparr>se_conn := snd (conn_write (type_ping, []) (se_conn s))\<rparr>)
      | Se_Begin i r g \<Rightarrow> (case proxy_begin cd i r g s of Inl _ \<Rightarrow> Some s | Inr (_, s') \<Rightarrow> Some s')
      | Se_Return i \<Rightarrow> Some (drop_pending i s)
      | Se_Close \<Rightarrow> Some (fst (session_close s)))"

fun session_run :: "codec \<Rightarrow> session_event list \<Rightarrow> session \<Rightarrow> session option" where
  "session_run cd [] s = Some s"
| "session_run cd (e # es) s = (case session_step cd e s of None \<Rightarrow> None | Some s' \<Rightarrow> session_run cd es s')"

section \<open>What a session does to one request\<close>

text \<open>The request a frame is about, and its effect on that request.\<close>

definition frame_id :: "codec \<Rightarrow> frame \<Rightarrow> string option" where
  "frame_id cd f =
     (case f of (typ, payload) \<Rightarrow>
        if typ = type_http_res_head then map_option hd_id (dec_head cd payload)
        else if typ = type_http_res_body then map_option fst (decode_body payload)
        else if typ = type_http_res_end then dec_end cd payload
        else None)"

definition pend_frame :: "codec \<Rightarrow> frame \<Rightarrow> pending_req \<Rightarrow> pending_req option" where
  "pend_frame cd f p =
     (case f of (typ, payload) \<Rightarrow>
        if typ = type_http_res_head then pend_head cd (the (dec_head cd payload)) p
        else if typ = type_http_res_body then pend_body (snd (the (decode_body payload))) p
        else Some (offer None p))"

fun pend_run :: "codec \<Rightarrow> frame list \<Rightarrow> pending_req \<Rightarrow> pending_req option" where
  "pend_run cd [] p = Some p"
| "pend_run cd (f # fs) p = (case pend_frame cd f p of None \<Rightarrow> None | Some p' \<Rightarrow> pend_run cd fs p')"

lemma pend_run_append:
  "pend_run cd (xs @ ys) p = (case pend_run cd xs p of None \<Rightarrow> None | Some p' \<Rightarrow> pend_run cd ys p')"
  by (induction xs arbitrary: p) (auto split: option.splits)

lemma type_distinct [simp]:
  "type_http_res_head \<noteq> type_ping" "type_http_res_head \<noteq> type_pong"
  "type_http_res_body \<noteq> type_ping" "type_http_res_body \<noteq> type_pong" "type_http_res_body \<noteq> type_http_res_head"
  "type_http_res_end \<noteq> type_ping" "type_http_res_end \<noteq> type_pong" "type_http_res_end \<noteq> type_http_res_head"
  "type_http_res_end \<noteq> type_http_res_body" "type_pong \<noteq> type_ping"
  by (simp_all add: type_http_res_head_def type_http_res_body_def type_http_res_end_def type_ping_def type_pong_def)

lemmas type_distinct_sym [simp] = type_distinct [THEN not_sym]

lemma set_pending_lookup [simp]:
  "map_of (se_pending (set_pending i p s)) j = (if j = i then Some p else map_of (se_pending s) j)"
  by (simp add: set_pending_def update_conv')

lemma drop_pending_lookup [simp]:
  "map_of (se_pending (drop_pending i s)) j = (if j = i then None else map_of (se_pending s) j)"
  by (simp add: drop_pending_def delete_conv')

lemma session_frame_pend:
  assumes "frame_id cd f = Some i"
  shows "session_frame cd f s = with_pending i (pend_frame cd f) s"
  using assms
  by (cases f) (auto simp: session_frame_def frame_id_def pend_frame_def on_head_def on_body_def on_end_def
      with_pending_def split: if_split_asm option.split)

lemma session_frame_no_id:
  "frame_id cd f = None \<Longrightarrow> session_frame cd f s = Some s' \<Longrightarrow> se_pending s' = se_pending s"
  by (cases f) (auto simp: session_frame_def frame_id_def split: if_split_asm option.split_asm)

lemma session_frame_other:
  assumes "session_frame cd f s = Some s'" "frame_id cd f \<noteq> Some i"
  shows "map_of (se_pending s') i = map_of (se_pending s) i"
proof (cases "frame_id cd f")
  case None
  with assms session_frame_no_id show ?thesis by metis
next
  case (Some j)
  with assms show ?thesis
    by (auto simp: session_frame_pend with_pending_def split: option.splits)
qed

text \<open>Events that neither start nor end request \<open>i\<close>; closing the session ends every request.\<close>

definition spares :: "string \<Rightarrow> session_event \<Rightarrow> bool" where
  "spares i e \<longleftrightarrow> (case e of Se_Begin j _ _ \<Rightarrow> j \<noteq> Some i | Se_Return j \<Rightarrow> j \<noteq> i | Se_Close \<Rightarrow> False | _ \<Rightarrow> True)"

fun frames_for :: "codec \<Rightarrow> string \<Rightarrow> session_event list \<Rightarrow> frame list" where
  "frames_for cd i [] = []"
| "frames_for cd i (Se_Frame f # es) = (if frame_id cd f = Some i then f # frames_for cd i es else frames_for cd i es)"
| "frames_for cd i (_ # es) = frames_for cd i es"

lemma proxy_begin_other:
  assumes "proxy_begin cd j r g s = Inr (k, s')" "j \<noteq> Some i"
  shows "map_of (se_pending s') i = map_of (se_pending s) i"
  using assms by (auto simp: proxy_begin_def Let_def split: option.splits if_splits prod.splits bool.splits)

lemma session_step_other:
  assumes "session_step cd e s = Some s'" "spares i e" "\<And>f. e = Se_Frame f \<Longrightarrow> frame_id cd f \<noteq> Some i"
  shows "map_of (se_pending s') i = map_of (se_pending s) i"
proof (cases e)
  case (Se_Frame f)
  with assms session_frame_other [of cd f s s' i] show ?thesis by (simp add: session_step_def)
next
  case (Se_Begin j r g)
  with assms proxy_begin_other [of cd j r g s] show ?thesis
    by (auto simp: session_step_def spares_def split: sum.splits)
qed (use assms in \<open>auto simp: session_step_def spares_def\<close>)

lemma session_run_pend:
  assumes "session_run cd es s = Some s'" "map_of (se_pending s) i = Some p" "list_all (spares i) es"
  shows "\<exists>p'. pend_run cd (frames_for cd i es) p = Some p' \<and> map_of (se_pending s') i = Some p'"
  using assms
proof (induction es arbitrary: s p)
  case (Cons e es)
  then obtain s1 where s1: "session_step cd e s = Some s1" "session_run cd es s1 = Some s'"
    by (auto split: option.splits)
  show ?case
  proof (cases "\<exists>f. e = Se_Frame f \<and> frame_id cd f = Some i")
    case True
    then obtain f where f: "e = Se_Frame f" "frame_id cd f = Some i" by blast
    with s1(1) Cons.prems(2) obtain p1 where p1: "pend_frame cd f p = Some p1" "s1 = set_pending i p1 s"
      by (auto simp: session_step_def session_frame_pend with_pending_def)
    with Cons.IH [OF s1(2), of p1] Cons.prems(3) f show ?thesis by simp
  next
    case False
    have "map_of (se_pending s1) i = map_of (se_pending s) i"
      by (rule session_step_other [OF s1(1)]) (use Cons.prems(3) False in auto)
    with Cons.IH [OF s1(2), of p] Cons.prems(2,3) False show ?thesis
      by (cases e) auto
  qed
qed simp

section \<open>The number of pending requests\<close>

definition session_ok :: "session \<Rightarrow> bool" where
  "session_ok s \<longleftrightarrow> distinct (map fst (se_pending s)) \<and> length (se_pending s) \<le> max_pending"

lemma length_update: "length (AList.update k v xs) = (if k \<in> fst ` set xs then length xs else Suc (length xs))"
  by (induction xs) auto

lemma session_ok_set:
  "session_ok s \<Longrightarrow> i \<in> fst ` set (se_pending s) \<Longrightarrow> session_ok (set_pending i p s)"
  by (simp add: session_ok_def set_pending_def distinct_update length_update)

lemma session_ok_with:
  "session_ok s \<Longrightarrow> with_pending i f s = Some s' \<Longrightarrow> session_ok s'"
  by (auto simp: with_pending_def split: option.splits intro!: session_ok_set dest!: map_of_SomeD intro: rev_image_eqI)

lemma session_ok_conn: "session_ok s \<Longrightarrow> session_ok (s\<lparr>se_conn := c\<rparr>)"
  by (simp add: session_ok_def)

lemma session_ok_begin:
  assumes "session_ok s" "proxy_begin cd j r g s = Inr (k, s')"
  shows "session_ok s'"
  using assms
  by (auto simp: proxy_begin_def Let_def set_pending_def session_ok_def distinct_update length_update
      split: option.splits if_splits prod.splits bool.splits)

lemma session_step_ok:
  assumes "session_ok s" "session_step cd e s = Some s'"
  shows "session_ok s'"
proof (cases e)
  case (Se_Frame f)
  then have r: "session_frame cd f s = Some s'" using assms(2) by (simp add: session_step_def)
  show ?thesis
  proof (cases "frame_id cd f")
    case None
    with r session_frame_no_id assms(1) show ?thesis by (metis session_ok_def)
  next
    case (Some i)
    with r session_ok_with assms(1) show ?thesis by (metis session_frame_pend)
  qed
next
  case (Se_Begin j r g)
  with assms session_ok_begin [of s cd j r g] show ?thesis
    by (auto simp: session_step_def split: sum.splits)
next
  case (Se_Return i)
  with assms show ?thesis
    using length_delete_le [of i "se_pending s"]
    by (auto simp: session_step_def drop_pending_def session_ok_def distinct_delete)
next
  case Se_Close
  with assms show ?thesis by (auto simp: session_step_def session_close_def session_ok_def)
qed (use assms session_ok_conn in \<open>auto simp: session_step_def\<close>)

lemma session_run_ok: "session_ok s \<Longrightarrow> session_run cd es s = Some s' \<Longrightarrow> session_ok s'"
  by (induction es arbitrary: s) (auto split: option.splits dest: session_step_ok)

end
