(* ===== verification/Tunnel_Proxy.thy ===== *)
theory Tunnel_Proxy
  imports Gateway_Session
begin

text \<open>
  The two ends of the tunnel together: a request that the gateway's \<open>proxy\<close> sends, the node's handler
  answers through the stream writer, and the gateway's session relays. The specification is the
  handler running on a plain \<open>net/http\<close> writer.
\<close>

section \<open>The node's side\<close>

definition head_frame :: "codec \<Rightarrow> string \<Rightarrow> int \<Rightarrow> header \<Rightarrow> frame" where
  "head_frame cd i code h = (type_http_res_head, enc_head cd \<lparr>hd_id = i, hd_status = code, hd_header = strip_hop h\<rparr>)"

definition body_frame :: "string \<Rightarrow> string \<Rightarrow> frame" where
  "body_frame i d = (type_http_res_body, encode_body i d)"

definition end_frame :: "codec \<Rightarrow> string \<Rightarrow> frame" where
  "end_frame cd i = (type_http_res_end, enc_end cd i)"

definition up :: "conn \<Rightarrow> bool" where
  "up c \<longleftrightarrow> (\<forall>n. c_up c n)"

lemma conn_write_up: "up c \<Longrightarrow> length (snd f) \<le> max_frame \<Longrightarrow> conn_write f c = (True, c\<lparr>c_out := c_out c @ [f]\<rparr>)"
  by (simp add: conn_write_def up_def)

lemma up_out [simp]: "up (c\<lparr>c_out := x\<rparr>) = up c"
  by (simp add: up_def)

lemma stream_chunks_up:
  assumes "up (sw_conn w)" "\<And>p. p \<in> set ps \<Longrightarrow> length (encode_body (sw_id w) p) \<le> max_frame"
  shows "stream_chunks ps w =
    w\<lparr>sw_conn := (sw_conn w)\<lparr>c_out := c_out (sw_conn w) @ map (body_frame (sw_id w)) ps\<rparr>\<rparr>"
  using assms
  by (induction ps arbitrary: w) (simp_all add: send_frame_def conn_write_up body_frame_def)

text \<open>The stream writer after some calls, against the plain writer after the same calls.\<close>

definition sent_frames :: "codec \<Rightarrow> string \<Rightarrow> writer \<Rightarrow> frame list \<Rightarrow> bool" where
  "sent_frames cd i lw fs \<longleftrightarrow>
     (case w_sent lw of
        None \<Rightarrow> fs = [] \<and> w_body lw = []
      | Some (code, h) \<Rightarrow>
          header_ok h \<and> 200 \<le> code \<and> code \<le> 999 \<and>
          (\<exists>ds. fs = head_frame cd i code h # map (body_frame i) ds \<and>
                w_body lw = (if body_allowed code then concat ds else [])))"

lemma sent_frames_header [simp]: "sent_frames cd i (lw\<lparr>w_header := h\<rparr>) fs = sent_frames cd i lw fs"
  by (cases lw) (simp add: sent_frames_def split: option.split)

definition stream_rel :: "codec \<Rightarrow> string \<Rightarrow> frame list \<Rightarrow> stream_writer \<Rightarrow> writer \<Rightarrow> bool" where
  "stream_rel cd i base sw lw \<longleftrightarrow>
     sw_id sw = i \<and> sw_header sw = w_header lw \<and> header_ok (w_header lw) \<and>
     (sw_wrote sw \<longleftrightarrow> w_sent lw \<noteq> None) \<and> up (sw_conn sw) \<and>
     (\<exists>fs. c_out (sw_conn sw) = base @ fs \<and> sent_frames cd i lw fs)"

definition head_fits :: "codec \<Rightarrow> string \<Rightarrow> writer \<Rightarrow> bool" where
  "head_fits cd i lw \<longleftrightarrow>
     (case w_sent lw of None \<Rightarrow> True | Some (code, h) \<Rightarrow> length (snd (head_frame cd i code h)) \<le> max_frame)"

lemma stream_header_rel:
  assumes "stream_rel cd i base sw lw" "write_header code lw = Some lw'" "200 \<le> code" "code \<le> 999"
    and "head_fits cd i lw'"
  shows "stream_rel cd i base (stream_write_header cd code sw) lw'"
proof (cases "w_sent lw")
  case None
  then have lw': "lw' = lw\<lparr>w_sent := Some (code, w_header lw)\<rparr>"
    using assms(2-4) by (simp add: write_header_fresh)
  have "length (enc_head cd \<lparr>hd_id = i, hd_status = code, hd_header = strip_hop (w_header lw)\<rparr>) \<le> max_frame"
    using assms(5) by (simp add: lw' head_fits_def head_frame_def)
  moreover have "up (sw_conn sw)" "sw_id sw = i" "sw_header sw = w_header lw" "\<not> sw_wrote sw" "header_ok (w_header lw)"
    "c_out (sw_conn sw) = base" "w_body lw = []"
    using assms(1) None by (auto simp: stream_rel_def sent_frames_def)
  ultimately show ?thesis
    using assms(3,4)
    by (simp add: lw' stream_rel_def sent_frames_def stream_write_header_def send_frame_def conn_write_up head_frame_def)
next
  case (Some s)
  then show ?thesis
    using assms by (auto simp: write_header_sent stream_write_header_def stream_rel_def)
qed

lemma stream_action_rel:
  assumes rel: "stream_rel cd i base sw lw" and a: "apply_action a lw = Some lw'" and f: "final_codes [a]"
    and fits: "head_fits cd i lw'"
  shows "stream_rel cd i base (stream_action cd a sw) lw'"
proof (cases a)
  case (A_Status code)
  with a f stream_header_rel [OF rel _ _ _ fits] show ?thesis
    by (simp add: apply_action_def final_codes_def stream_action_def)
next
  case (A_Write p)
  then have wd: "write_data p lw = Some lw'" using a by (simp add: apply_action_def)
  obtain lw1 where lw1: "write_header 200 lw = Some lw1" using wd by (auto simp: write_data_def split: option.splits)
  obtain code h where s1: "w_sent lw1 = Some (code, h)"
    using lw1 by (cases "w_sent lw") (auto simp: write_header_sent write_header_fresh)
  have lw': "lw' = (if body_allowed code then lw1\<lparr>w_body := w_body lw1 @ p\<rparr> else lw1)"
    using wd lw1 s1 by (simp add: write_data_def)
  have fits1: "head_fits cd i lw1" using fits lw' s1 by (simp add: head_fits_def split: if_splits)
  let ?sw1 = "stream_write_header cd 200 sw"
  have rel1: "stream_rel cd i base ?sw1 lw1"
    by (rule stream_header_rel [OF rel lw1 _ _ fits1]) simp_all
  have sw1: "(if sw_wrote sw then sw else ?sw1) = ?sw1" by (simp add: stream_write_header_def)
  from rel1 s1 obtain ds where out: "c_out (sw_conn ?sw1) = base @ head_frame cd i code h # map (body_frame i) ds"
    and body: "w_body lw1 = (if body_allowed code then concat ds else [])"
    and r: "sw_id ?sw1 = i" "up (sw_conn ?sw1)" "header_ok h" "200 \<le> code" "code \<le> 999"
      "sw_header ?sw1 = w_header lw1" "header_ok (w_header lw1)" "sw_wrote ?sw1"
    by (auto simp: stream_rel_def sent_frames_def)
  have st: "stream_action cd a sw = ?sw1\<lparr>sw_conn := (sw_conn ?sw1)\<lparr>c_out := c_out (sw_conn ?sw1) @ map (body_frame i) (chunks p)\<rparr>\<rparr>"
    using r(1,2) body_fits stream_chunks_up [of ?sw1 "chunks p"]
    by (simp add: A_Write stream_action_def stream_write_def sw1)
  have "sent_frames cd i lw' (head_frame cd i code h # map (body_frame i) (ds @ chunks p))"
    unfolding sent_frames_def using s1 r(3-5) body
    by (auto simp: lw' intro!: exI [of _ "ds @ chunks p"])
  then show ?thesis
    unfolding stream_rel_def st using r s1 out
    by (auto simp: lw')
next
  case (A_Set k v)
  with rel a show ?thesis
    by (auto simp: stream_rel_def stream_action_def apply_action_def edit_header_def header_ok_edits)
next
  case (A_Add k v)
  with rel a show ?thesis
    by (auto simp: stream_rel_def stream_action_def apply_action_def edit_header_def header_ok_edits)
next
  case (A_Del k)
  with rel a show ?thesis
    by (auto simp: stream_rel_def stream_action_def apply_action_def edit_header_def header_ok_edits)
qed

lemma head_fits_run: "run_actions as w = Some w' \<Longrightarrow> head_fits cd i w' \<Longrightarrow> head_fits cd i w"
  using run_actions_sent [of as w w'] by (auto simp: head_fits_def split: option.split)

lemma stream_actions_rel:
  assumes "stream_rel cd i base sw lw" "run_actions as lw = Some lw'" "final_codes as" "head_fits cd i lw'"
  shows "stream_rel cd i base (fold (stream_action cd) as sw) lw'"
  using assms
proof (induction as arbitrary: sw lw)
  case (Cons a as)
  then obtain lw1 where lw1: "apply_action a lw = Some lw1" "run_actions as lw1 = Some lw'"
    by (auto split: option.splits)
  have "stream_rel cd i base (stream_action cd a sw) lw1"
    by (rule stream_action_rel [OF Cons.prems(1) lw1(1) _ head_fits_run [OF lw1(2) Cons.prems(4)]])
      (use Cons.prems(3) in \<open>simp add: final_codes_def\<close>)
  from Cons.IH [OF this lw1(2)] Cons.prems(3,4) show ?case by (simp add: final_codes_def)
qed simp

text \<open>The frames of one handled request.\<close>

lemma handle_http_frames:
  assumes "length (rq_id rq) = 16" "new_request (rq_method rq) (''http://gateway.invalid'' @ request_uri rq)"
    and "run_handler (handler (node_view rq)) = Some lw" "final_codes (handler (node_view rq))"
    and "up c" "head_fits cd (rq_id rq) lw" "length (enc_end cd (rq_id rq)) \<le> max_frame"
  shows "\<exists>fs. c_out (handle_http cd new_request handler rq c) = c_out c @ fs @ [end_frame cd (rq_id rq)] \<and>
    sent_frames cd (rq_id rq) lw fs"
proof -
  let ?i = "rq_id rq" and ?as = "handler (node_view rq)"
  obtain lw1 where lw1: "run_actions ?as new_writer = Some lw1" "write_header 200 lw1 = Some lw"
    using assms(3) by (auto simp: run_handler_def split: option.splits)
  have fits1: "head_fits cd ?i lw1"
    using assms(6) lw1(2) by (cases "w_sent lw1") (auto simp: head_fits_def write_header_sent)
  have "stream_rel cd ?i (c_out c) (new_stream c ?i) new_writer"
    using assms(5) by (simp add: stream_rel_def new_stream_def new_writer_def sent_frames_def)
  from stream_actions_rel [OF this lw1(1) assms(4) fits1]
  have r1: "stream_rel cd ?i (c_out c) (fold (stream_action cd) ?as (new_stream c ?i)) lw1" .
  let ?w1 = "fold (stream_action cd) ?as (new_stream c ?i)"
  have r2: "stream_rel cd ?i (c_out c) (stream_write_header cd 200 ?w1) lw"
    by (rule stream_header_rel [OF r1 lw1(2) _ _ assms(6)]) simp_all
  have e: "(if sw_wrote ?w1 then ?w1 else stream_write_header cd 200 ?w1) = stream_write_header cd 200 ?w1"
    by (simp add: stream_write_header_def)
  have ne: "?i \<noteq> []" using assms(1) by auto
  have h: "handle_http cd new_request handler rq c = sw_conn (send_end cd ?i (stream_write_header cd 200 ?w1))"
    using assms(1,2) ne e by (simp add: handle_http_def Let_def)
  show ?thesis
    using r2 assms(7) unfolding h stream_rel_def send_end_def send_frame_def
    by (auto simp: conn_write_up end_frame_def)
qed

section \<open>The gateway's side\<close>

text \<open>What the decoders of the gateway must give back for one response.\<close>

definition response_decodes :: "codec \<Rightarrow> string \<Rightarrow> int \<Rightarrow> header \<Rightarrow> bool" where
  "response_decodes cd i code h \<longleftrightarrow>
     (let head = \<lparr>hd_id = i, hd_status = code, hd_header = strip_hop h\<rparr> in
      dec_head cd (enc_head cd head) = Some head \<and> dec_end cd (enc_end cd i) = Some i \<and>
      distinct (header_order cd (strip_hop h)) \<and> set (header_order cd (strip_hop h)) = dom (strip_hop h))"

definition fresh_request :: "capture option \<Rightarrow> pending_req" where
  "fresh_request c = \<lparr>p_w = \<lparr>gw_out = new_writer, gw_cap = c\<rparr>, p_wrote = False, p_errc = None\<rparr>"

text \<open>The state of the pending request after its header and some body chunks.\<close>

definition relayed :: "int \<Rightarrow> header \<Rightarrow> string \<Rightarrow> capture option \<Rightarrow> pending_req" where
  "relayed code h data c =
     \<lparr>p_w = \<lparr>gw_out = \<lparr>w_header = strip_hop h, w_sent = Some (code, strip_hop h), w_info = [],
                       w_body = (if body_allowed code then data else [])\<rparr>,
             gw_cap = map_option (\<lambda>c. \<lparr>cap_buf = take max_cache_body data, cap_code = code, cap_wrote = True\<rparr>) c\<rparr>,
      p_wrote = True, p_errc = None\<rparr>"

lemma pend_head_fresh:
  assumes "response_decodes cd i code h" "header_ok h" "200 \<le> code" "code \<le> 999"
    and "c = None \<or> c = Some new_capture"
  shows "pend_frame cd (head_frame cd i code h) (fresh_request c) = Some (relayed code h [] c)"
proof -
  let ?h = "strip_hop h" and ?head = "\<lparr>hd_id = i, hd_status = code, hd_header = strip_hop h\<rparr>"
  have d: "dec_head cd (enc_head cd ?head) = Some ?head"
    and o: "distinct (header_order cd ?h)" "set (header_order cd ?h) = dom ?h"
    using assms(1) by (auto simp: response_decodes_def Let_def)
  have m: "add_all (header_order cd ?h) ?h Map.empty = ?h"
    by (rule add_all_same [OF header_ok_strip_hop [OF assms(2)] o])
  have f: "pend_frame cd (head_frame cd i code h) (fresh_request c) = pend_head cd ?head (fresh_request c)"
    by (simp add: pend_frame_def head_frame_def d)
  show ?thesis
    unfolding f using assms(3-5)
    by (auto simp: pend_head_def fresh_request_def relayed_def Let_def strip_hop_idem new_writer_def m
        gw_write_header_def write_header_fresh new_capture_def)
qed

lemma take_append_room: "take n (a @ take (n - length (take n a)) b) = take n (take n a @ b)"
  by (simp add: min_def)

lemma cap_store_take:
  "cap_store d \<lparr>cap_buf = take max_cache_body a, cap_code = k, cap_wrote = b\<rparr> =
     \<lparr>cap_buf = take max_cache_body (a @ d), cap_code = k, cap_wrote = b\<rparr>"
  by (auto simp: cap_store_def min_def)

lemma pend_body_relayed:
  assumes "length i = 16"
  shows "pend_frame cd (body_frame i d) (relayed code h data c) = Some (relayed code h (data @ d) c)"
proof -
  have f: "pend_frame cd (body_frame i d) p = pend_body d p" for p
    using assms by (simp add: pend_frame_def body_frame_def decode_encode_body)
  show ?thesis
    by (cases c; cases "body_allowed code")
      (simp_all add: f pend_body_def relayed_def gw_write_def write_data_sent write_data_dropped cap_store_take)
qed

lemma pend_bodies_relayed:
  assumes "length i = 16"
  shows "pend_run cd (map (body_frame i) ds) (relayed code h data c) = Some (relayed code h (data @ concat ds) c)"
  by (induction ds arbitrary: data) (simp_all add: pend_body_relayed [OF assms])

text \<open>A complete response, relayed.\<close>

lemma pend_response:
  assumes "sent_frames cd i lw fs" "w_sent lw = Some (code, h)" "length i = 16"
    and "response_decodes cd i code h" "c = None \<or> c = Some new_capture"
  shows "\<exists>data. pend_run cd (fs @ [end_frame cd i]) (fresh_request c) = Some ((relayed code h data c)\<lparr>p_errc := Some None\<rparr>) \<and>
    w_body lw = (if body_allowed code then data else [])"
proof -
  obtain ds where fs: "fs = head_frame cd i code h # map (body_frame i) ds"
    and r: "header_ok h" "200 \<le> code" "code \<le> 999" "w_body lw = (if body_allowed code then concat ds else [])"
    using assms(1,2) by (auto simp: sent_frames_def)
  have e: "pend_frame cd (end_frame cd i) p = Some (offer None p)" for p
    by (simp add: pend_frame_def end_frame_def)
  have "pend_run cd (fs @ [end_frame cd i]) (fresh_request c) = Some (offer None (relayed code h (concat ds) c))"
    using pend_head_fresh [OF assms(4) r(1-3) assms(5)] pend_bodies_relayed [OF assms(3), of cd ds code h "[]" c] e
    by (simp add: fs pend_run_append)
  also have "offer None (relayed code h (concat ds) c) = (relayed code h (concat ds) c)\<lparr>p_errc := Some None\<rparr>"
    by (simp add: offer_def relayed_def)
  finally show ?thesis using r(4) by blast
qed

section \<open>The request the node sees\<close>

lemma canonical_connection: "canonical_key ''Connection'' = ''Connection''"
  by code_simp

lemma canonical_host: "canonical_key ''Host'' = ''Host''"
  by code_simp

lemma strip_hop_host: "strip_hop (header_set ''Host'' v (strip_hop h)) = header_set ''Host'' v (strip_hop h)"
proof -
  have c: "strip_hop h ''Connection'' = None" by (rule strip_hop_hop) (simp add: hop_by_hop_def)
  have k: "''Host'' \<notin> canonical_key ` set hop_by_hop"
    using canonical_hop by (simp add: hop_by_hop_def)
  have v: "header_values ''Connection'' (header_set ''Host'' v (strip_hop h)) = []"
    using c by (simp add: header_values_def header_set_def canonical_connection canonical_host)
  show ?thesis
    unfolding fun_eq_iff strip_hop_apply [of "header_set ''Host'' v (strip_hop h)"] v
    using k by (auto simp: header_set_def canonical_host strip_hop_apply)
qed

lemma node_view_proxied:
  assumes "gr_host r \<noteq> []" "gr_method r \<noteq> []"
  shows "node_view (proxied r i b) =
    \<lparr>nr_method = gr_method r, nr_uri = request_uri (proxied r i b),
     nr_header = header_set ''Host'' (gr_host r) (strip_hop (gr_header r)), nr_host = gr_host r,
     nr_body = b, nr_remote = ''gateway''\<rparr>"
  using assms
  by (simp add: node_view_def proxied_def Let_def strip_hop_host request_uri_def)

lemma proxy_begin_pending:
  assumes "proxy_begin cd (Some i) r \<lparr>gw_out = new_writer, gw_cap = c\<rparr> s = Inr (j, s')"
  shows "j = i \<and> map_of (se_pending s') i = Some (fresh_request c)"
  using assms
  by (auto simp: proxy_begin_def Let_def fresh_request_def split: option.splits if_splits prod.splits bool.splits)

section \<open>Properties\<close>

text \<open>
  C7. The tunnel is transparent. A request accepted by \<open>proxy\<close> and answered by the node's handler
  reaches the caller as the handler wrote it on a plain writer: the same status, the header without
  the hop-by-hop fields, the same body; and the caller is told that the response is complete. This
  holds whatever frames for other requests, pings, new requests and returns of other requests the
  session handles in between, as long as it is not closed.
\<close>

theorem tunnel_transparent:
  assumes "proxy_begin cd (Some i) r \<lparr>gw_out = new_writer, gw_cap = c\<rparr> s = Inr (i, s1)" "gr_body r = Some b"
    and "length i = 16" "c = None \<or> c = Some new_capture"
    and "new_request (gr_method r) (''http://gateway.invalid'' @ request_uri (proxied r i b))"
    and "run_handler (handler (node_view (proxied r i b))) = Some lw" "final_codes (handler (node_view (proxied r i b)))"
    and "w_sent lw = Some (code, h)" "head_fits cd i lw" "length (enc_end cd i) \<le> max_frame" "up link"
    and "response_decodes cd i code h"
    and "session_run cd es s1 = Some s2" "list_all (spares i) es"
    and "c_out (handle_http cd new_request handler (proxied r i b) link) = c_out link @ frames_for cd i es"
  shows "\<exists>p. map_of (se_pending s2) i = Some p \<and> p_errc p = Some None \<and>
    w_sent (gw_out (p_w p)) = Some (code, strip_hop h) \<and> w_body (gw_out (p_w p)) = w_body lw"
proof -
  have i: "rq_id (proxied r i b) = i" "rq_method (proxied r i b) = gr_method r" by (simp_all add: proxied_def)
  obtain fs where fs: "frames_for cd i es = fs @ [end_frame cd i]" "sent_frames cd i lw fs"
    using handle_http_frames [of "proxied r i b" new_request handler lw link cd] assms i by auto
  obtain p where p: "pend_run cd (frames_for cd i es) (fresh_request c) = Some p" "map_of (se_pending s2) i = Some p"
    using session_run_pend [OF assms(13) _ assms(14)] proxy_begin_pending [OF assms(1)] by blast
  obtain data where "p = (relayed code h data c)\<lparr>p_errc := Some None\<rparr>" "w_body lw = (if body_allowed code then data else [])"
    using pend_response [OF fs(2) assms(8,3,12,4)] p(1) fs(1) by auto
  with p(2) show ?thesis by (auto simp: relayed_def)
qed

definition demo_id :: string where "demo_id = ''0123456789abcdef''"

definition demo_header :: header where
  "demo_header = [''Content-Type'' \<mapsto> [''text/plain'']]"

definition demo_codec :: codec where
  "demo_codec = \<lparr>enc_req = (\<lambda>_. ''q''), dec_req = (\<lambda>_. None),
     enc_head = (\<lambda>_. ''h''), dec_head = (\<lambda>_. Some \<lparr>hd_id = demo_id, hd_status = 200, hd_header = strip_hop demo_header\<rparr>),
     enc_end = (\<lambda>_. ''e''), dec_end = (\<lambda>_. Some demo_id), header_order = (\<lambda>_. [''Content-Type''])\<rparr>"

definition demo_handler :: "node_request \<Rightarrow> action list" where
  "demo_handler _ = [A_Set ''content-type'' ''text/plain'', A_Write ''hello'']"

definition demo_proxied :: gw_request where
  "demo_proxied = \<lparr>gr_method = ''GET'', gr_escaped = ''/users/a'', gr_query = [], gr_header = Map.empty,
     gr_host = ''gw.example'', gr_body = Some []\<rparr>"

definition demo_link :: conn where
  "demo_link = \<lparr>c_out = [], c_up = (\<lambda>_. True)\<rparr>"

definition demo_events :: "session_event list" where
  "demo_events = [Se_Frame (type_ping, []), Se_Frame (type_http_res_head, ''h''), Se_Tick,
     Se_Frame (type_http_res_body, encode_body demo_id ''hello''), Se_Frame (type_http_res_end, ''e'')]"

lemma demo_header_facts:
  "header_set ''content-type'' ''text/plain'' Map.empty = demo_header"
  "strip_hop demo_header = demo_header" "dom demo_header = {''Content-Type''}"
proof -
  have c: "canonical_key ''content-type'' = ''Content-Type''" by code_simp
  show "header_set ''content-type'' ''text/plain'' Map.empty = demo_header"
    by (simp add: header_set_def c demo_header_def)
  have "header_values ''Connection'' demo_header = []"
    by (simp add: header_values_def canonical_connection demo_header_def)
  then show "strip_hop demo_header = demo_header"
    unfolding fun_eq_iff strip_hop_apply list.set_map [symmetric] canonical_hop
    by (auto simp: demo_header_def hop_by_hop_def)
  show "dom demo_header = {''Content-Type''}" by (simp add: demo_header_def)
qed

definition demo_begun :: session where
  "demo_begun = (set_pending demo_id (fresh_request (Some new_capture)) (new_session ''a'' demo_link))
     \<lparr>se_conn := \<lparr>c_out = [(type_http_req, ''q'')], c_up = (\<lambda>_. True)\<rparr>\<rparr>"

lemma demo_begin:
  "proxy_begin demo_codec (Some demo_id) demo_proxied \<lparr>gw_out = new_writer, gw_cap = Some new_capture\<rparr>
     (new_session ''a'' demo_link) = Inr (demo_id, demo_begun)"
  by (simp add: proxy_begin_def demo_proxied_def new_session_def max_pending_def conn_write_def demo_link_def
      demo_codec_def max_frame_def set_pending_def demo_begun_def fresh_request_def)

lemma demo_run:
  "run_handler (demo_handler rq) = Some \<lparr>w_header = demo_header, w_sent = Some (200, demo_header), w_info = [], w_body = ''hello''\<rparr>"
  by (simp add: run_handler_def demo_handler_def new_writer_def apply_action_def edit_header_def demo_header_facts
      write_data_fresh write_header_sent)

lemma demo_id_simps [simp]: "length demo_id = 16" "demo_id \<noteq> []"
  by (simp_all add: demo_id_def)

lemma demo_send:
  "send_frame t p (\<lparr>sw_conn = \<lparr>c_out = fs, c_up = (\<lambda>_. True)\<rparr>, sw_id = i, sw_header = h, sw_wrote = b\<rparr>) =
     (if length p \<le> max_frame
      then (True, \<lparr>sw_conn = \<lparr>c_out = fs @ [(t, p)], c_up = (\<lambda>_. True)\<rparr>, sw_id = i, sw_header = h, sw_wrote = b\<rparr>)
      else (False, \<lparr>sw_conn = \<lparr>c_out = fs, c_up = (\<lambda>_. True)\<rparr>, sw_id = i, sw_header = h, sw_wrote = b\<rparr>))"
  by (simp add: send_frame_def conn_write_def)

lemma demo_handled:
  "c_out (handle_http demo_codec (\<lambda>_ _. True) demo_handler (proxied demo_proxied demo_id []) demo_link) =
     [(type_http_res_head, ''h''), (type_http_res_body, encode_body demo_id ''hello''), (type_http_res_end, ''e'')]"
proof -
  have ch: "chunks ''hello'' = [''hello'']"
    by (simp add: chunks.simps [of "''hello''"] chunks.simps [of "[]"] chunk_size_def)
  have l: "length (encode_body demo_id ''hello'') \<le> max_frame" "Suc 0 \<le> max_frame"
    by (simp_all add: encode_body_def max_frame_def)
  have e: "enc_head demo_codec x = ''h''" "enc_end demo_codec y = ''e''" for x y
    by (simp_all add: demo_codec_def)
  show ?thesis
    by (simp add: handle_http_def proxied_def Let_def demo_handler_def new_stream_def demo_link_def
        stream_action_def edit_header_def stream_write_def stream_write_header_def demo_send send_end_def ch l e)
qed

lemma demo_decodes: "response_decodes demo_codec demo_id 200 demo_header"
  by (simp add: response_decodes_def demo_codec_def demo_header_facts)

lemma demo_header_ok: "header_ok demo_header"
proof -
  have "canonical_key ''Content-Type'' = ''Content-Type''" by code_simp
  then show ?thesis by (simp add: header_ok_def demo_header_def)
qed

lemma demo_ids:
  "frame_id demo_codec (head_frame demo_codec i code h) = Some demo_id"
  "frame_id demo_codec (body_frame demo_id d) = Some demo_id"
  "frame_id demo_codec (end_frame demo_codec i) = Some demo_id"
  by (simp_all add: frame_id_def head_frame_def body_frame_def end_frame_def demo_codec_def decode_encode_body)

lemma demo_session: "session_run demo_codec demo_events demo_begun \<noteq> None"
proof -
  let ?c = "Some new_capture"
  have ev: "demo_events = [Se_Frame (type_ping, []), Se_Frame (head_frame demo_codec demo_id 200 demo_header), Se_Tick,
     Se_Frame (body_frame demo_id ''hello''), Se_Frame (end_frame demo_codec demo_id)]"
    by (simp add: demo_events_def head_frame_def body_frame_def end_frame_def demo_codec_def)
  have l: "map_of (se_pending demo_begun) demo_id = Some (fresh_request ?c)"
    by (simp add: demo_begun_def)
  have f1: "pend_frame demo_codec (head_frame demo_codec demo_id 200 demo_header) (fresh_request ?c) = Some (relayed 200 demo_header [] ?c)"
    by (rule pend_head_fresh [OF demo_decodes demo_header_ok]) simp_all
  have f2: "pend_frame demo_codec (body_frame demo_id ''hello'') (relayed 200 demo_header [] ?c) = Some (relayed 200 demo_header ''hello'' ?c)"
    using pend_body_relayed [of demo_id demo_codec "''hello''" 200 demo_header "[]"] by simp
  have f3: "pend_frame demo_codec (end_frame demo_codec demo_id) p = Some (offer None p)" for p
    by (simp add: pend_frame_def end_frame_def)
  have p: "session_frame demo_codec (type_ping, []) s = Some (s\<lparr>se_conn := snd (conn_write (type_pong, []) (se_conn s))\<rparr>)" for s
    by (simp add: session_frame_def)
  show ?thesis
    by (simp add: ev session_step_def p session_frame_pend demo_ids with_pending_def l f1 f2 f3)
qed

theorem tunnel_transparent_witness:
  "\<exists>s2 p. session_run demo_codec demo_events demo_begun = Some s2 \<and> map_of (se_pending s2) demo_id = Some p \<and>
     p_errc p = Some None \<and> w_sent (gw_out (p_w p)) = Some (200, demo_header) \<and> w_body (gw_out (p_w p)) = ''hello''"
proof -
  have fr: "frames_for demo_codec demo_id demo_events =
      [(type_http_res_head, ''h''), (type_http_res_body, encode_body demo_id ''hello''), (type_http_res_end, ''e'')]"
    by (simp add: demo_events_def frame_id_def demo_codec_def decode_encode_body demo_id_def
        type_ping_def type_http_res_head_def type_http_res_body_def type_http_res_end_def)
  have sp: "list_all (spares demo_id) demo_events" by (simp add: demo_events_def spares_def)
  have hd: "c_out (handle_http demo_codec (\<lambda>_ _. True) demo_handler (proxied demo_proxied demo_id []) demo_link) =
      c_out demo_link @ frames_for demo_codec demo_id demo_events"
    by (simp only: demo_handled fr) (simp add: demo_link_def)
  obtain s2 where s2: "session_run demo_codec demo_events demo_begun = Some s2"
    using demo_session by blast
  have "\<exists>p. map_of (se_pending s2) demo_id = Some p \<and> p_errc p = Some None \<and>
    w_sent (gw_out (p_w p)) = Some (200, strip_hop demo_header) \<and> w_body (gw_out (p_w p)) =
      w_body \<lparr>w_header = demo_header, w_sent = Some (200, demo_header), w_info = [], w_body = ''hello''\<rparr>"
    by (rule tunnel_transparent [where handler = demo_handler and b = "[]" and new_request = "\<lambda>_ _. True" and code = 200 and h = demo_header and link = demo_link,
          OF demo_begin _ _ _ _ demo_run _ _ _ _ _ _ s2 sp])
      (rule demo_decodes hd | simp add: demo_proxied_def demo_handler_def final_codes_def head_fits_def head_frame_def
        demo_codec_def max_frame_def up_def demo_link_def)+
  with s2 show ?thesis by (simp add: demo_header_facts)
qed

text \<open>
  A session never has more than 32 requests in flight, each under its own id, whatever events it
  handles.
\<close>

theorem pending_bounded:
  assumes "session_run cd es (new_session u c) = Some s"
  shows "length (se_pending s) \<le> 32 \<and> distinct (map fst (se_pending s))"
  using session_run_ok [OF _ assms] by (simp add: session_ok_def new_session_def max_pending_def)

theorem pending_bounded_witness:
  "length (se_pending (new_session ''a'' demo_link)) \<le> 32 \<and> distinct (map fst (se_pending (new_session ''a'' demo_link)))"
  by (rule pending_bounded [where es = "[]"]) simp

text \<open>
  A connected node can end the gateway process. A response header whose status is neither 0 nor a
  three-digit code makes \<open>WriteHeader\<close> panic in the goroutine of the session, where nothing
  recovers it.
\<close>

theorem bad_status_ends_gateway:
  assumes "dec_head cd payload = Some head" "map_of (se_pending s) (hd_id head) = Some p"
    and "w_sent (gw_out (p_w p)) = None" "hd_status head < 0 \<or> 0 < hd_status head \<and> hd_status head < 100 \<or> 999 < hd_status head"
  shows "session_step cd (Se_Frame (type_http_res_head, payload)) s = None"
  using assms
  by (auto simp: session_step_def session_frame_def on_head_def with_pending_def pend_head_def Let_def
      gw_write_header_def write_header_bad)

theorem bad_status_ends_gateway_witness:
  "session_step (demo_codec\<lparr>dec_head := (\<lambda>_. Some \<lparr>hd_id = ''x'', hd_status = 42, hd_header = Map.empty\<rparr>)\<rparr>)
     (Se_Frame (type_http_res_head, [])) (set_pending ''x'' (fresh_request None) (new_session ''a'' demo_link)) = None"
  by (rule bad_status_ends_gateway [where p = "fresh_request None"
      and head = "\<lparr>hd_id = ''x'', hd_status = 42, hd_header = Map.empty\<rparr>"])
    (simp_all add: demo_codec_def fresh_request_def new_writer_def)

end
