(* ===== verification/Activity_Streams.thy ===== *)
theory Activity_Streams
  imports File_Types Json
begin

text \<open>
  \<open>internal/activitystreams\<close>: the URLs of the local actor and the ActivityStreams documents the node
  publishes, as JSON values. A field with \<open>omitempty\<close> is absent when its value is empty.
\<close>

section \<open>URLs\<close>

record paths =
  pt_base :: string
  pt_user :: string

definition new_paths :: "string \<Rightarrow> string \<Rightarrow> paths" where
  "new_paths base username =
     \<lparr>pt_base = trim_right_set {CHR ''/''} (trim_space base), pt_user = to_lower (trim_space username)\<rparr>"

definition actor_url :: "paths \<Rightarrow> string" where "actor_url p = pt_base p @ ''/users/'' @ pt_user p"
definition inbox_url :: "paths \<Rightarrow> string" where "inbox_url p = actor_url p @ ''/inbox''"
definition outbox_url :: "paths \<Rightarrow> string" where "outbox_url p = actor_url p @ ''/outbox''"
definition followers_url :: "paths \<Rightarrow> string" where "followers_url p = actor_url p @ ''/followers''"
definition following_url :: "paths \<Rightarrow> string" where "following_url p = actor_url p @ ''/following''"
definition file_url :: "paths \<Rightarrow> string \<Rightarrow> string" where "file_url p i = actor_url p @ ''/files/'' @ i"
definition download_url :: "paths \<Rightarrow> string \<Rightarrow> string" where "download_url p i = actor_url p @ ''/download/'' @ i"
definition activity_url :: "paths \<Rightarrow> string \<Rightarrow> string" where "activity_url p i = actor_url p @ ''/activities/'' @ i"
definition note_url :: "paths \<Rightarrow> string \<Rightarrow> string" where "note_url p i = actor_url p @ ''/notes/'' @ i"
definition page_url :: "string \<Rightarrow> nat \<Rightarrow> string" where "page_url u n = u @ ''?page='' @ itoa n"
definition outbox_page :: "paths \<Rightarrow> nat \<Rightarrow> string" where "outbox_page p n = page_url (outbox_url p) n"
definition key_id :: "paths \<Rightarrow> string" where "key_id p = actor_url p @ ''#main-key''"
definition acct_of :: "paths \<Rightarrow> string \<Rightarrow> string" where "acct_of p host = ''acct:'' @ pt_user p @ ''@'' @ host"

section \<open>HTML\<close>

text \<open>\<open>html.EscapeString\<close>.\<close>

definition escape_char :: "char \<Rightarrow> string" where
  "escape_char c =
     (if c = CHR ''<'' then ''&lt;'' else if c = CHR ''>'' then ''&gt;'' else if c = CHR ''&'' then ''&amp;''
      else if c = CHR 0x27 then ''&#39;'' else if c = CHR 0x22 then ''&#34;'' else [c])"

definition html_escape :: "string \<Rightarrow> string" where
  "html_escape s = concat (map escape_char s)"

section \<open>Sizes\<close>

text \<open>
  \<open>%.1f\<close> prints the nearest tenth, ties to even; \<open>float64(n)\<close> keeps 53 significant bits, ties to
  even. The divisions by 1024 are exact.
\<close>

definition round_half_even :: "int \<Rightarrow> int \<Rightarrow> int" where
  "round_half_even a b =
     (let q = a div b; r = a mod b in
      if 2 * r < b then q else if 2 * r > b then q + 1 else if even q then q else q + 1)"

fun bit_length :: "nat \<Rightarrow> int \<Rightarrow> nat" where
  "bit_length 0 n = 0"
| "bit_length (Suc k) n = (if n \<le> 0 then 0 else Suc (bit_length k (n div 2)))"

definition to_float64 :: "int \<Rightarrow> int" where
  "to_float64 n =
     (let extra = bit_length 64 n - 53; unit = 2 ^ extra in round_half_even n unit * unit)"

fun show_size :: "int \<Rightarrow> int \<Rightarrow> string list \<Rightarrow> string" where
  "show_size v d [] = (let t = round_half_even (10 * v) d in itoa (nat (t div 10)) @ ''.'' @ itoa (nat (t mod 10)) @ '' PB'')"
| "show_size v d (u # us) =
     (if v < 1024 * d
      then (let t = round_half_even (10 * v) d in itoa (nat (t div 10)) @ ''.'' @ itoa (nat (t mod 10)) @ '' '' @ u)
      else show_size v (1024 * d) us)"

definition format_size :: "int \<Rightarrow> string" where
  "format_size n =
     (if n < 1024 then (if n < 0 then ''-'' @ itoa (nat (- n)) else itoa (nat n)) @ '' B''
      else show_size (to_float64 n) 1024 [''KB'', ''MB'', ''GB'', ''TB''])"

section \<open>Documents\<close>

definition ap_context :: string where "ap_context = ''https://www.w3.org/ns/activitystreams''"
definition security_context :: string where "security_context = ''https://w3id.org/security/v1''"
definition public_audience :: string where "public_audience = ''https://www.w3.org/ns/activitystreams#Public''"

text \<open>\<open>Format(time.RFC3339)\<close> and \<open>"2006-01-02T15:04:05Z"\<close> of a UTC time.\<close>

type_synonym time_format = "time \<Rightarrow> string"

definition opt_field :: "bool \<Rightarrow> string \<Rightarrow> json \<Rightarrow> (string \<times> json) list" where
  "opt_field b k v = (if b then [(k, v)] else [])"

definition document_fields :: "time_format \<Rightarrow> string \<Rightarrow> string \<Rightarrow> string \<Rightarrow> string \<Rightarrow> file_rec \<Rightarrow> (string \<times> json) list" where
  "document_fields fmt i name media url r =
     [(''id'', JStr i), (''type'', JStr ''Document''), (''name'', JStr name), (''mediaType'', JStr media),
      (''url'', JStr url)] @
     opt_field (size_bytes r > 0) ''fedishare:size'' (JNum (size_bytes r)) @
     opt_field (digest (hash_id r) \<noteq> []) ''fedishare:hash'' (JStr (urn (hash_id r))) @
     opt_field (digest (hash_id r) \<noteq> []) ''fedishare:hashAlgorithm'' (JStr (algorithm (hash_id r))) @
     [(''fedishare:available'', JBool (available r))] @
     opt_field (filename r \<noteq> []) ''fedishare:filename'' (JStr (filename r)) @
     opt_field (indexed_at r \<noteq> zero_time) ''published'' (JStr (fmt (indexed_at r)))"

definition file_document :: "time_format \<Rightarrow> string \<Rightarrow> string \<Rightarrow> string \<Rightarrow> string \<Rightarrow> file_rec \<Rightarrow> json" where
  "file_document fmt i name media url r =
     JObj (document_fields fmt i name media url r @ [(''@context'', JStr ap_context)])"

definition page_sign :: string where "page_sign = [CHR 0xF0, CHR 0x9F, CHR 0x93, CHR 0x84]"
definition middle_dot :: string where "middle_dot = [CHR 0xC2, CHR 0xB7]"

definition note_content :: "string \<Rightarrow> string \<Rightarrow> int \<Rightarrow> string \<Rightarrow> string" where
  "note_content name media sz url =
     (let m = (if media = [] then ''file'' else media) in
      ''<p>'' @ page_sign @ '' '' @ html_escape name @ ''<br>'' @ html_escape m @ '' '' @ middle_dot @ '' '' @
      format_size sz @ ''</p><p>Download:<br><a href='' @ [CHR 0x22] @ html_escape url @ [CHR 0x22] @
      '' rel='' @ [CHR 0x22] @ ''nofollow noopener noreferrer'' @ [CHR 0x22] @ ''>'' @ html_escape url @ ''</a></p>'')"

definition note_content_plain :: "string \<Rightarrow> string \<Rightarrow> int \<Rightarrow> string \<Rightarrow> string" where
  "note_content_plain name media sz url =
     (let m = (if media = [] then ''file'' else media); nl = [CHR 0x0A] in
      page_sign @ '' '' @ name @ nl @ m @ '' '' @ middle_dot @ '' '' @ format_size sz @ nl @ nl @ ''Download:'' @ nl @ url)"

definition published_at :: "time \<Rightarrow> file_rec \<Rightarrow> time" where
  "published_at now r = (if indexed_at r = zero_time then now else indexed_at r)"

definition file_note_fields :: "time_format \<Rightarrow> time \<Rightarrow> paths \<Rightarrow> file_rec \<Rightarrow> (string \<times> json) list" where
  "file_note_fields fmt now p r =
     (let url = download_url p (rec_id r) in
      [(''id'', JStr (note_url p (rec_id r))), (''type'', JStr ''Note''), (''attributedTo'', JStr (actor_url p)),
       (''content'', JStr (note_content (filename r) (mime_type r) (size_bytes r) url)),
       (''mediaType'', JStr ''text/html''),
       (''source'', JObj [(''content'', JStr (note_content_plain (filename r) (mime_type r) (size_bytes r) url)),
                         (''mediaType'', JStr ''text/plain'')]),
       (''url'', JStr (note_url p (rec_id r))), (''published'', JStr (fmt (published_at now r))),
       (''to'', JArr [JStr public_audience]), (''cc'', JArr [JStr (followers_url p)]),
       (''attachment'', JArr [JObj (document_fields fmt (file_url p (rec_id r)) (filename r) (mime_type r) url r)])] @
      opt_field (filename r \<noteq> []) ''name'' (JStr (filename r)))"

definition file_note :: "time_format \<Rightarrow> time \<Rightarrow> paths \<Rightarrow> file_rec \<Rightarrow> json" where
  "file_note fmt now p r = JObj (file_note_fields fmt now p r @ [(''@context'', JStr ap_context)])"

definition create_fields :: "time_format \<Rightarrow> time \<Rightarrow> paths \<Rightarrow> file_rec \<Rightarrow> (string \<times> json) list" where
  "create_fields fmt now p r =
     [(''@context'', JStr ap_context), (''id'', JStr (activity_url p (rec_id r))), (''type'', JStr ''Create''),
      (''actor'', JStr (actor_url p)), (''published'', JStr (fmt (published_at now r))),
      (''to'', JArr [JStr public_audience]), (''cc'', JArr [JStr (followers_url p)]),
      (''object'', JObj (file_note_fields fmt now p r))]"

definition file_create :: "time_format \<Rightarrow> time \<Rightarrow> paths \<Rightarrow> file_rec \<Rightarrow> json" where
  "file_create fmt now p r = JObj (create_fields fmt now p r)"

text \<open>Assigning to a key of a Go map.\<close>

definition set_field :: "string \<Rightarrow> json \<Rightarrow> (string \<times> json) list \<Rightarrow> (string \<times> json) list" where
  "set_field k v m = filter (\<lambda>(j, _). j \<noteq> k) m @ [(k, v)]"

definition file_update :: "time_format \<Rightarrow> time \<Rightarrow> paths \<Rightarrow> file_rec \<Rightarrow> string \<Rightarrow> json" where
  "file_update fmt now p r i =
     JObj (set_field ''type'' (JStr ''Update'') (set_field ''id'' (JStr i) (create_fields fmt now p r)))"

definition file_delete :: "time_format \<Rightarrow> time \<Rightarrow> paths \<Rightarrow> file_rec \<Rightarrow> string \<Rightarrow> json" where
  "file_delete fmt now p r i =
     JObj [(''@context'', JStr ap_context), (''id'', JStr i), (''type'', JStr ''Delete''),
       (''actor'', JStr (actor_url p)), (''published'', JStr (fmt now)),
       (''to'', JArr [JStr public_audience]), (''cc'', JArr [JStr (followers_url p)]),
       (''object'', JObj [(''id'', JStr (note_url p (rec_id r))), (''type'', JStr ''Tombstone''),
                         (''formerType'', JStr ''Note'')])]"

definition accept_follow :: "time_format \<Rightarrow> time \<Rightarrow> paths \<Rightarrow> string \<Rightarrow> string \<Rightarrow> string \<Rightarrow> json" where
  "accept_follow fmt now p accept_id follow_id follower =
     JObj [(''@context'', JStr ap_context), (''id'', JStr accept_id), (''type'', JStr ''Accept''),
       (''actor'', JStr (actor_url p)), (''published'', JStr (fmt now)), (''to'', JArr [JStr follower]),
       (''object'', JObj [(''id'', JStr follow_id), (''type'', JStr ''Follow''), (''actor'', JStr follower),
                         (''object'', JStr (actor_url p))])]"

section \<open>Collections\<close>

definition default_page_size :: int where "default_page_size = 20"

definition page_count :: "nat \<Rightarrow> nat \<Rightarrow> nat" where
  "page_count tot sz = (tot + sz - 1) div sz"

definition collection :: "string \<Rightarrow> nat \<Rightarrow> int \<Rightarrow> json" where
  "collection i tot page_size =
     (let sz = nat (if page_size \<le> 0 then default_page_size else page_size);
          pages = page_count tot sz in
      JObj ([(''@context'', JStr ap_context), (''id'', JStr i), (''type'', JStr ''OrderedCollection''),
             (''totalItems'', JNum (int tot))] @
        opt_field (tot > 0) ''first'' (JStr (page_url i 1)) @
        opt_field (tot > 0) ''last'' (JStr (page_url i (if pages > 1 then pages else 1)))))"

definition collection_page :: "string \<Rightarrow> string \<Rightarrow> string \<Rightarrow> string \<Rightarrow> json list \<Rightarrow> json" where
  "collection_page i part_of nxt prv items =
     JObj ([(''@context'', JStr ap_context), (''id'', JStr i), (''type'', JStr ''OrderedCollectionPage''),
            (''partOf'', JStr part_of)] @
       opt_field (nxt \<noteq> []) ''next'' (JStr nxt) @ opt_field (prv \<noteq> []) ''prev'' (JStr prv) @
       [(''orderedItems'', JArr items)])"

section \<open>The actor\<close>

definition web_field_name :: string where "web_field_name = ''My Web''"
definition brand_field_name :: string where "brand_field_name = ''Fedishare''"
definition brand_field_url :: string where "brand_field_url = ''https://github.com/insicd/fedishare''"

definition link_attachment :: "string \<Rightarrow> string \<Rightarrow> json" where
  "link_attachment name raw =
     (let safe = html_escape raw; q = [CHR 0x22] in
      JObj [(''type'', JStr ''PropertyValue''), (''name'', JStr name),
        (''value'', JStr (''<a href='' @ q @ safe @ q @ '' rel='' @ q @ ''me nofollow noopener noreferrer'' @ q @
           '' target='' @ q @ ''_blank'' @ q @ ''>'' @ safe @ ''</a>''))])"

definition web_attachment :: "string \<Rightarrow> json" where "web_attachment url = link_attachment web_field_name url"
definition brand_attachment :: json where "brand_attachment = link_attachment brand_field_name brand_field_url"

definition actor_context :: json where
  "actor_context = JArr [JStr ap_context, JStr security_context,
     JObj [(''schema'', JStr ''http://schema.org#''), (''PropertyValue'', JStr ''schema:PropertyValue''),
           (''value'', JStr ''schema:value'')]]"

definition person :: "paths \<Rightarrow> string \<Rightarrow> string \<Rightarrow> string \<Rightarrow> json" where
  "person p display smry pem =
     JObj ([(''@context'', actor_context), (''id'', JStr (actor_url p)), (''type'', JStr ''Person''),
            (''preferredUsername'', JStr (pt_user p))] @
       opt_field (display \<noteq> []) ''name'' (JStr display) @ opt_field (smry \<noteq> []) ''summary'' (JStr smry) @
       [(''inbox'', JStr (inbox_url p)), (''outbox'', JStr (outbox_url p)),
        (''followers'', JStr (followers_url p)), (''following'', JStr (following_url p)),
        (''url'', JStr (actor_url p)),
        (''attachment'', JArr [web_attachment (actor_url p), brand_attachment]),
        (''publicKey'', JObj [(''id'', JStr (key_id p)), (''owner'', JStr (actor_url p)), (''publicKeyPem'', JStr pem)]),
        (''manuallyApprovesFollowers'', JBool False), (''discoverable'', JBool True)])"

section \<open>Escaping\<close>

definition markup :: "char \<Rightarrow> bool" where
  "markup c \<longleftrightarrow> c = CHR ''<'' \<or> c = CHR ''>'' \<or> c = CHR 0x22 \<or> c = CHR 0x27"

lemma escape_char_safe: "\<not> list_ex markup (escape_char c)"
  by (simp add: escape_char_def markup_def)

lemma html_escape_safe: "filter markup (html_escape s) = []"
proof -
  have "filter markup (escape_char c) = []" for c
    using escape_char_safe [of c] by (simp add: filter_empty_conv list_ex_iff)
  then show ?thesis by (simp add: html_escape_def filter_concat o_def)
qed

lemma itoa_digits: "list_all is_digit (itoa n)"
proof (induction n rule: itoa.induct)
  case (1 n)
  have d: "is_digit (char_of (48 + m))" if "m < 10" for m :: nat
    using that by (simp add: is_digit_def)
  show ?case
  proof (cases "n < 10")
    case True
    then show ?thesis using d [of n] by (subst itoa.simps) simp
  next
    case False
    with 1 d [of "n mod 10"] show ?thesis by (subst itoa.simps) simp
  qed
qed

lemma markup_byte: "markup c \<longleftrightarrow> byte c \<in> {60, 62, 34, 39}"
proof -
  have b: "byte (CHR ''<'') = 60" "byte (CHR ''>'') = 62" "byte (CHR 0x22) = 34" "byte (CHR 0x27) = 39"
    by (simp_all add: byte_def)
  have e: "c = d \<longleftrightarrow> byte c = byte d" for d by simp
  show ?thesis
    unfolding markup_def e [of "CHR ''<''"] e [of "CHR ''>''"] e [of "CHR 0x22"] e [of "CHR 0x27"] b by simp
qed

lemma filter_markup_itoa: "filter markup (itoa n) = []"
proof -
  have d: "\<not> markup c" if "is_digit c" for c
    using that unfolding markup_byte is_digit_def by auto
  have "\<forall>c \<in> set (itoa n). \<not> markup c"
    using itoa_digits [of n] d by (simp add: list_all_iff)
  then show ?thesis by (rule filter_False)
qed

lemma filter_markup_show: "list_all (\<lambda>u. filter markup u = []) us \<Longrightarrow> filter markup (show_size v d us) = []"
  by (induction v d us rule: show_size.induct) (simp_all add: filter_markup_itoa Let_def markup_def)

lemma filter_markup_size: "filter markup (format_size n) = []"
proof -
  have "filter markup (show_size (to_float64 n) 1024 [''KB'', ''MB'', ''GB'', ''TB'']) = []"
    by (rule filter_markup_show) (simp add: markup_def)
  then show ?thesis by (simp add: format_size_def filter_markup_itoa markup_def)
qed

section \<open>Properties\<close>

text \<open>
  Nothing in a file's name, type, size or URL can add markup to the published note: the angle
  brackets and quotes of the HTML content are those of the template, whatever the inputs.
\<close>

theorem note_content_no_injection:
  "filter markup (note_content name media sz url) = filter markup (note_content [] [] 0 [])"
  by (simp add: note_content_def Let_def html_escape_safe filter_markup_size page_sign_def middle_dot_def markup_def
      del: filter_filter)

end
