(* ===== verification/Activity_Html.thy ===== *)
theory Activity_Html
  imports Activity_Streams Http_Writer
begin

text \<open>
  \<open>internal/activitypub/html.go\<close> and \<open>negotiate.go\<close>: which callers get a page, the data of the profile
  and note pages, and the page for a node that is not reachable. The template files are rendered by
  \<open>html/template\<close>; \<open>render\<close> is their effect on the data (\<open>None\<close> is an execution error), \<open>parse\<close> the
  JSON text level.
\<close>

section \<open>Content negotiation\<close>

definition wants_html :: "header \<Rightarrow> bool" where
  "wants_html h =
     (let accept = to_lower (header_get ''Accept'' h) in
      if contains accept ''application/activity+json'' \<or> contains accept ''application/ld+json'' then False
      else if equal_fold (header_get ''Sec-Fetch-Dest'' h) ''document'' then True
      else if accept = [] then False
      else contains accept ''text/html'')"

section \<open>Page data\<close>

record file_link =
  fl_name :: string
  fl_path :: string
  fl_mime :: string
  fl_size :: string
  fl_note :: string
  fl_download :: string

record profile_page =
  pg_title :: string
  pg_display :: string
  pg_acct :: string
  pg_summary :: string
  pg_web_name :: string
  pg_web_url :: string
  pg_brand_name :: string
  pg_brand_url :: string
  pg_json_url :: string
  pg_share_api :: string
  pg_files :: "file_link list"
  pg_total :: int
  pg_size :: int
  pg_offline :: bool
  pg_unreachable :: bool

record note_page =
  np_title :: string
  np_display :: string
  np_profile :: string
  np_name :: string
  np_mime :: string
  np_size :: string
  np_download :: string
  np_json :: string

datatype html_page = Profile profile_page | Note_Html note_page

definition html_page_size :: int where "html_page_size = 25"

definition title_suffix :: string where "title_suffix = '' '' @ middle_dot @ '' FediShare''"

definition display_mime :: "string \<Rightarrow> string" where
  "display_mime s0 =
     (let s = trim_space s0;
          s1 = (case cut (CHR '';'') s of (a, _, found) \<Rightarrow> if found then trim_space a else s) in
      if s1 = [] then ''file'' else s1)"

definition host_from_actor_id :: "string \<Rightarrow> string" where
  "host_from_actor_id i =
     fst (cut (CHR ''/'') (trim_prefix (trim_prefix (trim_space i) ''https://'') ''http://''))"

definition file_links :: "paths \<Rightarrow> file_rec list \<Rightarrow> file_link list" where
  "file_links p rs = map (\<lambda>r.
     \<lparr>fl_name = (if filename r = [] then rec_id r else filename r), fl_path = relative_path r,
      fl_mime = display_mime (mime_type r), fl_size = format_size (size_bytes r),
      fl_note = note_url p (rec_id r), fl_download = download_url p (rec_id r)\<rparr>) rs"

text \<open>The string fields \<open>json.Unmarshal\<close> fills before it meets an error; its result is ignored.\<close>

definition actor_field :: "(string \<Rightarrow> json option) \<Rightarrow> string \<Rightarrow> string \<Rightarrow> string" where
  "actor_field parse raw name =
     (case parse raw of
        Some (JObj m) \<Rightarrow>
          (case find (\<lambda>(k, v). equal_fold k name \<and> (case v of JStr _ \<Rightarrow> True | _ \<Rightarrow> False)) (rev m) of
             Some (_, JStr s) \<Rightarrow> s | _ \<Rightarrow> [])
      | _ \<Rightarrow> [])"

definition page_from_actor :: "(string \<Rightarrow> json option) \<Rightarrow> string \<Rightarrow> profile_page" where
  "page_from_actor parse raw =
     (let pref = actor_field parse raw ''preferredUsername'';
          name = trim_space (actor_field parse raw ''name'');
          i = actor_field parse raw ''id'';
          d0 = (if name = [] then pref else name);
          display = (if d0 = [] then ''FediShare'' else d0);
          host = host_from_actor_id i;
          acct = (if pref \<noteq> [] then ''@'' @ pref @ (if host \<noteq> [] then ''@'' @ host else []) else []);
          url = trim_space i in
      \<lparr>pg_title = display @ title_suffix, pg_display = display, pg_acct = acct,
       pg_summary = actor_field parse raw ''summary'', pg_web_name = web_field_name, pg_web_url = url,
       pg_brand_name = brand_field_name, pg_brand_url = brand_field_url, pg_json_url = url,
       pg_share_api = [], pg_files = [], pg_total = 0, pg_size = 0, pg_offline = False, pg_unreachable = False\<rparr>)"

definition unreachable_message :: string where
  "unreachable_message =
     ''This profile is not reachable right now. The owner'' @ [CHR 0xE2, CHR 0x80, CHR 0x99] @
     ''s FediShare app is offline.''"

definition unreachable_page :: "(string \<Rightarrow> json option) \<Rightarrow> string \<Rightarrow> string \<Rightarrow> profile_page" where
  "unreachable_page parse raw message =
     (let msg = (if trim_space message = [] then unreachable_message else message);
          page = \<lparr>pg_title = ''Profile unavailable'' @ title_suffix, pg_display = ''FediShare'', pg_acct = [],
            pg_summary = msg, pg_web_name = [], pg_web_url = [], pg_brand_name = brand_field_name,
            pg_brand_url = brand_field_url, pg_json_url = [], pg_share_api = [], pg_files = [], pg_total = 0,
            pg_size = 0, pg_offline = True, pg_unreachable = True\<rparr> in
      if trim_space raw = [] then page
      else let from = page_from_actor parse raw;
               page1 = (if pg_display from \<noteq> []
                        then page\<lparr>pg_display := pg_display from, pg_title := pg_display from @ title_suffix\<rparr> else page) in
        page1\<lparr>pg_acct := pg_acct from, pg_json_url := pg_json_url from, pg_web_name := pg_web_name from,
              pg_web_url := pg_web_url from, pg_brand_name := pg_brand_name from, pg_brand_url := pg_brand_url from\<rparr>)"

section \<open>Writing pages\<close>

definition sq :: "string \<Rightarrow> string" where "sq s = [CHR 0x27] @ s @ [CHR 0x27]"

definition csp_public :: string where
  "csp_public =
     ''default-src '' @ sq ''none'' @ ''; style-src '' @ sq ''unsafe-inline'' @ ''; script-src '' @ sq ''unsafe-inline'' @
     ''; img-src '' @ sq ''self'' @ '' data:; connect-src '' @ sq ''self'' @ ''; form-action '' @ sq ''none'' @
     ''; frame-ancestors '' @ sq ''none''"

definition page_json_url :: "html_page \<Rightarrow> string" where
  "page_json_url p = (case p of Profile pg \<Rightarrow> pg_json_url pg | Note_Html np \<Rightarrow> np_json np)"

definition or_keep :: "writer \<Rightarrow> writer option \<Rightarrow> writer" where
  "or_keep w r = (case r of None \<Rightarrow> w | Some w' \<Rightarrow> w')"

definition write_public_html :: "(html_page \<Rightarrow> string option) \<Rightarrow> html_page \<Rightarrow> writer \<Rightarrow> writer" where
  "write_public_html render p w =
     (let w1 = set_header ''Content-Security-Policy'' csp_public (set_header ''Vary'' ''Accept''
            (set_header ''Content-Type'' ''text/html; charset=utf-8'' w));
          w2 = (if page_json_url p \<noteq> []
                then set_header ''Link'' (''<'' @ page_json_url p @ ''>; rel='' @ [CHR 0x22] @ ''alternate'' @ [CHR 0x22] @
                       ''; type='' @ [CHR 0x22] @ ''application/activity+json'' @ [CHR 0x22]) w1
                else w1) in
      case render p of
        None \<Rightarrow> writer_error ''Could not render the FediShare page.'' 500 w2
      | Some html \<Rightarrow> or_keep w2 (write_data html w2))"

definition write_unreachable ::
  "(html_page \<Rightarrow> string option) \<Rightarrow> (string \<Rightarrow> json option) \<Rightarrow> string \<Rightarrow> string \<Rightarrow> writer \<Rightarrow> writer" where
  "write_unreachable render parse raw message w =
     write_public_html render (Profile (unreachable_page parse raw message)) w"

definition note_page_of :: "paths \<Rightarrow> string \<Rightarrow> string \<Rightarrow> file_rec \<Rightarrow> note_page" where
  "note_page_of p display0 user r =
     (let d = trim_space display0; display = (if d = [] then user else d);
          name = (if filename r = [] then ''Shared file'' else filename r) in
      \<lparr>np_title = name @ title_suffix, np_display = display, np_profile = actor_url p, np_name = name,
       np_mime = display_mime (mime_type r), np_size = format_size (size_bytes r),
       np_download = download_url p (rec_id r), np_json = note_url p (rec_id r)\<rparr>)"

text \<open>\<open>writeProfile\<close>: \<open>found\<close> is the result of the first page of the public files.\<close>

definition profile_page_of ::
  "paths \<Rightarrow> string \<Rightarrow> string \<Rightarrow> string \<Rightarrow> string \<Rightarrow> (file_rec list \<times> int) option \<Rightarrow> profile_page" where
  "profile_page_of p display0 user host smry found =
     (let d = trim_space display0; display = (if d = [] then user else d) in
      \<lparr>pg_title = display @ title_suffix, pg_display = display,
       pg_acct = ''@'' @ user @ (if host \<noteq> [] then ''@'' @ host else []), pg_summary = smry,
       pg_web_name = web_field_name, pg_web_url = actor_url p, pg_brand_name = brand_field_name,
       pg_brand_url = brand_field_url, pg_json_url = actor_url p, pg_share_api = ''/users/'' @ user @ ''/share'',
       pg_files = (case found of None \<Rightarrow> [] | Some (rs, _) \<Rightarrow> file_links p rs),
       pg_total = (case found of None \<Rightarrow> 0 | Some (_, n) \<Rightarrow> n), pg_size = html_page_size,
       pg_offline = False, pg_unreachable = False\<rparr>)"

text \<open>The page for an unreachable node answers 200 whatever the cache holds, if the template renders.\<close>

lemma write_unreachable_ok:
  assumes "w_sent w = None" "render (Profile (unreachable_page parse raw m)) = Some html"
  shows "\<exists>h. w_sent (write_unreachable render parse raw m w) = Some (200, h) \<and>
    w_body (write_unreachable render parse raw m w) = w_body w @ html"
  using assms
  by (auto simp: write_unreachable_def write_public_html_def Let_def set_header_def write_data_fresh or_keep_def)

end
