(* ===== verification/Activity_Handler.thy ===== *)
theory Activity_Handler
  imports Activity_Html Serve
begin

text \<open>
  \<open>internal/activitypub/handler.go\<close>, \<open>webfinger.go\<close> and \<open>source.go\<close>: the discovery and collection
  endpoints of the local actor. \<open>ap_source\<close> is the interface \<open>Source\<close> (with the part of \<open>Social\<close> the
  handlers use) as a record of functions, \<open>ap_env\<close> the packages they call: the JSON encoder, the
  templates, the URL parser. Offsets are computed in 64 bits.
\<close>

section \<open>The source and the request\<close>

datatype inbox_error = Inbox_Unauthorized | Inbox_Replay | Inbox_Forbidden | Inbox_Invalid

record ap_source =
  src_configured :: bool
  src_username :: string
  src_display :: string
  src_summary :: string
  src_pem :: "string option"
  src_base :: string
  src_acct_host :: string
  src_list :: "int \<Rightarrow> int \<Rightarrow> (file_rec list \<times> int) option"
  src_search :: "string \<Rightarrow> int \<Rightarrow> int \<Rightarrow> (file_rec list \<times> int) option"
  src_get :: "string \<Rightarrow> file_rec option"
  src_social :: bool
  src_followers :: "int \<Rightarrow> int \<Rightarrow> (string list \<times> int) option"
  src_following :: "int \<Rightarrow> int \<Rightarrow> (string list \<times> int) option"
  src_inbox :: "string \<Rightarrow> inbox_error option"

record ap_env =
  ap_encode :: "json \<Rightarrow> string"
  ap_render :: "html_page \<Rightarrow> string option"
  ap_url :: url_parser
  ap_now :: time
  ap_fmt :: time_format

record ap_request =
  ar_user :: string
  ar_id :: string
  ar_query :: "string \<Rightarrow> string"
  ar_header :: header
  ar_host :: string
  ar_body :: "string option"

definition content_type_activity :: string where
  "content_type_activity = ''application/activity+json; charset=utf-8''"

definition content_type_jrd :: string where
  "content_type_jrd = ''application/jrd+json; charset=utf-8''"

definition max_resource_len :: nat where "max_resource_len = 512"
definition ap_page_size :: int where "ap_page_size = 20"

definition src_paths :: "ap_source \<Rightarrow> paths" where
  "src_paths src = new_paths (src_base src) (src_username src)"

definition match_user :: "ap_source \<Rightarrow> string \<Rightarrow> bool" where
  "match_user src u \<longleftrightarrow> src_configured src \<and> src_username src \<noteq> [] \<and> equal_fold u (src_username src)"

text \<open>The encoder ends every document with a newline.\<close>

definition write_json :: "ap_env \<Rightarrow> string \<Rightarrow> int \<Rightarrow> json \<Rightarrow> writer \<Rightarrow> writer" where
  "write_json env ct code v w =
     (let w1 = set_header ''Content-Type'' ct w; w2 = or_keep w1 (write_header code w1) in
      or_keep w2 (write_data (ap_encode env v @ [CHR 0x0A]) w2))"

definition write_activity :: "ap_env \<Rightarrow> int \<Rightarrow> json \<Rightarrow> writer \<Rightarrow> writer" where
  "write_activity env code v w = write_json env content_type_activity code v w"

definition write_jrd :: "ap_env \<Rightarrow> int \<Rightarrow> json \<Rightarrow> writer \<Rightarrow> writer" where
  "write_jrd env code v w = write_json env content_type_jrd code v w"

definition protect_user :: "ap_source \<Rightarrow> (ap_request \<Rightarrow> writer \<Rightarrow> writer) \<Rightarrow> ap_request \<Rightarrow> writer \<Rightarrow> writer" where
  "protect_user src nxt r w = (if \<not> match_user src (ar_user r) then not_found w else nxt r w)"

section \<open>WebFinger\<close>

record resource =
  rs_user :: string
  rs_host :: string
  rs_actor :: string

definition normalize_host :: "string \<Rightarrow> string" where
  "normalize_host host0 =
     (let br = {CHR ''['', CHR '']''}; h = trim_set br (trim_space host0);
          h1 = (case split_host_port h of Some (a, _) \<Rightarrow> a | None \<Rightarrow> h) in
      to_lower (trim_set br h1))"

definition parse_resource :: "url_parser \<Rightarrow> string \<Rightarrow> resource option" where
  "parse_resource url raw0 =
     (let raw = trim_space raw0; lower = to_lower raw in
      if raw = [] \<or> length raw > max_resource_len then None
      else if list_ex (\<lambda>c. c \<in> {CHR '' '', CHR 0x09, CHR 0x0D, CHR 0x0A}) raw then None
      else if has_prefix lower ''acct:'' then
        (case cut (CHR ''@'') (drop 5 raw) of (user, host0, ok) \<Rightarrow>
           if \<not> ok \<or> user = [] \<or> host0 = [] then None
           else let host = normalize_host host0 in
             if host = [] \<or> contains user ''/'' then None
             else Some \<lparr>rs_user = to_lower user, rs_host = host, rs_actor = []\<rparr>)
      else if has_prefix lower ''http://'' \<or> has_prefix lower ''https://'' then
        (case url raw of
           None \<Rightarrow> None
         | Some u \<Rightarrow>
             if u_host u = [] \<or> (u_scheme u \<noteq> ''http'' \<and> u_scheme u \<noteq> ''https'') then None
             else let path = trim_suffix (u_path u) ''/'' in
               if \<not> has_prefix path ''/users/'' then None
               else let user = trim_prefix path ''/users/'' in
                 if user = [] \<or> contains user ''/'' then None
                 else Some \<lparr>rs_user = to_lower user, rs_host = normalize_host (u_host u),
                            rs_actor = trim_suffix (u_scheme u @ ''://'' @ u_host u @ path) ''/''\<rparr>)
      else None)"

definition is_loopback_host :: "string \<Rightarrow> bool" where
  "is_loopback_host h \<longleftrightarrow> to_lower h \<in> {''localhost'', ''127.0.0.1'', ''::1''}"

text \<open>\<open>parsedResource.matches\<close>; \<open>canonical\<close> of the code is \<open>iri_key\<close>.\<close>

definition resource_matches :: "resource \<Rightarrow> string \<Rightarrow> string \<Rightarrow> string \<Rightarrow> string \<Rightarrow> bool" where
  "resource_matches p username acct_host actor req_host \<longleftrightarrow>
     equal_fold (rs_user p) username \<and>
     (if rs_actor p \<noteq> []
      then iri_key (rs_actor p) = iri_key actor \<or> is_loopback_host (rs_host p)
      else rs_host p = to_lower acct_host \<or> req_host \<noteq> [] \<and> rs_host p = to_lower req_host \<or>
           (is_loopback_host acct_host \<or> is_loopback_host req_host) \<and>
             rs_host p \<in> {''localhost'', ''127.0.0.1'', ''::1''})"

definition build_jrd :: "string \<Rightarrow> string \<Rightarrow> json" where
  "build_jrd acct actor =
     JObj [(''subject'', JStr acct), (''aliases'', JArr [JStr actor]),
       (''links'', JArr [
          JObj [(''rel'', JStr ''self''), (''type'', JStr ''application/activity+json''), (''href'', JStr actor)],
          JObj [(''rel'', JStr ''http://webfinger.net/rel/profile-page''), (''type'', JStr ''text/html''), (''href'', JStr actor)]])]"

definition web_finger :: "ap_env \<Rightarrow> ap_source \<Rightarrow> ap_request \<Rightarrow> writer \<Rightarrow> writer" where
  "web_finger env src r w =
     (case parse_resource (ap_url env) (ar_query r ''resource'') of
        None \<Rightarrow> writer_error ''invalid resource'' 400 w
      | Some p \<Rightarrow>
          if \<not> src_configured src then not_found w
          else let pt = src_paths src;
                   host = (if src_acct_host src = [] then normalize_host (ar_host r) else src_acct_host src) in
            if \<not> resource_matches p (src_username src) host (actor_url pt) (normalize_host (ar_host r)) then not_found w
            else write_jrd env 200 (build_jrd (acct_of pt host) (actor_url pt)) w)"

section \<open>Actor and collections\<close>

definition actor_handler :: "ap_env \<Rightarrow> ap_source \<Rightarrow> ap_request \<Rightarrow> writer \<Rightarrow> writer" where
  "actor_handler env src r w =
     (if \<not> match_user src (ar_user r) then not_found w
      else if wants_html (ar_header r) then
        write_public_html (ap_render env) (Profile (profile_page_of (src_paths src) (src_display src) (src_username src)
          (src_acct_host src) (src_summary src) (src_search src [] 0 html_page_size))) w
      else case src_pem src of
        None \<Rightarrow> writer_error ''identity key is not available'' 503 w
      | Some pem \<Rightarrow> write_activity env 200 (person (src_paths src) (src_display src) (src_summary src) pem) w)"

text \<open>\<open>Some None\<close> is a request without a page, \<open>None\<close> an invalid one.\<close>

definition parse_page :: "(string \<Rightarrow> string) \<Rightarrow> int option option" where
  "parse_page q =
     (let raw = trim_space (q ''page'') in
      if raw = [] then Some None
      else if raw = ''true'' then Some (Some 1)
      else case parse_int64 raw of None \<Rightarrow> None | Some n \<Rightarrow> if n < 1 then None else Some (Some n))"

text \<open>\<open>(page - 1) * limit\<close> on a 64-bit \<open>int\<close>.\<close>

definition wrap64 :: "int \<Rightarrow> int" where
  "wrap64 n = (n + 2 ^ 63) mod 2 ^ 64 - 2 ^ 63"

definition page_offset :: "int \<Rightarrow> int \<Rightarrow> int" where
  "page_offset n limit = wrap64 ((n - 1) * limit)"

definition pages_of :: "int \<Rightarrow> int \<Rightarrow> int" where
  "pages_of tot sz = (if tot > 0 then (tot + sz - 1) div sz else 0)"

definition page_links :: "string \<Rightarrow> int \<Rightarrow> int \<Rightarrow> string \<times> string" where
  "page_links base n pages =
     ((if n < pages then page_url base (nat (n + 1)) else []), (if n > 1 then page_url base (nat (n - 1)) else []))"

definition list_page :: "string \<Rightarrow> int \<Rightarrow> json list \<Rightarrow> int \<Rightarrow> json" where
  "list_page base n items tot =
     (case page_links base n (pages_of tot ap_page_size) of
        (nxt, prv) \<Rightarrow> collection_page (page_url base (nat n)) base nxt prv items)"

definition outbox_handler :: "ap_env \<Rightarrow> ap_source \<Rightarrow> ap_request \<Rightarrow> writer \<Rightarrow> writer" where
  "outbox_handler env src r w =
     (let pt = src_paths src in
      if \<not> match_user src (ar_user r) then not_found w
      else case parse_page (ar_query r) of
        None \<Rightarrow> writer_error ''invalid page'' 400 w
      | Some None \<Rightarrow>
          (case src_list src 0 1 of
             None \<Rightarrow> writer_error ''could not read the outbox'' 500 w
           | Some (_, tot) \<Rightarrow> write_activity env 200 (collection (outbox_url pt) (nat tot) ap_page_size) w)
      | Some (Some n) \<Rightarrow>
          (case src_list src (page_offset n ap_page_size) ap_page_size of
             None \<Rightarrow> writer_error ''could not read the outbox'' 500 w
           | Some (recs, tot) \<Rightarrow>
               write_activity env 200 (list_page (outbox_url pt) n
                 (map (file_create (ap_fmt env) (ap_now env) pt) recs) tot) w))"

definition iri_collection ::
  "ap_env \<Rightarrow> ap_source \<Rightarrow> string \<Rightarrow> (int \<Rightarrow> int \<Rightarrow> (string list \<times> int) option) \<Rightarrow> ap_request \<Rightarrow> writer \<Rightarrow> writer" where
  "iri_collection env src i list_fn r w =
     (if \<not> match_user src (ar_user r) then not_found w
      else case parse_page (ar_query r) of
        None \<Rightarrow> writer_error ''invalid page'' 400 w
      | Some None \<Rightarrow>
          (case list_fn 0 1 of
             None \<Rightarrow> writer_error ''could not read collection'' 500 w
           | Some (_, tot) \<Rightarrow> write_activity env 200 (collection i (nat tot) ap_page_size) w)
      | Some (Some n) \<Rightarrow>
          (case list_fn (page_offset n ap_page_size) ap_page_size of
             None \<Rightarrow> writer_error ''could not read collection'' 500 w
           | Some (iris, tot) \<Rightarrow> write_activity env 200 (list_page i n (map JStr iris) tot) w))"

definition followers_handler :: "ap_env \<Rightarrow> ap_source \<Rightarrow> ap_request \<Rightarrow> writer \<Rightarrow> writer" where
  "followers_handler env src r w =
     iri_collection env src (followers_url (src_paths src))
       (\<lambda>off lim. if src_social src then src_followers src off lim else Some ([], 0)) r w"

definition following_handler :: "ap_env \<Rightarrow> ap_source \<Rightarrow> ap_request \<Rightarrow> writer \<Rightarrow> writer" where
  "following_handler env src r w =
     iri_collection env src (following_url (src_paths src))
       (\<lambda>off lim. if src_social src then src_following src off lim else Some ([], 0)) r w"

definition empty_collection :: "ap_env \<Rightarrow> ap_source \<Rightarrow> string \<Rightarrow> ap_request \<Rightarrow> writer \<Rightarrow> writer" where
  "empty_collection env src i r w =
     (if \<not> match_user src (ar_user r) then not_found w
      else write_activity env 200 (collection i 0 ap_page_size) w)"

definition inbox_get :: "ap_env \<Rightarrow> ap_source \<Rightarrow> ap_request \<Rightarrow> writer \<Rightarrow> writer" where
  "inbox_get env src r w = empty_collection env src (inbox_url (src_paths src)) r w"

text \<open>\<open>ar_body\<close> is \<open>None\<close> when reading at most one megabyte fails.\<close>

definition inbox_post :: "ap_source \<Rightarrow> ap_request \<Rightarrow> writer \<Rightarrow> writer" where
  "inbox_post src r w =
     (if \<not> match_user src (ar_user r) then not_found w
      else if \<not> src_social src then writer_error ''inbox is not available'' 501 w
      else case ar_body r of
        None \<Rightarrow> writer_error ''request too large'' 413 w
      | Some b \<Rightarrow>
          (case src_inbox src b of
             None \<Rightarrow> or_keep w (write_header 202 w)
           | Some Inbox_Unauthorized \<Rightarrow> writer_error ''signature required'' 401 w
           | Some Inbox_Replay \<Rightarrow> writer_error ''signature required'' 401 w
           | Some Inbox_Forbidden \<Rightarrow> writer_error ''forbidden'' 403 w
           | Some Inbox_Invalid \<Rightarrow> writer_error ''invalid activity'' 400 w))"

definition positive_param :: "(string \<Rightarrow> string) \<Rightarrow> string \<Rightarrow> int \<Rightarrow> int option" where
  "positive_param q name dflt =
     (let raw = trim_space (q name) in
      if raw = [] then Some dflt
      else case parse_int64 raw of None \<Rightarrow> None | Some n \<Rightarrow> if n < 1 then None else Some n)"

definition share_file :: "paths \<Rightarrow> file_rec \<Rightarrow> json" where
  "share_file pt r =
     JObj [(''name'', JStr (if filename r = [] then rec_id r else filename r)), (''path'', JStr (relative_path r)),
       (''mime'', JStr (display_mime (mime_type r))), (''size'', JStr (format_size (size_bytes r))),
       (''size_bytes'', JNum (size_bytes r)), (''note_url'', JStr (note_url pt (rec_id r))),
       (''download_url'', JStr (download_url pt (rec_id r)))]"

definition share_json :: "string \<Rightarrow> int \<Rightarrow> int \<Rightarrow> int \<Rightarrow> json list \<Rightarrow> json" where
  "share_json q n limit tot fs =
     JObj [(''query'', JStr q), (''page'', JNum n), (''limit'', JNum limit),
       (''pages'', JNum (pages_of tot limit)), (''total'', JNum tot), (''files'', JArr fs)]"

definition share_handler :: "ap_env \<Rightarrow> ap_source \<Rightarrow> ap_request \<Rightarrow> writer \<Rightarrow> writer" where
  "share_handler env src r w =
     (if \<not> match_user src (ar_user r) then not_found w
      else
        let q = trim_space (ar_query r ''q'') in
        case positive_param (ar_query r) ''page'' 1 of
          None \<Rightarrow> writer_error ''invalid page'' 400 w
        | Some n \<Rightarrow>
            (case positive_param (ar_query r) ''limit'' 25 of
               None \<Rightarrow> writer_error ''invalid limit'' 400 w
             | Some limit0 \<Rightarrow>
                 let limit = (if limit0 > 50 then 50 else limit0) in
                 (case src_search src q (page_offset n limit) limit of
                    None \<Rightarrow> writer_error ''could not list shared files'' 500 w
                  | Some (recs, tot) \<Rightarrow>
                      let w1 = set_header ''Cache-Control'' ''no-store'' (set_header ''Content-Type'' ''application/json; charset=utf-8'' w) in
                      or_keep w1 (write_data (ap_encode env (share_json q n limit tot
                        (map (share_file (src_paths src)) recs)) @ [CHR 0x0A]) w1))))"

section \<open>Single files\<close>

definition public_file :: "ap_source \<Rightarrow> ap_request \<Rightarrow> file_rec option" where
  "public_file src r =
     (if \<not> match_user src (ar_user r) then None
      else if \<not> valid_opaque_id (ar_id r) then None
      else src_get src (ar_id r))"

definition file_object :: "ap_env \<Rightarrow> ap_source \<Rightarrow> ap_request \<Rightarrow> writer \<Rightarrow> writer" where
  "file_object env src r w =
     (case public_file src r of
        None \<Rightarrow> not_found w
      | Some rc \<Rightarrow> let pt = src_paths src in
          write_activity env 200 (file_document (ap_fmt env) (file_url pt (rec_id rc)) (filename rc) (mime_type rc)
            (download_url pt (rec_id rc)) rc) w)"

definition note_handler :: "ap_env \<Rightarrow> ap_source \<Rightarrow> ap_request \<Rightarrow> writer \<Rightarrow> writer" where
  "note_handler env src r w =
     (case public_file src r of
        None \<Rightarrow> not_found w
      | Some rc \<Rightarrow>
          if wants_html (ar_header r) then
            write_public_html (ap_render env) (Note_Html (note_page_of (src_paths src) (src_display src) (src_username src) rc)) w
          else write_activity env 200 (file_note (ap_fmt env) (ap_now env) (src_paths src) rc) w)"

definition activity_handler :: "ap_env \<Rightarrow> ap_source \<Rightarrow> ap_request \<Rightarrow> writer \<Rightarrow> writer" where
  "activity_handler env src r w =
     (case public_file src r of
        None \<Rightarrow> not_found w
      | Some rc \<Rightarrow> write_activity env 200 (file_create (ap_fmt env) (ap_now env) (src_paths src) rc) w)"

end
