(* ===== verification/Gateway.thy ===== *)
theory Gateway
  imports Gateway_Session Gateway_Store Activity_Html
begin

text \<open>
  \<open>internal/gateway/server.go\<close>, the public server: the handshake that binds a connection to a user name,
  the table of live sessions, the classification of public requests, and the answers given while a
  node is offline. The handshake reads and writes frames; its inputs are the frames received, the
  challenge drawn, the clock, and the store's environment.
\<close>

section \<open>User names\<close>

text \<open>The regular expression \<open>^[a-z0-9_]{1,30}$\<close>.\<close>

definition user_char :: "char \<Rightarrow> bool" where
  "user_char c \<longleftrightarrow> is_lower c \<or> is_digit c \<or> c = CHR ''_''"

definition valid_username :: "string \<Rightarrow> bool" where
  "valid_username u \<longleftrightarrow> 1 \<le> length u \<and> length u \<le> 30 \<and> list_all user_char u"

section \<open>The handshake\<close>

record hs_in =
  hs_hello :: "frame option"
  hs_challenge :: "challenge option"
  hs_auth :: "frame option"
  hs_now :: time
  hs_env :: gw_env

definition fail_auth :: "crypto \<Rightarrow> string \<Rightarrow> conn \<Rightarrow> conn" where
  "fail_auth cr msg c = snd (conn_write (type_auth_fail, print_json cr (single_json ''error'' msg)) c)"

definition issued_message :: "issued_error \<Rightarrow> string" where
  "issued_message e =
     (case e of
        Invalid_Issued_At \<Rightarrow> ''invalid issued_at''
      | Challenge_In_Future \<Rightarrow> ''challenge is in the future''
      | Challenge_Expired \<Rightarrow> ''challenge expired'')"

definition taken_message :: string where
  "taken_message = ''username is already registered to a different key''"

text \<open>The part after the signature was accepted: the nonce, the registration, the reply.\<close>

definition handshake_bind ::
  "crypto \<Rightarrow> hs_in \<Rightarrow> string \<Rightarrow> hello \<Rightarrow> challenge \<Rightarrow> gw_db \<Rightarrow> conn \<Rightarrow> string option \<times> gw_db \<times> conn" where
  "handshake_bind cr inp u hl ch db c =
     (case consume_nonce (hs_env inp) (nonce ch) (hs_now inp + 600 * second) db of
        (Some _, db1) \<Rightarrow> (None, db1, fail_auth cr ''challenge replayed'' c)
      | (None, db1) \<Rightarrow>
          (case register (hs_env inp) u (hello_key hl) (hello_node_id hl) db1 of
             (Some e, db2) \<Rightarrow>
               (None, db2, fail_auth cr (if e = Username_Taken then taken_message else ''registration failed'') c)
           | (None, db2) \<Rightarrow>
               (case conn_write (type_auth_ok, print_json cr (single_json ''username'' u)) c of
                  (False, c') \<Rightarrow> (None, db2, c')
                | (True, c') \<Rightarrow> (Some u, db2, c'))))"

text \<open>The part after the challenge was sent: the signature.\<close>

definition handshake_auth ::
  "crypto \<Rightarrow> hs_in \<Rightarrow> string \<Rightarrow> string \<Rightarrow> hello \<Rightarrow> challenge \<Rightarrow> gw_db \<Rightarrow> conn \<Rightarrow> string option \<times> gw_db \<times> conn" where
  "handshake_auth cr inp u pub hl ch db c =
     (case hs_auth inp of
        None \<Rightarrow> (None, db, c)
      | Some (typ, payload) \<Rightarrow>
          if typ \<noteq> type_auth then (None, db, c)
          else (case read_single cr ''signature'' payload of
            None \<Rightarrow> (None, db, fail_auth cr ''invalid auth'' c)
          | Some sg \<Rightarrow>
              (case check_issued_at cr (issued_at ch) (hs_now inp) of
                 Some e \<Rightarrow> (None, db, fail_auth cr (issued_message e) c)
               | None \<Rightarrow>
                   if \<not> verify_challenge cr pub u (nonce ch) (issued_at ch) sg
                   then (None, db, fail_auth cr ''challenge signature invalid'' c)
                   else handshake_bind cr inp u hl ch db c)))"

definition handshake :: "crypto \<Rightarrow> hs_in \<Rightarrow> gw_db \<Rightarrow> conn \<Rightarrow> string option \<times> gw_db \<times> conn" where
  "handshake cr inp db c =
     (case hs_hello inp of
        None \<Rightarrow> (None, db, c)
      | Some (typ, payload) \<Rightarrow>
          if typ \<noteq> type_hello then (None, db, c)
          else (case read_hello cr payload of
            None \<Rightarrow> (None, db, c)
          | Some hl \<Rightarrow>
              let u = user_key (hello_username hl) in
              if \<not> valid_username u then (None, db, fail_auth cr ''invalid username'' c)
              else (case parse_public cr (hello_key hl) of
                None \<Rightarrow> (None, db, fail_auth cr ''invalid public key'' c)
              | Some pub \<Rightarrow>
                  (case hs_challenge inp of
                     None \<Rightarrow> (None, db, fail_auth cr ''could not issue challenge'' c)
                   | Some ch \<Rightarrow>
                       (case conn_write (type_challenge, print_json cr (challenge_json ch)) c of
                          (False, c') \<Rightarrow> (None, db, c')
                        | (True, c') \<Rightarrow> handshake_auth cr inp u pub hl ch db c')))))"

section \<open>Sessions\<close>

text \<open>The table of live sessions; a session is known by a number. \<open>closed_sessions\<close> are those \<open>close\<close> ran on.\<close>

record sessions =
  live :: "string \<rightharpoonup> nat"
  closed_sessions :: "nat list"

definition attach :: "string \<Rightarrow> nat \<Rightarrow> sessions \<Rightarrow> sessions" where
  "attach u i s =
     s\<lparr>live := (live s)(u \<mapsto> i),
       closed_sessions := (case live s u of Some old \<Rightarrow> old # closed_sessions s | None \<Rightarrow> closed_sessions s)\<rparr>"

definition detach :: "string \<Rightarrow> nat \<Rightarrow> sessions \<Rightarrow> sessions" where
  "detach u i s =
     s\<lparr>live := (if live s u = Some i then (live s)(u := None) else live s), closed_sessions := i # closed_sessions s\<rparr>"

definition lookup_session :: "string \<Rightarrow> sessions \<Rightarrow> nat option" where
  "lookup_session u s = live s (user_key u)"

definition online :: "sessions \<Rightarrow> string \<Rightarrow> bool" where
  "online s u \<longleftrightarrow> live s u \<noteq> None"

datatype session_op = Attach string nat | Detach string nat

definition sessions_step :: "sessions \<Rightarrow> session_op \<Rightarrow> sessions" where
  "sessions_step s oper = (case oper of Attach u i \<Rightarrow> attach u i s | Detach u i \<Rightarrow> detach u i s)"

definition no_sessions :: sessions where
  "no_sessions = \<lparr>live = Map.empty, closed_sessions = []\<rparr>"

section \<open>Classification\<close>

datatype path_kind = Kind_Other | Kind_Actor | Kind_WebFinger | Kind_File

definition split_user :: "string \<Rightarrow> (string \<times> string) option" where
  "split_user path0 =
     (let path = trim_prefix path0 ''/'' in
      if \<not> has_prefix path ''users/'' then None
      else case cut (CHR ''/'') (trim_prefix path ''users/'') of (user0, extra, found) \<Rightarrow>
        let user = to_lower user0 in
        if \<not> valid_username user then None
        else if found then Some (user, ''/'' @ extra) else Some (user, []))"

definition webfinger_username :: "url_parser \<Rightarrow> string \<Rightarrow> string" where
  "webfinger_username url resource0 =
     (let resource = trim_space resource0 in
      if resource = [] \<or> length resource > 512 then []
      else if has_prefix (to_lower resource) ''acct:'' then
        (let user = to_lower (trim_space (fst (cut (CHR ''@'') (drop 5 resource)))) in
         if valid_username user then user else [])
      else case url resource of
        None \<Rightarrow> []
      | Some u \<Rightarrow> (case split_user (u_path u) of None \<Rightarrow> [] | Some (user, _) \<Rightarrow> user))"

definition classify :: "url_parser \<Rightarrow> string \<Rightarrow> string \<Rightarrow> (string \<times> path_kind) option" where
  "classify url path resource =
     (if contains path ''..'' then None
      else if path = ''/.well-known/webfinger'' then
        (let user = webfinger_username url resource in if user = [] then None else Some (user, Kind_WebFinger))
      else case split_user path of
        None \<Rightarrow> None
      | Some (user, rest) \<Rightarrow>
          if rest = [] then Some (user, Kind_Actor)
          else if has_prefix rest ''/download/'' then Some (user, Kind_File)
          else Some (user, Kind_Other))"

section \<open>Public requests\<close>

record gw_view =
  gv_url :: url_parser
  gv_render :: "html_page \<Rightarrow> string option"
  gv_parse :: "string \<Rightarrow> json option"
  gv_version :: string
  gv_env :: gw_env

definition offline_message :: string where "offline_message = ''The FediShare node is offline.''"

definition cached_answer :: "string \<Rightarrow> string \<Rightarrow> string \<Rightarrow> writer \<Rightarrow> writer" where
  "cached_answer meth ct doc w =
     (let w1 = set_header ''Content-Type'' ct w; w2 = or_keep w1 (write_header 200 w1) in
      if meth \<noteq> ''HEAD'' then or_keep w2 (write_data doc w2) else w2)"

definition unavailable :: "writer \<Rightarrow> writer" where
  "unavailable w =
     writer_error offline_message 503
       (set_header ''Content-Type'' ''text/plain; charset=utf-8'' (set_header ''Retry-After'' ''30'' w))"

definition offline :: "gw_view \<Rightarrow> gw_request \<Rightarrow> string \<Rightarrow> path_kind \<Rightarrow> gw_db \<Rightarrow> writer \<Rightarrow> writer" where
  "offline gv r u kind db w =
     (let row = get_actor (gv_env gv) u db; reading = gr_method r \<in> {''GET'', ''HEAD''} in
      if wants_html (gr_header r) \<and> reading then
        (let w1 = set_header ''Vary'' ''Accept'' (set_header ''Content-Type'' ''text/html; charset=utf-8''
               (set_header ''Retry-After'' ''30'' w)) in
         if gr_method r = ''HEAD'' then or_keep w1 (write_header 200 w1)
         else write_unreachable (gv_render gv) (gv_parse gv) (case row of Inr x \<Rightarrow> gw_actor x | Inl _ \<Rightarrow> []) [] w1)
      else case row of
        Inl _ \<Rightarrow> unavailable w
      | Inr x \<Rightarrow>
          (case kind of
             Kind_Actor \<Rightarrow>
               if gw_actor x \<noteq> [] \<and> reading
               then cached_answer (gr_method r) ''application/activity+json; charset=utf-8'' (gw_actor x) w else unavailable w
           | Kind_WebFinger \<Rightarrow>
               if gw_finger x \<noteq> [] \<and> reading
               then cached_answer (gr_method r) ''application/jrd+json; charset=utf-8'' (gw_finger x) w else unavailable w
           | _ \<Rightarrow> unavailable w))"

text \<open>
  \<open>public\<close> is called once per request; while the node answers it waits in \<open>proxy\<close>. \<open>public_begin\<close> is the
  part before, \<open>public_end\<close> the part after \<open>proxy\<close> has returned with the given error and writer.
\<close>

datatype public_start =
  Answered writer | Forward string path_kind nat gw_writer

definition public_begin :: "gw_view \<Rightarrow> gw_request \<Rightarrow> string \<Rightarrow> sessions \<Rightarrow> gw_db \<Rightarrow> public_start" where
  "public_begin gv r resource ss db =
     (let w = new_writer in
      if gr_path r = ''/'' then
        Answered (let w1 = set_header ''Content-Type'' ''text/plain; charset=utf-8'' w in
          or_keep w1 (write_data (''FediShare gateway '' @ gv_version gv @ [CHR 0x0A]) w1))
      else case classify (gv_url gv) (gr_path r) resource of
        None \<Rightarrow> Answered (not_found w)
      | Some (u, kind) \<Rightarrow>
          (case lookup_session u ss of
             None \<Rightarrow> Answered (offline gv r u kind db w)
           | Some i \<Rightarrow> Forward u kind i
               \<lparr>gw_out = w, gw_cap = (if kind = Kind_Actor \<or> kind = Kind_WebFinger then Some new_capture else None)\<rparr>))"

definition store_capture :: "gw_env \<Rightarrow> string \<Rightarrow> path_kind \<Rightarrow> gw_writer \<Rightarrow> gw_db \<Rightarrow> gw_db" where
  "store_capture env u kind g db =
     (case gw_cap g of
        None \<Rightarrow> db
      | Some c \<Rightarrow>
          if cap_code c = 200 \<and> cap_buf c \<noteq> [] then
            (let ctype = to_lower (header_get ''Content-Type'' (w_header (gw_out g))) in
             if kind = Kind_Actor \<and> contains ctype ''application/activity+json''
             then snd (save_actor env u (cap_buf c) db)
             else if kind = Kind_WebFinger \<and> contains ctype ''jrd+json''
             then snd (save_webfinger env u (cap_buf c) db)
             else db)
          else db)"

definition public_end ::
  "gw_view \<Rightarrow> gw_request \<Rightarrow> string \<Rightarrow> path_kind \<Rightarrow> proxy_error option \<Rightarrow> gw_writer \<Rightarrow> gw_db \<Rightarrow> writer \<times> gw_db" where
  "public_end gv r u kind err g db =
     (if err \<noteq> None then
        (if (case gw_cap g of None \<Rightarrow> True | Some c \<Rightarrow> \<not> cap_wrote c)
         then (offline gv r u kind db (gw_out g), db) else (gw_out g, db))
      else (gw_out g, store_capture (gv_env gv) u kind g db))"

end
