(* ===== verification/Gateway_Auth.thy ===== *)
theory Gateway_Auth
  imports Gateway Tunnel_Proxy
begin

text \<open>
  What the handshake and the answers of the gateway promise: a session stands for the key that its
  user name is bound to, an honest node is let in, and what the gateway caches and answers.
\<close>

section \<open>The handshake\<close>

lemma handshake_bind_Some:
  assumes "handshake_bind cr inp u hl ch db c = (Some v, db', c')"
  obtains db1 where "v = u" "consume_nonce (hs_env inp) (nonce ch) (hs_now inp + 600 * second) db = (None, db1)"
    "register (hs_env inp) u (hello_key hl) (hello_node_id hl) db1 = (None, db')"
  using assms by (auto simp: handshake_bind_def split: prod.splits option.splits bool.splits)

lemma handshake_auth_Some:
  assumes "handshake_auth cr inp u pub hl ch db c = (Some v, db', c')"
  obtains p sg where "hs_auth inp = Some (type_auth, p)" "read_single cr ''signature'' p = Some sg"
    "check_issued_at cr (issued_at ch) (hs_now inp) = None"
    "verify_challenge cr pub u (nonce ch) (issued_at ch) sg"
    "handshake_bind cr inp u hl ch db c = (Some v, db', c')"
  using assms by (auto simp: handshake_auth_def split: prod.splits option.splits if_splits)

lemma handshake_Some:
  assumes "handshake cr inp db c = (Some v, db', c')"
  obtains p hl pub ch c1 where "hs_hello inp = Some (type_hello, p)" "read_hello cr p = Some hl"
    "valid_username (user_key (hello_username hl))" "parse_public cr (hello_key hl) = Some pub"
    "hs_challenge inp = Some ch"
    "handshake_auth cr inp (user_key (hello_username hl)) pub hl ch db c1 = (Some v, db', c')"
  using assms by (auto simp: handshake_def Let_def split: prod.splits option.splits if_splits bool.splits)

lemma consume_nonce_bound: "consume_nonce env n x db = (r, db1) \<Longrightarrow> bound_key db1 u = bound_key db u"
  using bound_key_nonce [of env n x db u] by simp

lemma consume_nonce_gw_ok: "consume_nonce env n x db = (r, db1) \<Longrightarrow> gw_ok db \<Longrightarrow> gw_ok db1"
  using consume_ok [of db env n x] by simp

text \<open>
  C4. A session is authentic. When the handshake attaches a session for a user name, the name is one of
  the allowed form and the one announced, the peer has signed the challenge drawn for this very
  connection, for this name, within the time window, under the announced key; the name is now bound
  to that key and was not bound to another one before.
\<close>

theorem handshake_authenticates:
  assumes "handshake cr inp db c = (Some u, db', c')" "gw_ok db"
  shows "\<exists>p1 hl pub ch p2 sg. hs_hello inp = Some (type_hello, p1) \<and> read_hello cr p1 = Some hl \<and>
    u = user_key (hello_username hl) \<and> valid_username u \<and> parse_public cr (hello_key hl) = Some pub \<and>
    hs_challenge inp = Some ch \<and> hs_auth inp = Some (type_auth, p2) \<and> read_single cr ''signature'' p2 = Some sg \<and>
    verify_challenge cr pub u (nonce ch) (issued_at ch) sg \<and> check_issued_at cr (issued_at ch) (hs_now inp) = None \<and>
    bound_key db' u = Some (normalize_pem (hello_key hl)) \<and>
    bound_key db u \<in> {None, Some (normalize_pem (hello_key hl))}"
proof -
  obtain p hl pub ch c1 where a: "hs_hello inp = Some (type_hello, p)" "read_hello cr p = Some hl"
    "valid_username (user_key (hello_username hl))" "parse_public cr (hello_key hl) = Some pub" "hs_challenge inp = Some ch"
    and a': "handshake_auth cr inp (user_key (hello_username hl)) pub hl ch db c1 = (Some u, db', c')"
    by (rule handshake_Some [OF assms(1)]) blast
  obtain p2 sg where b: "hs_auth inp = Some (type_auth, p2)" "read_single cr ''signature'' p2 = Some sg"
    "check_issued_at cr (issued_at ch) (hs_now inp) = None"
    "verify_challenge cr pub (user_key (hello_username hl)) (nonce ch) (issued_at ch) sg"
    and b': "handshake_bind cr inp (user_key (hello_username hl)) hl ch db c1 = (Some u, db', c')"
    by (rule handshake_auth_Some [OF a']) blast
  obtain db1 where d: "u = user_key (hello_username hl)"
    "consume_nonce (hs_env inp) (nonce ch) (hs_now inp + 600 * second) db = (None, db1)"
    "register (hs_env inp) (user_key (hello_username hl)) (hello_key hl) (hello_node_id hl) db1 = (None, db')"
    by (rule handshake_bind_Some [OF b'])
  have ok1: "gw_ok db1" by (rule consume_nonce_gw_ok [OF d(2) assms(2)])
  have r: "register (hs_env inp) u (hello_key hl) (hello_node_id hl) db1 = (None, db')" using d(1,3) by simp
  have n: "bound_key db' u = Some (normalize_pem (hello_key hl))" by (rule register_success [OF r ok1])
  have o: "bound_key db u \<in> {None, Some (normalize_pem (hello_key hl))}"
    using register_other_key [OF _ r ok1] consume_nonce_bound [OF d(2), of u]
    by (cases "bound_key db u") auto
  show ?thesis using a b d(1) n o by blast
qed

section \<open>An honest node\<close>

lemma challenge_bytes_user_key: "challenge_bytes (user_key u) n t = challenge_bytes u n t"
  by (simp add: challenge_bytes_def user_key_def trim_space_to_lower)

lemma b64_char_ascii: "v < 64 \<Longrightarrow> byte (b64_char v) < 128"
proof -
  have "list_all (\<lambda>c. byte c < 128) b64_alphabet" by code_simp
  moreover have "length b64_alphabet = 64" by code_simp
  ultimately show "v < 64 \<Longrightarrow> byte (b64_char v) < 128"
    by (simp add: b64_char_def list_all_length)
qed

lemma ascii_b64_encode: "ascii (b64_encode s)"
proof (induction s rule: b64_encode.induct)
  case (2 a)
  have "byte a div 4 < 64" "byte a mod 4 * 16 < 64"
    using byte_less [of a] by linarith+
  then show ?case using b64_char_ascii by (simp add: ascii_def byte_def)
next
  case (3 a b)
  have "byte a div 4 < 64" "byte a mod 4 * 16 + byte b div 16 < 64" "byte b mod 16 * 4 < 64"
    using byte_less [of a] byte_less [of b] by linarith+
  then show ?case using b64_char_ascii by (simp add: ascii_def byte_def)
next
  case (4 a b c s)
  have "byte a div 4 < 64" "byte a mod 4 * 16 + byte b div 16 < 64" "byte b mod 16 * 4 + byte c div 64 < 64"
    "byte c mod 64 < 64"
    using byte_less [of a] byte_less [of b] byte_less [of c] by linarith+
  then show ?case using b64_char_ascii 4 by (simp add: ascii_def)
qed (simp add: ascii_def)

text \<open>What an honest node needs: a key pair, and the environment of one handshake that does not fail.\<close>

definition fits :: "crypto \<Rightarrow> json \<Rightarrow> bool" where
  "fits cr j \<longleftrightarrow> length (print_json cr j) \<le> max_frame"

definition key_pair :: "crypto \<Rightarrow> client \<Rightarrow> challenge \<Rightarrow> bool" where
  "key_pair cr cl ch \<longleftrightarrow>
     (\<exists>k pub raw. cl_key cl = Some k \<and> parse_public cr (cl_public_key cl) = Some pub \<and>
        (let d = sha256 cr (challenge_bytes (cl_username cl) (nonce ch) (issued_at ch)) in
         rsa_sign cr k d = Some raw \<and> rsa_verify cr pub d raw) \<and>
        fits cr (single_json ''signature'' (b64_encode raw)))"

definition may_register :: "hs_in \<Rightarrow> client \<Rightarrow> challenge \<Rightarrow> gw_db \<Rightarrow> bool" where
  "may_register inp cl ch db \<longleftrightarrow>
     (\<forall>st. \<not> gw_fault (hs_env inp) st) \<and> nonce ch \<noteq> [] \<and> lookup nonce_text (nonce ch) (gw_nonces db) = None \<and>
     normalize_pem (cl_public_key cl) \<noteq> [] \<and>
     (case lookup gw_user (user_key (cl_username cl)) (gw_actors db) of
        None \<Rightarrow> True | Some r \<Rightarrow> normalize_pem (gw_key r) = normalize_pem (cl_public_key cl))"

lemma lookup_purge: "lookup nonce_text n (gw_nonces db) = None \<Longrightarrow> lookup nonce_text n (gw_nonces (purge_nonces env db)) = None"
  by (auto simp: lookup_None_iff purge_nonces_def delete_where_def)

lemma handshake_bind_ok:
  assumes "may_register inp cl ch db" "valid_username (user_key (cl_username cl))"
    and "c_up c (length (c_out c))" "fits cr (single_json ''username'' (user_key (cl_username cl)))"
    and "hello_key hl = cl_public_key cl"
  shows "\<exists>db'. handshake_bind cr inp (user_key (cl_username cl)) hl ch db c =
    (Some (user_key (cl_username cl)), db', c\<lparr>c_out := c_out c @
       [(type_auth_ok, print_json cr (single_json ''username'' (user_key (cl_username cl))))]\<rparr>)"
proof -
  let ?u = "user_key (cl_username cl)"
  have u: "?u \<noteq> []" using assms(2) by (auto simp: valid_username_def)
  have lp: "lookup nonce_text (nonce ch) (gw_nonces (purge_nonces (hs_env inp) db)) = None"
    using assms(1) by (intro lookup_purge) (simp add: may_register_def)
  obtain db1 where c: "consume_nonce (hs_env inp) (nonce ch) (hs_now inp + 600 * second) db = (None, db1)"
    and act: "gw_actors db1 = gw_actors db"
    using assms(1) lp by (simp add: consume_nonce_def may_register_def Let_def) (simp add: purge_nonces_def)
  have "\<exists>db2. register (hs_env inp) ?u (hello_key hl) (hello_node_id hl) db1 = (None, db2)"
    using assms(1,5) u act
    by (auto simp: register_def may_register_def select_key_def update_actor_def Let_def split: option.splits)
  then obtain db2 where r: "register (hs_env inp) ?u (hello_key hl) (hello_node_id hl) db1 = (None, db2)" by blast
  show ?thesis using assms(3,4) by (simp add: handshake_bind_def c r conn_write_def fits_def)
qed

definition hello_frame :: "crypto \<Rightarrow> client \<Rightarrow> frame" where
  "hello_frame cr cl = (type_hello, print_json cr (hello_json (client_hello cl)))"

definition challenge_frame :: "crypto \<Rightarrow> challenge \<Rightarrow> frame" where
  "challenge_frame cr ch = (type_challenge, print_json cr (challenge_json ch))"

definition ok_frame :: "crypto \<Rightarrow> client \<Rightarrow> frame" where
  "ok_frame cr cl = (type_auth_ok, print_json cr (single_json ''username'' (user_key (cl_username cl))))"

lemma honest_connects:
  assumes "json_ok cr" "key_pair cr cl ch" "valid_username (user_key (cl_username cl))" "ascii_hello (client_hello cl)"
    and "ascii (nonce ch)" "ascii (issued_at ch)" "check_issued_at cr (issued_at ch) (hs_now inp) = None"
    and "may_register inp cl ch db" "up cc" "up gc"
    and "fits cr (hello_json (client_hello cl))" "fits cr (challenge_json ch)"
    and "fits cr (single_json ''username'' (user_key (cl_username cl)))"
  shows "\<exists>auth_frame cc' db'.
    client_connect cr cl (Some (challenge_frame cr ch)) (Some (ok_frame cr cl)) cc = (None, cc') \<and>
    c_out cc' = c_out cc @ [hello_frame cr cl, auth_frame] \<and>
    handshake cr (inp\<lparr>hs_hello := Some (hello_frame cr cl), hs_challenge := Some ch, hs_auth := Some auth_frame\<rparr>) db gc =
      (Some (user_key (cl_username cl)), db', gc\<lparr>c_out := c_out gc @ [challenge_frame cr ch, ok_frame cr cl]\<rparr>)"
proof -
  let ?u = "user_key (cl_username cl)" and ?hl = "client_hello cl" and ?d = "sha256 cr (challenge_bytes (cl_username cl) (nonce ch) (issued_at ch))"
  obtain k pub raw where k: "cl_key cl = Some k" "parse_public cr (cl_public_key cl) = Some pub"
    "rsa_sign cr k ?d = Some raw" "rsa_verify cr pub ?d raw"
    "fits cr (single_json ''signature'' (b64_encode raw))"
    using assms(2) by (auto simp: key_pair_def Let_def)
  let ?sg = "b64_encode raw"
  let ?auth = "(type_auth, print_json cr (single_json ''signature'' ?sg))"
  have sig: "ascii ''signature''" by code_simp
  have r1: "read_hello cr (print_json cr (hello_json ?hl)) = Some ?hl"
    by (rule read_hello_print [OF assms(1,4)])
  have r2: "read_challenge cr (print_json cr (challenge_json ch)) = Some ch"
    by (rule read_challenge_print [OF assms(1,5,6)])
  have r3: "read_single cr ''signature'' (print_json cr (single_json ''signature'' ?sg)) = Some ?sg"
    by (rule read_single_print [OF assms(1) sig ascii_b64_encode])
  have sgn: "sign_challenge cr (cl_key cl) (cl_username cl) (nonce ch) (issued_at ch) = Some ?sg"
    by (simp add: sign_challenge_def k)
  have ver: "verify_challenge cr pub ?u (nonce ch) (issued_at ch) ?sg"
    by (simp add: verify_challenge_def challenge_bytes_user_key k)
  have hu: "user_key (hello_username ?hl) = ?u" "hello_key ?hl = cl_public_key cl"
    by (simp_all add: client_hello_def user_key_def trim_space_to_lower)
  have c1: "client_connect cr cl (Some (challenge_frame cr ch)) (Some (ok_frame cr cl)) cc = (None, cc\<lparr>c_out := c_out cc @ [hello_frame cr cl, ?auth]\<rparr>)"
    using assms(9,11) k(5)
    by (simp add: client_connect_def conn_write_def up_def fits_def challenge_frame_def ok_frame_def hello_frame_def
        r2 sgn auth_reply_def)
  obtain db' where b: "handshake_bind cr (inp\<lparr>hs_hello := Some (hello_frame cr cl), hs_challenge := Some ch, hs_auth := Some ?auth\<rparr>)
      ?u ?hl ch db (gc\<lparr>c_out := c_out gc @ [challenge_frame cr ch]\<rparr>) =
      (Some ?u, db', gc\<lparr>c_out := c_out gc @ [challenge_frame cr ch, ok_frame cr cl]\<rparr>)"
    using handshake_bind_ok [of "inp\<lparr>hs_hello := Some (hello_frame cr cl), hs_challenge := Some ch, hs_auth := Some ?auth\<rparr>" cl ch db
        "gc\<lparr>c_out := c_out gc @ [challenge_frame cr ch]\<rparr>" cr ?hl] assms(3,8,10,13) hu(2)
    by (auto simp: may_register_def up_def ok_frame_def)
  have "handshake cr (inp\<lparr>hs_hello := Some (hello_frame cr cl), hs_challenge := Some ch, hs_auth := Some ?auth\<rparr>) db gc =
      (Some ?u, db', gc\<lparr>c_out := c_out gc @ [challenge_frame cr ch, ok_frame cr cl]\<rparr>)"
    using assms(3,7,10,12) b
    by (simp add: handshake_def hello_frame_def r1 hu k Let_def conn_write_def up_def fits_def challenge_frame_def
        handshake_auth_def r3 ver)
  with c1 show ?thesis by auto
qed

section \<open>An example\<close>

text \<open>A printer for flat objects: every character marked, every string ended by a full stop.\<close>

definition mark :: "string \<Rightarrow> string" where
  "mark s = concat (map (\<lambda>c. [CHR ''x'', c]) s) @ [CHR ''.'']"

fun unmark :: "string \<Rightarrow> string \<Rightarrow> string list option" where
  "unmark acc [] = (if acc = [] then Some [] else None)"
| "unmark acc (c # s) =
     (if c = CHR ''.'' then map_option ((#) acc) (unmark [] s)
      else case s of [] \<Rightarrow> None | d # t \<Rightarrow> unmark (acc @ [d]) t)"

fun pair_up :: "string list \<Rightarrow> (string \<times> json) list option" where
  "pair_up [] = Some []"
| "pair_up (k # v # rest) = map_option ((#) (k, JStr v)) (pair_up rest)"
| "pair_up [_] = None"

definition demo_print :: "json \<Rightarrow> string" where
  "demo_print j =
     (case j of JObj m \<Rightarrow> concat (map (\<lambda>(k, v). mark k @ mark (case v of JStr s \<Rightarrow> s | _ \<Rightarrow> [])) m) | _ \<Rightarrow> ''?'')"

definition demo_parse :: "string \<Rightarrow> json option" where
  "demo_parse s = (case unmark [] s of None \<Rightarrow> None | Some ss \<Rightarrow> map_option JObj (pair_up ss))"

lemma unmark_mark: "unmark acc (mark s @ rest) = map_option ((#) (acc @ s)) (unmark [] rest)"
  by (induction s arbitrary: acc) (simp_all add: mark_def)

lemma demo_round_trip: "flat_object j \<Longrightarrow> demo_parse (demo_print j) = Some j"
proof -
  assume "flat_object j"
  then obtain m where j: "j = JObj m"
    and m: "list_all (\<lambda>(k, v). ascii k \<and> (case v of JStr s \<Rightarrow> ascii s | _ \<Rightarrow> False)) m"
    by (auto simp: flat_object_def split: json.splits)
  have "\<exists>ss. unmark [] (demo_print (JObj m)) = Some ss \<and> pair_up ss = Some m"
    using m by (induction m) (auto simp: demo_print_def unmark_mark split: json.splits)
  then show ?thesis by (auto simp: demo_parse_def j)
qed

definition demo_crypto :: crypto where
  "demo_crypto = \<lparr>parse_public = (\<lambda>k. if k = [] then None else Some k), rsa_verify = (\<lambda>pub d raw. raw = pub @ d),
     rsa_sign = (\<lambda>k d. Some (k @ d)), sha256 = (\<lambda>m. take 8 m), parse_rfc3339 = (\<lambda>_. Some (1000 * second)),
     parse_json = demo_parse, print_json = demo_print\<rparr>"

definition demo_client :: client where
  "demo_client = \<lparr>cl_username = ''Alice'', cl_public_key = ''KEY'', cl_node_id = ''n1'', cl_display = [], cl_key = Some ''KEY''\<rparr>"

definition demo_challenge :: challenge where
  "demo_challenge = \<lparr>nonce = ''0a1b'', issued_at = ''2024-01-01T00:00:00Z''\<rparr>"

definition demo_hs :: hs_in where
  "demo_hs = \<lparr>hs_hello = None, hs_challenge = None, hs_auth = None, hs_now = 1010 * second, hs_env = demo_gw\<rparr>"

lemma demo_crypto_json: "json_ok demo_crypto"
  by (simp add: json_ok_def demo_crypto_def demo_round_trip)

lemma demo_fits:
  "fits demo_crypto (hello_json (client_hello demo_client))" "fits demo_crypto (challenge_json demo_challenge)"
  "fits demo_crypto (single_json ''username'' (user_key (cl_username demo_client)))"
  "fits demo_crypto (single_json ''signature'' (b64_encode (''KEY'' @ sha256 demo_crypto
     (challenge_bytes (cl_username demo_client) (nonce demo_challenge) (issued_at demo_challenge)))))"
  unfolding fits_def max_frame_def by (rule le_trans [of _ 4096], code_simp, simp)+

lemma demo_hyps:
  "key_pair demo_crypto demo_client demo_challenge"
  "valid_username (user_key (cl_username demo_client))" "ascii_hello (client_hello demo_client)"
  "ascii (nonce demo_challenge)" "ascii (issued_at demo_challenge)"
  "check_issued_at demo_crypto (issued_at demo_challenge) (hs_now demo_hs) = None"
  "may_register demo_hs demo_client demo_challenge empty_gw" "up demo_link"
proof -
  show "key_pair demo_crypto demo_client demo_challenge"
    using demo_fits(4) by (simp add: key_pair_def demo_crypto_def demo_client_def Let_def)
  show "valid_username (user_key (cl_username demo_client))" "ascii_hello (client_hello demo_client)"
    "ascii (nonce demo_challenge)" "ascii (issued_at demo_challenge)"
    by code_simp+
  show "check_issued_at demo_crypto (issued_at demo_challenge) (hs_now demo_hs) = None"
    by (simp add: check_issued_at_def demo_crypto_def demo_hs_def second_def)
  show "may_register demo_hs demo_client demo_challenge empty_gw"
    by (simp add: may_register_def demo_hs_def demo_gw_def demo_challenge_def empty_gw_def sql demo_client_def
        normalize_pem_def trim_space_def trim_left_def trim_right_def is_space_def byte_def)
  show "up demo_link" by (simp add: up_def demo_link_def)
qed

text \<open>
  C26. An honest node is let in. If a node holds the private key of the public key it announces, its name
  is valid and free or bound to this key, and the messages fit the frames, then the handshake of the
  gateway and \<open>Connect\<close> of the client, each fed with the frames of the other, both succeed, and the
  session is attached for the node's name.
\<close>

theorem honest_node_connects:
  assumes "json_ok cr" "key_pair cr cl ch" "valid_username (user_key (cl_username cl))" "ascii_hello (client_hello cl)"
    and "ascii (nonce ch)" "ascii (issued_at ch)" "check_issued_at cr (issued_at ch) (hs_now inp) = None"
    and "may_register inp cl ch db" "up cc" "up gc"
    and "fits cr (hello_json (client_hello cl))" "fits cr (challenge_json ch)"
    and "fits cr (single_json ''username'' (user_key (cl_username cl)))"
  shows "\<exists>auth_frame cc' db'.
    client_connect cr cl (Some (challenge_frame cr ch)) (Some (ok_frame cr cl)) cc = (None, cc') \<and>
    c_out cc' = c_out cc @ [hello_frame cr cl, auth_frame] \<and>
    handshake cr (inp\<lparr>hs_hello := Some (hello_frame cr cl), hs_challenge := Some ch, hs_auth := Some auth_frame\<rparr>) db gc =
      (Some (user_key (cl_username cl)), db', gc\<lparr>c_out := c_out gc @ [challenge_frame cr ch, ok_frame cr cl]\<rparr>)"
  by (rule honest_connects [OF assms])

theorem honest_node_connects_witness:
  "\<exists>auth_frame cc' db'.
    client_connect demo_crypto demo_client (Some (challenge_frame demo_crypto demo_challenge))
      (Some (ok_frame demo_crypto demo_client)) demo_link = (None, cc') \<and>
    c_out cc' = c_out demo_link @ [hello_frame demo_crypto demo_client, auth_frame] \<and>
    handshake demo_crypto (demo_hs\<lparr>hs_hello := Some (hello_frame demo_crypto demo_client),
        hs_challenge := Some demo_challenge, hs_auth := Some auth_frame\<rparr>) empty_gw demo_link =
      (Some (user_key (cl_username demo_client)), db',
       demo_link\<lparr>c_out := c_out demo_link @ [challenge_frame demo_crypto demo_challenge, ok_frame demo_crypto demo_client]\<rparr>)"
  by (rule honest_node_connects [OF demo_crypto_json demo_hyps(1-5) demo_hyps(6-7) demo_hyps(8) demo_hyps(8) demo_fits(1-3)])

lemma demo_connects:
  "\<exists>auth_frame cc' db'.
    client_connect demo_crypto demo_client (Some (challenge_frame demo_crypto demo_challenge))
      (Some (ok_frame demo_crypto demo_client)) demo_link = (None, cc') \<and>
    c_out cc' = c_out demo_link @ [hello_frame demo_crypto demo_client, auth_frame] \<and>
    handshake demo_crypto (demo_hs\<lparr>hs_hello := Some (hello_frame demo_crypto demo_client),
        hs_challenge := Some demo_challenge, hs_auth := Some auth_frame\<rparr>) empty_gw demo_link =
      (Some (user_key (cl_username demo_client)), db',
       demo_link\<lparr>c_out := c_out demo_link @ [challenge_frame demo_crypto demo_challenge, ok_frame demo_crypto demo_client]\<rparr>)"
  by (rule honest_connects [OF demo_crypto_json demo_hyps(1-5) demo_hyps(6-7) demo_hyps(8) demo_hyps(8) demo_fits(1-3)])

lemma empty_gw_ok: "gw_ok empty_gw"
  by (simp add: gw_ok_def empty_gw_def)

theorem handshake_authenticates_witness:
  "\<exists>inp u db' c'. handshake demo_crypto inp empty_gw demo_link = (Some u, db', c') \<and>
     bound_key db' u \<noteq> None"
proof -
  obtain af db' where h: "handshake demo_crypto (demo_hs\<lparr>hs_hello := Some (hello_frame demo_crypto demo_client),
        hs_challenge := Some demo_challenge, hs_auth := Some af\<rparr>) empty_gw demo_link =
      (Some (user_key (cl_username demo_client)), db',
       demo_link\<lparr>c_out := c_out demo_link @ [challenge_frame demo_crypto demo_challenge, ok_frame demo_crypto demo_client]\<rparr>)"
    using demo_connects by blast
  have "bound_key db' (user_key (cl_username demo_client)) \<noteq> None"
    using handshake_authenticates [OF h empty_gw_ok] by (elim exE conjE) simp
  with h show ?thesis by (intro exI conjI)
qed

section \<open>Offline answers and the cache\<close>

text \<open>
  A truncated document enters the cache. When the connection to the node breaks after a part of the
  actor document was relayed, \<open>proxy\<close> reports success because the header was written, and the gateway
  stores the part received so far as the actor's document, which it later serves as the profile.
\<close>

theorem partial_document_cached:
  assumes "header_get ''Content-Type'' (strip_hop h) = ''application/activity+json; charset=utf-8''"
    and "data \<noteq> []" "length data \<le> max_cache_body" "bound_key db u = Some k" "\<not> gw_fault (gv_env gv) (Gw_Update (user_key u))"
  shows "\<exists>r. lookup gw_user (user_key u) (gw_actors (snd (public_end gv rq u Kind_Actor
      (proxy_result (Some Err_Offline) (relayed 200 h data (Some new_capture)))
      (p_w (relayed 200 h data (Some new_capture))) db))) = Some r \<and> gw_actor r = data"
proof -
  have low: "contains (to_lower ''application/activity+json; charset=utf-8'') ''application/activity+json''" by code_simp
  obtain z where z: "lookup gw_user (user_key u) (gw_actors db) = Some z" "gw_user z = user_key u"
    using assms(4) lookup_SomeD by (fastforce simp: bound_key_def)
  show ?thesis
    using assms(1-3,5) low z
    by (simp add: public_end_def proxy_result_def relayed_def store_capture_def save_actor_def update_actor_def lookup_update_where)
qed

theorem partial_document_cached_witness:
  "\<exists>r. lookup gw_user (user_key ''alice'') (gw_actors (snd (public_end
      \<lparr>gv_url = simple_url, gv_render = (\<lambda>_. None), gv_parse = (\<lambda>_. None), gv_version = ''v'', gv_env = demo_gw\<rparr>
      demo_proxied ''alice'' Kind_Actor
      (proxy_result (Some Err_Offline) (relayed 200 [''Content-Type'' \<mapsto> [''application/activity+json; charset=utf-8'']] ''{'' (Some new_capture)))
      (p_w (relayed 200 [''Content-Type'' \<mapsto> [''application/activity+json; charset=utf-8'']] ''{'' (Some new_capture)))
      (snd (register demo_gw ''alice'' ''KEY'' ''n'' empty_gw))))) = Some r \<and> gw_actor r = ''{''"
proof (rule partial_document_cached)
  have c: "canonical_key ''Content-Type'' = ''Content-Type''" by code_simp
  show "header_get ''Content-Type'' (strip_hop [''Content-Type'' \<mapsto> [''application/activity+json; charset=utf-8'']]) =
      ''application/activity+json; charset=utf-8''"
    unfolding header_get_def header_values_def strip_hop_apply list.set_map [symmetric] canonical_hop c
    by (simp add: canonical_connection hop_by_hop_def)
  show "bound_key (snd (register demo_gw ''alice'' ''KEY'' ''n'' empty_gw)) ''alice'' = Some ''KEY''" by code_simp
qed (simp_all add: max_cache_body_def demo_gw_def)

text \<open>
  A request body above one megabyte is answered twice: \<open>proxy\<close> has written status 413 and its message,
  and for every path that is not captured \<open>public\<close> then appends the answer of an offline node to it.
\<close>

theorem too_large_answered_twice:
  assumes "gr_body r = Some b" "max_inbox_body < length b" "\<not> wants_html (gr_header r)"
    and "kind \<noteq> Kind_Actor" "kind \<noteq> Kind_WebFinger"
  shows "\<exists>g. proxy_begin cd i r \<lparr>gw_out = new_writer, gw_cap = None\<rparr> s = Inl (Err_Too_Large, g) \<and>
    w_body (fst (public_end gv r u kind (Some Err_Too_Large) g db)) =
      ''request body too large'' @ [CHR 0x0A] @ offline_message @ [CHR 0x0A]"
  using assms
  by (auto simp: proxy_begin_def reply_error_def public_end_def offline_def unavailable_def writer_error_def Let_def
      new_writer_def write_header_fresh write_header_sent write_data_sent body_allowed_def set_header_def
      split: sum.split path_kind.split)

theorem too_large_answered_twice_witness:
  "\<exists>g. proxy_begin demo_codec None (demo_proxied\<lparr>gr_body := Some (replicate (2 ^ 20 + 1) (CHR ''a''))\<rparr>)
      \<lparr>gw_out = new_writer, gw_cap = None\<rparr> (new_session ''a'' demo_link) = Inl (Err_Too_Large, g) \<and>
    w_body (fst (public_end \<lparr>gv_url = simple_url, gv_render = (\<lambda>_. None), gv_parse = (\<lambda>_. None), gv_version = ''v'', gv_env = demo_gw\<rparr>
      (demo_proxied\<lparr>gr_body := Some (replicate (2 ^ 20 + 1) (CHR ''a''))\<rparr>) ''a'' Kind_Other (Some Err_Too_Large) g empty_gw)) =
      ''request body too large'' @ [CHR 0x0A] @ offline_message @ [CHR 0x0A]"
proof (rule too_large_answered_twice)
  have "header_get ''Accept'' Map.empty = []" "header_get ''Sec-Fetch-Dest'' Map.empty = []"
    by (simp_all add: header_get_def header_values_def)
  moreover have "\<not> equal_fold [] ''document''" by code_simp
  ultimately show "\<not> wants_html (gr_header (demo_proxied\<lparr>gr_body := Some (replicate (2 ^ 20 + 1) (CHR ''a''))\<rparr>))"
    by (simp add: demo_proxied_def wants_html_def Let_def)
  show "gr_body (demo_proxied\<lparr>gr_body := Some (replicate (2 ^ 20 + 1) (CHR ''a''))\<rparr>) = Some (replicate (2 ^ 20 + 1) (CHR ''a''))"
    by (simp del: replicate_Suc power_numeral)
  show "max_inbox_body < length (replicate (2 ^ 20 + 1) (CHR ''a''))"
    by (simp only: length_replicate max_inbox_body_def)
qed (rule path_kind.distinct)+

end
