(* ===== verification/Federation_Store.thy ===== *)
theory Federation_Store
  imports Sql Json Prelude
begin

text \<open>
  \<open>internal/federation/store.go\<close> and \<open>types.go\<close>: the followers, the outgoing follows, the blocks, the
  published activities, the delivery queue and the signatures seen. \<open>fd_fault\<close> says which statements
  fail in the environment of a call. Texts that SQL stores as NULL are empty strings.
\<close>

section \<open>Rows\<close>

record follower =
  fo_actor :: string
  fo_inbox :: string
  fo_shared :: string
  fo_user :: string
  fo_host :: string
  fo_accepted :: bool
  fo_created :: "stored_time option"

record following_row =
  fw_actor :: string
  fw_inbox :: string
  fw_accepted :: bool
  fw_created :: stored_time

datatype block_kind = Block_Actor | Block_Domain

record block_row =
  bl_target :: string
  bl_kind :: block_kind
  bl_created :: stored_time

record activity_row =
  ac_id :: string
  ac_type :: string
  ac_file :: string
  ac_published :: stored_time
  ac_payload :: string

datatype job_status = Pending | Delivered | Failed

record delivery =
  jb_id :: nat
  jb_inbox :: string
  jb_activity :: string
  jb_payload :: string
  jb_attempts :: nat
  jb_max :: nat
  jb_next :: stored_time
  jb_error :: string
  jb_status :: job_status

record replay_row =
  rp_hash :: string
  rp_seen :: stored_time

record fed_db =
  fd_followers :: "follower list"
  fd_following :: "following_row list"
  fd_blocks :: "block_row list"
  fd_activities :: "activity_row list"
  fd_queue :: "delivery list"
  fd_next_job :: nat
  fd_replay :: "replay_row list"

datatype fed_stmt =
  Fd_Write_Follower | Fd_Delete_Follower | Fd_Get_Follower | Fd_List_Followers | Fd_Count_Followers
| Fd_Following | Fd_Write_Following | Fd_Block | Fd_Unblock | Fd_Is_Blocked | Fd_Save_Activity
| Fd_List_Activities | Fd_Enqueue | Fd_Claim | Fd_Mark | Fd_Pending | Fd_Seen | Fd_Remember | Fd_Purge

record fed_env =
  fd_clock :: time
  fd_fault :: "fed_stmt \<Rightarrow> bool"

datatype fed_error = Fed_Unauthorized | Fed_Forbidden | Fed_Bad_Activity | Fed_Replay | Fed_Database | Fed_Fetch

definition empty_fed :: fed_db where
  "empty_fed = \<lparr>fd_followers = [], fd_following = [], fd_blocks = [], fd_activities = [], fd_queue = [],
     fd_next_job = 1, fd_replay = []\<rparr>"

definition fed_max_inbox_body :: nat where "fed_max_inbox_body = 2 ^ 20"
definition max_actor_body :: nat where "max_actor_body = 256 * 2 ^ 10"
definition max_attempts :: nat where "max_attempts = 12"
definition replay_retain :: time where "replay_retain = 24 * 3600 * second"
definition default_page :: int where "default_page = 20"

text \<open>A statement that writes: it fails, or changes the database.\<close>

definition fed_exec :: "fed_env \<Rightarrow> fed_stmt \<Rightarrow> (fed_db \<Rightarrow> fed_db) \<Rightarrow> fed_db \<Rightarrow> fed_error option \<times> fed_db" where
  "fed_exec env st f db = (if fd_fault env st then (Some Fed_Database, db) else (None, f db))"

definition fed_now :: "fed_env \<Rightarrow> stored_time" where
  "fed_now env = stamp (fd_clock env)"

section \<open>Followers and follows\<close>

definition merge_follower :: "follower \<Rightarrow> follower \<Rightarrow> follower" where
  "merge_follower old new = new\<lparr>fo_actor := fo_actor old, fo_created := fo_created old\<rparr>"

definition upsert_follower :: "fed_env \<Rightarrow> follower \<Rightarrow> fed_db \<Rightarrow> fed_error option \<times> fed_db" where
  "upsert_follower env f db =
     (let f' = (if fo_created f = None then f\<lparr>fo_created := Some (fed_now env)\<rparr> else f) in
      fed_exec env Fd_Write_Follower
        (\<lambda>d. d\<lparr>fd_followers := upsert fo_actor merge_follower f' (fd_followers d)\<rparr>) db)"

definition remove_follower :: "fed_env \<Rightarrow> string \<Rightarrow> fed_db \<Rightarrow> fed_error option \<times> fed_db" where
  "remove_follower env a db =
     fed_exec env Fd_Delete_Follower
       (\<lambda>d. d\<lparr>fd_followers := delete_where (\<lambda>f. fo_actor f = a) (fd_followers d)\<rparr>) db"

definition get_follower :: "fed_env \<Rightarrow> string \<Rightarrow> fed_db \<Rightarrow> fed_error + follower option" where
  "get_follower env a db =
     (if fd_fault env Fd_Get_Follower then Inl Fed_Database else Inr (lookup fo_actor a (fd_followers db)))"

text \<open>\<open>ORDER BY created_at DESC, actor_id\<close>.\<close>

definition created_key :: "follower \<Rightarrow> stored_time \<times> string" where
  "created_key f = (- (case fo_created f of None \<Rightarrow> 0 | Some t \<Rightarrow> t), fo_actor f)"

definition list_followers :: "fed_env \<Rightarrow> int \<Rightarrow> int \<Rightarrow> fed_db \<Rightarrow> fed_error + (follower list \<times> nat)" where
  "list_followers env offset limit db =
     (let lim = (if limit \<le> 0 \<or> limit > 80 then default_page else limit); off = (if offset < 0 then 0 else offset);
          rows = filter fo_accepted (fd_followers db) in
      if fd_fault env Fd_Count_Followers \<or> fd_fault env Fd_List_Followers then Inl Fed_Database
      else Inr (page (nat lim) (nat off) (sort_key created_key rows), length rows))"

definition accepted_inboxes :: "fed_env \<Rightarrow> fed_db \<Rightarrow> fed_error + follower list" where
  "accepted_inboxes env db = map_sum id fst (list_followers env 0 10000 db)"

definition count_followers :: "fed_env \<Rightarrow> fed_db \<Rightarrow> fed_error + nat" where
  "count_followers env db =
     (if fd_fault env Fd_Count_Followers then Inl Fed_Database else Inr (length (filter fo_accepted (fd_followers db))))"

text \<open>SQLite reads a negative OFFSET as zero.\<close>

definition list_following_ids :: "fed_env \<Rightarrow> int \<Rightarrow> int \<Rightarrow> fed_db \<Rightarrow> fed_error + (string list \<times> nat)" where
  "list_following_ids env offset limit db =
     (let lim = (if limit \<le> 0 then default_page else limit); rows = filter fw_accepted (fd_following db) in
      if fd_fault env Fd_Following then Inl Fed_Database
      else Inr (map fw_actor (page (nat lim) (nat offset) (sort_key (\<lambda>f. - fw_created f) rows)), length rows))"

definition upsert_following :: "fed_env \<Rightarrow> string \<Rightarrow> string \<Rightarrow> bool \<Rightarrow> fed_db \<Rightarrow> fed_error option \<times> fed_db" where
  "upsert_following env a inbox acc db =
     fed_exec env Fd_Write_Following
       (\<lambda>d. d\<lparr>fd_following := upsert fw_actor (\<lambda>old new. new\<lparr>fw_actor := fw_actor old, fw_created := fw_created old\<rparr>)
          \<lparr>fw_actor = a, fw_inbox = inbox, fw_accepted = acc, fw_created = fed_now env\<rparr> (fd_following d)\<rparr>) db"

definition following_accepted :: "fed_env \<Rightarrow> string \<Rightarrow> bool \<Rightarrow> fed_db \<Rightarrow> fed_error option \<times> fed_db" where
  "following_accepted env a acc db =
     fed_exec env Fd_Write_Following
       (\<lambda>d. d\<lparr>fd_following := update_where (\<lambda>f. fw_actor f = a) (\<lambda>f. f\<lparr>fw_accepted := acc\<rparr>) (fd_following d)\<rparr>) db"

definition has_outgoing_follow :: "fed_env \<Rightarrow> string \<Rightarrow> fed_db \<Rightarrow> fed_error + bool" where
  "has_outgoing_follow env a db =
     (if fd_fault env Fd_Following then Inl Fed_Database else Inr (lookup fw_actor a (fd_following db) \<noteq> None))"

section \<open>Blocks\<close>

definition put_block :: "stored_time \<Rightarrow> string \<Rightarrow> block_kind \<Rightarrow> block_row list \<Rightarrow> block_row list" where
  "put_block t target kind rows =
     upsert bl_target (\<lambda>old new. old\<lparr>bl_kind := bl_kind new\<rparr>)
       \<lparr>bl_target = target, bl_kind = kind, bl_created = t\<rparr> rows"

definition block_of :: "block_row list \<Rightarrow> string \<Rightarrow> block_kind option" where
  "block_of rows target = map_option bl_kind (lookup bl_target target rows)"

definition block :: "fed_env \<Rightarrow> string \<Rightarrow> block_kind \<Rightarrow> fed_db \<Rightarrow> fed_error option \<times> fed_db" where
  "block env target kind db =
     fed_exec env Fd_Block (\<lambda>d. d\<lparr>fd_blocks := put_block (fed_now env) target kind (fd_blocks d)\<rparr>) db"

definition unblock :: "fed_env \<Rightarrow> string \<Rightarrow> fed_db \<Rightarrow> fed_error option \<times> fed_db" where
  "unblock env target db =
     fed_exec env Fd_Unblock (\<lambda>d. d\<lparr>fd_blocks := delete_where (\<lambda>b. bl_target b = target) (fd_blocks d)\<rparr>) db"

definition is_blocked :: "fed_env \<Rightarrow> string \<Rightarrow> string \<Rightarrow> fed_db \<Rightarrow> fed_error + bool" where
  "is_blocked env a host db =
     (if fd_fault env Fd_Is_Blocked then Inl Fed_Database
      else Inr (list_ex (\<lambda>b. bl_target b = a \<or> bl_target b = host) (fd_blocks db)))"

lemma block_of_put: "block_of (put_block t target kind rows) k = (if k = target then Some kind else block_of rows k)"
  by (auto simp: block_of_def put_block_def lookup_upsert split: option.split)

interpretation blocks: kv_table block_of "put_block t" for t
  by unfold_locales (rule block_of_put)

section \<open>Activities\<close>

definition save_activity :: "fed_env \<Rightarrow> activity_row \<Rightarrow> fed_db \<Rightarrow> fed_error option \<times> fed_db" where
  "save_activity env a db =
     fed_exec env Fd_Save_Activity
       (\<lambda>d. d\<lparr>fd_activities := upsert ac_id (\<lambda>old new. new\<lparr>ac_id := ac_id old\<rparr>) a (fd_activities d)\<rparr>) db"

definition list_activities :: "fed_env \<Rightarrow> int \<Rightarrow> fed_db \<Rightarrow> fed_error + activity_row list" where
  "list_activities env limit db =
     (if fd_fault env Fd_List_Activities then Inl Fed_Database
      else Inr (map (\<lambda>a. a\<lparr>ac_payload := []\<rparr>)
        (page (nat (if limit \<le> 0 then 50 else limit)) 0 (sort_key (\<lambda>a. - ac_published a) (fd_activities db)))))"

section \<open>The queue\<close>

definition queued :: "string \<Rightarrow> string \<Rightarrow> delivery list \<Rightarrow> bool" where
  "queued inbox act q \<longleftrightarrow> list_ex (\<lambda>j. jb_inbox j = inbox \<and> jb_activity j = act) q"

definition enqueue_job :: "stored_time \<Rightarrow> string \<Rightarrow> string \<Rightarrow> string \<Rightarrow> fed_db \<Rightarrow> fed_db" where
  "enqueue_job now inbox act payload d =
     (if queued inbox act (fd_queue d) then d
      else d\<lparr>fd_queue := fd_queue d @
               [\<lparr>jb_id = fd_next_job d, jb_inbox = inbox, jb_activity = act, jb_payload = payload, jb_attempts = 0,
                 jb_max = max_attempts, jb_next = now, jb_error = [], jb_status = Pending\<rparr>],
             fd_next_job := fd_next_job d + 1\<rparr>)"

definition enqueue :: "fed_env \<Rightarrow> string \<Rightarrow> string \<Rightarrow> string \<Rightarrow> fed_db \<Rightarrow> fed_error option \<times> fed_db" where
  "enqueue env inbox act payload db =
     fed_exec env Fd_Enqueue (enqueue_job (fed_now env) inbox act payload) db"

definition due :: "stored_time \<Rightarrow> delivery \<Rightarrow> bool" where
  "due now j \<longleftrightarrow> jb_status j = Pending \<and> jb_next j \<le> now"

definition claim_due :: "fed_env \<Rightarrow> int \<Rightarrow> fed_db \<Rightarrow> fed_error + delivery list" where
  "claim_due env limit db =
     (if fd_fault env Fd_Claim then Inl Fed_Database
      else Inr (page (nat (if limit \<le> 0 then 8 else limit)) 0
        (sort_key jb_next (filter (due (fed_now env)) (fd_queue db)))))"

definition mark_delivered :: "fed_env \<Rightarrow> nat \<Rightarrow> fed_db \<Rightarrow> fed_error option \<times> fed_db" where
  "mark_delivered env i db =
     fed_exec env Fd_Mark (\<lambda>d. d\<lparr>fd_queue := update_where (\<lambda>j. jb_id j = i)
       (\<lambda>j. j\<lparr>jb_status := Delivered, jb_error := []\<rparr>) (fd_queue d)\<rparr>) db"

definition mark_attempt ::
  "fed_env \<Rightarrow> nat \<Rightarrow> nat \<Rightarrow> time \<Rightarrow> string \<Rightarrow> job_status \<Rightarrow> fed_db \<Rightarrow> fed_error option \<times> fed_db" where
  "mark_attempt env i attempts nxt msg st db =
     fed_exec env Fd_Mark (\<lambda>d. d\<lparr>fd_queue := update_where (\<lambda>j. jb_id j = i)
       (\<lambda>j. j\<lparr>jb_attempts := attempts, jb_next := stamp nxt, jb_error := msg, jb_status := st\<rparr>) (fd_queue d)\<rparr>) db"

definition pending_count :: "fed_env \<Rightarrow> fed_db \<Rightarrow> fed_error + nat" where
  "pending_count env db =
     (if fd_fault env Fd_Pending then Inl Fed_Database
      else Inr (length (filter (\<lambda>j. jb_status j = Pending) (fd_queue db))))"

section \<open>Signatures seen\<close>

definition seen_signature :: "fed_env \<Rightarrow> string \<Rightarrow> fed_db \<Rightarrow> fed_error + bool" where
  "seen_signature env h db =
     (if fd_fault env Fd_Seen then Inl Fed_Database else Inr (lookup rp_hash h (fd_replay db) \<noteq> None))"

definition remember_signature :: "fed_env \<Rightarrow> string \<Rightarrow> fed_db \<Rightarrow> fed_error option \<times> fed_db" where
  "remember_signature env h db =
     (if fd_fault env Fd_Remember then (Some Fed_Database, db)
      else
        let rows = (if lookup rp_hash h (fd_replay db) \<noteq> None then fd_replay db
                    else fd_replay db @ [\<lparr>rp_hash = h, rp_seen = fed_now env\<rparr>]);
            cutoff = stamp (fd_clock env - replay_retain) in
        (None, db\<lparr>fd_replay := (if fd_fault env Fd_Purge then rows else delete_where (\<lambda>r. rp_seen r < cutoff) rows)\<rparr>))"

definition payload_type :: "(string \<Rightarrow> json option) \<Rightarrow> string \<Rightarrow> string" where
  "payload_type parse raw = (case decode_map parse raw of None \<Rightarrow> [] | Some m \<Rightarrow> type_of (field ''type'' m))"

section \<open>Properties\<close>

lemma accepted_inboxes_at_most_20:
  assumes "accepted_inboxes env db = Inr fs"
  shows "length fs \<le> 20"
  using assms
  by (auto simp: accepted_inboxes_def list_followers_def Let_def default_page_def page_def map_sum_def
      split: if_split_asm)

text \<open>
  Only twenty followers receive anything. \<open>AcceptedInboxes\<close> asks for ten thousand followers, a limit
  above 80 counts as the default page, so however many followers are accepted at most the 20 newest
  are returned.
\<close>

theorem only_twenty_followers_reached:
  assumes "\<not> fd_fault env Fd_Count_Followers" "\<not> fd_fault env Fd_List_Followers"
  shows "accepted_inboxes env db = Inr (take 20 (sort_key created_key (filter fo_accepted (fd_followers db))))"
  using assms by (simp add: accepted_inboxes_def list_followers_def Let_def default_page_def page_def)

definition demo_fed :: fed_env where
  "demo_fed = \<lparr>fd_clock = 100 * second, fd_fault = (\<lambda>_. False)\<rparr>"

theorem only_twenty_followers_reached_witness:
  "accepted_inboxes demo_fed empty_fed = Inr (take 20 (sort_key created_key (filter fo_accepted (fd_followers empty_fed))))"
  by (rule only_twenty_followers_reached) (simp_all add: demo_fed_def)

text \<open>
  Blocks are a map: after any sequence of \<open>Block\<close> calls every target carries the kind written last,
  and a target is blocked exactly when it is a key.
\<close>

theorem blocks_read_last_write:
  "block_of (fold (\<lambda>(k, v). put_block t k v) kvs rows) a =
     (case map_of (rev kvs) a of None \<Rightarrow> block_of rows a | Some v \<Rightarrow> Some v)"
  by (rule blocks.get_puts)

end
