(* ===== verification/Httpsig.thy ===== *)
theory Httpsig
  imports Http_Header Tunnel_Auth
begin

text \<open>
  \<open>internal/httpsig\<close>: draft-cavage HTTP signatures. \<open>parse.go\<close> reads and prints the \<open>Signature\<close> header,
  \<open>sign.go\<close> signs a request, \<open>verify.go\<close> checks one. RSA, SHA-256 and the HTTP date format are the
  parameters \<open>crypto\<close> and \<open>http_clock\<close>; the parser reads its text byte by byte, which is what the
  code does on valid UTF-8.
\<close>

section \<open>Requests\<close>

record request_url =
  ru_opaque :: string
  ru_path :: string
  ru_query :: string
  ru_host :: string

record sig_request =
  sr_method :: string
  sr_url :: "request_url option"
  sr_host :: string
  sr_header :: header

text \<open>\<open>Time.Format(http.TimeFormat)\<close> and \<open>http.ParseTime\<close>.\<close>

record http_clock =
  format_http :: "time \<Rightarrow> string"
  parse_http :: "string \<Rightarrow> time option"

record sig_params =
  sp_key_id :: string
  sp_algorithm :: string
  sp_headers :: "string list"
  sp_signature :: string

datatype sig_error =
  Missing_Signature | Rfc9421 | No_Key_Or_Signature | Bad_Algorithm string
| Missing_Material | Sign_Failed | Signed_Header_Missing string
| Must_Include string | Missing_Date | Invalid_Date | Date_In_Future | Date_Too_Old
| Digest_Mismatch | Not_Base64 | Lookup_Failed | Unknown_Key | Verify_Failed

section \<open>parse.go\<close>

definition dquote :: char where "dquote = CHR 0x22"

fun split_comma_loop :: "string \<Rightarrow> bool \<Rightarrow> string \<Rightarrow> string list" where
  "split_comma_loop [] in_quote b = (if b \<noteq> [] then [b] else [])"
| "split_comma_loop (r # s) in_quote b =
     (if r = dquote then split_comma_loop s (\<not> in_quote) (b @ [r])
      else if r = CHR '','' then
        (if in_quote then split_comma_loop s in_quote (b @ [r]) else b # split_comma_loop s in_quote [])
      else split_comma_loop s in_quote (b @ [r]))"

definition split_comma :: "string \<Rightarrow> string list" where
  "split_comma s = split_comma_loop s False []"

definition looks_like_rfc9421 :: "string \<Rightarrow> bool" where
  "looks_like_rfc9421 h =
     (let s = trim_space h; lower = to_lower s in
      if s = [] then False
      else if contains lower ''keyid='' then False
      else contains s ''=:'' \<or> contains lower ''sig1='')"

definition set_param :: "string \<Rightarrow> sig_params \<Rightarrow> sig_params" where
  "set_param part p =
     (case cut (CHR ''='') part of (key, val, ok) \<Rightarrow>
        if \<not> ok then p
        else
          let key = to_lower (trim_space key); val = trim_set {dquote} (trim_space val) in
          if key = ''keyid'' then p\<lparr>sp_key_id := val\<rparr>
          else if key = ''algorithm'' then p\<lparr>sp_algorithm := to_lower val\<rparr>
          else if key = ''headers'' then p\<lparr>sp_headers := Go_Strings.fields (to_lower val)\<rparr>
          else if key = ''signature'' then p\<lparr>sp_signature := val\<rparr>
          else p)"

definition no_params :: sig_params where
  "no_params = \<lparr>sp_key_id = [], sp_algorithm = [], sp_headers = [], sp_signature = []\<rparr>"

definition default_params :: "sig_params \<Rightarrow> sig_params" where
  "default_params p =
     (let q = (if sp_headers p = [] then p\<lparr>sp_headers := [''date'']\<rparr> else p) in
      if sp_algorithm q = [] then q\<lparr>sp_algorithm := ''rsa-sha256''\<rparr> else q)"

definition parse_params :: "string \<Rightarrow> sig_error + sig_params" where
  "parse_params h =
     (let s = trim_space h in
      if s = [] then Inl Missing_Signature
      else
        let p = fold set_param (split_comma s) no_params in
        if sp_key_id p = [] \<or> sp_signature p = [] then Inl No_Key_Or_Signature
        else
          let q = default_params p in
          if sp_algorithm q \<noteq> ''rsa-sha256'' \<and> sp_algorithm q \<noteq> ''hs2019'' then Inl (Bad_Algorithm (sp_algorithm q))
          else Inr q)"

fun parse_values :: "string list \<Rightarrow> sig_error option \<Rightarrow> sig_error + sig_params" where
  "parse_values [] err = Inl (case err of Some e \<Rightarrow> e | None \<Rightarrow> Missing_Signature)"
| "parse_values (raw # vals) err =
     (if looks_like_rfc9421 raw then parse_values vals (Some Rfc9421)
      else case parse_params raw of
        Inr p \<Rightarrow> Inr p
      | Inl e \<Rightarrow> parse_values vals (Some e))"

definition parse_request :: "sig_request \<Rightarrow> sig_error + sig_params" where
  "parse_request r =
     (let vals = header_values ''Signature'' (sr_header r); raw = header_get ''Signature'' (sr_header r) in
      parse_values (if vals = [] then (if raw \<noteq> [] then [raw] else []) else vals) None)"

definition quoted :: "string \<Rightarrow> string" where
  "quoted s = dquote # s @ [dquote]"

definition params_header :: "sig_params \<Rightarrow> string" where
  "params_header p =
     ''keyId='' @ quoted (sp_key_id p) @ '',algorithm='' @ quoted ''rsa-sha256'' @
     '',headers='' @ quoted (join '' '' (sp_headers p)) @ '',signature='' @ quoted (sp_signature p)"

section \<open>sign.go\<close>

definition default_headers :: "string list" where
  "default_headers = [''(request-target)'', ''host'', ''date'', ''digest'']"

definition get_headers :: "string list" where
  "get_headers = [''(request-target)'', ''host'', ''date'']"

definition digest_sha256 :: "crypto \<Rightarrow> string \<Rightarrow> string" where
  "digest_sha256 cr body = ''SHA-256='' @ b64_encode (sha256 cr body)"

definition request_target :: "sig_request \<Rightarrow> string" where
  "request_target r =
     (let path = (case sr_url r of
            None \<Rightarrow> ''/''
          | Some u \<Rightarrow>
              (if ru_opaque u \<noteq> [] then ru_opaque u else if ru_path u \<noteq> [] then ru_path u else ''/'') @
              (if ru_query u \<noteq> [] then ''?'' @ ru_query u else [])) in
      to_lower (sr_method r) @ '' '' @ path)"

definition signed_value :: "sig_request \<Rightarrow> string \<Rightarrow> string" where
  "signed_value r h =
     (if h = ''(request-target)'' then request_target r
      else if h = ''host'' then (if sr_host r = [] then header_get ''Host'' (sr_header r) else sr_host r)
      else header_get h (sr_header r))"

fun signing_lines :: "sig_request \<Rightarrow> string list \<Rightarrow> sig_error + string list" where
  "signing_lines r [] = Inr []"
| "signing_lines r (h # hs) =
     (let h = to_lower (trim_space h); val = signed_value r h in
      if val = [] then Inl (Signed_Header_Missing h)
      else map_sum id (\<lambda>ls. (h @ '': '' @ val) # ls) (signing_lines r hs))"

definition signing_string :: "sig_request \<Rightarrow> string list \<Rightarrow> sig_error + string" where
  "signing_string r hs = map_sum id (join [CHR 0x0A]) (signing_lines r hs)"

definition prepare :: "http_clock \<Rightarrow> time \<Rightarrow> sig_request \<Rightarrow> sig_request" where
  "prepare hc now r =
     (let r1 = (if header_get ''Date'' (sr_header r) = []
                then r\<lparr>sr_header := header_set ''Date'' (format_http hc now) (sr_header r)\<rparr> else r);
          r2 = (case sr_url r1 of
                  Some u \<Rightarrow> if sr_host r1 = [] then r1\<lparr>sr_host := ru_host u\<rparr> else r1
                | None \<Rightarrow> r1) in
      if header_get ''Host'' (sr_header r2) = [] \<and> sr_host r2 \<noteq> []
      then r2\<lparr>sr_header := header_set ''Host'' (sr_host r2) (sr_header r2)\<rparr> else r2)"

text \<open>The steps the two signing functions share: build the text, sign its hash, add the header.\<close>

definition add_signature :: "crypto \<Rightarrow> string \<Rightarrow> string \<Rightarrow> string list \<Rightarrow> sig_request \<Rightarrow> sig_error option \<times> sig_request" where
  "add_signature cr key_id key hs r =
     (case signing_string r hs of
        Inl e \<Rightarrow> (Some e, r)
      | Inr s \<Rightarrow>
          (case rsa_sign cr key (sha256 cr s) of
             None \<Rightarrow> (Some Sign_Failed, r)
           | Some sg \<Rightarrow>
               (None, r\<lparr>sr_header := header_set ''Signature''
                  (params_header \<lparr>sp_key_id = key_id, sp_algorithm = ''rsa-sha256'', sp_headers = hs,
                     sp_signature = b64_encode sg\<rparr>) (sr_header r)\<rparr>)))"

definition sign_request ::
  "crypto \<Rightarrow> http_clock \<Rightarrow> time \<Rightarrow> string \<Rightarrow> string option \<Rightarrow> string \<Rightarrow> sig_request \<Rightarrow> sig_error option \<times> sig_request" where
  "sign_request cr hc now key_id key body r =
     (case key of
        None \<Rightarrow> (Some Missing_Material, r)
      | Some k \<Rightarrow>
          if key_id = [] then (Some Missing_Material, r)
          else let r1 = prepare hc now r in
            add_signature cr key_id k default_headers
              (r1\<lparr>sr_header := header_set ''Digest'' (digest_sha256 cr body) (sr_header r1)\<rparr>))"

definition sign_get ::
  "crypto \<Rightarrow> http_clock \<Rightarrow> time \<Rightarrow> string \<Rightarrow> string option \<Rightarrow> sig_request \<Rightarrow> sig_error option \<times> sig_request" where
  "sign_get cr hc now key_id key r =
     (case key of
        None \<Rightarrow> (Some Missing_Material, r)
      | Some k \<Rightarrow>
          if key_id = [] then (Some Missing_Material, r)
          else add_signature cr key_id k get_headers (prepare hc now r))"

section \<open>verify.go\<close>

definition max_skew :: time where "max_skew = 30 * second"
definition max_age :: time where "max_age = 12 * 3600 * second"

definition required_headers :: "string \<Rightarrow> string list" where
  "required_headers meth =
     [''date''] @ (if equal_fold meth ''POST'' \<or> equal_fold meth ''PUT'' then [''digest''] else [])"

definition require_headers :: "string list \<Rightarrow> string \<Rightarrow> sig_error option" where
  "require_headers hs meth = map_option Must_Include (List.find (\<lambda>h. h \<notin> set hs) (required_headers meth))"

definition check_date :: "http_clock \<Rightarrow> string \<Rightarrow> time \<Rightarrow> sig_error option" where
  "check_date hc raw now =
     (if raw = [] then Some Missing_Date
      else case parse_http hc raw of
        None \<Rightarrow> Some Invalid_Date
      | Some t \<Rightarrow>
          if t > now + max_skew then Some Date_In_Future
          else if now - t > max_age then Some Date_Too_Old
          else None)"

definition digest_equal :: "string \<Rightarrow> string \<Rightarrow> bool" where
  "digest_equal got want \<longleftrightarrow> equal_fold (trim_space got) (trim_space want)"

text \<open>Everything up to the key lookup: the parameters, the text they sign and the signature's bytes.\<close>

definition verify_prepare ::
  "crypto \<Rightarrow> http_clock \<Rightarrow> sig_request \<Rightarrow> string \<Rightarrow> time \<Rightarrow> sig_error + (sig_params \<times> string \<times> string)" where
  "verify_prepare cr hc r body now =
     (case parse_request r of
        Inl e \<Rightarrow> Inl e
      | Inr p \<Rightarrow>
          (case require_headers (sp_headers p) (sr_method r) of
             Some e \<Rightarrow> Inl e
           | None \<Rightarrow>
               (case check_date hc (header_get ''Date'' (sr_header r)) now of
                  Some e \<Rightarrow> Inl e
                | None \<Rightarrow>
                    if ''digest'' \<in> set (sp_headers p) \<and>
                       \<not> digest_equal (header_get ''Digest'' (sr_header r)) (digest_sha256 cr body)
                    then Inl Digest_Mismatch
                    else (case signing_string r (sp_headers p) of
                       Inl e \<Rightarrow> Inl e
                     | Inr s \<Rightarrow>
                         (case b64_decode (sp_signature p) of
                            None \<Rightarrow> Inl Not_Base64
                          | Some raw \<Rightarrow> Inr (p, s, raw))))))"

text \<open>
  The lookup of the key may change the state of the caller (a key cache), so it is threaded through.
  A lookup gives an error, no key, or a key.
\<close>

definition verify_request_at ::
  "crypto \<Rightarrow> http_clock \<Rightarrow> sig_request \<Rightarrow> string \<Rightarrow> (string \<Rightarrow> 's \<Rightarrow> (sig_error + string option) \<times> 's) \<Rightarrow> time \<Rightarrow> 's \<Rightarrow>
   (sig_error + sig_params) \<times> 's" where
  "verify_request_at cr hc r body lookup_key now st =
     (case verify_prepare cr hc r body now of
        Inl e \<Rightarrow> (Inl e, st)
      | Inr (p, s, raw) \<Rightarrow>
          (case lookup_key (sp_key_id p) st of
             (Inl e, st1) \<Rightarrow> (Inl e, st1)
           | (Inr None, st1) \<Rightarrow> (Inl Unknown_Key, st1)
           | (Inr (Some pub), st1) \<Rightarrow>
               (if rsa_verify cr pub (sha256 cr s) raw then Inr p else Inl Verify_Failed, st1)))"

definition hash_signature :: "crypto \<Rightarrow> string \<Rightarrow> string" where
  "hash_signature cr sg = hex_encode (sha256 cr sg)"

section \<open>The header is read back\<close>

lemma split_quoted:
  "dquote \<notin> set s \<Longrightarrow> split_comma_loop (s @ dquote # t) True b = split_comma_loop t False (b @ s @ [dquote])"
  by (induction s arbitrary: b) (auto simp: dquote_def)

lemma split_plain:
  "dquote \<notin> set s \<Longrightarrow> CHR '','' \<notin> set s \<Longrightarrow> split_comma_loop (s @ t) False b = split_comma_loop t False (b @ s)"
  by (induction s arbitrary: b) auto

lemma split_item:
  assumes "dquote \<notin> set n" "CHR '','' \<notin> set n" "dquote \<notin> set v"
  shows "split_comma_loop (n @ quoted v @ t) False b = split_comma_loop t False (b @ n @ quoted v)"
  using assms by (simp add: split_plain quoted_def split_quoted)

lemma split_between: "split_comma_loop (CHR '','' # t) False b = b # split_comma_loop t False []"
  by (simp add: dquote_def)

definition word_ok :: "string \<Rightarrow> bool" where
  "word_ok w \<longleftrightarrow> w \<noteq> [] \<and> dquote \<notin> set w \<and> list_all (\<lambda>c. \<not> is_space c) w \<and> to_lower w = w"

definition params_ok :: "sig_params \<Rightarrow> bool" where
  "params_ok p \<longleftrightarrow> sp_key_id p \<noteq> [] \<and> dquote \<notin> set (sp_key_id p) \<and> sp_signature p \<noteq> [] \<and> dquote \<notin> set (sp_signature p) \<and>
     sp_algorithm p = ''rsa-sha256'' \<and> sp_headers p \<noteq> [] \<and> list_all word_ok (sp_headers p)"

lemma trim_quoted: "trim_space (quoted s) = quoted s"
  by (rule trim_space_fix) (auto simp: quoted_def dquote_def is_space_def)

lemma drop_absent: "x \<notin> set s \<Longrightarrow> dropWhile (\<lambda>c. c \<in> {x}) s = s"
  by (cases s) auto

lemma unquote: "dquote \<notin> set s \<Longrightarrow> trim_set {dquote} (quoted s) = s"
proof (cases s)
  case (Cons c t)
  assume a: "dquote \<notin> set s"
  then have "dropWhile (\<lambda>c. c \<in> {dquote}) (quoted s) = s @ [dquote]"
    by (auto simp: quoted_def Cons)
  moreover have "dropWhile (\<lambda>c. c \<in> {dquote}) (rev s) = rev s" using a by (intro drop_absent) simp
  ultimately show ?thesis by (simp add: trim_set_def)
qed (simp add: trim_set_def quoted_def)

lemma word_okD: "word_ok w \<Longrightarrow> w \<noteq> [] \<and> (\<forall>c \<in> set w. \<not> is_space c)" "word_ok w \<Longrightarrow> dquote \<notin> set w"
  "word_ok w \<Longrightarrow> to_lower w = w"
  by (auto simp: word_ok_def list_all_iff)

lemma join_words:
  assumes "list_all word_ok ws"
  shows "dquote \<notin> set (join '' '' ws)" "to_lower (join '' '' ws) = join '' '' ws"
    "Go_Strings.fields (join '' '' ws) = ws"
proof -
  have sp: "\<And>s. to_lower (CHR '' '' # s) = CHR '' '' # to_lower s"
    by (simp add: to_lower_def lower_char_def is_upper_def byte_def)
  have qp: "dquote \<notin> set '' ''" by code_simp+
  show "dquote \<notin> set (join '' '' ws)"
    using assms qp by (induction "'' ''" ws rule: join.induct) (auto dest: word_okD)
  show "to_lower (join '' '' ws) = join '' '' ws"
    using assms by (induction "'' ''" ws rule: join.induct) (simp_all add: sp word_okD)
  show "Go_Strings.fields (join '' '' ws) = ws"
    by (rule fields_join) (use assms in \<open>auto simp: list_all_iff dest: word_okD\<close>)
qed

lemma set_param_item:
  assumes "dquote \<notin> set v"
  shows "set_param (''keyId='' @ quoted v) p = p\<lparr>sp_key_id := v\<rparr>"
    and "set_param (''algorithm='' @ quoted v) p = p\<lparr>sp_algorithm := to_lower v\<rparr>"
    and "set_param (''headers='' @ quoted v) p = p\<lparr>sp_headers := Go_Strings.fields (to_lower v)\<rparr>"
    and "set_param (''signature='' @ quoted v) p = p\<lparr>sp_signature := v\<rparr>"
proof -
  have names: "to_lower (trim_space ''keyId'') = ''keyid''" "to_lower (trim_space ''algorithm'') = ''algorithm''"
    "to_lower (trim_space ''headers'') = ''headers''" "to_lower (trim_space ''signature'') = ''signature''"
    by code_simp+
  note item = set_param_def trim_quoted unquote [OF assms] names
  show "set_param (''keyId='' @ quoted v) p = p\<lparr>sp_key_id := v\<rparr>"
    and "set_param (''algorithm='' @ quoted v) p = p\<lparr>sp_algorithm := to_lower v\<rparr>"
    and "set_param (''headers='' @ quoted v) p = p\<lparr>sp_headers := Go_Strings.fields (to_lower v)\<rparr>"
    and "set_param (''signature='' @ quoted v) p = p\<lparr>sp_signature := v\<rparr>"
    using names by (simp_all add: set_param_def trim_quoted unquote [OF assms])
qed

lemma split_params_header:
  assumes "params_ok p"
  shows "split_comma (params_header p) =
    [''keyId='' @ quoted (sp_key_id p), ''algorithm='' @ quoted ''rsa-sha256'',
     ''headers='' @ quoted (join '' '' (sp_headers p)), ''signature='' @ quoted (sp_signature p)]"
proof -
  have n: "dquote \<notin> set ''keyId=''" "CHR '','' \<notin> set ''keyId=''" "dquote \<notin> set ''algorithm=''" "CHR '','' \<notin> set ''algorithm=''"
    "dquote \<notin> set ''headers=''" "CHR '','' \<notin> set ''headers=''" "dquote \<notin> set ''signature=''" "CHR '','' \<notin> set ''signature=''"
    "dquote \<notin> set ''rsa-sha256''"
    by code_simp+
  have v: "dquote \<notin> set (sp_key_id p)" "dquote \<notin> set (join '' '' (sp_headers p))" "dquote \<notin> set (sp_signature p)"
    using assms by (auto simp: params_ok_def join_words)
  have h: "params_header p = ''keyId='' @ quoted (sp_key_id p) @ CHR '','' # ''algorithm='' @ quoted ''rsa-sha256'' @
      CHR '','' # ''headers='' @ quoted (join '' '' (sp_headers p)) @ CHR '','' # ''signature='' @ quoted (sp_signature p) @ []"
    by (simp add: params_header_def)
  show ?thesis
    unfolding split_comma_def h
    by (simp only: split_item [OF n(1,2) v(1)] split_item [OF n(3,4,9)] split_item [OF n(5,6) v(2)]
        split_item [OF n(7,8) v(3)] split_between split_comma_loop.simps(1) append_Nil)
      (simp add: quoted_def)
qed

lemma params_header_ends: "trim_space (params_header p) = params_header p"
  by (rule trim_space_fix) (simp add: params_header_def quoted_def dquote_def is_space_def)

lemma parse_params_header: "params_ok p \<Longrightarrow> parse_params (params_header p) = Inr p"
proof -
  assume ok: "params_ok p"
  then have q: "dquote \<notin> set (sp_key_id p)" "dquote \<notin> set ''rsa-sha256''" "dquote \<notin> set (sp_signature p)"
    by (auto simp: params_ok_def dquote_def)
  have j: "dquote \<notin> set (join '' '' (sp_headers p))" "to_lower (join '' '' (sp_headers p)) = join '' '' (sp_headers p)"
    "Go_Strings.fields (join '' '' (sp_headers p)) = sp_headers p"
    using ok by (simp_all add: params_ok_def join_words)
  have r: "to_lower ''rsa-sha256'' = ''rsa-sha256''" by code_simp
  have "fold set_param (split_comma (params_header p)) no_params = p"
    unfolding split_params_header [OF ok]
    using ok by (simp only: fold_simps id_apply comp_def set_param_item(1) [OF q(1)] set_param_item(2) [OF q(2)]
        set_param_item(3) [OF j(1)] set_param_item(4) [OF q(3)] j r)
      (simp add: no_params_def params_ok_def)
  moreover have "params_header p \<noteq> []" by (simp add: params_header_def)
  ultimately show ?thesis
    using ok by (simp add: parse_params_def params_header_ends Let_def params_ok_def default_params_def)
qed

section \<open>What is signed verifies\<close>

lemma header_get_other: "canonical_key j \<noteq> canonical_key k \<Longrightarrow> header_get j (header_set k v h) = header_get j h"
  by (simp add: header_get_def header_values_def header_set_def)

lemma signing_lines_cong:
  "(\<And>h. h \<in> set hs \<Longrightarrow> signed_value r (to_lower (trim_space h)) = signed_value r' (to_lower (trim_space h))) \<Longrightarrow>
   signing_lines r hs = signing_lines r' hs"
  by (induction hs) (simp_all add: Let_def)

lemma sig_keys:
  "canonical_key ''Signature'' = ''Signature''" "canonical_key ''Digest'' = ''Digest''" "canonical_key ''digest'' = ''Digest''"
  "canonical_key ''Date'' = ''Date''" "canonical_key ''date'' = ''Date''" "canonical_key ''Host'' = ''Host''"
  by code_simp+

lemma norm_headers:
  "map (\<lambda>h. to_lower (trim_space h)) default_headers = default_headers"
  "map (\<lambda>h. to_lower (trim_space h)) get_headers = get_headers"
  "list_all word_ok default_headers" "list_all word_ok get_headers"
  by code_simp+

lemma parse_request_header:
  assumes "params_ok p"
  shows "parse_request (r\<lparr>sr_header := header_set ''Signature'' (params_header p) h\<rparr>) = Inr p"
proof -
  obtain t where t: "params_header p = ''keyId='' @ t" by (simp add: params_header_def)
  have "to_lower ''keyId='' = ''keyid=''" by code_simp
  then have "to_lower (params_header p) = ''keyid='' @ to_lower t" by (simp only: t to_lower_append)
  then have "contains (to_lower (params_header p)) ''keyid=''" unfolding contains_iff by (metis append_Nil)
  then have "\<not> looks_like_rfc9421 (params_header p)"
    by (simp add: looks_like_rfc9421_def params_header_ends)
  moreover have "header_values ''Signature'' (header_set ''Signature'' (params_header p) h) = [params_header p]"
    by (simp add: header_values_def header_set_def)
  ultimately show ?thesis by (simp add: parse_request_def parse_params_header [OF assms] Let_def)
qed

definition signed_params :: "string \<Rightarrow> string list \<Rightarrow> string \<Rightarrow> sig_params" where
  "signed_params key_id hs sg =
     \<lparr>sp_key_id = key_id, sp_algorithm = ''rsa-sha256'', sp_headers = hs, sp_signature = b64_encode sg\<rparr>"

lemma b64_char_quote: "n < 64 \<Longrightarrow> dquote \<noteq> b64_char n"
proof -
  have "dquote \<notin> set b64_alphabet" by code_simp
  then show "n < 64 \<Longrightarrow> dquote \<noteq> b64_char n"
    using b64_table(2) nth_mem [of n b64_alphabet] by (auto simp: b64_char_def simp del: nth_mem)
qed

lemma b64_no_quote: "dquote \<notin> set (b64_encode s)"
proof -
  have "dquote \<noteq> CHR ''=''" by code_simp
  then show ?thesis
    by (induction s rule: b64_encode.induct) (simp_all add: b64_char_quote six_bits)
qed

lemma signed_params_ok:
  assumes "key_id \<noteq> []" "dquote \<notin> set key_id" "sg \<noteq> []" "hs \<noteq> []" "list_all word_ok hs"
  shows "params_ok (signed_params key_id hs sg)"
proof -
  have "b64_encode sg \<noteq> []" using assms(3) by (cases sg rule: b64_encode.cases) auto
  then show ?thesis using assms b64_no_quote by (simp add: params_ok_def signed_params_def)
qed

lemma verify_prepare_iff:
  "verify_prepare cr hc r body now = Inr (p, s, raw) \<longleftrightarrow>
     parse_request r = Inr p \<and> require_headers (sp_headers p) (sr_method r) = None \<and>
     check_date hc (header_get ''Date'' (sr_header r)) now = None \<and>
     (''digest'' \<in> set (sp_headers p) \<longrightarrow> digest_equal (header_get ''Digest'' (sr_header r)) (digest_sha256 cr body)) \<and>
     signing_string r (sp_headers p) = Inr s \<and> b64_decode (sp_signature p) = Some raw"
  by (auto simp: verify_prepare_def split: sum.split option.split)

lemma verify_request_iff:
  "verify_request_at cr hc r body lookup_key now st = (Inr p, st1) \<longleftrightarrow>
     (\<exists>s raw pub. verify_prepare cr hc r body now = Inr (p, s, raw) \<and>
        lookup_key (sp_key_id p) st = (Inr (Some pub), st1) \<and> rsa_verify cr pub (sha256 cr s) raw)"
  by (auto simp: verify_request_at_def split: sum.split option.split prod.split)

lemma add_signature_prepares:
  assumes "add_signature cr key_id key hs r = (None, r')"
    and sg: "\<forall>d sg. rsa_sign cr key d = Some sg \<longrightarrow> sg \<noteq> []"
    and "key_id \<noteq> []" "dquote \<notin> set key_id" "hs \<noteq> []" "list_all word_ok hs"
    and plain: "list_all (\<lambda>h. canonical_key (to_lower (trim_space h)) \<noteq> ''Signature'') hs"
    and "require_headers hs (sr_method r) = None"
    and "check_date hc (header_get ''Date'' (sr_header r)) now = None"
    and "''digest'' \<in> set hs \<longrightarrow> digest_equal (header_get ''Digest'' (sr_header r)) (digest_sha256 cr body)"
  shows "\<exists>msg sg. rsa_sign cr key (sha256 cr msg) = Some sg \<and>
           verify_prepare cr hc r' body now = Inr (signed_params key_id hs sg, msg, sg)"
proof -
  from assms(1) obtain msg sgn where t: "signing_string r hs = Inr msg" "rsa_sign cr key (sha256 cr msg) = Some sgn"
    and r': "r' = r\<lparr>sr_header := header_set ''Signature'' (params_header (signed_params key_id hs sgn)) (sr_header r)\<rparr>"
    by (auto simp: add_signature_def signed_params_def split: sum.splits option.splits)
  have ok: "params_ok (signed_params key_id hs sgn)"
    using signed_params_ok assms(3-6) sg t(2) by blast
  have "signed_value r' (to_lower (trim_space h)) = signed_value r (to_lower (trim_space h))" if "h \<in> set hs" for h
    using plain that sig_keys by (simp add: list_all_iff r' signed_value_def header_get_other request_target_def)
  then have "signing_string r' hs = Inr msg"
    using t(1) unfolding signing_string_def by (subst signing_lines_cong [of hs r' r]) auto
  moreover have "header_get ''Date'' (sr_header r') = header_get ''Date'' (sr_header r)"
    "header_get ''Digest'' (sr_header r') = header_get ''Digest'' (sr_header r)" "sr_method r' = sr_method r"
    using sig_keys by (simp_all add: r' header_get_other)
  ultimately show ?thesis
    using t(2) parse_request_header [OF ok, where r = r and h = "sr_header r"] assms(8-10)
    unfolding verify_prepare_iff r' [symmetric] by (intro exI [of _ msg] exI [of _ sgn]) (simp add: signed_params_def)
qed

definition rsa_pair :: "crypto \<Rightarrow> string \<Rightarrow> string \<Rightarrow> bool" where
  "rsa_pair cr key pub \<longleftrightarrow> (\<forall>d sg. rsa_sign cr key d = Some sg \<longrightarrow> sg \<noteq> [] \<and> rsa_verify cr pub d sg)"

lemma prepare_keeps:
  "header_get ''Date'' (sr_header r) = [] \<Longrightarrow>
   header_get ''Date'' (sr_header (prepare hc now r)) = format_http hc now \<and> sr_method (prepare hc now r) = sr_method r"
  using sig_keys by (auto simp: prepare_def Let_def header_get_other split: option.split)

lemma default_header_facts:
  "default_headers \<noteq> []" "''digest'' \<in> set default_headers" "''date'' \<in> set default_headers"
  "list_all (\<lambda>h. canonical_key (to_lower (trim_space h)) \<noteq> ''Signature'') default_headers"
  by code_simp+

lemma require_default: "require_headers default_headers m = None"
  using default_header_facts(2,3) by (auto simp: require_headers_def required_headers_def find_None_iff)

lemma sign_then_verify:
  assumes "sign_request cr hc now key_id (Some key) body r = (None, r')"
    and "rsa_pair cr key pub" "dquote \<notin> set key_id" "header_get ''Date'' (sr_header r) = []"
    and "check_date hc (format_http hc now) later = None"
    and "lookup_key key_id st = (Inr (Some pub), st1)"
  shows "\<exists>sg. verify_request_at cr hc r' body lookup_key later st = (Inr (signed_params key_id default_headers sg), st1)"
proof -
  let ?r = "prepare hc now r"
  let ?s = "?r\<lparr>sr_header := header_set ''Digest'' (digest_sha256 cr body) (sr_header ?r)\<rparr>"
  from assms(1) have a: "add_signature cr key_id key default_headers ?s = (None, r')" and k: "key_id \<noteq> []"
    by (auto simp: sign_request_def Let_def split: if_splits)
  have d: "header_get ''Date'' (sr_header ?s) = format_http hc now" "sr_method ?s = sr_method r"
    using prepare_keeps [OF assms(4)] sig_keys by (simp_all add: header_get_other)
  have g: "digest_equal (header_get ''Digest'' (sr_header ?s)) (digest_sha256 cr body)"
    by (simp add: digest_equal_def equal_fold_def)
  have c: "check_date hc (header_get ''Date'' (sr_header ?s)) later = None" using assms(5) d(1) by simp
  have n: "\<forall>d sg. rsa_sign cr key d = Some sg \<longrightarrow> sg \<noteq> []" using assms(2) by (auto simp: rsa_pair_def)
  obtain msg sg where "rsa_sign cr key (sha256 cr msg) = Some sg"
    "verify_prepare cr hc r' body later = Inr (signed_params key_id default_headers sg, msg, sg)"
    using add_signature_prepares [OF a n k assms(3) default_header_facts(1) norm_headers(3) default_header_facts(4)
        require_default c impI [OF g]] by blast
  then show ?thesis
    using assms(2,6) by (auto simp: verify_request_at_def signed_params_def rsa_pair_def)
qed

section \<open>What a verified signature says\<close>

lemma check_date_None: "check_date hc raw now = None \<longleftrightarrow>
  raw \<noteq> [] \<and> (\<exists>t. parse_http hc raw = Some t \<and> now - max_age \<le> t \<and> t \<le> now + max_skew)"
  by (auto simp: check_date_def split: option.split)

lemma require_headers_None: "require_headers hs m = None \<longleftrightarrow> set (required_headers m) \<subseteq> set hs"
  by (auto simp: require_headers_def find_None_iff)

lemma verify_sound:
  assumes "verify_request_at cr hc r body lookup_key now st = (Inr p, st1)"
  shows "\<exists>s raw pub t. lookup_key (sp_key_id p) st = (Inr (Some pub), st1) \<and>
    parse_request r = Inr p \<and> signing_string r (sp_headers p) = Inr s \<and> b64_decode (sp_signature p) = Some raw \<and>
    rsa_verify cr pub (sha256 cr s) raw \<and> ''date'' \<in> set (sp_headers p) \<and>
    parse_http hc (header_get ''Date'' (sr_header r)) = Some t \<and> now - max_age \<le> t \<and> t \<le> now + max_skew \<and>
    (equal_fold (sr_method r) ''POST'' \<longrightarrow> ''digest'' \<in> set (sp_headers p) \<and>
       digest_equal (header_get ''Digest'' (sr_header r)) (digest_sha256 cr body))"
  using assms unfolding verify_request_iff verify_prepare_iff check_date_None require_headers_None
  by (auto simp: required_headers_def)

lemma signing_string_other_target:
  assumes "list_all (\<lambda>h. to_lower (trim_space h) \<notin> {''(request-target)'', ''host''}) hs"
  shows "signing_string (r\<lparr>sr_url := u, sr_host := h\<rparr>) hs = signing_string r hs"
  unfolding signing_string_def using assms
  by (subst signing_lines_cong [of hs "r\<lparr>sr_url := u, sr_host := h\<rparr>" r]) (auto simp: signed_value_def list_all_iff)

text \<open>
  The other text of a signature is accepted as well, so the signature's text does not identify a message.
\<close>

lemma respelled_verifies:
  assumes "verify_request_at cr hc (r\<lparr>sr_header := header_set ''Signature'' (params_header (signed_params kid hs sg)) h\<rparr>)
      body lookup_key now st = (Inr p, st1)"
    and "kid \<noteq> []" "dquote \<notin> set kid" "hs \<noteq> []" "list_all word_ok hs" "length sg mod 3 = 1"
    and plain: "list_all (\<lambda>h. canonical_key (to_lower (trim_space h)) \<noteq> ''Signature'') hs"
  defines "q \<equiv> (signed_params kid hs sg)\<lparr>sp_signature := respell (b64_encode sg)\<rparr>"
  shows "p = signed_params kid hs sg"
    and "verify_request_at cr hc (r\<lparr>sr_header := header_set ''Signature'' (params_header q) h\<rparr>)
      body lookup_key now st = (Inr q, st1)"
proof -
  let ?p = "signed_params kid hs sg"
  let ?r = "r\<lparr>sr_header := header_set ''Signature'' (params_header ?p) h\<rparr>"
  let ?s = "r\<lparr>sr_header := header_set ''Signature'' (params_header q) h\<rparr>"
  note other = respell_decodes [OF assms(6)]
  have ne: "sg \<noteq> []" using assms(6) by auto
  then have ok: "params_ok ?p" using signed_params_ok assms(2-5) by blast
  have "dquote \<notin> insert (CHR ''='') (set b64_alphabet)" by code_simp
  then have "dquote \<notin> set (respell (b64_encode sg))" using other(3) by blast
  moreover have "respell (b64_encode sg) \<noteq> []" using other(1) ne by (auto simp: b64_decode_def)
  ultimately have okq: "params_ok q" using ok by (simp add: q_def params_ok_def)
  have "signed_value ?s (to_lower (trim_space k)) = signed_value ?r (to_lower (trim_space k))" if "k \<in> set hs" for k
    using plain that sig_keys by (simp add: list_all_iff signed_value_def header_get_other request_target_def)
  then have lines: "signing_string ?s hs = signing_string ?r hs"
    unfolding signing_string_def by (subst signing_lines_cong [of hs ?s ?r]) auto
  have p: "parse_request ?r = Inr ?p" "parse_request ?s = Inr q"
    by (rule parse_request_header [OF ok], rule parse_request_header [OF okq])
  show "p = ?p" using assms(1) p by (auto simp: verify_request_iff verify_prepare_iff)
  then show "verify_request_at cr hc ?s body lookup_key now st = (Inr q, st1)"
    using assms(1) p lines other(1) sig_keys unfolding verify_request_iff verify_prepare_iff
    by (auto simp: header_get_other q_def signed_params_def)
qed

section \<open>Properties\<close>

text \<open>
  \<open>Params.Header\<close> and \<open>Parse\<close> are inverse on the parameters a signer produces: a key id without
  double quotes, lower-case header names, a signature text without double quotes.
\<close>

theorem signature_header_roundtrip:
  assumes "params_ok p"
  shows "parse_params (params_header p) = Inr p"
  using assms by (rule parse_params_header)

definition demo_params :: sig_params where
  "demo_params = signed_params ''https://a.example/actor#main-key'' default_headers ''sig''"

theorem signature_header_roundtrip_witness: "parse_params (params_header demo_params) = Inr demo_params"
  by (rule signature_header_roundtrip) code_simp

text \<open>
  C22. A request signed with \<open>SignRequest\<close> passes \<open>VerifyRequestAt\<close> under the signer's key as long as its
  date is inside the window, and the verifier reports the signer's key id.
\<close>

theorem signed_request_verifies:
  assumes "sign_request cr hc now key_id (Some key) body r = (None, r')"
    and "rsa_pair cr key pub" "dquote \<notin> set key_id" "header_get ''Date'' (sr_header r) = []"
    and "check_date hc (format_http hc now) later = None"
    and "lookup_key key_id st = (Inr (Some pub), st1)"
  shows "\<exists>sg. verify_request_at cr hc r' body lookup_key later st = (Inr (signed_params key_id default_headers sg), st1)"
  by (rule sign_then_verify [OF assms(1-5), of lookup_key st st1]) (rule assms(6))

definition demo_keys :: crypto where
  "demo_keys = \<lparr>parse_public = (\<lambda>k. if k = [] then None else Some k), rsa_verify = (\<lambda>pub d raw. raw = pub @ d),
     rsa_sign = (\<lambda>k d. Some (k @ d)), sha256 = (\<lambda>m. take 8 (rev m @ ''00000000'')), parse_rfc3339 = (\<lambda>_. None),
     parse_json = (\<lambda>_. None), print_json = (\<lambda>_. [])\<rparr>"

definition demo_http_clock :: http_clock where
  "demo_http_clock = \<lparr>format_http = (\<lambda>_. ''Thu, 01 Jan 1970 00:01:40 GMT''), parse_http = (\<lambda>_. Some (100 * second))\<rparr>"

definition demo_post :: sig_request where
  "demo_post = \<lparr>sr_method = ''POST'', sr_url = Some \<lparr>ru_opaque = [], ru_path = ''/inbox'', ru_query = [], ru_host = ''b.example''\<rparr>,
     sr_host = [], sr_header = Map.empty\<rparr>"

definition demo_key_id :: string where "demo_key_id = ''https://a.example/actor#main-key''"

definition demo_signed :: sig_request where
  "demo_signed = snd (sign_request demo_keys demo_http_clock (100 * second) demo_key_id (Some ''KEY12'') ''body'' demo_post)"

definition demo_lookup :: "string \<Rightarrow> nat \<Rightarrow> (sig_error + string option) \<times> nat" where
  "demo_lookup k n = (Inr (Some ''KEY12''), n + 1)"

lemma demo_signs:
  "sign_request demo_keys demo_http_clock (100 * second) demo_key_id (Some ''KEY12'') ''body'' demo_post = (None, demo_signed)"
proof -
  have "fst (sign_request demo_keys demo_http_clock (100 * second) demo_key_id (Some ''KEY12'') ''body'' demo_post) = None"
    by code_simp
  then show ?thesis by (simp add: demo_signed_def prod_eq_iff)
qed

lemma demo_facts:
  "rsa_pair demo_keys ''KEY12'' ''KEY12''" "dquote \<notin> set demo_key_id" "header_get ''Date'' (sr_header demo_post) = []"
  "check_date demo_http_clock (format_http demo_http_clock (100 * second)) (150 * second) = None"
  "demo_lookup demo_key_id 0 = (Inr (Some ''KEY12''), 1)"
proof -
  show "rsa_pair demo_keys ''KEY12'' ''KEY12''" by (auto simp: rsa_pair_def demo_keys_def)
  show "dquote \<notin> set demo_key_id" "header_get ''Date'' (sr_header demo_post) = []" by code_simp+
  show "check_date demo_http_clock (format_http demo_http_clock (100 * second)) (150 * second) = None"
    by (simp add: check_date_def demo_http_clock_def max_skew_def max_age_def second_def)
  show "demo_lookup demo_key_id 0 = (Inr (Some ''KEY12''), 1)" by (simp add: demo_lookup_def)
qed

theorem signed_request_verifies_witness:
  "\<exists>sg. verify_request_at demo_keys demo_http_clock demo_signed ''body'' demo_lookup (150 * second) 0 =
     (Inr (signed_params demo_key_id default_headers sg), 1)"
  by (rule signed_request_verifies [where lookup_key = demo_lookup, OF demo_signs demo_facts])

text \<open>
  A signature need not name its destination. \<open>requireHeaders\<close> only asks for \<open>date\<close> (and \<open>digest\<close> on POST and
  PUT): a signature over other headers than \<open>(request-target)\<close> and \<open>host\<close> verifies just as well on a
  request for another path of another host.
\<close>

theorem signature_not_bound_to_target:
  assumes "parse_request r = Inr p"
    and "list_all (\<lambda>h. to_lower (trim_space h) \<notin> {''(request-target)'', ''host''}) (sp_headers p)"
  shows "verify_request_at cr hc (r\<lparr>sr_url := u, sr_host := h\<rparr>) body lookup_key now st =
         verify_request_at cr hc r body lookup_key now st"
proof -
  have "parse_request (r\<lparr>sr_url := u, sr_host := h\<rparr>) = Inr p"
    using assms(1) by (simp add: parse_request_def)
  then have "verify_prepare cr hc (r\<lparr>sr_url := u, sr_host := h\<rparr>) body now = verify_prepare cr hc r body now"
    using assms by (auto simp: verify_prepare_def signing_string_other_target split: option.split)
  then show ?thesis by (simp add: verify_request_at_def)
qed

definition demo_narrow :: sig_request where
  "demo_narrow = demo_post\<lparr>sr_header := header_set ''Signature''
     (params_header (signed_params demo_key_id [''date'', ''digest''] ''sig'')) Map.empty\<rparr>"

theorem signature_not_bound_to_target_witness:
  "verify_request_at demo_keys demo_http_clock (demo_narrow\<lparr>sr_url := None, sr_host := ''c.example''\<rparr>) ''body'' demo_lookup 0 0 =
   verify_request_at demo_keys demo_http_clock demo_narrow ''body'' demo_lookup 0 0"
proof (rule signature_not_bound_to_target)
  have "params_ok (signed_params demo_key_id [''date'', ''digest''] ''sig'')" by code_simp
  then show "parse_request demo_narrow = Inr (signed_params demo_key_id [''date'', ''digest''] ''sig'')"
    unfolding demo_narrow_def by (rule parse_request_header)
qed code_simp

text \<open>
  The text of a signature does not identify it. When one byte is left over in base64 (as for the 256 bytes
  of RSA-2048), the last character before the padding can be replaced by its successor: the request
  verifies again, under the same key, with a different signature text.
\<close>

theorem signature_text_not_unique:
  assumes "verify_request_at cr hc (r\<lparr>sr_header := header_set ''Signature'' (params_header (signed_params kid hs sg)) h\<rparr>)
      body lookup_key now st = (Inr p, st1)"
    and "kid \<noteq> []" "dquote \<notin> set kid" "hs \<noteq> []" "list_all word_ok hs" "length sg mod 3 = 1"
    and "list_all (\<lambda>h. canonical_key (to_lower (trim_space h)) \<noteq> ''Signature'') hs"
  shows "\<exists>q. sp_signature q \<noteq> sp_signature p \<and> sp_key_id q = sp_key_id p \<and>
    verify_request_at cr hc (r\<lparr>sr_header := header_set ''Signature'' (params_header q) h\<rparr>) body lookup_key now st = (Inr q, st1)"
proof -
  note same = respelled_verifies(1) [OF assms]
  show ?thesis
    by (rule exI, intro conjI, rule_tac [3] respelled_verifies(2) [OF assms])
      (simp_all add: same signed_params_def respell_decodes(2) [OF assms(6)])
qed

lemma sign_request_shape:
  assumes "sign_request cr hc now kid (Some key) body r = (None, r')"
  shows "\<exists>msg sg r1. rsa_sign cr key (sha256 cr msg) = Some sg \<and>
    r' = r1\<lparr>sr_header := header_set ''Signature'' (params_header (signed_params kid default_headers sg)) (sr_header r1)\<rparr>"
proof -
  obtain r1 where "add_signature cr kid key default_headers r1 = (None, r')"
    using assms by (auto simp: sign_request_def Let_def split: if_splits)
  then show ?thesis
    by (auto simp: add_signature_def signed_params_def split: sum.splits option.splits)
qed

theorem signature_text_not_unique_witness:
  "\<exists>r h p q st1. verify_request_at demo_keys demo_http_clock (r\<lparr>sr_header := header_set ''Signature'' (params_header q) h\<rparr>)
     ''body'' demo_lookup (150 * second) 0 = (Inr q, st1) \<and>
   verify_request_at demo_keys demo_http_clock (r\<lparr>sr_header := header_set ''Signature'' (params_header p) h\<rparr>)
     ''body'' demo_lookup (150 * second) 0 = (Inr p, st1) \<and> sp_signature q \<noteq> sp_signature p"
proof -
  obtain msg sg r1 where sg: "rsa_sign demo_keys ''KEY12'' (sha256 demo_keys msg) = Some sg"
    and r': "demo_signed = r1\<lparr>sr_header := header_set ''Signature'' (params_header (signed_params demo_key_id default_headers sg))
       (sr_header r1)\<rparr>"
    using sign_request_shape [OF demo_signs] by blast
  have len: "length sg mod 3 = 1" using sg by (cases "length msg \<le> 8") (auto simp: demo_keys_def)
  have plain: "dquote \<notin> set demo_key_id" "demo_key_id \<noteq> []" by code_simp+
  obtain sgn where "verify_request_at demo_keys demo_http_clock demo_signed ''body'' demo_lookup (150 * second) 0 =
      (Inr (signed_params demo_key_id default_headers sgn), 1)"
    using sign_then_verify [where lookup_key = demo_lookup, OF demo_signs demo_facts] by (elim exE)
  note v = this [unfolded r']
  have "signed_params demo_key_id default_headers sgn = signed_params demo_key_id default_headers sg"
    by (rule respelled_verifies(1) [OF v plain(2,1) default_header_facts(1) norm_headers(3) len default_header_facts(4)])
  note w = v [unfolded this]
  note q = signature_text_not_unique [OF v plain(2,1) default_header_facts(1) norm_headers(3) len default_header_facts(4)]
  from q show ?thesis
  proof (elim exE conjE)
    fix q assume "sp_signature q \<noteq> sp_signature (signed_params demo_key_id default_headers sgn)"
      and "verify_request_at demo_keys demo_http_clock (r1\<lparr>sr_header := header_set ''Signature'' (params_header q) (sr_header r1)\<rparr>)
        ''body'' demo_lookup (150 * second) 0 = (Inr q, 1)"
    moreover have "sp_signature q \<noteq> sp_signature (signed_params demo_key_id default_headers sg)"
      using calculation(1) \<open>signed_params demo_key_id default_headers sgn = signed_params demo_key_id default_headers sg\<close> by simp
    ultimately show ?thesis using w by (intro exI conjI)
  qed
qed

end
