(* ===== verification/Security.thy ===== *)
theory Security
  imports Json
begin

text \<open>
  \<open>internal/security/ssrf.go\<close>: which destinations federation HTTP may reach. An address is its list of
  bytes, as in \<open>net.IP\<close>. The resolver is a parameter that answers the n-th query for a name, so two
  queries for the same name may differ; \<open>client_loop\<close> is \<open>http.Client.Do\<close> with the policy's dialer and
  redirect check.
\<close>

type_synonym ip = "nat list"

section \<open>Predicates of \<open>net.IP\<close>\<close>

definition to4 :: "ip \<Rightarrow> ip option" where
  "to4 a =
     (if length a = 4 then Some a
      else if length a = 16 \<and> take 10 a = replicate 10 0 \<and> a ! 10 = 255 \<and> a ! 11 = 255 then Some (drop 12 a)
      else None)"

definition is_loopback :: "ip \<Rightarrow> bool" where
  "is_loopback a = (case to4 a of Some b \<Rightarrow> b ! 0 = 127 | None \<Rightarrow> a = replicate 15 0 @ [1])"

definition is_private :: "ip \<Rightarrow> bool" where
  "is_private a =
     (case to4 a of
        Some b \<Rightarrow> b ! 0 = 10 \<or> (b ! 0 = 172 \<and> b ! 1 div 16 = 1) \<or> (b ! 0 = 192 \<and> b ! 1 = 168)
      | None \<Rightarrow> length a = 16 \<and> a ! 0 div 2 = 126)"

definition is_unspecified :: "ip \<Rightarrow> bool" where
  "is_unspecified a = (case to4 a of Some b \<Rightarrow> b = [0, 0, 0, 0] | None \<Rightarrow> a = replicate 16 0)"

definition is_link_local_unicast :: "ip \<Rightarrow> bool" where
  "is_link_local_unicast a =
     (case to4 a of
        Some b \<Rightarrow> b ! 0 = 169 \<and> b ! 1 = 254
      | None \<Rightarrow> length a = 16 \<and> a ! 0 = 254 \<and> a ! 1 div 64 = 2)"

definition is_multicast :: "ip \<Rightarrow> bool" where
  "is_multicast a = (case to4 a of Some b \<Rightarrow> b ! 0 div 16 = 14 | None \<Rightarrow> length a = 16 \<and> a ! 0 = 255)"

definition is_link_local_multicast :: "ip \<Rightarrow> bool" where
  "is_link_local_multicast a =
     (case to4 a of
        Some b \<Rightarrow> b ! 0 = 224 \<and> b ! 1 = 0 \<and> b ! 2 = 0
      | None \<Rightarrow> length a = 16 \<and> a ! 0 = 255 \<and> a ! 1 mod 16 = 2)"

definition is_interface_local_multicast :: "ip \<Rightarrow> bool" where
  "is_interface_local_multicast a \<longleftrightarrow> length a = 16 \<and> a ! 0 = 255 \<and> a ! 1 mod 16 = 1"

section \<open>The policy\<close>

record policy =
  allow_private :: bool

record net =
  parse_url :: url_parser
  parse_ip :: "string \<Rightarrow> ip option"
  resolve :: "nat \<Rightarrow> string \<Rightarrow> ip list option"
  reachable :: "ip \<Rightarrow> string \<Rightarrow> bool"

datatype ssrf_error = Blocked_Url | Resolve_Failed | Bad_Address | Dial_Failed | Too_Many_Redirects | No_Answer

definition blocked_ip :: "policy \<Rightarrow> ip option \<Rightarrow> bool" where
  "blocked_ip p a =
     (if allow_private p then False
      else case a of
        None \<Rightarrow> True
      | Some i \<Rightarrow>
          is_loopback i \<or> is_private i \<or> is_unspecified i \<or> is_link_local_unicast i \<or> is_link_local_multicast i \<or>
          is_multicast i \<or> is_interface_local_multicast i)"

definition check_parsed :: "policy \<Rightarrow> net \<Rightarrow> url \<Rightarrow> ssrf_error option" where
  "check_parsed p nt u =
     (if u_user u then Some Blocked_Url
      else if to_lower (u_scheme u) \<noteq> ''http'' \<and> to_lower (u_scheme u) \<noteq> ''https'' then Some Blocked_Url
      else
        let host = to_lower (u_hostname u) in
        if host = [] then Some Blocked_Url
        else if host = ''metadata.google.internal'' \<or> host = ''metadata'' \<or> has_suffix host ''.internal''
        then Some Blocked_Url
        else if \<not> allow_private p \<and> host = ''localhost'' then Some Blocked_Url
        else case parse_ip nt host of
          Some i \<Rightarrow> if blocked_ip p (Some i) then Some Blocked_Url else None
        | None \<Rightarrow> None)"

definition check_url :: "policy \<Rightarrow> net \<Rightarrow> string \<Rightarrow> ssrf_error option" where
  "check_url p nt raw =
     (case parse_url nt raw of
        None \<Rightarrow> Some Blocked_Url
      | Some u \<Rightarrow> if u_host u = [] then Some Blocked_Url else check_parsed p nt u)"

text \<open>The number counts the queries sent to the resolver so far.\<close>

definition lookup_blocked :: "policy \<Rightarrow> net \<Rightarrow> string \<Rightarrow> nat \<Rightarrow> ssrf_error option \<times> nat" where
  "lookup_blocked p nt host n =
     (case parse_ip nt host of
        Some i \<Rightarrow> (if blocked_ip p (Some i) then Some Blocked_Url else None, n)
      | None \<Rightarrow>
          (case resolve nt n host of
             None \<Rightarrow> Some Resolve_Failed
           | Some ips \<Rightarrow>
               if ips = [] then Some Blocked_Url
               else if list_ex (\<lambda>i. blocked_ip p (Some i)) ips then Some Blocked_Url
               else None, n + 1))"

text \<open>\<open>net.Dialer\<close>: an address literal is used as it is, a name is resolved and the addresses are tried in turn.\<close>

definition dialer :: "net \<Rightarrow> string \<Rightarrow> string \<Rightarrow> nat \<Rightarrow> (ssrf_error + ip) \<times> nat" where
  "dialer nt host port n =
     (let try = (\<lambda>ips. case List.find (\<lambda>i. reachable nt i port) ips of None \<Rightarrow> Inl Dial_Failed | Some i \<Rightarrow> Inr i) in
      case parse_ip nt host of
        Some i \<Rightarrow> (try [i], n)
      | None \<Rightarrow> (case resolve nt n host of None \<Rightarrow> Inl Resolve_Failed | Some ips \<Rightarrow> try ips, n + 1))"

definition dial_context :: "policy \<Rightarrow> net \<Rightarrow> string \<Rightarrow> nat \<Rightarrow> (ssrf_error + ip) \<times> nat" where
  "dial_context p nt addr n =
     (case split_host_port addr of
        None \<Rightarrow> (Inl Bad_Address, n)
      | Some (host, port) \<Rightarrow>
          (case lookup_blocked p nt host n of
             (Some e, n1) \<Rightarrow> (Inl e, n1)
           | (None, n1) \<Rightarrow> dialer nt host port n1))"

definition check_redirect :: "policy \<Rightarrow> net \<Rightarrow> nat \<Rightarrow> url \<Rightarrow> nat \<Rightarrow> ssrf_error option \<times> nat" where
  "check_redirect p nt via u n =
     (if via \<ge> 3 then (Some Too_Many_Redirects, n)
      else case check_parsed p nt u of
        Some e \<Rightarrow> (Some e, n)
      | None \<Rightarrow> lookup_blocked p nt (u_hostname u) n)"

definition host_only :: "url_parser \<Rightarrow> string \<Rightarrow> string" where
  "host_only parse raw =
     (case parse raw of
        None \<Rightarrow> ''unknown''
      | Some u \<Rightarrow> if u_host u = [] then ''unknown'' else u_hostname u)"

section \<open>The client\<close>

text \<open>
  \<open>http.Client.Do\<close>: dial the host of the URL, send the request, follow a redirect if the check allows it.
  \<open>serve i u\<close> is what the server at address \<open>i\<close> answers for \<open>u\<close>: the status, the body if it can be read,
  and the target when it is a redirect. The addresses contacted are collected.
\<close>

record answer =
  an_status :: int
  an_body :: "string option"
  an_redirect :: "url option"

definition url_addr :: "url \<Rightarrow> string" where
  "url_addr u =
     (let port = (if u_port u \<noteq> [] then u_port u else if to_lower (u_scheme u) = ''https'' then ''443'' else ''80'') in
      if CHR '':'' \<in> set (u_hostname u) then ''['' @ u_hostname u @ '']:'' @ port
      else u_hostname u @ '':'' @ port)"

lemma check_redirect_via: "check_redirect p nt via u n = (None, n1) \<Longrightarrow> via < 3"
  by (auto simp: check_redirect_def split: if_splits)

function client_loop ::
  "policy \<Rightarrow> net \<Rightarrow> (ip \<Rightarrow> url \<Rightarrow> answer option) \<Rightarrow> nat \<Rightarrow> url \<Rightarrow> nat \<Rightarrow> (ssrf_error + answer) \<times> ip list \<times> nat" where
  "client_loop p nt serve via u n =
     (case dial_context p nt (url_addr u) n of
        (Inl e, n1) \<Rightarrow> (Inl e, [], n1)
      | (Inr i, n1) \<Rightarrow>
          (case serve i u of
             None \<Rightarrow> (Inl No_Answer, [i], n1)
           | Some a \<Rightarrow>
               (case an_redirect a of
                  None \<Rightarrow> (Inr a, [i], n1)
                | Some u1 \<Rightarrow>
                    (case check_redirect p nt (via + 1) u1 n1 of
                       (Some e, n2) \<Rightarrow> (Inl e, [i], n2)
                     | (None, n2) \<Rightarrow>
                         (case client_loop p nt serve (via + 1) u1 n2 of
                            (res, contacted, n3) \<Rightarrow> (res, i # contacted, n3))))))"
  by pat_completeness auto

termination
  by (relation "measure (\<lambda>(p, nt, serve, via, u, n). 3 - via)") (auto dest: check_redirect_via [OF sym] check_redirect_via)

declare client_loop.simps [simp del]

definition client_do :: "policy \<Rightarrow> net \<Rightarrow> (ip \<Rightarrow> url \<Rightarrow> answer option) \<Rightarrow> url \<Rightarrow> nat \<Rightarrow> (ssrf_error + answer) \<times> ip list \<times> nat" where
  "client_do p nt serve u n = client_loop p nt serve 0 u n"

section \<open>What is contacted\<close>

definition stable :: "net \<Rightarrow> bool" where
  "stable nt \<longleftrightarrow> (\<forall>m n host. resolve nt m host = resolve nt n host)"

lemma dial_allowed:
  assumes "stable nt" "dial_context p nt addr n = (Inr i, n1)"
  shows "\<not> blocked_ip p (Some i)"
proof -
  obtain host port n2 where l: "lookup_blocked p nt host n = (None, n2)" and d: "dialer nt host port n2 = (Inr i, n1)"
    using assms(2) by (auto simp: dial_context_def split: option.splits prod.splits)
  show ?thesis
  proof (cases "parse_ip nt host")
    case (Some j)
    then show ?thesis using l d by (auto simp: lookup_blocked_def dialer_def Let_def split: if_splits)
  next
    case None
    obtain ips where r: "resolve nt n2 host = Some ips" and f: "List.find (\<lambda>i. reachable nt i port) ips = Some i"
      using d None by (auto simp: dialer_def Let_def split: option.splits)
    have "resolve nt n host = Some ips" using r assms(1) by (metis stable_def)
    then have "\<not> list_ex (\<lambda>i. blocked_ip p (Some i)) ips" using l None by (auto simp: lookup_blocked_def split: if_splits)
    moreover have "i \<in> set ips" using f by (auto simp: find_Some_iff)
    ultimately show ?thesis by (auto simp: list_ex_iff)
  qed
qed

lemma client_loop_length:
  "client_loop p nt serve via u n = (res, contacted, n1) \<Longrightarrow> length contacted + via \<le> max 3 (via + 1)"
proof (induction p nt serve via u n arbitrary: res contacted n1 rule: client_loop.induct)
  case (1 p nt serve via u n)
  note run = "1.prems" [unfolded client_loop.simps [of p nt serve via u n]]
  consider "length contacted \<le> 1" | d m i a u1 m2 rest m3 where "dial_context p nt (url_addr u) n = (d, m)" "d = Inr i"
      "serve i u = Some a" "an_redirect a = Some u1" "check_redirect p nt (via + 1) u1 m = (None, m2)"
      "client_loop p nt serve (via + 1) u1 m2 = (res, rest, m3)" "contacted = i # rest"
    using run by (auto split: option.splits prod.splits sum.splits)
  then show ?case
  proof cases
    case 2
    have "via + 1 < 3" using check_redirect_via [OF 2(5)] .
    moreover have "length rest + (via + 1) \<le> max 3 (via + 1 + 1)"
      by (rule "1.IH" [OF 2(1) [symmetric] 2(2-4) 2(5) [symmetric] refl 2(6)])
    ultimately show ?thesis using 2(7) by simp
  qed simp
qed

lemma client_do_length: "client_do p nt serve u n = (res, contacted, n1) \<Longrightarrow> length contacted \<le> 3"
  using client_loop_length [of p nt serve 0 u n] by (simp add: client_do_def)

lemma client_loop_allowed:
  assumes st: "stable nt"
  shows "client_loop p nt serve via u n = (res, contacted, n1) \<Longrightarrow>
    list_all (\<lambda>i. \<not> blocked_ip p (Some i)) contacted \<and> length contacted + via \<le> max 3 (via + 1)"
  using st
proof (induction p nt serve via u n arbitrary: res contacted n1 rule: client_loop.induct)
  case (1 p nt serve via u n)
  note run = "1.prems"(1) [unfolded client_loop.simps [of p nt serve via u n]]
  show ?case
  proof (cases "dial_context p nt (url_addr u) n")
    case (Pair d m)
    show ?thesis
    proof (cases d)
      case (Inl e)
      then show ?thesis using run Pair by simp
    next
      case (Inr i)
      have ok: "\<not> blocked_ip p (Some i)" using dial_allowed [OF "1.prems"(2)] Pair Inr by blast
      consider "contacted = [i]" | a u1 m2 rest m3 where "serve i u = Some a" "an_redirect a = Some u1"
          "check_redirect p nt (via + 1) u1 m = (None, m2)" "client_loop p nt serve (via + 1) u1 m2 = (res, rest, m3)"
          "contacted = i # rest"
        using run Pair Inr by (auto split: option.splits prod.splits)
      then show ?thesis
      proof cases
        case 1
        then show ?thesis using ok by simp
      next
        case 2
        have "via + 1 < 3" using check_redirect_via [OF 2(3)] .
        moreover have "list_all (\<lambda>i. \<not> blocked_ip p (Some i)) rest \<and> length rest + (via + 1) \<le> max 3 (via + 1 + 1)"
          by (rule "1.IH" [OF Pair [symmetric] Inr 2(1) 2(2) 2(3) [symmetric] refl 2(4) "1.prems"(2)])
        ultimately show ?thesis using ok 2(5) by simp
      qed
    qed
  qed
qed

section \<open>Properties\<close>

text \<open>
  C12. With a resolver that answers a name always in the same way, a client of the policy never contacts a
  blocked address, and contacts at most three servers, whatever the servers answer and wherever they
  redirect to.
\<close>

theorem client_contacts_allowed:
  assumes "stable nt" "client_do p nt serve u n = (res, contacted, n1)"
  shows "list_all (\<lambda>i. \<not> blocked_ip p (Some i)) contacted \<and> length contacted \<le> 3"
  using client_loop_allowed [OF assms(1) assms(2) [unfolded client_do_def]] by simp

definition metadata_ip :: ip where "metadata_ip = [169, 254, 169, 254]"

definition demo_net :: "(nat \<Rightarrow> string \<Rightarrow> ip list option) \<Rightarrow> net" where
  "demo_net rs = \<lparr>parse_url = simple_url, parse_ip = (\<lambda>_. None), resolve = rs, reachable = (\<lambda>_ _. True)\<rparr>"

definition demo_url :: url where
  "demo_url = \<lparr>u_scheme = ''https'', u_host = ''a.example'', u_hostname = ''a.example'', u_port = [], u_path = ''/x'',
     u_query = [], u_user = False\<rparr>"

definition demo_serve :: "ip \<Rightarrow> url \<Rightarrow> answer option" where
  "demo_serve i u = Some \<lparr>an_status = 302, an_body = Some [], an_redirect = Some demo_url\<rparr>"

definition public_dns :: "nat \<Rightarrow> string \<Rightarrow> ip list option" where
  "public_dns n host = Some [[93, 184, 216, 34]]"

lemma demo_dial: "dial_context \<lparr>allow_private = False\<rparr> (demo_net public_dns) (url_addr demo_url) n = (Inr [93, 184, 216, 34], n + 2)"
proof -
  have "split_host_port (url_addr demo_url) = Some (''a.example'', ''443'')" by code_simp
  moreover have "\<not> blocked_ip \<lparr>allow_private = False\<rparr> (Some [93, 184, 216, 34])" by code_simp
  ultimately show ?thesis
    by (simp add: dial_context_def lookup_blocked_def dialer_def demo_net_def public_dns_def Let_def)
qed

lemma demo_redirects:
  "client_do \<lparr>allow_private = False\<rparr> (demo_net public_dns) demo_serve demo_url 0 =
    (Inl Too_Many_Redirects, replicate 3 [93, 184, 216, 34], 8)"
proof -
  let ?p = "\<lparr>allow_private = False\<rparr>"
  have "check_parsed ?p (demo_net public_dns) demo_url = None" by code_simp
  moreover have "lookup_blocked ?p (demo_net public_dns) (u_hostname demo_url) n = (None, n + 1)" for n
    by (simp add: lookup_blocked_def demo_net_def public_dns_def) code_simp
  ultimately have c: "check_redirect ?p (demo_net public_dns) via demo_url n =
      (if via \<ge> 3 then (Some Too_Many_Redirects, n) else (None, n + 1))" for via n
    by (simp add: check_redirect_def)
  have step: "client_loop ?p (demo_net public_dns) demo_serve via demo_url n =
     (if via + 1 \<ge> 3 then (Inl Too_Many_Redirects, [[93, 184, 216, 34]], n + 2)
      else case client_loop ?p (demo_net public_dns) demo_serve (via + 1) demo_url (n + 3) of
        (res, cs, m) \<Rightarrow> (res, [93, 184, 216, 34] # cs, m))" for via n
    by (subst client_loop.simps) (simp add: demo_dial demo_serve_def c numeral_3_eq_3)
  show ?thesis
    unfolding client_do_def by (subst step, subst step, subst step) (simp add: numeral_3_eq_3)
qed

theorem client_contacts_allowed_witness:
  "list_all (\<lambda>i. \<not> blocked_ip \<lparr>allow_private = False\<rparr> (Some i)) (replicate 3 [93, 184, 216, 34]) \<and>
   length (replicate 3 [93, 184, 216, 34 :: nat]) \<le> 3"
  by (rule client_contacts_allowed [OF _ demo_redirects]) (simp add: stable_def demo_net_def public_dns_def)

text \<open>
  The name is resolved twice: \<open>lookupBlocked\<close> checks one answer, the dialer connects to another. A
  resolver that answers first with an allowed address and then with any other makes the client connect
  to that other address.
\<close>

theorem rebinding_reaches_any_address:
  assumes "split_host_port addr = Some (host, port)" "parse_ip nt host = None"
    and "resolve nt n host = Some [good]" "\<not> blocked_ip p (Some good)"
    and "resolve nt (n + 1) host = Some [bad]" "reachable nt bad port"
  shows "dial_context p nt addr n = (Inr bad, n + 2)"
  using assms by (simp add: dial_context_def lookup_blocked_def dialer_def Let_def)

definition rebinding_dns :: "nat \<Rightarrow> string \<Rightarrow> ip list option" where
  "rebinding_dns n host = (if n = 0 then Some [[93, 184, 216, 34]] else Some [metadata_ip])"

theorem rebinding_reaches_any_address_witness:
  "dial_context \<lparr>allow_private = False\<rparr> (demo_net rebinding_dns) (url_addr demo_url) 0 = (Inr metadata_ip, 0 + 2) \<and>
   blocked_ip \<lparr>allow_private = False\<rparr> (Some metadata_ip)"
proof
  show "dial_context \<lparr>allow_private = False\<rparr> (demo_net rebinding_dns) (url_addr demo_url) 0 = (Inr metadata_ip, 0 + 2)"
  proof (rule rebinding_reaches_any_address [where host = "''a.example''" and port = "''443''" and good = "[93, 184, 216, 34]"])
    show "split_host_port (url_addr demo_url) = Some (''a.example'', ''443'')" by code_simp
    show "\<not> blocked_ip \<lparr>allow_private = False\<rparr> (Some [93, 184, 216, 34])" by code_simp
  qed (simp_all add: demo_net_def rebinding_dns_def)
  show "blocked_ip \<lparr>allow_private = False\<rparr> (Some metadata_ip)" by code_simp
qed

end
