(* ===== verification/Federation_Inbox.thy ===== *)
theory Federation_Inbox
  imports Federation_Store Httpsig Security Activity_Streams
begin

text \<open>
  \<open>internal/federation/fetch.go\<close> and \<open>inbox.go\<close>: fetching remote actors and their keys, and the processing
  of signed activities addressed to this node. A call sees one clock value (in the database's
  environment); the fetcher's state is its key cache and the number of resolver queries so far. A call of \<open>Process\<close> is
  one step. The code runs calls side by side without a lock or a transaction, so two copies of one request can both pass
  \<open>SeenSignature\<close> before either has run \<open>RememberSignature\<close>, which ignores a row that is already there.
\<close>

section \<open>Fetching actors\<close>

record remote_actor =
  ra_id :: string
  ra_inbox :: string
  ra_shared :: string
  ra_user :: string
  ra_key_id :: string
  ra_key_pem :: string

definition no_actor :: remote_actor where
  "no_actor = \<lparr>ra_id = [], ra_inbox = [], ra_shared = [], ra_user = [], ra_key_id = [], ra_key_pem = []\<rparr>"

record key_entry =
  ke_pub :: string
  ke_exp :: time
  ke_actor :: remote_actor

text \<open>
  The functions \<open>KeyID\<close> and \<open>Private\<close> of the fetcher may be unset (\<open>None\<close>); \<open>Private\<close> may fail
  (\<open>Some None\<close>). \<open>ft_serve\<close> is the network: what the server at an address answers to a request.
\<close>

record fetcher =
  ft_policy :: policy
  ft_net :: net
  ft_serve :: "sig_request \<Rightarrow> ip \<Rightarrow> url \<Rightarrow> answer option"
  ft_key_id :: "string option"
  ft_private :: "string option option"
  ft_crypto :: crypto
  ft_clock :: http_clock

record fetch_state =
  fs_cache :: "string \<rightharpoonup> key_entry"
  fs_queries :: nat

definition empty_fetch :: fetch_state where "empty_fetch = \<lparr>fs_cache = Map.empty, fs_queries = 0\<rparr>"

definition app_version :: string where "app_version = ''0.6.0-dev''"

definition user_agent :: string where "user_agent = ''FediShare/'' @ app_version"

definition new_request :: "string \<Rightarrow> url \<Rightarrow> sig_request" where
  "new_request meth u =
     \<lparr>sr_method = meth, sr_url = Some \<lparr>ru_opaque = [], ru_path = u_path u, ru_query = u_query u, ru_host = u_host u\<rparr>,
      sr_host = u_host u, sr_header = Map.empty\<rparr>"

definition fetcher_sign_get :: "fetcher \<Rightarrow> time \<Rightarrow> sig_request \<Rightarrow> fed_error option \<times> sig_request" where
  "fetcher_sign_get ft now r =
     (case (ft_private ft, ft_key_id ft) of
        (Some priv, Some k) \<Rightarrow>
          let kid = trim_space k in
          if kid = [] then (None, r)
          else (case priv of
              None \<Rightarrow> (Some Fed_Fetch, r)
            | Some key \<Rightarrow>
                (case sign_get (ft_crypto ft) (ft_clock ft) now kid (Some key) r of
                   (Some e, r1) \<Rightarrow> (Some Fed_Fetch, r1)
                 | (None, r1) \<Rightarrow> (None, r1)))
      | _ \<Rightarrow> (None, r))"

text \<open>What \<open>FetchActor\<close> makes of the document it received.\<close>

definition read_actor :: "fetcher \<Rightarrow> string \<Rightarrow> (string \<times> json) list \<Rightarrow> fed_error + remote_actor" where
  "read_actor ft aurl m =
     (let parse = parse_url (ft_net ft); p = ft_policy ft; nt = ft_net ft;
          i = (if as_string (field ''id'' m) = [] then aurl else as_string (field ''id'' m));
          inbox = as_string (field ''inbox'' m);
          shared = (case as_map (field ''endpoints'' m) of Some ep \<Rightarrow> as_string (field ''sharedInbox'' ep) | None \<Rightarrow> []);
          pk = (case as_map (field ''publicKey'' m) of
                  Some k \<Rightarrow> (as_string (field ''id'' k), as_string (field ''publicKeyPem'' k)) | None \<Rightarrow> ([], [])) in
      if \<not> is_http_url parse i \<or> \<not> is_http_url parse inbox then Inl Fed_Bad_Activity
      else if snd pk = [] then Inl Fed_Fetch
      else if check_url p nt inbox \<noteq> None then Inl Fed_Fetch
      else Inr \<lparr>ra_id = i, ra_inbox = inbox,
                 ra_shared = (if shared \<noteq> [] \<and> check_url p nt shared \<noteq> None then [] else shared),
                 ra_user = as_string (field ''preferredUsername'' m), ra_key_id = fst pk, ra_key_pem = snd pk\<rparr>)"

definition fetch_actor :: "fetcher \<Rightarrow> time \<Rightarrow> string \<Rightarrow> nat \<Rightarrow> (fed_error + remote_actor) \<times> nat" where
  "fetch_actor ft now aurl n =
     (if check_url (ft_policy ft) (ft_net ft) aurl \<noteq> None then (Inl Fed_Fetch, n)
      else case parse_url (ft_net ft) aurl of
        None \<Rightarrow> (Inl Fed_Fetch, n)
      | Some u \<Rightarrow>
          let r0 = new_request ''GET'' u;
              r1 = r0\<lparr>sr_header := header_set ''User-Agent'' user_agent
                        (header_set ''Accept'' ''application/activity+json, application/ld+json'' (sr_header r0))\<rparr> in
          (case fetcher_sign_get ft now r1 of
             (Some e, r2) \<Rightarrow> (Inl e, n)
           | (None, r2) \<Rightarrow>
               (case client_do (ft_policy ft) (ft_net ft) (ft_serve ft r2) u n of
                  (Inl e, contacted, n1) \<Rightarrow> (Inl Fed_Fetch, n1)
                | (Inr a, contacted, n1) \<Rightarrow>
                    (if an_status a \<noteq> 200 then Inl Fed_Fetch
                     else case an_body a of
                       None \<Rightarrow> Inl Fed_Fetch
                     | Some b \<Rightarrow>
                         let body = take (max_actor_body + 1) b in
                         if length body > max_actor_body then Inl Fed_Fetch
                         else (case decode_map (parse_json (ft_crypto ft)) body of
                             None \<Rightarrow> Inl Fed_Fetch
                           | Some m \<Rightarrow> read_actor ft aurl m), n1))))"

definition key_ttl :: time where "key_ttl = 600 * second"

definition public_key :: "fetcher \<Rightarrow> time \<Rightarrow> string \<Rightarrow> fetch_state \<Rightarrow> (fed_error + string \<times> remote_actor) \<times> fetch_state" where
  "public_key ft now kid st =
     (let fetched =
        (case fetch_actor ft now (actor_from_key_id kid) (fs_queries st) of
           (res, n) \<Rightarrow>
             let st1 = st\<lparr>fs_queries := n\<rparr> in
             (case res of
                Inl e \<Rightarrow> (Inl e, st1)
              | Inr a \<Rightarrow>
                  if ra_key_id a \<noteq> [] \<and> \<not> same_iri (ra_key_id a) kid \<and> \<not> has_prefix kid (ra_id a)
                  then (Inl Fed_Fetch, st1)
                  else (case parse_public (ft_crypto ft) (ra_key_pem a) of
                      None \<Rightarrow> (Inl Fed_Fetch, st1)
                    | Some pub \<Rightarrow>
                        (Inr (pub, a), st1\<lparr>fs_cache := (fs_cache st1)(kid \<mapsto>
                           \<lparr>ke_pub = pub, ke_exp = now + key_ttl, ke_actor = a\<rparr>)\<rparr>)))) in
      case fs_cache st kid of
        Some e \<Rightarrow> if now < ke_exp e then (Inr (ke_pub e, ke_actor e), st) else fetched
      | None \<Rightarrow> fetched)"

section \<open>The inbox\<close>

text \<open>
  The fields of \<open>Inbox\<close>: the fetcher, the local paths, the queueing function if set. \<open>ie_random\<close> is what
  \<open>rand.Read\<close> gives the call.
\<close>

record inbox_env =
  ie_fed :: fed_env
  ie_fetcher :: fetcher
  ie_paths :: paths
  ie_enqueue :: "(string \<Rightarrow> string \<Rightarrow> string \<Rightarrow> fed_db \<Rightarrow> fed_error option \<times> fed_db) option"
  ie_random :: "string option"
  ie_format :: time_format

record inbox_state =
  ib_db :: fed_db
  ib_fetch :: fetch_state

definition new_opaque :: "string option \<Rightarrow> string" where
  "new_opaque b = (case b of None \<Rightarrow> itoa 12 | Some s \<Rightarrow> hex_encode (take 12 (s @ replicate 12 (CHR 0x00))))"

text \<open>\<open>handleFollow\<close> once the remote actor is known: store the follower, save and queue the Accept.\<close>

definition accept_follower :: "inbox_env \<Rightarrow> string \<Rightarrow> remote_actor \<Rightarrow> fed_db \<Rightarrow> fed_error option \<times> fed_db" where
  "accept_follower env follow_id remote d =
     (let p = ie_paths env; fe = ie_fed env; now = fd_clock fe;
          f = \<lparr>fo_actor = ra_id remote, fo_inbox = ra_inbox remote, fo_shared = ra_shared remote,
               fo_user = ra_user remote, fo_host = host_of (parse_url (ft_net (ie_fetcher env))) (ra_id remote),
               fo_accepted = True, fo_created = None\<rparr> in
      (case upsert_follower fe f d of
         (Some e, d1) \<Rightarrow> (Some e, d1)
       | (None, d1) \<Rightarrow>
           let accept_id = actor_url p @ ''/activities/accepts/'' @ new_opaque (ie_random env);
               payload = print_json (ft_crypto (ie_fetcher env))
                 (accept_follow (ie_format env) now p accept_id follow_id (ra_id remote)) in
           (case save_activity fe \<lparr>ac_id = accept_id, ac_type = ''Accept'', ac_file = [],
                   ac_published = stamp now, ac_payload = payload\<rparr> d1 of
              (Some e, d2) \<Rightarrow> (Some e, d2)
            | (None, d2) \<Rightarrow>
                (case ie_enqueue env of
                   None \<Rightarrow> (None, d2)
                 | Some enq \<Rightarrow> enq (ra_inbox remote) accept_id payload d2))))"

definition remote_of :: "inbox_env \<Rightarrow> string \<Rightarrow> remote_actor \<Rightarrow> fetch_state \<Rightarrow> (fed_error + remote_actor) \<times> fetch_state" where
  "remote_of env actor_id remote st =
     (if ra_id remote = [] \<or> ra_inbox remote = []
      then (case fetch_actor (ie_fetcher env) (fd_clock (ie_fed env)) actor_id (fs_queries st) of
              (res, n) \<Rightarrow> (res, st\<lparr>fs_queries := n\<rparr>))
      else (Inr remote, st))"

definition handle_follow ::
  "inbox_env \<Rightarrow> (string \<times> json) list \<Rightarrow> string \<Rightarrow> remote_actor \<Rightarrow> inbox_state \<Rightarrow> fed_error option \<times> inbox_state" where
  "handle_follow env m actor_id remote s =
     (let p = ie_paths env; object = object_id (field ''object'' m) in
      if object \<noteq> [] \<and> \<not> same_iri object (actor_url p) then (Some Fed_Bad_Activity, s)
      else
        (case remote_of env actor_id remote (ib_fetch s) of
           (Inl e, st) \<Rightarrow> (Some e, s\<lparr>ib_fetch := st\<rparr>)
         | (Inr a, st) \<Rightarrow>
             let follow_id = (if as_string (field ''id'' m) = [] then actor_id @ ''#follows/'' @ pt_user p
                              else as_string (field ''id'' m)) in
             (case accept_follower env follow_id a (ib_db s) of
                (e, d) \<Rightarrow> (e, s\<lparr>ib_db := d, ib_fetch := st\<rparr>))))"

text \<open>The handlers that only touch the database.\<close>

definition handle_undo :: "fed_env \<Rightarrow> (string \<times> json) list \<Rightarrow> string \<Rightarrow> fed_db \<Rightarrow> fed_error option \<times> fed_db" where
  "handle_undo env m actor_id d =
     (let obj = as_map (field ''object'' m);
          inner_type = (case obj of Some ob \<Rightarrow> type_of (field ''type'' ob) | None \<Rightarrow> type_of (field ''object'' m));
          inner_actor = (case obj of
             Some ob \<Rightarrow> (if actor_iri (field ''actor'' ob) \<noteq> [] then actor_iri (field ''actor'' ob) else actor_id)
           | None \<Rightarrow> actor_id) in
      if \<not> equal_fold inner_type ''Follow'' \<and> inner_type \<noteq> [] then (None, d)
      else if \<not> same_iri inner_actor actor_id then (Some Fed_Bad_Activity, d)
      else remove_follower env actor_id d)"

definition set_following :: "fed_env \<Rightarrow> bool \<Rightarrow> string \<Rightarrow> fed_db \<Rightarrow> fed_error option \<times> fed_db" where
  "set_following env acc actor_id d =
     (case has_outgoing_follow env actor_id d of
        Inl e \<Rightarrow> (Some e, d)
      | Inr ok \<Rightarrow> if \<not> ok then (None, d) else following_accepted env actor_id acc d)"

definition handle_accept :: "fed_env \<Rightarrow> string \<Rightarrow> fed_db \<Rightarrow> fed_error option \<times> fed_db" where
  "handle_accept env = set_following env True"

definition handle_reject :: "fed_env \<Rightarrow> string \<Rightarrow> fed_db \<Rightarrow> fed_error option \<times> fed_db" where
  "handle_reject env = set_following env False"

definition handle_delete :: "fed_env \<Rightarrow> (string \<times> json) list \<Rightarrow> string \<Rightarrow> fed_db \<Rightarrow> fed_error option \<times> fed_db" where
  "handle_delete env m actor_id d =
     (let obj = object_id (field ''object'' m) in
      if obj = [] \<or> same_iri obj actor_id then remove_follower env actor_id d
      else case as_map (field ''object'' m) of
        None \<Rightarrow> (None, d)
      | Some inner \<Rightarrow>
          if type_of (field ''type'' inner) = ''Tombstone'' \<and> same_iri (object_id (JObj inner)) actor_id
          then remove_follower env actor_id d
          else (None, d))"

definition handle_activity ::
  "inbox_env \<Rightarrow> (string \<times> json) list \<Rightarrow> string \<Rightarrow> remote_actor \<Rightarrow> inbox_state \<Rightarrow> fed_error option \<times> inbox_state" where
  "handle_activity env m actor_id fetched s =
     (let typ = type_of (field ''type'' m); fe = ie_fed env;
          on_db = (\<lambda>(e, d). (e, s\<lparr>ib_db := d\<rparr>)) in
      if typ = ''Follow'' then handle_follow env m actor_id fetched s
      else if typ = ''Undo'' then on_db (handle_undo fe m actor_id (ib_db s))
      else if typ = ''Accept'' then on_db (handle_accept fe actor_id (ib_db s))
      else if typ = ''Reject'' then on_db (handle_reject fe actor_id (ib_db s))
      else if typ = ''Delete'' then on_db (handle_delete fe m actor_id (ib_db s))
      else (None, s))"

text \<open>The key lookup of \<open>Process\<close>: it remembers the actor it fetched.\<close>

definition lookup_signer ::
  "inbox_env \<Rightarrow> string \<Rightarrow> fetch_state \<times> remote_actor \<Rightarrow> (sig_error + string option) \<times> (fetch_state \<times> remote_actor)" where
  "lookup_signer env kid st =
     (if \<not> is_http_url (parse_url (ft_net (ie_fetcher env))) (actor_from_key_id kid) then (Inl Lookup_Failed, st)
      else case public_key (ie_fetcher env) (fd_clock (ie_fed env)) kid (fst st) of
        (Inl e, st1) \<Rightarrow> (Inl Lookup_Failed, st1, snd st)
      | (Inr (pub, a), st1) \<Rightarrow> (Inr (Some pub), st1, a))"

definition inbox_verify ::
  "inbox_env \<Rightarrow> sig_request \<Rightarrow> string \<Rightarrow> fetch_state \<Rightarrow> (sig_error + sig_params) \<times> (fetch_state \<times> remote_actor)" where
  "inbox_verify env r body st =
     verify_request_at (ft_crypto (ie_fetcher env)) (ft_clock (ie_fetcher env)) r body (lookup_signer env)
       (fd_clock (ie_fed env)) (st, no_actor)"

text \<open>The part of \<open>Process\<close> after the signature: replay, document, actor, blocks.\<close>

definition process_verified ::
  "inbox_env \<Rightarrow> string \<Rightarrow> sig_params \<Rightarrow> remote_actor \<Rightarrow> inbox_state \<Rightarrow> fed_error option \<times> inbox_state" where
  "process_verified env body params fetched s =
     (let cr = ft_crypto (ie_fetcher env); fe = ie_fed env; h = hash_signature cr (sp_signature params);
          parse = parse_url (ft_net (ie_fetcher env)) in
      case seen_signature fe h (ib_db s) of
        Inl e \<Rightarrow> (Some e, s)
      | Inr True \<Rightarrow> (Some Fed_Replay, s)
      | Inr False \<Rightarrow>
          (case decode_map (parse_json cr) body of
             None \<Rightarrow> (Some Fed_Bad_Activity, s)
           | Some m \<Rightarrow>
               let actor_id = actor_iri (field ''actor'' m) in
               if actor_id = [] \<or> \<not> is_http_url parse actor_id then (Some Fed_Bad_Activity, s)
               else if ra_id fetched \<noteq> [] \<and> \<not> same_iri actor_id (ra_id fetched) then (Some Fed_Unauthorized, s)
               else (case is_blocked fe actor_id (host_of parse actor_id) (ib_db s) of
                  Inl e \<Rightarrow> (Some e, s)
                | Inr True \<Rightarrow> (Some Fed_Forbidden, s)
                | Inr False \<Rightarrow>
                    (case remember_signature fe h (ib_db s) of
                       (Some e, d) \<Rightarrow> (Some e, s\<lparr>ib_db := d\<rparr>)
                     | (None, d) \<Rightarrow> handle_activity env m actor_id fetched (s\<lparr>ib_db := d\<rparr>)))))"

definition process :: "inbox_env \<Rightarrow> sig_request \<Rightarrow> string \<Rightarrow> inbox_state \<Rightarrow> fed_error option \<times> inbox_state" where
  "process env r body s =
     (if body = [] \<or> length body > fed_max_inbox_body then (Some Fed_Bad_Activity, s)
      else case inbox_verify env r body (ib_fetch s) of
        (Inl e, st, _) \<Rightarrow> (Some Fed_Unauthorized, s\<lparr>ib_fetch := st\<rparr>)
      | (Inr params, st, fetched) \<Rightarrow> process_verified env body params fetched (s\<lparr>ib_fetch := st\<rparr>))"

end
