(* ===== verification/Federation_Delivery.thy ===== *)
theory Federation_Delivery
  imports Federation_Inbox Indexer "HOL-Library.Word"
begin

text \<open>
  \<open>internal/federation/publish.go\<close> and \<open>queue.go\<close>: turning index changes into queued deliveries, and the
  worker that sends the queue's jobs. The worker's environment gives each database call and each job its
  own clock value and faults: number 0 belongs to claiming the jobs, number i + 1 to the i-th job.
\<close>

section \<open>publish.go\<close>

record publish_env =
  pe_fed :: fed_env
  pe_paths :: paths
  pe_paused :: bool
  pe_enqueue :: "(string \<Rightarrow> string \<Rightarrow> string \<Rightarrow> fed_db \<Rightarrow> fed_error option \<times> fed_db) option"
  pe_print :: "json \<Rightarrow> string"
  pe_format :: time_format

text \<open>\<open>time.Now().Unix()\<close> of a clock after 1970.\<close>

definition unix_seconds :: "publish_env \<Rightarrow> string" where
  "unix_seconds env = itoa (nat (stamp (fd_clock (pe_fed env))))"

definition change_activity :: "publish_env \<Rightarrow> change \<Rightarrow> string \<times> string \<times> json" where
  "change_activity env ch =
     (let p = pe_paths env; now = fd_clock (pe_fed env); r = snd ch; fmt = pe_format env in
      case fst ch of
        Change_Create \<Rightarrow>
          (as_string (field ''id'' (create_fields fmt now p r)), ''Create'', file_create fmt now p r)
      | Change_Update \<Rightarrow>
          (let i = activity_url p (rec_id r) @ ''/updates/'' @ unix_seconds env in
           (i, ''Update'', file_update fmt now p r i))
      | Change_Delete \<Rightarrow>
          (let i = activity_url p (rec_id r) @ ''/deletes/'' @ unix_seconds env in
           (i, ''Delete'', file_delete fmt now p r i)))"

definition delivery_inbox :: "follower \<Rightarrow> string" where
  "delivery_inbox f = (if fo_shared f \<noteq> [] then fo_shared f else fo_inbox f)"

fun enqueue_all ::
  "(string \<Rightarrow> fed_db \<Rightarrow> fed_error option \<times> fed_db) option \<Rightarrow> string list \<Rightarrow> follower list \<Rightarrow> fed_db \<Rightarrow> fed_db" where
  "enqueue_all enq seen [] d = d"
| "enqueue_all enq seen (f # fs) d =
     (let inbox = delivery_inbox f in
      if inbox = [] \<or> inbox \<in> set seen then enqueue_all enq seen fs d
      else enqueue_all enq (inbox # seen) fs (case enq of None \<Rightarrow> d | Some q \<Rightarrow> snd (q inbox d)))"

definition on_index_change :: "publish_env \<Rightarrow> change \<Rightarrow> fed_db \<Rightarrow> fed_db" where
  "on_index_change env ch d =
     (if pe_paused env then d
      else case change_activity env ch of (i, typ, activity) \<Rightarrow>
        let payload = pe_print env activity in
        (case save_activity (pe_fed env) \<lparr>ac_id = i, ac_type = typ, ac_file = rec_id (snd ch),
                ac_published = fed_now (pe_fed env), ac_payload = payload\<rparr> d of
           (Some e, d1) \<Rightarrow> d1
         | (None, d1) \<Rightarrow>
             (case accepted_inboxes (pe_fed env) d1 of
                Inl e \<Rightarrow> d1
              | Inr fs \<Rightarrow> enqueue_all (map_option (\<lambda>q inbox. q inbox i payload) (pe_enqueue env)) [] fs d1)))"

section \<open>queue.go\<close>

datatype fail_cause = Key_Failed | Request_Failed | Signing_Failed sig_error | Network_Failed ssrf_error | Http_Status int

record worker_env =
  we_fed :: "nat \<Rightarrow> fed_env"
  we_fetcher :: fetcher
  we_key_id :: string
  we_private :: "string option"
  we_paused :: bool
  we_cancelled :: "nat \<Rightarrow> bool"
  we_message :: "fail_cause \<Rightarrow> string"

text \<open>
  The worker acts on the database, the network and the status service; \<open>wk_log\<close> is the list of its
  calls of \<open>Client.Do\<close>: the request with the addresses it and its redirects reached; \<open>wk_status\<close> the calls of the
  \<open>Status\<close> function.
\<close>

record worker_state =
  wk_db :: fed_db
  wk_queries :: nat
  wk_log :: "(sig_request \<times> ip list) list"
  wk_status :: "(nat \<times> string \<times> bool) list"

definition backoff :: "nat \<Rightarrow> time" where
  "backoff attempt =
     (let a = (if attempt < 1 then 1 else attempt);
          d = (push_bit (a - 1) (word_of_int second) :: 64 word) in
      if sint d > 3600 * second then 3600 * second else sint d)"

definition is_file_activity :: "(string \<Rightarrow> json option) \<Rightarrow> string \<Rightarrow> bool" where
  "is_file_activity parse payload =
     (let t = payload_type parse payload in t = ''Create'' \<or> t = ''Update'' \<or> t = ''Delete'')"

definition report_status :: "fed_env \<Rightarrow> string \<Rightarrow> bool \<Rightarrow> worker_state \<Rightarrow> worker_state" where
  "report_status fe msg ok s =
     (let n = (case pending_count fe (wk_db s) of Inl e \<Rightarrow> 0 | Inr k \<Rightarrow> k) in
      s\<lparr>wk_status := wk_status s @ [(n, msg, ok)]\<rparr>)"

definition fail_text :: "worker_env \<Rightarrow> fail_cause \<Rightarrow> string" where
  "fail_text env c = (case c of Http_Status n \<Rightarrow> ''HTTP '' @ itoa (nat n) | _ \<Rightarrow> we_message env c)"

definition fail_job :: "worker_env \<Rightarrow> fed_env \<Rightarrow> delivery \<Rightarrow> fail_cause \<Rightarrow> bool \<Rightarrow> worker_state \<Rightarrow> worker_state" where
  "fail_job env fe j c retry s =
     (let attempts = jb_attempts j + 1; msg = fail_text env c;
          st = (if \<not> retry \<or> attempts \<ge> jb_max j then Failed else Pending);
          d = snd (mark_attempt fe (jb_id j) attempts (fd_clock fe + backoff attempts) msg st (wk_db s)) in
      report_status fe msg False (s\<lparr>wk_db := d\<rparr>))"

definition permanent_status :: "int \<Rightarrow> bool" where
  "permanent_status n \<longleftrightarrow> n = 400 \<or> n = 401 \<or> n = 403 \<or> n = 404 \<or> n = 410 \<or> n = 422"

definition delivery_request :: "url \<Rightarrow> sig_request" where
  "delivery_request u =
     (let r = new_request ''POST'' u in
      r\<lparr>sr_header := header_set ''User-Agent'' user_agent (header_set ''Accept'' ''application/activity+json''
          (header_set ''Content-Type'' ''application/activity+json'' (sr_header r)))\<rparr>)"

definition deliver :: "worker_env \<Rightarrow> fed_env \<Rightarrow> delivery \<Rightarrow> worker_state \<Rightarrow> worker_state" where
  "deliver env fe j s =
     (let ft = we_fetcher env in
      case we_private env of
        None \<Rightarrow> fail_job env fe j Key_Failed False s
      | Some key \<Rightarrow>
          (case parse_url (ft_net ft) (jb_inbox j) of
             None \<Rightarrow> fail_job env fe j Request_Failed False s
           | Some u \<Rightarrow>
               (case sign_request (ft_crypto ft) (ft_clock ft) (fd_clock fe) (we_key_id env) (Some key) (jb_payload j)
                       (delivery_request u) of
                  (Some e, r) \<Rightarrow> fail_job env fe j (Signing_Failed e) False s
                | (None, r) \<Rightarrow>
                    (case client_do (ft_policy ft) (ft_net ft) (ft_serve ft r) u (wk_queries s) of
                       (res, contacted, n) \<Rightarrow>
                         let s1 = s\<lparr>wk_queries := n, wk_log := wk_log s @ [(r, contacted)]\<rparr> in
                         (case res of
                            Inl e \<Rightarrow> fail_job env fe j (Network_Failed e) True s1
                          | Inr a \<Rightarrow>
                              if 200 \<le> an_status a \<and> an_status a < 300 then
                                report_status fe [] True (s1\<lparr>wk_db := snd (mark_delivered fe (jb_id j) (wk_db s1))\<rparr>)
                              else fail_job env fe j (Http_Status (an_status a)) (\<not> permanent_status (an_status a)) s1)))))"

text \<open>The loop over the claimed jobs; the context may end before any of them.\<close>

fun deliver_all :: "worker_env \<Rightarrow> nat \<Rightarrow> delivery list \<Rightarrow> worker_state \<Rightarrow> bool \<times> worker_state" where
  "deliver_all env i [] s = (True, s)"
| "deliver_all env i (j # js) s =
     (if we_cancelled env i then (False, s)
      else if we_paused env \<and> is_file_activity (parse_json (ft_crypto (we_fetcher env))) (jb_payload j)
      then deliver_all env (i + 1) js s
      else deliver_all env (i + 1) js (deliver env (we_fed env (i + 1)) j s))"

definition tick :: "worker_env \<Rightarrow> worker_state \<Rightarrow> worker_state" where
  "tick env s =
     (case claim_due (we_fed env 0) 8 (wk_db s) of
        Inl e \<Rightarrow> s
      | Inr js \<Rightarrow>
          (case deliver_all env 0 js s of
             (False, s1) \<Rightarrow> s1
           | (True, s1) \<Rightarrow> report_status (we_fed env (length js + 1)) [] True s1))"

text \<open>
  \<open>Notify\<close> and the channel \<open>Kick\<close> of one slot; \<open>Run\<close> ticks once, then at every wake-up, until the context is
  done: \<open>wakeups\<close> are the environments of the ticks until then.
\<close>

definition notify :: "bool option \<Rightarrow> bool option" where
  "notify kick = map_option (\<lambda>_. True) kick"

definition worker_run :: "worker_env \<Rightarrow> worker_env list \<Rightarrow> worker_state \<Rightarrow> worker_state" where
  "worker_run first wakeups s = fold tick wakeups (tick first s)"

end
