(* ===== verification/Federation.thy ===== *)
theory Federation
  imports Federation_Delivery
begin

text \<open>
  The federation of a node put together as \<open>internal/node/federation.go\<close> does: the inbox, the publisher and
  the worker share one store; the events of a run are received activities, index changes, ticks of the
  worker and the owner's blocks. The locale \<open>fed_client\<close> states what a property of the store has to
  satisfy at each statement to survive every run; it is interpreted for the store's type invariant, for
  the rows of finished jobs and for the signatures seen.
\<close>

section \<open>The node\<close>

record fed_node =
  fn_db :: fed_db
  fn_fetch :: fetch_state
  fn_log :: "(sig_request \<times> ip list) list"
  fn_status :: "(nat \<times> string \<times> bool) list"

definition node_inbox :: "inbox_env \<Rightarrow> inbox_env" where
  "node_inbox env = env\<lparr>ie_enqueue := Some (enqueue (ie_fed env))\<rparr>"

definition node_publisher :: "publish_env \<Rightarrow> publish_env" where
  "node_publisher env = env\<lparr>pe_enqueue := Some (enqueue (pe_fed env))\<rparr>"

definition node_receive :: "inbox_env \<Rightarrow> sig_request \<Rightarrow> string \<Rightarrow> fed_node \<Rightarrow> fed_error option \<times> fed_node" where
  "node_receive env r doc n =
     (case process (node_inbox env) r doc \<lparr>ib_db = fn_db n, ib_fetch = fn_fetch n\<rparr> of
        (e, s) \<Rightarrow> (e, n\<lparr>fn_db := ib_db s, fn_fetch := ib_fetch s\<rparr>))"

definition node_tick :: "worker_env \<Rightarrow> fed_node \<Rightarrow> fed_node" where
  "node_tick env n =
     (let s = tick env \<lparr>wk_db = fn_db n, wk_queries = fs_queries (fn_fetch n), wk_log = fn_log n, wk_status = fn_status n\<rparr> in
      n\<lparr>fn_db := wk_db s, fn_fetch := (fn_fetch n)\<lparr>fs_queries := wk_queries s\<rparr>, fn_log := wk_log s, fn_status := wk_status s\<rparr>)"

definition node_block :: "fed_env \<Rightarrow> string \<Rightarrow> fed_db \<Rightarrow> fed_error option \<times> fed_db" where
  "node_block env target d =
     (if target = [] then (None, d)
      else
        let kind = (if contains target ''://'' then Block_Actor else Block_Domain) in
        (case block env target kind d of
           (Some e, d1) \<Rightarrow> (Some e, d1)
         | (None, d1) \<Rightarrow> (None, if kind = Block_Actor then snd (remove_follower env target d1) else d1)))"

datatype fed_event =
  Receive inbox_env sig_request string
| Publish publish_env change
| Work worker_env
| Add_Block fed_env string
| Remove_Block fed_env string

fun fed_step :: "fed_node \<Rightarrow> fed_event \<Rightarrow> fed_node" where
  "fed_step n (Receive env r doc) = snd (node_receive env r doc n)"
| "fed_step n (Publish env ch) = n\<lparr>fn_db := on_index_change (node_publisher env) ch (fn_db n)\<rparr>"
| "fed_step n (Work env) = node_tick env n"
| "fed_step n (Add_Block env target) = n\<lparr>fn_db := snd (node_block env target (fn_db n))\<rparr>"
| "fed_step n (Remove_Block env target) = n\<lparr>fn_db := snd (unblock env target (fn_db n))\<rparr>"

definition start_node :: fed_node where
  "start_node = \<lparr>fn_db = empty_fed, fn_fetch = empty_fetch, fn_log = [], fn_status = []\<rparr>"

section \<open>The type invariant of the store\<close>

definition job_ok :: "nat \<Rightarrow> delivery \<Rightarrow> bool" where
  "job_ok bound j \<longleftrightarrow> jb_id j < bound \<and> jb_max j = max_attempts \<and> jb_attempts j \<le> max_attempts \<and>
     (jb_status j = Pending \<longrightarrow> jb_attempts j < max_attempts)"

definition queue_ok :: "fed_db \<Rightarrow> bool" where
  "queue_ok d \<longleftrightarrow> distinct (map jb_id (fd_queue d)) \<and> distinct (map (\<lambda>j. (jb_inbox j, jb_activity j)) (fd_queue d)) \<and>
     list_all (job_ok (fd_next_job d)) (fd_queue d)"

definition fed_ok :: "fed_db \<Rightarrow> bool" where
  "fed_ok d \<longleftrightarrow> distinct (map fo_actor (fd_followers d)) \<and> distinct (map fw_actor (fd_following d)) \<and>
     distinct (map bl_target (fd_blocks d)) \<and> distinct (map ac_id (fd_activities d)) \<and>
     distinct (map rp_hash (fd_replay d)) \<and> queue_ok d"

lemma snd_fed_exec: "snd (fed_exec env st f d) = (if fd_fault env st then d else f d)"
  by (simp add: fed_exec_def)

lemma fed_exec_iff: "fed_exec env st f d = (e, d1) \<longleftrightarrow>
  (if fd_fault env st then e = Some Fed_Database \<and> d1 = d else e = None \<and> d1 = f d)"
  by (auto simp: fed_exec_def)

lemma queue_ok_update:
  assumes "queue_ok d" "\<And>j. jb_id (f j) = jb_id j \<and> jb_inbox (f j) = jb_inbox j \<and> jb_activity (f j) = jb_activity j"
    and "\<And>j. j \<in> set (fd_queue d) \<Longrightarrow> jb_id j = i \<Longrightarrow> job_ok (fd_next_job d) (f j)"
  shows "queue_ok (d\<lparr>fd_queue := update_where (\<lambda>j. jb_id j = i) f (fd_queue d)\<rparr>)"
proof -
  have "map jb_id (update_where (\<lambda>j. jb_id j = i) f (fd_queue d)) = map jb_id (fd_queue d)"
    "map (\<lambda>j. (jb_inbox j, jb_activity j)) (update_where (\<lambda>j. jb_id j = i) f (fd_queue d)) =
      map (\<lambda>j. (jb_inbox j, jb_activity j)) (fd_queue d)"
    using assms(2) by (simp_all add: map_update_where)
  moreover have "list_all (job_ok (fd_next_job d)) (update_where (\<lambda>j. jb_id j = i) f (fd_queue d))"
    using assms(1,3) by (auto simp: queue_ok_def list_all_iff update_where_def)
  ultimately show ?thesis using assms(1) by (simp add: queue_ok_def)
qed

lemma fed_ok_update:
  assumes "fed_ok d" "\<And>j. jb_id (f j) = jb_id j \<and> jb_inbox (f j) = jb_inbox j \<and> jb_activity (f j) = jb_activity j"
    and "\<And>j. job_ok (fd_next_job d) j \<Longrightarrow> job_ok (fd_next_job d) (f j)"
  shows "fed_ok (d\<lparr>fd_queue := update_where (\<lambda>j. jb_id j = i) f (fd_queue d)\<rparr>)"
proof -
  have q: "queue_ok d" using assms(1) by (simp add: fed_ok_def)
  have "queue_ok (d\<lparr>fd_queue := update_where (\<lambda>j. jb_id j = i) f (fd_queue d)\<rparr>)"
    by (rule queue_ok_update [OF q assms(2)]) (use q assms(3) in \<open>auto simp: queue_ok_def list_all_iff\<close>)
  then show ?thesis using assms(1) by (simp add: fed_ok_def)
qed

lemma fed_ok_store [intro]:
  assumes "fed_ok d"
  shows "fed_ok (snd (upsert_follower env f d))" "fed_ok (snd (remove_follower env a d))"
    "fed_ok (snd (following_accepted env a acc d))" "fed_ok (snd (block env t k d))" "fed_ok (snd (unblock env t d))"
    "fed_ok (snd (save_activity env act d))" "fed_ok (snd (remember_signature env h d))"
  using assms
  by (simp_all add: fed_ok_def queue_ok_def upsert_follower_def remove_follower_def following_accepted_def block_def put_block_def
      unblock_def save_activity_def remember_signature_def snd_fed_exec Let_def distinct_upsert distinct_delete_where
      merge_follower_def map_update_where lookup_None_iff)

lemma fed_ok_enqueue [intro]: "fed_ok d \<Longrightarrow> fed_ok (snd (enqueue env inbox act payload d))"
  by (auto simp: fed_ok_def queue_ok_def enqueue_def snd_fed_exec enqueue_job_def queued_def list_ex_iff list_all_iff job_ok_def
      max_attempts_def)

lemma fed_ok_mark_delivered [intro]: "fed_ok d \<Longrightarrow> fed_ok (snd (mark_delivered env i d))"
  by (auto simp: mark_delivered_def snd_fed_exec job_ok_def intro!: fed_ok_update)

lemma fed_ok_mark_attempt:
  "fed_ok d \<Longrightarrow> a \<le> max_attempts \<Longrightarrow> st = Pending \<longrightarrow> a < max_attempts \<Longrightarrow> fed_ok (snd (mark_attempt env i a t msg st d))"
  by (auto simp: mark_attempt_def snd_fed_exec job_ok_def intro!: fed_ok_update)

lemma fed_ok_empty [simp]: "fed_ok empty_fed"
  by (simp add: fed_ok_def queue_ok_def empty_fed_def)

section \<open>What the worker does to a job\<close>

lemma fail_job_db: "wk_db (fail_job env fe j c retry s) =
  snd (mark_attempt fe (jb_id j) (jb_attempts j + 1) (fd_clock fe + backoff (jb_attempts j + 1)) (fail_text env c)
    (if \<not> retry \<or> jb_attempts j + 1 \<ge> jb_max j then Failed else Pending) (wk_db s))"
  by (simp add: fail_job_def report_status_def Let_def)

lemma deliver_cases:
  obtains (delivered) "wk_db (deliver env fe j s) = snd (mark_delivered fe (jb_id j) (wk_db s))"
  | (failed) c retry where "wk_db (deliver env fe j s) =
      snd (mark_attempt fe (jb_id j) (jb_attempts j + 1) (fd_clock fe + backoff (jb_attempts j + 1)) (fail_text env c)
        (if \<not> retry \<or> jb_attempts j + 1 \<ge> jb_max j then Failed else Pending) (wk_db s))"
proof -
  have "wk_db (deliver env fe j s) = snd (mark_delivered fe (jb_id j) (wk_db s)) \<or>
    (\<exists>c retry. wk_db (deliver env fe j s) = wk_db (fail_job env fe j c retry s))"
    by (auto simp: deliver_def Let_def report_status_def fail_job_db split: option.split sum.split prod.split)
  then show thesis using delivered failed fail_job_db by metis
qed

lemma update_other: "k \<in> set rows \<Longrightarrow> jb_id k \<noteq> i \<Longrightarrow> k \<in> set (update_where (\<lambda>j. jb_id j = i) f rows)"
  by (force simp: update_where_def)

lemma mark_others:
  assumes "k \<in> set (fd_queue d)" "jb_id k \<noteq> i"
  shows "k \<in> set (fd_queue (snd (mark_delivered env i d)))" "k \<in> set (fd_queue (snd (mark_attempt env i a t msg st d)))"
  using assms by (simp_all add: mark_delivered_def mark_attempt_def snd_fed_exec update_other)

lemma deliver_others:
  "k \<in> set (fd_queue (wk_db s)) \<Longrightarrow> jb_id k \<noteq> jb_id j \<Longrightarrow> k \<in> set (fd_queue (wk_db (deliver env fe j s)))"
  by (rule deliver_cases [of env fe j s]) (auto intro: mark_others)

definition claimable :: "fed_db \<Rightarrow> delivery \<Rightarrow> bool" where
  "claimable d j \<longleftrightarrow> j \<in> set (fd_queue d) \<and> jb_status j = Pending"

lemma claim_due_claimable:
  assumes "claim_due env n d = Inr js" "fed_ok d"
  shows "list_all (claimable d) js" "distinct (map jb_id js)"
proof -
  let ?rows = "sort_key jb_next (filter (due (fed_now env)) (fd_queue d))"
  have js: "js = take (nat (if n \<le> 0 then 8 else n)) ?rows"
    using assms(1) by (auto simp: claim_due_def page_def split: if_splits)
  show "list_all (claimable d) js"
    by (auto simp: js list_all_iff claimable_def due_def dest!: in_set_takeD)
  have "distinct (map jb_id (filter (due (fed_now env)) (fd_queue d)))"
    using assms(2) by (simp add: fed_ok_def queue_ok_def distinct_map_filterI)
  then have "distinct (map jb_id ?rows)" by (simp add: distinct_map)
  then show "distinct (map jb_id js)" by (simp add: js take_map [symmetric])
qed

lemma claimable_attempts:
  assumes "claimable d j" "fed_ok d"
  shows "jb_attempts j + 1 \<le> max_attempts" "jb_max j = max_attempts"
  using assms by (auto simp: claimable_def fed_ok_def queue_ok_def list_all_iff job_ok_def)

lemma fed_ok_deliver:
  assumes "claimable (wk_db s) j" "fed_ok (wk_db s)"
  shows "fed_ok (wk_db (deliver env fe j s))"
  using claimable_attempts [OF assms] assms(2)
  by (cases rule: deliver_cases [of env fe j s]) (auto intro!: fed_ok_mark_attempt fed_ok_mark_delivered)

section \<open>Properties that survive every run\<close>

text \<open>
  \<open>P\<close> is a property of the store, \<open>good\<close> a condition on the environments of the calls. The laws ask that every
  statement keeps \<open>P\<close>; a job is only marked while it is claimed.
\<close>

locale fed_client =
  fixes P :: "fed_db \<Rightarrow> bool" and good :: "fed_env \<Rightarrow> bool"
  assumes keep_follower: "fed_ok d \<Longrightarrow> P d \<Longrightarrow> good env \<Longrightarrow> P (snd (upsert_follower env f d))"
    and keep_unfollow: "fed_ok d \<Longrightarrow> P d \<Longrightarrow> good env \<Longrightarrow> P (snd (remove_follower env a d))"
    and keep_following: "fed_ok d \<Longrightarrow> P d \<Longrightarrow> good env \<Longrightarrow> P (snd (following_accepted env a acc d))"
    and keep_block: "fed_ok d \<Longrightarrow> P d \<Longrightarrow> good env \<Longrightarrow> P (snd (block env t k d))"
    and keep_unblock: "fed_ok d \<Longrightarrow> P d \<Longrightarrow> good env \<Longrightarrow> P (snd (unblock env t d))"
    and keep_activity: "fed_ok d \<Longrightarrow> P d \<Longrightarrow> good env \<Longrightarrow> P (snd (save_activity env act d))"
    and keep_enqueue: "fed_ok d \<Longrightarrow> P d \<Longrightarrow> good env \<Longrightarrow> P (snd (enqueue env inbox aid payload d))"
    and keep_signature: "fed_ok d \<Longrightarrow> P d \<Longrightarrow> good env \<Longrightarrow> P (snd (remember_signature env h d))"
    and keep_delivered: "fed_ok d \<Longrightarrow> P d \<Longrightarrow> good env \<Longrightarrow> claimable d j \<Longrightarrow> P (snd (mark_delivered env (jb_id j) d))"
    and keep_attempt: "fed_ok d \<Longrightarrow> P d \<Longrightarrow> good env \<Longrightarrow> claimable d j \<Longrightarrow> P (snd (mark_attempt env (jb_id j) n x msg st d))"
begin

definition safe :: "fed_db \<Rightarrow> bool" where
  "safe d \<longleftrightarrow> fed_ok d \<and> P d"

lemma safe_stmt [intro]:
  assumes "safe d" "good env"
  shows "safe (snd (upsert_follower env f d))" "safe (snd (remove_follower env a d))"
    "safe (snd (following_accepted env a acc d))" "safe (snd (block env t k d))" "safe (snd (unblock env t d))"
    "safe (snd (save_activity env act d))" "safe (snd (enqueue env inbox aid payload d))"
    "safe (snd (remember_signature env h d))"
  using assms keep_follower keep_unfollow keep_following keep_block keep_unblock keep_activity keep_enqueue keep_signature
  by (auto simp: safe_def)

lemma safe_res:
  assumes "safe d" "good env"
  shows "upsert_follower env f d = (e, d1) \<Longrightarrow> safe d1" "save_activity env act d = (e, d1) \<Longrightarrow> safe d1"
    "enqueue env inbox aid payload d = (e, d1) \<Longrightarrow> safe d1" "remember_signature env h d = (e, d1) \<Longrightarrow> safe d1"
    "remove_follower env a d = (e, d1) \<Longrightarrow> safe d1" "following_accepted env a acc d = (e, d1) \<Longrightarrow> safe d1"
    "block env t k d = (e, d1) \<Longrightarrow> safe d1"
  using safe_stmt [OF assms] by (metis snd_conv)+

lemma safe_handlers:
  assumes "safe d" "good env"
  shows "safe (snd (handle_undo env m a d))" "safe (snd (set_following env acc a d))" "safe (snd (handle_delete env m a d))"
proof -
  have u: "safe (snd (remove_follower env a d))" and f: "safe (snd (following_accepted env a acc d))"
    using assms by blast+
  show "safe (snd (handle_undo env m a d))" using u assms(1) by (simp add: handle_undo_def Let_def)
  show "safe (snd (set_following env acc a d))" using f assms(1) by (simp add: set_following_def split: sum.split)
  show "safe (snd (handle_delete env m a d))" using u assms(1) by (simp add: handle_delete_def Let_def split: option.split)
qed

lemma safe_accept:
  assumes "safe d" "good (ie_fed env)"
  shows "safe (snd (accept_follower (node_inbox env) i remote d))"
  using assms
  by (simp add: accept_follower_def node_inbox_def Let_def split: option.split prod.split) (meson safe_res safe_stmt)

lemma safe_follow:
  assumes "safe (ib_db s)" "good (ie_fed env)"
  shows "safe (ib_db (snd (handle_follow (node_inbox env) m a remote s)))"
  using safe_accept [OF assms] assms(1)
  by (simp add: handle_follow_def Let_def split_beta split: sum.split prod.split)

lemma safe_activity:
  assumes "safe (ib_db s)" "good (ie_fed env)"
  shows "safe (ib_db (snd (handle_activity (node_inbox env) m a remote s)))"
  using safe_follow [OF assms] safe_handlers [OF assms] assms(1)
  by (simp add: handle_activity_def Let_def handle_accept_def handle_reject_def node_inbox_def split_beta)

lemma safe_process:
  assumes "safe (ib_db s)" "good (ie_fed env)"
  shows "safe (ib_db (snd (process (node_inbox env) r doc s)))"
proof -
  have fe: "ie_fed (node_inbox env) = ie_fed env" by (simp add: node_inbox_def)
  have "safe (ib_db (snd (process_verified (node_inbox env) doc p a t)))" if "safe (ib_db t)" for p a t
    using that assms(2) safe_res(4) [OF that assms(2)] safe_activity [where env = env]
    by (auto simp: process_verified_def Let_def fe split: sum.split option.split prod.split bool.split)
  then show ?thesis
    using assms(1) by (simp add: process_def split: sum.split prod.split)
qed

lemma safe_enqueue_all:
  "safe d \<Longrightarrow> good env \<Longrightarrow> safe (enqueue_all (Some (\<lambda>inbox. enqueue env inbox i payload)) seen fs d)"
  by (induction fs arbitrary: seen d) (auto simp: Let_def)

lemma safe_publish:
  assumes "safe d" "good (pe_fed env)"
  shows "safe (on_index_change (node_publisher env) ch d)"
  using assms safe_res(2) [OF assms] safe_enqueue_all [where env = "pe_fed env"]
  by (auto simp: on_index_change_def node_publisher_def Let_def split: sum.split option.split prod.split)

lemma safe_deliver:
  assumes "safe (wk_db s)" "good fe" "claimable (wk_db s) j"
  shows "safe (wk_db (deliver env fe j s))"
proof -
  have "P (wk_db (deliver env fe j s))"
    using assms keep_delivered keep_attempt by (cases rule: deliver_cases [of env fe j s]) (auto simp: safe_def)
  then show ?thesis using fed_ok_deliver [OF assms(3)] assms(1) by (simp add: safe_def)
qed

lemma safe_deliver_all:
  "safe (wk_db s) \<Longrightarrow> \<forall>i. good (we_fed env i) \<Longrightarrow> list_all (claimable (wk_db s)) js \<Longrightarrow> distinct (map jb_id js) \<Longrightarrow>
   safe (wk_db (snd (deliver_all env i js s)))"
proof (induction js arbitrary: i s)
  case (Cons j js)
  let ?s = "deliver env (we_fed env (i + 1)) j s"
  have skip: "safe (wk_db (snd (deliver_all env (i + 1) js s)))"
    using Cons.IH Cons.prems by simp
  have "safe (wk_db ?s)" using Cons.prems by (intro safe_deliver) auto
  moreover have "list_all (claimable (wk_db ?s)) js"
    unfolding list_all_iff
  proof
    fix k assume "k \<in> set js"
    then have "claimable (wk_db s) k" "jb_id k \<noteq> jb_id j" using Cons.prems(3,4) by (auto simp: list_all_iff image_iff)
    then show "claimable (wk_db ?s) k" using deliver_others by (simp add: claimable_def)
  qed
  ultimately have "safe (wk_db (snd (deliver_all env (i + 1) js ?s)))"
    using Cons.IH Cons.prems(2,4) by simp
  then show ?case using skip Cons.prems(1) by simp
qed simp

lemma safe_tick:
  assumes "safe (wk_db s)" "\<forall>i. good (we_fed env i)"
  shows "safe (wk_db (tick env s))"
proof (cases "claim_due (we_fed env 0) 8 (wk_db s)")
  case (Inr js)
  have ok: "fed_ok (wk_db s)" using assms(1) by (simp add: safe_def)
  note c = claim_due_claimable [OF Inr ok]
  have "safe (wk_db (snd (deliver_all env 0 js s)))"
    using safe_deliver_all [OF assms c(1) c(2)] .
  then show ?thesis using Inr
    by (auto simp: tick_def report_status_def Let_def split: prod.split bool.split)
qed (use assms in \<open>simp add: tick_def\<close>)

fun good_event :: "fed_event \<Rightarrow> bool" where
  "good_event (Receive env r doc) = good (ie_fed env)"
| "good_event (Publish env ch) = good (pe_fed env)"
| "good_event (Work env) = (\<forall>i. good (we_fed env i))"
| "good_event (Add_Block env target) = good env"
| "good_event (Remove_Block env target) = good env"

lemma safe_step: "safe (fn_db n) \<Longrightarrow> good_event e \<Longrightarrow> safe (fn_db (fed_step n e))"
proof (cases e)
  case (Receive env r doc)
  assume "safe (fn_db n)" "good_event e"
  then show ?thesis
    using safe_process [of "\<lparr>ib_db = fn_db n, ib_fetch = fn_fetch n\<rparr>" env r doc] Receive
    by (auto simp: node_receive_def split: prod.split)
next
  case (Add_Block env target)
  assume "safe (fn_db n)" "good_event e"
  then show ?thesis using Add_Block safe_res(7) safe_stmt(2)
    by (auto simp: node_block_def Let_def split: prod.split option.split)
qed (auto simp: safe_publish node_tick_def Let_def safe_tick)

lemma safe_run: "safe (fn_db n) \<Longrightarrow> list_all good_event es \<Longrightarrow> safe (fn_db (run fed_step n es))"
  by (induction es arbitrary: n) (simp_all add: safe_step)

end

text \<open>The type invariant itself.\<close>

interpretation inv: fed_client "\<lambda>_. True" "\<lambda>_. True"
  by unfold_locales auto

lemma inv_safe: "inv.safe d = fed_ok d"
  by (simp add: inv.safe_def)

lemma inv_good: "inv.good_event e"
  by (cases e) auto

lemma run_fed_ok: "fed_ok (fn_db n) \<Longrightarrow> fed_ok (fn_db (run fed_step n es))"
  using inv.safe_run [of n es] by (simp add: inv_safe list_all_iff inv_good)

text \<open>The row of a finished job.\<close>

lemma same_job: "fed_ok d \<Longrightarrow> j \<in> set (fd_queue d) \<Longrightarrow> k \<in> set (fd_queue d) \<Longrightarrow> jb_id j = jb_id k \<Longrightarrow> j = k"
  by (auto simp: fed_ok_def queue_ok_def distinct_map dest: inj_onD)

lemma finished_marks:
  assumes "fed_ok d" "j \<in> set (fd_queue d)" "jb_status j \<noteq> Pending" "claimable d k"
  shows "j \<in> set (fd_queue (snd (mark_delivered env (jb_id k) d)))"
    "j \<in> set (fd_queue (snd (mark_attempt env (jb_id k) n x msg st d)))"
proof -
  have "jb_id j \<noteq> jb_id k" using assms same_job by (auto simp: claimable_def)
  then show "j \<in> set (fd_queue (snd (mark_delivered env (jb_id k) d)))"
    "j \<in> set (fd_queue (snd (mark_attempt env (jb_id k) n x msg st d)))"
    using assms(2) by (auto intro: mark_others)
qed

lemma queue_frame:
  "fd_queue (snd (upsert_follower env f d)) = fd_queue d" "fd_queue (snd (remove_follower env a d)) = fd_queue d"
  "fd_queue (snd (following_accepted env a acc d)) = fd_queue d" "fd_queue (snd (block env t k d)) = fd_queue d"
  "fd_queue (snd (unblock env t d)) = fd_queue d" "fd_queue (snd (save_activity env act d)) = fd_queue d"
  "fd_queue (snd (remember_signature env h d)) = fd_queue d"
  by (simp_all add: upsert_follower_def remove_follower_def following_accepted_def block_def unblock_def save_activity_def
      remember_signature_def snd_fed_exec Let_def)

lemma enqueue_keeps: "j \<in> set (fd_queue d) \<Longrightarrow> j \<in> set (fd_queue (snd (enqueue env inbox act payload d)))"
  by (simp add: enqueue_def snd_fed_exec enqueue_job_def)

interpretation finished: fed_client "\<lambda>d. j \<in> set (fd_queue d) \<and> jb_status j \<noteq> Pending" "\<lambda>_. True" for j
  by unfold_locales (simp_all add: queue_frame enqueue_keeps finished_marks)

text \<open>A signature seen since the retention period before time \<open>T\<close>, for calls up to \<open>T\<close>.\<close>

definition remembered :: "time \<Rightarrow> string \<Rightarrow> fed_db \<Rightarrow> bool" where
  "remembered T h d \<longleftrightarrow> list_ex (\<lambda>r. rp_hash r = h \<and> stamp (T - replay_retain) \<le> rp_seen r) (fd_replay d)"

lemma replay_frame:
  "fd_replay (snd (upsert_follower env f d)) = fd_replay d" "fd_replay (snd (remove_follower env a d)) = fd_replay d"
  "fd_replay (snd (following_accepted env a acc d)) = fd_replay d" "fd_replay (snd (block env t k d)) = fd_replay d"
  "fd_replay (snd (unblock env t d)) = fd_replay d" "fd_replay (snd (save_activity env act d)) = fd_replay d"
  "fd_replay (snd (enqueue env inbox aid payload d)) = fd_replay d" "fd_replay (snd (mark_delivered env i d)) = fd_replay d"
  "fd_replay (snd (mark_attempt env i n x msg st d)) = fd_replay d"
  by (simp_all add: upsert_follower_def remove_follower_def following_accepted_def block_def unblock_def save_activity_def
      enqueue_def enqueue_job_def mark_delivered_def mark_attempt_def snd_fed_exec Let_def)

lemma remembered_keep:
  assumes "remembered T h d" "fd_clock env \<le> T"
  shows "remembered T h (snd (remember_signature env g d))"
proof -
  have "stamp (fd_clock env - replay_retain) \<le> stamp (T - replay_retain)" using assms(2) by (intro stamp_mono) simp
  then show ?thesis
    using assms(1) by (fastforce simp: remembered_def remember_signature_def list_ex_iff delete_where_def Let_def)
qed

interpretation seen: fed_client "remembered T h" "\<lambda>env. fd_clock env \<le> T" for T h
  by unfold_locales (simp_all add: remembered_keep, simp_all add: remembered_def replay_frame)

end
