(* ===== verification/Federation_Safety.thy ===== *)
theory Federation_Safety
  imports Federation
begin

text \<open>
  What an activity from the network can do: every effect of the inbox comes with a signature, a signature
  is accepted once, and the places where the identity of the sender is weaker than it looks.
\<close>

section \<open>Accepted activities\<close>

lemma remember_error: "remember_signature fe h d = (Some e, d1) \<Longrightarrow> d1 = d"
  by (auto simp: remember_signature_def Let_def split: if_splits)

lemma process_verified_effect:
  assumes "process_verified env doc p a s = (e, t)" "ib_db t \<noteq> ib_db s \<or> e = None"
  defines "fe \<equiv> ie_fed env" and "cr \<equiv> ft_crypto (ie_fetcher env)" and "parse \<equiv> parse_url (ft_net (ie_fetcher env))"
  shows "\<exists>m d. seen_signature fe (hash_signature cr (sp_signature p)) (ib_db s) = Inr False \<and>
    decode_map (parse_json cr) doc = Some m \<and> actor_iri (field ''actor'' m) \<noteq> [] \<and>
    (ra_id a = [] \<or> same_iri (actor_iri (field ''actor'' m)) (ra_id a)) \<and>
    is_blocked fe (actor_iri (field ''actor'' m)) (host_of parse (actor_iri (field ''actor'' m))) (ib_db s) = Inr False \<and>
    remember_signature fe (hash_signature cr (sp_signature p)) (ib_db s) = (None, d) \<and>
    handle_activity env m (actor_iri (field ''actor'' m)) a (s\<lparr>ib_db := d\<rparr>) = (e, t)"
  using assms(1,2) unfolding process_verified_def Let_def fe_def [symmetric] cr_def [symmetric] parse_def [symmetric]
  by (auto split: sum.splits option.splits prod.splits bool.splits if_splits dest: remember_error)

lemma process_effect:
  assumes "process env r doc s = (e, t)" "ib_db t \<noteq> ib_db s \<or> e = None"
  obtains p st a m d where "doc \<noteq> []" "length doc \<le> fed_max_inbox_body"
    "inbox_verify env r doc (ib_fetch s) = (Inr p, st, a)"
    "seen_signature (ie_fed env) (hash_signature (ft_crypto (ie_fetcher env)) (sp_signature p)) (ib_db s) = Inr False"
    "decode_map (parse_json (ft_crypto (ie_fetcher env))) doc = Some m" "actor_iri (field ''actor'' m) \<noteq> []"
    "ra_id a = [] \<or> same_iri (actor_iri (field ''actor'' m)) (ra_id a)"
    "is_blocked (ie_fed env) (actor_iri (field ''actor'' m))
       (host_of (parse_url (ft_net (ie_fetcher env))) (actor_iri (field ''actor'' m))) (ib_db s) = Inr False"
    "remember_signature (ie_fed env) (hash_signature (ft_crypto (ie_fetcher env)) (sp_signature p)) (ib_db s) = (None, d)"
    "handle_activity env m (actor_iri (field ''actor'' m)) a (s\<lparr>ib_fetch := st, ib_db := d\<rparr>) = (e, t)"
proof -
  have size: "doc \<noteq> []" "length doc \<le> fed_max_inbox_body"
    using assms by (auto simp: process_def split: if_splits)
  obtain p st a where v: "inbox_verify env r doc (ib_fetch s) = (Inr p, st, a)"
    and pv: "process_verified env doc p a (s\<lparr>ib_fetch := st\<rparr>) = (e, t)"
    using assms size by (auto simp: process_def split: sum.splits prod.splits)
  have "ib_db t \<noteq> ib_db (s\<lparr>ib_fetch := st\<rparr>) \<or> e = None" using assms(2) by simp
  from process_verified_effect [OF pv this] show thesis using that [OF size v] by auto
qed

lemma lookup_signer_sound:
  assumes "lookup_signer env kid st = (Inr (Some pub), st1, a)"
  shows "public_key (ie_fetcher env) (fd_clock (ie_fed env)) kid (fst st) = (Inr (pub, a), st1)"
  using assms by (auto simp: lookup_signer_def split: if_splits sum.splits prod.splits)

lemma signature_date:
  assumes "inbox_verify env r doc st = (Inr p, st1, a)"
  obtains t where "parse_http (ft_clock (ie_fetcher env)) (header_get ''Date'' (sr_header r)) = Some t"
    "fd_clock (ie_fed env) - max_age \<le> t" "t \<le> fd_clock (ie_fed env) + max_skew" "parse_request r = Inr p"
  using verify_sound [OF assms [unfolded inbox_verify_def]] by blast

lemma node_inbox_simps:
  "ie_fed (node_inbox env) = ie_fed env" "ie_fetcher (node_inbox env) = ie_fetcher env" "ie_paths (node_inbox env) = ie_paths env"
  by (simp_all add: node_inbox_def)

text \<open>
  The request carries a signature, under the key that the given remote actor was fetched with, over at least
  its date and, for a POST, the digest of the document; the date is recent.
\<close>

definition signed_by :: "inbox_env \<Rightarrow> sig_request \<Rightarrow> string \<Rightarrow> fetch_state \<Rightarrow> remote_actor \<Rightarrow> bool" where
  "signed_by env r doc st a \<longleftrightarrow>
     (\<exists>p s raw pub st1 t. parse_request r = Inr p \<and>
        public_key (ie_fetcher env) (fd_clock (ie_fed env)) (sp_key_id p) st = (Inr (pub, a), st1) \<and>
        signing_string r (sp_headers p) = Inr s \<and> b64_decode (sp_signature p) = Some raw \<and>
        rsa_verify (ft_crypto (ie_fetcher env)) pub (sha256 (ft_crypto (ie_fetcher env)) s) raw \<and>
        ''date'' \<in> set (sp_headers p) \<and> parse_http (ft_clock (ie_fetcher env)) (header_get ''Date'' (sr_header r)) = Some t \<and>
        fd_clock (ie_fed env) - max_age \<le> t \<and> t \<le> fd_clock (ie_fed env) + max_skew \<and>
        (equal_fold (sr_method r) ''POST'' \<longrightarrow> ''digest'' \<in> set (sp_headers p) \<and>
           digest_equal (header_get ''Digest'' (sr_header r)) (digest_sha256 (ft_crypto (ie_fetcher env)) doc)))"

lemma verified_signed:
  assumes "inbox_verify env r doc st = (Inr p, st1, a)"
  shows "signed_by env r doc st a"
proof -
  from verify_sound [OF assms [unfolded inbox_verify_def]] obtain s raw pub t where
    l: "lookup_signer env (sp_key_id p) (st, no_actor) = (Inr (Some pub), st1, a)" and
    v: "parse_request r = Inr p" "signing_string r (sp_headers p) = Inr s" "b64_decode (sp_signature p) = Some raw"
    "rsa_verify (ft_crypto (ie_fetcher env)) pub (sha256 (ft_crypto (ie_fetcher env)) s) raw" "''date'' \<in> set (sp_headers p)"
    "parse_http (ft_clock (ie_fetcher env)) (header_get ''Date'' (sr_header r)) = Some t"
    "fd_clock (ie_fed env) - max_age \<le> t" "t \<le> fd_clock (ie_fed env) + max_skew"
    "equal_fold (sr_method r) ''POST'' \<longrightarrow> ''digest'' \<in> set (sp_headers p) \<and>
       digest_equal (header_get ''Digest'' (sr_header r)) (digest_sha256 (ft_crypto (ie_fetcher env)) doc)"
    by blast
  with lookup_signer_sound [OF l, unfolded fst_conv] show ?thesis unfolding signed_by_def by blast
qed

lemma signed_by_node_inbox: "signed_by (node_inbox env) r doc st a = signed_by env r doc st a"
  by (simp add: signed_by_def node_inbox_simps)

lemma receive_signed:
  assumes "node_receive env r doc n = (e, n1)" "fn_db n1 \<noteq> fn_db n"
  shows "\<exists>m a. decode_map (parse_json (ft_crypto (ie_fetcher env))) doc = Some m \<and> signed_by env r doc (fn_fetch n) a \<and>
    (ra_id a = [] \<or> same_iri (actor_iri (field ''actor'' m)) (ra_id a)) \<and>
    is_blocked (ie_fed env) (actor_iri (field ''actor'' m))
      (host_of (parse_url (ft_net (ie_fetcher env))) (actor_iri (field ''actor'' m))) (fn_db n) = Inr False"
proof -
  let ?s = "\<lparr>ib_db = fn_db n, ib_fetch = fn_fetch n\<rparr>"
  obtain t where pr: "process (node_inbox env) r doc ?s = (e, t)" and t: "ib_db t \<noteq> ib_db ?s"
    using assms by (auto simp: node_receive_def split: prod.splits)
  from t have c: "ib_db t \<noteq> ib_db ?s \<or> e = None" ..
  show ?thesis
    by (rule process_effect [OF pr c]) (use verified_signed signed_by_node_inbox in \<open>simp add: node_inbox_simps, blast\<close>)
qed

section \<open>Replays\<close>

fun event_until :: "time \<Rightarrow> fed_event \<Rightarrow> bool" where
  "event_until T (Receive env r doc) \<longleftrightarrow> fd_clock (ie_fed env) \<le> T"
| "event_until T (Publish env ch) \<longleftrightarrow> fd_clock (pe_fed env) \<le> T"
| "event_until T (Work env) \<longleftrightarrow> (\<forall>i. fd_clock (we_fed env i) \<le> T)"
| "event_until T (Add_Block env target) \<longleftrightarrow> fd_clock env \<le> T"
| "event_until T (Remove_Block env target) \<longleftrightarrow> fd_clock env \<le> T"

lemma event_until_good: "seen.good_event T e = event_until T e"
  by (cases e) auto

lemma remember_remembers:
  assumes "remember_signature fe h d = (None, d1)" "seen_signature fe h d = Inr False"
    and "fd_clock fe \<le> T" "T - replay_retain \<le> fd_clock fe"
  shows "remembered T h d1"
proof -
  have "0 \<le> replay_retain" by (simp add: replay_retain_def second_def)
  then have "stamp (fd_clock fe - replay_retain) \<le> stamp (fd_clock fe)" "stamp (T - replay_retain) \<le> stamp (fd_clock fe)"
    using assms(4) by (intro stamp_mono, simp)+
  then show ?thesis
    using assms(1,2) by (auto simp: remember_signature_def seen_signature_def remembered_def fed_now_def list_ex_iff
        delete_where_def Let_def split: if_splits)
qed

lemma remembered_seen:
  assumes "remembered T h d" "\<not> fd_fault fe Fd_Seen"
  shows "seen_signature fe h d = Inr True"
proof -
  have "lookup rp_hash h (fd_replay d) \<noteq> None"
    using assms(1) by (auto simp: remembered_def list_ex_iff lookup_None_iff)
  then show ?thesis using assms(2) by (simp add: seen_signature_def)
qed

lemma receive_remembers:
  assumes "node_receive env r doc n = (None, n1)" "fed_ok (fn_db n)" "fd_clock (ie_fed env) \<le> T"
    and "T - replay_retain \<le> fd_clock (ie_fed env)" "parse_request r = Inr p"
  shows "seen.safe T (hash_signature (ft_crypto (ie_fetcher env)) (sp_signature p)) (fn_db n1)"
proof -
  let ?s = "\<lparr>ib_db = fn_db n, ib_fetch = fn_fetch n\<rparr>"
  let ?e = "node_inbox env"
  have same: "ie_fed ?e = ie_fed env" "ie_fetcher ?e = ie_fetcher env" by (simp_all add: node_inbox_def)
  obtain t where pr: "process ?e r doc ?s = (None, t)" and n1: "fn_db n1 = ib_db t"
    using assms(1) by (auto simp: node_receive_def split: prod.splits)
  obtain q st a m d where v: "inbox_verify ?e r doc (fn_fetch n) = (Inr q, st, a)"
    and sn: "seen_signature (ie_fed env) (hash_signature (ft_crypto (ie_fetcher env)) (sp_signature q)) (fn_db n) = Inr False"
    and rm: "remember_signature (ie_fed env) (hash_signature (ft_crypto (ie_fetcher env)) (sp_signature q)) (fn_db n) = (None, d)"
    and h: "handle_activity ?e m (actor_iri (field ''actor'' m)) a (?s\<lparr>ib_fetch := st, ib_db := d\<rparr>) = (None, t)"
    using process_effect [OF pr] same by simp metis
  have q: "q = p" using signature_date [OF v] assms(5) by auto
  have "remembered T (hash_signature (ft_crypto (ie_fetcher env)) (sp_signature p)) d"
    using remember_remembers [OF rm sn assms(3,4)] q by simp
  moreover have "fed_ok d" using fed_ok_store(7) [OF assms(2)] rm by (metis snd_conv)
  ultimately have "seen.safe T (hash_signature (ft_crypto (ie_fetcher env)) (sp_signature p)) d"
    by (simp add: seen.safe_def)
  then show ?thesis
    using seen.safe_activity [where s = "?s\<lparr>ib_fetch := st, ib_db := d\<rparr>" and env = env] assms(3) h n1 by (metis inbox_state.select_convs(1) inbox_state.simps snd_conv)
qed

lemma process_cases:
  "fst (process env r doc s) \<in> {Some Fed_Bad_Activity, Some Fed_Unauthorized} \<or>
   (\<exists>p st a. inbox_verify env r doc (ib_fetch s) = (Inr p, st, a) \<and>
      process env r doc s = process_verified env doc p a (s\<lparr>ib_fetch := st\<rparr>))"
  by (auto simp: process_def split: sum.split prod.split)

lemma seen_rejects:
  assumes "remembered T (hash_signature (ft_crypto (ie_fetcher env)) (sp_signature p)) (ib_db s)"
  shows "fst (process_verified env doc p a s) \<in> {Some Fed_Replay, Some Fed_Database}"
proof (cases "fd_fault (ie_fed env) Fd_Seen")
  case True
  then show ?thesis by (simp add: process_verified_def seen_signature_def)
next
  case False
  then show ?thesis using remembered_seen [OF assms] by (simp add: process_verified_def Let_def)
qed

lemma accepted_window:
  assumes "inbox_verify env r doc st = (Inr p, st1, a)" "inbox_verify env' r doc' st' = (Inr p', st1', a')"
    and "ft_clock (ie_fetcher env') = ft_clock (ie_fetcher env)"
  shows "fd_clock (ie_fed env') - replay_retain \<le> fd_clock (ie_fed env)" "p' = p"
proof -
  obtain t where t: "parse_http (ft_clock (ie_fetcher env)) (header_get ''Date'' (sr_header r)) = Some t"
    "t \<le> fd_clock (ie_fed env) + max_skew" and p: "parse_request r = Inr p"
    using signature_date [OF assms(1)] by metis
  obtain u where u: "parse_http (ft_clock (ie_fetcher env')) (header_get ''Date'' (sr_header r)) = Some u"
    "fd_clock (ie_fed env') - max_age \<le> u" and p': "parse_request r = Inr p'"
    using signature_date [OF assms(2)] by metis
  have "u = t" using t(1) u(1) assms(3) by simp
  then show "fd_clock (ie_fed env') - replay_retain \<le> fd_clock (ie_fed env)"
    using t(2) u(2) by (simp add: replay_retain_def max_age_def max_skew_def second_def)
  show "p' = p" using p p' by simp
qed

lemma replay_fails:
  assumes first: "node_receive env r doc n = (None, n1)" and ok: "fed_ok (fn_db n)"
    and between: "list_all (event_until (fd_clock (ie_fed env'))) es" "fd_clock (ie_fed env) \<le> fd_clock (ie_fed env')"
    and same: "ft_crypto (ie_fetcher env') = ft_crypto (ie_fetcher env)" "ft_clock (ie_fetcher env') = ft_clock (ie_fetcher env)"
  shows "fst (node_receive env' r doc' (run fed_step n1 es)) \<noteq> None"
proof -
  let ?n2 = "run fed_step n1 es"
  let ?s = "\<lparr>ib_db = fn_db n, ib_fetch = fn_fetch n\<rparr>" and ?s2 = "\<lparr>ib_db = fn_db ?n2, ib_fetch = fn_fetch ?n2\<rparr>"
  have fe: "ie_fed (node_inbox e) = ie_fed e" "ie_fetcher (node_inbox e) = ie_fetcher e" for e by (simp_all add: node_inbox_def)
  obtain s1 where p1: "process (node_inbox env) r doc ?s = (None, s1)"
    using first by (auto simp: node_receive_def split: prod.splits)
  obtain p st a where v1: "inbox_verify (node_inbox env) r doc (fn_fetch n) = (Inr p, st, a)"
    using process_effect [OF p1] by (metis inbox_state.select_convs(2))
  have r2: "fst (node_receive env' r doc' ?n2) = fst (process (node_inbox env') r doc' ?s2)"
    by (simp add: node_receive_def split: prod.split)
  from process_cases [of "node_inbox env'" r doc' ?s2] show ?thesis
  proof
    assume "\<exists>p st a. inbox_verify (node_inbox env') r doc' (ib_fetch ?s2) = (Inr p, st, a) \<and>
      process (node_inbox env') r doc' ?s2 = process_verified (node_inbox env') doc' p a (?s2\<lparr>ib_fetch := st\<rparr>)"
    then obtain p2 st2 a2 where v2: "inbox_verify (node_inbox env') r doc' (ib_fetch ?s2) = (Inr p2, st2, a2)"
      and e2: "process (node_inbox env') r doc' ?s2 = process_verified (node_inbox env') doc' p2 a2 (?s2\<lparr>ib_fetch := st2\<rparr>)"
      by blast
    have w: "fd_clock (ie_fed env') - replay_retain \<le> fd_clock (ie_fed env)" "p2 = p"
      using accepted_window [OF v1 v2] same(2) fe by simp_all
    have "parse_request r = Inr p" using signature_date [OF v1] by metis
    then have "seen.safe (fd_clock (ie_fed env')) (hash_signature (ft_crypto (ie_fetcher env)) (sp_signature p)) (fn_db n1)"
      using receive_remembers [OF first ok between(2) w(1)] by simp
    then have "seen.safe (fd_clock (ie_fed env')) (hash_signature (ft_crypto (ie_fetcher env)) (sp_signature p)) (fn_db ?n2)"
      by (rule seen.safe_run) (use between(1) in \<open>simp add: event_until_good list_all_iff\<close>)
    then have "remembered (fd_clock (ie_fed env')) (hash_signature (ft_crypto (ie_fetcher (node_inbox env'))) (sp_signature p2))
        (ib_db (?s2\<lparr>ib_fetch := st2\<rparr>))"
      using w(2) same(1) fe by (simp add: seen.safe_def)
    from seen_rejects [OF this] show ?thesis unfolding r2 e2 by auto
  qed (auto simp: r2)
qed

section \<open>What a fetched document says\<close>

lemma client_one:
  "dial_context p nt (url_addr u) n = (Inr i, n1) \<Longrightarrow> serve i u = Some a \<Longrightarrow> an_redirect a = None \<Longrightarrow>
   client_do p nt serve u n = (Inr a, [i], n1)"
  by (simp add: client_do_def client_loop.simps)

definition document_request :: "fetcher \<Rightarrow> url \<Rightarrow> sig_request" where
  "document_request ft u =
     (let r = new_request ''GET'' u in
      r\<lparr>sr_header := header_set ''User-Agent'' user_agent
          (header_set ''Accept'' ''application/activity+json, application/ld+json'' (sr_header r))\<rparr>)"

lemma fetch_actor_document:
  assumes "check_url (ft_policy ft) (ft_net ft) aurl = None" "parse_url (ft_net ft) aurl = Some u"
    and "fetcher_sign_get ft now (document_request ft u) = (None, r)"
    and "client_do (ft_policy ft) (ft_net ft) (ft_serve ft r) u n = (Inr ans, contacted, n1)"
    and "an_status ans = 200" "an_body ans = Some b" "length b \<le> max_actor_body"
    and "decode_map (parse_json (ft_crypto ft)) b = Some m"
  shows "fetch_actor ft now aurl n = (read_actor ft aurl m, n1)"
  using assms by (simp add: fetch_actor_def document_request_def Let_def)

lemma public_key_fetched:
  assumes "fs_cache st kid = None" "fetch_actor ft now (actor_from_key_id kid) (fs_queries st) = (Inr a, n1)"
    and "ra_key_id a = kid" "parse_public (ft_crypto ft) (ra_key_pem a) = Some pub"
  shows "public_key ft now kid st = (Inr (pub, a), st\<lparr>fs_queries := n1,
    fs_cache := (fs_cache st)(kid \<mapsto> \<lparr>ke_pub = pub, ke_exp = now + key_ttl, ke_actor = a\<rparr>)\<rparr>)"
  using assms by (simp add: public_key_def Let_def)

lemma named_actor:
  assumes "fs_cache st kid = None" "check_url (ft_policy ft) (ft_net ft) (actor_from_key_id kid) = None"
    and "parse_url (ft_net ft) (actor_from_key_id kid) = Some u"
    and "fetcher_sign_get ft now (document_request ft u) = (None, r)"
    and "client_do (ft_policy ft) (ft_net ft) (ft_serve ft r) u (fs_queries st) = (Inr ans, contacted, n1)"
    and "an_status ans = 200" "an_body ans = Some b" "length b \<le> max_actor_body"
    and doc: "decode_map (parse_json (ft_crypto ft)) b = Some [(''id'', JStr x), (''inbox'', JStr y),
           (''publicKey'', JObj [(''id'', JStr kid), (''publicKeyPem'', JStr pem)])]" (is "_ = Some ?m")
    and plain: "trim_space x = x" "trim_space y = y" "trim_space kid = kid" "trim_space pem = pem" "x \<noteq> []" "pem \<noteq> []"
    and "is_http_url (parse_url (ft_net ft)) x" "is_http_url (parse_url (ft_net ft)) y"
    and "check_url (ft_policy ft) (ft_net ft) y = None" "parse_public (ft_crypto ft) pem = Some pub"
  defines "a \<equiv> \<lparr>ra_id = x, ra_inbox = y, ra_shared = [], ra_user = [], ra_key_id = kid, ra_key_pem = pem\<rparr>"
  shows "public_key ft now kid st = (Inr (pub, a), st\<lparr>fs_queries := n1,
    fs_cache := (fs_cache st)(kid \<mapsto> \<lparr>ke_pub = pub, ke_exp = now + key_ttl, ke_actor = a\<rparr>)\<rparr>)"
proof (rule public_key_fetched)
  have "as_string (field ''id'' ?m) = x" "as_string (field ''inbox'' ?m) = y" "as_map (field ''endpoints'' ?m) = None"
    "as_string (field ''preferredUsername'' ?m) = []"
    "as_map (field ''publicKey'' ?m) = Some [(''id'', JStr kid), (''publicKeyPem'', JStr pem)]"
    "as_string (field ''id'' [(''id'', JStr kid), (''publicKeyPem'', JStr pem)]) = kid"
    "as_string (field ''publicKeyPem'' [(''id'', JStr kid), (''publicKeyPem'', JStr pem)]) = pem"
    using plain by (simp_all add: field_def as_string_def as_map_def)
  then have "read_actor ft (actor_from_key_id kid) ?m = Inr a"
    using assms(14-18) by (simp add: read_actor_def a_def Let_def)
  then show "fetch_actor ft now (actor_from_key_id kid) (fs_queries st) = (Inr a, n1)"
    using fetch_actor_document [OF assms(2-8) doc] by simp
qed (simp_all add: assms(1,19) a_def)

section \<open>An example: a server that speaks for somebody else\<close>

definition victim :: string where "victim = ''https://v.example/u''"
definition evil_key :: string where "evil_key = ''https://e.example/a#k''"
definition evil_inbox :: string where "evil_inbox = ''https://e.example/in''"

definition evil_document :: "(string \<times> json) list" where
  "evil_document = [(''id'', JStr victim), (''inbox'', JStr evil_inbox),
     (''publicKey'', JObj [(''id'', JStr evil_key), (''publicKeyPem'', JStr ''KEY12'')])]"

definition demo_docs :: "string \<Rightarrow> json option" where
  "demo_docs t =
     (if t = ''ACTOR'' then Some (JObj evil_document)
      else if t = ''LIKE'' then Some (JObj [(''type'', JStr ''Like''), (''actor'', JStr victim)])
      else if t = ''FOLLOW'' then Some (JObj [(''type'', JStr ''Follow''), (''actor'', JStr (victim @ ''/''))])
      else None)"

definition demo_fetcher :: fetcher where
  "demo_fetcher = \<lparr>ft_policy = \<lparr>allow_private = False\<rparr>, ft_net = demo_net public_dns,
     ft_serve = (\<lambda>r i u. Some \<lparr>an_status = 200, an_body = Some ''ACTOR'', an_redirect = None\<rparr>),
     ft_key_id = None, ft_private = None, ft_crypto = demo_keys\<lparr>parse_json := demo_docs\<rparr>, ft_clock = demo_http_clock\<rparr>"

definition evil_actor :: remote_actor where
  "evil_actor = \<lparr>ra_id = victim, ra_inbox = evil_inbox, ra_shared = [], ra_user = [], ra_key_id = evil_key, ra_key_pem = ''KEY12''\<rparr>"

definition evil_url :: url where
  "evil_url = \<lparr>u_scheme = ''https'', u_host = ''e.example'', u_hostname = ''e.example'', u_port = [], u_path = ''/a'',
     u_query = [], u_user = False\<rparr>"

lemma evil_dial: "dial_context \<lparr>allow_private = False\<rparr> (demo_net public_dns) (url_addr evil_url) n = (Inr [93, 184, 216, 34], n + 2)"
proof -
  have "split_host_port (url_addr evil_url) = Some (''e.example'', ''443'')" by code_simp
  moreover have "\<not> blocked_ip \<lparr>allow_private = False\<rparr> (Some [93, 184, 216, 34])" by code_simp
  ultimately show ?thesis
    by (simp add: dial_context_def lookup_blocked_def dialer_def demo_net_def public_dns_def Let_def)
qed

lemma evil_facts:
  "check_url (ft_policy demo_fetcher) (ft_net demo_fetcher) ''https://e.example/a'' = None"
  "parse_url (ft_net demo_fetcher) ''https://e.example/a'' = Some evil_url"
  "fetcher_sign_get demo_fetcher now r = (None, r)"
  "decode_map (parse_json (ft_crypto demo_fetcher)) ''ACTOR'' = Some evil_document"
  "read_actor demo_fetcher ''https://e.example/a'' evil_document = Inr evil_actor"
  "actor_from_key_id evil_key = ''https://e.example/a''"
  "parse_public (ft_crypto demo_fetcher) ''KEY12'' = Some ''KEY12''"
proof -
  show "fetcher_sign_get demo_fetcher now r = (None, r)" by (simp add: fetcher_sign_get_def demo_fetcher_def)
  show "check_url (ft_policy demo_fetcher) (ft_net demo_fetcher) ''https://e.example/a'' = None"
    "parse_url (ft_net demo_fetcher) ''https://e.example/a'' = Some evil_url"
    "decode_map (parse_json (ft_crypto demo_fetcher)) ''ACTOR'' = Some evil_document"
    "read_actor demo_fetcher ''https://e.example/a'' evil_document = Inr evil_actor"
    "actor_from_key_id evil_key = ''https://e.example/a''"
    "parse_public (ft_crypto demo_fetcher) ''KEY12'' = Some ''KEY12''"
    by code_simp+
qed

lemma demo_client:
  "client_do (ft_policy demo_fetcher) (ft_net demo_fetcher) (ft_serve demo_fetcher r) evil_url n =
     (Inr \<lparr>an_status = 200, an_body = Some ''ACTOR'', an_redirect = None\<rparr>, [[93, 184, 216, 34]], n + 2)"
  by (rule client_one) (simp_all add: demo_fetcher_def evil_dial)

lemma demo_fetch: "fetch_actor demo_fetcher now ''https://e.example/a'' n = (Inr evil_actor, n + 2)"
proof -
  have "length ''ACTOR'' \<le> max_actor_body" by (simp add: max_actor_body_def)
  from fetch_actor_document [OF evil_facts(1,2,3) demo_client _ _ this evil_facts(4)] show ?thesis
    by (simp add: evil_facts(5))
qed

definition demo_inbox :: inbox_env where
  "demo_inbox = \<lparr>ie_fed = demo_fed, ie_fetcher = demo_fetcher, ie_paths = \<lparr>pt_base = ''https://b.example'', pt_user = ''bob''\<rparr>,
     ie_enqueue = None, ie_random = None, ie_format = (\<lambda>_. [])\<rparr>"

definition demo_send :: "string \<Rightarrow> sig_request" where
  "demo_send doc = snd (sign_request (ft_crypto demo_fetcher) demo_http_clock (100 * second) evil_key (Some ''KEY12'') doc demo_post)"

lemma demo_send_signed:
  assumes "doc \<in> {''LIKE'', ''FOLLOW''}"
  shows "sign_request (ft_crypto demo_fetcher) demo_http_clock (100 * second) evil_key (Some ''KEY12'') doc demo_post = (None, demo_send doc)"
proof -
  have "fst (sign_request (ft_crypto demo_fetcher) demo_http_clock (100 * second) evil_key (Some ''KEY12'') ''LIKE'' demo_post) = None"
    "fst (sign_request (ft_crypto demo_fetcher) demo_http_clock (100 * second) evil_key (Some ''KEY12'') ''FOLLOW'' demo_post) = None"
    by code_simp+
  then show ?thesis using assms by (auto simp: demo_send_def prod_eq_iff)
qed

lemma demo_verifies:
  assumes "doc \<in> {''LIKE'', ''FOLLOW''}"
  shows "\<exists>sg st1. inbox_verify (node_inbox demo_inbox) (demo_send doc) doc empty_fetch =
     (Inr (signed_params evil_key default_headers sg), st1, evil_actor)"
proof -
  have key: "public_key demo_fetcher (100 * second) evil_key empty_fetch = (Inr (''KEY12'', evil_actor), empty_fetch\<lparr>fs_queries := 2,
      fs_cache := (fs_cache empty_fetch)(evil_key \<mapsto>
        \<lparr>ke_pub = ''KEY12'', ke_exp = 100 * second + key_ttl, ke_actor = evil_actor\<rparr>)\<rparr>)"
    by (rule public_key_fetched) (simp_all add: evil_facts(6,7) demo_fetch empty_fetch_def evil_actor_def)
  have "is_http_url (parse_url (ft_net demo_fetcher)) (actor_from_key_id evil_key)" by code_simp
  then have l: "lookup_signer (node_inbox demo_inbox) evil_key (empty_fetch, no_actor) =
     (Inr (Some ''KEY12''), snd (public_key demo_fetcher (100 * second) evil_key empty_fetch), evil_actor)"
    using key by (simp add: lookup_signer_def node_inbox_simps demo_inbox_def demo_fed_def)
  have pair: "rsa_pair (ft_crypto demo_fetcher) ''KEY12'' ''KEY12''" by (auto simp: rsa_pair_def demo_fetcher_def demo_keys_def)
  have plain: "dquote \<notin> set evil_key" "header_get ''Date'' (sr_header demo_post) = []" by code_simp+
  have date: "check_date demo_http_clock (format_http demo_http_clock (100 * second)) (100 * second) = None"
    by (simp add: check_date_def demo_http_clock_def max_skew_def max_age_def second_def)
  have "\<exists>sg. verify_request_at (ft_crypto demo_fetcher) demo_http_clock (demo_send doc) doc (lookup_signer (node_inbox demo_inbox))
      (100 * second) (empty_fetch, no_actor) = (Inr (signed_params evil_key default_headers sg),
        snd (public_key demo_fetcher (100 * second) evil_key empty_fetch), evil_actor)"
    by (rule sign_then_verify [OF demo_send_signed [OF assms] pair plain date, where lookup_key = "lookup_signer (node_inbox demo_inbox)"]) (rule l)
  moreover have "ft_clock demo_fetcher = demo_http_clock" by (simp add: demo_fetcher_def)
  ultimately show ?thesis
    unfolding inbox_verify_def by (simp add: node_inbox_simps demo_inbox_def demo_fed_def) blast
qed

lemma demo_like_accepted:
  "\<exists>s1. process (node_inbox demo_inbox) (demo_send ''LIKE'') ''LIKE'' \<lparr>ib_db = empty_fed, ib_fetch = empty_fetch\<rparr> = (None, s1) \<and>
        fd_replay (ib_db s1) \<noteq> []"
proof -
  obtain sg st1 where v: "inbox_verify (node_inbox demo_inbox) (demo_send ''LIKE'') ''LIKE'' empty_fetch =
     (Inr (signed_params evil_key default_headers sg), st1, evil_actor)"
    using demo_verifies [of "''LIKE''"] by blast
  have m: "decode_map (parse_json (ft_crypto demo_fetcher)) ''LIKE'' = Some [(''type'', JStr ''Like''), (''actor'', JStr victim)]"
    by code_simp
  have f: "actor_iri (field ''actor'' [(''type'', JStr ''Like''), (''actor'', JStr victim)]) = victim"
    "type_of (field ''type'' [(''type'', JStr ''Like''), (''actor'', JStr victim)]) = ''Like''"
    "victim \<noteq> []" "is_http_url (parse_url (ft_net demo_fetcher)) victim"
    by code_simp+
  let ?s = "\<lparr>ib_db = empty_fed, ib_fetch = empty_fetch\<rparr>"
  have "length ''LIKE'' \<le> fed_max_inbox_body" by (simp add: fed_max_inbox_body_def)
  then have "process (node_inbox demo_inbox) (demo_send ''LIKE'') ''LIKE'' ?s =
      process_verified (node_inbox demo_inbox) ''LIKE'' (signed_params evil_key default_headers sg) evil_actor (?s\<lparr>ib_fetch := st1\<rparr>)"
    by (simp add: process_def v)
  moreover have e: "ie_fed demo_inbox = demo_fed" "ie_fetcher demo_inbox = demo_fetcher" "\<And>st. \<not> fd_fault demo_fed st"
    "fd_clock demo_fed = 100 * second" "ra_id evil_actor = victim"
    by (simp_all add: demo_inbox_def demo_fed_def evil_actor_def)
  moreover have "stamp (100 * second - replay_retain) \<le> stamp (100 * second)"
    by (simp add: stamp_def replay_retain_def second_def)
  ultimately show ?thesis
    using m f by (simp add: process_verified_def node_inbox_simps seen_signature_def is_blocked_def empty_fed_def sql
        remember_signature_def handle_activity_def Let_def delete_where_def fed_now_def)
qed

lemma demo_receive:
  "\<exists>n1. node_receive demo_inbox (demo_send ''LIKE'') ''LIKE'' start_node = (None, n1) \<and> fn_db n1 \<noteq> fn_db start_node"
proof -
  obtain s1 where "process (node_inbox demo_inbox) (demo_send ''LIKE'') ''LIKE'' \<lparr>ib_db = empty_fed, ib_fetch = empty_fetch\<rparr> = (None, s1)"
    "fd_replay (ib_db s1) \<noteq> []"
    using demo_like_accepted by blast
  then show ?thesis by (auto simp: node_receive_def start_node_def empty_fed_def)
qed

section \<open>A blocked actor with another spelling\<close>

lemma accept_stores:
  assumes "\<forall>st. \<not> fd_fault (ie_fed env) st"
  shows "\<exists>d1. accept_follower (node_inbox env) i a d = (None, d1) \<and> lookup fo_actor (ra_id a) (fd_followers d1) \<noteq> None"
  using assms
  by (auto simp: accept_follower_def node_inbox_simps Let_def node_inbox_def upsert_follower_def save_activity_def enqueue_def
      fed_exec_def enqueue_job_def lookup_upsert merge_follower_def split: option.split)

lemma unblocked_follow:
  assumes v: "inbox_verify (node_inbox env) r doc (fn_fetch n) = (Inr p, st, a)"
    and size: "doc \<noteq> []" "length doc \<le> fed_max_inbox_body"
    and m: "decode_map (parse_json (ft_crypto (ie_fetcher env))) doc = Some m" "type_of (field ''type'' m) = ''Follow''"
      "object_id (field ''object'' m) = []" "actor_iri (field ''actor'' m) = x"
    and x: "x \<noteq> []" "is_http_url (parse_url (ft_net (ie_fetcher env))) x" "same_iri x (ra_id a)" "ra_id a \<noteq> []" "ra_inbox a \<noteq> []"
    and free: "x \<notin> bl_target ` set (fd_blocks (fn_db n))"
      "host_of (parse_url (ft_net (ie_fetcher env))) x \<notin> bl_target ` set (fd_blocks (fn_db n))"
    and new: "hash_signature (ft_crypto (ie_fetcher env)) (sp_signature p) \<notin> rp_hash ` set (fd_replay (fn_db n))"
    and up: "\<forall>st. \<not> fd_fault (ie_fed env) st"
  shows "fst (node_receive env r doc n) = None \<and>
    lookup fo_actor (ra_id a) (fd_followers (fn_db (snd (node_receive env r doc n)))) \<noteq> None"
proof -
  let ?s = "\<lparr>ib_db = fn_db n, ib_fetch = st\<rparr>" and ?h = "hash_signature (ft_crypto (ie_fetcher env)) (sp_signature p)"
  have seen: "seen_signature (ie_fed env) ?h (fn_db n) = Inr False"
    using new up by (auto simp: seen_signature_def lookup_None_iff)
  have blk: "is_blocked (ie_fed env) x (host_of (parse_url (ft_net (ie_fetcher env))) x) (fn_db n) = Inr False"
    using free up by (auto simp: is_blocked_def list_ex_iff image_iff)
  obtain d where d: "remember_signature (ie_fed env) ?h (fn_db n) = (None, d)"
    using up by (simp add: remember_signature_def Let_def)
  have "process (node_inbox env) r doc \<lparr>ib_db = fn_db n, ib_fetch = fn_fetch n\<rparr> = process_verified (node_inbox env) doc p a ?s"
    using size v by (simp add: process_def)
  also have "\<dots> = handle_activity (node_inbox env) m x a \<lparr>ib_db = d, ib_fetch = st\<rparr>"
    using seen m x blk d by (simp add: process_verified_def node_inbox_simps Let_def)
  also have "\<dots> = handle_follow (node_inbox env) m x a \<lparr>ib_db = d, ib_fetch = st\<rparr>"
    using m by (simp add: handle_activity_def)
  finally have pr: "process (node_inbox env) r doc \<lparr>ib_db = fn_db n, ib_fetch = fn_fetch n\<rparr> =
      handle_follow (node_inbox env) m x a \<lparr>ib_db = d, ib_fetch = st\<rparr>" .
  obtain i where i: "handle_follow (node_inbox env) m x a \<lparr>ib_db = d, ib_fetch = st\<rparr> =
      (case accept_follower (node_inbox env) i a d of (e, d1) \<Rightarrow> (e, \<lparr>ib_db = d1, ib_fetch = st\<rparr>))"
    using m x by (simp add: handle_follow_def Let_def remote_of_def)
  obtain d1 where "accept_follower (node_inbox env) i a d = (None, d1)" "lookup fo_actor (ra_id a) (fd_followers d1) \<noteq> None"
    using accept_stores [OF up] by blast
  then show ?thesis by (simp add: node_receive_def pr i)
qed

section \<open>Properties\<close>

text \<open>
  C2. An activity changes the federation tables only if it is signed: its request verifies under the key of an
  actor fetched for the key's identifier, the activity's actor is that actor and is not blocked.
\<close>

theorem inbox_effects_authenticated:
  assumes "node_receive env r doc n = (e, n1)" "fn_db n1 \<noteq> fn_db n"
  shows "\<exists>m a. decode_map (parse_json (ft_crypto (ie_fetcher env))) doc = Some m \<and> signed_by env r doc (fn_fetch n) a \<and>
    (ra_id a = [] \<or> same_iri (actor_iri (field ''actor'' m)) (ra_id a)) \<and>
    is_blocked (ie_fed env) (actor_iri (field ''actor'' m))
      (host_of (parse_url (ft_net (ie_fetcher env))) (actor_iri (field ''actor'' m))) (fn_db n) = Inr False"
  using assms by (rule receive_signed)

theorem inbox_effects_authenticated_witness:
  "\<exists>m a. decode_map (parse_json (ft_crypto (ie_fetcher demo_inbox))) ''LIKE'' = Some m \<and>
    signed_by demo_inbox (demo_send ''LIKE'') ''LIKE'' (fn_fetch start_node) a \<and>
    (ra_id a = [] \<or> same_iri (actor_iri (field ''actor'' m)) (ra_id a)) \<and>
    is_blocked (ie_fed demo_inbox) (actor_iri (field ''actor'' m))
      (host_of (parse_url (ft_net (ie_fetcher demo_inbox))) (actor_iri (field ''actor'' m))) (fn_db start_node) = Inr False"
proof -
  obtain n1 where n1: "node_receive demo_inbox (demo_send ''LIKE'') ''LIKE'' start_node = (None, n1)" "fn_db n1 \<noteq> fn_db start_node"
    using demo_receive by blast
  from inbox_effects_authenticated [OF n1] show ?thesis .
qed

text \<open>
  C10. A request is accepted once, if its copies come one after the other: after it has been processed, and whatever
  the node does in between, the same request is refused, for as long as its date is accepted at all.
\<close>

theorem replay_rejected:
  assumes "node_receive env r doc n = (None, n1)" "fed_ok (fn_db n)"
    and "list_all (event_until (fd_clock (ie_fed env'))) es" "fd_clock (ie_fed env) \<le> fd_clock (ie_fed env')"
    and "ft_crypto (ie_fetcher env') = ft_crypto (ie_fetcher env)" "ft_clock (ie_fetcher env') = ft_clock (ie_fetcher env)"
  shows "fst (node_receive env' r doc' (run fed_step n1 es)) \<noteq> None"
  using assms by (rule replay_fails)

theorem replay_rejected_witness:
  "\<exists>n1. node_receive demo_inbox (demo_send ''LIKE'') ''LIKE'' start_node = (None, n1) \<and>
     fst (node_receive demo_inbox (demo_send ''LIKE'') ''LIKE'' (run fed_step n1 [])) \<noteq> None"
proof -
  obtain n1 where n1: "node_receive demo_inbox (demo_send ''LIKE'') ''LIKE'' start_node = (None, n1)" using demo_receive by blast
  have "fed_ok (fn_db start_node)" by (simp add: start_node_def)
  from replay_rejected [OF n1 this, of demo_inbox "[]"] n1 show ?thesis by auto
qed

text \<open>
  C21. The document decides who it is about: whatever server a key identifier points to, the \<open>id\<close> in its answer is
  taken as the signer, so any host can sign as an actor of any other host.
\<close>

theorem key_document_names_any_actor:
  assumes "fs_cache st kid = None" "check_url (ft_policy ft) (ft_net ft) (actor_from_key_id kid) = None"
    and "parse_url (ft_net ft) (actor_from_key_id kid) = Some u"
    and "fetcher_sign_get ft now (document_request ft u) = (None, r)"
    and "client_do (ft_policy ft) (ft_net ft) (ft_serve ft r) u (fs_queries st) = (Inr ans, contacted, n1)"
    and "an_status ans = 200" "an_body ans = Some b" "length b \<le> max_actor_body"
    and "decode_map (parse_json (ft_crypto ft)) b = Some [(''id'', JStr x), (''inbox'', JStr y),
           (''publicKey'', JObj [(''id'', JStr kid), (''publicKeyPem'', JStr pem)])]"
    and "trim_space x = x" "trim_space y = y" "trim_space kid = kid" "trim_space pem = pem" "x \<noteq> []" "pem \<noteq> []"
    and "is_http_url (parse_url (ft_net ft)) x" "is_http_url (parse_url (ft_net ft)) y"
    and "check_url (ft_policy ft) (ft_net ft) y = None" "parse_public (ft_crypto ft) pem = Some pub"
  shows "\<exists>st1. public_key ft now kid st =
    (Inr (pub, \<lparr>ra_id = x, ra_inbox = y, ra_shared = [], ra_user = [], ra_key_id = kid, ra_key_pem = pem\<rparr>), st1)"
  using named_actor [OF assms] by (rule exI)

theorem key_document_names_any_actor_witness:
  "\<exists>st1. public_key demo_fetcher 0 ''https://e.example/a#k'' empty_fetch =
    (Inr (''KEY12'', \<lparr>ra_id = ''https://v.example/u'', ra_inbox = ''https://e.example/in'', ra_shared = [], ra_user = [],
       ra_key_id = ''https://e.example/a#k'', ra_key_pem = ''KEY12''\<rparr>), st1)"
proof -
  have k: "actor_from_key_id ''https://e.example/a#k'' = ''https://e.example/a''" by code_simp
  have doc: "decode_map (parse_json (ft_crypto demo_fetcher)) ''ACTOR'' = Some [(''id'', JStr ''https://v.example/u''),
     (''inbox'', JStr ''https://e.example/in''),
     (''publicKey'', JObj [(''id'', JStr ''https://e.example/a#k''), (''publicKeyPem'', JStr ''KEY12'')])]" by code_simp
  have words: "trim_space ''https://v.example/u'' = ''https://v.example/u''" "trim_space ''https://e.example/in'' = ''https://e.example/in''"
    "trim_space ''https://e.example/a#k'' = ''https://e.example/a#k''" "trim_space ''KEY12'' = ''KEY12''"
    "''https://v.example/u'' \<noteq> []" "''KEY12'' \<noteq> []"
    "is_http_url (parse_url (ft_net demo_fetcher)) ''https://v.example/u''"
    "is_http_url (parse_url (ft_net demo_fetcher)) ''https://e.example/in''"
    "check_url (ft_policy demo_fetcher) (ft_net demo_fetcher) ''https://e.example/in'' = None"
    "parse_public (ft_crypto demo_fetcher) ''KEY12'' = Some ''KEY12''"
    by code_simp+
  have small: "length ''ACTOR'' \<le> max_actor_body" by (simp add: max_actor_body_def)
  show ?thesis
    by (rule key_document_names_any_actor [OF _ _ _ evil_facts(3) demo_client _ _ small doc words])
      (simp_all add: k evil_facts empty_fetch_def)
qed

text \<open>
  C31. A block is a block of one spelling: a Follow whose actor is written differently from the blocked
  identifier is accepted, and the blocked actor becomes a follower.
\<close>

theorem blocked_actor_follows:
  assumes "inbox_verify (node_inbox env) r doc (fn_fetch n) = (Inr p, st, a)" "doc \<noteq> []" "length doc \<le> fed_max_inbox_body"
    and "decode_map (parse_json (ft_crypto (ie_fetcher env))) doc = Some m" "type_of (field ''type'' m) = ''Follow''"
    and "object_id (field ''object'' m) = []" "actor_iri (field ''actor'' m) = x" "x \<noteq> []"
    and "is_http_url (parse_url (ft_net (ie_fetcher env))) x" "same_iri x (ra_id a)" "ra_id a \<noteq> []" "ra_inbox a \<noteq> []"
    and "block_of (fd_blocks (fn_db n)) (ra_id a) = Some Block_Actor" "x \<notin> bl_target ` set (fd_blocks (fn_db n))"
    and "host_of (parse_url (ft_net (ie_fetcher env))) x \<notin> bl_target ` set (fd_blocks (fn_db n))"
    and "hash_signature (ft_crypto (ie_fetcher env)) (sp_signature p) \<notin> rp_hash ` set (fd_replay (fn_db n))"
    and "\<forall>st. \<not> fd_fault (ie_fed env) st"
  shows "fst (node_receive env r doc n) = None \<and>
    lookup fo_actor (ra_id a) (fd_followers (fn_db (snd (node_receive env r doc n)))) \<noteq> None"
  by (rule unblocked_follow [OF assms(1-12,14-17)])

definition demo_blocking :: fed_node where
  "demo_blocking = start_node\<lparr>fn_db := empty_fed\<lparr>fd_blocks := put_block 0 victim Block_Actor []\<rparr>\<rparr>"

theorem blocked_actor_follows_witness:
  "fst (node_receive demo_inbox (demo_send ''FOLLOW'') ''FOLLOW'' demo_blocking) = None \<and>
   lookup fo_actor (ra_id evil_actor)
     (fd_followers (fn_db (snd (node_receive demo_inbox (demo_send ''FOLLOW'') ''FOLLOW'' demo_blocking)))) \<noteq> None"
proof -
  have fetch: "fn_fetch demo_blocking = empty_fetch" by (simp add: demo_blocking_def start_node_def)
  obtain sg st1 where v: "inbox_verify (node_inbox demo_inbox) (demo_send ''FOLLOW'') ''FOLLOW'' (fn_fetch demo_blocking) =
     (Inr (signed_params evil_key default_headers sg), st1, evil_actor)"
    unfolding fetch using demo_verifies [of "''FOLLOW''"] by blast
  let ?m = "[(''type'', JStr ''Follow''), (''actor'', JStr (victim @ ''/''))]"
  have doc: "decode_map (parse_json (ft_crypto (ie_fetcher demo_inbox))) ''FOLLOW'' = Some ?m"
    "type_of (field ''type'' ?m) = ''Follow''" "object_id (field ''object'' ?m) = []"
    "actor_iri (field ''actor'' ?m) = victim @ ''/''" "victim @ ''/'' \<noteq> []"
    "is_http_url (parse_url (ft_net (ie_fetcher demo_inbox))) (victim @ ''/'')"
    "same_iri (victim @ ''/'') (ra_id evil_actor)" "ra_id evil_actor \<noteq> []" "ra_inbox evil_actor \<noteq> []"
    "block_of (fd_blocks (fn_db demo_blocking)) (ra_id evil_actor) = Some Block_Actor"
    "victim @ ''/'' \<notin> bl_target ` set (fd_blocks (fn_db demo_blocking))"
    "host_of (parse_url (ft_net (ie_fetcher demo_inbox))) (victim @ ''/'') \<notin> bl_target ` set (fd_blocks (fn_db demo_blocking))"
    by code_simp+
  have size: "''FOLLOW'' \<noteq> []" "length ''FOLLOW'' \<le> fed_max_inbox_body" by (simp_all add: fed_max_inbox_body_def)
  show ?thesis
    by (rule blocked_actor_follows [OF v size doc])
      (simp_all add: demo_blocking_def start_node_def empty_fed_def demo_inbox_def demo_fed_def)
qed

end
