(* ===== verification/Delivery_Queue.thy ===== *)
theory Delivery_Queue
  imports Federation_Safety
begin

text \<open>
  What the delivery queue promises: its rows stay well formed, a finished row is final, a change reaches
  every follower asked for, a job is tried at most twelve times and the worker empties the queue, unless
  the node is paused and older jobs fill the batch.
\<close>

section \<open>Waiting times\<close>

lemma attempt_cases: "1 \<le> a \<Longrightarrow> a \<le> max_attempts \<Longrightarrow> a \<in> {1, 2, 3, 4, 5, 6, 7, 8, 9, 10, 11, 12}"
  by (simp add: max_attempts_def) presburger

lemma backoff_value: "1 \<le> a \<Longrightarrow> a \<le> max_attempts \<Longrightarrow> backoff a = min (2 ^ (a - 1) * second) (3600 * second)"
  by (drule (1) attempt_cases) (auto simp: backoff_def second_def Let_def)

lemma backoff_le: "backoff a \<le> 3600 * second"
  by (simp add: backoff_def Let_def)

section \<open>The rows of the queue\<close>

lemma filter_key_one: "distinct (map key xs) \<Longrightarrow> x \<in> set xs \<Longrightarrow> filter (\<lambda>k. key k = key x) xs = [x]"
  by (induction xs) (auto simp: filter_empty_conv image_iff)

lemma queue_row:
  "fed_ok d \<Longrightarrow> j \<in> set (fd_queue d) \<Longrightarrow>
   filter (\<lambda>k. jb_inbox k = jb_inbox j \<and> jb_activity k = jb_activity j) (fd_queue d) = [j]"
proof -
  assume ok: "fed_ok d" and j: "j \<in> set (fd_queue d)"
  let ?key = "\<lambda>k. (jb_inbox k, jb_activity k)"
  have "distinct (map ?key (fd_queue d))" using ok by (simp add: fed_ok_def queue_ok_def)
  then have "filter (\<lambda>k. ?key k = ?key j) (fd_queue d) = [j]"
    using j by (rule filter_key_one)
  then show ?thesis by simp
qed

lemma lookup_job: "fed_ok d \<Longrightarrow> j \<in> set (fd_queue d) \<Longrightarrow> lookup jb_id (jb_id j) (fd_queue d) = Some j"
  by (rule lookup_distinct) (auto simp: fed_ok_def queue_ok_def)

lemma finished_rows:
  assumes "fed_ok (fn_db n)" "j \<in> set (fd_queue (fn_db n))" "jb_status j \<noteq> Pending"
  shows "filter (\<lambda>k. jb_inbox k = jb_inbox j \<and> jb_activity k = jb_activity j) (fd_queue (fn_db (run fed_step n es))) = [j]"
proof (rule queue_row)
  show "fed_ok (fn_db (run fed_step n es))" by (rule run_fed_ok [OF assms(1)])
  have "finished.good_event e" for e by (cases e) auto
  moreover have "finished.safe j (fn_db n)" unfolding finished.safe_def using assms by blast
  ultimately have "finished.safe j (fn_db (run fed_step n es))"
    by (intro finished.safe_run) (auto simp: list_all_iff)
  then show "j \<in> set (fd_queue (fn_db (run fed_step n es)))" unfolding finished.safe_def by blast
qed

section \<open>Attempts left\<close>

definition attempts_left :: "delivery \<Rightarrow> nat" where
  "attempts_left j = (if jb_status j = Pending then jb_max j - jb_attempts j else 0)"

definition budget :: "fed_db \<Rightarrow> nat" where
  "budget d = sum_list (map attempts_left (fd_queue d))"

lemma update_absent: "i \<notin> jb_id ` set rows \<Longrightarrow> update_where (\<lambda>j. jb_id j = i) f rows = rows"
  by (auto simp: update_where_def intro!: map_idI)

lemma sum_update:
  "distinct (map jb_id rows) \<Longrightarrow> j \<in> set rows \<Longrightarrow> attempts_left (f j) < attempts_left j \<Longrightarrow>
   sum_list (map attempts_left (update_where (\<lambda>k. jb_id k = jb_id j) f rows)) < sum_list (map attempts_left rows)"
proof (induction rows)
  case (Cons x rows)
  have step: "update_where (\<lambda>k. jb_id k = jb_id j) f (x # rows) =
      (if jb_id x = jb_id j then f x else x) # update_where (\<lambda>k. jb_id k = jb_id j) f rows"
    by (simp add: update_where_def)
  show ?case
  proof (cases "x = j")
    case True
    then show ?thesis unfolding step using Cons.prems by (simp add: update_absent)
  next
    case False
    then have "jb_id x \<noteq> jb_id j" "j \<in> set rows" using Cons.prems(1,2) by (auto simp: image_iff)
    then show ?thesis unfolding step using Cons by simp
  qed
qed simp

lemma budget_mark:
  assumes "fed_ok d" "claimable d j" "\<not> fd_fault fe Fd_Mark"
  shows "budget (snd (mark_delivered fe (jb_id j) d)) < budget d"
    "st = Failed \<or> st = Pending \<Longrightarrow> budget (snd (mark_attempt fe (jb_id j) (jb_attempts j + 1) t msg st d)) < budget d"
proof -
  have q: "distinct (map jb_id (fd_queue d))" "j \<in> set (fd_queue d)" "jb_status j = Pending" "jb_attempts j < jb_max j"
    using assms by (auto simp: fed_ok_def queue_ok_def claimable_def list_all_iff job_ok_def)
  then show "budget (snd (mark_delivered fe (jb_id j) d)) < budget d"
    using assms(3) by (simp add: budget_def mark_delivered_def fed_exec_def sum_update attempts_left_def)
  show "budget (snd (mark_attempt fe (jb_id j) (jb_attempts j + 1) t msg st d)) < budget d" if "st = Failed \<or> st = Pending"
    using q assms(3) that by (auto simp: budget_def mark_attempt_def fed_exec_def sum_update attempts_left_def)
qed

lemma budget_deliver:
  assumes "fed_ok (wk_db s)" "claimable (wk_db s) j" "\<not> fd_fault fe Fd_Mark"
  shows "budget (wk_db (deliver env fe j s)) < budget (wk_db s)"
  by (cases rule: deliver_cases [of env fe j s]) (auto simp: budget_mark [OF assms, simplified])

lemma fail_job_log: "wk_log (fail_job env fe j c retry s) = wk_log s"
  by (simp add: fail_job_def report_status_def Let_def)

lemma report_status_simps [simp]: "wk_db (report_status fe msg b s) = wk_db s" "wk_log (report_status fe msg b s) = wk_log s"
  by (simp_all add: report_status_def Let_def)

lemma deliver_log: "length (wk_log (deliver env fe j s)) \<le> Suc (length (wk_log s))"
  by (auto simp: deliver_def Let_def fail_job_log split: option.split sum.split prod.split)

lemma claimable_rest:
  assumes "list_all (claimable (wk_db s)) (j # js)" "distinct (map jb_id (j # js))"
  shows "list_all (claimable (wk_db (deliver env fe j s))) js"
  unfolding list_all_iff
proof
  fix k assume "k \<in> set js"
  then have "claimable (wk_db s) k" "jb_id k \<noteq> jb_id j" using assms by (auto simp: list_all_iff image_iff)
  then show "claimable (wk_db (deliver env fe j s)) k" using deliver_others by (simp add: claimable_def)
qed

section \<open>One batch\<close>

definition marks_work :: "worker_env \<Rightarrow> bool" where
  "marks_work env \<longleftrightarrow> (\<forall>i. \<not> fd_fault (we_fed env i) Fd_Mark)"

lemma deliver_all_bound:
  "fed_ok (wk_db s) \<Longrightarrow> marks_work env \<Longrightarrow> list_all (claimable (wk_db s)) js \<Longrightarrow> distinct (map jb_id js) \<Longrightarrow>
   fed_ok (wk_db (snd (deliver_all env i js s))) \<and>
   length (wk_log (snd (deliver_all env i js s))) + budget (wk_db (snd (deliver_all env i js s)))
     \<le> length (wk_log s) + budget (wk_db s)"
proof (induction js arbitrary: i s)
  case (Cons j js)
  let ?s = "deliver env (we_fed env (i + 1)) j s"
  have j: "claimable (wk_db s) j" "\<not> fd_fault (we_fed env (i + 1)) Fd_Mark"
    using Cons.prems(2,3) by (simp_all add: marks_work_def)
  have rest: "fed_ok (wk_db ?s)" "list_all (claimable (wk_db ?s)) js"
    using fed_ok_deliver [OF j(1) Cons.prems(1)] claimable_rest [OF Cons.prems(3,4)] by simp_all
  have "length (wk_log ?s) + budget (wk_db ?s) \<le> length (wk_log s) + budget (wk_db s)"
    using deliver_log [of env "we_fed env (i + 1)" j s] budget_deliver [OF Cons.prems(1) j, of env] by linarith
  with Cons.IH [OF rest(1) Cons.prems(2) rest(2)] Cons.IH [OF Cons.prems(1,2)] Cons.prems show ?case
    by (auto intro: order.trans)
qed simp

lemma budget_deliver_all:
  "fed_ok (wk_db s) \<Longrightarrow> marks_work env \<Longrightarrow> list_all (claimable (wk_db s)) js \<Longrightarrow> distinct (map jb_id js) \<Longrightarrow>
   budget (wk_db (snd (deliver_all env i js s))) \<le> budget (wk_db s)"
proof (induction js arbitrary: i s)
  case (Cons j js)
  let ?s = "deliver env (we_fed env (i + 1)) j s"
  have j: "claimable (wk_db s) j" "\<not> fd_fault (we_fed env (i + 1)) Fd_Mark"
    using Cons.prems(2,3) by (simp_all add: marks_work_def)
  have rest: "fed_ok (wk_db ?s)" "list_all (claimable (wk_db ?s)) js"
    using fed_ok_deliver [OF j(1) Cons.prems(1)] claimable_rest [OF Cons.prems(3,4)] by simp_all
  from Cons.IH [OF rest(1) Cons.prems(2) rest(2)] budget_deliver [OF Cons.prems(1) j, of env] Cons.prems(4)
  have "budget (wk_db (snd (deliver_all env (i + 1) js ?s))) \<le> budget (wk_db s)"
    by (metis distinct.simps(2) less_imp_le list.simps(9) order.trans)
  with Cons.IH [OF Cons.prems(1,2)] Cons.prems show ?case by auto
qed simp

lemma budget_tick:
  assumes "fed_ok (wk_db s)" "marks_work env"
  shows "budget (wk_db (tick env s)) \<le> budget (wk_db s)"
proof (cases "claim_due (we_fed env 0) 8 (wk_db s)")
  case (Inr js)
  from budget_deliver_all [OF assms claim_due_claimable [OF Inr assms(1)], of 0] Inr show ?thesis
    by (auto simp: tick_def split: prod.split bool.split)
qed (simp add: tick_def)

lemma tick_bound:
  assumes "fed_ok (wk_db s)" "marks_work env"
  shows "fed_ok (wk_db (tick env s))"
    "length (wk_log (tick env s)) + budget (wk_db (tick env s)) \<le> length (wk_log s) + budget (wk_db s)"
proof -
  have "fed_ok (wk_db (tick env s)) \<and>
    length (wk_log (tick env s)) + budget (wk_db (tick env s)) \<le> length (wk_log s) + budget (wk_db s)"
  proof (cases "claim_due (we_fed env 0) 8 (wk_db s)")
    case (Inr js)
    note c = claim_due_claimable [OF Inr assms(1)]
    from deliver_all_bound [OF assms c, of 0] Inr show ?thesis
      by (auto simp: tick_def split: prod.split bool.split)
  qed (use assms in \<open>simp add: tick_def\<close>)
  then show "fed_ok (wk_db (tick env s))"
    "length (wk_log (tick env s)) + budget (wk_db (tick env s)) \<le> length (wk_log s) + budget (wk_db s)" by auto
qed

lemma ticks_bound:
  "fed_ok (wk_db s) \<Longrightarrow> list_all marks_work envs \<Longrightarrow>
   length (wk_log (fold tick envs s)) + budget (wk_db (fold tick envs s)) \<le> length (wk_log s) + budget (wk_db s)"
proof (induction envs arbitrary: s)
  case (Cons e envs)
  then have ok: "fed_ok (wk_db s)" "marks_work e" by simp_all
  from Cons.IH [OF tick_bound(1) [OF ok]] tick_bound(2) [OF ok] Cons.prems show ?case by simp
qed simp

text \<open>The log grows by calls that have reached at most three servers each: the redirects.\<close>

definition log_extends :: "worker_state \<Rightarrow> worker_state \<Rightarrow> bool" where
  "log_extends s s' \<longleftrightarrow> (\<exists>new. wk_log s' = wk_log s @ new \<and> list_all (\<lambda>(r, contacted). length contacted \<le> 3) new)"

lemma log_extends_refl: "wk_log s' = wk_log s \<Longrightarrow> log_extends s s'"
  by (simp add: log_extends_def)

lemma log_extends_trans: "log_extends s s1 \<Longrightarrow> log_extends s1 s2 \<Longrightarrow> log_extends s s2"
  unfolding log_extends_def by (elim exE conjE) (rule_tac x = "new @ newa" in exI, simp)

lemma deliver_extends: "log_extends s (deliver env fe j s)"
proof (cases "we_private env")
  case None
  then show ?thesis by (simp add: deliver_def Let_def fail_job_log log_extends_refl)
next
  case key: (Some key)
  show ?thesis
  proof (cases "parse_url (ft_net (we_fetcher env)) (jb_inbox j)")
    case None
    then show ?thesis by (simp add: deliver_def Let_def key fail_job_log log_extends_refl)
  next
    case u: (Some u)
    let ?ft = "we_fetcher env"
    obtain e r where r: "sign_request (ft_crypto ?ft) (ft_clock ?ft) (fd_clock fe) (we_key_id env) (Some key) (jb_payload j)
        (delivery_request u) = (e, r)" by fastforce
    obtain res c n where c: "client_do (ft_policy ?ft) (ft_net ?ft) (ft_serve ?ft r) u (wk_queries s) = (res, c, n)"
      by (metis prod_cases3)
    have "wk_log (deliver env fe j s) = (if e = None then wk_log s @ [(r, c)] else wk_log s)"
      by (simp add: deliver_def Let_def key u r c fail_job_log split: option.split sum.split)
    then show ?thesis using client_do_length [OF c] by (simp add: log_extends_def)
  qed
qed

lemma deliver_all_extends: "log_extends s (snd (deliver_all env i js s))"
proof (induction js arbitrary: i s)
  case (Cons j js)
  have "log_extends s (snd (deliver_all env (i + 1) js (deliver env (we_fed env (i + 1)) j s)))"
    by (rule log_extends_trans [OF deliver_extends Cons])
  then show ?case using Cons [of s "i + 1"] by (simp add: log_extends_refl)
qed (simp add: log_extends_refl)

lemma tick_extends: "log_extends s (tick env s)"
proof (cases "claim_due (we_fed env 0) 8 (wk_db s)")
  case (Inr js)
  have "wk_log (tick env s) = wk_log (snd (deliver_all env 0 js s))"
    by (auto simp: tick_def Inr split: prod.split bool.split)
  then show ?thesis using log_extends_trans [OF deliver_all_extends [of s env 0 js] log_extends_refl] by simp
qed (simp add: tick_def log_extends_refl)

lemma ticks_extend: "log_extends s (fold tick envs s)"
proof (induction envs arbitrary: s)
  case (Cons e envs)
  show ?case using log_extends_trans [OF tick_extends Cons, of s e] by simp
qed (simp add: log_extends_refl)

section \<open>Emptying the queue\<close>

text \<open>
  A batch in which nothing goes wrong on this side; and the order of two wake-ups: the second starts when the
  first is over, at most \<open>G\<close> after the start of the first.
\<close>

definition quiet :: "worker_env \<Rightarrow> bool" where
  "quiet env \<longleftrightarrow> \<not> we_paused env \<and> (\<forall>i. \<not> we_cancelled env i) \<and> (\<forall>i st. \<not> fd_fault (we_fed env i) st)"

definition follows :: "int \<Rightarrow> worker_env \<Rightarrow> worker_env \<Rightarrow> bool" where
  "follows G e e' \<longleftrightarrow>
     (\<forall>i. fd_clock (we_fed e i) \<le> fd_clock (we_fed e' 0)) \<and> fd_clock (we_fed e' 0) \<le> fd_clock (we_fed e 0) + G"

definition all_due :: "time \<Rightarrow> fed_db \<Rightarrow> bool" where
  "all_due t d \<longleftrightarrow> (\<forall>j\<in>set (fd_queue d). jb_status j = Pending \<longrightarrow> jb_next j \<le> stamp t)"

lemma all_due_mark:
  assumes "all_due t d"
  shows "all_due t (snd (mark_delivered fe i d))" "u \<le> t \<Longrightarrow> all_due t (snd (mark_attempt fe i a u msg st d))"
  using assms stamp_mono
  by (auto simp: all_due_def mark_delivered_def mark_attempt_def snd_fed_exec update_where_def)

lemma all_due_deliver:
  assumes "all_due t (wk_db s)" "fd_clock fe + 3600 * second \<le> t"
  shows "all_due t (wk_db (deliver env fe j s))"
proof -
  have "fd_clock fe + backoff (jb_attempts j + 1) \<le> t" using assms(2) backoff_le [of "jb_attempts j + 1"] by linarith
  then show ?thesis
    by (cases rule: deliver_cases [of env fe j s]) (auto simp: all_due_mark [OF assms(1)])
qed

lemma all_due_batch:
  "all_due t (wk_db s) \<Longrightarrow> \<forall>i. fd_clock (we_fed env i) + 3600 * second \<le> t \<Longrightarrow> all_due t (wk_db (snd (deliver_all env i js s)))"
  by (induction js arbitrary: i s) (auto simp: all_due_deliver)

lemma all_due_later: "all_due t d \<Longrightarrow> t \<le> u \<Longrightarrow> all_due u d"
  using stamp_mono by (force simp: all_due_def)

lemma all_due_tick:
  assumes "all_due t (wk_db s)" "\<forall>i. fd_clock (we_fed env i) + 3600 * second \<le> t"
  shows "all_due t (wk_db (tick env s))"
  using assms(1) all_due_batch [OF assms, of 0]
  by (auto simp: tick_def split: sum.split prod.split bool.split) (metis snd_conv)+

lemma batch_progress:
  assumes "fed_ok (wk_db s)" "quiet env" "list_all (claimable (wk_db s)) js" "distinct (map jb_id js)" "js \<noteq> []"
  shows "budget (wk_db (snd (deliver_all env i js s))) < budget (wk_db s)"
proof -
  obtain j rest where js: "js = j # rest" using assms(5) by (cases js) auto
  let ?s = "deliver env (we_fed env (i + 1)) j s"
  have go: "\<not> we_cancelled env i" "\<not> we_paused env" "\<not> fd_fault (we_fed env (i + 1)) Fd_Mark" "marks_work env"
    using assms(2) by (simp_all add: quiet_def marks_work_def)
  have j: "claimable (wk_db s) j" using assms(3) js by simp
  have "fed_ok (wk_db ?s)" "list_all (claimable (wk_db ?s)) rest"
    using fed_ok_deliver [OF j assms(1)] claimable_rest assms(3,4) js by auto
  then have "budget (wk_db (snd (deliver_all env (i + 1) rest ?s))) \<le> budget (wk_db ?s)"
    using budget_deliver_all go(4) assms(4) js by simp
  with budget_deliver [OF assms(1) j go(3), of env] show ?thesis using go js by (simp add: less_le_trans)
qed

text \<open>A wake-up spends an attempt or changes nothing; when everything is due it spends one.\<close>

lemma tick_step:
  assumes "fed_ok (wk_db s)" "quiet env"
  shows "budget (wk_db (tick env s)) < budget (wk_db s) \<or>
    wk_db (tick env s) = wk_db s \<and> (all_due (fd_clock (we_fed env 0)) (wk_db s) \<longrightarrow> budget (wk_db s) = 0)"
proof -
  let ?rows = "filter (due (fed_now (we_fed env 0))) (fd_queue (wk_db s))"
  have claim: "claim_due (we_fed env 0) 8 (wk_db s) = Inr (page 8 0 (sort_key jb_next ?rows))"
    using assms(2) by (simp add: claim_due_def quiet_def)
  show ?thesis
  proof (cases "page 8 0 (sort_key jb_next ?rows) = []")
    case False
    note c = claim_due_claimable [OF claim assms(1)]
    show ?thesis
      using batch_progress [OF assms c False, of 0] claim by (auto simp: tick_def split: prod.split bool.split)
  next
    case True
    then have none: "?rows = []"
      by (metis diff_zero length_0_conv length_page length_sort min_def zero_neq_numeral)
    have "budget (wk_db s) = 0" if due: "all_due (fd_clock (we_fed env 0)) (wk_db s)"
    proof -
      have "jb_status j \<noteq> Pending" if "j \<in> set (fd_queue (wk_db s))" for j
        using that due none by (auto simp: all_due_def due_def fed_now_def filter_empty_conv)
      then show ?thesis by (auto simp: budget_def attempts_left_def)
    qed
    then show ?thesis using claim True by (simp add: tick_def)
  qed
qed

lemma no_budget: "fed_ok d \<Longrightarrow> budget d = 0 \<Longrightarrow> j \<in> set (fd_queue d) \<Longrightarrow> jb_status j \<noteq> Pending"
proof
  assume ok: "fed_ok d" "budget d = 0" "j \<in> set (fd_queue d)" and p: "jb_status j = Pending"
  then have "attempts_left j > 0"
    by (auto simp: attempts_left_def fed_ok_def queue_ok_def list_all_iff job_ok_def)
  moreover have "attempts_left j \<le> budget d"
    using ok(3) by (auto simp: budget_def intro: member_le_sum_list)
  ultimately show False using ok(2) by simp
qed

lemma quiet_marks: "quiet env \<Longrightarrow> marks_work env"
  by (simp add: quiet_def marks_work_def)

text \<open>
  \<open>D\<close> bounds the time by which every pending job is due. Until then a wake-up may find nothing; the first one
  after it, at most \<open>G\<close> later, spends an attempt, and a job put off is due within the hour after it is over.
\<close>

lemma ticks_drain:
  assumes "0 \<le> G"
  shows "fed_ok (wk_db s) \<Longrightarrow> list_all quiet (e # envs) \<Longrightarrow> successively (follows G) (e # envs) \<Longrightarrow>
   all_due D (wk_db s) \<Longrightarrow> fd_clock (we_fed e 0) \<le> D + G \<Longrightarrow>
   budget (wk_db s) = 0 \<or>
     D + (int (budget (wk_db s)) - 1) * (3600 * second + 2 * G) \<le> fd_clock (we_fed (last (e # envs)) 0) \<Longrightarrow>
   fed_ok (wk_db (fold tick (e # envs) s)) \<and> budget (wk_db (fold tick (e # envs) s)) = 0"
proof (induction envs arbitrary: e s D)
  case Nil
  let ?t = "fd_clock (we_fed e 0)" let ?b = "budget (wk_db s)"
  have ok: "fed_ok (wk_db s)" "marks_work e" "quiet e" using Nil.prems quiet_marks by auto
  have step: "0 < 3600 * second + 2 * G" using assms second_pos by linarith
  have "budget (wk_db (tick e s)) = 0"
  proof (cases "?b = 0")
    case True
    then show ?thesis using budget_tick [OF ok(1,2)] by simp
  next
    case False
    then have span: "D + (int ?b - 1) * (3600 * second + 2 * G) \<le> ?t" using Nil.prems(6) by simp
    have "int ?b - 1 \<le> 0"
    proof (rule ccontr)
      assume "\<not> ?thesis"
      then have "3600 * second + 2 * G \<le> (int ?b - 1) * (3600 * second + 2 * G)" using step by simp
      then show False using span Nil.prems(5) assms second_pos by linarith
    qed
    then have b: "?b = 1" using False by simp
    then have "all_due ?t (wk_db s)" using all_due_later [OF Nil.prems(4)] span by simp
    then show ?thesis using tick_step [OF ok(1,3)] b by simp
  qed
  then show ?case using tick_bound(1) [OF ok(1,2)] by simp
next
  case (Cons e' envs)
  let ?t = "fd_clock (we_fed e 0)" let ?u = "fd_clock (we_fed e' 0)"
  let ?b = "budget (wk_db s)" let ?b' = "budget (wk_db (tick e s))" let ?h = "3600 * second"
  have ok: "fed_ok (wk_db s)" "marks_work e" "quiet e" using Cons.prems quiet_marks by auto
  have gap: "\<forall>i. fd_clock (we_fed e i) \<le> ?u" "?u \<le> ?t + G" using Cons.prems(3) by (simp_all add: follows_def)
  have rest: "list_all quiet (e' # envs)" "successively (follows G) (e' # envs)" using Cons.prems(2,3) by simp_all
  have step: "0 < ?h + 2 * G" "0 < ?h" using assms second_pos by linarith+
  note IH = Cons.IH [OF tick_bound(1) [OF ok(1,2)] rest]
  consider (spent) "?b' < ?b" | (idle) "wk_db (tick e s) = wk_db s" "all_due ?t (wk_db s) \<longrightarrow> ?b = 0"
    using tick_step [OF ok(1,3)] by blast
  then show ?case
  proof cases
    case idle
    have "?u \<le> D + G \<or> ?b = 0"
      using idle(2) all_due_later [OF Cons.prems(4)] gap(2) by (cases "D \<le> ?t") auto
    then show ?thesis
    proof
      assume "?u \<le> D + G"
      then show ?thesis using IH [of D] Cons.prems(4,6) idle(1) by simp
    next
      assume b: "?b = 0"
      have "all_due (max D ?u) (wk_db s)" using all_due_later [OF Cons.prems(4)] by simp
      then show ?thesis using IH [of "max D ?u"] b idle(1) assms by simp
    qed
  next
    case spent
    let ?D = "max D (?u + ?h)"
    have "\<forall>i. fd_clock (we_fed e i) + ?h \<le> ?D" using gap(1) by (auto simp: le_max_iff_disj)
    then have due: "all_due ?D (wk_db (tick e s))" using all_due_tick all_due_later [OF Cons.prems(4), of ?D] by simp
    have u: "?u \<le> ?D + G" using assms step(2) by linarith
    have "?D \<le> D + (?h + 2 * G)" using gap(2) Cons.prems(5) assms step by linarith
    moreover have "(int ?b' - 1) * (?h + 2 * G) + (?h + 2 * G) \<le> (int ?b - 1) * (?h + 2 * G)"
    proof -
      have "int ?b' * (?h + 2 * G) \<le> (int ?b - 1) * (?h + 2 * G)" using spent step by (intro mult_right_mono) auto
      then show ?thesis by (simp add: algebra_simps)
    qed
    ultimately have "?D + (int ?b' - 1) * (?h + 2 * G) \<le> fd_clock (we_fed (last (e # e' # envs)) 0)"
      using Cons.prems(6) spent by linarith
    then show ?thesis using IH [OF due u] by simp
  qed
qed

section \<open>A paused node\<close>

lemma take_sorted_le:
  "sorted (map k xs) \<Longrightarrow> n \<le> length (filter (\<lambda>x. k x \<le> T) xs) \<Longrightarrow> x \<in> set (take n xs) \<Longrightarrow> k x \<le> (T :: stored_time)"
proof (induction xs arbitrary: n)
  case (Cons y xs)
  show ?case
  proof (cases "k y \<le> T")
    case True
    then show ?thesis using Cons by (cases n) auto
  next
    case False
    then have "filter (\<lambda>x. k x \<le> T) (y # xs) = []" using Cons.prems(1) by (auto simp: filter_empty_conv)
    then show ?thesis using Cons.prems(2,3) by simp
  qed
qed simp

definition file_job :: "(string \<Rightarrow> json option) \<Rightarrow> delivery \<Rightarrow> bool" where
  "file_job parse j \<longleftrightarrow> is_file_activity parse (jb_payload j)"

definition batch_full :: "(string \<Rightarrow> json option) \<Rightarrow> stored_time \<Rightarrow> fed_db \<Rightarrow> bool" where
  "batch_full parse T d \<longleftrightarrow>
     8 \<le> length (filter (\<lambda>j. jb_status j = Pending \<and> jb_next j \<le> T) (fd_queue d)) \<and>
     (\<forall>j\<in>set (fd_queue d). jb_status j = Pending \<and> jb_next j \<le> T \<longrightarrow> file_job parse j)"

lemma claimed_files:
  assumes "batch_full parse T d" "claim_due env 8 d = Inr js" "T \<le> fed_now env"
  shows "list_all (file_job parse) js"
proof -
  let ?rows = "filter (due (fed_now env)) (fd_queue d)"
  have js: "js = take 8 (sort_key jb_next ?rows)" using assms(2) by (auto simp: claim_due_def page_def split: if_splits)
  have "filter (\<lambda>j. jb_next j \<le> T) ?rows = filter (\<lambda>j. jb_status j = Pending \<and> jb_next j \<le> T) (fd_queue d)"
    using assms(3) by (auto simp: due_def intro!: filter_cong)
  then have "8 \<le> length (filter (\<lambda>j. jb_next j \<le> T) (sort_key jb_next ?rows))"
    using assms(1) by (simp add: batch_full_def filter_sort)
  then have "jb_next j \<le> T" if "j \<in> set js" for j
    using take_sorted_le [of jb_next "sort_key jb_next ?rows" 8 T j] that js by simp
  moreover have "j \<in> set (fd_queue d) \<and> jb_status j = Pending" if "j \<in> set js" for j
    using that js by (auto simp: due_def dest!: in_set_takeD)
  ultimately show ?thesis using assms(1) by (auto simp: batch_full_def list_all_iff)
qed

lemma deliver_all_paused:
  "we_paused env \<Longrightarrow> list_all (file_job (parse_json (ft_crypto (we_fetcher env)))) js \<Longrightarrow> snd (deliver_all env i js s) = s"
  by (induction js arbitrary: i) (auto simp: file_job_def)

lemma tick_paused:
  assumes "we_paused env" "batch_full (parse_json (ft_crypto (we_fetcher env))) T (wk_db s)" "T \<le> fed_now (we_fed env 0)"
  shows "wk_db (tick env s) = wk_db s" "wk_log (tick env s) = wk_log s"
proof -
  have "wk_db (tick env s) = wk_db s \<and> wk_log (tick env s) = wk_log s"
  proof (cases "claim_due (we_fed env 0) 8 (wk_db s)")
    case (Inr js)
    have "snd (deliver_all env 0 js s) = s"
      by (rule deliver_all_paused [OF assms(1) claimed_files [OF assms(2) Inr assms(3)]])
    then show ?thesis using Inr by (auto simp: tick_def split: prod.split bool.split)
  qed (simp add: tick_def)
  then show "wk_db (tick env s) = wk_db s" "wk_log (tick env s) = wk_log s" by auto
qed

lemma ticks_paused:
  "\<forall>e\<in>set envs. we_paused e \<and> parse_json (ft_crypto (we_fetcher e)) = parse \<and> T \<le> fed_now (we_fed e 0) \<Longrightarrow>
   batch_full parse T (wk_db s) \<Longrightarrow> wk_db (fold tick envs s) = wk_db s \<and> wk_log (fold tick envs s) = wk_log s"
proof (induction envs arbitrary: s)
  case (Cons e envs)
  with tick_paused [of e T s] Cons.IH [of "tick e s"] show ?case by simp
qed simp

section \<open>Publishing\<close>

definition inboxes_of :: "string \<Rightarrow> fed_db \<Rightarrow> string set" where
  "inboxes_of i d = {inbox. queued inbox i (fd_queue d)}"

lemma inboxes_enqueue:
  "\<not> fd_fault env Fd_Enqueue \<Longrightarrow> inboxes_of i (snd (enqueue env inbox i payload d)) = insert inbox (inboxes_of i d)"
  by (auto simp: inboxes_of_def enqueue_def fed_exec_def enqueue_job_def queued_def list_ex_iff)

lemma inboxes_enqueue_all:
  "\<not> fd_fault env Fd_Enqueue \<Longrightarrow>
   inboxes_of i (enqueue_all (Some (\<lambda>inbox. enqueue env inbox i payload)) seen fs d) =
     inboxes_of i d \<union> (delivery_inbox ` set fs - insert [] (set seen))"
  by (induction fs arbitrary: seen d) (auto simp: Let_def inboxes_enqueue)

lemma publish_inboxes:
  assumes "\<not> pe_paused env" "\<forall>st. \<not> fd_fault (pe_fed env) st" "accepted_inboxes (pe_fed env) d = Inr fs"
    and "change_activity env ch = (i, kind, activity)"
  shows "inboxes_of i (on_index_change (node_publisher env) ch d) = inboxes_of i d \<union> (delivery_inbox ` set fs - {[]})"
proof -
  obtain e d1 where s: "save_activity (pe_fed env) \<lparr>ac_id = i, ac_type = kind, ac_file = rec_id (snd ch),
      ac_published = fed_now (pe_fed env), ac_payload = pe_print env activity\<rparr> d = (e, d1)"
    by fastforce
  then have d1: "e = None" "fd_queue d1 = fd_queue d" "fd_followers d1 = fd_followers d"
    using assms(2) by (auto simp: save_activity_def fed_exec_def)
  then have "accepted_inboxes (pe_fed env) d1 = Inr fs" "inboxes_of i d1 = inboxes_of i d"
    using assms(3) by (simp_all add: accepted_inboxes_def list_followers_def inboxes_of_def)
  moreover have "change_activity (node_publisher env) ch = (i, kind, activity)"
    using assms(4) by (cases "fst ch") (simp_all add: change_activity_def node_publisher_def unix_seconds_def)
  ultimately show ?thesis
    using assms(1,2) s d1(1) inboxes_enqueue_all [of "pe_fed env" i "pe_print env activity" "[]" fs d1]
    by (simp add: on_index_change_def node_publisher_def)
qed

section \<open>Example data\<close>

definition demo_job :: "string \<Rightarrow> stored_time \<Rightarrow> nat \<Rightarrow> delivery" where
  "demo_job payload nxt i = \<lparr>jb_id = i, jb_inbox = ''https://e.example/in'', jb_activity = itoa i, jb_payload = payload, jb_attempts = 10,
     jb_max = max_attempts, jb_next = nxt, jb_error = [], jb_status = Pending\<rparr>"

definition demo_queue :: "delivery list \<Rightarrow> fed_db" where
  "demo_queue js = empty_fed\<lparr>fd_queue := js, fd_next_job := 10\<rparr>"

definition demo_types :: "string \<Rightarrow> json option" where
  "demo_types t = Some (JObj [(''type'', JStr (if t = ''A'' then ''Accept'' else ''Create''))])"

definition demo_worker :: "time \<Rightarrow> bool \<Rightarrow> worker_env" where
  "demo_worker t pause = \<lparr>we_fed = (\<lambda>_. \<lparr>fd_clock = t, fd_fault = (\<lambda>_. False)\<rparr>),
     we_fetcher = demo_fetcher\<lparr>ft_crypto := demo_keys\<lparr>parse_json := demo_types\<rparr>\<rparr>, we_key_id = evil_key,
     we_private = Some ''KEY12'', we_paused = pause, we_cancelled = (\<lambda>_. False), we_message = (\<lambda>_. ''failed'')\<rparr>"

definition demo_work :: "fed_db \<Rightarrow> worker_state" where
  "demo_work d = \<lparr>wk_db = d, wk_queries = 0, wk_log = [], wk_status = []\<rparr>"

definition demo_publish :: publish_env where
  "demo_publish = \<lparr>pe_fed = demo_fed, pe_paths = \<lparr>pt_base = ''https://b.example'', pt_user = ''bob''\<rparr>, pe_paused = False, pe_enqueue = None,
     pe_print = (\<lambda>_. ''payload''), pe_format = (\<lambda>_. [])\<rparr>"

definition demo_follower :: follower where
  "demo_follower = \<lparr>fo_actor = victim, fo_inbox = evil_inbox, fo_shared = [], fo_user = ''u'', fo_host = ''v.example'',
     fo_accepted = True, fo_created = Some 1\<rparr>"

lemma demo_queue_ok: "fed_ok (demo_queue [demo_job ''A'' 0 2])"
  by (simp add: fed_ok_def queue_ok_def job_ok_def demo_queue_def demo_job_def empty_fed_def max_attempts_def)

section \<open>Properties\<close>

text \<open>
  C14. The federation tables keep their type over every run of received activities, published changes, worker
  batches and blocks: followers, follows, blocks, activities and signatures have distinct keys, every
  inbox gets an activity at most once, and a pending job has attempts left.
\<close>

theorem federation_invariant:
  "fed_ok (fn_db (run fed_step start_node es))"
  by (rule run_fed_ok) (simp add: start_node_def)

text \<open>
  C17. A finished job is final: whatever happens later, its row stays as it is and no other row for the same
  inbox and activity appears. In particular the Create of a file shared again, which has the same
  identifier as before, is never sent to that inbox again.
\<close>

theorem finished_job_final:
  assumes "fed_ok (fn_db n)" "j \<in> set (fd_queue (fn_db n))" "jb_status j \<noteq> Pending"
  shows "filter (\<lambda>k. jb_inbox k = jb_inbox j \<and> jb_activity k = jb_activity j) (fd_queue (fn_db (run fed_step n es))) = [j]"
  by (rule finished_rows [OF assms])

theorem finished_job_final_witness:
  "filter (\<lambda>k. jb_inbox k = jb_inbox (demo_job ''A'' 0 2) \<and> jb_activity k = jb_activity (demo_job ''A'' 0 2))
     (fd_queue (fn_db (run fed_step (start_node\<lparr>fn_db := demo_queue [(demo_job ''A'' 0 2)\<lparr>jb_status := Delivered\<rparr>]\<rparr>)
       [Work (demo_worker 0 False)]))) = [(demo_job ''A'' 0 2)\<lparr>jb_status := Delivered\<rparr>]"
  using finished_job_final [of "start_node\<lparr>fn_db := demo_queue [(demo_job ''A'' 0 2)\<lparr>jb_status := Delivered\<rparr>]\<rparr>"
      "(demo_job ''A'' 0 2)\<lparr>jb_status := Delivered\<rparr>" "[Work (demo_worker 0 False)]"]
  by (simp add: fed_ok_def queue_ok_def job_ok_def demo_queue_def demo_job_def empty_fed_def max_attempts_def)

text \<open>
  A job that fails is tried again after 1, 2, 4, ... seconds, at most an hour.
\<close>

theorem backoff_doubles:
  assumes "1 \<le> a" "a \<le> max_attempts"
  shows "backoff a = min (2 ^ (a - 1) * second) (3600 * second)"
  using assms by (rule backoff_value)

theorem backoff_doubles_witness: "backoff 12 = min (2 ^ (12 - 1) * second) (3600 * second)"
  by (rule backoff_doubles) (simp_all add: max_attempts_def)

text \<open>
  C16. The worker stops trying: as long as the statement that records a result works, its calls of \<open>Client.Do\<close>, over
  any number of wake-ups, are at most the attempts left of the pending jobs (twelve for a new job), and each of them
  reaches at most three servers, the one of the inbox and those of two redirects.
\<close>

theorem deliveries_bounded:
  assumes "fed_ok (wk_db s)" "list_all marks_work (first # wakeups)"
  shows "length (wk_log (worker_run first wakeups s)) + budget (wk_db (worker_run first wakeups s))
    \<le> length (wk_log s) + budget (wk_db s) \<and>
    (\<exists>new. wk_log (worker_run first wakeups s) = wk_log s @ new \<and> list_all (\<lambda>(r, contacted). length contacted \<le> 3) new)"
  using ticks_bound [OF assms] ticks_extend [of s "first # wakeups"] by (simp add: worker_run_def log_extends_def)

theorem deliveries_bounded_witness:
  "length (wk_log (worker_run (demo_worker 0 False) [demo_worker second False] (demo_work (demo_queue [demo_job ''A'' 0 2])))) +
     budget (wk_db (worker_run (demo_worker 0 False) [demo_worker second False] (demo_work (demo_queue [demo_job ''A'' 0 2]))))
   \<le> length (wk_log (demo_work (demo_queue [demo_job ''A'' 0 2]))) + budget (wk_db (demo_work (demo_queue [demo_job ''A'' 0 2])))"
  by (rule deliveries_bounded [THEN conjunct1]) (simp_all add: demo_work_def demo_queue_ok marks_work_def demo_worker_def)

text \<open>
  C11. The worker empties the queue, whatever the network does: on a node that is not paused, with the database
  working and no shutdown, a sequence of wake-ups that start at most \<open>G\<close> apart, each after the end of the one
  before (the code's ticker has a period of two seconds), leaves no job pending once it spans an hour and twice
  \<open>G\<close> for each attempt left, if at its start no job was put off for more than an hour.
\<close>

theorem queue_drains:
  assumes "fed_ok (wk_db s)" "list_all quiet (first # wakeups)" "0 \<le> G" "successively (follows G) (first # wakeups)"
    and "all_due (fd_clock (we_fed first 0) + 3600 * second) (wk_db s)"
    and "fd_clock (we_fed first 0) + int (budget (wk_db s)) * (3600 * second + 2 * G)
      \<le> fd_clock (we_fed (last (first # wakeups)) 0)"
  shows "list_all (\<lambda>j. jb_status j \<noteq> Pending) (fd_queue (wk_db (worker_run first wakeups s)))"
proof -
  have "fd_clock (we_fed first 0) \<le> fd_clock (we_fed first 0) + 3600 * second + G" using assms(3) second_pos by linarith
  moreover have "fd_clock (we_fed first 0) + 3600 * second + (int (budget (wk_db s)) - 1) * (3600 * second + 2 * G)
      \<le> fd_clock (we_fed (last (first # wakeups)) 0)" using assms(3,6) by (simp add: algebra_simps)
  ultimately show ?thesis
    using ticks_drain [OF assms(3,1,2,4,5)] by (auto simp: worker_run_def list_all_iff dest: no_budget)
qed

definition demo_ticks :: "worker_env list" where
  "demo_ticks = map (\<lambda>n. demo_worker (2 * second * int n) False) [1..<3605]"

lemma demo_ticks:
  "list_all quiet (demo_worker 0 False # demo_ticks)" "successively (follows (2 * second)) (demo_worker 0 False # demo_ticks)"
  "fd_clock (we_fed (last (demo_worker 0 False # demo_ticks)) 0) = 7208 * second"
proof -
  have all: "demo_worker 0 False # demo_ticks = map (\<lambda>n. demo_worker (2 * second * int n) False) [0..<3605]"
    by (subst upt_conv_Cons) (simp_all add: demo_ticks_def del: upt_Suc)
  have q: "quiet (demo_worker t False)" for t by (simp add: quiet_def demo_worker_def)
  show "list_all quiet (demo_worker 0 False # demo_ticks)" unfolding all by (simp add: list_all_iff q)
  have f: "follows (2 * second) (demo_worker (2 * second * int n) False) (demo_worker (2 * second * int (Suc n)) False)" for n
    using less_imp_le [OF second_pos] by (simp add: follows_def demo_worker_def algebra_simps)
  show "successively (follows (2 * second)) (demo_worker 0 False # demo_ticks)"
    unfolding all successively_map using f by (simp add: successively_conv_nth)
  show "fd_clock (we_fed (last (demo_worker 0 False # demo_ticks)) 0) = 7208 * second"
    unfolding all by (subst last_map) (simp_all add: demo_worker_def del: upt_Suc)
qed

theorem queue_drains_witness:
  "list_all (\<lambda>j. jb_status j \<noteq> Pending) (fd_queue (wk_db
     (worker_run (demo_worker 0 False) demo_ticks (demo_work (demo_queue [demo_job ''A'' 0 2])))))"
proof (rule queue_drains)
  show "fed_ok (wk_db (demo_work (demo_queue [demo_job ''A'' 0 2])))" by (simp add: demo_work_def demo_queue_ok)
  show "all_due (fd_clock (we_fed (demo_worker 0 False) 0) + 3600 * second) (wk_db (demo_work (demo_queue [demo_job ''A'' 0 2])))"
    by (rule all_due_later [of 0])
      (simp_all add: all_due_def demo_work_def demo_queue_def demo_job_def demo_worker_def stamp_def second_def)
  have "budget (wk_db (demo_work (demo_queue [demo_job ''A'' 0 2]))) = 2"
    by (simp add: budget_def attempts_left_def demo_work_def demo_queue_def demo_job_def max_attempts_def)
  then show "fd_clock (we_fed (demo_worker 0 False) 0) + int (budget (wk_db (demo_work (demo_queue [demo_job ''A'' 0 2])))) *
      (3600 * second + 2 * (2 * second)) \<le> fd_clock (we_fed (last (demo_worker 0 False # demo_ticks)) 0)"
    unfolding demo_ticks(3) by (simp add: demo_worker_def second_def)
  show "0 \<le> 2 * second" using second_pos by linarith
qed (rule demo_ticks)+

text \<open>
  C33. While the node is paused, eight due file activities that come before everything else block the queue:
  the worker claims only them and skips them, so no Accept is sent and nothing changes, however often it
  wakes up.
\<close>

theorem paused_queue_blocks:
  assumes "batch_full parse T (wk_db s)"
    and "\<forall>e\<in>set (first # wakeups). we_paused e \<and> parse_json (ft_crypto (we_fetcher e)) = parse \<and> T \<le> fed_now (we_fed e 0)"
  shows "wk_db (worker_run first wakeups s) = wk_db s \<and> wk_log (worker_run first wakeups s) = wk_log s"
  using ticks_paused [OF assms(2,1)] by (simp add: worker_run_def)

theorem paused_queue_blocks_witness:
  "wk_db (worker_run (demo_worker second True) [demo_worker (9 * second) True]
       (demo_work (demo_queue (demo_job ''A'' 1 9 # map (demo_job ''C'' 0) [1..<9])))) =
     wk_db (demo_work (demo_queue (demo_job ''A'' 1 9 # map (demo_job ''C'' 0) [1..<9]))) \<and>
   wk_log (worker_run (demo_worker second True) [demo_worker (9 * second) True]
       (demo_work (demo_queue (demo_job ''A'' 1 9 # map (demo_job ''C'' 0) [1..<9])))) =
     wk_log (demo_work (demo_queue (demo_job ''A'' 1 9 # map (demo_job ''C'' 0) [1..<9])))"
proof (rule paused_queue_blocks)
  have "is_file_activity demo_types ''C''" by code_simp
  then have c: "file_job demo_types (demo_job ''C'' 0 i)" for i by (simp add: file_job_def demo_job_def)
  have p: "jb_status (demo_job x t i) = Pending" "jb_next (demo_job x t i) = t" for x t i
    by (simp_all add: demo_job_def)
  show "batch_full demo_types 0 (wk_db (demo_work (demo_queue (demo_job ''A'' 1 9 # map (demo_job ''C'' 0) [1..<9]))))"
    unfolding batch_full_def using c by (auto simp: demo_work_def demo_queue_def p filter_map o_def)
qed (simp_all add: demo_worker_def fed_now_def stamp_def)

text \<open>
  C28. A published change is queued for exactly the inboxes of the followers asked for, shared inboxes once,
  beside those it was already queued for.
\<close>

theorem publish_queues_for_followers:
  assumes "\<not> pe_paused env" "\<forall>st. \<not> fd_fault (pe_fed env) st" "accepted_inboxes (pe_fed env) d = Inr fs"
    and "change_activity env ch = (i, kind, activity)"
  shows "inboxes_of i (on_index_change (node_publisher env) ch d) = inboxes_of i d \<union> (delivery_inbox ` set fs - {[]})"
  by (rule publish_inboxes [OF assms])

theorem publish_queues_for_followers_witness:
  "\<forall>ch. inboxes_of (fst (change_activity demo_publish ch))
     (on_index_change (node_publisher demo_publish) ch (empty_fed\<lparr>fd_followers := [demo_follower]\<rparr>)) =
     inboxes_of (fst (change_activity demo_publish ch)) (empty_fed\<lparr>fd_followers := [demo_follower]\<rparr>) \<union> {evil_inbox}"
proof
  fix ch
  have "accepted_inboxes (pe_fed demo_publish) (empty_fed\<lparr>fd_followers := [demo_follower]\<rparr>) = Inr [demo_follower]"
    by (simp add: demo_publish_def demo_fed_def accepted_inboxes_def list_followers_def demo_follower_def Let_def page_def default_page_def)
  moreover have "\<not> pe_paused demo_publish" "\<forall>st. \<not> fd_fault (pe_fed demo_publish) st"
    by (simp_all add: demo_publish_def demo_fed_def)
  ultimately have "inboxes_of (fst (change_activity demo_publish ch))
     (on_index_change (node_publisher demo_publish) ch (empty_fed\<lparr>fd_followers := [demo_follower]\<rparr>)) =
     inboxes_of (fst (change_activity demo_publish ch)) (empty_fed\<lparr>fd_followers := [demo_follower]\<rparr>) \<union>
       (delivery_inbox ` set [demo_follower] - {[]})"
    by (intro publish_queues_for_followers [where kind = "fst (snd (change_activity demo_publish ch))" and
          activity = "snd (snd (change_activity demo_publish ch))"]) simp_all
  moreover have "delivery_inbox demo_follower = evil_inbox" "evil_inbox \<noteq> []"
    by (simp_all add: delivery_inbox_def demo_follower_def evil_inbox_def)
  ultimately show "inboxes_of (fst (change_activity demo_publish ch))
     (on_index_change (node_publisher demo_publish) ch (empty_fed\<lparr>fd_followers := [demo_follower]\<rparr>)) =
     inboxes_of (fst (change_activity demo_publish ch)) (empty_fed\<lparr>fd_followers := [demo_follower]\<rparr>) \<union> {evil_inbox}" by auto
qed

end
