(* ===== verification/Go_Utf8.thy ===== *)
theory Go_Utf8
  imports Go_Strings
begin

text \<open>
  Go's \<open>unicode/utf8\<close>: the runes of a byte string as \<open>DecodeRuneInString\<close> and \<open>range\<close> give them, an invalid
  byte being the replacement rune of width one.
\<close>

definition rune_error :: nat where "rune_error = 65533"

definition cont_byte :: "char \<Rightarrow> bool" where
  "cont_byte c \<longleftrightarrow> 128 \<le> byte c \<and> byte c < 192"

text \<open>The second byte of a sequence, by the first one.\<close>

definition second_ok :: "nat \<Rightarrow> char \<Rightarrow> bool" where
  "second_ok b c \<longleftrightarrow>
     cont_byte c \<and> (b = 224 \<longrightarrow> 160 \<le> byte c) \<and> (b = 237 \<longrightarrow> byte c < 160) \<and>
     (b = 240 \<longrightarrow> 144 \<le> byte c) \<and> (b = 244 \<longrightarrow> byte c < 144)"

definition payload_bits :: "char \<Rightarrow> nat" where
  "payload_bits c = byte c mod 64"

text \<open>The rune at the head of a non-empty string and its width.\<close>

fun decode_rune :: "string \<Rightarrow> nat \<times> nat" where
  "decode_rune [] = (rune_error, 0)"
| "decode_rune (c # s) =
     (let b = byte c in
      if b < 128 then (b, 1)
      else case s of
        c1 # s1 \<Rightarrow>
          if \<not> second_ok b c1 then (rune_error, 1)
          else if 194 \<le> b \<and> b < 224 then ((b mod 32) * 64 + payload_bits c1, 2)
          else (case s1 of
              c2 # s2 \<Rightarrow>
                if \<not> cont_byte c2 then (rune_error, 1)
                else if 224 \<le> b \<and> b < 240 then (((b mod 16) * 64 + payload_bits c1) * 64 + payload_bits c2, 3)
                else (case s2 of
                    c3 # _ \<Rightarrow>
                      if cont_byte c3 \<and> 240 \<le> b \<and> b < 245
                      then ((((b mod 8) * 64 + payload_bits c1) * 64 + payload_bits c2) * 64 + payload_bits c3, 4)
                      else (rune_error, 1)
                  | [] \<Rightarrow> (rune_error, 1))
            | [] \<Rightarrow> (rune_error, 1))
      | [] \<Rightarrow> (rune_error, 1))"

lemma rune_width: "s \<noteq> [] \<Longrightarrow> 1 \<le> snd (decode_rune s) \<and> snd (decode_rune s) \<le> length s"
  by (cases s) (auto simp: Let_def split: list.split)

function runes :: "string \<Rightarrow> nat list" where
  "runes s = (if s = [] then [] else fst (decode_rune s) # runes (drop (snd (decode_rune s)) s))"
  by pat_completeness auto

termination
proof (relation "measure length")
  fix s :: string
  assume "s \<noteq> []"
  then show "(drop (snd (decode_rune s)) s, s) \<in> measure length"
    using rune_width [of s] by (cases s) auto
qed simp

declare runes.simps [simp del]

definition rune_count :: "string \<Rightarrow> nat" where
  "rune_count s = length (runes s)"

lemma runes_ascii: "ascii s \<Longrightarrow> runes s = map byte s"
proof (induction s)
  case (Cons c s)
  then have "decode_rune (c # s) = (byte c, 1)" by (simp add: ascii_def)
  with Cons show ?case by (subst runes.simps) (simp add: ascii_def)
qed (simp add: runes.simps)

lemma rune_count_le: "rune_count s \<le> length s"
proof (induction "length s" arbitrary: s rule: less_induct)
  case less
  show ?case
  proof (cases "s = []")
    case False
    let ?t = "drop (snd (decode_rune s)) s"
    have "length ?t < length s" using rune_width [OF False] False by (cases s) auto
    then have "rune_count ?t \<le> length ?t" by (rule less)
    moreover have "rune_count s = Suc (rune_count ?t)" using False by (simp add: rune_count_def runes.simps [of s])
    ultimately show ?thesis using \<open>length ?t < length s\<close> by simp
  qed (simp add: rune_count_def runes.simps)
qed

section \<open>Encoding\<close>

text \<open>\<open>WriteRune\<close>: a number that is no rune is written as the replacement rune.\<close>

definition cont_of :: "nat \<Rightarrow> char" where
  "cont_of n = char_of (128 + n mod 64)"

definition encode_rune :: "nat \<Rightarrow> string" where
  "encode_rune r0 =
     (let r = (if 1114111 < r0 \<or> (55296 \<le> r0 \<and> r0 < 57344) then rune_error else r0) in
      if r < 128 then [char_of r]
      else if r < 2048 then [char_of (192 + r div 64), cont_of r]
      else if r < 65536 then [char_of (224 + r div 4096), cont_of (r div 64), cont_of r]
      else [char_of (240 + r div 262144), cont_of (r div 4096), cont_of (r div 64), cont_of r])"

lemma byte_cont_of: "byte (cont_of n) = 128 + n mod 64"
  by (simp add: cont_of_def)

text \<open>Outside ASCII the encoding consists of bytes from 128 up.\<close>

lemma encode_high:
  assumes "128 \<le> r" "c \<in> set (encode_rune r)"
  shows "128 \<le> byte c"
proof -
  have b: "x < 256 \<Longrightarrow> byte (char_of x) = x" for x by simp
  define q where "q = (if 1114111 < r \<or> (55296 \<le> r \<and> r < 57344) then rune_error else r)"
  have q: "128 \<le> q" "q \<le> 1114111" using assms(1) by (auto simp: q_def rune_error_def)
  have "c \<in> set (if q < 128 then [char_of q] else if q < 2048 then [char_of (192 + q div 64), cont_of q]
      else if q < 65536 then [char_of (224 + q div 4096), cont_of (q div 64), cont_of q]
      else [char_of (240 + q div 262144), cont_of (q div 4096), cont_of (q div 64), cont_of q])"
    using assms(2) unfolding encode_rune_def Let_def q_def [symmetric] .
  then show ?thesis using q by (auto simp: byte_cont_of b split: if_splits)
qed

lemma encode_ascii: "r < 128 \<Longrightarrow> encode_rune r = [char_of r]"
  by (simp add: encode_rune_def)

end
