(* ===== verification/Disk.thy ===== *)
theory Disk
  imports Go_Path "HOL-Library.List_Lexorder" "HOL-Library.Char_ord"
begin

text \<open>
  The file system under the application's data directory, with the calls of Go's \<open>os\<close> package that the
  configuration, the key store and the profiles use. A path is the list of its components, so
  \<open>filepath.Join\<close> appends; \<open>os_fault\<close> says which calls fail in the environment of an operation, and a failed
  write may leave any content behind.
\<close>

section \<open>Files and calls\<close>

type_synonym fs_path = "string list"

datatype disk_entry = File string | Dir

type_synonym disk = "(fs_path \<times> disk_entry) list"

datatype os_call =
  Stat_Call fs_path | Read_Call fs_path | Mkdir_Call fs_path | Write_Call fs_path | Rename_Call fs_path fs_path
| Remove_Call fs_path | Chmod_Call fs_path | List_Call fs_path

record os_env =
  os_fault :: "os_call \<Rightarrow> bool"
  os_torn :: string

definition at :: "disk \<Rightarrow> fs_path \<Rightarrow> disk_entry option" where
  "at d p = map_of d p"

definition put :: "fs_path \<Rightarrow> disk_entry \<Rightarrow> disk \<Rightarrow> disk" where
  "put p e d = (p, e) # filter (\<lambda>(q, _). q \<noteq> p) d"

definition stat :: "os_env \<Rightarrow> fs_path \<Rightarrow> disk \<Rightarrow> bool" where
  "stat env p d \<longleftrightarrow> \<not> os_fault env (Stat_Call p) \<and> at d p \<noteq> None"

datatype read_outcome = Read_Failed | Not_Exist | Content string

definition read_file :: "os_env \<Rightarrow> fs_path \<Rightarrow> disk \<Rightarrow> read_outcome" where
  "read_file env p d =
     (if os_fault env (Read_Call p) then Read_Failed
      else case at d p of None \<Rightarrow> Not_Exist | Some Dir \<Rightarrow> Read_Failed | Some (File t) \<Rightarrow> Content t)"

text \<open>\<open>os.MkdirAll\<close>: the missing directories from the root down.\<close>

definition make_dir :: "fs_path \<Rightarrow> disk \<Rightarrow> disk" where
  "make_dir p d = (if at d p = None then put p Dir d else d)"

definition mkdir_all :: "os_env \<Rightarrow> fs_path \<Rightarrow> disk \<Rightarrow> bool \<times> disk" where
  "mkdir_all env p d =
     (if os_fault env (Mkdir_Call p) \<or> list_ex (\<lambda>n. case at d (take n p) of Some (File _) \<Rightarrow> True | _ \<Rightarrow> False) [0..<length p + 1]
      then (False, d)
      else (True, fold (\<lambda>n. make_dir (take n p)) [0..<length p + 1] d))"

definition write_file :: "os_env \<Rightarrow> fs_path \<Rightarrow> string \<Rightarrow> disk \<Rightarrow> bool \<times> disk" where
  "write_file env p t d =
     (if p = [] \<or> at d (butlast p) \<noteq> Some Dir \<or> at d p = Some Dir then (False, d)
      else if os_fault env (Write_Call p) then (False, put p (File (os_torn env)) d)
      else (True, put p (File t) d))"

definition moved :: "fs_path \<Rightarrow> fs_path \<Rightarrow> fs_path \<Rightarrow> fs_path" where
  "moved src dst q = (if prefix src q then dst @ drop (length src) q else q)"

text \<open>\<open>os.Rename\<close> on Unix: an existing directory is never replaced, a directory replaces nothing.\<close>

definition rename :: "os_env \<Rightarrow> fs_path \<Rightarrow> fs_path \<Rightarrow> disk \<Rightarrow> bool \<times> disk" where
  "rename env src dst d =
     (if os_fault env (Rename_Call src dst) \<or> dst = [] \<or> at d src = None \<or> at d (butlast dst) \<noteq> Some Dir \<or>
         at d dst = Some Dir \<or> (at d src = Some Dir \<and> (at d dst \<noteq> None \<or> prefix src dst))
      then (False, d)
      else if src = dst then (True, d)
      else (True, map (\<lambda>(q, e). (moved src dst q, e)) (filter (\<lambda>(q, _). \<not> prefix dst q) d)))"

definition remove :: "os_env \<Rightarrow> fs_path \<Rightarrow> disk \<Rightarrow> bool \<times> disk" where
  "remove env p d =
     (if os_fault env (Remove_Call p) \<or> at d p = None \<or> list_ex (\<lambda>(q, _). strict_prefix p q) d then (False, d)
      else (True, filter (\<lambda>(q, _). q \<noteq> p) d))"

definition chmod :: "os_env \<Rightarrow> fs_path \<Rightarrow> disk \<Rightarrow> bool" where
  "chmod env p d \<longleftrightarrow> \<not> os_fault env (Chmod_Call p) \<and> at d p \<noteq> None"

text \<open>\<open>os.ReadDir\<close>: the names in a directory in order, each with whether it is a directory.\<close>

definition read_dir :: "os_env \<Rightarrow> fs_path \<Rightarrow> disk \<Rightarrow> (string \<times> bool) list option" where
  "read_dir env p d =
     (if os_fault env (List_Call p) \<or> at d p \<noteq> Some Dir then None
      else Some (map (\<lambda>n. (n, at d (p @ [n]) = Some Dir))
        (sort (remdups (map (\<lambda>(q, _). last q) (filter (\<lambda>(q, _). q \<noteq> [] \<and> butlast q = p) d))))))"

section \<open>Laws\<close>

lemma at_put: "at (put p e d) q = (if q = p then Some e else at d q)"
  by (induction d) (auto simp: at_def put_def)

text \<open>The moved files, when source and destination are not one below the other.\<close>

lemma at_moved:
  assumes "\<not> prefix src dst" "\<not> prefix dst src"
  shows "at (map (\<lambda>(q, e). (moved src dst q, e)) (filter (\<lambda>(q, _). \<not> prefix dst q) d)) q =
    (if prefix dst q then at d (src @ drop (length dst) q) else if prefix src q then None else at d q)"
proof (induction d)
  case (Cons x d)
  obtain k e where x: "x = (k, e)" by (cases x)
  have disjoint: "\<not> (prefix src p \<and> prefix dst p)" for p
    using assms prefix_same_cases by blast
  show ?case
  proof (cases "prefix dst k")
    case True
    have "\<not> prefix src (dst @ r)" for r using disjoint [of "dst @ r"] by simp
    moreover have "k \<noteq> src @ drop (length dst) q"
      using True disjoint [of k] by (metis prefixI)
    ultimately show ?thesis using Cons True by (auto simp: x at_def)
  next
    case False
    show ?thesis
    proof (cases "prefix src k")
      case True
      then have k: "k = src @ drop (length src) k" by (auto elim: prefixE)
      have "q = dst @ drop (length src) k \<longleftrightarrow> prefix dst q \<and> k = src @ drop (length dst) q"
        by (metis append_eq_conv_conj k prefix_def append_same_eq same_append_eq)
      then show ?thesis using Cons False True k disjoint [of q] by (auto simp: x at_def moved_def)
    next
      case out: False
      have "\<not> prefix dst k" "k \<noteq> src @ r" for r using False out by auto
      then show ?thesis using Cons False out by (auto simp: x at_def moved_def)
    qed
  qed
qed (simp add: at_def)

lemma read_file_content: "read_file env p d = Content t \<longleftrightarrow> \<not> os_fault env (Read_Call p) \<and> at d p = Some (File t)"
  by (auto simp: read_file_def split: option.splits disk_entry.splits)

lemma write_file_at: "write_file env p t d = (b, d1) \<Longrightarrow> q \<noteq> p \<Longrightarrow> at d1 q = at d q"
  by (auto simp: write_file_def at_put split: if_splits)

lemma write_file_done: "write_file env p t d = (True, d1) \<Longrightarrow> at d1 p = Some (File t)"
  by (auto simp: write_file_def at_put split: if_splits)

lemma at_make_dir: "at (make_dir p d) q = (if q = p \<and> at d p = None then Some Dir else at d q)"
  by (simp add: make_dir_def at_put)

lemma make_dir_keeps: "at d q = Some e \<Longrightarrow> at (make_dir p d) q = Some e"
  by (auto simp: at_make_dir)

lemma make_dirs_at:
  "at d q = Some e \<Longrightarrow> at (fold (\<lambda>n. make_dir (take n p)) ns d) q = Some e"
  by (induction ns arbitrary: d) (simp_all add: make_dir_keeps)

lemma make_dirs_new:
  "at d q = None \<or> at d q = Some Dir \<and> prefix q p \<Longrightarrow>
   at (fold (\<lambda>n. make_dir (take n p)) ns d) q = None \<or> at (fold (\<lambda>n. make_dir (take n p)) ns d) q = Some Dir \<and> prefix q p"
proof (induction ns arbitrary: d)
  case (Cons n ns)
  have "at (make_dir (take n p) d) q = None \<or> at (make_dir (take n p) d) q = Some Dir \<and> prefix q p"
    using Cons.prems by (auto simp: at_make_dir take_is_prefix)
  from Cons.IH [OF this] show ?case by simp
qed simp

lemma mkdir_all_cases:
  assumes "mkdir_all env p d = (b, d1)"
  obtains "\<not> b" "d1 = d" | "b" "d1 = fold (\<lambda>n. make_dir (take n p)) [0..<length p + 1] d" "\<nexists>t. at d p = Some (File t)"
  using assms by (force simp: mkdir_all_def list_ex_iff simp del: upt_Suc split: if_splits)

lemma mkdir_all_at: "mkdir_all env p d = (b, d1) \<Longrightarrow> at d q = Some e \<Longrightarrow> at d1 q = Some e"
  by (erule mkdir_all_cases) (auto simp: make_dirs_at simp del: upt_Suc)

lemma mkdir_all_new:
  "mkdir_all env p d = (b, d1) \<Longrightarrow> at d q = None \<Longrightarrow> at d1 q = None \<or> at d1 q = Some Dir \<and> prefix q p"
  using make_dirs_new [of d q p "[0..<length p + 1]"] by (elim mkdir_all_cases) simp_all

lemma mkdir_all_done:
  assumes "mkdir_all env p d = (True, d1)"
  shows "at d1 p = Some Dir"
proof -
  let ?d = "fold (\<lambda>n. make_dir (take n p)) [0..<length p] d"
  have d1: "d1 = make_dir p ?d" and free: "\<nexists>t. at d p = Some (File t)"
    using assms by (auto elim!: mkdir_all_cases)
  have "at ?d p = None \<or> at ?d p = Some Dir"
  proof (cases "at d p")
    case None
    then show ?thesis using make_dirs_new [of d p p] by blast
  next
    case (Some e)
    then show ?thesis using free make_dirs_at by (cases e) auto
  qed
  then show ?thesis by (auto simp: d1 make_dir_def at_put)
qed

text \<open>A file written beside its place and then renamed over it.\<close>

lemma at_rename_file:
  assumes "rename env src dst d = (True, d1)" "at d src = Some (File t)" "\<not> prefix src dst" "\<not> prefix dst src"
    and "\<forall>r. r \<noteq> [] \<longrightarrow> at d (src @ r) = None \<and> at d (dst @ r) = None"
  shows "at d1 q = (if q = dst then Some (File t) else if q = src then None else at d q)"
proof -
  have ne: "src \<noteq> dst" using assms(3) by auto
  have "at d1 q = (if prefix dst q then at d (src @ drop (length dst) q) else if prefix src q then None else at d q)"
    using assms(1) ne by (auto simp: rename_def at_moved [OF assms(3,4)] split: if_splits)
  moreover have "q = dst \<or> at d (src @ drop (length dst) q) = at d q" if "prefix dst q"
    using that assms(5) by (cases "q = dst") (auto elim!: prefixE)
  moreover have "q = src \<or> at d q = None" if "prefix src q"
    using that assms(5) by (cases "q = src") (auto elim!: prefixE)
  ultimately show ?thesis using assms(2,3,4) by auto
qed

section \<open>The tree\<close>

text \<open>Everything lies in directories.\<close>

definition disk_ok :: "disk \<Rightarrow> bool" where
  "disk_ok d \<longleftrightarrow> (\<forall>p e n. at d p = Some e \<and> n < length p \<longrightarrow> at d (take n p) = Some Dir)"

lemma disk_okI:
  assumes "list_all (\<lambda>(p, e). list_all (\<lambda>n. at d (take n p) = Some Dir) [0..<length p]) d"
  shows "disk_ok d"
  using assms by (fastforce simp: disk_ok_def list_all_iff at_def dest: map_of_SomeD)

lemma below_file: "disk_ok d \<Longrightarrow> at d p \<noteq> Some Dir \<Longrightarrow> r \<noteq> [] \<Longrightarrow> at d (p @ r) = None"
proof (rule ccontr)
  assume ok: "disk_ok d" "at d p \<noteq> Some Dir" "r \<noteq> []" "at d (p @ r) \<noteq> None"
  then obtain e where "at d (p @ r) = Some e" by blast
  moreover have "length p < length (p @ r)" using ok(3) by simp
  ultimately have "at d (take (length p) (p @ r)) = Some Dir" using ok(1) unfolding disk_ok_def by blast
  then show False using ok(2) by simp
qed

lemma disk_ok_put:
  assumes "disk_ok d" "\<And>n. n < length p \<Longrightarrow> at d (take n p) = Some Dir" "at d p = Some Dir \<longrightarrow> e = Dir"
  shows "disk_ok (put p e d)"
  unfolding disk_ok_def at_put
proof (intro allI impI)
  fix q x n
  assume q: "(if q = p then Some e else at d q) = Some x \<and> n < length q"
  have dir: "at d (take n q) = Some Dir"
    using q assms(1,2) by (cases "q = p") (auto simp: disk_ok_def)
  then show "(if take n q = p then Some e else at d (take n q)) = Some Dir" using assms(3) by auto
qed

lemma parents_dir:
  assumes "disk_ok d" "at d (butlast p) = Some Dir" "n < length p"
  shows "at d (take n p) = Some Dir"
proof (cases "n = length p - 1")
  case True
  then show ?thesis using assms(2) by (simp add: butlast_conv_take)
next
  case False
  then have "n < length (butlast p)" using assms(3) by simp
  then have "at d (take n (butlast p)) = Some Dir" using assms(1,2) unfolding disk_ok_def by blast
  then show ?thesis using assms(3) by (simp add: take_butlast)
qed

lemma make_dir_ok: "disk_ok d \<Longrightarrow> \<forall>n<length p. at d (take n p) = Some Dir \<Longrightarrow> disk_ok (make_dir p d)"
  by (auto simp: make_dir_def intro!: disk_ok_put)

lemma mkdir_all_ok:
  assumes "mkdir_all env p d = (b, d1)" "disk_ok d"
  shows "disk_ok d1"
proof -
  have "disk_ok (fold (\<lambda>n. make_dir (take n p)) [0..<k] d) \<and>
      (\<forall>n<k. at (fold (\<lambda>n. make_dir (take n p)) [0..<k] d) (take n p) = Some Dir)"
    if free: "\<forall>n<k. \<nexists>t. at d (take n p) = Some (File t)" and "k \<le> length p + 1" for k
    using that
  proof (induction k)
    case (Suc k)
    let ?d = "fold (\<lambda>n. make_dir (take n p)) [0..<k] d"
    have ih: "disk_ok ?d" "\<forall>n<k. at ?d (take n p) = Some Dir" using Suc by simp_all
    have k: "at ?d (take k p) = None \<or> at ?d (take k p) = Some Dir"
    proof (cases "at d (take k p)")
      case None
      then show ?thesis using make_dirs_new [of d "take k p" p "[0..<k]"] by blast
    next
      case (Some e)
      then have "e = Dir" using Suc.prems(1) by (cases e) auto
      with Some show ?thesis using make_dirs_at by auto
    qed
    have "disk_ok (make_dir (take k p) ?d)"
      using ih by (intro make_dir_ok) (auto simp: min_def)
    moreover have "\<forall>n<Suc k. at (make_dir (take k p) ?d) (take n p) = Some Dir"
      using ih(2) k by (auto simp: at_make_dir less_Suc_eq)
    ultimately show ?case by simp
  qed (simp add: assms(2))
  note step = this
  show ?thesis
  proof (cases "d1 = d")
    case False
    then have "\<forall>n<length p + 1. \<nexists>t. at d (take n p) = Some (File t)"
      "d1 = fold (\<lambda>n. make_dir (take n p)) [0..<length p + 1] d"
      using assms(1) by (force simp: mkdir_all_def list_ex_iff simp del: upt_Suc split: if_splits)+
    then show ?thesis using step [of "length p + 1"] by simp
  qed (simp add: assms(2))
qed

lemma write_file_ok:
  assumes "write_file env p t d = (b, d1)" "disk_ok d"
  shows "disk_ok d1"
proof (cases "d1 = d")
  case False
  then obtain x where w: "d1 = put p (File x) d" "p \<noteq> []" "at d (butlast p) = Some Dir" "at d p \<noteq> Some Dir"
    using assms(1) by (auto simp: write_file_def split: if_splits)
  have "at d (take n p) = Some Dir" if "n < length p" for n by (rule parents_dir [OF assms(2) w(3) that])
  then show ?thesis unfolding w(1) using assms(2) w(4) by (intro disk_ok_put) auto
qed (simp add: assms(2))

lemma at_remove: "remove env p d = (b, d1) \<Longrightarrow> at d1 q = (if b \<and> q = p then None else at d q)"
proof -
  have "at (filter (\<lambda>(r, _). r \<noteq> p) d) q = (if q = p then None else at d q)" by (induction d) (auto simp: at_def)
  then show "remove env p d = (b, d1) \<Longrightarrow> at d1 q = (if b \<and> q = p then None else at d q)"
    by (auto simp: remove_def split: if_splits)
qed

lemma remove_ok:
  assumes "remove env p d = (b, d1)" "disk_ok d"
  shows "disk_ok d1"
proof (cases b)
  case True
  then have below: "at d q = None" if "strict_prefix p q" for q
    using assms(1) that by (force simp: remove_def at_def list_ex_iff map_of_eq_None_iff split: if_splits)
  have "take n q \<noteq> p" if "at d q = Some e" "n < length q" for q e n
    using below that by (metis option.distinct(1) prefix_order.le_neq_trans take_is_prefix length_take min_less_iff_conj nat_neq_iff)
  then show ?thesis using assms(2) unfolding disk_ok_def at_remove [OF assms(1)] by auto
next
  case False
  then show ?thesis using assms at_remove by (simp add: disk_ok_def)
qed

lemma rename_file_ok:
  assumes "rename env src dst d = (True, d1)" "at d src = Some (File t)" "\<not> prefix src dst" "\<not> prefix dst src" "disk_ok d"
  shows "at d1 q = (if q = dst then Some (File t) else if q = src then None else at d q)" "disk_ok d1"
proof -
  have dst: "dst \<noteq> []" "at d (butlast dst) = Some Dir" "at d dst \<noteq> Some Dir"
    using assms(1) by (auto simp: rename_def split: if_splits)
  have free: "\<forall>r. r \<noteq> [] \<longrightarrow> at d (src @ r) = None \<and> at d (dst @ r) = None"
    using below_file [OF assms(5)] assms(2) dst(3) by simp
  note eq = at_rename_file [OF assms(1-4) free]
  show "at d1 q = (if q = dst then Some (File t) else if q = src then None else at d q)" by (rule eq)
  have dirs: "at d (take n dst) = Some Dir" if "n < length dst" for n by (rule parents_dir [OF assms(5) dst(2) that])
  show "disk_ok d1"
    unfolding disk_ok_def eq
  proof (intro allI impI)
    fix p e n
    assume p: "(if p = dst then Some (File t) else if p = src then None else at d p) = Some e \<and> n < length p"
    then have dir: "at d (take n p) = Some Dir" using dirs assms(5) by (cases "p = dst") (auto simp: disk_ok_def split: if_splits)
    then have "take n p \<noteq> dst" "take n p \<noteq> src" using assms(2) dst(3) by auto
    with dir show "(if take n p = dst then Some (File t) else if take n p = src then None else at d (take n p)) = Some Dir" by simp
  qed
qed

lemma at_rename:
  assumes "rename env src dst d = (True, d1)" "\<not> prefix src dst" "\<not> prefix dst src"
  shows "at d1 q = (if prefix dst q then at d (src @ drop (length dst) q) else if prefix src q then None else at d q)"
proof -
  have "src \<noteq> dst" using assms(2) by auto
  then show ?thesis using assms(1) by (auto simp: rename_def at_moved [OF assms(2,3)] split: if_splits)
qed

lemma rename_ok:
  assumes "rename env src dst d = (True, d1)" "\<not> prefix src dst" "\<not> prefix dst src" "disk_ok d"
  shows "disk_ok d1"
  unfolding disk_ok_def
proof (intro allI impI)
  fix p e n
  assume p: "at d1 p = Some e \<and> n < length p"
  note eq = at_rename [OF assms(1-3)]
  have dst: "at d (butlast dst) = Some Dir" using assms(1) by (auto simp: rename_def split: if_splits)
  show "at d1 (take n p) = Some Dir"
  proof (cases "prefix dst p")
    case True
    then obtain r where r: "p = dst @ r" by (auto elim: prefixE)
    show ?thesis
    proof (cases "n < length dst")
      case True
      have "\<not> prefix dst (take n p)" using True by (auto dest: prefix_length_le)
      moreover have "\<not> prefix src (take n p)"
        using assms(2) True r take_is_prefix [of n dst] prefix_order.trans by (metis append_Nil2 diff_is_0_eq' less_imp_le take_0 take_append)
      ultimately show ?thesis using parents_dir [OF assms(4) dst True] True by (simp add: eq r)
    next
      case False
      have "at d (src @ r) = Some e" using p r by (simp add: eq)
      moreover have "length src + (n - length dst) < length (src @ r)" using p r False by (auto simp: not_less)
      ultimately have "at d (take (length src + (n - length dst)) (src @ r)) = Some Dir" using assms(4) unfolding disk_ok_def by blast
      then show ?thesis using False r by (simp add: eq)
    qed
  next
    case False
    then have "at d p = Some e" "\<not> prefix src p" using p by (auto simp: eq split: if_splits)
    moreover have "\<not> prefix dst (take n p)" "\<not> prefix src (take n p)"
      using False calculation(2) take_is_prefix prefix_order.trans by blast+
    ultimately show ?thesis using p assms(4) by (auto simp: eq disk_ok_def)
  qed
qed

lemma rename_failed: "rename env src dst d = (False, d1) \<Longrightarrow> d1 = d"
  by (auto simp: rename_def split: if_splits)

end
