(* ===== verification/Config.thy ===== *)
theory Config
  imports Disk Json Go_Utf8
begin

text \<open>
  \<open>internal/config\<close>: the settings of a profile (\<open>config.go\<close>) and of the application (\<open>app.go\<close>), their checks,
  their files in the data directory and the migration of a data directory with a single actor. The text
  level of \<open>encoding/json\<close> is the record \<open>json_codec\<close>.
\<close>

record json_codec =
  cd_parse :: "string \<Rightarrow> json option"
  cd_print :: "json \<Rightarrow> string"

section \<open>The settings of a profile\<close>

record config =
  cf_username :: string
  cf_display :: string
  cf_summary :: string
  cf_share :: string
  cf_gateway :: string
  cf_port :: int
  cf_downloads :: int
  cf_bandwidth :: int
  cf_log :: string
  cf_login :: bool

datatype config_error =
  Bad_Username | Long_Display | Display_Controls | Long_Summary | Share_Not_Absolute | Bad_Gateway | Bad_Port
| Bad_Downloads | Bad_Bandwidth | Bad_Log_Level | Share_Required | Share_Is_Home | Share_In_Home | Share_Has_Home
| Disk_Failed | Config_Syntax | No_Random

definition default_port :: int where "default_port = 17890"
definition default_downloads :: int where "default_downloads = 8"
definition default_log :: string where "default_log = ''info''"
definition default_gateway :: string where "default_gateway = ''https://fedishare.console.itagora.it''"

definition default_config :: config where
  "default_config = \<lparr>cf_username = [], cf_display = [], cf_summary = [], cf_share = [], cf_gateway = default_gateway,
     cf_port = default_port, cf_downloads = default_downloads, cf_bandwidth = 0, cf_log = default_log, cf_login = False\<rparr>"

definition configured :: "config \<Rightarrow> bool" where
  "configured c \<longleftrightarrow> cf_username c \<noteq> [] \<and> cf_share c \<noteq> []"

definition normalize_config :: "config \<Rightarrow> config" where
  "normalize_config c =
     c\<lparr>cf_username := to_lower (trim_space (cf_username c)), cf_display := trim_space (cf_display c),
       cf_summary := trim_space (cf_summary c), cf_share := trim_space (cf_share c), cf_gateway := trim_space (cf_gateway c),
       cf_log := (if to_lower (trim_space (cf_log c)) = [] then default_log else to_lower (trim_space (cf_log c))),
       cf_downloads := (if cf_downloads c = 0 then default_downloads else cf_downloads c)\<rparr>"

definition username_char :: "char \<Rightarrow> bool" where
  "username_char c \<longleftrightarrow> is_lower c \<or> is_digit c \<or> c = CHR ''_''"

definition profile_username :: "string \<Rightarrow> bool" where
  "profile_username s \<longleftrightarrow> 1 \<le> length s \<and> length s \<le> 30 \<and> list_all username_char s"

definition contains_ctl :: "string \<Rightarrow> bool" where
  "contains_ctl s \<longleftrightarrow> list_ex (\<lambda>r. r < 32 \<or> r = 127) (runes s)"

definition gateway_ok :: "url_parser \<Rightarrow> string \<Rightarrow> bool" where
  "gateway_ok parse raw =
     (case parse raw of
        None \<Rightarrow> False
      | Some u \<Rightarrow> u_host u \<noteq> [] \<and> (u_scheme u = ''http'' \<or> u_scheme u = ''https''))"

definition validate :: "url_parser \<Rightarrow> config \<Rightarrow> config_error option" where
  "validate parse c0 =
     (let c = normalize_config c0 in
      if cf_username c \<noteq> [] \<and> \<not> profile_username (cf_username c) then Some Bad_Username
      else if cf_display c \<noteq> [] \<and> rune_count (cf_display c) > 80 then Some Long_Display
      else if cf_display c \<noteq> [] \<and> contains_ctl (cf_display c) then Some Display_Controls
      else if rune_count (cf_summary c) > 500 then Some Long_Summary
      else if cf_share c \<noteq> [] \<and> \<not> is_abs (cf_share c) then Some Share_Not_Absolute
      else if cf_gateway c \<noteq> [] \<and> \<not> gateway_ok parse (cf_gateway c) then Some Bad_Gateway
      else if cf_port c < 0 \<or> cf_port c > 65535 then Some Bad_Port
      else if cf_downloads c < 1 then Some Bad_Downloads
      else if cf_bandwidth c < 0 then Some Bad_Bandwidth
      else if cf_log c \<notin> {''debug'', ''info'', ''warn'', ''error''} then Some Bad_Log_Level
      else None)"

section \<open>Addresses\<close>

definition gateway_host :: "url_parser \<Rightarrow> string \<Rightarrow> string" where
  "gateway_host parse raw =
     (let r = trim_space raw in
      if r = [] then [] else case parse r of None \<Rightarrow> [] | Some u \<Rightarrow> u_hostname u)"

definition fediverse_address :: "url_parser \<Rightarrow> config \<Rightarrow> string" where
  "fediverse_address parse c =
     (if cf_username c = [] then []
      else let h = gateway_host parse (cf_gateway c) in
        if h = [] then ''@'' @ cf_username c else ''@'' @ cf_username c @ ''@'' @ h)"

definition public_base :: "string \<Rightarrow> string \<Rightarrow> string" where
  "public_base gateway fallback =
     (let base = trim_right_set {slash} (trim_space gateway) in
      if base \<noteq> [] then base else trim_right_set {slash} (trim_space fallback))"

definition acct_host :: "url_parser \<Rightarrow> string \<Rightarrow> string \<Rightarrow> string" where
  "acct_host parse gateway fallback =
     (if gateway_host parse gateway \<noteq> [] then gateway_host parse gateway
      else if gateway_host parse fallback \<noteq> [] then gateway_host parse fallback
      else trim_space fallback)"

section \<open>The share root\<close>

definition contains_path :: "string \<Rightarrow> string \<Rightarrow> bool" where
  "contains_path child parent =
     (case rel parent child of None \<Rightarrow> False | Some r \<Rightarrow> r \<noteq> ''..'' \<and> \<not> has_prefix r ''../'')"

definition validate_share_root :: "string \<Rightarrow> string \<Rightarrow> config_error option" where
  "validate_share_root share home =
     (if share = [] then Some Share_Required
      else if \<not> is_abs share then Some Share_Not_Absolute
      else let s = clean share; h = clean home in
        if s = h then Some Share_Is_Home
        else if contains_path s h then Some Share_In_Home
        else if contains_path h s then Some Share_Has_Home
        else None)"

section \<open>The file of a profile\<close>

text \<open>\<open>json.Marshal\<close> and \<open>json.Unmarshal\<close> of the struct, on documents.\<close>

definition config_json :: "config \<Rightarrow> json" where
  "config_json c = JObj
     [(''username'', JStr (cf_username c)), (''display_name'', JStr (cf_display c)), (''summary'', JStr (cf_summary c)),
      (''share_directory'', JStr (cf_share c)), (''gateway_url'', JStr (cf_gateway c)), (''local_port'', JNum (cf_port c)),
      (''max_concurrent_downloads'', JNum (cf_downloads c)), (''bandwidth_limit_bps'', JNum (cf_bandwidth c)),
      (''log_level'', JStr (cf_log c)), (''start_at_login'', JBool (cf_login c))]"

fun int_field :: "string \<Rightarrow> (string \<times> json) list \<Rightarrow> int \<Rightarrow> int option" where
  "int_field name [] cur = Some cur"
| "int_field name ((k, v) # m) cur =
     (if equal_fold k name then
        (case v of
           JNum n \<Rightarrow> if - (2 ^ 63) \<le> n \<and> n < 2 ^ 63 then int_field name m n else None
         | JNull \<Rightarrow> int_field name m cur
         | _ \<Rightarrow> None)
      else int_field name m cur)"

definition read_fields :: "(string \<times> json) list \<Rightarrow> config \<Rightarrow> config option" where
  "read_fields m c =
     (case (string_field ''username'' m (cf_username c), string_field ''display_name'' m (cf_display c),
            string_field ''summary'' m (cf_summary c), string_field ''share_directory'' m (cf_share c),
            string_field ''gateway_url'' m (cf_gateway c), int_field ''local_port'' m (cf_port c),
            int_field ''max_concurrent_downloads'' m (cf_downloads c), int_field ''bandwidth_limit_bps'' m (cf_bandwidth c),
            string_field ''log_level'' m (cf_log c), bool_field ''start_at_login'' m (cf_login c)) of
        (Some un, Some dn, Some su, Some sh, Some gw, Some po, Some mx, Some bw, Some ll, Some sl) \<Rightarrow>
          Some \<lparr>cf_username = un, cf_display = dn, cf_summary = su, cf_share = sh, cf_gateway = gw, cf_port = po,
                cf_downloads = mx, cf_bandwidth = bw, cf_log = ll, cf_login = sl\<rparr>
      | _ \<Rightarrow> None)"

definition parse_config :: "json_codec \<Rightarrow> string \<Rightarrow> config option" where
  "parse_config cd t =
     (case cd_parse cd t of
        Some (JObj m) \<Rightarrow> read_fields m default_config
      | Some JNull \<Rightarrow> Some default_config
      | _ \<Rightarrow> None)"

definition config_path :: "fs_path \<Rightarrow> fs_path" where "config_path home = home @ [''config.json'']"
definition config_tmp :: "fs_path \<Rightarrow> fs_path" where "config_tmp home = home @ [''config.json.tmp'']"
definition keys_dir :: "fs_path \<Rightarrow> fs_path" where "keys_dir home = home @ [''keys'']"

definition ensure_home :: "os_env \<Rightarrow> fs_path \<Rightarrow> disk \<Rightarrow> config_error option \<times> disk" where
  "ensure_home env home d =
     (case mkdir_all env home d of
        (False, d1) \<Rightarrow> (Some Disk_Failed, d1)
      | (True, d1) \<Rightarrow>
          (case mkdir_all env (home @ [''logs'']) d1 of
             (False, d2) \<Rightarrow> (Some Disk_Failed, d2)
           | (True, d2) \<Rightarrow>
               (case mkdir_all env (keys_dir home) d2 of
                  (False, d3) \<Rightarrow> (Some Disk_Failed, d3)
                | (True, d3) \<Rightarrow> (None, d3))))"

text \<open>The text is written beside the file, which is then replaced.\<close>

definition replace_file :: "os_env \<Rightarrow> fs_path \<Rightarrow> fs_path \<Rightarrow> string \<Rightarrow> disk \<Rightarrow> bool \<times> disk" where
  "replace_file env tmp path t d =
     (case write_file env tmp t d of
        (False, d1) \<Rightarrow> (False, d1)
      | (True, d1) \<Rightarrow>
          (case rename env tmp path d1 of
             (False, d2) \<Rightarrow> (False, snd (remove env tmp d2))
           | (True, d2) \<Rightarrow> (True, d2)))"

definition config_text :: "json_codec \<Rightarrow> config \<Rightarrow> string" where
  "config_text cd c = cd_print cd (config_json c) @ [CHR 0x0A]"

definition save_config :: "url_parser \<Rightarrow> json_codec \<Rightarrow> os_env \<Rightarrow> fs_path \<Rightarrow> config \<Rightarrow> disk \<Rightarrow> config_error option \<times> disk" where
  "save_config parse cd env home c0 d =
     (let c = normalize_config c0 in
      case validate parse c of
        Some e \<Rightarrow> (Some e, d)
      | None \<Rightarrow>
          (case ensure_home env home d of
             (Some e, d1) \<Rightarrow> (Some e, d1)
           | (None, d1) \<Rightarrow>
               (case replace_file env (config_tmp home) (config_path home) (config_text cd c) d1 of
                  (False, d2) \<Rightarrow> (Some Disk_Failed, d2)
                | (True, d2) \<Rightarrow> (if chmod env (config_path home) d2 then None else Some Disk_Failed, d2))))"

definition load_config :: "url_parser \<Rightarrow> json_codec \<Rightarrow> os_env \<Rightarrow> fs_path \<Rightarrow> disk \<Rightarrow> config_error + config" where
  "load_config parse cd env home d =
     (case read_file env (config_path home) d of
        Not_Exist \<Rightarrow> Inr default_config
      | Read_Failed \<Rightarrow> Inl Disk_Failed
      | Content t \<Rightarrow>
          (case parse_config cd t of
             None \<Rightarrow> Inl Config_Syntax
           | Some c \<Rightarrow>
               (case validate parse (normalize_config c) of
                  Some e \<Rightarrow> Inl e
                | None \<Rightarrow> Inr (normalize_config c))))"

definition config_exists :: "os_env \<Rightarrow> fs_path \<Rightarrow> disk \<Rightarrow> bool" where
  "config_exists env home d = stat env (config_path home) d"

definition load_or_create ::
  "url_parser \<Rightarrow> json_codec \<Rightarrow> os_env \<Rightarrow> fs_path \<Rightarrow> disk \<Rightarrow> (config_error + config \<times> bool) \<times> disk" where
  "load_or_create parse cd env home d =
     (if config_exists env home d then (map_sum id (\<lambda>c. (c, False)) (load_config parse cd env home d), d)
      else (case save_config parse cd env home default_config d of
          (Some e, d1) \<Rightarrow> (Inl e, d1)
        | (None, d1) \<Rightarrow> (Inr (default_config, True), d1)))"

section \<open>The settings of the application\<close>

record app =
  ap_gateway :: string
  ap_port :: int
  ap_log :: string
  ap_login :: bool
  ap_selected :: string

definition default_app :: app where
  "default_app = \<lparr>ap_gateway = default_gateway, ap_port = default_port, ap_log = default_log, ap_login = False, ap_selected = []\<rparr>"

definition app_path :: "fs_path \<Rightarrow> fs_path" where "app_path home = home @ [''app.json'']"
definition app_tmp :: "fs_path \<Rightarrow> fs_path" where "app_tmp home = home @ [''app.json.tmp'']"
definition profiles_dir :: "fs_path \<Rightarrow> fs_path" where "profiles_dir home = home @ [''profiles'']"
definition profile_home :: "fs_path \<Rightarrow> string \<Rightarrow> fs_path" where "profile_home home i = profiles_dir home @ [i]"

definition normalize_app :: "app \<Rightarrow> app" where
  "normalize_app a =
     a\<lparr>ap_gateway := trim_space (ap_gateway a),
       ap_log := (if to_lower (trim_space (ap_log a)) = [] then default_log else to_lower (trim_space (ap_log a))),
       ap_selected := to_lower (trim_space (ap_selected a)),
       ap_port := (if ap_port a < 0 then default_port else ap_port a)\<rparr>"

definition app_json :: "app \<Rightarrow> json" where
  "app_json a = JObj
     [(''gateway_url'', JStr (ap_gateway a)), (''local_port'', JNum (ap_port a)), (''log_level'', JStr (ap_log a)),
      (''start_at_login'', JBool (ap_login a)), (''selected_profile'', JStr (ap_selected a))]"

definition read_app_fields :: "(string \<times> json) list \<Rightarrow> app \<Rightarrow> app option" where
  "read_app_fields m a =
     (case (string_field ''gateway_url'' m (ap_gateway a), int_field ''local_port'' m (ap_port a),
            string_field ''log_level'' m (ap_log a), bool_field ''start_at_login'' m (ap_login a),
            string_field ''selected_profile'' m (ap_selected a)) of
        (Some gw, Some po, Some ll, Some sl, Some se) \<Rightarrow>
          Some \<lparr>ap_gateway = gw, ap_port = po, ap_log = ll, ap_login = sl, ap_selected = se\<rparr>
      | _ \<Rightarrow> None)"

definition load_app :: "json_codec \<Rightarrow> os_env \<Rightarrow> fs_path \<Rightarrow> disk \<Rightarrow> config_error + app" where
  "load_app cd env home d =
     (case read_file env (app_path home) d of
        Not_Exist \<Rightarrow> Inr default_app
      | Read_Failed \<Rightarrow> Inl Disk_Failed
      | Content t \<Rightarrow>
          (case cd_parse cd t of
             Some (JObj m) \<Rightarrow>
               (case read_app_fields m default_app of None \<Rightarrow> Inl Config_Syntax | Some a \<Rightarrow> Inr (normalize_app a))
           | Some JNull \<Rightarrow> Inr (normalize_app default_app)
           | _ \<Rightarrow> Inl Config_Syntax))"

definition app_text :: "json_codec \<Rightarrow> app \<Rightarrow> string" where
  "app_text cd a = cd_print cd (app_json a) @ [CHR 0x0A]"

definition save_app :: "json_codec \<Rightarrow> os_env \<Rightarrow> fs_path \<Rightarrow> app \<Rightarrow> disk \<Rightarrow> config_error option \<times> disk" where
  "save_app cd env home a0 d =
     (let a = normalize_app a0 in
      case ensure_home env home d of
        (Some e, d1) \<Rightarrow> (Some e, d1)
      | (None, d1) \<Rightarrow>
          (case mkdir_all env (profiles_dir home) d1 of
             (False, d2) \<Rightarrow> (Some Disk_Failed, d2)
           | (True, d2) \<Rightarrow>
               (case replace_file env (app_tmp home) (app_path home) (app_text cd a) d2 of
                  (False, d3) \<Rightarrow> (Some Disk_Failed, d3)
                | (True, d3) \<Rightarrow> (if chmod env (app_path home) d3 then None else Some Disk_Failed, d3))))"

definition new_profile_id :: "string option \<Rightarrow> config_error + string" where
  "new_profile_id b = (case b of None \<Rightarrow> Inl No_Random | Some s \<Rightarrow> Inr (hex_encode (take 8 (s @ replicate 8 (CHR 0x00)))))"

definition list_profile_ids :: "os_env \<Rightarrow> fs_path \<Rightarrow> disk \<Rightarrow> config_error + string list" where
  "list_profile_ids env home d =
     (if \<not> os_fault env (List_Call (profiles_dir home)) \<and> at d (profiles_dir home) = None then Inr []
      else case read_dir env (profiles_dir home) d of
        None \<Rightarrow> Inl Disk_Failed
      | Some es \<Rightarrow> Inr (map fst (filter (\<lambda>(n, dir). dir \<and> \<not> has_prefix n ''.'') es)))"

definition apply_app_defaults :: "app \<Rightarrow> config \<Rightarrow> config" where
  "apply_app_defaults a c =
     normalize_config (c\<lparr>cf_gateway := ap_gateway a, cf_port := ap_port a, cf_log := ap_log a, cf_login := ap_login a\<rparr>)"

text \<open>The files moved into the profile, in this order; a file that cannot be examined is left where it is.\<close>

definition migrated_names :: "string list" where
  "migrated_names = [''config.json'', ''fedishare.db'', ''fedishare.db-wal'', ''fedishare.db-shm'', ''keys'']"

fun move_all :: "os_env \<Rightarrow> fs_path \<Rightarrow> fs_path \<Rightarrow> string list \<Rightarrow> disk \<Rightarrow> config_error option \<times> disk" where
  "move_all env home dest [] d = (None, d)"
| "move_all env home dest (n # ns) d =
     (if \<not> stat env (home @ [n]) d then move_all env home dest ns d
      else case rename env (home @ [n]) (dest @ [n]) d of
        (False, d1) \<Rightarrow> (Some Disk_Failed, d1)
      | (True, d1) \<Rightarrow> move_all env home dest ns d1)"

definition legacy_app :: "config \<Rightarrow> app" where
  "legacy_app c = default_app\<lparr>ap_gateway := cf_gateway c, ap_port := cf_port c, ap_log := cf_log c, ap_login := cf_login c\<rparr>"

definition migrate_legacy_home ::
  "url_parser \<Rightarrow> json_codec \<Rightarrow> os_env \<Rightarrow> string option \<Rightarrow> fs_path \<Rightarrow> disk \<Rightarrow> config_error option \<times> disk" where
  "migrate_legacy_home parse cd env random home d =
     (if stat env (app_path home) d then (None, d)
      else case mkdir_all env (profiles_dir home) d of
        (False, d1) \<Rightarrow> (Some Disk_Failed, d1)
      | (True, d1) \<Rightarrow>
          if \<not> config_exists env home d1 then save_app cd env home default_app d1
          else (case load_config parse cd env home d1 of
              Inl e \<Rightarrow> (Some e, d1)
            | Inr c \<Rightarrow>
                if \<not> configured c then save_app cd env home (legacy_app c) (snd (remove env (config_path home) d1))
                else (case new_profile_id random of
                    Inl e \<Rightarrow> (Some e, d1)
                  | Inr i \<Rightarrow>
                      (case mkdir_all env (profile_home home i) d1 of
                         (False, d2) \<Rightarrow> (Some Disk_Failed, d2)
                       | (True, d2) \<Rightarrow>
                           (case move_all env home (profile_home home i) migrated_names d2 of
                              (Some e, d3) \<Rightarrow> (Some e, d3)
                            | (None, d3) \<Rightarrow> save_app cd env home ((legacy_app c)\<lparr>ap_selected := i\<rparr>) d3)))))"

end
