(* ===== verification/Config_Facts.thy ===== *)
theory Config_Facts
  imports Config
begin

text \<open>
  What the configuration guarantees: a loaded configuration is valid, a saved one is read back and replaces the
  old one at once, an accepted share directory has nothing in common with the data directory, and the
  migration of an old data directory.
\<close>

section \<open>Normal forms\<close>

lemmas norm_text = trim_space_to_lower [symmetric] trim_space_idem to_lower_idem

lemma default_texts:
  "trim_space (to_lower default_log) = default_log" "trim_space default_gateway = default_gateway" "default_log \<noteq> []"
  "to_lower default_log = default_log" "trim_space default_log = default_log"
  by code_simp+

lemma normalize_idem: "normalize_config (normalize_config c) = normalize_config c"
  by (simp add: normalize_config_def norm_text default_texts default_downloads_def)

lemma normalize_app_idem: "normalize_app (normalize_app a) = normalize_app a"
  by (simp add: normalize_app_def norm_text default_texts default_port_def)

lemma validate_normal: "validate parse (normalize_config c) = validate parse c"
  by (simp add: validate_def normalize_idem)

lemma default_normal: "normalize_config default_config = default_config"
  unfolding default_config_def normalize_config_def by code_simp

section \<open>Documents\<close>

definition in_int64 :: "int \<Rightarrow> bool" where
  "in_int64 n \<longleftrightarrow> - (2 ^ 63) \<le> n \<and> n < 2 ^ 63"

definition ints_ok :: "config \<Rightarrow> bool" where
  "ints_ok c \<longleftrightarrow> in_int64 (cf_port c) \<and> in_int64 (cf_downloads c) \<and> in_int64 (cf_bandwidth c)"

definition field_names :: "string list" where
  "field_names = [''username'', ''display_name'', ''summary'', ''share_directory'', ''gateway_url'', ''local_port'',
     ''max_concurrent_downloads'', ''bandwidth_limit_bps'', ''log_level'', ''start_at_login'', ''selected_profile'']"

lemma names_fold: "a \<in> set field_names \<Longrightarrow> b \<in> set field_names \<Longrightarrow> equal_fold a b \<longleftrightarrow> a = b"
proof -
  have "list_all (\<lambda>s. to_lower s = s) field_names" by code_simp
  then show "a \<in> set field_names \<Longrightarrow> b \<in> set field_names \<Longrightarrow> equal_fold a b \<longleftrightarrow> a = b"
    by (simp add: equal_fold_def list_all_iff)
qed

lemmas name_keys = names_fold [simplified field_names_def]

lemma read_json: "ints_ok c \<Longrightarrow> (case config_json c of JObj m \<Rightarrow> read_fields m d | _ \<Rightarrow> None) = Some c"
  by (simp add: config_json_def read_fields_def name_keys ints_ok_def in_int64_def)

lemma read_app_json: "in_int64 (ap_port a) \<Longrightarrow> (case app_json a of JObj m \<Rightarrow> read_app_fields m d | _ \<Rightarrow> None) = Some a"
  by (simp add: app_json_def read_app_fields_def name_keys in_int64_def)

section \<open>Loading\<close>

lemma load_valid:
  assumes "load_config parse cd env home d = Inr c" "gateway_ok parse default_gateway"
  shows "normalize_config c = c" "validate parse c = None"
proof -
  have "validate parse default_config = None"
    using assms(2) unfolding validate_def default_normal
    by (simp add: default_config_def default_port_def default_downloads_def default_log_def rune_count_def runes.simps)
  then show "normalize_config c = c" "validate parse c = None"
    using assms(1) default_normal
    by (auto simp: load_config_def normalize_idem validate_normal split: read_outcome.splits option.splits)
qed

lemma guard_None: "(if P then Some e else x) = None \<longleftrightarrow> \<not> P \<and> x = None"
  by simp

lemma validate_None:
  "validate parse c = None \<longleftrightarrow>
     (cf_username (normalize_config c) = [] \<or> profile_username (cf_username (normalize_config c))) \<and>
     (cf_display (normalize_config c) = [] \<or> rune_count (cf_display (normalize_config c)) \<le> 80 \<and> \<not> contains_ctl (cf_display (normalize_config c))) \<and>
     rune_count (cf_summary (normalize_config c)) \<le> 500 \<and>
     (cf_share (normalize_config c) = [] \<or> is_abs (cf_share (normalize_config c))) \<and>
     (cf_gateway (normalize_config c) = [] \<or> gateway_ok parse (cf_gateway (normalize_config c))) \<and>
     0 \<le> cf_port c \<and> cf_port c \<le> 65535 \<and> 1 \<le> cf_downloads (normalize_config c) \<and> 0 \<le> cf_bandwidth c \<and>
     cf_log (normalize_config c) \<in> {''debug'', ''info'', ''warn'', ''error''}"
proof -
  have same: "cf_port (normalize_config c) = cf_port c" "cf_bandwidth (normalize_config c) = cf_bandwidth c" by (simp_all add: normalize_config_def)
  show ?thesis unfolding validate_def Let_def guard_None same by (simp only: not_less not_le de_Morgan_conj de_Morgan_disj not_not conj_assoc) blast
qed

section \<open>Saving\<close>

lemma ensure_home_keeps:
  assumes "ensure_home env home d = (e, d1)" "at d q = Some x"
  shows "at d1 q = Some x"
  using assms by (auto simp: ensure_home_def dest: mkdir_all_at split: prod.splits bool.splits)

lemma ensure_home_ok: "ensure_home env home d = (e, d1) \<Longrightarrow> disk_ok d \<Longrightarrow> disk_ok d1"
  by (auto simp: ensure_home_def dest: mkdir_all_ok split: prod.splits bool.splits)

lemma ensure_home_new:
  assumes "ensure_home env home d = (e, d1)" "at d q = None"
  shows "at d1 q = None \<or> at d1 q = Some Dir"
  using assms by (auto simp: ensure_home_def split: prod.splits bool.splits) (metis mkdir_all_new mkdir_all_at)+

lemma replace_file_at:
  assumes "replace_file env tmp path t d = (b, d1)" "disk_ok d" "\<not> prefix tmp path" "\<not> prefix path tmp"
  shows "disk_ok d1" "q \<noteq> tmp \<Longrightarrow> at d1 q = (if b \<and> q = path then Some (File t) else at d q)"
    "b \<Longrightarrow> at d1 tmp = None"
proof -
  obtain w d2 where w: "write_file env tmp t d = (w, d2)" by fastforce
  have ok: "disk_ok d2" by (rule write_file_ok [OF w assms(2)])
  have other: "at d2 q = at d q" if "q \<noteq> tmp" for q by (rule write_file_at [OF w that])
  have "disk_ok d1 \<and> (\<forall>q. q \<noteq> tmp \<longrightarrow> at d1 q = (if b \<and> q = path then Some (File t) else at d q)) \<and> (b \<longrightarrow> at d1 tmp = None)"
  proof (cases w)
    case False
    then have "b = False" "d1 = d2" using assms(1) w by (auto simp: replace_file_def)
    then show ?thesis using ok other by simp
  next
    case True
    obtain r d3 where r: "rename env tmp path d2 = (r, d3)" by fastforce
    show ?thesis
    proof (cases r)
      case rt: True
      have written: "at d2 tmp = Some (File t)" using write_file_done w True by auto
      have b: "b = True" "d1 = d3" using assms(1) w True r rt by (auto simp: replace_file_def)
      have "rename env tmp path d2 = (True, d3)" using r rt by simp
      note m = rename_file_ok [OF this written assms(3,4) ok]
      have "tmp \<noteq> path" using assms(3) by auto
      then show ?thesis using b m other by auto
    next
      case failed: False
      then have d3: "d3 = d2" using r rename_failed by auto
      obtain x d4 where x: "remove env tmp d2 = (x, d4)" by fastforce
      have "b = False" "d1 = d4" using assms(1) w True r failed d3 x by (auto simp: replace_file_def)
      then show ?thesis using remove_ok [OF x ok] at_remove [OF x] other by auto
    qed
  qed
  then show "disk_ok d1" "q \<noteq> tmp \<Longrightarrow> at d1 q = (if b \<and> q = path then Some (File t) else at d q)"
    "b \<Longrightarrow> at d1 tmp = None" by auto
qed

lemma config_paths:
  "\<not> prefix (config_tmp home) (config_path home)" "\<not> prefix (config_path home) (config_tmp home)"
  "\<not> prefix (app_tmp home) (app_path home)" "\<not> prefix (app_path home) (app_tmp home)"
  by (simp_all add: config_tmp_def config_path_def app_tmp_def app_path_def)

text \<open>Whatever fails, the file holds its old text or the whole new one.\<close>

lemma ensure_home_file:
  assumes "ensure_home env home d = (e, d1)" "at d q \<noteq> Some Dir"
  shows "at d1 q = at d q \<or> at d q = None \<and> at d1 q = Some Dir"
  using ensure_home_keeps [OF assms(1)] ensure_home_new [OF assms(1)] by (cases "at d q") auto

lemma save_config_cases:
  assumes "save_config parse cd env home c d = (e, d1)"
  obtains "d1 = d" "e \<noteq> None"
  | d2 where "ensure_home env home d = (e, d2)" "d1 = d2" "e \<noteq> None"
  | d2 b where "ensure_home env home d = (None, d2)" "validate parse c = None"
      "replace_file env (config_tmp home) (config_path home) (config_text cd (normalize_config c)) d2 = (b, d1)" "e = None \<Longrightarrow> b"
proof (cases "validate parse c")
  case (Some x)
  then have "d1 = d" "e = Some x" using assms by (simp_all add: save_config_def validate_normal)
  then show thesis using that(1) by simp
next
  case None
  obtain e2 d2 where e2: "ensure_home env home d = (e2, d2)" by fastforce
  show thesis
  proof (cases e2)
    case (Some x)
    then have "d1 = d2" "e = Some x" using assms None e2 by (simp_all add: save_config_def validate_normal)
    then show thesis using that(2) e2 Some by simp
  next
    case eok: None
    obtain b d3 where b: "replace_file env (config_tmp home) (config_path home) (config_text cd (normalize_config c)) d2 = (b, d3)" by fastforce
    have "d3 = d1" "e = None \<Longrightarrow> b"
      using assms None e2 eok b by (auto simp: save_config_def validate_normal split: bool.splits)
    then show thesis using that(3) e2 eok None b by blast
  qed
qed

lemma save_atomic:
  assumes "save_config parse cd env home c d = (e, d1)" "disk_ok d" "at d (config_path home) = Some (File t)"
  shows "disk_ok d1" "at d1 (config_path home) \<in> {Some (File t), Some (File (config_text cd (normalize_config c)))}"
    "e = None \<Longrightarrow> at d1 (config_path home) = Some (File (config_text cd (normalize_config c)))"
proof -
  have ne: "config_path home \<noteq> config_tmp home" using config_paths(1) [of home] by auto
  have "disk_ok d1 \<and> at d1 (config_path home) \<in> {Some (File t), Some (File (config_text cd (normalize_config c)))} \<and>
    (e = None \<longrightarrow> at d1 (config_path home) = Some (File (config_text cd (normalize_config c))))"
    using assms(1)
  proof (cases rule: save_config_cases)
    case (2 d2)
    then show ?thesis using ensure_home_ok ensure_home_keeps assms(2,3) by auto
  next
    case (3 d2 b)
    have d2: "disk_ok d2" "at d2 (config_path home) = Some (File t)"
      using ensure_home_ok [OF 3(1) assms(2)] ensure_home_keeps [OF 3(1) assms(3)] by auto
    note r = replace_file_at [OF 3(3) d2(1) config_paths(1,2)]
    show ?thesis using r(1) r(2) [OF ne] 3(4) d2(2) by auto
  qed (use assms in auto)
  then show "disk_ok d1" "at d1 (config_path home) \<in> {Some (File t), Some (File (config_text cd (normalize_config c)))}"
    "e = None \<Longrightarrow> at d1 (config_path home) = Some (File (config_text cd (normalize_config c)))" by auto
qed

lemma saved_text:
  assumes "save_config parse cd env home c d = (None, d1)" "disk_ok d"
  shows "at d1 (config_path home) = Some (File (config_text cd (normalize_config c)))" "validate parse c = None"
proof -
  have ne: "config_path home \<noteq> config_tmp home" using config_paths(1) [of home] by auto
  have "at d1 (config_path home) = Some (File (config_text cd (normalize_config c))) \<and> validate parse c = None"
    using assms(1)
  proof (cases rule: save_config_cases)
    case (3 d2 b)
    show ?thesis using replace_file_at(2) [OF 3(3) ensure_home_ok [OF 3(1) assms(2)] config_paths(1,2) ne] 3(2,4) by auto
  qed auto
  then show "at d1 (config_path home) = Some (File (config_text cd (normalize_config c)))" "validate parse c = None" by auto
qed

lemma load_saved:
  assumes "save_config parse cd env home c d = (None, d1)" "disk_ok d" "ints_ok (normalize_config c)"
    and "cd_parse cd (config_text cd (normalize_config c)) = Some (config_json (normalize_config c))"
    and "\<not> os_fault env2 (Read_Call (config_path home))"
  shows "load_config parse cd env2 home d1 = Inr (normalize_config c)"
proof -
  have "parse_config cd (config_text cd (normalize_config c)) = Some (normalize_config c)"
    using read_json [OF assms(3), of default_config] assms(4) by (simp add: parse_config_def config_json_def)
  moreover have "read_file env2 (config_path home) d1 = Content (config_text cd (normalize_config c))"
    using saved_text(1) [OF assms(1,2)] assms(5) by (simp add: read_file_content)
  ultimately show ?thesis
    using saved_text(2) [OF assms(1,2)] by (simp add: load_config_def normalize_idem validate_normal)
qed

section \<open>The share root\<close>

lemma contains_path_iff:
  assumes "list_all proper cs" "list_all proper ps"
  shows "contains_path (abs_path cs) (abs_path ps) \<longleftrightarrow> (\<exists>ds. cs = ps @ ds)"
  unfolding rel_climbs_iff [OF assms(2,1), symmetric] contains_path_def climbs_def by (auto split: option.split)

lemma share_root_apart:
  assumes "validate_share_root share home = None" "is_abs home"
  shows "comps share @ xs \<noteq> comps home @ ys"
proof -
  have abs: "is_abs share" and ne: "clean share \<noteq> clean home"
    and out: "\<not> contains_path (clean share) (clean home)" "\<not> contains_path (clean home) (clean share)"
    using assms(1) by (auto simp: validate_share_root_def Let_def split: if_splits)
  have "\<not> prefix (comps home) (comps share)" "\<not> prefix (comps share) (comps home)"
    using out unfolding clean_abs [OF abs] clean_abs [OF assms(2)] contains_path_iff [OF comps_proper comps_proper] prefix_def by auto
  then show ?thesis by (metis prefixI prefix_same_cases)
qed

section \<open>The application's file\<close>

lemma save_app_ok:
  assumes "save_app cd env home a d = (e, d1)" "disk_ok d"
  shows "disk_ok d1" "q \<noteq> app_tmp home \<Longrightarrow> q \<noteq> app_path home \<Longrightarrow> at d q = Some x \<Longrightarrow> at d1 q = Some x"
    "e = None \<Longrightarrow> at d1 (app_path home) = Some (File (app_text cd (normalize_app a)))"
proof -
  obtain e2 d2 where e2: "ensure_home env home d = (e2, d2)" by fastforce
  obtain m d3 where m: "mkdir_all env (profiles_dir home) d2 = (m, d3)" by fastforce
  obtain b d4 where b: "replace_file env (app_tmp home) (app_path home) (app_text cd (normalize_app a)) d3 = (b, d4)" by fastforce
  have ok: "disk_ok d2" "disk_ok d3"
    using ensure_home_ok [OF e2 assms(2)] mkdir_all_ok [OF m] by auto
  note r = replace_file_at [OF b ok(2) config_paths(3,4)]
  have d1: "d1 \<in> {d2, d3, d4}" "e = None \<Longrightarrow> d1 = d4 \<and> b"
    using assms(1) e2 m b by (auto simp: save_app_def split: option.splits bool.splits)
  show "disk_ok d1" using d1(1) ok r(1) by auto
  have ne: "app_path home \<noteq> app_tmp home" using config_paths(3) [of home] by auto
  show "at d1 q = Some x" if "q \<noteq> app_tmp home" "q \<noteq> app_path home" "at d q = Some x"
  proof -
    have "at d2 q = Some x" by (rule ensure_home_keeps [OF e2 that(3)])
    moreover have "at d3 q = Some x" by (rule mkdir_all_at [OF m calculation])
    ultimately show ?thesis using d1(1) r(2) [OF that(1)] that(2) by auto
  qed
  show "at d1 (app_path home) = Some (File (app_text cd (normalize_app a)))" if "e = None"
    using d1(2) [OF that] r(2) [OF ne] by auto
qed

section \<open>Migration\<close>

lemma move_paths:
  assumes "dest = home @ [profiles, i]" "n \<noteq> profiles"
  shows "\<not> prefix (home @ [n]) (dest @ [k])" "\<not> prefix (dest @ [k]) (home @ [n])"
    "\<not> prefix (home @ [n]) (dest @ [k] @ r)"
  using assms by auto

lemma move_all_keeps:
  assumes "move_all env home dest ns d = (e, d1)" "dest = home @ [profiles, i]" "profiles \<notin> set ns" "disk_ok d"
  shows "disk_ok d1" "\<forall>n\<in>set ns. \<not> prefix (home @ [n]) q \<and> \<not> prefix (dest @ [n]) q \<Longrightarrow> at d1 q = at d q"
proof -
  have "disk_ok d1 \<and> ((\<forall>n\<in>set ns. \<not> prefix (home @ [n]) q \<and> \<not> prefix (dest @ [n]) q) \<longrightarrow> at d1 q = at d q)"
    using assms(1,3,4)
  proof (induction ns arbitrary: d)
    case (Cons n ns)
    show ?case
    proof (cases "stat env (home @ [n]) d")
      case True
      obtain b d2 where b: "rename env (home @ [n]) (dest @ [n]) d = (b, d2)" by fastforce
      have "n \<noteq> profiles" using Cons.prems(2) by auto
      note np = move_paths(1,2) [OF assms(2) this, where k = n]
      show ?thesis
      proof (cases b)
        case ok: True
        have "rename env (home @ [n]) (dest @ [n]) d = (True, d2)" using b ok by simp
        then have d2: "disk_ok d2" by (rule rename_ok [OF _ np Cons.prems(3)])
        have rest: "move_all env home dest ns d2 = (e, d1)" using Cons.prems(1) True b ok by simp
        have "at d2 q = at d q" if "\<not> prefix (home @ [n]) q" "\<not> prefix (dest @ [n]) q"
          using at_rename [OF _ np] b ok that by simp
        then show ?thesis using Cons.IH [OF rest _ d2] Cons.prems(2) by auto
      next
        case False
        then have "d1 = d" using Cons.prems(1) True b rename_failed by auto
        then show ?thesis using Cons.prems(3) by simp
      qed
    next
      case False
      then show ?thesis using Cons.IH [of d] Cons.prems by auto
    qed
  qed simp
  then show "disk_ok d1" "\<forall>n\<in>set ns. \<not> prefix (home @ [n]) q \<and> \<not> prefix (dest @ [n]) q \<Longrightarrow> at d1 q = at d q" by auto
qed

lemma move_all_moves:
  assumes "move_all env home dest ns d = (None, d1)" "dest = home @ [profiles, i]" "profiles \<notin> set ns" "distinct ns" "disk_ok d"
    and "\<forall>p. \<not> os_fault env (Stat_Call p)" "n \<in> set ns" "at d (home @ [n]) \<noteq> None"
  shows "at d1 (dest @ [n] @ r) = at d (home @ [n] @ r)"
  using assms(1,3,4,5,7,8)
proof (induction ns arbitrary: d)
  case (Cons k ns)
  have "k \<noteq> profiles" using Cons.prems(2) by auto
  note np = move_paths(1,2) [OF assms(2) this, where k = k]
  show ?case
  proof (cases "stat env (home @ [k]) d")
    case True
    obtain b d2 where b: "rename env (home @ [k]) (dest @ [k]) d = (b, d2)" by fastforce
    have bt: "rename env (home @ [k]) (dest @ [k]) d = (True, d2)" and rest: "move_all env home dest ns d2 = (None, d1)"
      using Cons.prems(1) True b by (cases b; simp)+
    note at2 = at_rename [OF bt np]
    have ok2: "disk_ok d2" by (rule rename_ok [OF bt np Cons.prems(4)])
    show ?thesis
    proof (cases "n = k")
      case True
      have "at d1 (dest @ [n] @ r) = at d2 (dest @ [n] @ r)"
        using Cons.prems(2,3) True assms(2) by (intro move_all_keeps(2) [OF rest assms(2) _ ok2]) auto
      also have "\<dots> = at d (home @ [n] @ r)" using True by (simp add: at2)
      finally show ?thesis .
    next
      case False
      have same: "at d2 (home @ [n] @ s) = at d (home @ [n] @ s)" for s
        using False assms(2) Cons.prems(2,5) by (auto simp: at2)
      have "at d1 (dest @ [n] @ r) = at d2 (home @ [n] @ r)"
        using Cons.prems False same [of "[]"] by (intro Cons.IH [OF rest _ _ ok2]) auto
      then show ?thesis using same by simp
    qed
  next
    case False
    then have "at d (home @ [k]) = None" using assms(6) by (simp add: stat_def)
    then have "n \<noteq> k" using Cons.prems(6) by auto
    then show ?thesis using Cons False by simp
  qed
qed simp

lemma migrate_moves:
  assumes m: "migrate_legacy_home parse cd env (Some b) home d = (None, d1)" and ok: "disk_ok d"
    and stats: "\<forall>p. \<not> os_fault env (Stat_Call p)" and fresh: "at d (app_path home) = None"
    and cfg: "at d (config_path home) = Some (File t)" "load_config parse cd env home d = Inr c" "configured c"
    and n: "n \<in> set migrated_names" "at d (home @ [n] @ r) = Some x"
  shows "\<exists>i. new_profile_id (Some b) = Inr i \<and> at d1 (profile_home home i @ [n] @ r) = Some x \<and>
    at d1 (app_path home) = Some (File (app_text cd (normalize_app ((legacy_app c)\<lparr>ap_selected := i\<rparr>))))"
proof -
  obtain i where i: "new_profile_id (Some b) = Inr i" by (simp add: new_profile_id_def)
  obtain e1 d2 where d2: "mkdir_all env (profiles_dir home) d = (e1, d2)" by fastforce
  obtain e2 d3 where d3: "mkdir_all env (profile_home home i) d2 = (e2, d3)" by fastforce
  obtain e3 d4 where d4: "move_all env home (profile_home home i) migrated_names d3 = (e3, d4)" by fastforce
  have keep: "at d3 q = Some y" "at d2 q = Some y" if "at d q = Some y" for q y
    using mkdir_all_at [OF d2 that] mkdir_all_at [OF d3] by auto
  have same: "load_config parse cd env home d2 = load_config parse cd env home d"
    using keep(2) [OF cfg(1)] cfg(1) by (simp add: load_config_def read_file_def)
  have ex: "config_exists env home d2" using keep(2) [OF cfg(1)] stats by (simp add: config_exists_def stat_def)
  have all: "e1" "e2" "e3 = None" "save_app cd env home ((legacy_app c)\<lparr>ap_selected := i\<rparr>) d4 = (None, d1)"
    using m fresh d2 ex same cfg(2,3) i d3 d4
    by (auto simp: migrate_legacy_home_def stat_def split: bool.splits option.splits)
  have ok3: "disk_ok d3" using mkdir_all_ok [OF d3 mkdir_all_ok [OF d2 ok]] .
  have names: "''profiles'' \<notin> set migrated_names" "distinct migrated_names" by code_simp+
  have dest: "profile_home home i = home @ [''profiles'', i]" by (simp add: profile_home_def profiles_dir_def)
  have there: "at d (home @ [n]) \<noteq> None"
  proof (cases "r = []")
    case False
    then have "length (home @ [n]) < length (home @ [n] @ r)" by simp
    then have "at d (take (length (home @ [n])) (home @ [n] @ r)) = Some Dir" using ok n(2) unfolding disk_ok_def by blast
    then show ?thesis by simp
  qed (use n(2) in simp)
  have "at d3 (home @ [n]) \<noteq> None" using there keep(1) by fastforce
  then have "at d4 (profile_home home i @ [n] @ r) = at d3 (home @ [n] @ r)"
    by (intro move_all_moves [OF d4 [unfolded all(3)] dest names ok3 stats n(1)])
  also have "\<dots> = Some x" by (rule keep(1) [OF n(2)])
  finally have moved: "at d4 (profile_home home i @ [n] @ r) = Some x" .
  have ok4: "disk_ok d4" by (rule move_all_keeps(1) [OF d4 dest names(1) ok3])
  have "at d1 (profile_home home i @ [n] @ r) = Some x"
    by (rule save_app_ok(2) [OF all(4) ok4 _ _ moved]) (simp_all add: dest app_tmp_def app_path_def)
  then show ?thesis using i save_app_ok(3) [OF all(4) ok4] by blast
qed

lemma migrate_skips:
  assumes m: "migrate_legacy_home parse cd env b home d = (None, d1)" and ok: "disk_ok d"
    and gone: "at d (app_path home) = None" "at d (config_path home) = None"
    and q: "at d q = Some x" "q \<noteq> app_path home" "q \<noteq> app_tmp home"
  shows "at d1 q = Some x" "at d1 (app_path home) = Some (File (app_text cd (normalize_app default_app)))"
proof -
  obtain e1 d2 where d2: "mkdir_all env (profiles_dir home) d = (e1, d2)" by fastforce
  have "at d2 (config_path home) = None \<or> at d2 (config_path home) = Some Dir \<and> prefix (config_path home) (profiles_dir home)"
    by (rule mkdir_all_new [OF d2 gone(2)])
  then have "\<not> config_exists env home d2" by (auto simp: config_exists_def stat_def config_path_def profiles_dir_def)
  then have s: "save_app cd env home default_app d2 = (None, d1)"
    using m gone(1) d2 by (auto simp: migrate_legacy_home_def stat_def split: bool.splits)
  have ok2: "disk_ok d2" by (rule mkdir_all_ok [OF d2 ok])
  have x2: "at d2 q = Some x" by (rule mkdir_all_at [OF d2 q(1)])
  show "at d1 q = Some x" by (rule save_app_ok(2) [OF s ok2 q(3,2) x2])
  show "at d1 (app_path home) = Some (File (app_text cd (normalize_app default_app)))" by (rule save_app_ok(3) [OF s ok2 refl])
qed

section \<open>Example data\<close>

definition demo_config :: config where
  "demo_config = default_config\<lparr>cf_username := ''bob'', cf_share := ''/srv/share''\<rparr>"

definition demo_json :: json_codec where
  "demo_json = \<lparr>cd_parse = (\<lambda>t. if t = ''C'' then Some (JObj [(''username'', JStr ''bob''), (''share_directory'', JStr ''/srv/share'')])
       else if t = ''D'' @ [CHR 0x0A] then Some (config_json demo_config) else None), cd_print = (\<lambda>j. ''D'')\<rparr>"

definition calm :: os_env where
  "calm = \<lparr>os_fault = (\<lambda>_. False), os_torn = []\<rparr>"

definition stuck_keys :: os_env where
  "stuck_keys = \<lparr>os_fault = (\<lambda>c. case c of Rename_Call p q \<Rightarrow> p = [''h'', ''keys''] | _ \<Rightarrow> False), os_torn = []\<rparr>"

definition demo_disk :: disk where
  "demo_disk = [([], Dir), ([''h''], Dir), ([''h'', ''config.json''], File ''C''), ([''h'', ''keys''], Dir),
     ([''h'', ''keys'', ''actor.pem''], File ''KEY'')]"

lemma demo_disk_ok: "disk_ok demo_disk"
  by (rule disk_okI) code_simp

section \<open>Properties\<close>

text \<open>
  C20. A share directory that is accepted has no path in common with the data directory: neither lies inside the
  other by name, so no path below the share root is one of the keys or of the database. Symbolic links above the two
  directories are not followed.
\<close>

theorem share_root_disjoint:
  assumes "validate_share_root share home = None" "is_abs home"
  shows "comps share @ xs \<noteq> comps home @ ys"
  using assms by (rule share_root_apart)

theorem share_root_disjoint_witness:
  "comps ''/home/u/share'' @ [''keys''] \<noteq> comps ''/home/u/.config/fedishare'' @ [''keys'']"
proof (rule share_root_disjoint)
  show "validate_share_root ''/home/u/share'' ''/home/u/.config/fedishare'' = None" by code_simp
  show "is_abs ''/home/u/.config/fedishare''" by code_simp
qed

text \<open>
  A configuration that was saved is read back in its normal form.
\<close>

theorem config_roundtrip:
  assumes "save_config parse cd env home c d = (None, d1)" "disk_ok d" "ints_ok (normalize_config c)"
    and "cd_parse cd (config_text cd (normalize_config c)) = Some (config_json (normalize_config c))"
    and "\<not> os_fault env2 (Read_Call (config_path home))"
  shows "load_config parse cd env2 home d1 = Inr (normalize_config c)"
  using assms by (rule load_saved)

theorem config_roundtrip_witness:
  "load_config simple_url demo_json calm [''h''] (snd (save_config simple_url demo_json calm [''h''] demo_config demo_disk)) =
     Inr (normalize_config demo_config)"
proof (rule config_roundtrip)
  have n: "normalize_config demo_config = demo_config" by code_simp
  have "fst (save_config simple_url demo_json calm [''h''] demo_config demo_disk) = None" by code_simp
  then show "save_config simple_url demo_json calm [''h''] demo_config demo_disk =
      (None, snd (save_config simple_url demo_json calm [''h''] demo_config demo_disk))" by (simp add: prod_eq_iff)
  show "disk_ok demo_disk" by (rule demo_disk_ok)
  show "ints_ok (normalize_config demo_config)" unfolding n
    by (simp add: ints_ok_def in_int64_def demo_config_def default_config_def default_port_def default_downloads_def)
  show "cd_parse demo_json (config_text demo_json (normalize_config demo_config)) = Some (config_json (normalize_config demo_config))"
    unfolding n by (simp add: demo_json_def config_text_def)
  show "\<not> os_fault calm (Read_Call (config_path [''h'']))" by (simp add: calm_def)
qed

text \<open>
  Saving replaces the file at once: whatever call fails, the file holds its old text or all of the new one.
\<close>

theorem config_save_atomic:
  assumes "save_config parse cd env home c d = (e, d1)" "disk_ok d" "at d (config_path home) = Some (File t)"
  shows "at d1 (config_path home) \<in> {Some (File t), Some (File (config_text cd (normalize_config c)))}"
  using assms by (rule save_atomic(2))

theorem config_save_atomic_witness:
  "at (snd (save_config simple_url demo_json calm [''h''] demo_config demo_disk)) (config_path [''h''])
     \<in> {Some (File ''C''), Some (File (config_text demo_json (normalize_config demo_config)))}"
proof (rule config_save_atomic)
  show "save_config simple_url demo_json calm [''h''] demo_config demo_disk =
    (fst (save_config simple_url demo_json calm [''h''] demo_config demo_disk),
     snd (save_config simple_url demo_json calm [''h''] demo_config demo_disk))" by simp
  show "disk_ok demo_disk" by (rule demo_disk_ok)
  show "at demo_disk (config_path [''h'']) = Some (File ''C'')" by code_simp
qed

text \<open>
  A configuration that loads is in normal form and within its bounds.
\<close>

theorem loaded_config_valid:
  assumes "load_config parse cd env home d = Inr c" "gateway_ok parse default_gateway"
  shows "normalize_config c = c \<and> (cf_username c = [] \<or> profile_username (cf_username c)) \<and> (cf_share c = [] \<or> is_abs (cf_share c)) \<and>
    (cf_gateway c = [] \<or> gateway_ok parse (cf_gateway c)) \<and> 0 \<le> cf_port c \<and> cf_port c \<le> 65535 \<and>
    1 \<le> cf_downloads c \<and> 0 \<le> cf_bandwidth c"
proof -
  note v = load_valid [OF assms]
  show ?thesis using v(2) unfolding validate_None v(1) by (simp add: v(1))
qed

theorem loaded_config_valid_witness:
  "\<exists>c. load_config simple_url demo_json calm [''h''] demo_disk = Inr c \<and> profile_username (cf_username c) \<and> 1 \<le> cf_downloads c"
proof -
  have l: "load_config simple_url demo_json calm [''h''] demo_disk = Inr demo_config" by code_simp
  have "gateway_ok simple_url default_gateway" by code_simp
  from loaded_config_valid [OF l this] l show ?thesis by (auto simp: demo_config_def)
qed

text \<open>
  The migration of a data directory with one actor moves its files into the new profile, which it selects.
\<close>

theorem migration_moves_files:
  assumes "migrate_legacy_home parse cd env (Some b) home d = (None, d1)" "disk_ok d"
    and "\<forall>p. \<not> os_fault env (Stat_Call p)" "at d (app_path home) = None"
    and "at d (config_path home) = Some (File t)" "load_config parse cd env home d = Inr c" "configured c"
    and "n \<in> set migrated_names" "at d (home @ [n] @ r) = Some x"
  shows "\<exists>i. new_profile_id (Some b) = Inr i \<and> at d1 (profile_home home i @ [n] @ r) = Some x \<and>
    at d1 (app_path home) = Some (File (app_text cd (normalize_app ((legacy_app c)\<lparr>ap_selected := i\<rparr>))))"
  using assms by (rule migrate_moves)

theorem migration_moves_files_witness:
  "\<exists>i. new_profile_id (Some ''01234567'') = Inr i \<and>
    at (snd (migrate_legacy_home simple_url demo_json calm (Some ''01234567'') [''h''] demo_disk))
      (profile_home [''h''] i @ [''keys''] @ [''actor.pem'']) = Some (File ''KEY'') \<and>
    at (snd (migrate_legacy_home simple_url demo_json calm (Some ''01234567'') [''h''] demo_disk)) (app_path [''h'']) =
      Some (File (app_text demo_json (normalize_app ((legacy_app demo_config)\<lparr>ap_selected := i\<rparr>))))"
proof (rule migration_moves_files)
  have "fst (migrate_legacy_home simple_url demo_json calm (Some ''01234567'') [''h''] demo_disk) = None" by code_simp
  then show "migrate_legacy_home simple_url demo_json calm (Some ''01234567'') [''h''] demo_disk =
    (None, snd (migrate_legacy_home simple_url demo_json calm (Some ''01234567'') [''h''] demo_disk))" by (simp add: prod_eq_iff)
  show "disk_ok demo_disk" by (rule demo_disk_ok)
  show "\<forall>p. \<not> os_fault calm (Stat_Call p)" by (simp add: calm_def)
qed code_simp+

text \<open>
  A migration that was interrupted is not taken up again: once the configuration file has been moved, the next
  run moves nothing, so keys that had not been moved stay behind, and selects no profile.
\<close>

theorem migration_not_resumed:
  assumes "migrate_legacy_home parse cd env b home d = (None, d1)" "disk_ok d"
    and "at d (app_path home) = None" "at d (config_path home) = None"
    and "at d (keys_dir home @ r) = Some x"
  shows "at d1 (keys_dir home @ r) = Some x \<and> at d1 (app_path home) = Some (File (app_text cd (normalize_app default_app)))"
proof -
  have "keys_dir home @ r \<noteq> app_path home" "keys_dir home @ r \<noteq> app_tmp home"
    by (simp_all add: keys_dir_def app_path_def app_tmp_def)
  from migrate_skips [OF assms this] show ?thesis by simp
qed

definition demo_stopped :: disk where
  "demo_stopped = [([''h'', ''profiles'', ''3031323334353637''], Dir), ([''h'', ''profiles''], Dir), ([], Dir), ([''h''], Dir),
     ([''h'', ''profiles'', ''3031323334353637'', ''config.json''], File ''C''), ([''h'', ''keys''], Dir),
     ([''h'', ''keys'', ''actor.pem''], File ''KEY'')]"

lemma demo_stops:
  "migrate_legacy_home simple_url demo_json stuck_keys (Some ''01234567'') [''h''] demo_disk = (Some Disk_Failed, demo_stopped)"
  by code_simp

theorem migration_not_resumed_witness:
  "fst (migrate_legacy_home simple_url demo_json stuck_keys (Some ''01234567'') [''h''] demo_disk) = Some Disk_Failed \<and>
   at (snd (migrate_legacy_home simple_url demo_json calm (Some ''01234567'') [''h''] demo_stopped)) (keys_dir [''h''] @ [''actor.pem'']) =
     Some (File ''KEY'') \<and>
   at (snd (migrate_legacy_home simple_url demo_json calm (Some ''01234567'') [''h''] demo_stopped)) (app_path [''h'']) =
     Some (File (app_text demo_json (normalize_app default_app)))"
proof
  show "fst (migrate_legacy_home simple_url demo_json stuck_keys (Some ''01234567'') [''h''] demo_disk) = Some Disk_Failed" by (simp add: demo_stops)
  show "at (snd (migrate_legacy_home simple_url demo_json calm (Some ''01234567'') [''h''] demo_stopped)) (keys_dir [''h''] @ [''actor.pem'']) =
     Some (File ''KEY'') \<and>
   at (snd (migrate_legacy_home simple_url demo_json calm (Some ''01234567'') [''h''] demo_stopped)) (app_path [''h'']) =
     Some (File (app_text demo_json (normalize_app default_app)))"
  proof (rule migration_not_resumed)
    have "fst (migrate_legacy_home simple_url demo_json calm (Some ''01234567'') [''h''] demo_stopped) = None" by code_simp
    then show "migrate_legacy_home simple_url demo_json calm (Some ''01234567'') [''h''] demo_stopped =
      (None, snd (migrate_legacy_home simple_url demo_json calm (Some ''01234567'') [''h''] demo_stopped))" by (simp add: prod_eq_iff)
    show "disk_ok demo_stopped" by (rule disk_okI) code_simp
  qed code_simp+
qed

end
