(* ===== verification/Key_Store.thy ===== *)
theory Key_Store
  imports Config_Facts
begin

text \<open>
  \<open>internal/crypto/keys.go\<close>: the key pair of an actor as two PEM files. \<open>crypto/rsa\<close>, \<open>crypto/x509\<close> and
  \<open>encoding/pem\<close> are the record \<open>key_lib\<close>: a generated pair as PEM texts, the type of the block of a text
  and the key in it.
\<close>

record key_lib =
  kl_generate :: "(string \<times> string) option"
  kl_block :: "string \<Rightarrow> string option"
  kl_pkix :: "string \<Rightarrow> string option"
  kl_pkcs1 :: "string \<Rightarrow> string option"
  kl_pkcs8 :: "string \<Rightarrow> string option"

datatype key_error = No_Keys_Dir | Keys_Disk | Generate_Failed | No_Public_Pem | No_Private_Pem | Bad_Public | Bad_Private | Bad_Key_Type

definition private_path :: "fs_path \<Rightarrow> fs_path" where "private_path dir = dir @ [''actor.pem'']"
definition public_path :: "fs_path \<Rightarrow> fs_path" where "public_path dir = dir @ [''actor.pub.pem'']"

definition keys_exist :: "os_env \<Rightarrow> fs_path \<Rightarrow> disk \<Rightarrow> bool" where
  "keys_exist env dir d = stat env (private_path dir) d"

definition public_pem :: "key_lib \<Rightarrow> os_env \<Rightarrow> fs_path \<Rightarrow> disk \<Rightarrow> key_error + string" where
  "public_pem kl env dir d =
     (case read_file env (public_path dir) d of
        Content t \<Rightarrow> if kl_block kl t = Some ''PUBLIC KEY'' then Inr t else Inl No_Public_Pem
      | _ \<Rightarrow> Inl Keys_Disk)"

definition public_key_of :: "key_lib \<Rightarrow> os_env \<Rightarrow> fs_path \<Rightarrow> disk \<Rightarrow> key_error + string" where
  "public_key_of kl env dir d =
     (case public_pem kl env dir d of
        Inl e \<Rightarrow> Inl e
      | Inr t \<Rightarrow> (case kl_pkix kl t of None \<Rightarrow> Inl Bad_Public | Some k \<Rightarrow> Inr k))"

definition private_key_of :: "key_lib \<Rightarrow> os_env \<Rightarrow> fs_path \<Rightarrow> disk \<Rightarrow> key_error + string" where
  "private_key_of kl env dir d =
     (case read_file env (private_path dir) d of
        Content t \<Rightarrow>
          if kl_block kl t \<noteq> Some ''PRIVATE KEY'' then Inl No_Private_Pem
          else (case kl_pkcs8 kl t of None \<Rightarrow> Inl Bad_Private | Some k \<Rightarrow> Inr k)
      | _ \<Rightarrow> Inl Keys_Disk)"

definition parse_public_pem :: "key_lib \<Rightarrow> string \<Rightarrow> key_error + string" where
  "parse_public_pem kl t =
     (case kl_block kl t of
        None \<Rightarrow> Inl No_Public_Pem
      | Some ty \<Rightarrow>
          if ty = ''PUBLIC KEY'' then (case kl_pkix kl t of None \<Rightarrow> Inl Bad_Public | Some k \<Rightarrow> Inr k)
          else if ty = ''RSA PUBLIC KEY'' then (case kl_pkcs1 kl t of None \<Rightarrow> Inl Bad_Public | Some k \<Rightarrow> Inr k)
          else Inl Bad_Key_Type)"

definition key_tmp :: "fs_path \<Rightarrow> fs_path" where
  "key_tmp p = butlast p @ [last p @ ''.tmp'']"

definition write_key :: "os_env \<Rightarrow> fs_path \<Rightarrow> string \<Rightarrow> disk \<Rightarrow> key_error option \<times> disk" where
  "write_key env p t d =
     (case replace_file env (key_tmp p) p t d of
        (False, d1) \<Rightarrow> (Some Keys_Disk, d1)
      | (True, d1) \<Rightarrow> (None, d1))"

definition load_or_create_keys :: "key_lib \<Rightarrow> os_env \<Rightarrow> fs_path \<Rightarrow> disk \<Rightarrow> key_error option \<times> disk" where
  "load_or_create_keys kl env dir d =
     (if dir = [] then (Some No_Keys_Dir, d)
      else case mkdir_all env dir d of
        (False, d1) \<Rightarrow> (Some Keys_Disk, d1)
      | (True, d1) \<Rightarrow>
          if keys_exist env dir d1 then (case public_pem kl env dir d1 of Inl e \<Rightarrow> (Some e, d1) | Inr t \<Rightarrow> (None, d1))
          else (case kl_generate kl of
              None \<Rightarrow> (Some Generate_Failed, d1)
            | Some (priv, pub) \<Rightarrow>
                (case write_key env (private_path dir) priv d1 of
                   (Some e, d2) \<Rightarrow> (Some e, d2)
                 | (None, d2) \<Rightarrow> write_key env (public_path dir) pub d2)))"

section \<open>Facts\<close>

lemma key_paths:
  "key_tmp (private_path dir) = dir @ [''actor.pem.tmp'']" "key_tmp (public_path dir) = dir @ [''actor.pub.pem.tmp'']"
  by (simp_all add: key_tmp_def private_path_def public_path_def)

lemma key_paths_apart:
  "\<not> prefix (key_tmp (private_path dir)) (private_path dir)" "\<not> prefix (private_path dir) (key_tmp (private_path dir))"
  "\<not> prefix (key_tmp (public_path dir)) (public_path dir)" "\<not> prefix (public_path dir) (key_tmp (public_path dir))"
  "private_path dir \<noteq> key_tmp (public_path dir)" "private_path dir \<noteq> public_path dir" "public_path dir \<noteq> key_tmp (private_path dir)"
  unfolding key_paths by (simp_all add: private_path_def public_path_def)

lemma write_key_at:
  assumes "write_key env p t d = (e, d1)" "disk_ok d" "\<not> prefix (key_tmp p) p" "\<not> prefix p (key_tmp p)"
  shows "disk_ok d1" "q \<noteq> key_tmp p \<Longrightarrow> at d1 q = (if e = None \<and> q = p then Some (File t) else at d q)"
proof -
  obtain b d2 where b: "replace_file env (key_tmp p) p t d = (b, d2)" by fastforce
  have "d1 = d2" "e = None \<longleftrightarrow> b" using assms(1) b by (auto simp: write_key_def split: bool.splits)
  with replace_file_at [OF b assms(2-4)]
  show "disk_ok d1" "q \<noteq> key_tmp p \<Longrightarrow> at d1 q = (if e = None \<and> q = p then Some (File t) else at d q)" by auto
qed

text \<open>A pair that exists is never replaced; a missing public file is an error for good.\<close>

lemma existing_keys_kept:
  assumes "load_or_create_keys kl env dir d = (e, d1)" "at d (private_path dir) = Some x" "\<not> os_fault env (Stat_Call (private_path dir))"
  shows "at d q = Some y \<Longrightarrow> at d1 q = Some y" "at d (public_path dir) = None \<Longrightarrow> e \<noteq> None \<and> at d1 (public_path dir) = None"
proof -
  obtain b d2 where b: "mkdir_all env dir d = (b, d2)" by fastforce
  have ex: "keys_exist env dir d2" using mkdir_all_at [OF b assms(2)] assms(3) by (simp add: keys_exist_def stat_def)
  have d1: "d1 = d \<or> d1 = d2" and e: "e = None \<Longrightarrow> \<exists>t. public_pem kl env dir d2 = Inr t \<and> d1 = d2"
    using assms(1) b ex by (auto simp: load_or_create_keys_def split: if_splits bool.splits sum.splits)
  show "at d1 q = Some y" if "at d q = Some y" using d1 mkdir_all_at [OF b that] that by auto
  assume none: "at d (public_path dir) = None"
  have none2: "at d2 (public_path dir) = None"
    using mkdir_all_new [OF b none] by (auto simp: public_path_def)
  then have "public_pem kl env dir d2 = Inl Keys_Disk" by (simp add: public_pem_def read_file_def)
  then have "e \<noteq> None" using e by auto
  then show "e \<noteq> None \<and> at d1 (public_path dir) = None" using d1 none none2 by auto
qed

lemma created_keys:
  assumes "load_or_create_keys kl env dir d = (None, d1)" "disk_ok d" "at d (private_path dir) = None"
    and "kl_generate kl = Some (priv, pub)"
  shows "at d1 (private_path dir) = Some (File priv)" "at d1 (public_path dir) = Some (File pub)"
proof -
  obtain b d2 where b: "mkdir_all env dir d = (b, d2)" by fastforce
  have "at d2 (private_path dir) = None" using mkdir_all_new [OF b assms(3)] by (auto simp: private_path_def)
  then have new: "\<not> keys_exist env dir d2" by (simp add: keys_exist_def stat_def)
  obtain e3 d3 where w: "write_key env (private_path dir) priv d2 = (e3, d3)" by fastforce
  have e3: "e3 = None" "write_key env (public_path dir) pub d3 = (None, d1)"
    using assms(1,4) b new w by (auto simp: load_or_create_keys_def split: if_splits bool.splits option.splits)
  note w1 = write_key_at [OF w mkdir_all_ok [OF b assms(2)] key_paths_apart(1,2)]
  note w2 = write_key_at [OF e3(2) w1(1) key_paths_apart(3,4)]
  have "private_path dir \<noteq> key_tmp (private_path dir)" "public_path dir \<noteq> key_tmp (public_path dir)"
    using key_paths_apart(1,3) by (metis prefix_order.order_refl)+
  then show "at d1 (private_path dir) = Some (File priv)" "at d1 (public_path dir) = Some (File pub)"
    using w1(2) w2(2) e3(1) key_paths_apart(5,6) by auto
qed

section \<open>Properties\<close>

definition demo_keys_lib :: key_lib where
  "demo_keys_lib = \<lparr>kl_generate = Some (''PRIV'', ''PUB''), kl_block = (\<lambda>t. if t = ''PUB'' then Some ''PUBLIC KEY'' else None),
     kl_pkix = Some, kl_pkcs1 = Some, kl_pkcs8 = Some\<rparr>"

text \<open>
  The keys of an actor are generated once: when the private key exists, starting again leaves every file as it
  is, even when the public key is missing, which then is an error at every start.
\<close>

theorem existing_keys_final:
  assumes "load_or_create_keys kl env dir d = (e, d1)" "at d (private_path dir) = Some x"
    and "\<not> os_fault env (Stat_Call (private_path dir))"
  shows "(\<forall>q y. at d q = Some y \<longrightarrow> at d1 q = Some y) \<and> (at d (public_path dir) = None \<longrightarrow> e \<noteq> None)"
  using existing_keys_kept [OF assms] by blast

theorem existing_keys_final_witness:
  "fst (load_or_create_keys demo_keys_lib calm [''h'', ''keys''] demo_disk) \<noteq> None \<and>
   at (snd (load_or_create_keys demo_keys_lib calm [''h'', ''keys''] demo_disk)) [''h'', ''keys'', ''actor.pem''] = Some (File ''KEY'')"
proof -
  have at: "at demo_disk [''h'', ''keys'', ''actor.pem''] = Some (File ''KEY'')" "at demo_disk (public_path [''h'', ''keys'']) = None"
    by code_simp+
  have "at demo_disk (private_path [''h'', ''keys'']) = Some (File ''KEY'')" "\<not> os_fault calm (Stat_Call (private_path [''h'', ''keys'']))"
    by (simp_all add: private_path_def at(1) calm_def)
  from existing_keys_final [OF surjective_pairing this] at show ?thesis by blast
qed

text \<open>
  The first start writes the generated pair, private key first.
\<close>

theorem created_keys_written:
  assumes "load_or_create_keys kl env dir d = (None, d1)" "disk_ok d" "at d (private_path dir) = None"
    and "kl_generate kl = Some (priv, pub)"
  shows "at d1 (private_path dir) = Some (File priv) \<and> at d1 (public_path dir) = Some (File pub)"
  using created_keys [OF assms] by blast

theorem created_keys_written_witness:
  "at (snd (load_or_create_keys demo_keys_lib calm [''h'', ''new''] demo_disk)) [''h'', ''new'', ''actor.pem''] = Some (File ''PRIV'') \<and>
   at (snd (load_or_create_keys demo_keys_lib calm [''h'', ''new''] demo_disk)) [''h'', ''new'', ''actor.pub.pem''] = Some (File ''PUB'')"
proof -
  have "fst (load_or_create_keys demo_keys_lib calm [''h'', ''new''] demo_disk) = None" by code_simp
  then have run: "load_or_create_keys demo_keys_lib calm [''h'', ''new''] demo_disk =
      (None, snd (load_or_create_keys demo_keys_lib calm [''h'', ''new''] demo_disk))" by (simp add: prod_eq_iff)
  have "at demo_disk (private_path [''h'', ''new'']) = None" "kl_generate demo_keys_lib = Some (''PRIV'', ''PUB'')" by code_simp+
  from created_keys_written [OF run demo_disk_ok this] show ?thesis by (simp add: private_path_def public_path_def)
qed

end
