(* ===== verification/Apperr.thy ===== *)
theory Apperr
  imports Go_Strings
begin

text \<open>
  \<open>internal/apperr\<close>: classified errors. An error value is a plain one, one wrapped by \<open>fmt.Errorf\<close>, or an
  application error with its kind, its message for the user and its cause.
\<close>

datatype err_kind = Kind_Unknown | Kind_Network | Kind_Config | Kind_Filesystem | Kind_Database | Kind_Federation | Kind_Crypto

fun kind_string :: "err_kind \<Rightarrow> string" where
  "kind_string Kind_Network = ''temporary_network''"
| "kind_string Kind_Config = ''invalid_config''"
| "kind_string Kind_Filesystem = ''filesystem''"
| "kind_string Kind_Database = ''database''"
| "kind_string Kind_Federation = ''federation_reject''"
| "kind_string Kind_Crypto = ''crypto''"
| "kind_string Kind_Unknown = ''unknown''"

datatype go_error = Plain string | Wrapped string go_error | Tagged err_kind string "go_error option"

fun error_message :: "go_error \<Rightarrow> string" where
  "error_message (Plain m) = m"
| "error_message (Wrapped m e) = m @ '': '' @ error_message e"
| "error_message (Tagged k m None) = m"
| "error_message (Tagged k m (Some e)) = m @ '': '' @ error_message e"

text \<open>\<open>errors.As\<close> finds the outermost application error of a chain.\<close>

fun as_tagged :: "go_error \<Rightarrow> (err_kind \<times> string) option" where
  "as_tagged (Plain m) = None"
| "as_tagged (Wrapped m e) = as_tagged e"
| "as_tagged (Tagged k m c) = Some (k, m)"

definition wrap_error :: "err_kind \<Rightarrow> string \<Rightarrow> go_error option \<Rightarrow> go_error option" where
  "wrap_error k msg err =
     (case err of
        None \<Rightarrow> None
      | Some e \<Rightarrow>
          Some (Tagged k (case as_tagged e of Some (_, m) \<Rightarrow> if msg = [] then m else msg | None \<Rightarrow> msg) (Some e)))"

definition new_error :: "err_kind \<Rightarrow> string \<Rightarrow> go_error" where
  "new_error k msg = Tagged k msg None"

definition classify_error :: "go_error option \<Rightarrow> err_kind" where
  "classify_error err = (case err of None \<Rightarrow> Kind_Unknown | Some e \<Rightarrow> (case as_tagged e of Some (k, _) \<Rightarrow> k | None \<Rightarrow> Kind_Unknown))"

definition something_wrong :: string where "something_wrong = ''Something went wrong.''"

definition user_message :: "go_error option \<Rightarrow> string" where
  "user_message err =
     (case err of
        None \<Rightarrow> []
      | Some e \<Rightarrow> (case as_tagged e of Some (_, m) \<Rightarrow> if m = [] then something_wrong else m | None \<Rightarrow> something_wrong))"

text \<open>The user sees the message given to \<open>Wrap\<close>, never the cause.\<close>

lemma user_message_wrap:
  "msg \<noteq> [] \<Longrightarrow> user_message (wrap_error k msg (Some e)) = msg" "classify_error (wrap_error k msg (Some e)) = k"
  by (auto simp: user_message_def wrap_error_def classify_error_def split: option.split)

end
