(* ===== verification/Dashboard.thy ===== *)
theory Dashboard
  imports Apperr Config Activity_Handler Federation_Inbox Status
begin

text \<open>
  \<open>internal/httpserver\<close>: the dashboard of the node on the loopback address. \<open>wrap\<close> guards every request,
  \<open>ServeMux\<close> routes it, the handlers call the backend. The interface \<open>Backend\<close> and the optional interfaces
  \<open>Network\<close> and \<open>Profiles\<close> are the record \<open>backend\<close> over the state of the node.
\<close>

section \<open>Requests and the backend\<close>

record dash_request =
  dq_method :: string
  dq_escaped :: string
  dq_host :: string
  dq_header :: header
  dq_query :: "string \<Rightarrow> string"
  dq_form_token :: string
  dq_body :: string

text \<open>\<open>URL.Path\<close> and \<open>URL.EscapedPath\<close> of one request.\<close>

definition dq_path :: "dash_request \<Rightarrow> string" where
  "dq_path r = unescaped (dq_escaped r)"

record setup_request =
  su_display :: string
  su_username :: string
  su_share :: string
  su_gateway :: string
  su_summary :: string

record settings_request =
  se_display :: "string option"
  se_username :: "string option"
  se_summary :: "string option"
  se_share :: "string option"
  se_gateway :: "string option"
  se_port :: "int option"
  se_downloads :: "int option"
  se_bandwidth :: "int option"
  se_log :: "string option"
  se_login :: "bool option"

record profile_info =
  pi_id :: string
  pi_username :: string
  pi_display :: string
  pi_share :: string
  pi_identity :: string
  pi_selected :: bool
  pi_configured :: bool

record 's backend =
  be_snapshot :: "'s \<Rightarrow> snapshot"
  be_config :: "'s \<Rightarrow> config"
  be_home :: "'s \<Rightarrow> string"
  be_url :: "'s \<Rightarrow> string"
  be_node_id :: "'s \<Rightarrow> string"
  be_setup :: "setup_request \<Rightarrow> 's \<Rightarrow> go_error option \<times> 's"
  be_settings :: "settings_request \<Rightarrow> 's \<Rightarrow> go_error option \<times> 's"
  be_pause :: "'s \<Rightarrow> go_error option \<times> 's"
  be_resume :: "'s \<Rightarrow> go_error option \<times> 's"
  be_rescan :: "'s \<Rightarrow> go_error option \<times> 's"
  be_files :: "'s \<Rightarrow> go_error + entry list"
  be_followers :: "'s \<Rightarrow> go_error + follower list"
  be_activity :: "'s \<Rightarrow> go_error + json list"
  be_block :: "string \<Rightarrow> 's \<Rightarrow> go_error option \<times> 's"
  be_unblock :: "string \<Rightarrow> 's \<Rightarrow> go_error option \<times> 's"
  be_network :: "(string \<Rightarrow> 's \<Rightarrow> go_error + json) option"
  be_profiles :: "('s \<Rightarrow> profile_info list) option"
  be_select :: "string \<Rightarrow> 's \<Rightarrow> go_error option \<times> 's"
  be_create :: "setup_request \<Rightarrow> 's \<Rightarrow> go_error option \<times> 's"
  be_public :: "dash_request \<Rightarrow> 's \<times> writer \<Rightarrow> 's \<times> writer"
  be_download :: "dash_request \<Rightarrow> 's \<times> writer \<Rightarrow> 's \<times> writer"

text \<open>
  What the server has at hand: the CSRF token, the JSON encoder, a decoder of the first value of a text, the
  templates, the folder dialog (\<open>None\<close> when it is cancelled), the runtime's names and the user's home.
\<close>

record dash_env =
  de_token :: string
  de_encode :: "json \<Rightarrow> string"
  de_decode :: "string \<Rightarrow> json option"
  de_page :: "string \<Rightarrow> json \<Rightarrow> string option"
  de_static :: "string \<Rightarrow> writer \<Rightarrow> writer"
  de_choose :: "string \<Rightarrow> go_error + string option"
  de_key_file :: "string \<Rightarrow> bool"
  de_url :: url_parser
  de_runtime :: "string \<times> string \<times> string"
  de_user_home :: string
  de_time :: "int \<Rightarrow> string"
  de_suggested :: string

type_synonym 's handler = "dash_request \<Rightarrow> 's \<times> writer \<Rightarrow> 's \<times> writer"

section \<open>Guards\<close>

definition local_request :: "dash_request \<Rightarrow> bool" where
  "local_request r \<longleftrightarrow>
     (let h = (case split_host_port (dq_host r) of Some (a, _) \<Rightarrow> a | None \<Rightarrow> dq_host r) in
      to_lower (trim_set {CHR ''['', CHR '']''} h) \<in> {''127.0.0.1'', ''localhost'', ''::1''})"

definition allowed_origin :: "dash_request \<Rightarrow> bool" where
  "allowed_origin r \<longleftrightarrow>
     (let origin = trim_space (header_get ''Origin'' (dq_header r)) in
      origin = [] \<or> origin = ''http://'' @ dq_host r \<or> origin = ''https://'' @ dq_host r)"

definition valid_csrf :: "string \<Rightarrow> dash_request \<Rightarrow> bool" where
  "valid_csrf token r \<longleftrightarrow>
     (let t = (if header_get ''X-Csrf-Token'' (dq_header r) = [] then dq_form_token r
               else header_get ''X-Csrf-Token'' (dq_header r)) in
      t \<noteq> [] \<and> t = token)"

definition is_inbox_post :: "dash_request \<Rightarrow> bool" where
  "is_inbox_post r \<longleftrightarrow> dq_method r = ''POST'' \<and> has_prefix (dq_path r) ''/users/'' \<and> has_suffix (dq_path r) ''/inbox''"

definition safe_method :: "string \<Rightarrow> bool" where
  "safe_method m \<longleftrightarrow> m = ''GET'' \<or> m = ''HEAD'' \<or> m = ''OPTIONS''"

definition csp_text :: string where
  "csp_text = ''default-src '' @ sq ''self'' @ ''; style-src '' @ sq ''self'' @ ''; script-src '' @ sq ''self'' @
     ''; img-src '' @ sq ''self'' @ '' data:; connect-src '' @ sq ''self''"

definition csrf_cookie :: "string \<Rightarrow> string" where
  "csrf_cookie token = ''fedishare_csrf='' @ token @ ''; Path=/; SameSite=Strict''"

definition add_cookie :: "string \<Rightarrow> writer \<Rightarrow> writer" where
  "add_cookie v w = w\<lparr>w_header := header_add ''Set-Cookie'' v (w_header w)\<rparr>"

definition guard_headers :: "dash_request \<Rightarrow> writer \<Rightarrow> writer" where
  "guard_headers r w =
     (let w1 = set_header ''Referrer-Policy'' ''no-referrer'' (set_header ''X-Content-Type-Options'' ''nosniff''
                 (set_header ''X-Frame-Options'' ''DENY'' w));
          p = dq_path r;
          w2 = (if \<not> has_prefix p ''/files/'' \<and> \<not> has_prefix p ''/users/'' \<and> \<not> has_prefix p ''/.well-known/''
                then set_header ''Cache-Control'' ''no-store'' w1 else w1) in
      set_header ''Content-Security-Policy'' csp_text w2)"

definition wrap :: "dash_env \<Rightarrow> 's handler \<Rightarrow> 's handler" where
  "wrap env nxt r sw =
     (case sw of (s, w) \<Rightarrow>
       if \<not> local_request r
       then (s, writer_error (''FediShare'' @ [CHR 0x27] @ ''s dashboard is only available on this computer.'') 403 w)
       else
         let w1 = guard_headers r w; p = dq_path r in
         if \<not> safe_method (dq_method r) \<and> \<not> is_inbox_post r \<and> \<not> allowed_origin r
         then (s, writer_error ''blocked cross-origin request'' 403 w1)
         else if \<not> safe_method (dq_method r) \<and> \<not> is_inbox_post r \<and> \<not> valid_csrf (de_token env) r
         then (s, writer_error ''missing or invalid CSRF token'' 403 w1)
         else
           let w2 = (if \<not> has_prefix p ''/users/'' \<and> \<not> has_prefix p ''/.well-known/''
                     then add_cookie (csrf_cookie (de_token env)) w1 else w1) in
           nxt r (s, w2))"

section \<open>Answers\<close>

definition dash_json :: "dash_env \<Rightarrow> int \<Rightarrow> json \<Rightarrow> writer \<Rightarrow> writer" where
  "dash_json env code v w =
     (let w1 = set_header ''Content-Type'' ''application/json; charset=utf-8'' w; w2 = or_keep w1 (write_header code w1) in
      or_keep w2 (write_data (de_encode env v @ [CHR 0x0A]) w2))"

definition dash_error :: "dash_env \<Rightarrow> go_error \<Rightarrow> writer \<Rightarrow> writer" where
  "dash_error env e w =
     (let code = (if classify_error (Some e) = Kind_Filesystem \<or> classify_error (Some e) = Kind_Database then 500 else 400) in
      dash_json env code (JObj [(''error'', JStr (user_message (Some e)))]) w)"

definition max_dash_body :: nat where "max_dash_body = 2 ^ 20"

text \<open>The first value of the body, whose fields must all be known; at most a mebibyte is read.\<close>

definition read_body :: "dash_env \<Rightarrow> string list \<Rightarrow> dash_request \<Rightarrow> (string \<times> json) list option" where
  "read_body env names r =
     (case de_decode env (take max_dash_body (dq_body r)) of
        Some (JObj m) \<Rightarrow> if list_all (\<lambda>(k, _). list_ex (equal_fold k) names) m then Some m else None
      | Some JNull \<Rightarrow> Some []
      | _ \<Rightarrow> None)"

definition setup_names :: "string list" where
  "setup_names = [''display_name'', ''username'', ''share_directory'', ''gateway_url'', ''summary'']"

definition decode_setup :: "dash_env \<Rightarrow> dash_request \<Rightarrow> setup_request option" where
  "decode_setup env r =
     (case read_body env setup_names r of
        None \<Rightarrow> None
      | Some m \<Rightarrow>
          (case (string_field ''display_name'' m [], string_field ''username'' m [], string_field ''share_directory'' m [],
                 string_field ''gateway_url'' m [], string_field ''summary'' m []) of
             (Some dn, Some un, Some sh, Some gw, Some su) \<Rightarrow>
               Some \<lparr>su_display = dn, su_username = un, su_share = sh, su_gateway = gw, su_summary = su\<rparr>
           | _ \<Rightarrow> None))"

text \<open>A field of pointer type: null is nil again.\<close>

fun pointer_field :: "(json \<Rightarrow> 'a option) \<Rightarrow> string \<Rightarrow> (string \<times> json) list \<Rightarrow> 'a option \<Rightarrow> 'a option option" where
  "pointer_field dec name [] cur = Some cur"
| "pointer_field dec name ((k, v) # m) cur =
     (if equal_fold k name then
        (if v = JNull then pointer_field dec name m None
         else case dec v of None \<Rightarrow> None | Some x \<Rightarrow> pointer_field dec name m (Some x))
      else pointer_field dec name m cur)"

definition json_string :: "json \<Rightarrow> string option" where "json_string v = (case v of JStr s \<Rightarrow> Some s | _ \<Rightarrow> None)"
definition json_bool :: "json \<Rightarrow> bool option" where "json_bool v = (case v of JBool b \<Rightarrow> Some b | _ \<Rightarrow> None)"
definition json_int :: "json \<Rightarrow> int option" where
  "json_int v = (case v of JNum n \<Rightarrow> if - (2 ^ 63) \<le> n \<and> n < 2 ^ 63 then Some n else None | _ \<Rightarrow> None)"

definition settings_names :: "string list" where
  "settings_names = setup_names @ [''local_port'', ''max_concurrent_downloads'', ''bandwidth_limit_bps'', ''log_level'', ''start_at_login'']"

definition decode_settings :: "dash_env \<Rightarrow> dash_request \<Rightarrow> settings_request option" where
  "decode_settings env r =
     (case read_body env settings_names r of
        None \<Rightarrow> None
      | Some m \<Rightarrow>
          let st = (\<lambda>n. pointer_field json_string n m None); nt = (\<lambda>n. pointer_field json_int n m None) in
          (case (st ''display_name'', st ''username'', st ''summary'', st ''share_directory'', st ''gateway_url'', nt ''local_port'',
                 nt ''max_concurrent_downloads'', nt ''bandwidth_limit_bps'', st ''log_level'',
                 pointer_field json_bool ''start_at_login'' m None) of
             (Some dn, Some un, Some su, Some sh, Some gw, Some po, Some mx, Some bw, Some ll, Some sl) \<Rightarrow>
               Some \<lparr>se_display = dn, se_username = un, se_summary = su, se_share = sh, se_gateway = gw, se_port = po,
                     se_downloads = mx, se_bandwidth = bw, se_log = ll, se_login = sl\<rparr>
           | _ \<Rightarrow> None))"

definition decode_text :: "dash_env \<Rightarrow> string \<Rightarrow> dash_request \<Rightarrow> string option" where
  "decode_text env name r =
     (case read_body env [name] r of
        None \<Rightarrow> None
      | Some m \<Rightarrow>
          (case string_field name m [] of
             None \<Rightarrow> None
           | Some t \<Rightarrow> if trim_space t = [] then None else Some (trim_space t)))"

section \<open>Documents\<close>

definition omit_empty :: "string \<Rightarrow> string \<Rightarrow> (string \<times> json) list" where
  "omit_empty k v = (if v = [] then [] else [(k, JStr v)])"

definition snapshot_json :: "(int \<Rightarrow> string) \<Rightarrow> snapshot \<Rightarrow> json" where
  "snapshot_json fmt s = JObj
     ([(''state'', JStr (state_string (snap_state s))), (''identity'', JStr (identity s)), (''node_id'', JStr (node_id s)),
       (''share_directory'', JStr (share_directory s)), (''indexed_files'', JNum (indexed_files s)),
       (''total_bytes'', JNum (total_bytes s)), (''gateway_connected'', JBool (gateway_connected s)),
       (''activitypub_active'', JBool (activitypub_active s)), (''pending_federation_jobs'', JNum (pending_federation_jobs s)),
       (''active_downloads'', JNum (active_downloads s)), (''indexing_done'', JNum (indexing_done s)),
       (''indexing_total'', JNum (indexing_total s)), (''last_federation_success'', JStr (fmt (last_federation_success s)))] @
      omit_empty ''last_federation_error'' (last_federation_error s) @ [(''message'', JStr (message s))] @
      omit_empty ''error'' (error_text s))"

definition profile_json :: "profile_info \<Rightarrow> json" where
  "profile_json p = JObj
     [(''id'', JStr (pi_id p)), (''username'', JStr (pi_username p)), (''display_name'', JStr (pi_display p)),
      (''share_directory'', JStr (pi_share p)), (''identity'', JStr (pi_identity p)), (''selected'', JBool (pi_selected p)),
      (''configured'', JBool (pi_configured p))]"

definition entry_json :: "entry \<Rightarrow> json" where
  "entry_json e = JObj
     ([(''id'', JStr (e_id e)), (''relative_path'', JStr (e_relative_path e)), (''name'', JStr (e_name e)),
       (''mime_type'', JStr (e_mime_type e)), (''size'', JNum (e_size e)), (''hash'', JStr (e_hash_urn e)),
       (''available'', JBool (e_available e))] @ omit_empty ''download_url'' (e_download_url e))"

definition follower_json :: "(int \<Rightarrow> string) \<Rightarrow> follower \<Rightarrow> json" where
  "follower_json fmt f = JObj
     ([(''actor_id'', JStr (fo_actor f)), (''inbox_url'', JStr (fo_inbox f))] @ omit_empty ''shared_inbox'' (fo_shared f) @
      omit_empty ''username'' (fo_user f) @ [(''host'', JStr (fo_host f)), (''accepted'', JBool (fo_accepted f)),
       (''created_at'', JStr (case fo_created f of None \<Rightarrow> [] | Some t \<Rightarrow> fmt t))])"

text \<open>\<open>profiles\<close> gives nil, encoded as null, when the backend has no profiles.\<close>

definition profiles_json :: "'s backend \<Rightarrow> 's \<Rightarrow> json" where
  "profiles_json be s = (case be_profiles be of None \<Rightarrow> JNull | Some f \<Rightarrow> JArr (map profile_json (f s)))"

definition redact_path :: "string \<Rightarrow> string \<Rightarrow> string" where
  "redact_path home p =
     (if p = [] then []
      else if home \<noteq> [] \<and> (p = home \<or> has_prefix p (home @ ''/'')) then ''~'' @ trim_prefix p home
      else p)"

definition actor_hint :: "config \<Rightarrow> string \<Rightarrow> string" where
  "actor_hint c fallback =
     (if cf_username c = [] then [] else actor_url (new_paths (public_base (cf_gateway c) fallback) (cf_username c)))"

definition webfinger_hint :: "url_parser \<Rightarrow> config \<Rightarrow> string \<Rightarrow> string" where
  "webfinger_hint parse c fallback =
     (if cf_username c = [] then []
      else let h = acct_host parse (cf_gateway c) fallback in
        if h = [] then [] else ''acct:'' @ cf_username c @ ''@'' @ h)"

section \<open>Handlers\<close>

definition reply_json :: "dash_env \<Rightarrow> 's \<Rightarrow> json \<Rightarrow> writer \<Rightarrow> 's \<times> writer" where
  "reply_json env s v w = (s, dash_json env 200 v w)"

text \<open>A call of the backend that may fail, and what is answered when it does not.\<close>

definition call :: "dash_env \<Rightarrow> ('s \<Rightarrow> go_error option \<times> 's) \<Rightarrow> ('s \<Rightarrow> json) \<Rightarrow> 's \<times> writer \<Rightarrow> 's \<times> writer" where
  "call env f v sw =
     (case f (fst sw) of
        (Some e, s) \<Rightarrow> (s, dash_error env e (snd sw))
      | (None, s) \<Rightarrow> reply_json env s (v s) (snd sw))"

definition query :: "dash_env \<Rightarrow> ('s \<Rightarrow> go_error + json) \<Rightarrow> 's \<times> writer \<Rightarrow> 's \<times> writer" where
  "query env f sw =
     (case f (fst sw) of
        Inl e \<Rightarrow> (fst sw, dash_error env e (snd sw))
      | Inr v \<Rightarrow> reply_json env (fst sw) v (snd sw))"

definition bad_request :: "'s \<times> writer \<Rightarrow> 's \<times> writer" where
  "bad_request sw = (fst sw, writer_error ''invalid request'' 400 (snd sw))"

definition ok_json :: json where "ok_json = JObj [(''ok'', JBool True)]"

definition status_json :: "dash_env \<Rightarrow> 's backend \<Rightarrow> 's \<Rightarrow> json" where
  "status_json env be s = JObj [(''ok'', JBool True), (''status'', snapshot_json (de_time env) (be_snapshot be s))]"

definition page_data :: "dash_env \<Rightarrow> 's backend \<Rightarrow> 's \<Rightarrow> json" where
  "page_data env be s =
     (let c = be_config be s in JObj
       [(''Title'', JStr ''FediShare''), (''CSRF'', JStr (de_token env)), (''Configured'', JBool (configured c)),
        (''Status'', snapshot_json (de_time env) (be_snapshot be s)), (''Config'', config_json c),
        (''SuggestedShare'', JStr (de_suggested env)), (''DashboardURL'', JStr (be_url be s)), (''Version'', JStr app_version),
        (''DefaultShare'', JStr (de_suggested env)), (''DefaultGateway'', JStr default_gateway), (''Profiles'', profiles_json be s)])"

definition page_handler :: "dash_env \<Rightarrow> 's backend \<Rightarrow> 's handler" where
  "page_handler env be r sw =
     (case sw of (s, w) \<Rightarrow>
       let name = (if configured (be_config be s) then ''dashboard.html'' else ''wizard.html'');
           w1 = set_header ''Content-Type'' ''text/html; charset=utf-8'' w in
       (s, (case de_page env name (page_data env be s) of
              None \<Rightarrow> writer_error ''Could not render the FediShare window.'' 500 w1
            | Some html \<Rightarrow> or_keep w1 (write_data html w1))))"

definition get_network :: "dash_env \<Rightarrow> 's backend \<Rightarrow> 's handler" where
  "get_network env be r sw =
     (case be_network be of
        None \<Rightarrow> reply_json env (fst sw) (JObj [(''actors'', JArr []),
            (''hint'', JStr ''This desktop build cannot browse the FediShare network.''), (''type'', JStr ''FediShareNetwork'')]) (snd sw)
      | Some f \<Rightarrow> query env (f (dq_query r ''q'')) sw)"

definition get_status :: "dash_env \<Rightarrow> 's backend \<Rightarrow> 's handler" where
  "get_status env be r sw =
     (let s = fst sw; c = be_config be s in
      reply_json env s (JObj
        [(''configured'', JBool (configured c)), (''dashboard_url'', JStr (be_url be s)), (''gateway_url'', JStr (cf_gateway c)),
         (''identity'', JStr (fediverse_address (de_url env) c)), (''profiles'', profiles_json be s),
         (''share_directory'', JStr (cf_share c)), (''status'', snapshot_json (de_time env) (be_snapshot be s)),
         (''version'', JStr app_version)]) (snd sw))"

definition get_profiles :: "dash_env \<Rightarrow> 's backend \<Rightarrow> 's handler" where
  "get_profiles env be r sw = reply_json env (fst sw) (JObj [(''profiles'', profiles_json be (fst sw))]) (snd sw)"

definition no_profiles :: "'s \<times> writer \<Rightarrow> 's \<times> writer" where
  "no_profiles sw = (fst sw, writer_error ''profiles are not available'' 501 (snd sw))"

definition profiles_done :: "'s backend \<Rightarrow> 's \<Rightarrow> json" where
  "profiles_done be s = JObj [(''ok'', JBool True), (''profiles'', profiles_json be s)]"

definition post_profiles :: "dash_env \<Rightarrow> 's backend \<Rightarrow> 's handler" where
  "post_profiles env be r sw =
     (if be_profiles be = None then no_profiles sw
      else case decode_setup env r of
        None \<Rightarrow> bad_request sw
      | Some i \<Rightarrow> call env (be_create be i) (profiles_done be) sw)"

definition post_select :: "dash_env \<Rightarrow> 's backend \<Rightarrow> 's handler" where
  "post_select env be r sw =
     (if be_profiles be = None then no_profiles sw
      else case decode_text env ''id'' r of
        None \<Rightarrow> bad_request sw
      | Some i \<Rightarrow> call env (be_select be i) (profiles_done be) sw)"

definition get_files :: "dash_env \<Rightarrow> 's backend \<Rightarrow> 's handler" where
  "get_files env be r sw = query env (\<lambda>s. map_sum id (\<lambda>es. JObj [(''files'', JArr (map entry_json es))]) (be_files be s)) sw"

definition get_followers :: "dash_env \<Rightarrow> 's backend \<Rightarrow> 's handler" where
  "get_followers env be r sw =
     query env (\<lambda>s. map_sum id (\<lambda>fs. JObj [(''items'', JArr (map (follower_json (de_time env)) fs))]) (be_followers be s)) sw"

definition get_activity :: "dash_env \<Rightarrow> 's backend \<Rightarrow> 's handler" where
  "get_activity env be r sw = query env (\<lambda>s. map_sum id (\<lambda>is. JObj [(''items'', JArr is)]) (be_activity be s)) sw"

definition post_block :: "dash_env \<Rightarrow> 's backend \<Rightarrow> 's handler" where
  "post_block env be r sw =
     (case decode_text env ''target'' r of
        None \<Rightarrow> bad_request sw
      | Some t \<Rightarrow> call env (be_block be t) (\<lambda>_. ok_json) sw)"

definition post_unblock :: "dash_env \<Rightarrow> 's backend \<Rightarrow> 's handler" where
  "post_unblock env be r sw =
     (case decode_text env ''target'' r of
        None \<Rightarrow> bad_request sw
      | Some t \<Rightarrow> call env (be_unblock be t) (\<lambda>_. ok_json) sw)"

definition get_settings :: "dash_env \<Rightarrow> 's backend \<Rightarrow> 's handler" where
  "get_settings env be r sw = reply_json env (fst sw) (config_json (be_config be (fst sw))) (snd sw)"

definition get_diagnostics :: "dash_env \<Rightarrow> 's backend \<Rightarrow> 's handler" where
  "get_diagnostics env be r sw =
     (let s = fst sw; c = be_config be s; sn = be_snapshot be s; redact = redact_path (de_user_home env) in
      reply_json env s (JObj
        [(''active_downloads'', JNum (active_downloads sn)), (''activitypub_active'', JBool (activitypub_active sn)),
         (''actor_url'', JStr (actor_hint c (be_url be s))), (''app'', JStr ''FediShare''), (''arch'', JStr (fst (snd (de_runtime env)))),
         (''configured'', JBool (configured c)), (''data_directory'', JStr (redact (be_home be s))),
         (''gateway_connected'', JBool (gateway_connected sn)), (''gateway_url'', JStr (cf_gateway c)),
         (''go'', JStr (snd (snd (de_runtime env)))), (''identity'', JStr (fediverse_address (de_url env) c)),
         (''indexed_files'', JNum (indexed_files sn)), (''keys_present'', JBool (de_key_file env (be_home be s))),
         (''last_federation_err'', JStr (last_federation_error sn)), (''message'', JStr (message sn)),
         (''node_id'', JStr (be_node_id be s)), (''os'', JStr (fst (de_runtime env))),
         (''pending_federation'', JNum (pending_federation_jobs sn)), (''share_directory'', JStr (redact (cf_share c))),
         (''state'', JStr (state_string (snap_state sn))), (''total_bytes'', JNum (total_bytes sn)), (''version'', JStr app_version),
         (''webfinger'', JStr (webfinger_hint (de_url env) c (be_url be s)))]) (snd sw))"

text \<open>The start directory is read leniently: a body that cannot be decoded leaves it empty or as far as it was read.\<close>

definition post_browse :: "dash_env \<Rightarrow> 's backend \<Rightarrow> 's handler" where
  "post_browse env be r sw =
     (let start = (case de_decode env (dq_body r) of
          Some (JObj m) \<Rightarrow> (case string_field ''start'' m [] of Some t \<Rightarrow> t | None \<Rightarrow> [])
        | _ \<Rightarrow> []) in
      case de_choose env start of
        Inr None \<Rightarrow> reply_json env (fst sw) (JObj [(''cancelled'', JBool True)]) (snd sw)
      | Inl e \<Rightarrow> (fst sw, dash_error env (Tagged Kind_Filesystem (error_message e) (Some e)) (snd sw))
      | Inr (Some p) \<Rightarrow> reply_json env (fst sw) (JObj [(''path'', JStr p)]) (snd sw))"

definition post_setup :: "dash_env \<Rightarrow> 's backend \<Rightarrow> 's handler" where
  "post_setup env be r sw =
     (case decode_setup env r of
        None \<Rightarrow> bad_request sw
      | Some i \<Rightarrow>
          call env (be_setup be i)
            (\<lambda>s. JObj [(''identity'', JStr (fediverse_address (de_url env) (be_config be s))), (''ok'', JBool True)]) sw)"

definition put_settings :: "dash_env \<Rightarrow> 's backend \<Rightarrow> 's handler" where
  "put_settings env be r sw =
     (case decode_settings env r of
        None \<Rightarrow> bad_request sw
      | Some i \<Rightarrow> call env (be_settings be i) (\<lambda>_. ok_json) sw)"

definition post_rescan :: "dash_env \<Rightarrow> 's backend \<Rightarrow> 's handler" where
  "post_rescan env be r sw = call env (be_rescan be) (status_json env be) sw"

definition post_pause :: "dash_env \<Rightarrow> 's backend \<Rightarrow> 's handler" where
  "post_pause env be r sw = call env (be_pause be) (status_json env be) sw"

definition post_resume :: "dash_env \<Rightarrow> 's backend \<Rightarrow> 's handler" where
  "post_resume env be r sw = call env (be_resume be) (status_json env be) sw"

section \<open>Routes\<close>

datatype endpoint =
  Ep_Static | Ep_Home | Ep_Status | Ep_Files | Ep_Followers | Ep_Block | Ep_Unblock | Ep_Activity | Ep_Settings | Ep_Diagnostics
| Ep_Setup | Ep_Rescan | Ep_Pause | Ep_Resume | Ep_Put_Settings | Ep_Profiles | Ep_Create | Ep_Select | Ep_Browse | Ep_Network
| Ep_Public | Ep_Download

definition dash_routes :: "(string \<times> string \<times> endpoint) list" where
  "dash_routes =
     [(''GET'', ''/api/status'', Ep_Status), (''GET'', ''/api/files'', Ep_Files), (''GET'', ''/api/followers'', Ep_Followers),
      (''POST'', ''/api/block'', Ep_Block), (''POST'', ''/api/unblock'', Ep_Unblock), (''GET'', ''/api/activity'', Ep_Activity),
      (''GET'', ''/api/settings'', Ep_Settings), (''GET'', ''/api/diagnostics'', Ep_Diagnostics), (''POST'', ''/api/setup'', Ep_Setup),
      (''POST'', ''/api/rescan'', Ep_Rescan), (''POST'', ''/api/pause'', Ep_Pause), (''POST'', ''/api/resume'', Ep_Resume),
      (''PUT'', ''/api/settings'', Ep_Put_Settings), (''GET'', ''/api/profiles'', Ep_Profiles), (''POST'', ''/api/profiles'', Ep_Create),
      (''POST'', ''/api/profiles/select'', Ep_Select), (''POST'', ''/api/browse-folder'', Ep_Browse), (''GET'', ''/api/network'', Ep_Network)]"

definition public_routes :: "(string \<times> string \<times> endpoint) list" where
  "public_routes =
     [(''GET'', ''/.well-known/webfinger'', Ep_Public), (''GET'', ''/users/{username}'', Ep_Public),
      (''GET'', ''/users/{username}/outbox'', Ep_Public), (''GET'', ''/users/{username}/followers'', Ep_Public),
      (''GET'', ''/users/{username}/following'', Ep_Public), (''GET'', ''/users/{username}/inbox'', Ep_Public),
      (''POST'', ''/users/{username}/inbox'', Ep_Public), (''GET'', ''/users/{username}/share'', Ep_Public),
      (''GET'', ''/users/{username}/files/{id}'', Ep_Public), (''GET'', ''/users/{username}/notes/{id}'', Ep_Public),
      (''GET'', ''/users/{username}/activities/{id}'', Ep_Public), (''GET'', ''/users/{username}/download/{id}'', Ep_Public),
      (''HEAD'', ''/users/{username}/download/{id}'', Ep_Public), (''GET'', ''/files/{id}'', Ep_Download), (''HEAD'', ''/files/{id}'', Ep_Download)]"

definition is_wildcard :: "string \<Rightarrow> bool" where
  "is_wildcard p = has_prefix p ''{''"

fun match_segments :: "string list \<Rightarrow> string list \<Rightarrow> bool" where
  "match_segments [] [] = True"
| "match_segments (p # ps) (s # ss) = ((if is_wildcard p then s \<noteq> [] else p = s) \<and> match_segments ps ss)"
| "match_segments _ _ = False"

definition match_path :: "string \<Rightarrow> string \<Rightarrow> bool" where
  "match_path pattern path \<longleftrightarrow> match_segments (split_on slash pattern) (segments path)"

text \<open>A GET pattern also takes HEAD.\<close>

definition match_method :: "string \<Rightarrow> string \<Rightarrow> bool" where
  "match_method pattern m \<longleftrightarrow> pattern = m \<or> (pattern = ''GET'' \<and> m = ''HEAD'')"

definition static_path :: "string \<Rightarrow> bool" where
  "static_path path \<longleftrightarrow> take 2 (segments path) = [[], ''static''] \<and> length (segments path) > 2"

definition mux_clean :: "string \<Rightarrow> string" where
  "mux_clean p =
     (if p = [] then ''/''
      else let q = (if has_prefix p ''/'' then p else slash # p); c = clean q in
        if has_suffix q ''/'' \<and> c \<noteq> ''/'' then c @ ''/'' else c)"

definition find_endpoint :: "string \<Rightarrow> string \<Rightarrow> endpoint option" where
  "find_endpoint m path =
     (if (m = ''GET'' \<or> m = ''HEAD'') \<and> static_path path then Some Ep_Static
      else if (m = ''GET'' \<or> m = ''HEAD'') \<and> path = ''/'' then Some Ep_Home
      else case List.find (\<lambda>(pm, pp, _). match_method pm m \<and> match_path pp path) (dash_routes @ public_routes) of
        None \<Rightarrow> None
      | Some (_, _, e) \<Rightarrow> Some e)"

definition known_path :: "string \<Rightarrow> bool" where
  "known_path path \<longleftrightarrow> static_path path \<or> path = ''/'' \<or>
     list_ex (\<lambda>(_, pp, _). match_path pp path) (dash_routes @ public_routes)"

definition serve_endpoint :: "dash_env \<Rightarrow> 's backend \<Rightarrow> endpoint \<Rightarrow> 's handler" where
  "serve_endpoint env be ep r sw =
     (case ep of
        Ep_Static \<Rightarrow> (fst sw, de_static env (dq_path r) (snd sw))
      | Ep_Home \<Rightarrow> page_handler env be r sw
      | Ep_Status \<Rightarrow> get_status env be r sw
      | Ep_Files \<Rightarrow> get_files env be r sw
      | Ep_Followers \<Rightarrow> get_followers env be r sw
      | Ep_Block \<Rightarrow> post_block env be r sw
      | Ep_Unblock \<Rightarrow> post_unblock env be r sw
      | Ep_Activity \<Rightarrow> get_activity env be r sw
      | Ep_Settings \<Rightarrow> get_settings env be r sw
      | Ep_Diagnostics \<Rightarrow> get_diagnostics env be r sw
      | Ep_Setup \<Rightarrow> post_setup env be r sw
      | Ep_Rescan \<Rightarrow> post_rescan env be r sw
      | Ep_Pause \<Rightarrow> post_pause env be r sw
      | Ep_Resume \<Rightarrow> post_resume env be r sw
      | Ep_Put_Settings \<Rightarrow> put_settings env be r sw
      | Ep_Profiles \<Rightarrow> get_profiles env be r sw
      | Ep_Create \<Rightarrow> post_profiles env be r sw
      | Ep_Select \<Rightarrow> post_select env be r sw
      | Ep_Browse \<Rightarrow> post_browse env be r sw
      | Ep_Network \<Rightarrow> get_network env be r sw
      | Ep_Public \<Rightarrow> be_public be r sw
      | Ep_Download \<Rightarrow> be_download be r sw)"

text \<open>
  \<open>ServeMux\<close> works on the escaped path: an unclean one is redirected, then the endpoint, 405 for another method of
  a known path, or 404.
  The query string a redirect keeps and its short body are left out.
\<close>

definition mux_redirect :: "string \<Rightarrow> writer \<Rightarrow> writer" where
  "mux_redirect p w = (let w1 = set_header ''Location'' (escape_path p) w in or_keep w1 (write_header 301 w1))"

definition dash_mux :: "dash_env \<Rightarrow> 's backend \<Rightarrow> 's handler" where
  "dash_mux env be r sw =
     (let p = mux_clean (dq_escaped r) in
      if segments p = [[], ''static''] \<and> (dq_method r = ''GET'' \<or> dq_method r = ''HEAD'')
      then (fst sw, mux_redirect (mux_clean (dq_path r) @ ''/'') (snd sw))
      else if p \<noteq> dq_escaped r then (fst sw, mux_redirect p (snd sw))
      else case find_endpoint (dq_method r) p of
        Some ep \<Rightarrow> serve_endpoint env be ep r sw
      | None \<Rightarrow>
          (fst sw, if known_path p then writer_error ''Method Not Allowed'' 405 (snd sw) else not_found (snd sw)))"

definition dashboard :: "dash_env \<Rightarrow> 's backend \<Rightarrow> 's handler" where
  "dashboard env be = wrap env (dash_mux env be)"

end
