(* ===== verification/Dashboard_Safety.thy ===== *)
theory Dashboard_Safety
  imports Dashboard
begin

text \<open>
  What the guards of the dashboard give: no page of another site changes the node, because every endpoint that
  does lies behind the host, origin and token checks.
\<close>

definition admin_endpoints :: "endpoint list" where
  "admin_endpoints = [Ep_Block, Ep_Unblock, Ep_Setup, Ep_Rescan, Ep_Pause, Ep_Resume, Ep_Put_Settings, Ep_Create, Ep_Select]"

lemma call_query_state:
  "fst (query env f sw) = fst sw" "fst (reply_json env s v w) = s" "fst (bad_request sw) = fst sw" "fst (no_profiles sw) = fst sw"
  by (simp_all add: query_def reply_json_def bad_request_def no_profiles_def split: sum.split)

lemma read_endpoints:
  assumes "ep \<notin> set admin_endpoints" "ep \<noteq> Ep_Public" "ep \<noteq> Ep_Download"
  shows "fst (serve_endpoint env be ep r sw) = fst sw"
  using assms
  by (cases ep) (simp_all add: serve_endpoint_def admin_endpoints_def page_handler_def get_status_def get_files_def get_followers_def
      get_activity_def get_settings_def get_diagnostics_def get_profiles_def post_browse_def get_network_def call_query_state
      split_beta Let_def split: option.split sum.split)

text \<open>The routes of the endpoints that change the node: their methods and the second part of their paths.\<close>

lemma admin_routes:
  "list_all (\<lambda>(m, p, ep). ep \<in> set admin_endpoints \<longrightarrow> (m = ''POST'' \<or> m = ''PUT'') \<and> take 2 (split_on slash p) = [[], ''api''])
     (dash_routes @ public_routes)"
  by code_simp

lemma find_SomeD: "List.find P xs = Some x \<Longrightarrow> x \<in> set xs \<and> P x"
  by (induction xs) (auto split: if_splits)

lemma third_Some: "(case x of None \<Rightarrow> None | Some (_, _, e) \<Rightarrow> Some e) = Some ep \<Longrightarrow> \<exists>a b. x = Some (a, b, ep)"
  by (auto split: option.splits)

lemma find_endpoint_route:
  assumes "find_endpoint m path = Some ep" "ep \<in> set admin_endpoints"
  shows "\<exists>pm pp. (pm = ''POST'' \<or> pm = ''PUT'') \<and> take 2 (split_on slash pp) = [[], ''api''] \<and> match_method pm m \<and> match_path pp path"
proof -
  let ?f = "List.find (\<lambda>(pm, pp, _). match_method pm m \<and> match_path pp path) (dash_routes @ public_routes)"
  have "ep \<noteq> Ep_Static" "ep \<noteq> Ep_Home" using assms(2) by (auto simp: admin_endpoints_def)
  then have "(case ?f of None \<Rightarrow> None | Some (_, _, e) \<Rightarrow> Some e) = Some ep"
    using assms(1) unfolding find_endpoint_def by (metis option.inject)
  from third_Some [OF this] obtain pm pp where f: "?f = Some (pm, pp, ep)" by (elim exE)
  have r: "(pm, pp, ep) \<in> set (dash_routes @ public_routes)" using find_SomeD [OF f] by (rule conjunct1)
  have m: "match_method pm m \<and> match_path pp path" using find_SomeD [OF f, THEN conjunct2] by (simp only: prod.case)
  have "ep \<in> set admin_endpoints \<longrightarrow> (pm = ''POST'' \<or> pm = ''PUT'') \<and> take 2 (split_on slash pp) = [[], ''api'']"
    using bspec [OF admin_routes [unfolded list_all_iff] r] by (simp only: prod.case)
  then show ?thesis using m assms(2) by blast
qed

lemma match_second:
  assumes "match_path pp path" "take 2 (split_on slash pp) = [[], ''api'']"
  shows "\<exists>rest. segments path = [] # ''api'' # rest"
proof -
  obtain ps where ps: "split_on slash pp = [] # ''api'' # ps" using assms(2) by (cases "split_on slash pp"; cases "tl (split_on slash pp)") auto
  show ?thesis
    using assms(1) unfolding match_path_def ps
    by (cases "segments path"; cases "tl (segments path)") (auto simp: is_wildcard_def)
qed

lemma api_not_users:
  assumes "segments path = [] # ''api'' # rest"
  shows "\<not> has_prefix (unescaped path) ''/users/''"
proof
  assume "has_prefix (unescaped path) ''/users/''"
  then obtain x where x: "unescaped path = ''/users/'' @ x" by (auto simp: has_prefix_iff)
  from assms show False
  proof (cases rule: first_segment)
    case (3 u t)
    then have "split_on slash (u @ slash # t) = split_on slash (''users'' @ slash # x)" using x by simp
    then have "u = ''users''" using split_on_append [of slash u t] split_on_append [of slash "''users''" x] 3(2) by simp
    moreover have "unescaped ''users'' = ''users''" by code_simp
    ultimately show False using 3(3) by simp
  qed (use x in simp_all)
qed

lemma admin_guarded:
  assumes "find_endpoint (dq_method r) (dq_escaped r) = Some ep" "ep \<in> set admin_endpoints"
  shows "\<not> safe_method (dq_method r)" "\<not> is_inbox_post r"
proof -
  from find_endpoint_route [OF assms] obtain pm pp where
    p: "pm = ''POST'' \<or> pm = ''PUT''" "take 2 (split_on slash pp) = [[], ''api'']" "match_method pm (dq_method r)" "match_path pp (dq_escaped r)"
    by blast
  show "\<not> safe_method (dq_method r)" using p(1,3) by (auto simp: match_method_def safe_method_def)
  show "\<not> is_inbox_post r"
    using match_second [OF p(4,2)] api_not_users by (auto simp: is_inbox_post_def dq_path_def)
qed

lemma mux_changes:
  assumes "fst (dash_mux env be r sw) \<noteq> fst sw"
  shows "\<exists>ep. find_endpoint (dq_method r) (dq_escaped r) = Some ep \<and> (ep \<in> set admin_endpoints \<or> ep = Ep_Public \<or> ep = Ep_Download)"
proof -
  obtain ep where ep: "find_endpoint (dq_method r) (dq_escaped r) = Some ep" "fst (serve_endpoint env be ep r sw) \<noteq> fst sw"
    using assms by (auto simp: dash_mux_def Let_def split: if_splits option.splits)
  then show ?thesis using read_endpoints [where env = env and be = be and r = r and sw = sw] by blast
qed

lemma dashboard_guard:
  assumes "fst (dashboard env be r (s, w)) \<noteq> s"
  shows "local_request r" "find_endpoint (dq_method r) (dq_escaped r) \<in> {Some Ep_Public, Some Ep_Download} \<or>
    allowed_origin r \<and> valid_csrf (de_token env) r"
proof -
  show l: "local_request r" using assms by (auto simp: dashboard_def wrap_def split: if_splits)
  obtain w2 where "fst (dash_mux env be r (s, w2)) \<noteq> s"
    and g: "safe_method (dq_method r) \<or> is_inbox_post r \<or> allowed_origin r \<and> valid_csrf (de_token env) r"
    using assms l by (auto simp: dashboard_def wrap_def Let_def split: if_splits)
  then obtain ep where ep: "find_endpoint (dq_method r) (dq_escaped r) = Some ep"
    "ep \<in> set admin_endpoints \<or> ep = Ep_Public \<or> ep = Ep_Download"
    using mux_changes [of env be r "(s, w2)"] by auto
  show "find_endpoint (dq_method r) (dq_escaped r) \<in> {Some Ep_Public, Some Ep_Download} \<or> allowed_origin r \<and> valid_csrf (de_token env) r"
    using admin_guarded [OF ep(1)] ep g by auto
qed

section \<open>Properties\<close>

text \<open>
  C3. A request that changes the node through the dashboard names this computer in its \<open>Host\<close> and, unless it goes to
  one of the public endpoints, carries the CSRF token and, if it has an \<open>Origin\<close> header at all, names in it the
  dashboard's own origin: the host of the request under \<open>http\<close> or \<open>https\<close>. A request without the header is let
  through on the token alone.
\<close>

theorem dashboard_changes_authorised:
  assumes "dashboard env be r (s, w) = (s1, w1)" "s1 \<noteq> s"
  shows "local_request r \<and> (find_endpoint (dq_method r) (dq_escaped r) \<in> {Some Ep_Public, Some Ep_Download} \<or>
    valid_csrf (de_token env) r \<and>
    trim_space (header_get ''Origin'' (dq_header r)) \<in> {[], ''http://'' @ dq_host r, ''https://'' @ dq_host r})"
proof -
  have "fst (dashboard env be r (s, w)) \<noteq> s" using assms by simp
  from dashboard_guard [OF this] show ?thesis by (auto simp: allowed_origin_def Let_def)
qed

definition demo_backend :: "nat backend" where
  "demo_backend = \<lparr>be_snapshot = (\<lambda>_. zero_snapshot), be_config = (\<lambda>_. default_config), be_home = (\<lambda>_. []), be_url = (\<lambda>_. []),
     be_node_id = (\<lambda>_. []), be_setup = (\<lambda>_ s. (None, s)), be_settings = (\<lambda>_ s. (None, s)), be_pause = (\<lambda>s. (None, s + 1)),
     be_resume = (\<lambda>s. (None, s)), be_rescan = (\<lambda>s. (None, s)), be_files = (\<lambda>_. Inr []), be_followers = (\<lambda>_. Inr []),
     be_activity = (\<lambda>_. Inr []), be_block = (\<lambda>_ s. (None, s)), be_unblock = (\<lambda>_ s. (None, s)), be_network = None,
     be_profiles = None, be_select = (\<lambda>_ s. (None, s)), be_create = (\<lambda>_ s. (None, s)), be_public = (\<lambda>_ sw. sw),
     be_download = (\<lambda>_ sw. sw)\<rparr>"

definition demo_dash :: dash_env where
  "demo_dash = \<lparr>de_token = ''secret'', de_encode = (\<lambda>_. []), de_decode = (\<lambda>_. None), de_page = (\<lambda>_ _. None), de_static = (\<lambda>_ w. w),
     de_choose = (\<lambda>_. Inr None), de_key_file = (\<lambda>_. False), de_url = simple_url, de_runtime = ([], [], []), de_user_home = [],
     de_time = (\<lambda>_. []), de_suggested = []\<rparr>"

definition demo_pause :: dash_request where
  "demo_pause = \<lparr>dq_method = ''POST'', dq_escaped = ''/api/pause'', dq_host = ''localhost:17890'',
     dq_header = header_set ''Origin'' ''http://localhost:17890'' (header_set ''X-Csrf-Token'' ''secret'' Map.empty), dq_query = (\<lambda>_. []), dq_form_token = [], dq_body = []\<rparr>"

theorem dashboard_changes_authorised_witness:
  "fst (dashboard demo_dash demo_backend demo_pause (0, new_writer)) = 1 \<and> local_request demo_pause \<and>
   valid_csrf ''secret'' demo_pause \<and> trim_space (header_get ''Origin'' (dq_header demo_pause)) = ''http://localhost:17890''"
proof -
  have one: "fst (dashboard demo_dash demo_backend demo_pause (0, new_writer)) = 1" by code_simp
  then have ne: "fst (dashboard demo_dash demo_backend demo_pause (0, new_writer)) \<noteq> 0" by simp
  have "find_endpoint (dq_method demo_pause) (dq_escaped demo_pause) = Some Ep_Pause" "de_token demo_dash = ''secret''"
    "trim_space (header_get ''Origin'' (dq_header demo_pause)) = ''http://localhost:17890''" by code_simp+
  with dashboard_changes_authorised [OF surjective_pairing ne] one show ?thesis by simp
qed

end
