(* ===== verification/Network.thy ===== *)
theory Network
  imports Security Go_Utf8 Apperr Activity_Streams
begin

text \<open>
  \<open>internal/network\<close>: the directory of a gateway and the lookup of remote profiles. \<open>classify_query\<close> and
  \<open>split_acct\<close> are query.go, \<open>actor_from_document\<close> and \<open>plain_text\<close> directory.go, \<open>net_get\<close> up to
  \<open>resolve_query\<close> fetch.go. The state of the fetching functions is a \<open>net_log\<close>: the number of queries sent
  to the resolver and the addresses contacted.
\<close>

section \<open>Queries\<close>

datatype query_kind = Query_Empty | Query_Gateway | Query_Acct | Query_Actor | Query_Unknown

definition well_known_path :: string where "well_known_path = ''/.well-known/fedishare-network''"
definition type_directory :: string where "type_directory = ''FediShareNetwork''"
definition max_summary :: nat where "max_summary = 280"
definition max_dir_actors :: nat where "max_dir_actors = 500"
definition max_net_body :: nat where "max_net_body = 262144"

text \<open>The regular expression \<open>^[A-Za-z0-9_]{1,30}$\<close>.\<close>

definition username_re :: "string \<Rightarrow> bool" where
  "username_re u \<longleftrightarrow>
     1 \<le> length u \<and> length u \<le> 30 \<and> list_all (\<lambda>c. is_upper c \<or> is_lower c \<or> is_digit c \<or> c = CHR ''_'') u"

definition split_acct :: "string \<Rightarrow> (string \<times> string) option" where
  "split_acct raw0 =
     (case cut (CHR ''@'') (trim_space raw0) of (user0, host0, found) \<Rightarrow>
        if \<not> found \<or> user0 = [] \<or> host0 = [] then None
        else if contains user0 ''/'' \<or> contains host0 ''/'' then None
        else let user = to_lower user0; host = to_lower (trim_set {CHR ''['', CHR '']''} host0) in
          if \<not> username_re user \<or> host = [] then None else Some (user, host))"

definition acct_text :: "string \<times> string \<Rightarrow> string" where
  "acct_text uh = fst uh @ ''@'' @ snd uh"

definition url_base :: "url \<Rightarrow> string" where
  "url_base u = u_scheme u @ ''://'' @ u_host u"

definition classify_query_url :: "url_parser \<Rightarrow> string \<Rightarrow> query_kind \<times> string" where
  "classify_query_url parse q =
     (case parse q of
        None \<Rightarrow> (Query_Unknown, q)
      | Some u \<Rightarrow>
          if u_host u = [] then (Query_Unknown, q)
          else let path = trim_suffix (u_path u) ''/''; user = trim_prefix path ''/users/'' in
            if path = [] \<or> path = well_known_path then (Query_Gateway, url_base u)
            else if has_prefix path ''/users/'' \<and> user \<noteq> [] \<and> \<not> contains user ''/''
            then (Query_Actor, trim_suffix (url_base u @ path) ''/'')
            else (Query_Gateway, url_base u))"

definition classify_query :: "url_parser \<Rightarrow> string \<Rightarrow> query_kind \<times> string" where
  "classify_query parse q0 =
     (let q1 = trim_space q0 in
      if q1 = [] then (Query_Empty, [])
      else let q = trim_prefix q1 ''@''; lower = to_lower q in
        if has_prefix lower ''acct:'' then
          (case split_acct (trim_space (drop (length ''acct:'') q)) of
             Some uh \<Rightarrow> (Query_Acct, acct_text uh) | None \<Rightarrow> (Query_Unknown, q))
        else if has_prefix lower ''http://'' \<or> has_prefix lower ''https://'' then classify_query_url parse q
        else (case split_acct q of
            Some uh \<Rightarrow> (Query_Acct, acct_text uh)
          | None \<Rightarrow> if username_re q then (Query_Acct, to_lower q) else (Query_Unknown, q)))"

section \<open>Profiles\<close>

record net_actor =
  na_username :: string
  na_acct :: string
  na_name :: string
  na_summary :: string
  na_url :: string
  na_online :: bool

definition zero_actor :: net_actor where
  "zero_actor = \<lparr>na_username = [], na_acct = [], na_name = [], na_summary = [], na_url = [], na_online = False\<rparr>"

record directory =
  dir_type :: string
  dir_gateway :: string
  dir_query :: string
  dir_hint :: string
  dir_actors :: "net_actor list"

definition zero_directory :: directory where
  "zero_directory = \<lparr>dir_type = [], dir_gateway = [], dir_query = [], dir_hint = [], dir_actors = []\<rparr>"

definition host_from_base :: "url_parser \<Rightarrow> string \<Rightarrow> string" where
  "host_from_base parse raw0 =
     (let raw = trim_space raw0 in
      if raw = [] then []
      else case parse (if \<not> contains raw ''://'' then ''https://'' @ raw else raw) of
        None \<Rightarrow> []
      | Some u \<Rightarrow> to_lower (u_host u))"

definition acct_for :: "url_parser \<Rightarrow> string \<Rightarrow> string \<Rightarrow> string" where
  "acct_for parse username base =
     (let host = host_from_base parse base in
      if username = [] \<or> host = [] then username else username @ ''@'' @ host)"

text \<open>The loop over the runes, with the flag that says whether it is inside a tag.\<close>

fun strip_tags :: "bool \<Rightarrow> nat list \<Rightarrow> string" where
  "strip_tags inside [] = []"
| "strip_tags inside (r # rs) =
     (if r = 60 then strip_tags True rs
      else if r = 62 then strip_tags False rs
      else if inside then strip_tags inside rs
      else encode_rune r @ strip_tags inside rs)"

text \<open>\<open>unescape\<close> is \<open>html.UnescapeString\<close>.\<close>

definition plain_text :: "(string \<Rightarrow> string) \<Rightarrow> string \<Rightarrow> string" where
  "plain_text unescape s =
     (let out = join '' '' (Go_Strings.fields (strip_tags False (runes (unescape s)))) in
      if length out > max_summary then trim_space (take max_summary out) else out)"

text \<open>
  The world the client runs in: its policy and network, what the server at an address answers to a request
  with an \<open>Accept\<close> header, \<open>encoding/json\<close>, \<open>html.UnescapeString\<close>, and the texts of network errors.
\<close>

record net_env =
  ne_policy :: policy
  ne_net :: net
  ne_serve :: "string \<Rightarrow> ip \<Rightarrow> url \<Rightarrow> answer option"
  ne_parse :: "string \<Rightarrow> json option"
  ne_unescape :: "string \<Rightarrow> string"
  ne_error_text :: "ssrf_error \<Rightarrow> string"

abbreviation ne_url :: "net_env \<Rightarrow> url_parser" where
  "ne_url env \<equiv> parse_url (ne_net env)"

text \<open>The anonymous struct of \<open>ActorFromDocument\<close>: all five fields or an error.\<close>

definition profile_fields :: "(string \<Rightarrow> json option) \<Rightarrow> string \<Rightarrow> (string \<times> string \<times> string \<times> string \<times> string) option" where
  "profile_fields parse raw =
     (case decode_map parse raw of
        None \<Rightarrow> None
      | Some m \<Rightarrow>
          (case (string_field ''name'' m [], string_field ''preferredUsername'' m [], string_field ''summary'' m [],
                 string_field ''id'' m [], string_field ''url'' m []) of
             (Some n, Some p, Some s, Some i, Some u) \<Rightarrow> Some (n, p, s, i, u)
           | _ \<Rightarrow> None))"

definition actor_from_document :: "net_env \<Rightarrow> string \<Rightarrow> string \<Rightarrow> string \<Rightarrow> bool \<Rightarrow> net_actor" where
  "actor_from_document env username0 public_base raw on =
     (let username = to_lower (trim_space username0);
          base = trim_right_set {CHR ''/''} (trim_space public_base);
          a = \<lparr>na_username = username, na_acct = acct_for (ne_url env) username base, na_name = username, na_summary = [],
               na_url = base @ ''/users/'' @ username, na_online = on\<rparr> in
      if raw = [] then a
      else case profile_fields (ne_parse env) raw of
        None \<Rightarrow> a
      | Some (n, p, s, i, u) \<Rightarrow>
          let a1 = (if trim_space n \<noteq> [] then a\<lparr>na_name := trim_space n\<rparr>
                    else if trim_space p \<noteq> [] then a\<lparr>na_name := trim_space p\<rparr> else a);
              a2 = a1\<lparr>na_summary := plain_text (ne_unescape env) s\<rparr> in
          (if trim_space u \<noteq> [] then a2\<lparr>na_url := trim_space u\<rparr>
           else if trim_space i \<noteq> [] then a2\<lparr>na_url := trim_space i\<rparr> else a2))"

section \<open>Fetching\<close>

record net_log =
  nl_queries :: nat
  nl_contacted :: "ip list"

definition net_get :: "net_env \<Rightarrow> string \<Rightarrow> string \<Rightarrow> net_log \<Rightarrow> (go_error + string) \<times> net_log" where
  "net_get env raw accept l =
     (case check_url (ne_policy env) (ne_net env) raw of
        Some e \<Rightarrow> (Inl (Plain (ne_error_text env e)), l)
      | None \<Rightarrow>
          (case ne_url env raw of
             None \<Rightarrow> (Inl (Plain ''invalid request URL''), l)
           | Some u \<Rightarrow>
               (case client_do (ne_policy env) (ne_net env) (ne_serve env accept) u (nl_queries l) of
                  (res, contacted, n) \<Rightarrow>
                    (case res of
                       Inl e \<Rightarrow> Inl (Plain (ne_error_text env e))
                     | Inr a \<Rightarrow>
                         (case an_body a of
                            None \<Rightarrow> Inl (Plain ''unreadable body'')
                          | Some b \<Rightarrow>
                              if length b > max_net_body then Inl (Plain ''response too large'')
                              else if an_status a \<noteq> 200 then Inl (Plain (''HTTP '' @ itoa (nat (an_status a))))
                              else Inr b),
                     l\<lparr>nl_queries := n, nl_contacted := nl_contacted l @ contacted\<rparr>))))"

text \<open>\<open>json.Unmarshal\<close> into the fields of an actor, the slice of actors, and the directory.\<close>

definition decode_net_actor :: "json \<Rightarrow> net_actor \<Rightarrow> net_actor option" where
  "decode_net_actor v a =
     (case v of
        JNull \<Rightarrow> Some a
      | JObj m \<Rightarrow>
          (case (string_field ''username'' m (na_username a), string_field ''acct'' m (na_acct a), string_field ''name'' m (na_name a),
                 string_field ''summary'' m (na_summary a), string_field ''url'' m (na_url a), bool_field ''online'' m (na_online a)) of
             (Some us, Some ac, Some n, Some s, Some u, Some on) \<Rightarrow>
               Some \<lparr>na_username = us, na_acct = ac, na_name = n, na_summary = s, na_url = u, na_online = on\<rparr>
           | _ \<Rightarrow> None)
      | _ \<Rightarrow> None)"

text \<open>An array decoded into a slice reuses the elements of its backing store.\<close>

fun decode_slice :: "json list \<Rightarrow> net_actor list \<Rightarrow> net_actor list option" where
  "decode_slice [] backing = Some []"
| "decode_slice (v # vs) backing =
     (case (decode_net_actor v (case backing of [] \<Rightarrow> zero_actor | a # _ \<Rightarrow> a), decode_slice vs (tl backing)) of
        (Some a, Some as) \<Rightarrow> Some (a # as)
      | _ \<Rightarrow> None)"

fun actors_field :: "(string \<times> json) list \<Rightarrow> net_actor list \<Rightarrow> net_actor list \<Rightarrow> net_actor list option" where
  "actors_field [] cur backing = Some cur"
| "actors_field ((k, v) # m) cur backing =
     (if equal_fold k ''actors'' then
        (case v of
           JArr vs \<Rightarrow>
             (case decode_slice vs backing of
                None \<Rightarrow> None
              | Some as \<Rightarrow> actors_field m as (if vs = [] then [] else as @ drop (length as) backing))
         | JNull \<Rightarrow> actors_field m [] []
         | _ \<Rightarrow> None)
      else actors_field m cur backing)"

definition decode_directory :: "json \<Rightarrow> directory option" where
  "decode_directory v =
     (case v of
        JNull \<Rightarrow> Some zero_directory
      | JObj m \<Rightarrow>
          (case (string_field ''type'' m [], string_field ''gateway'' m [], string_field ''query'' m [],
                 string_field ''hint'' m [], actors_field m [] []) of
             (Some t, Some g, Some q, Some h, Some as) \<Rightarrow>
               Some \<lparr>dir_type = t, dir_gateway = g, dir_query = q, dir_hint = h, dir_actors = as\<rparr>
           | _ \<Rightarrow> None)
      | _ \<Rightarrow> None)"

definition not_gateway :: go_error where
  "not_gateway = new_error Kind_Federation ''This host is not a FediShare gateway.''"

definition no_gateway_hint :: string where
  "no_gateway_hint = ''Set a gateway URL in Settings to see other FediShare users.''"

definition bad_query :: go_error where
  "bad_query = new_error Kind_Config ''Enter a gateway URL or an @user@host address.''"

definition wrapped :: "err_kind \<Rightarrow> string \<Rightarrow> go_error \<Rightarrow> go_error" where
  "wrapped k msg e = the (wrap_error k msg (Some e))"

definition fetch_directory :: "net_env \<Rightarrow> string \<Rightarrow> net_log \<Rightarrow> (go_error + directory) \<times> net_log" where
  "fetch_directory env gateway l =
     (let base = trim_right_set {CHR ''/''} (trim_space gateway) in
      if base = [] then (Inl (new_error Kind_Config no_gateway_hint), l)
      else case net_get env (base @ well_known_path) ''application/json'' l of
        (Inl e, l1) \<Rightarrow> (Inl (wrapped Kind_Network ''Could not reach that FediShare gateway.'' e), l1)
      | (Inr raw, l1) \<Rightarrow>
          (case Option.bind (ne_parse env raw) decode_directory of
             None \<Rightarrow> (Inl not_gateway, l1)
           | Some d \<Rightarrow>
               if dir_type d \<noteq> [] \<and> dir_type d \<noteq> type_directory then (Inl not_gateway, l1)
               else (Inr (d\<lparr>dir_type := type_directory, dir_gateway := (if dir_gateway d = [] then base else dir_gateway d),
                            dir_actors := take max_dir_actors (dir_actors d)\<rparr>), l1)))"

definition actor_accept :: string where
  "actor_accept = ''application/activity+json, application/ld+json, application/json''"

definition lookup_actor_url :: "net_env \<Rightarrow> string \<Rightarrow> net_log \<Rightarrow> (go_error + net_actor) \<times> net_log" where
  "lookup_actor_url env aurl l =
     (case net_get env aurl actor_accept l of
        (Inl e, l1) \<Rightarrow> (Inl (wrapped Kind_Network ''Could not load that profile.'' e), l1)
      | (Inr raw, l1) \<Rightarrow>
          (let base = (case ne_url env aurl of Some u \<Rightarrow> url_base u | None \<Rightarrow> aurl);
               username = (case ne_url env aurl of
                   Some u \<Rightarrow> let path = trim_suffix (u_path u) ''/'' in
                     if has_prefix path ''/users/'' then trim_prefix path ''/users/'' else []
                 | None \<Rightarrow> []);
               a0 = actor_from_document env username base raw False;
               a = (if na_url a0 = [] then a0\<lparr>na_url := aurl\<rparr> else a0) in
           if na_username a = [] \<or> (na_name a = [] \<and> na_url a = [])
           then (Inl (new_error Kind_Federation ''That address is not a public profile.''), l1)
           else (Inr a, l1)))"

text \<open>The links of a WebFinger answer: relation, media type, target.\<close>

definition decode_link :: "json \<Rightarrow> (string \<times> string \<times> string) \<Rightarrow> (string \<times> string \<times> string) option" where
  "decode_link v lk =
     (case v of
        JNull \<Rightarrow> Some lk
      | JObj m \<Rightarrow>
          (case lk of (r, t, h) \<Rightarrow>
             (case (string_field ''rel'' m r, string_field ''type'' m t, string_field ''href'' m h) of
                (Some r1, Some t1, Some h1) \<Rightarrow> Some (r1, t1, h1) | _ \<Rightarrow> None))
      | _ \<Rightarrow> None)"

fun decode_links :: "json list \<Rightarrow> (string \<times> string \<times> string) list \<Rightarrow> (string \<times> string \<times> string) list option" where
  "decode_links [] backing = Some []"
| "decode_links (v # vs) backing =
     (case (decode_link v (case backing of [] \<Rightarrow> ([], [], []) | a # _ \<Rightarrow> a), decode_links vs (tl backing)) of
        (Some a, Some as) \<Rightarrow> Some (a # as)
      | _ \<Rightarrow> None)"

fun links_field ::
  "(string \<times> json) list \<Rightarrow> (string \<times> string \<times> string) list \<Rightarrow> (string \<times> string \<times> string) list \<Rightarrow>
   (string \<times> string \<times> string) list option" where
  "links_field [] cur backing = Some cur"
| "links_field ((k, v) # m) cur backing =
     (if equal_fold k ''links'' then
        (case v of
           JArr vs \<Rightarrow>
             (case decode_links vs backing of
                None \<Rightarrow> None
              | Some as \<Rightarrow> links_field m as (if vs = [] then [] else as @ drop (length as) backing))
         | JNull \<Rightarrow> links_field m [] []
         | _ \<Rightarrow> None)
      else links_field m cur backing)"

fun pick_href :: "(string \<times> string \<times> string) list \<Rightarrow> string \<Rightarrow> string" where
  "pick_href [] html = html"
| "pick_href ((rel, typ1, href) # ls) html =
     (if href = [] then pick_href ls html
      else if rel = ''self'' \<and> contains typ1 ''activity'' then href
      else pick_href ls (if rel = ''http://webfinger.net/rel/profile-page'' then href else html))"

definition actor_href_from_jrd :: "(string \<Rightarrow> json option) \<Rightarrow> string \<Rightarrow> string" where
  "actor_href_from_jrd parse raw =
     (case decode_map parse raw of
        None \<Rightarrow> []
      | Some m \<Rightarrow> (case links_field m [] [] of None \<Rightarrow> [] | Some ls \<Rightarrow> pick_href ls []))"

text \<open>\<open>url.QueryEscape\<close>, byte by byte.\<close>

definition hex_upper :: "nat \<Rightarrow> char" where
  "hex_upper n = (if n < 10 then char_of (48 + n) else char_of (55 + n))"

definition query_escape_char :: "char \<Rightarrow> string" where
  "query_escape_char c =
     (if is_upper c \<or> is_lower c \<or> is_digit c \<or> c \<in> {CHR ''-'', CHR ''_'', CHR ''.'', CHR ''~''} then [c]
      else if c = CHR '' '' then ''+''
      else [CHR ''%'', hex_upper (byte c div 16), hex_upper (byte c mod 16)])"

definition query_escape :: "string \<Rightarrow> string" where
  "query_escape s = concat (map query_escape_char s)"

definition webfinger_url :: "string \<Rightarrow> string \<times> string \<Rightarrow> string" where
  "webfinger_url scheme uh =
     scheme @ ''://'' @ snd uh @ ''/.well-known/webfinger?resource='' @ query_escape (''acct:'' @ acct_text uh)"

text \<open>The loop of \<open>LookupAcct\<close> over the schemes, with the last error.\<close>

fun lookup_schemes ::
  "net_env \<Rightarrow> string list \<Rightarrow> string \<times> string \<Rightarrow> go_error option \<Rightarrow> net_log \<Rightarrow> (go_error + net_actor) \<times> net_log" where
  "lookup_schemes env [] uh last_err l =
     (Inl (case last_err of
         Some e \<Rightarrow> wrapped Kind_Network ''Could not find that account.'' e
       | None \<Rightarrow> new_error Kind_Federation ''Could not find that account.''), l)"
| "lookup_schemes env (scheme # ss) uh last_err l =
     (case net_get env (webfinger_url scheme uh) ''application/jrd+json, application/json'' l of
        (Inl e, l1) \<Rightarrow> lookup_schemes env ss uh (Some e) l1
      | (Inr raw, l1) \<Rightarrow>
          (let href0 = actor_href_from_jrd (ne_parse env) raw;
               href = (if href0 = [] then scheme @ ''://'' @ snd uh @ ''/users/'' @ fst uh else href0) in
           case lookup_actor_url env href l1 of
             (Inl e, l2) \<Rightarrow> lookup_schemes env ss uh (Some e) l2
           | (Inr a, l2) \<Rightarrow>
               (let a1 = (if na_username a = [] then a\<lparr>na_username := fst uh\<rparr> else a);
                    a2 = (if na_acct a1 = [] then a1\<lparr>na_acct := acct_text uh\<rparr> else a1) in
                (Inr a2, l2))))"

definition lookup_acct :: "net_env \<Rightarrow> string \<Rightarrow> net_log \<Rightarrow> (go_error + net_actor) \<times> net_log" where
  "lookup_acct env acct l =
     (case split_acct acct of
        None \<Rightarrow> (Inl bad_query, l)
      | Some uh \<Rightarrow> lookup_schemes env [''https'', ''http''] uh None l)"

definition single_directory :: "net_env \<Rightarrow> string \<Rightarrow> net_actor \<Rightarrow> directory" where
  "single_directory env query a =
     \<lparr>dir_type = type_directory, dir_gateway = ''https://'' @ host_from_base (ne_url env) (na_url a), dir_query = query,
      dir_hint = [], dir_actors = [a]\<rparr>"

definition resolve_query :: "net_env \<Rightarrow> string \<Rightarrow> string \<Rightarrow> net_log \<Rightarrow> (go_error + directory) \<times> net_log" where
  "resolve_query env query home l =
     (case classify_query (ne_url env) query of (kind, v) \<Rightarrow>
        (case kind of
           Query_Empty \<Rightarrow>
             if trim_space home = [] then (Inr (zero_directory\<lparr>dir_type := type_directory, dir_hint := no_gateway_hint\<rparr>), l)
             else fetch_directory env home l
         | Query_Gateway \<Rightarrow> apfst (map_sum id (\<lambda>d. d\<lparr>dir_query := query\<rparr>)) (fetch_directory env v l)
         | Query_Acct \<Rightarrow>
             (let host = host_from_base (ne_url env) home in
              if \<not> contains v ''@'' \<and> host = []
              then (Inl (new_error Kind_Config ''Enter a full @user@host address or a gateway URL.''), l)
              else apfst (map_sum id (single_directory env query))
                     (lookup_acct env (if \<not> contains v ''@'' then v @ ''@'' @ host else v) l))
         | Query_Actor \<Rightarrow> apfst (map_sum id (single_directory env query)) (lookup_actor_url env v l)
         | Query_Unknown \<Rightarrow> (Inl bad_query, l)))"

section \<open>The document\<close>

definition net_actor_json :: "net_actor \<Rightarrow> json" where
  "net_actor_json a = JObj
     ([(''username'', JStr (na_username a)), (''acct'', JStr (na_acct a))] @ opt_field (na_name a \<noteq> []) ''name'' (JStr (na_name a)) @
      opt_field (na_summary a \<noteq> []) ''summary'' (JStr (na_summary a)) @
      [(''url'', JStr (na_url a)), (''online'', JBool (na_online a))])"

definition directory_json :: "directory \<Rightarrow> json" where
  "directory_json d = JObj
     ([(''type'', JStr (dir_type d)), (''gateway'', JStr (dir_gateway d))] @
      opt_field (dir_query d \<noteq> []) ''query'' (JStr (dir_query d)) @ opt_field (dir_hint d \<noteq> []) ''hint'' (JStr (dir_hint d)) @
      [(''actors'', JArr (map net_actor_json (dir_actors d)))])"

end
