(* ===== verification/Network_Facts.thy ===== *)
theory Network_Facts
  imports Network
begin

text \<open>
  Facts about \<open>internal/network\<close>: whom a lookup contacts, what is left of a remote profile's summary, the
  directory document read back, and the bounds of a fetched directory.
\<close>

section \<open>Contacts\<close>

text \<open>From one log to a later one at most \<open>k\<close> servers were contacted, all of them allowed by the policy.\<close>

definition log_grows :: "net_env \<Rightarrow> nat \<Rightarrow> net_log \<Rightarrow> net_log \<Rightarrow> bool" where
  "log_grows env k l l1 \<longleftrightarrow>
     (\<exists>cs. nl_contacted l1 = nl_contacted l @ cs \<and> list_all (\<lambda>i. \<not> blocked_ip (ne_policy env) (Some i)) cs \<and> length cs \<le> k)"

lemma log_grows_refl [simp]: "log_grows env k l l"
  by (simp add: log_grows_def exI [of _ "[]"])

lemma log_grows_trans: "log_grows env j l l1 \<Longrightarrow> log_grows env k l1 l2 \<Longrightarrow> log_grows env (j + k) l l2"
  unfolding log_grows_def by (elim exE) (rule_tac x = "cs @ csa" in exI, auto)

lemma log_grows_le: "log_grows env j l l1 \<Longrightarrow> j \<le> k \<Longrightarrow> log_grows env k l l1"
  unfolding log_grows_def by fastforce

lemma net_get_grows:
  assumes "stable (ne_net env)" "net_get env raw accept l = (res, l1)"
  shows "log_grows env 3 l l1"
proof (cases "check_url (ne_policy env) (ne_net env) raw")
  case (Some e)
  then show ?thesis using assms(2) by (simp add: net_get_def)
next
  case None
  show ?thesis
  proof (cases "ne_url env raw")
    case None
    then show ?thesis using assms(2) \<open>check_url _ _ raw = None\<close> by (simp add: net_get_def)
  next
    case (Some u)
    obtain r cs n where c: "client_do (ne_policy env) (ne_net env) (ne_serve env accept) u (nl_queries l) = (r, cs, n)"
      by (metis prod_cases3)
    have "list_all (\<lambda>i. \<not> blocked_ip (ne_policy env) (Some i)) cs \<and> length cs + 0 \<le> max 3 (0 + 1)"
      using client_loop_allowed [OF assms(1)] c unfolding client_do_def by blast
    moreover have "nl_contacted l1 = nl_contacted l @ cs"
      using assms(2) None Some c by (auto simp: net_get_def)
    ultimately show ?thesis by (auto simp: log_grows_def)
  qed
qed

lemma lookup_actor_grows:
  assumes "stable (ne_net env)" "lookup_actor_url env aurl l = (res, l1)"
  shows "log_grows env 3 l l1"
proof -
  obtain g l2 where g: "net_get env aurl actor_accept l = (g, l2)" by fastforce
  have "l1 = l2" using assms(2) g by (auto simp: lookup_actor_url_def Let_def split: sum.splits if_splits)
  then show ?thesis using net_get_grows [OF assms(1) g] by simp
qed

lemma lookup_schemes_grows:
  assumes "stable (ne_net env)" "lookup_schemes env ss uh e l = (res, l1)"
  shows "log_grows env (6 * length ss) l l1"
  using assms(2)
proof (induction ss arbitrary: e l)
  case (Cons s ss)
  obtain g l2 where g: "net_get env (webfinger_url s uh) ''application/jrd+json, application/json'' l = (g, l2)" by fastforce
  note first = net_get_grows [OF assms(1) g]
  show ?case
  proof (cases g)
    case (Inl x)
    then have "lookup_schemes env ss uh (Some x) l2 = (res, l1)" using Cons.prems g by simp
    from log_grows_trans [OF first Cons.IH [OF this]] show ?thesis by (rule log_grows_le) simp
  next
    case (Inr raw)
    define href where "href = (let h = actor_href_from_jrd (ne_parse env) raw in
        if h = [] then s @ ''://'' @ snd uh @ ''/users/'' @ fst uh else h)"
    obtain r l3 where r: "lookup_actor_url env href l2 = (r, l3)" by fastforce
    note both = log_grows_trans [OF first lookup_actor_grows [OF assms(1) r]]
    show ?thesis
    proof (cases r)
      case (Inl x)
      then have "lookup_schemes env ss uh (Some x) l3 = (res, l1)" using Cons.prems g Inr r by (simp add: href_def Let_def)
      from log_grows_trans [OF both Cons.IH [OF this]] show ?thesis by simp
    next
      case (Inr a)
      then have "l1 = l3" using Cons.prems g \<open>g = Inr raw\<close> r by (simp add: href_def Let_def)
      with both show ?thesis by (simp add: log_grows_le [OF both])
    qed
  qed
qed simp

lemma fetch_directory_grows:
  assumes "stable (ne_net env)" "fetch_directory env gw l = (res, l1)"
  shows "log_grows env 3 l l1"
proof -
  define base where "base = trim_right_set {CHR ''/''} (trim_space gw)"
  obtain g l2 where g: "net_get env (base @ well_known_path) ''application/json'' l = (g, l2)" by fastforce
  have "l1 = l2 \<or> l1 = l"
    using assms(2) g by (auto simp: fetch_directory_def base_def [symmetric] Let_def split: sum.splits if_splits option.splits)
  then show ?thesis using net_get_grows [OF assms(1) g] by auto
qed

lemma resolve_grows:
  assumes st: "stable (ne_net env)" and r: "resolve_query env q home l = (res, l1)"
  shows "log_grows env 12 l l1"
proof -
  obtain k v where k: "classify_query (ne_url env) q = (k, v)" by fastforce
  have dir: "log_grows env 12 l (snd (fetch_directory env g l))" for g
    using fetch_directory_grows [OF st surjective_pairing] by (rule log_grows_le) simp
  have url: "log_grows env 12 l (snd (lookup_actor_url env g l))" for g
    using lookup_actor_grows [OF st surjective_pairing] by (rule log_grows_le) simp
  have acct: "log_grows env 12 l (snd (lookup_acct env g l))" for g
    using lookup_schemes_grows [OF st surjective_pairing, of "[''https'', ''http'']"]
    by (auto simp: lookup_acct_def split: option.split)
  have "l1 = snd (resolve_query env q home l)" using r by simp
  then show ?thesis using dir url acct
    by (cases k) (simp_all add: resolve_query_def k Let_def)
qed

section \<open>Summaries\<close>

lemma strip_tags_clean: "c \<in> set (strip_tags b rs) \<Longrightarrow> c \<noteq> CHR ''<'' \<and> c \<noteq> CHR ''>''"
proof (induction b rs rule: strip_tags.induct)
  case (2 b r rs)
  have "c \<noteq> CHR ''<'' \<and> c \<noteq> CHR ''>''" if "c \<in> set (encode_rune r)" "r \<noteq> 60" "r \<noteq> 62"
  proof (cases "r < 128")
    case True
    then have "c = char_of r" using that(1) by (simp add: encode_ascii)
    then have "byte c = r" using True by simp
    moreover have "byte (CHR ''<'') = 60" "byte (CHR ''>'') = 62" by code_simp+
    ultimately show ?thesis using that by auto
  next
    case False
    then have "128 \<le> byte c" using encode_high [OF _ that(1)] by simp
    moreover have "byte (CHR ''<'') = 60" "byte (CHR ''>'') = 62" by code_simp+
    ultimately show ?thesis by auto
  qed
  with "2.IH" "2.prems" show ?case by (auto split: if_splits)
qed simp

lemma fields_words: "w \<in> set (Go_Strings.fields s) \<Longrightarrow> set w \<subseteq> {c \<in> set s. \<not> is_space c}"
proof (induction s rule: fields.induct)
  case (1 s)
  show ?case
  proof (cases "trim_left s")
    case Nil
    then have "Go_Strings.fields s = []" by (subst fields.simps) simp
    then show ?thesis using "1.prems" by simp
  next
    case (Cons c t)
    have sub: "set (c # t) \<subseteq> set s" using Cons unfolding trim_left_def by (metis set_dropWhileD subsetI)
    have "\<not> is_space c" using trim_left_hd [of s] Cons by simp
    moreover have "Go_Strings.fields s = (c # takeWhile (\<lambda>d. \<not> is_space d) t) # Go_Strings.fields (dropWhile (\<lambda>d. \<not> is_space d) t)"
      using Cons by (subst fields.simps) simp
    ultimately consider "w = c # takeWhile (\<lambda>d. \<not> is_space d) t" | "w \<in> set (Go_Strings.fields (dropWhile (\<lambda>d. \<not> is_space d) t))"
      using "1.prems" by auto
    then show ?thesis
    proof cases
      case 1
      then show ?thesis using sub \<open>\<not> is_space c\<close> by (auto dest: set_takeWhileD)
    next
      case 2
      from "1.IH" [OF Cons this] show ?thesis using sub by (auto dest: set_dropWhileD)
    qed
  qed
qed

lemma join_chars: "c \<in> set (join sep ws) \<Longrightarrow> c \<in> set sep \<or> (\<exists>w \<in> set ws. c \<in> set w)"
  by (induction sep ws rule: join.induct) auto

lemma trim_space_sub: "set (trim_space s) \<subseteq> set s" "length (trim_space s) \<le> length s"
proof -
  have "length (trim_right (trim_left s)) \<le> length s"
    unfolding trim_right_def trim_left_def by (metis length_dropWhile_le length_rev order_trans)
  then show "length (trim_space s) \<le> length s" by (simp add: trim_space_def)
  show "set (trim_space s) \<subseteq> set s"
    unfolding trim_space_def trim_right_def trim_left_def by (metis set_dropWhileD set_rev subsetI)
qed

lemma plain_text_chars:
  "c \<in> set (plain_text unescape s) \<Longrightarrow> c \<noteq> CHR ''<'' \<and> c \<noteq> CHR ''>'' \<and> (is_space c \<longrightarrow> c = CHR '' '')"
proof -
  define out where "out = join '' '' (Go_Strings.fields (strip_tags False (runes (unescape s))))"
  assume "c \<in> set (plain_text unescape s)"
  then have "c \<in> set out"
    using trim_space_sub(1) [of "take max_summary out"] set_take_subset [of max_summary out]
    by (auto simp: plain_text_def out_def [symmetric] Let_def split: if_splits)
  then consider "c = CHR '' ''" | w where "w \<in> set (Go_Strings.fields (strip_tags False (runes (unescape s))))" "c \<in> set w"
    unfolding out_def using join_chars by fastforce
  then show ?thesis
  proof cases
    case 2
    then have "c \<in> set (strip_tags False (runes (unescape s)))" "\<not> is_space c" using fields_words by blast+
    then show ?thesis using strip_tags_clean by blast
  qed simp
qed

lemma plain_text_length: "length (plain_text unescape s) \<le> max_summary"
  using trim_space_sub(2) [of "take max_summary _"]
  by (auto simp: plain_text_def Let_def intro: order_trans)

lemma actor_summary: "na_summary (actor_from_document env u b raw on) = [] \<or>
    (\<exists>s. na_summary (actor_from_document env u b raw on) = plain_text (ne_unescape env) s)"
  by (auto simp: actor_from_document_def Let_def split: option.split)

section \<open>The document\<close>

lemma string_field_Cons:
  "string_field name ((k, v) # m) cur =
     (if equal_fold k name then (case v of JStr s \<Rightarrow> string_field name m s | JNull \<Rightarrow> string_field name m cur | _ \<Rightarrow> None)
      else string_field name m cur)"
  by simp

lemma actor_decoded: "decode_net_actor (net_actor_json a) zero_actor = Some a"
proof -
  show ?thesis
    by (cases "na_name a = []"; cases "na_summary a = []")
      (simp_all add: decode_net_actor_def net_actor_json_def opt_field_def zero_actor_def equal_fold_def to_lower_def lower_char_def
        is_upper_def byte_def)
qed

lemma slice_decoded: "decode_slice (map net_actor_json as) [] = Some as"
  by (induction as) (simp_all add: actor_decoded)

lemma directory_decoded: "decode_directory (directory_json d) = Some d"
  by (cases "dir_query d = []"; cases "dir_hint d = []")
    (simp_all add: decode_directory_def directory_json_def opt_field_def equal_fold_def to_lower_def lower_char_def
        is_upper_def byte_def slice_decoded)

end
