(* ===== verification/Gateway_Directory.thy ===== *)
theory Gateway_Directory
  imports Network_Facts Gateway "HOL-Library.Multiset"
begin

text \<open>
  \<open>internal/gateway/network.go\<close>: the public directory of a gateway, and its way to the client that fetches it.
\<close>

definition gateway_base :: "string \<Rightarrow> bool \<Rightarrow> string \<Rightarrow> string" where
  "gateway_base public_url tls host =
     (if public_url \<noteq> [] then trim_right_set {CHR ''/''} public_url
      else (if tls then ''https'' else ''http'') @ ''://'' @ host)"

definition network_directory ::
  "net_env \<Rightarrow> gw_env \<Rightarrow> string \<Rightarrow> gw_db \<Rightarrow> sessions \<Rightarrow> gw_error + directory" where
  "network_directory env genv base db sess =
     (case list_actors genv (int max_dir_actors) db of
        Inl e \<Rightarrow> Inl e
      | Inr rows \<Rightarrow>
          Inr (zero_directory\<lparr>dir_type := type_directory, dir_gateway := base,
            dir_actors := map (\<lambda>r. actor_from_document env (gw_user r) base (gw_actor r) (online sess (gw_user r))) rows\<rparr>))"

definition network_handler ::
  "net_env \<Rightarrow> gw_env \<Rightarrow> (json \<Rightarrow> string) \<Rightarrow> string \<Rightarrow> gw_db \<Rightarrow> sessions \<Rightarrow> writer \<Rightarrow> writer" where
  "network_handler env genv enc base db sess w =
     (case network_directory env genv base db sess of
        Inl e \<Rightarrow> writer_error ''directory unavailable'' 500 w
      | Inr d \<Rightarrow>
          let w1 = set_header ''Cache-Control'' ''public, max-age=15''
                (set_header ''Content-Type'' ''application/json; charset=utf-8'' w) in
          or_keep w1 (write_data (enc (directory_json d) @ [CHR 0x0A]) w1))"

section \<open>Facts\<close>

lemma map_sort_key: "map f (sort_key f xs) = sort (map f xs)"
  by (rule properties_for_sort [symmetric]) simp_all

lemma actor_username: "na_username (actor_from_document env u base raw on) = user_key u"
  "na_online (actor_from_document env u base raw on) = on"
  by (auto simp: actor_from_document_def user_key_def Let_def split: option.split)

lemma directory_users:
  assumes "gw_ok db" "network_directory env genv base db sess = Inr d"
  shows "map (\<lambda>a. (na_username a, na_online a)) (dir_actors d) =
    map (\<lambda>u. (u, online sess u)) (take max_dir_actors (sort (map gw_user (gw_actors db))))"
proof -
  define rows where "rows = take max_dir_actors (sort_key gw_user (gw_actors db))"
  have d: "dir_actors d = map (\<lambda>r. actor_from_document env (gw_user r) base (gw_actor r) (online sess (gw_user r))) rows"
    using assms(2) by (auto simp: network_directory_def list_actors_def max_dir_actors_def page_def rows_def Let_def split: if_splits)
  have "set rows \<subseteq> set (gw_actors db)" using set_take_subset [of max_dir_actors "sort_key gw_user (gw_actors db)"] by (simp add: rows_def)
  then have "user_key (gw_user r) = gw_user r" if "r \<in> set rows" for r using assms(1) that by (auto simp: gw_ok_def)
  then have "map (\<lambda>a. (na_username a, na_online a)) (dir_actors d) = map (\<lambda>u. (u, online sess u)) (map gw_user rows)"
    by (simp add: d o_def actor_username)
  also have "map gw_user rows = take max_dir_actors (sort (map gw_user (gw_actors db)))"
    by (simp add: rows_def take_map [symmetric] map_sort_key)
  finally show ?thesis .
qed

lemma directory_head:
  assumes "network_directory env genv base db sess = Inr d"
  shows "dir_type d = type_directory" "dir_gateway d = base" "length (dir_actors d) \<le> max_dir_actors"
  using assms by (auto simp: network_directory_def list_actors_def max_dir_actors_def page_def Let_def zero_directory_def split: if_splits)

text \<open>What a client is answered by a handler that has run on a writer.\<close>

definition handler_answer :: "writer \<Rightarrow> answer" where
  "handler_answer w =
     \<lparr>an_status = (case w_sent w of Some (code, _) \<Rightarrow> code | None \<Rightarrow> 200), an_body = Some (w_body w), an_redirect = None\<rparr>"

lemma handler_answered:
  "network_directory env genv base db sess = Inr d \<Longrightarrow>
   handler_answer (network_handler env genv enc base db sess new_writer) =
     \<lparr>an_status = 200, an_body = Some (enc (directory_json d) @ [CHR 0x0A]), an_redirect = None\<rparr>"
  by (simp add: handler_answer_def network_handler_def write_data_def new_writer_def set_header_def or_keep_def write_header_def
      body_allowed_def Let_def)

text \<open>A request that is answered by the first server it reaches.\<close>

lemma net_get_answered:
  assumes "check_url (ne_policy env) (ne_net env) raw = None" "ne_url env raw = Some u"
    and "dial_context (ne_policy env) (ne_net env) (url_addr u) (nl_queries l) = (Inr i, k)"
    and "ne_serve env accept i u = Some \<lparr>an_status = 200, an_body = Some b, an_redirect = None\<rparr>"
  shows "net_get env raw accept l =
    (if length b > max_net_body then Inl (Plain ''response too large'') else Inr b,
     l\<lparr>nl_queries := k, nl_contacted := nl_contacted l @ [i]\<rparr>)"
proof -
  have "client_do (ne_policy env) (ne_net env) (ne_serve env accept) u (nl_queries l) =
      (Inr \<lparr>an_status = 200, an_body = Some b, an_redirect = None\<rparr>, [i], k)"
    unfolding client_do_def by (subst client_loop.simps) (simp add: assms(3,4))
  then show ?thesis by (simp add: net_get_def assms(1,2))
qed

section \<open>Properties\<close>

text \<open>
  C18. Whatever the query, the home gateway and the documents remote servers send, a lookup contacts at most
  twelve servers, and only such as the policy allows, as long as names resolve the same way twice.
\<close>

theorem lookups_contact_allowed:
  assumes "stable (ne_net env)" "resolve_query env q home l = (res, l1)"
  shows "\<exists>cs. nl_contacted l1 = nl_contacted l @ cs \<and> list_all (\<lambda>i. \<not> blocked_ip (ne_policy env) (Some i)) cs \<and> length cs \<le> 12"
  using resolve_grows [OF assms] by (simp add: log_grows_def)

definition demo_row :: gw_row where
  "demo_row = \<lparr>gw_user = ''bob'', gw_key = ''K'', gw_node = ''n'', gw_actor = ''DOC'', gw_finger = [], gw_first = 0, gw_last = 0\<rparr>"

definition demo_gateway :: gw_db where "demo_gateway = \<lparr>gw_actors = [demo_row], gw_nonces = []\<rparr>"

definition demo_browser :: net_env where
  "demo_browser = \<lparr>ne_policy = \<lparr>allow_private = False\<rparr>, ne_net = demo_net public_dns,
     ne_serve = (\<lambda>_ _ _. Some \<lparr>an_status = 200, an_body = Some [CHR ''D'', CHR 0x0A], an_redirect = None\<rparr>),
     ne_parse = (\<lambda>t. if t = ''DOC'' then Some (JObj [(''name'', JStr ''Bob''), (''summary'', JStr ''<b>hi</b>'')])
                else if t = [CHR ''D'', CHR 0x0A] then
                  Some (JObj [(''type'', JStr ''FediShareNetwork''), (''gateway'', JStr ''https://a.example''), (''actors'', JArr [JObj
                    [(''username'', JStr ''bob''), (''acct'', JStr ''bob@a.example''), (''name'', JStr ''Bob''), (''summary'', JStr ''hi''),
                     (''url'', JStr ''https://a.example/users/bob''), (''online'', JBool True)]])])
                else None),
     ne_unescape = (\<lambda>t. t), ne_error_text = (\<lambda>_. [])\<rparr>"

definition demo_log :: net_log where "demo_log = \<lparr>nl_queries = 0, nl_contacted = []\<rparr>"

lemma demo_runes: "strip_tags False (runes ''<b>hi</b>'') = ''hi''"
proof -
  have "runes ''<b>hi</b>'' = map byte ''<b>hi</b>''" by (rule runes_ascii) code_simp
  also have "\<dots> = [60, 98, 62, 104, 105, 60, 47, 98, 62]" by (simp add: byte_def)
  finally show ?thesis by (simp add: encode_ascii char_of_def bit_0)
qed

lemma demo_text: "plain_text (\<lambda>t. t) ''<b>hi</b>'' = ''hi''"
proof -
  have "Go_Strings.fields ''hi'' = [''hi'']" by (subst fields.simps) (simp add: trim_left_def is_space_def)
  then show ?thesis unfolding plain_text_def demo_runes by (simp add: max_summary_def)
qed

lemma demo_actor:
  "actor_from_document demo_browser ''bob'' ''https://a.example'' ''DOC'' True =
    \<lparr>na_username = ''bob'', na_acct = ''bob@a.example'', na_name = ''Bob'', na_summary = ''hi'',
      na_url = ''https://a.example/users/bob'', na_online = True\<rparr>"
proof -
  have t: "to_lower (trim_space ''bob'') = ''bob''" "trim_right_set {CHR ''/''} (trim_space ''https://a.example'') = ''https://a.example''"
    "acct_for simple_url ''bob'' ''https://a.example'' = ''bob@a.example''" "trim_space ''Bob'' = ''Bob''" "trim_space [] = []" by code_simp+
  have p: "profile_fields (ne_parse demo_browser) ''DOC'' = Some (''Bob'', [], ''<b>hi</b>'', [], [])" by code_simp
  have c: "ne_unescape demo_browser = (\<lambda>t. t)" "ne_url demo_browser = simple_url" by (simp_all add: demo_browser_def demo_net_def)
  show ?thesis by (simp add: actor_from_document_def t p c demo_text Let_def)
qed

definition demo_site :: url where
  "demo_site = \<lparr>u_scheme = ''https'', u_host = ''a.example'', u_hostname = ''a.example'', u_port = [],
     u_path = ''/.well-known/fedishare-network'', u_query = [], u_user = False\<rparr>"

lemma demo_site_parsed: "simple_url ''https://a.example/.well-known/fedishare-network'' = Some demo_site"
  by code_simp

lemma demo_site_allowed:
  "check_url \<lparr>allow_private = False\<rparr> (demo_net public_dns) ''https://a.example/.well-known/fedishare-network'' = None"
  by code_simp

lemma demo_get:
  "net_get demo_browser ''https://a.example/.well-known/fedishare-network'' acc l =
    (Inr [CHR ''D'', CHR 0x0A], l\<lparr>nl_queries := nl_queries l + 2, nl_contacted := nl_contacted l @ [[93, 184, 216, 34]]\<rparr>)"
proof -
  have "url_addr demo_site = url_addr demo_url" by code_simp
  then have "client_do \<lparr>allow_private = False\<rparr> (demo_net public_dns)
      (\<lambda>_ _. Some \<lparr>an_status = 200, an_body = Some [CHR ''D'', CHR 0x0A], an_redirect = None\<rparr>) demo_site n =
    (Inr \<lparr>an_status = 200, an_body = Some [CHR ''D'', CHR 0x0A], an_redirect = None\<rparr>, [[93, 184, 216, 34]], n + 2)" for n
    unfolding client_do_def by (subst client_loop.simps) (simp add: demo_dial)
  moreover have "parse_url (demo_net public_dns) = simple_url" by (simp add: demo_net_def)
  ultimately show ?thesis
    by (simp add: net_get_def demo_browser_def demo_site_allowed demo_site_parsed max_net_body_def)
qed

lemma demo_lookup:
  "nl_contacted (snd (resolve_query demo_browser ''https://a.example'' [] demo_log)) = [[93, 184, 216, 34]]"
proof -
  have q: "classify_query (ne_url demo_browser) ''https://a.example'' = (Query_Gateway, ''https://a.example'')" by code_simp
  have b: "trim_right_set {CHR ''/''} (trim_space ''https://a.example'') @ well_known_path =
      ''https://a.example/.well-known/fedishare-network''" "trim_right_set {CHR ''/''} (trim_space ''https://a.example'') \<noteq> []" by code_simp+
  show ?thesis
    by (simp add: resolve_query_def q fetch_directory_def b(2) b(1) [simplified] demo_get Let_def apfst_def split: option.split)
      (simp add: demo_log_def)
qed

lemma demo_stable: "stable (ne_net demo_browser)"
  by (simp add: stable_def demo_browser_def demo_net_def public_dns_def)

theorem lookups_contact_allowed_witness:
  "list_all (\<lambda>i. \<not> blocked_ip \<lparr>allow_private = False\<rparr> (Some i)) [[93, 184, 216, 34]]"
  using lookups_contact_allowed [OF demo_stable surjective_pairing, of "''https://a.example''" "[]" demo_log]
  by (simp add: demo_lookup) (simp add: demo_log_def demo_browser_def)

text \<open>
  What is shown of a remote profile's summary is plain text of at most 280 bytes: no angle bracket and no
  white space but blanks.
\<close>

theorem summary_is_plain:
  "list_all (\<lambda>c. c \<noteq> CHR ''<'' \<and> c \<noteq> CHR ''>'' \<and> (is_space c \<longrightarrow> c = CHR '' '')) (na_summary (actor_from_document env u base raw on)) \<and>
   length (na_summary (actor_from_document env u base raw on)) \<le> 280"
proof (cases "na_summary (actor_from_document env u base raw on) = []")
  case False
  then obtain s where s: "na_summary (actor_from_document env u base raw on) = plain_text (ne_unescape env) s"
    using actor_summary by metis
  show ?thesis unfolding s list_all_iff using plain_text_chars plain_text_length [of _ s] unfolding max_summary_def by blast
qed simp

theorem summary_is_plain_witness:
  "na_summary (actor_from_document demo_browser ''bob'' ''https://a.example'' ''DOC'' True) = ''hi'' \<and>
   list_all (\<lambda>c. c \<noteq> CHR ''<'' \<and> c \<noteq> CHR ''>'' \<and> (is_space c \<longrightarrow> c = CHR '' '')) ''hi''"
proof -
  have s: "na_summary (actor_from_document demo_browser ''bob'' ''https://a.example'' ''DOC'' True) = ''hi''" by (simp add: demo_actor)
  show ?thesis using summary_is_plain [of demo_browser "''bob''" "''https://a.example''" "''DOC''" True] unfolding s by blast
qed

text \<open>
  C30. The directory a gateway serves reaches the client unchanged, if it is not too large: it lists the first five
  hundred registered names in order, each marked online exactly when a session is attached, and a client whose
  request is let through by its policy and answered by that handler decodes the same directory, as long as the
  document is shorter than 256 KiB. A longer one is refused, though the gateway sends it.
\<close>

theorem served_directory_fetched:
  assumes "gw_ok db" "network_directory env genv base db sess = Inr d" "base \<noteq> []"
    and "ne_parse client (enc (directory_json d) @ [CHR 0x0A]) = Some (directory_json d)"
    and "site = trim_right_set {CHR ''/''} (trim_space gw)" "site \<noteq> []"
    and "check_url (ne_policy client) (ne_net client) (site @ well_known_path) = None"
    and "ne_url client (site @ well_known_path) = Some u"
    and "dial_context (ne_policy client) (ne_net client) (url_addr u) (nl_queries l) = (Inr i, k)"
    and "ne_serve client ''application/json'' i u = Some (handler_answer (network_handler env genv enc base db sess new_writer))"
  shows "fetch_directory client gw l =
      (if length (enc (directory_json d)) < 256 * 1024 then Inr d
       else Inl (wrapped Kind_Network ''Could not reach that FediShare gateway.'' (Plain ''response too large'')),
       l\<lparr>nl_queries := k, nl_contacted := nl_contacted l @ [i]\<rparr>) \<and>
    map (\<lambda>a. (na_username a, na_online a)) (dir_actors d) =
      map (\<lambda>u. (u, online sess u)) (take 500 (sort (map gw_user (gw_actors db))))"
proof
  note h = directory_head [OF assms(2)]
  note got = net_get_answered [OF assms(7-9) assms(10) [unfolded handler_answered [OF assms(2)]]]
  show "fetch_directory client gw l =
      (if length (enc (directory_json d)) < 256 * 1024 then Inr d
       else Inl (wrapped Kind_Network ''Could not reach that FediShare gateway.'' (Plain ''response too large'')),
       l\<lparr>nl_queries := k, nl_contacted := nl_contacted l @ [i]\<rparr>)"
    using assms(3-6) h got by (simp add: fetch_directory_def directory_decoded type_directory_def max_net_body_def Let_def)
  show "map (\<lambda>a. (na_username a, na_online a)) (dir_actors d) =
      map (\<lambda>u. (u, online sess u)) (take 500 (sort (map gw_user (gw_actors db))))"
    using directory_users [OF assms(1,2)] by (simp add: max_dir_actors_def)
qed

definition demo_online :: sessions where "demo_online = attach ''bob'' 7 no_sessions"

definition demo_directory :: directory where
  "demo_directory = \<lparr>dir_type = type_directory, dir_gateway = ''https://a.example'', dir_query = [], dir_hint = [],
     dir_actors = [\<lparr>na_username = ''bob'', na_acct = ''bob@a.example'', na_name = ''Bob'', na_summary = ''hi'',
       na_url = ''https://a.example/users/bob'', na_online = True\<rparr>]\<rparr>"

theorem served_directory_fetched_witness:
  "fst (fetch_directory demo_browser ''https://a.example/'' demo_log) = Inr demo_directory \<and>
   map (\<lambda>a. (na_username a, na_online a)) (dir_actors demo_directory) = [(''bob'', True)]"
proof -
  have d: "network_directory demo_browser demo_gw ''https://a.example'' demo_gateway demo_online = Inr demo_directory"
  proof -
    have l: "list_actors demo_gw (int max_dir_actors) demo_gateway = Inr [demo_row]" "online demo_online ''bob''" by code_simp+
    then show ?thesis by (simp add: network_directory_def demo_row_def demo_actor demo_directory_def zero_directory_def)
  qed
  have ok: "gw_ok demo_gateway" by code_simp
  have p: "ne_parse demo_browser ((\<lambda>_. ''D'') (directory_json demo_directory) @ [CHR 0x0A]) = Some (directory_json demo_directory)"
    by code_simp
  have a: "ne_serve demo_browser ''application/json'' [93, 184, 216, 34] demo_site =
      Some (handler_answer (network_handler demo_browser demo_gw (\<lambda>_. ''D'') ''https://a.example'' demo_gateway demo_online new_writer))"
    unfolding handler_answered [OF d] by (simp add: demo_browser_def)
  have u: "''https://a.example'' = trim_right_set {CHR ''/''} (trim_space ''https://a.example/'')" "''https://a.example'' \<noteq> []"
    by code_simp+
  have w: "''https://a.example'' @ well_known_path = ''https://a.example/.well-known/fedishare-network''" by code_simp
  have c: "check_url (ne_policy demo_browser) (ne_net demo_browser) (''https://a.example'' @ well_known_path) = None"
    "ne_url demo_browser (''https://a.example'' @ well_known_path) = Some demo_site"
    unfolding w using demo_site_allowed demo_site_parsed by (simp_all add: demo_browser_def demo_net_def)
  have "url_addr demo_site = url_addr demo_url" by code_simp
  then have dial: "dial_context (ne_policy demo_browser) (ne_net demo_browser) (url_addr demo_site) (nl_queries demo_log) =
      (Inr [93, 184, 216, 34], 2)"
    using demo_dial by (simp add: demo_browser_def demo_log_def)
  from served_directory_fetched [OF ok d u(2) p u c dial a] show ?thesis by (simp add: demo_directory_def)
qed

end
