(* ===== verification/Node.thy ===== *)
theory Node
  imports Network Key_Store Database Indexer Federation Dashboard Activity_Handler
begin

text \<open>
  \<open>internal/node/node.go\<close>, \<open>tunnel.go\<close> and the accessors of \<open>federation.go\<close>, with \<open>internal/identity\<close>:
  one local actor. A \<open>local_node\<close> is the Go struct; the content of its database file is \<open>nd_data\<close>, which
  survives \<open>Close\<close>. Every operation runs under the node's mutex and is one function on the node and the
  disk. Goroutines are events: \<open>scan_once\<close> is a turn of the index loop, \<open>tunnel_step\<close> a locked section of a
  tunnel loop. A goroutine's context is live or cancelled; \<open>nd_run\<close> is \<open>None\<close> before the first start.
\<close>

section \<open>The installation's identity\<close>

definition node_id_key :: string where "node_id_key = ''node_id''"
definition first_started_key :: string where "first_started_key = ''first_started_at''"
definition last_started_key :: string where "last_started_key = ''last_started_at''"
definition paused_key :: string where "paused_key = ''sharing_paused''"

definition new_node_id :: "string option \<Rightarrow> string + string" where
  "new_node_id random =
     (case random of None \<Rightarrow> Inl ''generate node id'' | Some b \<Rightarrow> Inr (hex_encode (take 16 (b @ replicate 16 (CHR 0x00)))))"

definition load_or_create_node_id ::
  "(conf_stmt \<Rightarrow> bool) \<Rightarrow> time \<Rightarrow> string option \<Rightarrow> config_row list \<Rightarrow> (string + string) \<times> config_row list" where
  "load_or_create_node_id broken now random rows =
     (case get_config broken node_id_key rows of
        Inl e \<Rightarrow> (Inl e, rows)
      | Inr existing \<Rightarrow>
          (case existing of
             Some i \<Rightarrow>
               if i \<noteq> [] then (Inr i, rows)
               else (case new_node_id random of
                   Inl e \<Rightarrow> (Inl e, rows)
                 | Inr j \<Rightarrow> (case set_config broken now node_id_key j rows of (Some e, r) \<Rightarrow> (Inl e, r) | (None, r) \<Rightarrow> (Inr j, r)))
           | None \<Rightarrow>
               (case new_node_id random of
                  Inl e \<Rightarrow> (Inl e, rows)
                | Inr j \<Rightarrow> (case set_config broken now node_id_key j rows of (Some e, r) \<Rightarrow> (Inl e, r) | (None, r) \<Rightarrow> (Inr j, r)))))"

definition record_start :: "(conf_stmt \<Rightarrow> bool) \<Rightarrow> time \<Rightarrow> string \<Rightarrow> config_row list \<Rightarrow> string option \<times> config_row list" where
  "record_start broken now at_text rows =
     (case get_config broken first_started_key rows of
        Inl e \<Rightarrow> (Some e, rows)
      | Inr (Some _) \<Rightarrow> set_config broken now last_started_key at_text rows
      | Inr None \<Rightarrow>
          (case set_config broken now first_started_key at_text rows of
             (Some e, r) \<Rightarrow> (Some e, r)
           | (None, r) \<Rightarrow> set_config broken now last_started_key at_text r))"

definition load_paused :: "(conf_stmt \<Rightarrow> bool) \<Rightarrow> config_row list \<Rightarrow> string + bool" where
  "load_paused broken rows = map_sum id (\<lambda>v. v = Some ''1'') (get_config broken paused_key rows)"

section \<open>State\<close>

record 's node_data =
  da_mig :: "'s mig_db"
  da_conf :: "config_row list"
  da_files :: file_db
  da_fed :: fed_db

text \<open>
  Where a tunnel loop is: at the head of \<open>runTunnel\<close>, before \<open>connectOnce\<close> has read the settings, dialling with or
  serving under the gateway and the user name it has read, waiting, or ended.
\<close>

datatype loop_state =
  Loop_Head | Loop_Connecting | Loop_Dialing string string | Loop_Serving string string | Loop_Waiting | Loop_Gone

record 's local_node =
  nd_home :: string
  nd_profile :: string
  nd_allow_local :: bool
  nd_skip_http :: bool
  nd_cfg :: config
  nd_svc :: service
  nd_data :: "'s node_data"
  nd_fetch :: fetch_state
  nd_private :: bool
  nd_open :: bool
  nd_ready :: bool
  nd_started :: bool
  nd_id :: string
  nd_url :: string
  nd_paused :: bool
  nd_limiter :: limiter
  nd_run :: "bool option"
  nd_watch_started :: bool
  nd_watch :: bool
  nd_tunnel_started :: bool
  nd_tunnel :: "nat option"
  nd_loops :: "loop_state list"
  nd_up :: bool
  nd_connecting :: bool
  nd_http :: bool

text \<open>
  The world of a node: parsers, the file system's faults, the key library, whether SQLite opens the file,
  the faults and clocks of the stores, what the port given to \<open>net.Listen\<close> gives, whether the dashboard's
  handler can be built, the texts of errors from below, the walk the indexer makes of the share, and whether
  an open file can be positioned at an offset.
\<close>

record 's node_env =
  nv_parse :: url_parser
  nv_codec :: json_codec
  nv_os :: os_env
  nv_keys :: key_lib
  nv_open :: bool
  nv_mig :: "'s mig_env"
  nv_conf :: "conf_stmt \<Rightarrow> bool"
  nv_files :: file_env
  nv_index :: index_env
  nv_fed :: fed_env
  nv_inbox :: inbox_env
  nv_publish :: publish_env
  nv_format :: time_format
  nv_now :: time
  nv_now_text :: string
  nv_random :: "string option"
  nv_listen :: "int \<Rightarrow> string option"
  nv_handler :: bool
  nv_down :: "bool \<times> bool"
  nv_quote :: "string \<Rightarrow> string"
  nv_os_text :: string
  nv_net :: net_env
  nv_seek :: "int \<Rightarrow> bool"

text \<open>
  \<open>nd_private\<close> is what the federation fetcher was built with: whether it may contact private addresses.
  A closed database fails every statement.
\<close>

definition live_files :: "'s node_env \<Rightarrow> 's local_node \<Rightarrow> file_env" where
  "live_files env n = (if nd_open n then nv_files env else (nv_files env)\<lparr>fault := (\<lambda>_. True)\<rparr>)"

definition live_fed :: "'s node_env \<Rightarrow> 's local_node \<Rightarrow> fed_env" where
  "live_fed env n = (if nd_open n then nv_fed env else (nv_fed env)\<lparr>fd_fault := (\<lambda>_. True)\<rparr>)"

section \<open>Errors\<close>

definition en_dash :: string where "en_dash = [CHR 0xE2, CHR 0x80, CHR 0x93]"

fun config_error_text :: "(string \<Rightarrow> string) \<Rightarrow> string \<Rightarrow> config \<Rightarrow> config_error \<Rightarrow> string" where
  "config_error_text qf os c Bad_Username =
     ''username must be 1'' @ en_dash @ ''30 characters of lowercase letters, digits, or underscore''"
| "config_error_text qf os c Long_Display = ''display name must be at most 80 characters''"
| "config_error_text qf os c Display_Controls = ''display name contains invalid characters''"
| "config_error_text qf os c Long_Summary = ''bio must be at most 500 characters''"
| "config_error_text qf os c Share_Not_Absolute = ''shared directory must be an absolute path''"
| "config_error_text qf os c Bad_Gateway = ''gateway URL must be an http or https URL''"
| "config_error_text qf os c Bad_Port = ''local port is out of range''"
| "config_error_text qf os c Bad_Downloads = ''max concurrent downloads must be at least 1''"
| "config_error_text qf os c Bad_Bandwidth = ''bandwidth limit cannot be negative''"
| "config_error_text qf os c Bad_Log_Level = ''unsupported log level '' @ qf (cf_log c)"
| "config_error_text qf os c Share_Required = ''shared directory is required''"
| "config_error_text qf os c Share_Is_Home = ''shared directory cannot be FediShare'' @ [CHR 0x27] @ ''s data directory''"
| "config_error_text qf os c Share_In_Home = ''shared directory cannot be inside FediShare'' @ [CHR 0x27] @ ''s data directory''"
| "config_error_text qf os c Share_Has_Home = ''shared directory cannot contain FediShare'' @ [CHR 0x27] @ ''s data directory''"
| "config_error_text qf os c _ = os"

definition config_cause :: "'s node_env \<Rightarrow> config \<Rightarrow> config_error \<Rightarrow> go_error" where
  "config_cause env c e = Plain (config_error_text (nv_quote env) (nv_os_text env) c e)"

text \<open>\<open>apperr.Wrap(apperr.KindInvalidConfig, err.Error(), err)\<close>.\<close>

definition shown_error :: "'s node_env \<Rightarrow> config \<Rightarrow> config_error \<Rightarrow> go_error" where
  "shown_error env c e = wrapped Kind_Config (error_message (config_cause env c e)) (config_cause env c e)"

definition low_error :: "'s node_env \<Rightarrow> err_kind \<Rightarrow> string \<Rightarrow> go_error" where
  "low_error env k msg = wrapped k msg (Plain (nv_os_text env))"

definition node_fail :: "go_error \<Rightarrow> 's local_node \<Rightarrow> go_error option \<times> 's local_node" where
  "node_fail e n = (Some e, n\<lparr>nd_svc := snd (set_error (user_message (Some e)) (nd_svc n))\<rparr>)"

section \<open>The status\<close>

definition set_fields :: "(snapshot \<Rightarrow> snapshot) \<Rightarrow> service \<Rightarrow> service" where
  "set_fields f s = snd (update (\<lambda>v. Inr (f v)) s)"

text \<open>The state and message \<open>refreshLocked\<close> shows, with \<open>gatewayMessage\<close>.\<close>

definition node_state :: "'s local_node \<Rightarrow> state \<times> string" where
  "node_state n =
     (if \<not> configured (nd_cfg n) then (StateOffline, ''Setup required'')
      else if nd_paused n then (StatePaused, ''Sharing paused'')
      else if nd_up n then (StateOnline, ''Gateway connected'')
      else if nd_connecting n then (StateConnecting, ''Connecting to gateway'')
      else (StateOffline, ''Gateway not connected''))"

definition shared_summary :: "'s node_env \<Rightarrow> 's local_node \<Rightarrow> nat \<times> int" where
  "shared_summary env n =
     (if nd_ready n \<and> configured (nd_cfg n)
      then (case summary (live_files env n) (da_files (nd_data n)) of Inr s \<Rightarrow> s | Inl _ \<Rightarrow> (0, 0)) else (0, 0))"

definition refresh_fields :: "'s node_env \<Rightarrow> 's local_node \<Rightarrow> service \<Rightarrow> service" where
  "refresh_fields env n s =
     (let c = nd_cfg n; sm = shared_summary env n;
          s1 = (if nd_ready n then set_fields (\<lambda>v. v\<lparr>active_downloads := active (nd_limiter n)\<rparr>) s else s);
          s2 = (if nd_ready n
                then (case pending_count (live_fed env n) (da_fed (nd_data n)) of
                    Inr k \<Rightarrow> set_fields (\<lambda>v. v\<lparr>pending_federation_jobs := int k\<rparr>) s1 | Inl _ \<Rightarrow> s1)
                else s1) in
      set_fields (\<lambda>v. v\<lparr>node_id := nd_id n, identity := fediverse_address (nv_parse env) c, share_directory := cf_share c,
        indexed_files := int (fst sm), total_bytes := snd sm, activitypub_active := configured c,
        gateway_connected := nd_up n, message := snd (node_state n)\<rparr>) s2)"

definition refresh :: "'s node_env \<Rightarrow> 's local_node \<Rightarrow> go_error option \<times> 's local_node" where
  "refresh env n =
     (case set_state (fst (node_state n)) (refresh_fields env n (nd_svc n)) of
        (Some e, s) \<Rightarrow> (Some (Plain e), n\<lparr>nd_svc := s\<rparr>)
      | (None, s) \<Rightarrow> (None, n\<lparr>nd_svc := set_fields (\<lambda>v. v\<lparr>message := snd (node_state n)\<rparr>) s\<rparr>))"

section \<open>Background loops\<close>

definition ensure_watch :: "'s local_node \<Rightarrow> 's local_node" where
  "ensure_watch n = (if nd_watch_started n \<or> \<not> nd_ready n then n else n\<lparr>nd_watch_started := True, nd_watch := True\<rparr>)"

definition stop_tunnel :: "'s local_node \<Rightarrow> 's local_node" where
  "stop_tunnel n = n\<lparr>nd_tunnel := None, nd_tunnel_started := False, nd_up := False, nd_connecting := False\<rparr>"

definition ensure_tunnel :: "'s local_node \<Rightarrow> 's local_node" where
  "ensure_tunnel n =
     (if nd_run n = None then n
      else if \<not> configured (nd_cfg n) \<or> trim_space (cf_gateway (nd_cfg n)) = [] then stop_tunnel n
      else if nd_tunnel_started n then n
      else n\<lparr>nd_tunnel_started := True, nd_tunnel := Some (length (nd_loops n)), nd_loops := nd_loops n @ [Loop_Head]\<rparr>)"

definition restart_tunnel :: "'s local_node \<Rightarrow> 's local_node" where
  "restart_tunnel n = ensure_tunnel (stop_tunnel n)"

text \<open>The context of loop \<open>i\<close> is a child of the run context and is cancelled by its own cancel function.\<close>

definition loop_cancelled :: "'s local_node \<Rightarrow> nat \<Rightarrow> bool" where
  "loop_cancelled n i \<longleftrightarrow> nd_tunnel n \<noteq> Some i \<or> nd_run n \<noteq> Some True"

definition set_tunnel_flags :: "'s node_env \<Rightarrow> bool \<Rightarrow> bool \<Rightarrow> 's local_node \<Rightarrow> 's local_node" where
  "set_tunnel_flags env up conn n = snd (refresh env (n\<lparr>nd_up := up, nd_connecting := conn\<rparr>))"

definition set_loop :: "nat \<Rightarrow> loop_state \<Rightarrow> 's local_node \<Rightarrow> 's local_node" where
  "set_loop i st n = n\<lparr>nd_loops := (nd_loops n)[i := st]\<rparr>"

text \<open>One locked section of \<open>runTunnel\<close>; \<open>ok\<close> says whether the step of \<open>connectOnce\<close> it ends succeeded.\<close>

definition tunnel_step :: "'s node_env \<Rightarrow> nat \<Rightarrow> bool \<Rightarrow> 's local_node \<Rightarrow> 's local_node" where
  "tunnel_step env i ok n =
     (if i \<ge> length (nd_loops n) then n
      else let gone = (if loop_cancelled n i then Loop_Gone else Loop_Waiting) in
        case nd_loops n ! i of
          Loop_Head \<Rightarrow>
            if loop_cancelled n i then set_loop i Loop_Gone n
            else set_tunnel_flags env False True (set_loop i Loop_Connecting n)
        | Loop_Connecting \<Rightarrow> set_loop i (Loop_Dialing (cf_gateway (nd_cfg n)) (cf_username (nd_cfg n))) n
        | Loop_Dialing gw user \<Rightarrow>
            if ok then set_tunnel_flags env True False (set_loop i (Loop_Serving gw user) n)
            else set_tunnel_flags env False False (set_loop i gone n)
        | Loop_Serving _ _ \<Rightarrow> set_tunnel_flags env False False (set_loop i gone n)
        | Loop_Waiting \<Rightarrow> set_loop i (if loop_cancelled n i then Loop_Gone else Loop_Head) n
        | Loop_Gone \<Rightarrow> n)"

text \<open>
  The waiting times of \<open>runTunnel\<close>: an attempt that lasted longer than half a minute resets the backoff,
  the random jitter is at most a fifth of it.
\<close>

definition max_tunnel_backoff :: time where "max_tunnel_backoff = 60 * second"

definition tunnel_backoff :: "time \<Rightarrow> time \<Rightarrow> time" where
  "tunnel_backoff b lasted = (if lasted > 30 * second then second else b)"

definition tunnel_next :: "time \<Rightarrow> time" where
  "tunnel_next b = (if b * 2 > max_tunnel_backoff then max_tunnel_backoff else b * 2)"

fun tunnel_waits :: "time \<Rightarrow> (time \<times> time) list \<Rightarrow> time list" where
  "tunnel_waits b [] = []"
| "tunnel_waits b ((lasted, rnd) # as) =
     (let b1 = tunnel_backoff b lasted in (b1 + rnd mod (b1 div 5 + 1)) # tunnel_waits (tunnel_next b1) as)"

text \<open>The waiting times of \<open>watchForever\<close>.\<close>

fun watch_delays :: "time \<Rightarrow> nat \<Rightarrow> time list" where
  "watch_delays d 0 = []"
| "watch_delays d (Suc k) = d # watch_delays (if d < 30 * second then d * 2 else d) k"

section \<open>Federation\<close>

definition allow_private_federation :: "'s local_node \<Rightarrow> bool" where
  "allow_private_federation n \<longleftrightarrow> nd_allow_local n \<or> trim_space (cf_gateway (nd_cfg n)) = []"

definition node_base :: "'s local_node \<Rightarrow> string" where
  "node_base n = public_base (cf_gateway (nd_cfg n)) (nd_url n)"

definition node_paths :: "'s local_node \<Rightarrow> paths" where
  "node_paths n = new_paths (node_base n) (cf_username (nd_cfg n))"

definition publisher_of :: "'s node_env \<Rightarrow> 's local_node \<Rightarrow> publish_env" where
  "publisher_of env n = node_publisher ((nv_publish env)\<lparr>pe_fed := live_fed env n, pe_paths := node_paths n, pe_paused := nd_paused n\<rparr>)"

definition publish_all :: "'s node_env \<Rightarrow> 's local_node \<Rightarrow> change list \<Rightarrow> 's local_node" where
  "publish_all env n cs =
     n\<lparr>nd_data := (nd_data n)\<lparr>da_fed := fold (on_index_change (publisher_of env n)) cs (da_fed (nd_data n))\<rparr>\<rparr>"

definition node_process :: "'s node_env \<Rightarrow> sig_request \<Rightarrow> string \<Rightarrow> 's local_node \<Rightarrow> fed_error option \<times> 's local_node" where
  "node_process env r doc n =
     (if \<not> nd_ready n then (Some Fed_Bad_Activity, n)
      else case node_receive ((nv_inbox env)\<lparr>ie_fed := live_fed env n, ie_paths := node_paths n,
            ie_fetcher := (ie_fetcher (nv_inbox env))\<lparr>ft_policy := \<lparr>allow_private = nd_private n\<rparr>\<rparr>\<rparr>) r doc
          \<lparr>fn_db = da_fed (nd_data n), fn_fetch = nd_fetch n, fn_log = [], fn_status = []\<rparr> of
        (e, f) \<Rightarrow> (e, n\<lparr>nd_data := (nd_data n)\<lparr>da_fed := fn_db f\<rparr>, nd_fetch := fn_fetch f\<rparr>))"

section \<open>Indexing\<close>

definition index_of :: "'s node_env \<Rightarrow> 's local_node \<Rightarrow> index_env" where
  "index_of env n = (nv_index env)\<lparr>ix_store := live_files env n, ix_root := cf_share (nd_cfg n), ix_hook := True\<rparr>"

text \<open>\<open>Scan\<close> with the publisher as its hook, then \<open>PublishSummary\<close> when the caller goes on to it.\<close>

definition scan_share :: "'s node_env \<Rightarrow> 's local_node \<Rightarrow> bool \<times> 's local_node" where
  "scan_share env n =
     (let r = scan (index_of env n) (da_files (nd_data n));
          n1 = publish_all env (n\<lparr>nd_data := (nd_data n)\<lparr>da_files := res_db r\<rparr>\<rparr>) (res_changes r) in
      (res_error r = None, n1\<lparr>nd_svc := set_progress (fst (res_progress r)) (snd (res_progress r)) (nd_svc n1)\<rparr>))"

definition show_summary :: "'s node_env \<Rightarrow> 's local_node \<Rightarrow> 's local_node" where
  "show_summary env n = n\<lparr>nd_svc := publish_summary (index_of env n) (da_files (nd_data n)) (nd_svc n)\<rparr>"

definition scan_once :: "'s node_env \<Rightarrow> 's local_node \<Rightarrow> 's local_node" where
  "scan_once env n =
     (if \<not> nd_ready n \<or> \<not> nd_watch n then n
      else snd (refresh env (show_summary env (snd (scan_share env n)))))"

definition index_loop_start :: "'s node_env \<Rightarrow> 's local_node \<Rightarrow> 's local_node" where
  "index_loop_start env n = scan_once env (n\<lparr>nd_svc := snd (set_state StateIndexing (nd_svc n))\<rparr>)"

definition no_folder :: go_error where "no_folder = new_error Kind_Config ''Choose a shared folder first.''"

definition node_rescan :: "'s node_env \<Rightarrow> 's local_node \<Rightarrow> go_error option \<times> 's local_node" where
  "node_rescan env n =
     (if \<not> configured (nd_cfg n) \<or> \<not> nd_ready n then (Some no_folder, n)
      else let n1 = n\<lparr>nd_svc := snd (set_state StateIndexing (nd_svc n))\<rparr>;
               failed = Some (low_error env Kind_Filesystem ''FediShare could not rescan the shared folder.'') in
        case scan_share env n1 of
          (False, n2) \<Rightarrow> (failed, n2)
        | (True, n2) \<Rightarrow> refresh env (show_summary env n2))"

end
