(* ===== verification/Node_Ops.thy ===== *)
theory Node_Ops
  imports Node Serve
begin

text \<open>
  The life of a node: \<open>New\<close>, \<open>Start\<close>, \<open>Shutdown\<close>, \<open>ApplySetup\<close>, \<open>UpdateSettings\<close>, \<open>Pause\<close> and \<open>Resume\<close> of
  node.go, and what it shows to the dashboard and to the ActivityPub endpoints (\<open>node_source\<close>,
  \<open>node_download\<close>). A directory named by a path text is \<open>path_parts\<close> of the text.
\<close>

definition path_parts :: "string \<Rightarrow> fs_path" where
  "path_parts p = filter (\<lambda>s. s \<noteq> []) (split_on slash (clean p))"

definition node_dir :: "'s local_node \<Rightarrow> fs_path" where "node_dir n = path_parts (nd_home n)"

section \<open>Creation\<close>

definition idle_limiter :: limiter where
  "idle_limiter = \<lparr>lims = \<lparr>max_concurrent = 0, per_client = 0, bandwidth_bps = 0\<rparr>, active = 0, per_host = Map.empty\<rparr>"

definition fresh_node :: "string \<Rightarrow> config \<Rightarrow> bool \<Rightarrow> bool \<Rightarrow> string \<Rightarrow> 's node_data \<Rightarrow> 's local_node" where
  "fresh_node home c allow skip prof data =
     \<lparr>nd_home = home, nd_profile = prof, nd_allow_local = allow, nd_skip_http = skip, nd_cfg = c, nd_svc = new_service,
      nd_data = data, nd_fetch = empty_fetch, nd_private = False, nd_open = False, nd_ready = False, nd_started = False, nd_id = [], nd_url = [],
      nd_paused = False, nd_limiter = idle_limiter, nd_run = None, nd_watch_started = False, nd_watch = False,
      nd_tunnel_started = False, nd_tunnel = None, nd_loops = [], nd_up = False, nd_connecting = False, nd_http = False\<rparr>"

text \<open>The configuration whose check failed when \<open>Load\<close> reports an invalid one.\<close>

definition stored_config :: "'s node_env \<Rightarrow> fs_path \<Rightarrow> disk \<Rightarrow> config" where
  "stored_config env home d =
     (case read_file (nv_os env) (config_path home) d of
        Content t \<Rightarrow> (case parse_config (nv_codec env) t of Some c \<Rightarrow> normalize_config c | None \<Rightarrow> default_config)
      | _ \<Rightarrow> default_config)"

definition new_node ::
  "'s node_env \<Rightarrow> string \<Rightarrow> config option \<Rightarrow> bool \<Rightarrow> bool \<Rightarrow> string \<Rightarrow> 's node_data \<Rightarrow> disk \<Rightarrow> go_error + 's local_node" where
  "new_node env home given allow skip prof data d =
     (if home = [] then Inl (new_error Kind_Config ''FediShare is missing its data directory.'')
      else case given of
        Some c \<Rightarrow> Inr (fresh_node home c allow skip prof data)
      | None \<Rightarrow>
          (case load_config (nv_parse env) (nv_codec env) (nv_os env) (path_parts home) d of
             Inl e \<Rightarrow> Inl (wrapped Kind_Config ''FediShare could not read its configuration.'' (config_cause env (stored_config env (path_parts home) d) e))
           | Inr c \<Rightarrow> Inr (fresh_node home c allow skip prof data)))"

section \<open>Start\<close>

text \<open>The directory, \<open>config.json\<close> and the keys. The configuration is normalised in place.\<close>

definition start_home :: "'s node_env \<Rightarrow> 's local_node \<Rightarrow> disk \<Rightarrow> go_error option \<times> 's local_node \<times> disk" where
  "start_home env n d =
     (let home = node_dir n; os = nv_os env in
      case ensure_home os home d of
        (Some e, d1) \<Rightarrow> (Some (low_error env Kind_Filesystem ''FediShare could not create its data directory.''), n, d1)
      | (None, d1) \<Rightarrow>
          let c = normalize_config (nd_cfg n); n1 = n\<lparr>nd_cfg := c\<rparr> in
          (case validate (nv_parse env) c of
             Some e \<Rightarrow> (Some (wrapped Kind_Config ''FediShare settings are invalid.'' (config_cause env c e)), n1, d1)
           | None \<Rightarrow>
               (case (if config_exists os home d1 then (None, d1) else save_config (nv_parse env) (nv_codec env) os home c d1) of
                  (Some e, d2) \<Rightarrow> (Some (low_error env Kind_Filesystem ''FediShare could not write its configuration.''), n1, d2)
                | (None, d2) \<Rightarrow>
                    (case load_or_create_keys (nv_keys env) os (keys_dir home) d2 of
                       (Some e, d3) \<Rightarrow> (Some (low_error env Kind_Crypto ''FediShare could not create its identity keys.''), n1, d3)
                     | (None, d3) \<Rightarrow> (None, n1, d3)))))"

text \<open>The database: open, migrate, the identity, the time of this start, the pause flag. An error closes it again.\<close>

definition start_data :: "'s node_env \<Rightarrow> 's node_data \<Rightarrow> (go_error + string \<times> bool) \<times> 's node_data" where
  "start_data env da =
     (let failed = (\<lambda>msg. Inl (low_error env Kind_Database msg)) in
      if \<not> nv_open env then (failed ''FediShare could not open its database.'', da)
      else case migrate (nv_mig env) (da_mig da) of
        (Some e, m) \<Rightarrow> (failed ''FediShare could not prepare its database.'', da\<lparr>da_mig := m\<rparr>)
      | (None, m) \<Rightarrow>
          (case load_or_create_node_id (nv_conf env) (nv_now env) (nv_random env) (da_conf da) of
             (Inl e, r) \<Rightarrow> (failed ''FediShare could not load its identity.'', da\<lparr>da_mig := m, da_conf := r\<rparr>)
           | (Inr i, r) \<Rightarrow>
               (case record_start (nv_conf env) (nv_now env) (nv_now_text env) r of
                  (Some e, r1) \<Rightarrow> (failed ''FediShare could not update its database.'', da\<lparr>da_mig := m, da_conf := r1\<rparr>)
                | (None, r1) \<Rightarrow>
                    (case load_paused (nv_conf env) r1 of
                       Inl e \<Rightarrow> failed ''FediShare could not read its database.''
                     | Inr p \<Rightarrow> Inr (i, p), da\<lparr>da_mig := m, da_conf := r1\<rparr>))))"

text \<open>The stores, the indexer, the limiter, federation and the run context over the open database.\<close>

definition install_services :: "string \<times> bool \<Rightarrow> 's node_data \<Rightarrow> 's local_node \<Rightarrow> 's local_node" where
  "install_services ip da n =
     n\<lparr>nd_data := da, nd_fetch := empty_fetch, nd_private := allow_private_federation n, nd_open := True, nd_ready := True, nd_id := fst ip, nd_paused := snd ip,
       nd_limiter := new_limiter \<lparr>max_concurrent = cf_downloads (nd_cfg n), per_client = 4, bandwidth_bps = cf_bandwidth (nd_cfg n)\<rparr>,
       nd_run := Some True\<rparr>"

definition teardown :: "'s local_node \<Rightarrow> 's local_node" where
  "teardown n = n\<lparr>nd_watch := False, nd_run := (if nd_run n = None then None else Some False), nd_open := False\<rparr>"

definition start_http :: "'s node_env \<Rightarrow> 's local_node \<Rightarrow> go_error option \<times> 's local_node" where
  "start_http env n =
     (if \<not> nv_handler env then (Some (low_error env Kind_Config ''FediShare could not start its dashboard.''), n)
      else case nv_listen env (cf_port (nd_cfg n)) of
        None \<Rightarrow> (Some (low_error env Kind_Filesystem ''FediShare could not open its local dashboard port.''), n)
      | Some addr \<Rightarrow> (None, n\<lparr>nd_url := ''http://'' @ addr, nd_http := True\<rparr>))"

definition start_services :: "'s node_env \<Rightarrow> 's local_node \<Rightarrow> go_error option \<times> 's local_node" where
  "start_services env n =
     (case refresh env n of
        (Some e, n1) \<Rightarrow> node_fail e (teardown n1)
      | (None, n1) \<Rightarrow>
          (case (if nd_skip_http n1 then (None, n1) else start_http env n1) of
             (Some e, n2) \<Rightarrow> node_fail e (teardown n2)
           | (None, n2) \<Rightarrow>
               let n3 = n2\<lparr>nd_started := True\<rparr> in
               (None, if configured (nd_cfg n3) then ensure_tunnel (ensure_watch n3) else n3)))"

definition node_start :: "'s node_env \<Rightarrow> 's local_node \<Rightarrow> disk \<Rightarrow> go_error option \<times> 's local_node \<times> disk" where
  "node_start env n d =
     (if nd_started n then (Some (Plain ''node already started''), n, d)
      else case set_state StateStarting (nd_svc n) of
        (Some e, s) \<Rightarrow> (Some (Plain e), n, d)
      | (None, s) \<Rightarrow>
          (case start_home env (n\<lparr>nd_svc := s\<rparr>) d of
             (Some e, n1, d1) \<Rightarrow> (case node_fail e n1 of (r, n2) \<Rightarrow> (r, n2, d1))
           | (None, n1, d1) \<Rightarrow>
               (case start_data env (nd_data n1) of
                  (Inl e, da) \<Rightarrow> (case node_fail e (n1\<lparr>nd_data := da\<rparr>) of (r, n2) \<Rightarrow> (r, n2, d1))
                | (Inr ip, da) \<Rightarrow> (case start_services env (install_services ip da n1) of (r, n2) \<Rightarrow> (r, n2, d1)))))"

section \<open>Shutdown\<close>

text \<open>The two outcomes of \<open>nv_down\<close>: whether \<open>http.Shutdown\<close> and \<open>db.Close\<close> succeed.\<close>

definition node_shutdown :: "'s node_env \<Rightarrow> 's local_node \<Rightarrow> go_error option \<times> 's local_node" where
  "node_shutdown env n =
     (let s = set_fields (\<lambda>v. v\<lparr>message := ''Shutting down'', gateway_connected := False, activitypub_active := False\<rparr>)
                (snd (set_state StateShuttingDown (nd_svc n)));
          err = (if (nd_http n \<and> \<not> fst (nv_down env)) \<or> (nd_open n \<and> \<not> snd (nv_down env))
                 then Some (Plain (nv_os_text env)) else None) in
      (err, n\<lparr>nd_svc := s, nd_watch := False, nd_tunnel := None, nd_run := (if nd_run n = None then None else Some False),
              nd_http := False, nd_open := False, nd_started := False, nd_watch_started := False, nd_tunnel_started := False,
              nd_up := False, nd_connecting := False\<rparr>))"

section \<open>Setup and settings\<close>

definition setup_config :: "setup_request \<Rightarrow> config \<Rightarrow> config" where
  "setup_config q c =
     normalize_config (c\<lparr>cf_display := su_display q, cf_username := su_username q, cf_share := su_share q,
       cf_gateway := su_gateway q, cf_summary := su_summary q\<rparr>)"

definition check_share :: "'s node_env \<Rightarrow> 's local_node \<Rightarrow> config \<Rightarrow> go_error option" where
  "check_share env n c = map_option (shown_error env c) (validate_share_root (cf_share c) (nd_home n))"

definition no_share_dir :: "'s node_env \<Rightarrow> go_error" where
  "no_share_dir env = low_error env Kind_Filesystem ''FediShare could not create the shared folder.''"

text \<open>The end of both handlers: the shared folder, \<open>config.json\<close>, and only then the configuration in memory.\<close>

definition save_settings :: "'s node_env \<Rightarrow> config \<Rightarrow> 's local_node \<Rightarrow> disk \<Rightarrow> go_error option \<times> 's local_node \<times> disk" where
  "save_settings env c n d =
     (case (if cf_share c = [] then (True, d) else mkdir_all (nv_os env) (path_parts (cf_share c)) d) of
        (False, d1) \<Rightarrow> (Some (no_share_dir env), n, d1)
      | (True, d1) \<Rightarrow>
          (case save_config (nv_parse env) (nv_codec env) (nv_os env) (node_dir n) c d1 of
             (Some e, d2) \<Rightarrow> (Some (low_error env Kind_Filesystem ''FediShare could not save its settings.''), n, d2)
           | (None, d2) \<Rightarrow> (None, n\<lparr>nd_cfg := c\<rparr>, d2)))"

definition node_setup :: "'s node_env \<Rightarrow> setup_request \<Rightarrow> 's local_node \<Rightarrow> disk \<Rightarrow> go_error option \<times> 's local_node \<times> disk" where
  "node_setup env q n d =
     (if configured (nd_cfg n) then (Some (new_error Kind_Config ''FediShare is already set up.''), n, d)
      else let c = setup_config q (nd_cfg n) in
        case validate (nv_parse env) c of
          Some e \<Rightarrow> (Some (shown_error env c e), n, d)
        | None \<Rightarrow>
            (case check_share env n c of
               Some e \<Rightarrow> (Some e, n, d)
             | None \<Rightarrow>
                 if cf_username c = [] \<or> cf_share c = []
                 then (Some (new_error Kind_Config ''Choose a username and a shared folder.''), n, d)
                 else (case save_settings env c n d of
                     (Some e, n1, d1) \<Rightarrow> (Some e, n1, d1)
                   | (None, n1, d1) \<Rightarrow>
                       (case load_or_create_keys (nv_keys env) (nv_os env) (keys_dir (node_dir n1)) d1 of
                          (Some e, d2) \<Rightarrow> (Some (low_error env Kind_Crypto ''FediShare could not create its identity keys.''), n1, d2)
                        | (None, d2) \<Rightarrow> (case refresh env (ensure_tunnel (ensure_watch n1)) of (r, n2) \<Rightarrow> (r, n2, d2))))))"

definition or_else :: "'a option \<Rightarrow> 'a \<Rightarrow> 'a" where
  "or_else x y = (case x of None \<Rightarrow> y | Some v \<Rightarrow> v)"

definition settings_config :: "settings_request \<Rightarrow> config \<Rightarrow> config" where
  "settings_config q c =
     normalize_config
       \<lparr>cf_username = or_else (se_username q) (cf_username c), cf_display = or_else (se_display q) (cf_display c),
        cf_summary = or_else (se_summary q) (cf_summary c), cf_share = or_else (se_share q) (cf_share c),
        cf_gateway = or_else (se_gateway q) (cf_gateway c), cf_port = or_else (se_port q) (cf_port c),
        cf_downloads = or_else (se_downloads q) (cf_downloads c), cf_bandwidth = or_else (se_bandwidth q) (cf_bandwidth c),
        cf_log = or_else (se_log q) (cf_log c), cf_login = or_else (se_login q) (cf_login c)\<rparr>"

text \<open>What changes at once: the limits, the watcher of another folder, the tunnel of another gateway.\<close>

definition apply_settings :: "'s node_env \<Rightarrow> config \<Rightarrow> 's local_node \<Rightarrow> go_error option \<times> 's local_node" where
  "apply_settings env old n =
     (let c = nd_cfg n; l = nd_limiter n;
          n1 = (if nd_ready n
                then n\<lparr>nd_limiter := l\<lparr>lims := (lims l)\<lparr>max_concurrent := cf_downloads c, bandwidth_bps := cf_bandwidth c\<rparr>\<rparr>\<rparr> else n);
          n2 = (if cf_share c \<noteq> cf_share old \<and> cf_share c \<noteq> []
                then ensure_watch (n1\<lparr>nd_watch := False, nd_watch_started := False\<rparr>) else n1);
          n3 = (if cf_gateway c \<noteq> cf_gateway old then restart_tunnel n2 else n2) in
      refresh env n3)"

definition node_settings :: "'s node_env \<Rightarrow> settings_request \<Rightarrow> 's local_node \<Rightarrow> disk \<Rightarrow> go_error option \<times> 's local_node \<times> disk" where
  "node_settings env q n d =
     (let old = nd_cfg n; c = settings_config q old in
      case validate (nv_parse env) c of
        Some e \<Rightarrow> (Some (shown_error env c e), n, d)
      | None \<Rightarrow>
          (case (if cf_share c = [] then None else check_share env n c) of
             Some e \<Rightarrow> (Some e, n, d)
           | None \<Rightarrow>
               (case save_settings env c n d of
                  (Some e, n1, d1) \<Rightarrow> (Some e, n1, d1)
                | (None, n1, d1) \<Rightarrow> (case apply_settings env old n1 of (r, n2) \<Rightarrow> (r, n2, d1)))))"

section \<open>Pausing\<close>

definition save_paused :: "'s node_env \<Rightarrow> bool \<Rightarrow> 's local_node \<Rightarrow> go_error option \<times> 's local_node" where
  "save_paused env p n0 =
     (let n = n0\<lparr>nd_paused := p\<rparr> in
      if \<not> nd_open n then refresh env n
      else case set_config (nv_conf env) (nv_now env) paused_key (if p then ''1'' else ''0'') (da_conf (nd_data n)) of
        (Some e, r) \<Rightarrow> (Some (wrapped Kind_Database ''FediShare could not save the pause state.'' (Plain e)),
                         n\<lparr>nd_data := (nd_data n)\<lparr>da_conf := r\<rparr>\<rparr>)
      | (None, r) \<Rightarrow> refresh env (n\<lparr>nd_data := (nd_data n)\<lparr>da_conf := r\<rparr>\<rparr>))"

definition finish_setup :: go_error where "finish_setup = new_error Kind_Config ''Finish setup before pausing sharing.''"

definition node_pause :: "'s node_env \<Rightarrow> 's local_node \<Rightarrow> go_error option \<times> 's local_node" where
  "node_pause env n = (if \<not> configured (nd_cfg n) then (Some finish_setup, n) else save_paused env True n)"

definition node_resume :: "'s node_env \<Rightarrow> 's local_node \<Rightarrow> go_error option \<times> 's local_node" where
  "node_resume env n = save_paused env False n"

section \<open>Reading\<close>

definition node_display :: "'s local_node \<Rightarrow> string" where
  "node_display n = (if cf_display (nd_cfg n) \<noteq> [] then cf_display (nd_cfg n) else cf_username (nd_cfg n))"

definition search_public_files ::
  "'s node_env \<Rightarrow> 's local_node \<Rightarrow> string \<Rightarrow> int \<Rightarrow> int \<Rightarrow> file_error + (file_rec list \<times> nat)" where
  "search_public_files env n q offset limit =
     (if \<not> nd_ready n then Inr ([], 0) else search_public (live_files env n) q offset limit (da_files (nd_data n)))"

definition get_public_file :: "'s node_env \<Rightarrow> 's local_node \<Rightarrow> string \<Rightarrow> file_rec option" where
  "get_public_file env n i =
     (if \<not> nd_ready n then None
      else case get_by_id (live_files env n) i (da_files (nd_data n)) of
        Inl e \<Rightarrow> None
      | Inr r \<Rightarrow> if \<not> available r \<or> (visibility r \<noteq> [] \<and> visibility r \<noteq> visibility_public) then None else Some r)"

definition file_list :: "'s node_env \<Rightarrow> 's local_node \<Rightarrow> go_error + entry list" where
  "file_list env n =
     (if \<not> nd_ready n \<or> \<not> configured (nd_cfg n) then Inr []
      else case list_available (live_files env n) 200 (da_files (nd_data n)) of
        Inl e \<Rightarrow> Inl (Plain (nv_os_text env))
      | Inr rs \<Rightarrow> Inr (map entry_of rs))"

definition follower_list :: "'s node_env \<Rightarrow> 's local_node \<Rightarrow> go_error + follower list" where
  "follower_list env n =
     (if \<not> nd_ready n then Inr []
      else case list_followers (live_fed env n) 0 200 (da_fed (nd_data n)) of
        Inl e \<Rightarrow> Inl (Plain (nv_os_text env)) | Inr (fs, _) \<Rightarrow> Inr fs)"

definition activity_item :: "string \<Rightarrow> string \<Rightarrow> string \<Rightarrow> string \<Rightarrow> string \<Rightarrow> string \<Rightarrow> json" where
  "activity_item i typ1 name published obj dl =
     JObj [(''id'', JStr i), (''type'', JStr typ1), (''name'', JStr name), (''published'', JStr published),
           (''object_url'', JStr obj), (''download_url'', JStr dl)]"

definition federation_activity_list :: "'s node_env \<Rightarrow> 's local_node \<Rightarrow> json list" where
  "federation_activity_list env n =
     (if \<not> nd_ready n then []
      else case list_activities (live_fed env n) 50 (da_fed (nd_data n)) of
        Inl e \<Rightarrow> []
      | Inr as \<Rightarrow>
          map (\<lambda>a. let f = ac_file a; base = ''/users/'' @ cf_username (nd_cfg n) in
                 activity_item (ac_id a) (ac_type a) f (nv_format env (ac_published a * second))
                   (if f \<noteq> [] then base @ ''/files/'' @ f else []) (if f \<noteq> [] then base @ ''/download/'' @ f else [])) as)"

text \<open>The list falls back to the shared files when no activity was recorded or the table cannot be read.\<close>

definition activity_list :: "'s node_env \<Rightarrow> 's local_node \<Rightarrow> go_error + json list" where
  "activity_list env n =
     (if federation_activity_list env n \<noteq> [] then Inr (federation_activity_list env n)
      else case search_public_files env n [] 0 50 of
        Inl e \<Rightarrow> Inl (Plain (nv_os_text env))
      | Inr (rs, _) \<Rightarrow>
          let p = node_paths n; base = ''/users/'' @ pt_user p in
          Inr (map (\<lambda>r. activity_item (activity_url p (rec_id r)) ''Create'' (filename r)
                 (if indexed_at r = zero_time then [] else nv_format env (indexed_at r))
                 (base @ ''/files/'' @ rec_id r) (base @ ''/download/'' @ rec_id r)) rs))"

text \<open>The node as the source of the ActivityPub endpoints, and as the store behind the download handler.\<close>

definition inbox_outcome :: "fed_error option \<Rightarrow> inbox_error option" where
  "inbox_outcome e =
     map_option (\<lambda>x. case x of Fed_Unauthorized \<Rightarrow> Inbox_Unauthorized | Fed_Replay \<Rightarrow> Inbox_Replay
       | Fed_Forbidden \<Rightarrow> Inbox_Forbidden | _ \<Rightarrow> Inbox_Invalid) e"

definition list_page_of :: "file_error + (file_rec list \<times> nat) \<Rightarrow> (file_rec list \<times> int) option" where
  "list_page_of x = (case x of Inl e \<Rightarrow> None | Inr (rs, k) \<Rightarrow> Some (rs, int k))"

definition id_page_of :: "fed_error + (string list \<times> nat) \<Rightarrow> (string list \<times> int) option" where
  "id_page_of x = (case x of Inl e \<Rightarrow> None | Inr (is, k) \<Rightarrow> Some (is, int k))"

definition node_source :: "'s node_env \<Rightarrow> disk \<Rightarrow> sig_request \<Rightarrow> 's local_node \<Rightarrow> ap_source" where
  "node_source env d r n =
     (let c = nd_cfg n; fed = da_fed (nd_data n) in
      \<lparr>src_configured = configured c, src_username = cf_username c, src_display = node_display n, src_summary = cf_summary c,
       src_pem = (case public_pem (nv_keys env) (nv_os env) (keys_dir (node_dir n)) d of Inl e \<Rightarrow> None | Inr t \<Rightarrow> Some t),
        src_base = node_base n, src_acct_host = acct_host (nv_parse env) (cf_gateway c) (nd_url n),
       src_list = (\<lambda>off lim. list_page_of (search_public_files env n [] off lim)),
       src_search = (\<lambda>q off lim. list_page_of (search_public_files env n q off lim)), src_get = get_public_file env n,
       src_social = True,
       src_followers = (\<lambda>off lim. if \<not> nd_ready n then Some ([], 0)
          else id_page_of (map_sum id (apfst (map fo_actor)) (list_followers (live_fed env n) off lim fed))),
       src_following = (\<lambda>off lim. if \<not> nd_ready n then Some ([], 0) else id_page_of (list_following_ids (live_fed env n) off lim fed)),
       src_inbox = (\<lambda>doc. inbox_outcome (fst (node_process env r doc n)))\<rparr>)"

definition node_download_env :: "'s node_env \<Rightarrow> fs \<Rightarrow> (string \<Rightarrow> time option) \<Rightarrow> 's local_node \<Rightarrow> download_env" where
  "node_download_env env fs parse n =
     \<lparr>env_fs = fs, env_root = cf_share (nd_cfg n),
      env_lookup = (\<lambda>i. if \<not> nd_ready n then Inl ErrUnavailable else get_by_id (live_files env n) i (da_files (nd_data n))),
      env_paused = nd_paused n, env_seek = nv_seek env, parse_time = parse, format_time = nv_format env\<rparr>"

definition node_download ::
  "'s node_env \<Rightarrow> fs \<Rightarrow> (string \<Rightarrow> time option) \<Rightarrow> http_request \<Rightarrow> 's local_node \<Rightarrow> http_response \<times> 's local_node" where
  "node_download env fs parse r n =
     (case download (node_download_env env fs parse n) r (nd_limiter n) of (resp, l) \<Rightarrow> (resp, n\<lparr>nd_limiter := l\<rparr>))"

definition node_block_target :: "'s node_env \<Rightarrow> string \<Rightarrow> 's local_node \<Rightarrow> go_error option \<times> 's local_node" where
  "node_block_target env target n =
     (if \<not> nd_ready n then (None, n)
      else case node_block (live_fed env n) target (da_fed (nd_data n)) of
        (e, fed) \<Rightarrow> (map_option (\<lambda>_. Plain (nv_os_text env)) e, n\<lparr>nd_data := (nd_data n)\<lparr>da_fed := fed\<rparr>\<rparr>))"

definition node_unblock :: "'s node_env \<Rightarrow> string \<Rightarrow> 's local_node \<Rightarrow> go_error option \<times> 's local_node" where
  "node_unblock env target n =
     (if \<not> nd_ready n then (None, n)
      else case unblock (live_fed env n) target (da_fed (nd_data n)) of
        (e, fed) \<Rightarrow> (map_option (\<lambda>_. Plain (nv_os_text env)) e, n\<lparr>nd_data := (nd_data n)\<lparr>da_fed := fed\<rparr>\<rparr>))"

text \<open>\<open>FetchNetwork\<close> builds a client with the node's policy.\<close>

definition setup_hint :: directory where
  "setup_hint = zero_directory\<lparr>dir_type := type_directory, dir_hint := ''Finish setup before browsing the FediShare network.''\<rparr>"

definition fetch_network :: "'s node_env \<Rightarrow> 's local_node \<Rightarrow> string \<Rightarrow> net_log \<Rightarrow> (go_error + directory) \<times> net_log" where
  "fetch_network env n what l =
     resolve_query ((nv_net env)\<lparr>ne_policy := \<lparr>allow_private = allow_private_federation n\<rparr>\<rparr>) what (cf_gateway (nd_cfg n)) l"

end
