(* ===== verification/Node_Facts.thy ===== *)
theory Node_Facts
  imports Node_Ops Limiter
begin

text \<open>
  Runs of a node: every operation is an event with the world it meets; a boot is a new process over the same
  files. The properties are invariants of every run: the configuration stays valid and the share apart from
  the data directory, a node that was shut down stays down, a pause lasts until it is taken back.
\<close>

section \<open>Events\<close>

datatype node_event =
  Ev_Boot | Ev_Start | Ev_Shutdown | Ev_Setup setup_request | Ev_Settings settings_request | Ev_Pause | Ev_Resume
| Ev_Rescan | Ev_Index_Loop | Ev_Scan | Ev_Tunnel nat bool | Ev_Inbox sig_request string | Ev_Block string
| Ev_Unblock string | Ev_Download fs "string \<Rightarrow> time option" http_request

definition node_boot :: "'s node_env \<Rightarrow> 's local_node \<times> disk \<Rightarrow> 's local_node \<times> disk" where
  "node_boot env nd =
     (case nd of (n, d) \<Rightarrow>
        (case new_node env (nd_home n) None (nd_allow_local n) (nd_skip_http n) (nd_profile n) (nd_data n) d of
           Inl e \<Rightarrow> (n, d) | Inr m \<Rightarrow> (m, d)))"

text \<open>\<open>url.Parse\<close> is the same function for all events.\<close>

fun node_event_step :: "'s node_env \<Rightarrow> 's local_node \<times> disk \<Rightarrow> node_event \<Rightarrow> 's local_node \<times> disk" where
  "node_event_step env (n, d) Ev_Boot = node_boot env (n, d)"
| "node_event_step env (n, d) Ev_Start = snd (node_start env n d)"
| "node_event_step env (n, d) Ev_Shutdown = (snd (node_shutdown env n), d)"
| "node_event_step env (n, d) (Ev_Setup q) = snd (node_setup env q n d)"
| "node_event_step env (n, d) (Ev_Settings q) = snd (node_settings env q n d)"
| "node_event_step env (n, d) Ev_Pause = (snd (node_pause env n), d)"
| "node_event_step env (n, d) Ev_Resume = (snd (node_resume env n), d)"
| "node_event_step env (n, d) Ev_Rescan = (snd (node_rescan env n), d)"
| "node_event_step env (n, d) Ev_Index_Loop = (index_loop_start env n, d)"
| "node_event_step env (n, d) Ev_Scan = (scan_once env n, d)"
| "node_event_step env (n, d) (Ev_Tunnel i ok) = (tunnel_step env i ok n, d)"
| "node_event_step env (n, d) (Ev_Inbox r doc) = (snd (node_process env r doc n), d)"
| "node_event_step env (n, d) (Ev_Block t) = (snd (node_block_target env t n), d)"
| "node_event_step env (n, d) (Ev_Unblock t) = (snd (node_unblock env t n), d)"
| "node_event_step env (n, d) (Ev_Download fs p r) = (snd (node_download env fs p r n), d)"

definition node_run_step :: "url_parser \<Rightarrow> 's local_node \<times> disk \<Rightarrow> 's node_env \<times> node_event \<Rightarrow> 's local_node \<times> disk" where
  "node_run_step parse nd e = node_event_step ((fst e)\<lparr>nv_parse := parse\<rparr>) nd (snd e)"

definition guarded :: "('e \<Rightarrow> bool) \<Rightarrow> ('s \<Rightarrow> 'e \<Rightarrow> 's) \<Rightarrow> 's \<Rightarrow> 'e \<Rightarrow> 's" where
  "guarded ok step s e = (if ok e then step s e else s)"

lemma run_guarded: "list_all ok es \<Longrightarrow> run (guarded ok step) s es = run step s es"
  by (induction es arbitrary: s) (auto simp: guarded_def)

section \<open>What an operation leaves alone\<close>

definition core :: "'s local_node \<Rightarrow> _" where
  "core n = (nd_home n, nd_cfg n, nd_paused n, nd_ready n, nd_open n, nd_started n, nd_http n, nd_private n,
     da_conf (nd_data n))"

definition down :: "'s local_node \<Rightarrow> bool" where
  "down n \<longleftrightarrow> snap_state (snap (nd_svc n)) = StateShuttingDown"

lemma refresh_only: "\<exists>s. snd (refresh env n) = n\<lparr>nd_svc := s\<rparr>"
  by (auto simp: refresh_def split: prod.split option.split)

lemma core_svc [simp]: "core (n\<lparr>nd_svc := s\<rparr>) = core n"
  by (simp add: core_def)

lemma refresh_core [simp]: "core (snd (refresh env n)) = core n"
  using refresh_only [of env n] by (metis core_svc)

lemma refresh_fields [simp]:
  "nd_cfg (snd (refresh env n)) = nd_cfg n" "nd_data (snd (refresh env n)) = nd_data n" "nd_loops (snd (refresh env n)) = nd_loops n"
  "nd_tunnel (snd (refresh env n)) = nd_tunnel n" "nd_up (snd (refresh env n)) = nd_up n" "nd_run (snd (refresh env n)) = nd_run n"
  "nd_private (snd (refresh env n)) = nd_private n" "nd_connecting (snd (refresh env n)) = nd_connecting n"
  "nd_paused (snd (refresh env n)) = nd_paused n" "nd_ready (snd (refresh env n)) = nd_ready n"
  using refresh_only [of env n] by auto

lemma snap_set_fields: "snap (set_fields f s) = f (snap s)"
  by (simp add: set_fields_def snap_update)

lemma set_state_down: "snap_state (snap s) = StateShuttingDown \<Longrightarrow> snap_state (snap (snd (set_state t s))) = StateShuttingDown"
  by (simp add: snap_set_state Let_def)

lemma refresh_down: "down n \<Longrightarrow> down (snd (refresh env n))"
proof -
  assume d: "down n"
  have f: "snap_state (snap (refresh_fields env n (nd_svc n))) = snap_state (snap (nd_svc n))"
    by (auto simp: refresh_fields_def Let_def snap_set_fields split: sum.split)
  have "snap_state (snap (nd_svc (snd (refresh env n)))) =
      snap_state (snap (snd (set_state (fst (node_state n)) (refresh_fields env n (nd_svc n)))))"
    by (auto simp: refresh_def snap_set_fields split: prod.split option.split)
  then show ?thesis using d set_state_down [of "refresh_fields env n (nd_svc n)"] f by (simp add: down_def)
qed

lemma core_flags [simp]: "core (n\<lparr>nd_up := u, nd_connecting := c\<rparr>) = core n" "core (n\<lparr>nd_limiter := l\<rparr>) = core n"
  "core (n\<lparr>nd_watch := False, nd_watch_started := False\<rparr>) = core n"
  "core (n\<lparr>nd_limiter := l, nd_watch := False, nd_watch_started := False\<rparr>) = core n"
  by (simp_all add: core_def)

lemma loop_core [simp]:
  "core (ensure_watch n) = core n" "core (stop_tunnel n) = core n" "core (ensure_tunnel n) = core n"
  "core (restart_tunnel n) = core n" "core (set_loop i st n) = core n"
  by (simp_all add: core_def ensure_watch_def stop_tunnel_def ensure_tunnel_def restart_tunnel_def set_loop_def)

lemma flags_core [simp]: "core (set_tunnel_flags env u c n) = core n"
  by (simp add: set_tunnel_flags_def)

lemma loop_svc [simp]:
  "nd_svc (ensure_watch n) = nd_svc n" "nd_svc (stop_tunnel n) = nd_svc n" "nd_svc (ensure_tunnel n) = nd_svc n"
  "nd_svc (restart_tunnel n) = nd_svc n" "nd_svc (set_loop i st n) = nd_svc n"
  by (simp_all add: ensure_watch_def stop_tunnel_def ensure_tunnel_def restart_tunnel_def set_loop_def)

lemma tunnel_core [simp]: "core (tunnel_step env i ok n) = core n"
  by (simp add: tunnel_step_def Let_def split: loop_state.split)

lemma flags_down: "down n \<Longrightarrow> down (set_tunnel_flags env u c n)"
  unfolding set_tunnel_flags_def by (rule refresh_down) (simp add: down_def)

lemma tunnel_down: "down n \<Longrightarrow> down (tunnel_step env i ok n)"
  by (auto simp: tunnel_step_def Let_def down_def intro!: flags_down [unfolded down_def] split: loop_state.split)

lemma scan_core [simp]: "core (snd (scan_share env n)) = core n" "core (show_summary env n) = core n"
  by (simp_all add: scan_share_def publish_all_def show_summary_def Let_def core_def)

lemma scan_down: "down n \<Longrightarrow> down (snd (scan_share env n))" "down n \<Longrightarrow> down (show_summary env n)"
  by (auto simp: scan_share_def publish_all_def show_summary_def Let_def down_def set_progress_def publish_summary_def snap_update
      split: sum.split)

lemma scan_once_core [simp]: "core (scan_once env n) = core n" "core (index_loop_start env n) = core n"
  by (simp_all add: scan_once_def index_loop_start_def)

lemma scan_once_down: "down n \<Longrightarrow> down (scan_once env n)"
  by (simp add: scan_once_def refresh_down scan_down)

lemma index_loop_down: "down n \<Longrightarrow> down (index_loop_start env n)"
  by (auto simp: index_loop_start_def down_def set_state_down intro!: scan_once_down [unfolded down_def])

lemma rescan_core [simp]: "core (snd (node_rescan env n)) = core n"
proof -
  have "core (snd (case scan_share env m of (False, k) \<Rightarrow> (x, k) | (True, k) \<Rightarrow> refresh env (show_summary env k))) = core m" for m x
    using scan_core(1) [of env m] by (cases "scan_share env m") (auto split: bool.split)
  then show ?thesis by (simp add: node_rescan_def Let_def)
qed

lemma rescan_down: "down n \<Longrightarrow> down (snd (node_rescan env n))"
proof -
  have "down (snd (case scan_share env m of (False, k) \<Rightarrow> (x, k) | (True, k) \<Rightarrow> refresh env (show_summary env k)))" if "down m" for m x
    using scan_down(1) [OF that, of env] by (cases "scan_share env m") (auto split: bool.split intro!: refresh_down scan_down)
  moreover assume "down n"
  ultimately show ?thesis by (simp add: node_rescan_def Let_def down_def set_state_down)
qed

lemma data_ops_core [simp]:
  "core (snd (node_process env r doc n)) = core n" "core (snd (node_block_target env t n)) = core n"
  "core (snd (node_unblock env t n)) = core n" "core (snd (node_download env fs p q n)) = core n"
  by (simp_all add: node_process_def node_block_target_def node_unblock_def node_download_def core_def split: prod.split)

lemma data_ops_svc [simp]:
  "nd_svc (snd (node_process env r doc n)) = nd_svc n" "nd_svc (snd (node_block_target env t n)) = nd_svc n"
  "nd_svc (snd (node_unblock env t n)) = nd_svc n" "nd_svc (snd (node_download env fs p q n)) = nd_svc n"
  by (simp_all add: node_process_def node_block_target_def node_unblock_def node_download_def split: prod.split)

section \<open>Settings and setup\<close>

lemma apply_settings_core: "core (snd (apply_settings env old n)) = core n"
  by (simp add: apply_settings_def Let_def)

lemma apply_settings_down: "down n \<Longrightarrow> down (snd (apply_settings env old n))"
  by (auto simp: apply_settings_def Let_def down_def intro!: refresh_down [unfolded down_def])

lemma save_settings_cases:
  assumes "save_settings env c n d = (r, n1, d1)"
  obtains "r \<noteq> None" "n1 = n" | "r = None" "n1 = n\<lparr>nd_cfg := c\<rparr>"
  using assms by (auto simp: save_settings_def split: prod.splits bool.splits option.splits)

definition cfg_ok :: "url_parser \<Rightarrow> string \<Rightarrow> config \<Rightarrow> bool" where
  "cfg_ok parse home c \<longleftrightarrow> normalize_config c = c \<and> validate parse c = None \<and>
     (cf_share c = [] \<or> validate_share_root (cf_share c) home = None)"

lemma settings_result:
  assumes "node_settings env q n d = (r, n1, d1)"
  obtains "n1 = n" | c where "core n1 = core (n\<lparr>nd_cfg := c\<rparr>)" "cfg_ok (nv_parse env) (nd_home n) c" "down n \<longrightarrow> down n1"
proof -
  let ?c = "settings_config q (nd_cfg n)"
  show thesis
  proof (cases "validate (nv_parse env) ?c = None \<and> (cf_share ?c = [] \<or> check_share env n ?c = None)")
    case False
    then have "n1 = n" using assms by (auto simp: node_settings_def Let_def split: option.splits if_splits)
    then show thesis by (rule that(1))
  next
    case True
    obtain r2 n2 d2 where s: "save_settings env ?c n d = (r2, n2, d2)" by (metis prod_cases3)
    have ok: "cfg_ok (nv_parse env) (nd_home n) ?c"
      using True by (auto simp: cfg_ok_def settings_config_def normalize_idem check_share_def)
    have share: "(if cf_share ?c = [] then None else check_share env n ?c) = None" using True by auto
    from s show thesis
    proof (cases rule: save_settings_cases)
      case 1
      then have "n1 = n" using assms s True share by (auto simp: node_settings_def Let_def)
      then show thesis by (rule that(1))
    next
      case 2
      then have "n1 = snd (apply_settings env (nd_cfg n) n2)"
        using assms s True share by (auto simp: node_settings_def Let_def split: prod.splits)
      then show thesis using that(2) [OF _ ok] 2 apply_settings_core [of env "nd_cfg n" n2]
          apply_settings_down [of n2 env "nd_cfg n"] by (simp add: down_def)
    qed
  qed
qed

lemma setup_result:
  assumes "node_setup env q n d = (r, n1, d1)"
  obtains "n1 = n" | c where "core n1 = core (n\<lparr>nd_cfg := c\<rparr>)" "cfg_ok (nv_parse env) (nd_home n) c" "down n \<longrightarrow> down n1"
proof -
  let ?c = "setup_config q (nd_cfg n)"
  show thesis
  proof (cases "\<not> configured (nd_cfg n) \<and> validate (nv_parse env) ?c = None \<and> check_share env n ?c = None \<and> cf_username ?c \<noteq> [] \<and> cf_share ?c \<noteq> []")
    case False
    then have "n1 = n" using assms by (auto simp: node_setup_def Let_def split: option.splits if_splits)
    then show thesis by (rule that(1))
  next
    case True
    obtain r2 n2 d2 where s: "save_settings env ?c n d = (r2, n2, d2)" by (metis prod_cases3)
    have ok: "cfg_ok (nv_parse env) (nd_home n) ?c"
      using True by (auto simp: cfg_ok_def setup_config_def normalize_idem check_share_def)
    from s show thesis
    proof (cases rule: save_settings_cases)
      case 1
      then have "n1 = n" using assms s True by (auto simp: node_setup_def Let_def split: option.splits)
      then show thesis by (rule that(1))
    next
      case 2
      then have "n1 = n2 \<or> n1 = snd (refresh env (ensure_tunnel (ensure_watch n2)))"
        using assms s True by (auto simp: node_setup_def Let_def split: option.splits prod.splits)
      moreover have "core (snd (refresh env (ensure_tunnel (ensure_watch n2)))) = core n2" by simp
      moreover have "down n2 \<longrightarrow> down (snd (refresh env (ensure_tunnel (ensure_watch n2))))"
        using refresh_down [of "ensure_tunnel (ensure_watch n2)" env] by (simp add: down_def)
      ultimately show thesis using that(2) [OF _ ok] 2 by (auto simp: down_def)
    qed
  qed
qed

section \<open>Start and shutdown\<close>

definition kept :: "'s local_node \<Rightarrow> string \<times> config \<times> bool \<times> bool \<times> config_row list" where
  "kept n = (nd_home n, nd_cfg n, nd_paused n, nd_ready n, da_conf (nd_data n))"

lemma core_kept: "core n = core m \<Longrightarrow> kept n = kept m"
  by (simp add: core_def kept_def)

lemma fail_kept [simp]: "kept (snd (node_fail e n)) = kept n" "kept (teardown n) = kept n"
  by (simp_all add: node_fail_def teardown_def kept_def)

lemma start_services_kept: "kept (snd (start_services env n)) = kept n"
proof -
  have loops: "kept (ensure_tunnel (ensure_watch m)) = kept m" for m :: "'a local_node" by (rule core_kept) simp
  have http: "kept (snd (start_http env m)) = kept m" for m
    by (simp add: start_http_def kept_def split: option.split)
  have started: "kept (m\<lparr>nd_started := True\<rparr>) = kept m" for m :: "'a local_node" by (simp add: kept_def)
  obtain r n1 where r: "refresh env n = (r, n1)" by fastforce
  have n1: "kept n1 = kept n" using refresh_core [of env n] r by (intro core_kept) simp
  show ?thesis
  proof (cases r)
    case None
    obtain h n2 where h: "(if nd_skip_http n1 then (None, n1) else start_http env n1) = (h, n2)" by fastforce
    have n2: "kept n2 = kept n1" using http [of n1] h by (auto split: if_splits)
    show ?thesis
      by (cases h) (simp_all add: start_services_def r None h n1 n2 Let_def loops started)
  qed (simp add: start_services_def r n1)
qed

lemma start_home_node:
  "start_home env n d = (r, n1, d1) \<Longrightarrow> n1 = n \<or> n1 = n\<lparr>nd_cfg := normalize_config (nd_cfg n)\<rparr>"
  by (auto simp: start_home_def Let_def split: prod.splits option.splits)

lemma start_result:
  assumes "node_start env n d = (r, n1, d1)"
  obtains "n1 = n"
  | c da where "c \<in> {nd_cfg n, normalize_config (nd_cfg n)}" "kept n1 = kept (n\<lparr>nd_cfg := c, nd_data := da\<rparr>)"
      "da = nd_data n \<or> da = snd (start_data env (nd_data n))"
  | c da ip where "c \<in> {nd_cfg n, normalize_config (nd_cfg n)}" "start_data env (nd_data n) = (Inr ip, da)"
      "kept n1 = (nd_home n, c, snd ip, True, da_conf da)"
proof -
  obtain e s where e: "set_state StateStarting (nd_svc n) = (e, s)" by fastforce
  show thesis
  proof (cases "nd_started n \<or> e \<noteq> None")
    case True
    then have "n1 = n" using assms e by (auto simp: node_start_def split: if_splits)
    then show thesis by (rule that(1))
  next
    case False
    let ?n = "n\<lparr>nd_svc := s\<rparr>"
    obtain r2 n2 d2 where h: "start_home env ?n d = (r2, n2, d2)" by (metis prod_cases3)
    have same_cfg: "?n = ?n\<lparr>nd_cfg := nd_cfg n\<rparr>" by (cases n) simp
    obtain c where c: "c \<in> {nd_cfg n, normalize_config (nd_cfg n)}" "n2 = ?n\<lparr>nd_cfg := c\<rparr>"
    proof -
      from start_home_node [OF h] show thesis
      proof
        assume "n2 = ?n"
        then show thesis using that [of "nd_cfg n"] same_cfg by simp
      next
        assume "n2 = ?n\<lparr>nd_cfg := normalize_config (nd_cfg ?n)\<rparr>"
        then show thesis using that [of "normalize_config (nd_cfg n)"] by simp
      qed
    qed
    obtain x da where x: "start_data env (nd_data n2) = (x, da)" by fastforce
    have same: "nd_data n2 = nd_data n" using c(2) by simp
    show thesis
    proof (cases r2)
      case (Some e2)
      then have "n1 = snd (node_fail e2 n2)" using assms e h False by (auto simp: node_start_def split: prod.splits)
      then have "kept n1 = kept (n\<lparr>nd_cfg := c, nd_data := nd_data n\<rparr>)" using c(2) by simp (simp add: kept_def)
      then show thesis using that(2) [OF c(1)] by blast
    next
      case None
      show thesis
      proof (cases x)
        case (Inl e2)
        then have "n1 = snd (node_fail e2 (n2\<lparr>nd_data := da\<rparr>))" using assms e h x None False
          by (auto simp: node_start_def split: prod.splits)
        then have "kept n1 = kept (n\<lparr>nd_cfg := c, nd_data := da\<rparr>)" using c(2) by simp (simp add: kept_def)
        then show thesis using that(2) [OF c(1)] x same by simp
      next
        case (Inr ip)
        then have "n1 = snd (start_services env (install_services ip da n2))" using assms e h x None False
          by (auto simp: node_start_def split: prod.splits)
        then have "kept n1 = (nd_home n, c, snd ip, True, da_conf da)"
          using c(2) by (simp add: start_services_kept) (simp add: kept_def install_services_def)
        then show thesis using that(3) [OF c(1)] x same Inr by simp
      qed
    qed
  qed
qed

lemma shutdown_core:
  "nd_home (snd (node_shutdown env n)) = nd_home n" "nd_cfg (snd (node_shutdown env n)) = nd_cfg n"
  "kept (snd (node_shutdown env n)) = kept n" "down (snd (node_shutdown env n))"
  "\<not> nd_started (snd (node_shutdown env n))" "\<not> nd_open (snd (node_shutdown env n))" "\<not> nd_http (snd (node_shutdown env n))"
  by (simp_all add: node_shutdown_def Let_def kept_def down_def snap_set_fields snap_set_state)

section \<open>The pause flag\<close>

definition pause_stored :: "config_row list \<Rightarrow> bool" where
  "pause_stored rows \<longleftrightarrow> config_value rows paused_key = Some ''1''"

lemma set_config_stored: "k \<noteq> paused_key \<Longrightarrow> pause_stored rows \<Longrightarrow> pause_stored (snd (set_config b now k v rows))"
  by (simp add: pause_stored_def set_config_def config_value_put)

lemma keys_apart: "node_id_key \<noteq> paused_key" "first_started_key \<noteq> paused_key" "last_started_key \<noteq> paused_key"
  by code_simp+

lemma node_id_stored: "pause_stored rows \<Longrightarrow> pause_stored (snd (load_or_create_node_id b now rnd rows))"
proof -
  have "pause_stored (snd (case set_config b now node_id_key j rows of (Some e, r) \<Rightarrow> (Inl e, r) | (None, r) \<Rightarrow> (Inr j, r)))"
    if "pause_stored rows" for j
    using set_config_stored [OF keys_apart(1) that, of b now j]
    by (cases "set_config b now node_id_key j rows") (auto split: option.split)
  then show "pause_stored rows \<Longrightarrow> pause_stored (snd (load_or_create_node_id b now rnd rows))"
    by (simp add: load_or_create_node_id_def split: sum.split option.split)
qed

lemma record_start_stored: "pause_stored rows \<Longrightarrow> pause_stored (snd (record_start b now t rows))"
proof -
  assume p: "pause_stored rows"
  obtain e r where r: "set_config b now first_started_key t rows = (e, r)" by fastforce
  have "pause_stored r" using set_config_stored [OF keys_apart(2) p, of b now t] r by simp
  then show ?thesis using set_config_stored [OF keys_apart(3)] p
    by (auto simp: record_start_def r split: sum.split option.split)
qed

lemma start_data_stored:
  assumes "pause_stored (da_conf da)" "start_data env da = (x, da1)"
  shows "pause_stored (da_conf da1)" "x = Inr (i, p) \<Longrightarrow> p"
proof -
  obtain e m where m: "migrate (nv_mig env) (da_mig da) = (e, m)" by fastforce
  obtain y r where y: "load_or_create_node_id (nv_conf env) (nv_now env) (nv_random env) (da_conf da) = (y, r)" by fastforce
  obtain z r1 where z: "record_start (nv_conf env) (nv_now env) (nv_now_text env) r = (z, r1)" by fastforce
  have r: "pause_stored r" using node_id_stored [OF assms(1)] y by (metis snd_conv)
  then have r1: "pause_stored r1" using record_start_stored z by (metis snd_conv)
  show "pause_stored (da_conf da1)" "x = Inr (i, p) \<Longrightarrow> p"
    using assms r r1 by (auto simp: start_data_def m y z Let_def load_paused_def get_config_def pause_stored_def
        split: if_splits option.splits sum.splits)
qed

end
