(* ===== verification/Node_Safety.thy ===== *)
theory Node_Safety
  imports Node_Facts Gateway_Directory Delivery_Queue
begin

text \<open>
  The invariants of a node's runs as interpretations of \<open>machine\<close>, and the properties of the node: pausing,
  settings, stopping, the tunnel loop.
\<close>

section \<open>Invariants\<close>

definition pause_holds :: "'s local_node \<Rightarrow> bool" where
  "pause_holds n \<longleftrightarrow> pause_stored (da_conf (nd_data n)) \<and> (nd_ready n \<longrightarrow> nd_paused n)"

lemma pause_kept: "kept n = kept m \<Longrightarrow> pause_holds n = pause_holds m"
  by (simp add: kept_def pause_holds_def)

lemma pause_core: "core n = core m \<Longrightarrow> pause_holds n = pause_holds m"
  by (rule pause_kept) (rule core_kept)

lemma pause_cfg: "core n = core (m\<lparr>nd_cfg := c\<rparr>) \<Longrightarrow> pause_holds n = pause_holds m"
  using pause_core [of n "m\<lparr>nd_cfg := c\<rparr>"] by (simp add: pause_holds_def)

lemma boot_result: "node_boot env (n, d) = (n, d) \<or> (\<exists>c. node_boot env (n, d) =
    (fresh_node (nd_home n) c (nd_allow_local n) (nd_skip_http n) (nd_profile n) (nd_data n), d))"
  by (auto simp: node_boot_def new_node_def split: sum.split)

lemma start_pause:
  assumes "node_start env n d = (r, n1, d1)" "pause_holds n"
  shows "pause_holds n1"
  using assms(1)
proof (cases rule: start_result)
  case (2 c da)
  have st: "pause_stored (da_conf (nd_data n))" using assms(2) by (simp add: pause_holds_def)
  have "pause_stored (da_conf da)" using 2(3) st start_data_stored(1) [OF st surjective_pairing] by auto
  then show ?thesis using 2(2) assms(2) by (simp add: kept_def pause_holds_def)
next
  case (3 c da ip)
  have st: "pause_stored (da_conf (nd_data n))" using assms(2) by (simp add: pause_holds_def)
  have "pause_stored (da_conf da) \<and> snd ip"
    using start_data_stored(1) [OF st 3(2)] start_data_stored(2) [OF st 3(2), of "fst ip" "snd ip"] by simp
  then show ?thesis using 3(3) by (simp add: kept_def pause_holds_def)
qed (use assms(2) in simp)

lemma save_paused_pause:
  assumes "pause_holds n \<or> nd_open n \<and> \<not> nv_conf env (Conf_Set paused_key)"
  shows "pause_holds (snd (save_paused env True n))"
proof -
  obtain e r where r: "set_config (nv_conf env) (nv_now env) paused_key ''1'' (da_conf (nd_data n)) = (e, r)" by fastforce
  have p: "pause_stored r" if "nd_open n"
    using assms r by (auto simp: pause_holds_def pause_stored_def set_config_def config_value_put split: if_splits)
  show ?thesis
    using assms p by (cases e) (auto simp: save_paused_def Let_def r pause_holds_def)
qed

lemma step_pause:
  assumes "pause_holds n" "e \<noteq> Ev_Resume" "node_event_step env (n, d) e = (n1, d1)"
  shows "pause_holds n1"
proof (cases e)
  case Ev_Boot
  then show ?thesis using boot_result [of env n d] assms by (auto simp: pause_holds_def fresh_node_def)
next
  case Ev_Start
  then show ?thesis using start_pause assms by (metis node_event_step.simps(2) snd_conv surjective_pairing)
next
  case Ev_Shutdown
  then show ?thesis using assms shutdown_core(3) [of env n] pause_kept by auto
next
  case (Ev_Setup q)
  then have "node_setup env q n d = (fst (node_setup env q n d), n1, d1)" using assms(3) by (simp add: prod_eq_iff)
  then show ?thesis by (cases rule: setup_result) (use assms(1) pause_cfg in auto)
next
  case (Ev_Settings q)
  then have "node_settings env q n d = (fst (node_settings env q n d), n1, d1)" using assms(3) by (simp add: prod_eq_iff)
  then show ?thesis by (cases rule: settings_result) (use assms(1) pause_cfg in auto)
next
  case Ev_Pause
  then show ?thesis using assms save_paused_pause [of n env] by (auto simp: node_pause_def split: if_splits)
qed (use assms pause_core in \<open>auto simp: pause_core [OF rescan_core] pause_core [OF scan_once_core(1)]
    pause_core [OF scan_once_core(2)] pause_core [OF tunnel_core] pause_core [OF data_ops_core(1)]
    pause_core [OF data_ops_core(2)] pause_core [OF data_ops_core(3)] pause_core [OF data_ops_core(4)]\<close>)

definition not_resume :: "'s node_env \<times> node_event \<Rightarrow> bool" where "not_resume e \<longleftrightarrow> snd e \<noteq> Ev_Resume"
definition same_process :: "'s node_env \<times> node_event \<Rightarrow> bool" where "same_process e \<longleftrightarrow> snd e \<noteq> Ev_Boot"

interpretation pausing: machine "guarded not_resume (node_run_step parse)" "\<lambda>nd. pause_holds (fst nd)" for parse
proof
  fix s :: "'a local_node \<times> disk" and e
  assume "pause_holds (fst s)"
  then show "pause_holds (fst (guarded not_resume (node_run_step parse) s e))"
    using step_pause [of "fst s" "snd e" _ "snd s"]
    by (auto simp: guarded_def not_resume_def node_run_step_def) (metis surjective_pairing)
qed

text \<open>The configuration.\<close>

definition node_ok :: "url_parser \<Rightarrow> 's local_node \<Rightarrow> bool" where
  "node_ok parse n \<longleftrightarrow> cfg_ok parse (nd_home n) (nd_cfg n)"

lemma ok_kept: "kept n = kept m \<Longrightarrow> node_ok parse n = node_ok parse m"
  by (simp add: kept_def node_ok_def)

lemma ok_core: "core n = core m \<Longrightarrow> node_ok parse n = node_ok parse m"
  by (rule ok_kept) (rule core_kept)

lemma save_paused_frame:
  "nd_home (snd (save_paused env p n)) = nd_home n" "nd_cfg (snd (save_paused env p n)) = nd_cfg n"
  "nd_open (snd (save_paused env p n)) = nd_open n" "nd_started (snd (save_paused env p n)) = nd_started n"
  "nd_http (snd (save_paused env p n)) = nd_http n"
proof -
  obtain e r where r: "set_config (nv_conf env) (nv_now env) paused_key (if p then ''1'' else ''0'') (da_conf (nd_data n)) = (e, r)"
    by fastforce
  have f: "nd_home (snd (refresh env m)) = nd_home m" "nd_open (snd (refresh env m)) = nd_open m"
      "nd_started (snd (refresh env m)) = nd_started m" "nd_http (snd (refresh env m)) = nd_http m" for m
    using refresh_only [of env m] by auto
  show "nd_home (snd (save_paused env p n)) = nd_home n" "nd_cfg (snd (save_paused env p n)) = nd_cfg n"
    "nd_open (snd (save_paused env p n)) = nd_open n" "nd_started (snd (save_paused env p n)) = nd_started n"
    "nd_http (snd (save_paused env p n)) = nd_http n"
    by (cases e; simp add: save_paused_def Let_def r f)+
qed

lemma step_ok:
  assumes "node_ok (nv_parse env) n" "e \<noteq> Ev_Boot" "node_event_step env (n, d) e = (n1, d1)"
  shows "node_ok (nv_parse env) n1 \<and> nd_home n1 = nd_home n"
proof (cases e)
  case Ev_Start
  then obtain r where "node_start env n d = (r, n1, d1)" using assms(3) by (metis node_event_step.simps(2) prod.collapse)
  then show ?thesis
    by (cases rule: start_result) (use assms(1) in \<open>auto simp: kept_def node_ok_def cfg_ok_def\<close>)
next
  case (Ev_Setup q)
  then have "node_setup env q n d = (fst (node_setup env q n d), n1, d1)" using assms(3) by (simp add: prod_eq_iff)
  then show ?thesis by (cases rule: setup_result) (use assms(1) in \<open>auto simp: node_ok_def core_def\<close>)
next
  case (Ev_Settings q)
  then have "node_settings env q n d = (fst (node_settings env q n d), n1, d1)" using assms(3) by (simp add: prod_eq_iff)
  then show ?thesis by (cases rule: settings_result) (use assms(1) in \<open>auto simp: node_ok_def core_def\<close>)
next
  case Ev_Pause
  then show ?thesis using assms by (auto simp: node_pause_def node_ok_def save_paused_frame split: if_splits)
next
  case Ev_Resume
  then show ?thesis using assms by (auto simp: node_resume_def node_ok_def save_paused_frame)
next
  case Ev_Shutdown
  then show ?thesis using assms by (auto simp: node_ok_def shutdown_core)
next
  case Ev_Rescan
  then show ?thesis using assms rescan_core [of env n] by (auto simp: node_ok_def core_def)
next
  case Ev_Index_Loop
  then show ?thesis using assms scan_once_core(2) [of env n] by (auto simp: node_ok_def core_def)
next
  case Ev_Scan
  then show ?thesis using assms scan_once_core(1) [of env n] by (auto simp: node_ok_def core_def)
next
  case (Ev_Tunnel i ok)
  then show ?thesis using assms tunnel_core [of env i ok n] by (auto simp: node_ok_def core_def)
next
  case (Ev_Inbox r doc)
  then show ?thesis using assms data_ops_core(1) [of env r doc n] by (auto simp: node_ok_def core_def)
next
  case (Ev_Block t)
  then show ?thesis using assms data_ops_core(2) [of env t n] by (auto simp: node_ok_def core_def)
next
  case (Ev_Unblock t)
  then show ?thesis using assms data_ops_core(3) [of env t n] by (auto simp: node_ok_def core_def)
next
  case (Ev_Download fs p r)
  then show ?thesis using assms data_ops_core(4) [of env fs p r n] by (auto simp: node_ok_def core_def)
qed (use assms in simp)

interpretation configured_node: machine "guarded same_process (node_run_step parse)"
    "\<lambda>nd. node_ok parse (fst nd) \<and> nd_home (fst nd) = home" for parse home
proof
  fix s :: "'a local_node \<times> disk" and e
  assume "node_ok parse (fst s) \<and> nd_home (fst s) = home"
  then show "node_ok parse (fst (guarded same_process (node_run_step parse) s e)) \<and>
      nd_home (fst (guarded same_process (node_run_step parse) s e)) = home"
    using step_ok [of "(fst e)\<lparr>nv_parse := parse\<rparr>" "fst s" "snd e" "snd s"]
    by (auto simp: guarded_def same_process_def node_run_step_def) (metis surjective_pairing)+
qed

text \<open>A node that was shut down.\<close>

definition stopped :: "'s local_node \<Rightarrow> bool" where
  "stopped n \<longleftrightarrow> down n \<and> \<not> nd_started n \<and> \<not> nd_open n \<and> \<not> nd_http n"

lemma stopped_core: "core n = core m \<Longrightarrow> down n \<Longrightarrow> stopped m \<Longrightarrow> stopped n"
  by (simp add: core_def stopped_def)

lemma start_refused: "stopped n \<Longrightarrow> \<exists>e. node_start env n d = (Some (Plain e), n, d)"
  by (auto simp: node_start_def stopped_def down_def set_state_def update_def split: prod.splits sum.splits if_splits)

lemma save_paused_down: "down n \<Longrightarrow> down (snd (save_paused env p n))"
proof -
  assume "down n"
  then have f: "down (snd (refresh env (n\<lparr>nd_paused := p\<rparr>)))" "down (snd (refresh env (n\<lparr>nd_paused := p, nd_data := da\<rparr>)))" for da
    using refresh_down [of "n\<lparr>nd_paused := p\<rparr>"] refresh_down [of "n\<lparr>nd_paused := p, nd_data := da\<rparr>"] by (simp_all add: down_def)
  obtain e r where r: "set_config (nv_conf env) (nv_now env) paused_key (if p then ''1'' else ''0'') (da_conf (nd_data n)) = (e, r)"
    by fastforce
  show ?thesis using \<open>down n\<close> f by (cases e) (simp_all add: save_paused_def Let_def r, simp_all add: down_def)
qed

lemma stopped_settings:
  assumes "stopped n" "core n1 = core (n\<lparr>nd_cfg := c\<rparr>)" "down n \<longrightarrow> down n1"
  shows "stopped n1"
  using assms by (simp add: core_def stopped_def)

lemma step_stopped:
  assumes "stopped n" "e \<noteq> Ev_Boot" "node_event_step env (n, d) e = (n1, d1)"
  shows "stopped n1"
proof (cases e)
  case Ev_Start
  then show ?thesis using assms start_refused [OF assms(1), of env d] by auto
next
  case (Ev_Setup q)
  then have "node_setup env q n d = (fst (node_setup env q n d), n1, d1)" using assms(3) by (simp add: prod_eq_iff)
  then show ?thesis by (cases rule: setup_result) (use assms(1) stopped_settings in auto)
next
  case (Ev_Settings q)
  then have "node_settings env q n d = (fst (node_settings env q n d), n1, d1)" using assms(3) by (simp add: prod_eq_iff)
  then show ?thesis by (cases rule: settings_result) (use assms(1) stopped_settings in auto)
next
  case Ev_Pause
  then show ?thesis using assms save_paused_down [of n env True]
    by (auto simp: node_pause_def stopped_def save_paused_frame split: if_splits)
next
  case Ev_Resume
  then show ?thesis using assms save_paused_down [of n env False] by (auto simp: node_resume_def stopped_def save_paused_frame)
next
  case Ev_Shutdown
  then show ?thesis using assms by (auto simp: stopped_def shutdown_core)
next
  case Ev_Rescan
  then show ?thesis using assms stopped_core [OF rescan_core rescan_down] by (auto simp: stopped_def)
next
  case Ev_Index_Loop
  then show ?thesis using assms stopped_core [OF scan_once_core(2) index_loop_down] by (auto simp: stopped_def)
next
  case Ev_Scan
  then show ?thesis using assms stopped_core [OF scan_once_core(1) scan_once_down] by (auto simp: stopped_def)
next
  case (Ev_Tunnel i ok)
  then show ?thesis using assms stopped_core [OF tunnel_core tunnel_down] by (auto simp: stopped_def)
next
  case (Ev_Inbox r doc)
  then show ?thesis using assms stopped_core [OF data_ops_core(1) [of env r doc n]] by (auto simp: stopped_def down_def)
next
  case (Ev_Block t)
  then show ?thesis using assms stopped_core [OF data_ops_core(2) [of env t n]] by (auto simp: stopped_def down_def)
next
  case (Ev_Unblock t)
  then show ?thesis using assms stopped_core [OF data_ops_core(3) [of env t n]] by (auto simp: stopped_def down_def)
next
  case (Ev_Download fs p r)
  then show ?thesis using assms stopped_core [OF data_ops_core(4) [of env fs p r n]] by (auto simp: stopped_def down_def)
qed (use assms in simp)

interpretation stopping: machine "guarded same_process (node_run_step parse)" "\<lambda>nd. stopped (fst nd)" for parse
proof
  fix s :: "'a local_node \<times> disk" and e
  assume "stopped (fst s)"
  then show "stopped (fst (guarded same_process (node_run_step parse) s e))"
    using step_stopped [of "fst s" "snd e" "(fst e)\<lparr>nv_parse := parse\<rparr>" "snd s"]
    by (auto simp: guarded_def same_process_def node_run_step_def) (metis surjective_pairing)
qed

section \<open>A paused node\<close>

lemma refused_download:
  assumes "nd_ready n \<longrightarrow> nd_paused n"
  shows "status (fst (node_download env fs p r n)) \<notin> {200, 206}"
proof (cases "admit (node_download_env env fs p n) r")
  case (Inl x)
  then show ?thesis using admit_refused [of "node_download_env env fs p n" r "fst x" "snd x"]
    by (auto simp: node_download_def download_def split: prod.split)
next
  case (Inr x)
  obtain rc i data where x: "x = (rc, i, data)" by (cases x)
  have "\<not> env_paused (node_download_env env fs p n)" "env_lookup (node_download_env env fs p n) (path_id r) = Inr rc"
    using admitted(3,4) [of "node_download_env env fs p n" r rc i data] Inr x by simp_all
  then show ?thesis using assms by (simp add: node_download_env_def split: if_splits)
qed

lemma paused_publishes_nothing: "nd_paused n \<Longrightarrow> publish_all env n cs = n"
proof -
  assume p: "nd_paused n"
  have "on_index_change (publisher_of env n) ch d = d" for ch d
    by (simp add: on_index_change_def publisher_of_def node_publisher_def p)
  then have "fold (on_index_change (publisher_of env n)) cs d = d" for d by (induction cs arbitrary: d) simp_all
  then show ?thesis by (simp add: publish_all_def)
qed

section \<open>Saved settings\<close>

lemma save_settings_saved:
  assumes "save_settings env c n d = (None, n1, d1)" "disk_ok d"
  obtains d2 where "save_config (nv_parse env) (nv_codec env) (nv_os env) (node_dir n) c d2 = (None, d1)" "disk_ok d2"
proof -
  obtain b d2 where b: "(if cf_share c = [] then (True, d) else mkdir_all (nv_os env) (path_parts (cf_share c)) d) = (b, d2)" by fastforce
  have "disk_ok d2" using b assms(2) mkdir_all_ok by (auto split: if_splits)
  moreover have "save_config (nv_parse env) (nv_codec env) (nv_os env) (node_dir n) c d2 = (None, d1)"
    using assms(1) b by (auto simp: save_settings_def split: bool.splits prod.splits option.splits)
  ultimately show thesis by (rule that [rotated])
qed

lemma settings_saved:
  assumes "node_settings env q n d = (r, n1, d1)" "nd_cfg n1 \<noteq> nd_cfg n" "disk_ok d"
  obtains d2 where "save_config (nv_parse env) (nv_codec env) (nv_os env) (node_dir n1) (nd_cfg n1) d2 = (None, d1)" "disk_ok d2"
    "normalize_config (nd_cfg n1) = nd_cfg n1"
proof -
  let ?c = "settings_config q (nd_cfg n)"
  obtain r2 n2 d2 where s: "save_settings env ?c n d = (r2, n2, d2)" by (metis prod_cases3)
  have guard: "validate (nv_parse env) ?c = None" "(if cf_share ?c = [] then None else check_share env n ?c) = None"
    using assms(1,2) by (auto simp: node_settings_def Let_def split: option.splits)
  from s show thesis
  proof (cases rule: save_settings_cases)
    case 1
    then show thesis using assms(1,2) s guard by (auto simp: node_settings_def Let_def)
  next
    case 2
    then have n1: "n1 = snd (apply_settings env (nd_cfg n) n2)" "d1 = d2"
      using assms(1) s guard by (auto simp: node_settings_def Let_def split: prod.splits)
    have "core n1 = core n2" unfolding n1(1) by (rule apply_settings_core)
    then have c: "nd_cfg n1 = ?c" "nd_home n1 = nd_home n" using 2 by (simp_all add: core_def)
    have "normalize_config ?c = ?c" by (simp add: settings_config_def normalize_idem)
    moreover obtain d3 where "save_config (nv_parse env) (nv_codec env) (nv_os env) (node_dir n) ?c d3 = (None, d2)" "disk_ok d3"
      using save_settings_saved [OF _ assms(3)] s 2(1) by metis
    ultimately show thesis using that c n1(2) by (simp add: node_dir_def)
  qed
qed

section \<open>Failed starts\<close>

lemma refresh_alive: "\<not> down n \<Longrightarrow> \<not> down (snd (refresh env n))"
proof -
  assume d: "\<not> down n"
  have f: "snap_state (snap (refresh_fields env n (nd_svc n))) = snap_state (snap (nd_svc n))"
    by (auto simp: refresh_fields_def Let_def snap_set_fields split: sum.split)
  have "snap_state (snap (nd_svc (snd (refresh env n)))) =
      snap_state (snap (snd (set_state (fst (node_state n)) (refresh_fields env n (nd_svc n)))))"
    by (auto simp: refresh_def snap_set_fields split: prod.split option.split)
  moreover have "fst (node_state n) \<noteq> StateShuttingDown" by (simp add: node_state_def)
  ultimately show ?thesis using d f by (auto simp: down_def snap_set_state Let_def)
qed

lemma fail_error: "\<not> down n \<Longrightarrow> snap_state (snap (nd_svc (snd (node_fail e n)))) = StateError"
  by (simp add: node_fail_def snap_set_error down_def Let_def)

lemma services_failed:
  assumes "start_services env n = (Some e, n1)" "\<not> down n" "\<not> nd_started n"
  shows "snap_state (snap (nd_svc n1)) = StateError \<and> \<not> nd_open n1 \<and> \<not> nd_started n1"
proof -
  obtain r m where r: "refresh env n = (r, m)" by fastforce
  have m: "\<not> down m" "\<not> nd_started m" using refresh_alive [OF assms(2), of env] refresh_only [of env n] r assms(3) by auto
  have closed: "snap_state (snap (nd_svc (snd (node_fail x (teardown k))))) = StateError \<and>
      \<not> nd_open (snd (node_fail x (teardown k))) \<and> \<not> nd_started (snd (node_fail x (teardown k)))"
    if "\<not> down k" "\<not> nd_started k" for x k
    using fail_error [of "teardown k" x] that by (simp add: down_def teardown_def node_fail_def)
  obtain h k where h: "(if nd_skip_http m then (None, m) else start_http env m) = (h, k)" by fastforce
  have k: "\<not> down k" "\<not> nd_started k" using h m by (auto simp: start_http_def down_def split: if_splits option.splits)
  show ?thesis
  proof -
    obtain x where "node_fail x (teardown m) = (Some e, n1) \<or> node_fail x (teardown k) = (Some e, n1)"
      using assms(1) by (cases r; cases h) (auto simp: start_services_def r h Let_def)
    then show ?thesis using closed [OF m, of x] closed [OF k, of x] by (metis snd_conv)
  qed
qed

lemma start_failed:
  assumes "node_start env n d = (Some e, n1, d1)" "fst (set_state StateStarting (nd_svc n)) = None" "\<not> nd_started n" "\<not> nd_open n"
  shows "snap_state (snap (nd_svc n1)) = StateError \<and> \<not> nd_open n1 \<and> \<not> nd_started n1"
proof -
  obtain s where s: "set_state StateStarting (nd_svc n) = (None, s)" using assms(2) by (metis prod.collapse)
  have alive: "snap_state (snap s) \<noteq> StateShuttingDown"
    using s by (auto simp: set_state_def update_def can_transition_def split: sum.splits if_splits)
  let ?n = "n\<lparr>nd_svc := s\<rparr>"
  obtain r2 n2 d2 where h: "start_home env ?n d = (r2, n2, d2)" by (metis prod_cases3)
  obtain x da where x: "start_data env (nd_data n2) = (x, da)" by fastforce
  have n2: "\<not> down n2" "\<not> nd_started n2" "\<not> nd_open n2"
    using start_home_node [OF h] alive assms(3,4) by (auto simp: down_def)
  have failed: "snap_state (snap (nd_svc (snd (node_fail y k)))) = StateError \<and> \<not> nd_open (snd (node_fail y k)) \<and> \<not> nd_started (snd (node_fail y k))"
    if "\<not> down k" "\<not> nd_started k" "\<not> nd_open k" for y k
    using fail_error [OF that(1), of y] that by (simp add: node_fail_def)
  show ?thesis
  proof (cases r2)
    case (Some y)
    then have "n1 = snd (node_fail y n2)" using assms(1,3) s h by (auto simp: node_start_def split: prod.splits)
    then show ?thesis using failed [OF n2] by simp
  next
    case None
    show ?thesis
    proof (cases x)
      case (Inl y)
      then have "n1 = snd (node_fail y (n2\<lparr>nd_data := da\<rparr>))" using assms(1,3) s h x None by (auto simp: node_start_def split: prod.splits)
      then show ?thesis using failed [of "n2\<lparr>nd_data := da\<rparr>" y] n2 by (simp add: down_def)
    next
      case (Inr ip)
      then have "start_services env (install_services ip da n2) = (Some e, n1)"
        using assms(1,3) s h x None by (auto simp: node_start_def split: prod.splits)
      from services_failed [OF this] n2 show ?thesis by (simp add: down_def install_services_def)
    qed
  qed
qed

section \<open>Settings that reach the tunnel and the fetcher\<close>

lemma apply_settings_tunnel:
  assumes "cf_gateway (nd_cfg n) = cf_gateway old"
  shows "nd_tunnel (snd (apply_settings env old n)) = nd_tunnel n" "nd_loops (snd (apply_settings env old n)) = nd_loops n"
    "nd_up (snd (apply_settings env old n)) = nd_up n" "nd_run (snd (apply_settings env old n)) = nd_run n"
  using assms by (simp_all add: apply_settings_def Let_def ensure_watch_def)

lemma settings_applied:
  assumes "node_settings env q n d = (r, n1, d1)" "nd_cfg n1 \<noteq> nd_cfg n"
  shows "n1 = snd (apply_settings env (nd_cfg n) (n\<lparr>nd_cfg := settings_config q (nd_cfg n)\<rparr>))" "nd_cfg n1 = settings_config q (nd_cfg n)"
proof -
  let ?c = "settings_config q (nd_cfg n)"
  obtain r2 n2 d2 where s: "save_settings env ?c n d = (r2, n2, d2)" by (metis prod_cases3)
  have guard: "validate (nv_parse env) ?c = None" "(if cf_share ?c = [] then None else check_share env n ?c) = None"
    using assms by (auto simp: node_settings_def Let_def split: option.splits)
  from s have both: "n1 = snd (apply_settings env (nd_cfg n) (n\<lparr>nd_cfg := ?c\<rparr>))"
  proof (cases rule: save_settings_cases)
    case 1
    then show ?thesis using assms s guard by (auto simp: node_settings_def Let_def)
  next
    case 2
    then show ?thesis using assms(1) s guard by (auto simp: node_settings_def Let_def split: prod.splits)
  qed
  then show "n1 = snd (apply_settings env (nd_cfg n) (n\<lparr>nd_cfg := ?c\<rparr>))" .
  have "core n1 = core (n\<lparr>nd_cfg := ?c\<rparr>)" unfolding both by (rule apply_settings_core)
  then show "nd_cfg n1 = ?c" by (simp add: core_def)
qed

lemma apply_settings_allow: "nd_allow_local (snd (apply_settings env old n)) = nd_allow_local n"
proof -
  have "nd_allow_local (snd (refresh env m)) = nd_allow_local m" for m using refresh_only [of env m] by auto
  then show ?thesis by (simp add: apply_settings_def Let_def ensure_watch_def restart_tunnel_def ensure_tunnel_def stop_tunnel_def)
qed

lemma settings_private: "node_settings env q n d = (r, n1, d1) \<Longrightarrow> nd_private n1 = nd_private n"
  by (erule settings_result) (auto simp: core_def)

section \<open>The waiting times\<close>

lemma tunnel_waits_in:
  assumes "second \<le> b" "b \<le> max_tunnel_backoff"
  shows "list_all (\<lambda>w. second \<le> w \<and> w \<le> max_tunnel_backoff + max_tunnel_backoff div 5) (tunnel_waits b as)"
  using assms
proof (induction as arbitrary: b)
  case (Cons a as)
  obtain l rnd where a: "a = (l, rnd)" by fastforce
  define b1 where "b1 = tunnel_backoff b l"
  have b1: "second \<le> b1" "b1 \<le> max_tunnel_backoff"
    using Cons.prems by (auto simp: b1_def tunnel_backoff_def max_tunnel_backoff_def second_def)
  have nxt: "second \<le> tunnel_next b1" "tunnel_next b1 \<le> max_tunnel_backoff"
    using b1 by (auto simp: tunnel_next_def max_tunnel_backoff_def second_def)
  have pos: "0 < b1 div 5 + 1" using b1(1) by (simp add: second_def)
  then have "0 \<le> rnd mod (b1 div 5 + 1)" "rnd mod (b1 div 5 + 1) < b1 div 5 + 1"
    by (rule pos_mod_sign, rule pos_mod_bound)
  moreover have "b1 div 5 \<le> max_tunnel_backoff div 5" using b1(2) by (simp add: zdiv_mono1)
  ultimately show ?case using Cons.IH [OF nxt] b1 by (simp add: a b1_def [symmetric] Let_def)
qed simp

section \<open>A connection that lasts\<close>

text \<open>The events of one process in which loop \<open>i\<close> takes no step: its connection goes on.\<close>

definition connection_lasts :: "nat \<Rightarrow> 's node_env \<times> node_event \<Rightarrow> bool" where
  "connection_lasts i e \<longleftrightarrow> (case snd e of Ev_Boot \<Rightarrow> False | Ev_Tunnel j _ \<Rightarrow> j \<noteq> i | _ \<Rightarrow> True)"

lemma grown_loops:
  "nd_loops (ensure_watch n) = nd_loops n" "prefix (nd_loops n) (nd_loops (ensure_tunnel n))"
  "prefix (nd_loops n) (nd_loops (restart_tunnel n))" "nd_loops (snd (node_fail e n)) = nd_loops n"
  "nd_loops (snd (scan_share env n)) = nd_loops n" "nd_loops (show_summary env n) = nd_loops n"
  "nd_loops (scan_once env n) = nd_loops n"
  by (auto simp: ensure_watch_def ensure_tunnel_def restart_tunnel_def stop_tunnel_def node_fail_def scan_share_def publish_all_def
      show_summary_def scan_once_def Let_def)

lemma services_loops: "prefix (nd_loops n) (nd_loops (snd (start_services env n)))"
proof -
  obtain r n1 where r: "refresh env n = (r, n1)" by fastforce
  have n1: "nd_loops n1 = nd_loops n" using refresh_fields(3) [of env n] r by simp
  obtain h n2 where h: "(if nd_skip_http n1 then (None, n1) else start_http env n1) = (h, n2)" by fastforce
  have n2: "nd_loops n2 = nd_loops n" using h n1 by (auto simp: start_http_def split: if_splits option.splits)
  have tear: "nd_loops (teardown m) = nd_loops m" for m :: "'a local_node" by (simp add: teardown_def)
  show ?thesis
    using grown_loops(2) [of "ensure_watch (n2\<lparr>nd_started := True\<rparr>)"]
    by (cases r; cases h) (simp_all add: start_services_def r h n1 n2 tear grown_loops Let_def)
qed

lemma start_loops:
  assumes "node_start env n d = (r, n1, d1)"
  shows "prefix (nd_loops n) (nd_loops n1)"
proof -
  obtain e s where e: "set_state StateStarting (nd_svc n) = (e, s)" by fastforce
  show ?thesis
  proof (cases "nd_started n \<or> e \<noteq> None")
    case True
    then show ?thesis using assms e by (auto simp: node_start_def split: if_splits)
  next
    case False
    obtain r2 n2 d2 where h: "start_home env (n\<lparr>nd_svc := s\<rparr>) d = (r2, n2, d2)" by (metis prod_cases3)
    have n2: "nd_loops n2 = nd_loops n" using start_home_node [OF h] by auto
    obtain x da where x: "start_data env (nd_data n2) = (x, da)" by fastforce
    have sv: "prefix (nd_loops n2) (nd_loops (snd (start_services env (install_services ip da n2))))" for ip
      using services_loops [of "install_services ip da n2" env] by (simp add: install_services_def)
    show ?thesis
    proof (cases r2)
      case (Some e2)
      then have "n1 = snd (node_fail e2 n2)" using assms e h False by (auto simp: node_start_def split: prod.splits)
      then show ?thesis using grown_loops(4) [of e2 n2] n2 by simp
    next
      case None
      show ?thesis
      proof (cases x)
        case (Inl e2)
        then have "n1 = snd (node_fail e2 (n2\<lparr>nd_data := da\<rparr>))"
          using assms e h x None False by (auto simp: node_start_def split: prod.splits)
        then show ?thesis using grown_loops(4) [of e2 "n2\<lparr>nd_data := da\<rparr>"] n2 by simp
      next
        case (Inr ip)
        then have "n1 = snd (start_services env (install_services ip da n2))"
          using assms e h x None False by (auto simp: node_start_def split: prod.splits)
        then show ?thesis using sv n2 by simp
      qed
    qed
  qed
qed

lemma settings_loops:
  assumes "node_settings env q n d = (r, n1, d1)"
  shows "prefix (nd_loops n) (nd_loops n1)"
proof -
  obtain r2 n2 d2 where s: "save_settings env (settings_config q (nd_cfg n)) n d = (r2, n2, d2)" by (metis prod_cases3)
  from s have n2: "nd_loops n2 = nd_loops n" by (cases rule: save_settings_cases) auto
  have "prefix (nd_loops m) (nd_loops (snd (apply_settings env old m)))" for old and m :: "'a local_node"
    by (auto simp: apply_settings_def Let_def ensure_watch_def restart_tunnel_def ensure_tunnel_def stop_tunnel_def)
  moreover have "n1 \<in> {n, n2, snd (apply_settings env (nd_cfg n) n2)}"
    using assms s by (auto simp: node_settings_def Let_def split: option.splits prod.splits)
  ultimately show ?thesis using n2 by (metis insertE prefix_order.refl singletonD)
qed

lemma setup_loops:
  assumes "node_setup env q n d = (r, n1, d1)"
  shows "prefix (nd_loops n) (nd_loops n1)"
proof -
  obtain r2 n2 d2 where s: "save_settings env (setup_config q (nd_cfg n)) n d = (r2, n2, d2)" by (metis prod_cases3)
  from s have n2: "nd_loops n2 = nd_loops n" by (cases rule: save_settings_cases) auto
  have "n1 \<in> {n, n2, snd (refresh env (ensure_tunnel (ensure_watch n2)))}"
    using assms s by (auto simp: node_setup_def Let_def split: option.splits prod.splits if_splits)
  then show ?thesis using grown_loops(1,2) [of "ensure_watch n2"] grown_loops(1) [of n2] n2 by auto
qed

lemma tunnel_loops: "i \<noteq> j \<Longrightarrow> nd_loops (tunnel_step env j ok n) ! i = nd_loops n ! i"
  "length (nd_loops (tunnel_step env j ok n)) = length (nd_loops n)"
  by (auto simp: tunnel_step_def Let_def set_tunnel_flags_def set_loop_def split: loop_state.split)

lemma event_loops:
  assumes "connection_lasts i (env, e)" "i < length (nd_loops n)"
  shows "i < length (nd_loops (fst (node_event_step env (n, d) e))) \<and>
    nd_loops (fst (node_event_step env (n, d) e)) ! i = nd_loops n ! i"
proof -
  have grown: ?thesis if "prefix (nd_loops n) (nd_loops (fst (node_event_step env (n, d) e)))"
    using that assms(2) by (auto simp: prefix_def nth_append)
  show ?thesis
  proof (cases e)
    case Ev_Start
    obtain r n1 d1 where s: "node_start env n d = (r, n1, d1)" by (metis prod_cases3)
    show ?thesis by (rule grown) (simp add: Ev_Start s start_loops [OF s])
  next
    case (Ev_Setup q)
    obtain r n1 d1 where s: "node_setup env q n d = (r, n1, d1)" by (metis prod_cases3)
    show ?thesis by (rule grown) (simp add: Ev_Setup s setup_loops [OF s])
  next
    case (Ev_Settings q)
    obtain r n1 d1 where s: "node_settings env q n d = (r, n1, d1)" by (metis prod_cases3)
    show ?thesis by (rule grown) (simp add: Ev_Settings s settings_loops [OF s])
  next
    case (Ev_Tunnel j ok)
    then show ?thesis
      using assms tunnel_loops(1) [of i j env ok n] tunnel_loops(2) [of env j ok n] by (simp add: connection_lasts_def)
  next
    case Ev_Rescan
    obtain b m where s: "scan_share env (n\<lparr>nd_svc := snd (set_state StateIndexing (nd_svc n))\<rparr>) = (b, m)" by fastforce
    have "nd_loops m = nd_loops n"
      using grown_loops(5) [of env "n\<lparr>nd_svc := snd (set_state StateIndexing (nd_svc n))\<rparr>"] s by simp
    then have "nd_loops (snd (node_rescan env n)) = nd_loops n"
      by (simp add: node_rescan_def Let_def s grown_loops split: bool.split)
    then show ?thesis using assms(2) by (simp add: Ev_Rescan)
  next
    case Ev_Boot
    then show ?thesis using assms(1) by (simp add: connection_lasts_def)
  qed (use assms(2) in \<open>simp_all add: node_shutdown_def node_pause_def node_resume_def save_paused_def index_loop_start_def
      grown_loops node_process_def node_block_target_def node_unblock_def node_download_def Let_def split: option.split prod.split\<close>)
qed

lemma run_loops:
  "list_all (connection_lasts i) es \<Longrightarrow> i < length (nd_loops n) \<Longrightarrow>
   nd_loops (fst (run (node_run_step parse) (n, d) es)) ! i = nd_loops n ! i"
proof (induction es arbitrary: n d)
  case (Cons e es)
  obtain n1 d1 where s: "node_run_step parse (n, d) e = (n1, d1)" by fastforce
  have "connection_lasts i ((fst e)\<lparr>nv_parse := parse\<rparr>, snd e)" using Cons.prems(1) by (simp add: connection_lasts_def)
  from event_loops [OF this Cons.prems(2), of d] s have "i < length (nd_loops n1)" "nd_loops n1 ! i = nd_loops n ! i"
    by (simp_all add: node_run_step_def)
  then show ?case using Cons.IH [of n1 d1] Cons.prems(1) s by simp
qed simp

end
