(* ===== verification/Node_Properties.thy ===== *)
theory Node_Properties
  imports Node_Safety
begin

text \<open>
  The properties of a node, with the world and the node their examples run in.
\<close>

section \<open>A world\<close>

definition demo_world :: "string list node_env" where
  "demo_world = \<lparr>nv_parse = simple_url, nv_codec = demo_json, nv_os = calm, nv_keys = demo_keys_lib, nv_open = True,
     nv_mig = demo_migrations, nv_conf = (\<lambda>_. False), nv_files = demo_env_files, nv_index = demo_ix, nv_fed = demo_fed,
     nv_inbox = demo_inbox, nv_publish = demo_publish, nv_format = (\<lambda>_. []), nv_now = 5 * second, nv_now_text = ''T'',
     nv_random = Some ''0123456789abcdef'', nv_listen = (\<lambda>_. Some ''127.0.0.1:17890''), nv_handler = True, nv_down = (True, True),
     nv_quote = id, nv_os_text = ''failed'', nv_net = demo_browser, nv_seek = (\<lambda>_. True)\<rparr>"

definition demo_data :: "string list node_data" where
  "demo_data = \<lparr>da_mig = \<lparr>schema = [], applied = []\<rparr>, da_conf = [], da_files = empty_files, da_fed = empty_fed\<rparr>"

text \<open>A node that runs with an open database and a tunnel in service.\<close>

definition demo_running :: "config \<Rightarrow> string list local_node" where
  "demo_running c = (fresh_node ''/h'' c False True [] demo_data)
     \<lparr>nd_open := True, nd_ready := True, nd_started := True, nd_run := Some True, nd_tunnel_started := True,
      nd_tunnel := Some 0, nd_loops := [Loop_Serving (cf_gateway c) (cf_username c)], nd_up := True\<rparr>"

lemma demo_config_ok: "cfg_ok simple_url ''/h'' demo_config"
proof -
  have "normalize_config demo_config = demo_config" "validate_share_root ''/srv/share'' ''/h'' = None" by code_simp+
  moreover have "validate simple_url demo_config = None"
    unfolding validate_def \<open>normalize_config demo_config = demo_config\<close>
    by (simp add: demo_config_def default_config_def default_port_def default_downloads_def default_log_def rune_count_def runes.simps
      profile_username_def username_char_def is_abs_def) code_simp
  ultimately show ?thesis by (simp add: cfg_ok_def demo_config_def)
qed

section \<open>Properties\<close>

text \<open>
  C13. Whatever is done with a node that was once configured correctly, settings and failures included, its
  configuration stays valid and no path of the share directory is a path of its data directory.
\<close>

theorem share_stays_apart:
  assumes "cfg_ok parse (nd_home n) (nd_cfg n)" "is_abs (nd_home n)" "list_all same_process es"
    and "run (node_run_step parse) (n, d) es = (m, d1)" "cf_share (nd_cfg m) \<noteq> []"
  shows "validate parse (nd_cfg m) = None \<and> comps (cf_share (nd_cfg m)) @ xs \<noteq> comps (nd_home m) @ ys"
proof -
  have "node_ok parse (fst (run (guarded same_process (node_run_step parse)) (n, d) es)) \<and>
      nd_home (fst (run (guarded same_process (node_run_step parse)) (n, d) es)) = nd_home n"
    by (rule configured_node.run_invar) (use assms(1) in \<open>simp add: node_ok_def\<close>)
  then have ok: "node_ok parse m" "nd_home m = nd_home n"
    unfolding run_guarded [OF assms(3)] assms(4) by simp_all
  then have "cfg_ok parse (nd_home m) (nd_cfg m)" "is_abs (nd_home m)" using assms(2) by (simp_all only: node_ok_def)
  then show ?thesis using share_root_apart assms(5) by (simp add: cfg_ok_def)
qed

lemma demo_run_kept: "\<exists>m d1. run (node_run_step simple_url) (demo_running demo_config, demo_disk) [(demo_world, Ev_Pause)] = (m, d1) \<and>
    nd_cfg m = demo_config \<and> nd_home m = ''/h''"
proof -
  have "nd_cfg (snd (node_pause env (demo_running demo_config))) = demo_config" "nd_home (snd (node_pause env (demo_running demo_config))) = ''/h''" for env
    by (simp_all add: node_pause_def save_paused_frame) (simp_all add: demo_running_def fresh_node_def)
  then show ?thesis by (simp add: node_run_step_def)
qed

theorem share_stays_apart_witness:
  "\<exists>m d1. run (node_run_step simple_url) (demo_running demo_config, demo_disk) [(demo_world, Ev_Pause)] = (m, d1) \<and>
    comps (cf_share (nd_cfg m)) @ [''keys''] \<noteq> comps (nd_home m) @ [''keys'']"
proof -
  obtain m d1 where m: "run (node_run_step simple_url) (demo_running demo_config, demo_disk) [(demo_world, Ev_Pause)] = (m, d1)"
    "nd_cfg m = demo_config" using demo_run_kept by blast
  have c: "cfg_ok simple_url (nd_home (demo_running demo_config)) (nd_cfg (demo_running demo_config))"
    using demo_config_ok by (simp add: demo_running_def fresh_node_def)
  have a: "is_abs (nd_home (demo_running demo_config))" by (simp add: demo_running_def fresh_node_def is_abs_def)
  have l: "list_all same_process [(demo_world, Ev_Pause)]" by (simp add: same_process_def)
  have s: "cf_share (nd_cfg m) \<noteq> []" by (simp add: m(2) demo_config_def)
  from share_stays_apart [OF c a l m(1) s] m(1) show ?thesis by blast
qed

text \<open>
  C6. A pause lasts until it is taken back: after \<open>Pause\<close>, and through shutdowns, new processes and anything else
  but \<open>Resume\<close>, no download is served and no change is published.
\<close>

theorem pause_lasts:
  assumes "configured (nd_cfg n)" "nd_open n" "\<not> nv_conf env (Conf_Set paused_key)" "list_all not_resume es"
    and "run (node_run_step parse) (snd (node_pause env n), d) es = (m, d1)"
  shows "status (fst (node_download world fs p r m)) \<notin> {200, 206} \<and> (nd_ready m \<longrightarrow> publish_all world m cs = m)"
proof -
  have "pause_holds (snd (node_pause env n))" using save_paused_pause [of n env] assms(1-3) by (simp add: node_pause_def)
  then have "pause_holds (fst (run (guarded not_resume (node_run_step parse)) (snd (node_pause env n), d) es))"
    by (intro pausing.run_invar) simp
  then have "pause_holds m" using run_guarded [OF assms(4), of "node_run_step parse"] assms(5) by simp
  then have "nd_ready m \<longrightarrow> nd_paused m" by (simp add: pause_holds_def)
  from refused_download [OF this] this paused_publishes_nothing show ?thesis by blast
qed

theorem pause_lasts_witness:
  "\<exists>m d1. run (node_run_step simple_url) (snd (node_pause demo_world (demo_running demo_config)), demo_disk)
      [(demo_world, Ev_Shutdown), (demo_world, Ev_Boot), (demo_world, Ev_Start)] = (m, d1) \<and>
    status (fst (node_download demo_world demo_fs (\<lambda>_. None) demo_request m)) \<notin> {200, 206}"
proof -
  let ?es = "[(demo_world, Ev_Shutdown), (demo_world, Ev_Boot), (demo_world, Ev_Start)]"
  obtain m d1 where r: "run (node_run_step simple_url) (snd (node_pause demo_world (demo_running demo_config)), demo_disk) ?es = (m, d1)"
    by fastforce
  have "configured (nd_cfg (demo_running demo_config))" "nd_open (demo_running demo_config)"
    by (simp_all add: demo_running_def fresh_node_def demo_config_def configured_def)
  moreover have "\<not> nv_conf demo_world (Conf_Set paused_key)" "list_all not_resume ?es" by (simp_all add: demo_world_def not_resume_def)
  ultimately show ?thesis using pause_lasts [OF _ _ _ _ r] r by blast
qed

text \<open>
  C36. A node that was shut down stays down for the rest of the process: whatever is called, its status remains
  shutting down, its database and dashboard stay closed, and a start is refused.
\<close>

theorem stopped_stays_down:
  assumes "list_all same_process es" "run (node_run_step parse) (snd (node_shutdown env n), d) es = (m, d1)"
  shows "snap_state (snap (nd_svc m)) = StateShuttingDown \<and> \<not> nd_open m \<and> \<not> nd_http m \<and> fst (node_start world m d2) \<noteq> None"
proof -
  have "stopped (fst (run (guarded same_process (node_run_step parse)) (snd (node_shutdown env n), d) es))"
    by (rule stopping.run_invar) (simp add: stopped_def shutdown_core)
  then have m: "stopped m" using run_guarded [OF assms(1), of "node_run_step parse"] assms(2) by simp
  moreover obtain e where "node_start world m d2 = (Some (Plain e), m, d2)" using start_refused [OF m] by blast
  ultimately show ?thesis by (simp add: stopped_def down_def)
qed

theorem stopped_stays_down_witness:
  "\<exists>m d1. run (node_run_step simple_url) (snd (node_shutdown demo_world (demo_running demo_config)), demo_disk)
      [(demo_world, Ev_Resume), (demo_world, Ev_Tunnel 0 False)] = (m, d1) \<and> snap_state (snap (nd_svc m)) = StateShuttingDown"
proof -
  let ?es = "[(demo_world, Ev_Resume), (demo_world, Ev_Tunnel 0 False)]"
  obtain m d1 where r: "run (node_run_step simple_url) (snd (node_shutdown demo_world (demo_running demo_config)), demo_disk) ?es = (m, d1)"
    by fastforce
  have "list_all same_process ?es" by (simp add: same_process_def)
  from stopped_stays_down [OF this r] r show ?thesis by blast
qed

text \<open>
  C35. A start that fails leaves the node in the error state with its database closed, so that it can be started
  again.
\<close>

theorem failed_start_closed:
  assumes "node_start env n d = (Some e, n1, d1)" "fst (set_state StateStarting (nd_svc n)) = None" "\<not> nd_started n" "\<not> nd_open n"
  shows "snap_state (snap (nd_svc n1)) = StateError \<and> \<not> nd_open n1 \<and> \<not> nd_started n1 \<and> fst (set_state StateStarting (nd_svc n1)) = None"
  using start_failed [OF assms] by (simp add: set_state_def update_def can_transition_def)

theorem failed_start_closed_witness:
  "snap_state (snap (nd_svc (fst (snd (node_start (demo_world\<lparr>nv_open := False\<rparr>) (fresh_node ''/h'' demo_config False True [] demo_data) []))))) = StateError"
proof -
  let ?env = "demo_world\<lparr>nv_open := False\<rparr>" and ?n = "fresh_node ''/h'' demo_config False True [] demo_data"
  have sd: "\<exists>e. start_data ?env da = (Inl e, da)" for da by (simp add: start_data_def demo_world_def)
  have st: "set_state StateStarting (nd_svc ?n) = (None, nd_svc ?n)"
    by (simp add: fresh_node_def new_service_def zero_snapshot_def set_state_def update_def broadcast_def)
  obtain r n2 d2 where h: "start_home ?env ?n [] = (r, n2, d2)" by (metis prod_cases3)
  obtain e2 where e2: "start_data ?env (nd_data n2) = (Inl e2, nd_data n2)" using sd by blast
  have "\<not> nd_started ?n" by (simp add: fresh_node_def)
  then have f: "fst (node_start ?env ?n []) \<noteq> None"
    by (cases r) (simp_all add: node_start_def st h e2 node_fail_def)
  have s: "fst (set_state StateStarting (nd_svc ?n)) = None" "\<not> nd_started ?n" "\<not> nd_open ?n"
    by (simp_all add: fresh_node_def new_service_def zero_snapshot_def set_state_def update_def)
  obtain e n1 d1 where "node_start ?env ?n [] = (Some e, n1, d1)" using f by (metis option.exhaust prod.exhaust_sel)
  from failed_start_closed [OF this s] this show ?thesis by simp
qed

section \<open>Settings\<close>

definition no_change :: settings_request where
  "no_change = \<lparr>se_display = None, se_username = None, se_summary = None, se_share = None, se_gateway = None, se_port = None,
     se_downloads = None, se_bandwidth = None, se_log = None, se_login = None\<rparr>"

lemma demo_saved:
  assumes "nd_home n = ''/h''"
  shows "\<exists>d1. save_settings demo_world demo_config n demo_disk = (None, n\<lparr>nd_cfg := demo_config\<rparr>, d1)"
proof -
  have dir: "node_dir n = [''h'']" unfolding node_dir_def assms by code_simp
  have p: "path_parts (cf_share demo_config) = [''srv'', ''share'']" by code_simp
  have m: "fst (mkdir_all calm [''srv'', ''share''] demo_disk)" by code_simp
  have s: "fst (save_config simple_url demo_json calm [''h''] demo_config (snd (mkdir_all calm [''srv'', ''share''] demo_disk))) = None"
    by code_simp
  have w: "nv_os demo_world = calm" "nv_parse demo_world = simple_url" "nv_codec demo_world = demo_json" "cf_share demo_config \<noteq> []"
    by (simp_all add: demo_world_def demo_config_def)
  show ?thesis
    using m s by (cases "mkdir_all calm [''srv'', ''share''] demo_disk"; cases "save_config simple_url demo_json calm [''h''] demo_config
      (snd (mkdir_all calm [''srv'', ''share''] demo_disk))") (simp add: save_settings_def w p dir)
qed

lemma demo_settings:
  assumes "nd_home n = ''/h''" "settings_config q (nd_cfg n) = demo_config"
  obtains r n1 d1 where "node_settings demo_world q n demo_disk = (r, n1, d1)" "nd_cfg n1 = demo_config"
proof -
  have v: "validate (nv_parse demo_world) demo_config = None" "check_share demo_world n demo_config = None"
    using demo_config_ok by (simp_all add: demo_world_def cfg_ok_def check_share_def assms(1) demo_config_def)
  obtain d1 where d1: "save_settings demo_world demo_config n demo_disk = (None, n\<lparr>nd_cfg := demo_config\<rparr>, d1)"
    using demo_saved [OF assms(1)] by blast
  obtain r n1 where a: "apply_settings demo_world (nd_cfg n) (n\<lparr>nd_cfg := demo_config\<rparr>) = (r, n1)" by fastforce
  have "core n1 = core (n\<lparr>nd_cfg := demo_config\<rparr>)" using apply_settings_core [of demo_world "nd_cfg n" "n\<lparr>nd_cfg := demo_config\<rparr>"] a by simp
  then show thesis using that [of r n1 d1] by (simp add: node_settings_def assms(2) v d1 a core_def)
qed

text \<open>
  C19. What a settings change leaves in memory is what the next start reads: whenever the configuration changed,
  even if an error was reported, \<open>config.json\<close> loads to exactly the new one.
\<close>

theorem settings_persist:
  assumes "node_settings env q n d = (r, n1, d1)" "nd_cfg n1 \<noteq> nd_cfg n" "disk_ok d" "ints_ok (nd_cfg n1)"
    and "cd_parse (nv_codec env) (config_text (nv_codec env) (nd_cfg n1)) = Some (config_json (nd_cfg n1))"
    and "\<not> os_fault os (Read_Call (config_path (node_dir n1)))"
  shows "load_config (nv_parse env) (nv_codec env) os (node_dir n1) d1 = Inr (nd_cfg n1)"
proof -
  obtain d2 where s: "save_config (nv_parse env) (nv_codec env) (nv_os env) (node_dir n1) (nd_cfg n1) d2 = (None, d1)" "disk_ok d2"
      and n: "normalize_config (nd_cfg n1) = nd_cfg n1"
    using settings_saved [OF assms(1-3)] by blast
  show ?thesis using load_saved [OF s] assms(4-6) n by simp
qed

theorem settings_persist_witness:
  "\<exists>r n1 d1. node_settings demo_world (no_change\<lparr>se_display := Some []\<rparr>) (demo_running (demo_config\<lparr>cf_display := ''x''\<rparr>)) demo_disk = (r, n1, d1) \<and>
    load_config simple_url demo_json calm (node_dir n1) d1 = Inr demo_config"
proof -
  let ?n = "demo_running (demo_config\<lparr>cf_display := ''x''\<rparr>)"
  have n: "nd_home ?n = ''/h''" "nd_cfg ?n = demo_config\<lparr>cf_display := ''x''\<rparr>" by (simp_all add: demo_running_def fresh_node_def)
  have "settings_config (no_change\<lparr>se_display := Some []\<rparr>) (demo_config\<lparr>cf_display := ''x''\<rparr>) = demo_config" by code_simp
  then have q: "settings_config (no_change\<lparr>se_display := Some []\<rparr>) (nd_cfg ?n) = demo_config" by (simp only: n)
  obtain r n1 d1 where s: "node_settings demo_world (no_change\<lparr>se_display := Some []\<rparr>) ?n demo_disk = (r, n1, d1)" "nd_cfg n1 = demo_config"
    using demo_settings [OF n(1) q] by blast
  have ne: "nd_cfg n1 \<noteq> nd_cfg ?n" unfolding s(2) n by (simp add: demo_config_def default_config_def)
  have i: "ints_ok (nd_cfg n1)" by (simp add: s(2) ints_ok_def in_int64_def demo_config_def default_config_def default_port_def default_downloads_def)
  have c: "cd_parse (nv_codec demo_world) (config_text (nv_codec demo_world) (nd_cfg n1)) = Some (config_json (nd_cfg n1))"
    by (simp add: s(2) demo_world_def demo_json_def config_text_def)
  have f: "\<not> os_fault calm (Read_Call (config_path (node_dir n1)))" by (simp add: calm_def)
  have "load_config (nv_parse demo_world) (nv_codec demo_world) calm (node_dir n1) d1 = Inr (nd_cfg n1)"
    by (rule settings_persist [OF s(1) ne demo_disk_ok i c f])
  then show ?thesis using s by (auto simp: demo_world_def)
qed

text \<open>
  C38. A new user name does not reach a gateway that is already connected: the tunnel in service under the old name
  goes on under it, alive and shown as before, while the node's endpoints no longer answer for that name; and
  nothing that happens to the node gives that connection the new name, until it ends.
\<close>

theorem username_change_keeps_tunnel:
  assumes "i < length (nd_loops n)" "nd_loops n ! i = Loop_Serving gw (cf_username (nd_cfg n))" "\<not> loop_cancelled n i"
    and "node_settings env q n d = (r, n1, d1)" "cf_gateway (nd_cfg n1) = cf_gateway (nd_cfg n)"
    and "to_lower (cf_username (nd_cfg n1)) \<noteq> to_lower (cf_username (nd_cfg n))" "list_all (connection_lasts i) es"
  shows "nd_loops n1 ! i = Loop_Serving gw (cf_username (nd_cfg n)) \<and> \<not> loop_cancelled n1 i \<and> nd_up n1 = nd_up n \<and>
    \<not> match_user (node_source world d2 req n1) (cf_username (nd_cfg n)) \<and>
    nd_loops (fst (run (node_run_step parse) (n1, d1) es)) ! i = Loop_Serving gw (cf_username (nd_cfg n))"
proof -
  have ne: "nd_cfg n1 \<noteq> nd_cfg n" using assms(6) by auto
  note a = settings_applied [OF assms(4) ne]
  have "cf_gateway (nd_cfg (n\<lparr>nd_cfg := settings_config q (nd_cfg n)\<rparr>)) = cf_gateway (nd_cfg n)" using assms(5) a(2) by simp
  note kept = apply_settings_tunnel [OF this, of env, folded a(1)]
  have "nd_loops (fst (run (node_run_step parse) (n1, d1) es)) ! i = nd_loops n1 ! i"
    using run_loops [OF assms(7)] kept assms(1) by simp
  then show ?thesis
    using kept assms(2,3,6) by (simp add: match_user_def node_source_def equal_fold_def Let_def loop_cancelled_def)
qed

theorem username_change_keeps_tunnel_witness:
  "\<exists>r n1 d1. node_settings demo_world (no_change\<lparr>se_username := Some ''bob''\<rparr>) (demo_running (demo_config\<lparr>cf_username := ''alice''\<rparr>)) demo_disk
      = (r, n1, d1) \<and> cf_username (nd_cfg n1) = ''bob'' \<and> nd_up n1 \<and>
    nd_loops (fst (run (node_run_step simple_url) (n1, d1) [(demo_world, Ev_Pause), (demo_world, Ev_Resume)])) ! 0 =
      Loop_Serving default_gateway ''alice''"
proof -
  let ?n = "demo_running (demo_config\<lparr>cf_username := ''alice''\<rparr>)"
  have n: "nd_home ?n = ''/h''" "nd_cfg ?n = demo_config\<lparr>cf_username := ''alice''\<rparr>" "nd_up ?n" "0 < length (nd_loops ?n)"
    "nd_loops ?n ! 0 = Loop_Serving default_gateway (cf_username (nd_cfg ?n))" "\<not> loop_cancelled ?n 0"
    by (simp_all add: demo_running_def fresh_node_def loop_cancelled_def demo_config_def default_config_def)
  have "settings_config (no_change\<lparr>se_username := Some ''bob''\<rparr>) (demo_config\<lparr>cf_username := ''alice''\<rparr>) = demo_config" by code_simp
  then have q: "settings_config (no_change\<lparr>se_username := Some ''bob''\<rparr>) (nd_cfg ?n) = demo_config" by (simp only: n)
  obtain r n1 d1 where s: "node_settings demo_world (no_change\<lparr>se_username := Some ''bob''\<rparr>) ?n demo_disk = (r, n1, d1)" "nd_cfg n1 = demo_config"
    using demo_settings [OF n(1) q] by blast
  have g: "cf_gateway (nd_cfg n1) = cf_gateway (nd_cfg ?n)" by (simp add: s(2) n)
  have "to_lower ''bob'' \<noteq> to_lower ''alice''" by code_simp
  then have u: "to_lower (cf_username (nd_cfg n1)) \<noteq> to_lower (cf_username (nd_cfg ?n))" by (simp add: s(2) n) (simp add: demo_config_def)
  have es: "list_all (connection_lasts 0) [(demo_world, Ev_Pause), (demo_world, Ev_Resume)]" by (simp add: connection_lasts_def)
  from username_change_keeps_tunnel [OF n(4-6) s(1) g u es] s n show ?thesis by (auto simp: demo_config_def)
qed

text \<open>
  The fetcher keeps the policy the node was started with: a node started without a gateway goes on contacting
  private addresses after a gateway is set, although its settings no longer allow it.
\<close>

theorem private_fetch_outlives_gateway:
  assumes "node_settings env q n d = (r, n1, d1)" "nd_private n" "\<not> nd_allow_local n1" "trim_space (cf_gateway (nd_cfg n1)) \<noteq> []"
  shows "\<not> allow_private_federation n1 \<and> \<not> blocked_ip \<lparr>allow_private = nd_private n1\<rparr> (Some i)"
  using settings_private [OF assms(1)] assms(2-4) by (simp add: allow_private_federation_def blocked_ip_def)

definition demo_private :: "string list local_node" where
  "demo_private = (demo_running (demo_config\<lparr>cf_gateway := []\<rparr>))\<lparr>nd_private := allow_private_federation (demo_running (demo_config\<lparr>cf_gateway := []\<rparr>))\<rparr>"

theorem private_fetch_outlives_gateway_witness:
  "\<exists>r n1 d1. node_settings demo_world (no_change\<lparr>se_gateway := Some default_gateway\<rparr>) demo_private demo_disk = (r, n1, d1) \<and>
    cf_gateway (nd_cfg n1) = default_gateway \<and> \<not> blocked_ip \<lparr>allow_private = nd_private n1\<rparr> (Some [127, 0, 0, 1])"
proof -
  have n: "nd_home demo_private = ''/h''" "nd_cfg demo_private = demo_config\<lparr>cf_gateway := []\<rparr>"
    by (simp_all add: demo_private_def demo_running_def fresh_node_def)
  have p: "nd_private demo_private" by (simp add: demo_private_def allow_private_federation_def demo_running_def fresh_node_def)
  have "settings_config (no_change\<lparr>se_gateway := Some default_gateway\<rparr>) (demo_config\<lparr>cf_gateway := []\<rparr>) = demo_config" by code_simp
  then have q: "settings_config (no_change\<lparr>se_gateway := Some default_gateway\<rparr>) (nd_cfg demo_private) = demo_config" by (simp only: n)
  obtain r n1 d1 where s: "node_settings demo_world (no_change\<lparr>se_gateway := Some default_gateway\<rparr>) demo_private demo_disk = (r, n1, d1)"
      "nd_cfg n1 = demo_config" using demo_settings [OF n(1) q] by blast
  have t: "trim_space default_gateway \<noteq> []" by code_simp
  have g: "cf_gateway (nd_cfg n1) = default_gateway" by (simp add: s(2) demo_config_def default_config_def)
  have "n1 = snd (apply_settings demo_world (nd_cfg demo_private) (demo_private\<lparr>nd_cfg := demo_config\<rparr>))"
    using settings_applied(1) [OF s(1)] q n(2) by (simp add: s(2)) (simp add: demo_config_def default_config_def default_gateway_def)
  then have a: "\<not> nd_allow_local n1" by (simp add: apply_settings_allow) (simp add: demo_private_def demo_running_def fresh_node_def)
  from private_fetch_outlives_gateway [OF s(1) p a] t g s show ?thesis by simp
qed

section \<open>The tunnel and the status\<close>

text \<open>
  A tunnel loop that was cancelled still reports its end: with the loop that replaced it already in service,
  the node shows itself as not connected until that one ends too.
\<close>

theorem stale_loop_hides_tunnel:
  assumes "i < length (nd_loops n)" "nd_loops n ! i \<in> {Loop_Dialing gi ui, Loop_Serving gi ui}" "i \<noteq> j"
    and "j < length (nd_loops n)" "nd_loops n ! j = Loop_Serving gj uj" "nd_tunnel n = Some j" "nd_run n = Some True"
  shows "nd_loops (tunnel_step env i False n) ! j = Loop_Serving gj uj \<and> \<not> loop_cancelled (tunnel_step env i False n) j \<and>
    \<not> nd_up (tunnel_step env i False n) \<and> fst (node_state (tunnel_step env i False n)) \<noteq> StateOnline"
proof -
  have "tunnel_step env i False n = set_tunnel_flags env False False (set_loop i Loop_Gone n)"
    using assms(1-3,6) by (auto simp: tunnel_step_def loop_cancelled_def Let_def)
  then show ?thesis using assms(3-7)
    by (simp add: set_tunnel_flags_def set_loop_def loop_cancelled_def node_state_def)
qed

definition demo_restart :: "string list local_node" where
  "demo_restart = (tunnel_step demo_world (Suc 0) True ^^ 3) (restart_tunnel (demo_running demo_config))"

abbreviation demo_serving :: loop_state where
  "demo_serving \<equiv> Loop_Serving (cf_gateway demo_config) (cf_username demo_config)"

lemma demo_restarted:
  "nd_loops demo_restart = [demo_serving, demo_serving]" "nd_tunnel demo_restart = Some (Suc 0)" "nd_run demo_restart = Some True"
proof -
  let ?n = "restart_tunnel (demo_running demo_config)" and ?st = "tunnel_step demo_world (Suc 0) True"
  have g: "trim_space (cf_gateway demo_config) \<noteq> []" "configured demo_config" by code_simp+
  then have n: "nd_loops ?n = [demo_serving, Loop_Head]" "nd_tunnel ?n = Some (Suc 0)" "nd_run ?n = Some True" "nd_cfg ?n = demo_config"
    by (simp_all add: restart_tunnel_def stop_tunnel_def ensure_tunnel_def demo_running_def fresh_node_def)
  have m: "nd_loops (?st ?n) = [demo_serving, Loop_Connecting]" "nd_tunnel (?st ?n) = Some (Suc 0)" "nd_run (?st ?n) = Some True"
      "nd_cfg (?st ?n) = demo_config"
    by (simp_all add: tunnel_step_def n loop_cancelled_def set_tunnel_flags_def set_loop_def)
  have k: "nd_loops (?st (?st ?n)) = [demo_serving, Loop_Dialing (cf_gateway demo_config) (cf_username demo_config)]"
      "nd_tunnel (?st (?st ?n)) = Some (Suc 0)" "nd_run (?st (?st ?n)) = Some True"
    by (simp_all add: tunnel_step_def [of _ _ _ "?st ?n"] m set_loop_def)
  have r: "demo_restart = ?st (?st (?st ?n))" by (simp add: demo_restart_def numeral_3_eq_3)
  show "nd_loops demo_restart = [demo_serving, demo_serving]" "nd_tunnel demo_restart = Some (Suc 0)" "nd_run demo_restart = Some True"
    unfolding r by (simp_all add: tunnel_step_def [of _ _ _ "?st (?st ?n)"] k set_tunnel_flags_def set_loop_def)
qed

theorem stale_loop_hides_tunnel_witness:
  "\<not> nd_up (tunnel_step demo_world 0 False demo_restart) \<and> nd_loops (tunnel_step demo_world 0 False demo_restart) ! Suc 0 = demo_serving"
  using stale_loop_hides_tunnel [of 0 demo_restart _ _ "Suc 0" _ _ demo_world] by (simp add: demo_restarted)

text \<open>
  Between two attempts to reach the gateway the node waits at least a second and at most 72 seconds, however
  long the attempts last and whatever the jitter.
\<close>

theorem tunnel_waits_bounded: "list_all (\<lambda>w. second \<le> w \<and> w \<le> 72 * second) (tunnel_waits second as)"
proof -
  have "max_tunnel_backoff + max_tunnel_backoff div 5 = 72 * second" "second \<le> max_tunnel_backoff"
    by (simp_all add: max_tunnel_backoff_def second_def)
  then show ?thesis using tunnel_waits_in [of second as] by simp
qed

text \<open>
  A refresh that reports no error leaves a status that tells the truth: the state and message of the node's
  flags, its identity and share, whether the gateway is connected.
\<close>

theorem status_tells_state:
  assumes "refresh env n = (None, n1)"
  shows "snap_state (snap (nd_svc n1)) = fst (node_state n) \<and> message (snap (nd_svc n1)) = snd (node_state n) \<and>
    gateway_connected (snap (nd_svc n1)) = nd_up n \<and> identity (snap (nd_svc n1)) = fediverse_address (nv_parse env) (nd_cfg n) \<and>
    share_directory (snap (nd_svc n1)) = cf_share (nd_cfg n) \<and> activitypub_active (snap (nd_svc n1)) = configured (nd_cfg n)"
proof -
  define v where "v = snap (refresh_fields env n (nd_svc n))"
  obtain s where s: "set_state (fst (node_state n)) (refresh_fields env n (nd_svc n)) = (None, s)"
      and n1: "n1 = n\<lparr>nd_svc := set_fields (\<lambda>v. v\<lparr>message := snd (node_state n)\<rparr>) s\<rparr>"
    using assms by (auto simp: refresh_def split: prod.splits option.splits)
  have ne: "fst (node_state n) \<noteq> StateError" by (simp add: node_state_def)
  have "snap s = v \<and> snap_state v = fst (node_state n) \<or> snap s = v\<lparr>snap_state := fst (node_state n), error_text := []\<rparr>"
    using s ne by (auto simp: set_state_def update_def v_def split: sum.splits if_splits)
  moreover have "gateway_connected v = nd_up n" "identity v = fediverse_address (nv_parse env) (nd_cfg n)"
    "share_directory v = cf_share (nd_cfg n)" "activitypub_active v = configured (nd_cfg n)"
    by (simp_all add: v_def refresh_fields_def Let_def snap_set_fields)
  ultimately show ?thesis by (auto simp: n1 snap_set_fields)
qed

theorem status_tells_state_witness:
  "snap_state (snap (nd_svc (snd (refresh demo_world (demo_running demo_config))))) = StateOnline"
proof -
  let ?n = "demo_running demo_config"
  have c: "configured demo_config" by code_simp
  have st: "node_state ?n = (StateOnline, ''Gateway connected'')" by (simp add: node_state_def demo_running_def fresh_node_def c)
  have "snap_state (snap (refresh_fields demo_world ?n (nd_svc ?n))) = StateStarting"
    by (auto simp: refresh_fields_def Let_def snap_set_fields demo_running_def fresh_node_def new_service_def zero_snapshot_def split: sum.split)
  then have "fst (refresh demo_world ?n) = None"
    by (simp add: refresh_def st set_state_def update_def can_transition_def)
  then obtain n1 where "refresh demo_world ?n = (None, n1)" by (metis prod.collapse)
  from status_tells_state [OF this] this st show ?thesis by simp
qed

end
