(* ===== verification/Node_Public.thy ===== *)
theory Node_Public
  imports Node_Ops
begin

text \<open>
  The public side of a node: \<open>httpserver.PublicHandler\<close> (public.go) mounts the ActivityPub endpoints of
  \<open>activitypub.Mount\<close> and the downloads over one node. The gateway's tunnel and the dashboard's public routes
  both end here. A POST to the inbox is the only request that changes the node's tables.
\<close>

section \<open>Requests\<close>

text \<open>What the endpoints need beside the request: the encoders, the share's files, the client and the parsed URL.\<close>

record public_env =
  pb_ap :: ap_env
  pb_fs :: fs
  pb_time :: "string \<Rightarrow> time option"
  pb_remote :: string
  pb_url :: "request_url option"

definition path_value :: "nat \<Rightarrow> dash_request \<Rightarrow> string" where
  "path_value i r = (let ps = segments (dq_escaped r) in if i < length ps then ps ! i else [])"

definition max_activity_body :: nat where "max_activity_body = 2 ^ 20"

definition ap_request_of :: "dash_request \<Rightarrow> ap_request" where
  "ap_request_of r =
     \<lparr>ar_user = path_value 2 r, ar_id = path_value 4 r, ar_query = dq_query r, ar_header = dq_header r, ar_host = dq_host r,
      ar_body = (if length (dq_body r) > max_activity_body then None else Some (dq_body r))\<rparr>"

definition signed_request_of :: "public_env \<Rightarrow> dash_request \<Rightarrow> sig_request" where
  "signed_request_of pe r = \<lparr>sr_method = dq_method r, sr_url = pb_url pe, sr_host = dq_host r, sr_header = dq_header r\<rparr>"

definition download_request :: "public_env \<Rightarrow> string \<Rightarrow> dash_request \<Rightarrow> http_request" where
  "download_request pe i r =
     \<lparr>req_method = dq_method r, remote_addr = pb_remote pe, path_id = i, h_range = header_get ''Range'' (dq_header r),
      h_if_none_match = header_get ''If-None-Match'' (dq_header r),
      h_if_modified_since = header_get ''If-Modified-Since'' (dq_header r)\<rparr>"

definition emit_response :: "http_response \<Rightarrow> writer \<Rightarrow> writer" where
  "emit_response resp w =
     (let w1 = w\<lparr>w_header := w_header w ++ (\<lambda>k. map_option (\<lambda>v. [v]) (headers resp k))\<rparr>;
          w2 = or_keep w1 (write_header (int (status resp)) w1) in
      or_keep w2 (write_data (body resp) w2))"

section \<open>Routes\<close>

datatype public_route =
  Pr_Webfinger | Pr_Actor | Pr_Outbox | Pr_Followers | Pr_Following | Pr_Inbox | Pr_Deliver | Pr_Share | Pr_Object
| Pr_Note | Pr_Activity | Pr_User_File | Pr_File

definition activity_routes :: "(string \<times> string \<times> public_route) list" where
  "activity_routes =
     [(''GET'', ''/.well-known/webfinger'', Pr_Webfinger), (''GET'', ''/users/{username}'', Pr_Actor),
      (''GET'', ''/users/{username}/outbox'', Pr_Outbox), (''GET'', ''/users/{username}/followers'', Pr_Followers),
      (''GET'', ''/users/{username}/following'', Pr_Following), (''GET'', ''/users/{username}/inbox'', Pr_Inbox),
      (''POST'', ''/users/{username}/inbox'', Pr_Deliver), (''GET'', ''/users/{username}/share'', Pr_Share),
      (''GET'', ''/users/{username}/files/{id}'', Pr_Object), (''GET'', ''/users/{username}/notes/{id}'', Pr_Note),
      (''GET'', ''/users/{username}/activities/{id}'', Pr_Activity)]"

definition node_routes :: "(string \<times> string \<times> public_route) list" where
  "node_routes =
     [(''GET'', ''/files/{id}'', Pr_File), (''HEAD'', ''/files/{id}'', Pr_File)] @ activity_routes @
     [(''GET'', ''/users/{username}/download/{id}'', Pr_User_File), (''HEAD'', ''/users/{username}/download/{id}'', Pr_User_File)]"

definition find_route :: "string \<Rightarrow> string \<Rightarrow> public_route option" where
  "find_route m path = map_option (\<lambda>(_, _, e). e) (List.find (\<lambda>(pm, pp, _). match_method pm m \<and> match_path pp path) node_routes)"

definition served_path :: "string \<Rightarrow> bool" where
  "served_path path \<longleftrightarrow> list_ex (\<lambda>(_, pp, _). match_path pp path) node_routes"

section \<open>The handler\<close>

definition serve_download ::
  "'s node_env \<Rightarrow> public_env \<Rightarrow> string \<Rightarrow> dash_request \<Rightarrow> 's local_node \<times> writer \<Rightarrow> 's local_node \<times> writer" where
  "serve_download env pe i r nw =
     (case node_download env (pb_fs pe) (pb_time pe) (download_request pe i r) (fst nw) of
        (resp, n) \<Rightarrow> (n, emit_response resp (snd nw)))"

definition deliver_inbox ::
  "'s node_env \<Rightarrow> public_env \<Rightarrow> ap_source \<Rightarrow> dash_request \<Rightarrow> 's local_node \<times> writer \<Rightarrow> 's local_node \<times> writer" where
  "deliver_inbox env pe src r nw =
     (let q = ap_request_of r; n = fst nw in
      (case ar_body q of
         Some b \<Rightarrow> if match_user src (ar_user q) then snd (node_process env (signed_request_of pe r) b n) else n
       | None \<Rightarrow> n,
       inbox_post src q (snd nw)))"

definition serve_route ::
  "'s node_env \<Rightarrow> public_env \<Rightarrow> disk \<Rightarrow> public_route \<Rightarrow> dash_request \<Rightarrow> 's local_node \<times> writer \<Rightarrow> 's local_node \<times> writer" where
  "serve_route env pe d rt r nw =
     (let n = fst nw; w = snd nw; src = node_source env d (signed_request_of pe r) n; q = ap_request_of r; ap = pb_ap pe in
      case rt of
        Pr_Webfinger \<Rightarrow> (n, web_finger ap src q w)
      | Pr_Actor \<Rightarrow> (n, actor_handler ap src q w)
      | Pr_Outbox \<Rightarrow> (n, outbox_handler ap src q w)
      | Pr_Followers \<Rightarrow> (n, followers_handler ap src q w)
      | Pr_Following \<Rightarrow> (n, following_handler ap src q w)
      | Pr_Inbox \<Rightarrow> (n, inbox_get ap src q w)
      | Pr_Deliver \<Rightarrow> deliver_inbox env pe src r nw
      | Pr_Share \<Rightarrow> (n, share_handler ap src q w)
      | Pr_Object \<Rightarrow> (n, file_object ap src q w)
      | Pr_Note \<Rightarrow> (n, note_handler ap src q w)
      | Pr_Activity \<Rightarrow> (n, activity_handler ap src q w)
      | Pr_User_File \<Rightarrow> if match_user src (ar_user q) then serve_download env pe (ar_id q) r nw else (n, not_found w)
      | Pr_File \<Rightarrow> serve_download env pe (path_value 2 r) r nw)"

definition node_public ::
  "'s node_env \<Rightarrow> public_env \<Rightarrow> disk \<Rightarrow> dash_request \<Rightarrow> 's local_node \<times> writer \<Rightarrow> 's local_node \<times> writer" where
  "node_public env pe d r nw =
     (let p = mux_clean (dq_escaped r) in
      if p \<noteq> dq_escaped r then (fst nw, mux_redirect p (snd nw))
      else case find_route (dq_method r) p of
        Some rt \<Rightarrow> serve_route env pe d rt r nw
      | None \<Rightarrow> (fst nw, if served_path p then writer_error ''Method Not Allowed'' 405 (snd nw) else not_found (snd nw)))"

end
