(* ===== verification/Desktop.thy ===== *)
theory Desktop
  imports Go_Path Status Dashboard
begin

text \<open>
  What the desktop shows and asks: the tray's texts and menu (\<open>internal/tray\<close>), the folder dialog and the
  commands that open files and addresses (\<open>internal/desktop\<close>), the log's attributes and levels
  (\<open>internal/logging\<close>). Commands are run by the environment; \<open>path/filepath\<close> is the one of Unix.
\<close>

section \<open>The tray\<close>

definition em_dash :: string where "em_dash = [CHR 0xE2, CHR 0x80, CHR 0x94]"
definition new_line :: string where "new_line = [CHR 0x0A]"

definition tray_title :: "string \<Rightarrow> string" where "tray_title t = ''FediShare '' @ em_dash @ '' '' @ t"

definition tray_tooltip :: "snapshot \<Rightarrow> string" where
  "tray_tooltip v =
     (case snap_state v of
        StateIndexing \<Rightarrow>
          tray_title (''Indexing'' @ new_line @ format_int (indexing_done v) @ '' / '' @
            format_int (if indexing_total v > indexed_files v then indexing_total v else indexed_files v) @ '' files'')
      | StatePaused \<Rightarrow> tray_title ''Sharing paused''
      | StateError \<Rightarrow> tray_title (if error_text v \<noteq> [] then ''Error'' @ new_line @ error_text v else ''Error'')
      | StateOffline \<Rightarrow> tray_title (if message v = ''Setup required'' then ''Setup required'' else ''Offline'' @ new_line @ ''Gateway disconnected'')
      | StateConnecting \<Rightarrow> tray_title (if message v = ''Setup required'' then ''Setup required'' else ''Offline'' @ new_line @ ''Gateway disconnected'')
      | StateStarting \<Rightarrow> tray_title (state_label (snap_state v))
      | StateShuttingDown \<Rightarrow> tray_title (state_label (snap_state v))
      | StateOnline \<Rightarrow> tray_title (state_label (snap_state v) @ new_line @ format_int (indexed_files v) @ '' files shared''))"

definition status_line :: "snapshot \<Rightarrow> string" where "status_line v = ''Status: '' @ state_label (snap_state v)"

definition identity_line :: "snapshot \<Rightarrow> string" where
  "identity_line v = (if identity v = [] then ''Identity: not set'' else ''Identity: '' @ identity v)"

definition files_line :: "snapshot \<Rightarrow> string" where "files_line v = ''Shared files: '' @ format_int (indexed_files v)"

definition pause_title :: "snapshot \<Rightarrow> string" where
  "pause_title v = (if snap_state v = StatePaused then ''Resume sharing'' else ''Pause sharing'')"

text \<open>\<open>assets.TrayIcon\<close>: the name of the embedded picture.\<close>

definition tray_icon :: "state \<Rightarrow> string" where
  "tray_icon st =
     (case st of
        StateStarting \<Rightarrow> ''tray-starting.png'' | StateConnecting \<Rightarrow> ''tray-starting.png'' | StateIndexing \<Rightarrow> ''tray-starting.png''
      | StateOnline \<Rightarrow> ''tray-online.png'' | StatePaused \<Rightarrow> ''tray-paused.png'' | StateError \<Rightarrow> ''tray-error.png''
      | StateOffline \<Rightarrow> ''tray-offline.png'' | StateShuttingDown \<Rightarrow> ''tray-offline.png'')"

text \<open>\<open>applyMenu\<close>: the texts, and whether the entries on the share can be clicked.\<close>

record tray_menu =
  tm_status :: string
  tm_identity :: string
  tm_files :: string
  tm_pause :: string
  tm_tooltip :: string
  tm_icon :: string
  tm_enabled :: bool

definition apply_menu :: "snapshot \<Rightarrow> tray_menu" where
  "apply_menu v =
     \<lparr>tm_status = status_line v, tm_identity = identity_line v, tm_files = files_line v, tm_pause = pause_title v,
      tm_tooltip = tray_tooltip v, tm_icon = tray_icon (snap_state v), tm_enabled = (identity v \<noteq> [] \<or> share_directory v \<noteq> [])\<rparr>"

section \<open>Commands\<close>

text \<open>A command that fails has its output, the text of its error, and its exit code and stderr if it ran.\<close>

datatype exec_result = Exec_Done string | Exec_Failed string string "(int \<times> string) option"

record desktop_env =
  dt_os :: string
  dt_look :: "string \<Rightarrow> bool"
  dt_exec :: "string \<Rightarrow> string list \<Rightarrow> exec_result"
  dt_dir :: "string \<Rightarrow> bool"
  dt_cwd :: "string option"

datatype dialog_error = Dialog_Canceled | Dialog_Failed string | Dialog_Missing | No_Working_Dir

definition open_command :: "string \<Rightarrow> string \<Rightarrow> string \<times> string list" where
  "open_command os target =
     (if os = ''darwin'' then (''open'', [target])
      else if os = ''windows'' then (''rundll32'', [''url.dll,FileProtocolHandler'', target])
      else (''xdg-open'', [target]))"

text \<open>\<open>OpenURL\<close> and \<open>OpenPath\<close> start the command only for a text that is not empty.\<close>

definition open_target :: "desktop_env \<Rightarrow> string \<Rightarrow> (string \<times> string list) option" where
  "open_target env target = (if target = [] then None else Some (open_command (dt_os env) target))"

definition copy_command :: "desktop_env \<Rightarrow> (string \<times> string list) option" where
  "copy_command env =
     (if dt_os env = ''darwin'' then Some (''pbcopy'', [])
      else if dt_os env = ''windows'' then Some (''clip'', [])
      else if dt_look env ''wl-copy'' then Some (''wl-copy'', [])
      else if dt_look env ''xclip'' then Some (''xclip'', [''-selection'', ''clipboard''])
      else if dt_look env ''xsel'' then Some (''xsel'', [''--clipboard'', ''--input''])
      else None)"

section \<open>The folder dialog\<close>

definition path_abs :: "string option \<Rightarrow> string \<Rightarrow> string option" where
  "path_abs cwd p = (if is_abs p then Some (clean p) else case cwd of None \<Rightarrow> None | Some d \<Rightarrow> Some (path_join d p))"

definition path_dir :: "string \<Rightarrow> string" where
  "path_dir p = clean (concat (map (\<lambda>s. s @ [slash]) (butlast (split_on slash p))))"

definition quote_set :: "char set" where "quote_set = {CHR 0x22, CHR 0x27}"

definition clean_folder_path :: "desktop_env \<Rightarrow> string \<Rightarrow> dialog_error + string" where
  "clean_folder_path env raw =
     (let p = trim_right_set {CHR 0x0D, CHR 0x0A} (trim_set quote_set (trim_space raw)) in
      if p = [] then Inl Dialog_Canceled
      else if \<not> is_abs p then (case path_abs (dt_cwd env) p of None \<Rightarrow> Inl No_Working_Dir | Some q \<Rightarrow> Inr (clean q))
      else Inr (clean p))"

definition existing_dir :: "desktop_env \<Rightarrow> string \<Rightarrow> string" where
  "existing_dir env start0 =
     (let start = trim_space start0 in
      if start = [] then []
      else if dt_dir env start then start
      else if dt_dir env (path_dir start) then path_dir start
      else [])"

definition escape_apple_script :: "string \<Rightarrow> string" where
  "escape_apple_script s = replace_char (CHR 0x22) [CHR 0x5C, CHR 0x22] (replace_char (CHR 0x5C) [CHR 0x5C, CHR 0x5C] s)"

definition dq_text :: "string \<Rightarrow> string" where "dq_text s = [CHR 0x22] @ s @ [CHR 0x22]"

definition dialog_prompt :: string where "dialog_prompt = ''Choose the folder FediShare should share''"

definition apple_script :: "string \<Rightarrow> string" where
  "apple_script start =
     ''POSIX path of (choose folder with prompt '' @ dq_text dialog_prompt @
     (if start = [] then [] else '' default location POSIX file '' @ dq_text (escape_apple_script start)) @ '')''"

definition power_shell_script :: "string \<Rightarrow> string" where
  "power_shell_script start =
     new_line @ ''Add-Type -AssemblyName System.Windows.Forms'' @ new_line @
     ''$d = New-Object System.Windows.Forms.FolderBrowserDialog'' @ new_line @
     ''$d.Description = '' @ sq dialog_prompt @ new_line @ ''$d.ShowNewFolderButton = $true'' @ new_line @
     (if start = [] then []
      else ''$d.SelectedPath = '' @ sq (replace_char (CHR 0x27) [CHR 0x27, CHR 0x27] start) @ new_line) @
     new_line @ ''$r = $d.ShowDialog()'' @ new_line @
     ''if ($r -eq [System.Windows.Forms.DialogResult]::OK) { [Console]::Out.Write($d.SelectedPath) } else { exit 2 }'' @ new_line"

definition is_canceled :: "exec_result \<Rightarrow> bool" where
  "is_canceled r =
     (case r of
        Exec_Done out \<Rightarrow> False
      | Exec_Failed out err x \<Rightarrow>
          contains (to_lower (out @ '' '' @ err) @ (case x of None \<Rightarrow> [] | Some (_, e) \<Rightarrow> '' '' @ to_lower e)) ''cancel'')"

definition exit_code :: "exec_result \<Rightarrow> int" where
  "exit_code r = (case r of Exec_Failed _ _ (Some (k, _)) \<Rightarrow> k | _ \<Rightarrow> -1)"

text \<open>The answer of a dialog whose cancel button gives one of the exit codes.\<close>

definition dialog_answer :: "int set \<Rightarrow> exec_result \<Rightarrow> dialog_error + string" where
  "dialog_answer cancel r =
     (case r of
        Exec_Done out \<Rightarrow> Inr out
      | Exec_Failed out err x \<Rightarrow>
          if is_canceled r \<or> exit_code r \<in> cancel then Inl Dialog_Canceled else Inl (Dialog_Failed (''folder dialog: '' @ err)))"

definition choose_darwin :: "desktop_env \<Rightarrow> string \<Rightarrow> dialog_error + string" where
  "choose_darwin env start = dialog_answer {} (dt_exec env ''osascript'' [''-e'', apple_script start])"

definition choose_windows :: "desktop_env \<Rightarrow> string \<Rightarrow> dialog_error + string" where
  "choose_windows env start =
     dialog_answer {2} (dt_exec env ''powershell'' [''-NoProfile'', ''-STA'', ''-Command'', power_shell_script start])"

definition choose_linux :: "desktop_env \<Rightarrow> string \<Rightarrow> dialog_error + string" where
  "choose_linux env start =
     (if dt_look env ''zenity'' then
        dialog_answer {1} (dt_exec env ''zenity'' ([''--file-selection'', ''--directory'', ''--title='' @ dialog_prompt] @
          (if start = [] then [] else [''--filename='' @ start @ ''/''])))
      else if dt_look env ''kdialog'' then
        dialog_answer {1} (dt_exec env ''kdialog'' [''--getexistingdirectory'', if start = [] then ''.'' else start])
      else Inl Dialog_Missing)"

definition choose_folder :: "desktop_env \<Rightarrow> string \<Rightarrow> dialog_error + string" where
  "choose_folder env start0 =
     (let start = existing_dir env start0 in
      case (if dt_os env = ''darwin'' then choose_darwin env start
            else if dt_os env = ''windows'' then choose_windows env start
            else choose_linux env start) of
        Inl e \<Rightarrow> Inl e
      | Inr p \<Rightarrow> clean_folder_path env p)"

section \<open>The log\<close>

datatype log_level = Level_Debug | Level_Info | Level_Warn | Level_Error

definition parse_level :: "string \<Rightarrow> log_level option" where
  "parse_level name =
     (let n = to_lower (trim_space name) in
      if n = [] \<or> n = ''info'' then Some Level_Info
      else if n = ''debug'' then Some Level_Debug
      else if n = ''warn'' \<or> n = ''warning'' then Some Level_Warn
      else if n = ''error'' then Some Level_Error
      else None)"

definition secret_keys :: "string list" where
  "secret_keys = [''private_key'', ''privatekey'', ''private_key_pem'', ''secret'', ''token'', ''password'', ''authorization'',
     ''challenge'', ''signature'']"

text \<open>An attribute's value: a text, or a value of another kind with what the handler prints for it.\<close>

datatype log_value = Log_Text string | Log_Other string

definition redact_attr :: "string \<Rightarrow> string \<times> log_value \<Rightarrow> string \<times> log_value" where
  "redact_attr home a =
     (case a of (k, v) \<Rightarrow>
        if to_lower k \<in> set secret_keys then (k, Log_Text ''[redacted]'')
        else if to_lower k \<in> {''path'', ''share_directory'', ''file'', ''dir''}
        then (k, case v of Log_Text t \<Rightarrow> Log_Text (redact_path home t) | Log_Other t \<Rightarrow> Log_Other t)
        else (k, v))"

end
