(* ===== verification/Host.thy ===== *)
theory Host
  imports Node_Public
begin

text \<open>
  \<open>internal/node/host.go\<close> and the host's part of network.go: one process with several local profiles. A \<open>local_host\<close> holds the shared
  settings, a node for each profile, and the profile the dashboard shows. The host is a backend of the
  dashboard and sends each public request to the profile it names.
\<close>

section \<open>State\<close>

text \<open>\<open>ho_store\<close> is what the database files of the profiles that have no node contain, by profile id.\<close>

record 's local_host =
  ho_home :: string
  ho_app :: app
  ho_nodes :: "'s local_node list"
  ho_selected :: string
  ho_http :: bool
  ho_url :: string
  ho_empty :: service
  ho_started :: bool
  ho_store :: "string \<Rightarrow> 's node_data"

text \<open>The world of each profile's node, the world of the host's own calls, and the random bytes of a new id.\<close>

record 's host_env =
  hv_node :: "string \<Rightarrow> 's node_env"
  hv_self :: "'s node_env"
  hv_random :: "string option"

definition profile_home_text :: "string \<Rightarrow> string \<Rightarrow> string" where
  "profile_home_text home i = path_join (path_join home ''profiles'') i"

definition host_dir :: "'s local_host \<Rightarrow> fs_path" where "host_dir h = path_parts (ho_home h)"

definition save_host_app :: "'s host_env \<Rightarrow> 's local_host \<Rightarrow> disk \<Rightarrow> go_error option \<times> disk" where
  "save_host_app env h d =
     (case save_app (nv_codec (hv_self env)) (nv_os (hv_self env)) (host_dir h) (ho_app h) d of
        (Some e, d1) \<Rightarrow> (Some (Plain (nv_os_text (hv_self env))), d1)
      | (None, d1) \<Rightarrow> (None, d1))"

section \<open>Creation\<close>

definition setup_required :: service where
  "setup_required = set_fields (\<lambda>v. v\<lparr>message := ''Setup required''\<rparr>) (snd (set_state StateOffline new_service))"

definition new_host ::
  "'s host_env \<Rightarrow> string \<Rightarrow> (string \<Rightarrow> 's node_data) \<Rightarrow> disk \<Rightarrow> (go_error + 's local_host) \<times> disk" where
  "new_host env home store d =
     (let self = hv_self env; dir = path_parts home in
      if home = [] then (Inl (new_error Kind_Config ''FediShare is missing its data directory.''), d)
      else case ensure_home (nv_os self) dir d of
        (Some e, d1) \<Rightarrow> (Inl (Plain (nv_os_text self)), d1)
      | (None, d1) \<Rightarrow>
          (case migrate_legacy_home (nv_parse self) (nv_codec self) (nv_os self) (hv_random env) dir d1 of
             (Some e, d2) \<Rightarrow>
               (Inl (wrapped Kind_Filesystem ''FediShare could not upgrade its profile layout.''
                  (config_cause self (stored_config self dir d1) e)), d2)
           | (None, d2) \<Rightarrow>
               (case load_app (nv_codec self) (nv_os self) dir d2 of
                  Inl e \<Rightarrow> (Inl (low_error self Kind_Config ''FediShare could not read app settings.''), d2)
                | Inr a \<Rightarrow>
                    (Inr \<lparr>ho_home = home, ho_app = a, ho_nodes = [], ho_selected = [], ho_http = False, ho_url = [],
                       ho_empty = setup_required, ho_started = False, ho_store = store\<rparr>, d2))))"

section \<open>The selected profile\<close>

definition current_index :: "'s local_host \<Rightarrow> nat option" where
  "current_index h =
     (let k = length (takeWhile (\<lambda>n. nd_profile n \<noteq> ho_selected h) (ho_nodes h)) in
      if k < length (ho_nodes h) then Some k else if ho_nodes h \<noteq> [] then Some 0 else None)"

definition current :: "'s local_host \<Rightarrow> 's local_node option" where
  "current h = map_option (\<lambda>i. ho_nodes h ! i) (current_index h)"

definition world_of :: "'s host_env \<Rightarrow> 's local_node \<Rightarrow> 's node_env" where
  "world_of env n = hv_node env (nd_profile n)"

text \<open>An operation of the selected profile's node.\<close>

definition on_current :: "('s local_node \<Rightarrow> 'r \<times> 's local_node) \<Rightarrow> 'r \<Rightarrow> 's local_host \<Rightarrow> 'r \<times> 's local_host" where
  "on_current f r h =
     (case current_index h of
        None \<Rightarrow> (r, h)
      | Some i \<Rightarrow> (case f (ho_nodes h ! i) of (r1, n) \<Rightarrow> (r1, h\<lparr>ho_nodes := (ho_nodes h)[i := n]\<rparr>)))"

definition on_current_disk ::
  "('s local_node \<Rightarrow> disk \<Rightarrow> 'r \<times> 's local_node \<times> disk) \<Rightarrow> 'r \<Rightarrow> 's local_host \<Rightarrow> disk \<Rightarrow> 'r \<times> 's local_host \<times> disk" where
  "on_current_disk f r h d =
     (case current_index h of
        None \<Rightarrow> (r, h, d)
      | Some i \<Rightarrow> (case f (ho_nodes h ! i) d of (r1, n, d1) \<Rightarrow> (r1, h\<lparr>ho_nodes := (ho_nodes h)[i := n]\<rparr>, d1)))"

definition host_config :: "'s local_host \<Rightarrow> config" where
  "host_config h = (case current h of Some n \<Rightarrow> nd_cfg n | None \<Rightarrow> apply_app_defaults (ho_app h) default_config)"

definition host_status :: "'s local_host \<Rightarrow> service" where
  "host_status h = (case current h of Some n \<Rightarrow> nd_svc n | None \<Rightarrow> ho_empty h)"

definition host_home :: "'s local_host \<Rightarrow> string" where
  "host_home h = (case current h of Some n \<Rightarrow> nd_home n | None \<Rightarrow> ho_home h)"

definition host_node_id :: "'s local_host \<Rightarrow> string" where
  "host_node_id h = (case current h of Some n \<Rightarrow> nd_id n | None \<Rightarrow> [])"

section \<open>Start and shutdown\<close>

definition keep_data :: "'s local_node \<Rightarrow> 's local_host \<Rightarrow> 's local_host" where
  "keep_data n h = h\<lparr>ho_store := (ho_store h)(nd_profile n := nd_data n)\<rparr>"

definition stop_nodes :: "'s host_env \<Rightarrow> 's local_host \<Rightarrow> go_error option \<times> 's local_host" where
  "stop_nodes env h =
     (let outs = map (\<lambda>n. node_shutdown (world_of env n) n) (ho_nodes h) in
      (case filter (\<lambda>e. e \<noteq> None) (map fst outs) of [] \<Rightarrow> None | e # es \<Rightarrow> e,
       (fold keep_data (map snd outs) h)\<lparr>ho_nodes := []\<rparr>))"

definition boot_profile :: "'s host_env \<Rightarrow> string \<Rightarrow> 's local_host \<Rightarrow> disk \<Rightarrow> go_error option \<times> 's local_host \<times> disk" where
  "boot_profile env i h d =
     (let w = hv_node env i; home = profile_home_text (ho_home h) i; dir = path_parts home in
      case load_config (nv_parse w) (nv_codec w) (nv_os w) dir d of
        Inl e \<Rightarrow> (Some (config_cause w (stored_config w dir d) e), h, d)
      | Inr c0 \<Rightarrow>
          (case new_node w home (Some (apply_app_defaults (ho_app h) c0)) False True i (ho_store h i) d of
             Inl e \<Rightarrow> (Some e, h, d)
           | Inr n \<Rightarrow>
               (case node_start w n d of
                  (Some e, n1, d1) \<Rightarrow> (Some e, keep_data n1 h, d1)
                | (None, n1, d1) \<Rightarrow>
                    (None, h\<lparr>ho_nodes := ho_nodes h @ [n1],
                            ho_selected := (if ap_selected (ho_app h) = i \<or> ho_selected h = [] then i else ho_selected h)\<rparr>, d1))))"

fun boot_all :: "'s host_env \<Rightarrow> string list \<Rightarrow> 's local_host \<Rightarrow> disk \<Rightarrow> go_error option \<times> 's local_host \<times> disk" where
  "boot_all env [] h d = (None, h, d)"
| "boot_all env (i # is) h d =
     (case boot_profile env i h d of
        (Some e, h1, d1) \<Rightarrow> (Some e, snd (stop_nodes env h1), d1)
      | (None, h1, d1) \<Rightarrow> boot_all env is h1 d1)"

definition host_start_http :: "'s host_env \<Rightarrow> 's local_host \<Rightarrow> go_error option \<times> 's local_host" where
  "host_start_http env h =
     (let self = hv_self env in
      if \<not> nv_handler self then (Some (low_error self Kind_Config ''FediShare could not start its dashboard.''), h)
      else case nv_listen self (ap_port (ho_app h)) of
        None \<Rightarrow> (Some (low_error self Kind_Filesystem ''FediShare could not open its local dashboard port.''), h)
      | Some addr \<Rightarrow>
          (None, h\<lparr>ho_url := ''http://'' @ addr, ho_nodes := map (\<lambda>n. n\<lparr>nd_url := ''http://'' @ addr\<rparr>) (ho_nodes h), ho_http := True\<rparr>))"

definition select_first :: "'s host_env \<Rightarrow> 's local_host \<Rightarrow> disk \<Rightarrow> 's local_host \<times> disk" where
  "select_first env h d =
     (if ho_selected h = [] \<and> ho_nodes h \<noteq> []
      then let i = nd_profile (hd (ho_nodes h)); h1 = h\<lparr>ho_selected := i, ho_app := (ho_app h)\<lparr>ap_selected := i\<rparr>\<rparr> in
        (h1, snd (save_host_app env h1 d))
      else (h, d))"

definition host_start :: "'s host_env \<Rightarrow> 's local_host \<Rightarrow> disk \<Rightarrow> go_error option \<times> 's local_host \<times> disk" where
  "host_start env h d =
     (if ho_started h then (Some (Plain ''host already started''), h, d)
      else case list_profile_ids (nv_os (hv_self env)) (host_dir h) d of
        Inl e \<Rightarrow> (Some (Plain (nv_os_text (hv_self env))), h, d)
      | Inr ids \<Rightarrow>
          (case boot_all env ids h d of
             (Some e, h1, d1) \<Rightarrow> (Some e, h1, d1)
           | (None, h1, d1) \<Rightarrow>
               (case select_first env h1 d1 of
                  (h2, d2) \<Rightarrow>
                    (case host_start_http env h2 of
                       (Some e, h3) \<Rightarrow> (Some e, snd (stop_nodes env h3), d2)
                     | (None, h3) \<Rightarrow> (None, h3\<lparr>ho_started := True\<rparr>, d2)))))"

definition host_shutdown :: "'s host_env \<Rightarrow> 's local_host \<Rightarrow> go_error option \<times> 's local_host" where
  "host_shutdown env h =
     (case stop_nodes env (h\<lparr>ho_http := False\<rparr>) of
        (e, h1) \<Rightarrow>
          (if ho_http h \<and> \<not> fst (nv_down (hv_self env)) then Some (Plain (nv_os_text (hv_self env))) else e,
           h1\<lparr>ho_started := False\<rparr>))"

section \<open>Profiles\<close>

definition same_folder :: "string \<Rightarrow> string \<Rightarrow> bool" where
  "same_folder a b \<longleftrightarrow> equal_fold (trim_right_set {slash} a) (trim_right_set {slash} b)"

text \<open>The gateway given to a setup becomes the one of the application, which is saved before anything is checked.\<close>

definition with_app_gateway ::
  "'s host_env \<Rightarrow> setup_request \<Rightarrow> 's local_host \<Rightarrow> disk \<Rightarrow> setup_request \<times> 's local_host \<times> disk" where
  "with_app_gateway env q h d =
     (let q1 = (if trim_space (su_gateway q) = [] then q\<lparr>su_gateway := ap_gateway (ho_app h)\<rparr> else q);
          h1 = h\<lparr>ho_app := (ho_app h)\<lparr>ap_gateway := trim_space (su_gateway q1)\<rparr>\<rparr> in
      (q1, h1, snd (save_host_app env h1 d)))"

fun profile_clash :: "string \<Rightarrow> string \<Rightarrow> 's local_node list \<Rightarrow> go_error option" where
  "profile_clash user share [] = None"
| "profile_clash user share (n # ns) =
     (let c = nd_cfg n in
      if cf_username c = user then Some (new_error Kind_Config ''That username is already used by another local profile.'')
      else if cf_share c \<noteq> [] \<and> same_folder (cf_share c) share
      then Some (new_error Kind_Config ''That folder is already used by another local profile.'')
      else profile_clash user share ns)"

text \<open>The part of \<open>CreateProfile\<close> after the directory of the profile exists.\<close>

definition launch_profile ::
  "'s host_env \<Rightarrow> setup_request \<Rightarrow> string \<Rightarrow> 's local_host \<Rightarrow> disk \<Rightarrow> go_error option \<times> 's local_host \<times> disk" where
  "launch_profile env q i h d =
     (let w = hv_node env i; home = profile_home_text (ho_home h) i; c = apply_app_defaults (ho_app h) default_config in
      case save_config (nv_parse w) (nv_codec w) (nv_os w) (path_parts home) c d of
        (Some e, d1) \<Rightarrow> (Some (config_cause w (normalize_config c) e), h, d1)
      | (None, d1) \<Rightarrow>
          (case new_node w home (Some c) False True i (ho_store h i) d1 of
             Inl e \<Rightarrow> (Some e, h, d1)
           | Inr n \<Rightarrow>
               (case node_start w n d1 of
                  (Some e, n1, d2) \<Rightarrow> (Some e, keep_data n1 h, d2)
                | (None, n1, d2) \<Rightarrow>
                    (case node_setup w q (n1\<lparr>nd_url := ho_url h\<rparr>) d2 of
                       (Some e, n2, d3) \<Rightarrow> (Some e, keep_data (snd (node_shutdown w n2)) h, d3)
                     | (None, n2, d3) \<Rightarrow>
                         let h1 = h\<lparr>ho_nodes := ho_nodes h @ [n2], ho_selected := i, ho_app := (ho_app h)\<lparr>ap_selected := i\<rparr>\<rparr> in
                         (case save_host_app env h1 d3 of (r, d4) \<Rightarrow> (r, h1, d4))))))"

definition create_profile ::
  "'s host_env \<Rightarrow> setup_request \<Rightarrow> 's local_host \<Rightarrow> disk \<Rightarrow> go_error option \<times> 's local_host \<times> disk" where
  "create_profile env q0 h0 d0 =
     (case with_app_gateway env q0 h0 d0 of (q, h, d) \<Rightarrow>
       let user = to_lower (trim_space (su_username q)); share = trim_space (su_share q); self = hv_self env in
       if user = [] \<or> share = [] then (Some (new_error Kind_Config ''Choose a username and a shared folder.''), h, d)
       else case profile_clash user share (ho_nodes h) of
         Some e \<Rightarrow> (Some e, h, d)
       | None \<Rightarrow>
           (case validate_share_root share (ho_home h) of
              Some e \<Rightarrow> (Some (shown_error self default_config e), h, d)
            | None \<Rightarrow>
                (case new_profile_id (hv_random env) of
                   Inl e \<Rightarrow> (Some (Plain (nv_os_text self)), h, d)
                 | Inr i \<Rightarrow>
                     (case ensure_home (nv_os self) (path_parts (profile_home_text (ho_home h) i)) d of
                        (Some e, d1) \<Rightarrow> (Some (Plain (nv_os_text self)), h, d1)
                      | (None, d1) \<Rightarrow> launch_profile env q i h d1))))"

definition host_setup :: "'s host_env \<Rightarrow> setup_request \<Rightarrow> 's local_host \<Rightarrow> disk \<Rightarrow> go_error option \<times> 's local_host \<times> disk" where
  "host_setup env q h d =
     (case current h of
        Some n \<Rightarrow>
          if \<not> configured (nd_cfg n)
          then (case with_app_gateway env q h d of (q1, h1, d1) \<Rightarrow> on_current_disk (\<lambda>m. node_setup (world_of env m) q1 m) None h1 d1)
          else create_profile env q h d
      | None \<Rightarrow> create_profile env q h d)"

definition profiles :: "'s host_env \<Rightarrow> 's local_host \<Rightarrow> profile_info list" where
  "profiles env h =
     map (\<lambda>n. let c = nd_cfg n in
        \<lparr>pi_id = nd_profile n, pi_username = cf_username c, pi_display = cf_display c, pi_share = cf_share c,
         pi_identity = fediverse_address (nv_parse (world_of env n)) c, pi_selected = (nd_profile n = ho_selected h),
         pi_configured = configured c\<rparr>) (ho_nodes h)"

definition select_profile :: "'s host_env \<Rightarrow> string \<Rightarrow> 's local_host \<Rightarrow> disk \<Rightarrow> go_error option \<times> 's local_host \<times> disk" where
  "select_profile env i h d =
     (if list_ex (\<lambda>n. nd_profile n = i) (ho_nodes h)
      then let h1 = h\<lparr>ho_selected := i, ho_app := (ho_app h)\<lparr>ap_selected := i\<rparr>\<rparr> in
        (case save_host_app env h1 d of (r, d1) \<Rightarrow> (r, h1, d1))
      else (Some (new_error Kind_Config ''Unknown profile.''), h, d))"

section \<open>Settings\<close>

definition app_change :: "settings_request \<Rightarrow> bool" where
  "app_change q \<longleftrightarrow> se_gateway q \<noteq> None \<or> se_port q \<noteq> None \<or> se_log q \<noteq> None \<or> se_login q \<noteq> None"

definition changed_app :: "settings_request \<Rightarrow> app \<Rightarrow> app" where
  "changed_app q a =
     normalize_app \<lparr>ap_gateway = (case se_gateway q of None \<Rightarrow> ap_gateway a | Some g \<Rightarrow> trim_space g),
       ap_port = or_else (se_port q) (ap_port a), ap_log = or_else (se_log q) (ap_log a),
       ap_login = or_else (se_login q) (ap_login a), ap_selected = ap_selected a\<rparr>"

definition gateway_change :: "string \<Rightarrow> settings_request" where
  "gateway_change g =
     \<lparr>se_display = None, se_username = None, se_summary = None, se_share = None, se_gateway = Some g, se_port = None,
      se_downloads = None, se_bandwidth = None, se_log = None, se_login = None\<rparr>"

text \<open>The gateway is given to every node; what a node answers is ignored.\<close>

fun push_gateway :: "'s host_env \<Rightarrow> string \<Rightarrow> 's local_node list \<Rightarrow> disk \<Rightarrow> 's local_node list \<times> disk" where
  "push_gateway env g [] d = ([], d)"
| "push_gateway env g (n # ns) d =
     (case node_settings (world_of env n) (gateway_change g) n d of
        (_, n1, d1) \<Rightarrow> (case push_gateway env g ns d1 of (ms, d2) \<Rightarrow> (n1 # ms, d2)))"

definition apply_app :: "'s host_env \<Rightarrow> settings_request \<Rightarrow> 's local_host \<Rightarrow> disk \<Rightarrow> 's local_host \<times> disk" where
  "apply_app env q h d =
     (if \<not> app_change q then (h, d)
      else let h1 = h\<lparr>ho_app := changed_app q (ho_app h)\<rparr>; d1 = snd (save_host_app env h1 d) in
        case push_gateway env (ap_gateway (ho_app h1)) (ho_nodes h1) d1 of (ns, d2) \<Rightarrow> (h1\<lparr>ho_nodes := ns\<rparr>, d2))"

definition profile_part :: "settings_request \<Rightarrow> settings_request" where
  "profile_part q = q\<lparr>se_gateway := None, se_port := None, se_log := None, se_login := None\<rparr>"

definition host_settings :: "'s host_env \<Rightarrow> settings_request \<Rightarrow> 's local_host \<Rightarrow> disk \<Rightarrow> go_error option \<times> 's local_host \<times> disk" where
  "host_settings env q h d =
     (case apply_app env q h d of
        (h1, d1) \<Rightarrow> on_current_disk (\<lambda>n. node_settings (world_of env n) (profile_part q) n) None h1 d1)"

section \<open>The selected profile's operations\<close>

definition host_pause :: "'s host_env \<Rightarrow> 's local_host \<Rightarrow> go_error option \<times> 's local_host" where
  "host_pause env h = on_current (\<lambda>n. node_pause (world_of env n) n) (Some finish_setup) h"

definition host_resume :: "'s host_env \<Rightarrow> 's local_host \<Rightarrow> go_error option \<times> 's local_host" where
  "host_resume env h = on_current (\<lambda>n. node_resume (world_of env n) n) None h"

definition host_rescan :: "'s host_env \<Rightarrow> 's local_host \<Rightarrow> go_error option \<times> 's local_host" where
  "host_rescan env h = on_current (\<lambda>n. node_rescan (world_of env n) n) (Some no_folder) h"

definition host_block :: "'s host_env \<Rightarrow> string \<Rightarrow> 's local_host \<Rightarrow> go_error option \<times> 's local_host" where
  "host_block env t h = on_current (\<lambda>n. node_block_target (world_of env n) t n) None h"

definition host_unblock :: "'s host_env \<Rightarrow> string \<Rightarrow> 's local_host \<Rightarrow> go_error option \<times> 's local_host" where
  "host_unblock env t h = on_current (\<lambda>n. node_unblock (world_of env n) t n) None h"

definition of_current :: "('s node_env \<Rightarrow> 's local_node \<Rightarrow> 'r) \<Rightarrow> 'r \<Rightarrow> 's host_env \<Rightarrow> 's local_host \<Rightarrow> 'r" where
  "of_current f r env h = (case current h of Some n \<Rightarrow> f (world_of env n) n | None \<Rightarrow> r)"

definition host_files :: "'s host_env \<Rightarrow> 's local_host \<Rightarrow> go_error + entry list" where
  "host_files = of_current file_list (Inr [])"

definition host_activity :: "'s host_env \<Rightarrow> 's local_host \<Rightarrow> go_error + json list" where
  "host_activity = of_current activity_list (Inr [])"

definition host_followers :: "'s host_env \<Rightarrow> 's local_host \<Rightarrow> go_error + follower list" where
  "host_followers = of_current follower_list (Inr [])"

definition host_network :: "'s host_env \<Rightarrow> string \<Rightarrow> net_log \<Rightarrow> 's local_host \<Rightarrow> (go_error + directory) \<times> net_log" where
  "host_network env q l h = (case current h of Some n \<Rightarrow> fetch_network (world_of env n) n q l | None \<Rightarrow> (Inr setup_hint, l))"

section \<open>Public requests\<close>

definition username_from_path :: "dash_request \<Rightarrow> string" where
  "username_from_path r =
     (if dq_path r = ''/.well-known/webfinger''
      then fst (cut (CHR ''@'') (trim_prefix (to_lower (dq_query r ''resource'')) ''acct:''))
      else fst (cut slash (trim_prefix (dq_path r) ''/users/'')))"

text \<open>The path value of the routes under \<open>/users/\<close>; the others have none.\<close>

definition public_user :: "dash_request \<Rightarrow> string" where
  "public_user r =
     (let u = (if take 2 (segments (dq_escaped r)) = [[], ''users''] then path_value 2 r else []) in
      if u = [] then username_from_path r else u)"

definition public_index :: "string \<Rightarrow> 's local_host \<Rightarrow> nat option" where
  "public_index user h =
     (let k = length (takeWhile (\<lambda>n. \<not> equal_fold (cf_username (nd_cfg n)) user) (ho_nodes h)) in
      if k < length (ho_nodes h) then Some k else None)"

definition serve_public ::
  "'s host_env \<Rightarrow> public_env \<Rightarrow> disk \<Rightarrow> dash_request \<Rightarrow> 's local_host \<times> writer \<Rightarrow> 's local_host \<times> writer" where
  "serve_public env pe d r hw =
     (case public_index (public_user r) (fst hw) of
        None \<Rightarrow> (fst hw, not_found (snd hw))
      | Some i \<Rightarrow>
          (let h = fst hw; n = ho_nodes h ! i in
           case node_public (world_of env n) pe d r (n, snd hw) of
             (n1, w) \<Rightarrow> (h\<lparr>ho_nodes := (ho_nodes h)[i := n1]\<rparr>, w)))"

definition host_download ::
  "'s host_env \<Rightarrow> public_env \<Rightarrow> dash_request \<Rightarrow> 's local_host \<times> writer \<Rightarrow> 's local_host \<times> writer" where
  "host_download env pe r hw =
     (case current_index (fst hw) of
        None \<Rightarrow> (fst hw, not_found (snd hw))
      | Some i \<Rightarrow>
          (let h = fst hw; n = ho_nodes h ! i in
           case serve_download (world_of env n) pe (path_value 2 r) r (n, snd hw) of
             (n1, w) \<Rightarrow> (h\<lparr>ho_nodes := (ho_nodes h)[i := n1]\<rparr>, w)))"

section \<open>The host as the dashboard's backend\<close>

definition lift_host :: "('s local_host \<Rightarrow> 'r \<times> 's local_host) \<Rightarrow> 's local_host \<times> disk \<Rightarrow> 'r \<times> 's local_host \<times> disk" where
  "lift_host f st = (case f (fst st) of (r, h) \<Rightarrow> (r, h, snd st))"

definition host_backend :: "'s host_env \<Rightarrow> public_env \<Rightarrow> net_log \<Rightarrow> ('s local_host \<times> disk) backend" where
  "host_backend env pe l =
     \<lparr>be_snapshot = (\<lambda>s. snap (host_status (fst s))), be_config = (\<lambda>s. host_config (fst s)), be_home = (\<lambda>s. host_home (fst s)),
      be_url = (\<lambda>s. ho_url (fst s)), be_node_id = (\<lambda>s. host_node_id (fst s)),
      be_setup = (\<lambda>q s. host_setup env q (fst s) (snd s)), be_settings = (\<lambda>q s. host_settings env q (fst s) (snd s)),
      be_pause = lift_host (host_pause env), be_resume = lift_host (host_resume env), be_rescan = lift_host (host_rescan env),
      be_files = (\<lambda>s. host_files env (fst s)), be_followers = (\<lambda>s. host_followers env (fst s)),
      be_activity = (\<lambda>s. host_activity env (fst s)), be_block = (\<lambda>t. lift_host (host_block env t)),
      be_unblock = (\<lambda>t. lift_host (host_unblock env t)),
      be_network = Some (\<lambda>q s. map_sum id directory_json (fst (host_network env q l (fst s)))),
      be_profiles = Some (\<lambda>s. profiles env (fst s)), be_select = (\<lambda>i s. select_profile env i (fst s) (snd s)),
      be_create = (\<lambda>q s. create_profile env q (fst s) (snd s)),
      be_public = (\<lambda>r sw. case serve_public env pe (snd (fst sw)) r (fst (fst sw), snd sw) of (h, w) \<Rightarrow> ((h, snd (fst sw)), w)),
      be_download = (\<lambda>r sw. case host_download env pe r (fst (fst sw), snd sw) of (h, w) \<Rightarrow> ((h, snd (fst sw)), w))\<rparr>"

end
