(* ===== verification/Program.thy ===== *)
theory Program
  imports Host Desktop
begin

text \<open>
  \<open>cmd/fedishare\<close>: the start of the desktop program, from its flags to the running host, and the tray that is
  wired to it. The tray is given the status service of the profile selected at the start.
\<close>

section \<open>Start\<close>

record prog_env =
  pv_config_dir :: "string option"
  pv_os :: string
  pv_cwd :: "string option"

record prog_flags =
  fl_data :: string
  fl_log :: string

definition app_dir_name :: "string \<Rightarrow> string" where
  "app_dir_name os = (if os = ''windows'' \<or> os = ''darwin'' then ''FediShare'' else ''fedishare'')"

definition default_home :: "prog_env \<Rightarrow> string option" where
  "default_home pe = map_option (\<lambda>base. path_join base (app_dir_name (pv_os pe))) (pv_config_dir pe)"

definition resolve_home :: "prog_env \<Rightarrow> string \<Rightarrow> string option" where
  "resolve_home pe override = (if trim_space override = [] then default_home pe else path_abs (pv_cwd pe) override)"

text \<open>\<open>logging.Setup\<close>: the level, then the file in the directory \<open>logs\<close>, opened for appending.\<close>

definition log_path :: "fs_path \<Rightarrow> fs_path" where "log_path home = home @ [''logs'', ''fedishare.log'']"

definition open_log :: "os_env \<Rightarrow> fs_path \<Rightarrow> disk \<Rightarrow> bool \<times> disk" where
  "open_log os p d =
     (case mkdir_all os (butlast p) d of
        (False, d1) \<Rightarrow> (False, d1)
      | (True, d1) \<Rightarrow>
          if os_fault os (Write_Call p) \<or> at d1 p = Some Dir then (False, d1)
          else (True, if at d1 p = None then put p (File []) d1 else d1))"

definition setup_log :: "os_env \<Rightarrow> string \<Rightarrow> fs_path \<Rightarrow> disk \<Rightarrow> log_level option \<times> disk" where
  "setup_log os level p d =
     (case parse_level level of
        None \<Rightarrow> (None, d)
      | Some l \<Rightarrow> (case open_log os p d of (ok, d1) \<Rightarrow> (if ok then Some l else None, d1)))"

text \<open>The level given on the command line is saved before it is looked at.\<close>

definition override_level :: "'s node_env \<Rightarrow> fs_path \<Rightarrow> string \<Rightarrow> app \<Rightarrow> disk \<Rightarrow> app \<times> disk" where
  "override_level self dir level a d =
     (if level = [] then (a, d)
      else (a\<lparr>ap_log := level\<rparr>, snd (save_app (nv_codec self) (nv_os self) dir (a\<lparr>ap_log := level\<rparr>) d)))"

text \<open>\<open>run\<close> up to the running host. A failure ends the program with its text.\<close>

definition program_start ::
  "'s host_env \<Rightarrow> prog_env \<Rightarrow> prog_flags \<Rightarrow> (string \<Rightarrow> 's node_data) \<Rightarrow> disk \<Rightarrow> (go_error + 's local_host) \<times> disk" where
  "program_start env pe fl store d =
     (let self = hv_self env; os = nv_os self; failed = Inl (Plain (nv_os_text self)) in
      case resolve_home pe (fl_data fl) of
        None \<Rightarrow> (failed, d)
      | Some home \<Rightarrow>
          (case ensure_home os (path_parts home) d of
             (Some e, d1) \<Rightarrow> (failed, d1)
           | (None, d1) \<Rightarrow>
               (case migrate_legacy_home (nv_parse self) (nv_codec self) os (hv_random env) (path_parts home) d1 of
                  (Some e, d2) \<Rightarrow> (Inl (config_cause self (stored_config self (path_parts home) d1) e), d2)
                | (None, d2) \<Rightarrow>
                    (case load_app (nv_codec self) os (path_parts home) d2 of
                       Inl e \<Rightarrow> (failed, d2)
                     | Inr a0 \<Rightarrow>
                         (case override_level self (path_parts home) (fl_log fl) a0 d2 of (a, d3) \<Rightarrow>
                            (case setup_log os (ap_log a) (log_path (path_parts home)) d3 of
                               (None, d4) \<Rightarrow> (failed, d4)
                             | (Some lv, d4) \<Rightarrow>
                                 (case new_host env home store d4 of
                                    (Inl e, d5) \<Rightarrow> (Inl e, d5)
                                  | (Inr h, d5) \<Rightarrow>
                                      (case host_start env h d5 of
                                         (Some e, h1, d6) \<Rightarrow> (Inl e, d6)
                                       | (None, h1, d6) \<Rightarrow> (Inr h1, d6)))))))))"

section \<open>The tray\<close>

text \<open>
  The service the tray is given is the one of the selected profile at that moment, \<open>Some\<close> its id, or the host's
  own when there is no profile.
\<close>

definition tray_source :: "'s local_host \<Rightarrow> string option" where
  "tray_source h = map_option nd_profile (current h)"

definition tray_service :: "string option \<Rightarrow> 's local_host \<Rightarrow> service option" where
  "tray_service t h =
     (case t of
        None \<Rightarrow> Some (ho_empty h)
      | Some i \<Rightarrow> map_option nd_svc (List.find (\<lambda>n. nd_profile n = i) (ho_nodes h)))"

definition tray_shows :: "string option \<Rightarrow> 's local_host \<Rightarrow> tray_menu option" where
  "tray_shows t h = map_option (\<lambda>s. apply_menu (snap s)) (tray_service t h)"

text \<open>A click on the entry that pauses or resumes acts on the profile selected now.\<close>

definition click_pause :: "'s host_env \<Rightarrow> string option \<Rightarrow> 's local_host \<Rightarrow> go_error option \<times> 's local_host" where
  "click_pause env t h =
     (case tray_service t h of
        Some s \<Rightarrow> if snap_state (snap s) = StatePaused then host_resume env h else host_pause env h
      | None \<Rightarrow> (None, h))"

end
