(* ===== verification/Host_Facts.thy ===== *)
theory Host_Facts
  imports Program Node_Properties
begin

text \<open>
  Runs of the host: every operation of the dashboard, the public requests and the goroutines of the nodes as
  events. What a public request and the host's operations leave alone.
\<close>

section \<open>A public request\<close>

lemma node_public_frame:
  assumes "node_public env pe d r nw = (n1, w1)"
  shows "core n1 = core (fst nw)" "nd_svc n1 = nd_svc (fst nw)" "nd_profile n1 = nd_profile (fst nw)"
proof -
  have dl: "core (fst (serve_download env pe i r nw)) = core (fst nw)" "nd_svc (fst (serve_download env pe i r nw)) = nd_svc (fst nw)"
      "nd_profile (fst (serve_download env pe i r nw)) = nd_profile (fst nw)" for i
  proof -
    obtain resp m where m: "node_download env (pb_fs pe) (pb_time pe) (download_request pe i r) (fst nw) = (resp, m)" by fastforce
    have "nd_profile m = nd_profile (fst nw)" using m by (auto simp: node_download_def split: prod.splits)
    then show "core (fst (serve_download env pe i r nw)) = core (fst nw)" "nd_svc (fst (serve_download env pe i r nw)) = nd_svc (fst nw)"
        "nd_profile (fst (serve_download env pe i r nw)) = nd_profile (fst nw)"
      using data_ops_core(4) [of env "pb_fs pe" "pb_time pe" "download_request pe i r" "fst nw"]
        data_ops_svc(4) [of env "pb_fs pe" "pb_time pe" "download_request pe i r" "fst nw"] m
      by (simp_all add: serve_download_def)
  qed
  have pr: "nd_profile (snd (node_process env s doc m)) = nd_profile m" for s doc m
    by (simp add: node_process_def split: prod.split)
  have ib: "core (fst (deliver_inbox env pe src r nw)) = core (fst nw)" "nd_svc (fst (deliver_inbox env pe src r nw)) = nd_svc (fst nw)"
      "nd_profile (fst (deliver_inbox env pe src r nw)) = nd_profile (fst nw)" for src
    by (simp_all add: deliver_inbox_def Let_def pr split: option.split)
  have rt: "core (fst (serve_route env pe d rt r nw)) = core (fst nw) \<and> nd_svc (fst (serve_route env pe d rt r nw)) = nd_svc (fst nw) \<and>
      nd_profile (fst (serve_route env pe d rt r nw)) = nd_profile (fst nw)" for rt
    by (cases rt) (simp_all add: serve_route_def Let_def dl ib)
  have "n1 = fst nw \<or> (\<exists>rt. n1 = fst (serve_route env pe d rt r nw))"
  proof (cases "find_route (dq_method r) (mux_clean (dq_escaped r))")
    case (Some rt)
    then show ?thesis using arg_cong [OF assms, of fst] by (auto simp: node_public_def Let_def split: if_splits)
  qed (use assms in \<open>auto simp: node_public_def Let_def split: if_splits\<close>)
  then show "core n1 = core (fst nw)" "nd_svc n1 = nd_svc (fst nw)" "nd_profile n1 = nd_profile (fst nw)" using rt by auto
qed

lemma takeWhile_index:
  "length (takeWhile (\<lambda>x. \<not> P x) xs) < length xs \<Longrightarrow> P (xs ! length (takeWhile (\<lambda>x. \<not> P x) xs))"
  using nth_length_takeWhile [of "\<lambda>x. \<not> P x" xs] by simp

lemma public_index_Some:
  assumes "public_index user h = Some i"
  shows "i < length (ho_nodes h)" "equal_fold (cf_username (nd_cfg (ho_nodes h ! i))) user"
    "\<And>j. j < i \<Longrightarrow> \<not> equal_fold (cf_username (nd_cfg (ho_nodes h ! j))) user"
proof -
  let ?P = "\<lambda>n. equal_fold (cf_username (nd_cfg n)) user"
  have i: "i = length (takeWhile (\<lambda>n. \<not> ?P n) (ho_nodes h))" "i < length (ho_nodes h)"
    using assms by (auto simp: public_index_def Let_def split: if_splits)
  show "i < length (ho_nodes h)" "?P (ho_nodes h ! i)" using i takeWhile_index [of ?P "ho_nodes h"] by simp_all
  show "\<not> ?P (ho_nodes h ! j)" if "j < i" for j
    using that i(1) by (metis (mono_tags) nth_mem set_takeWhileD takeWhile_nth)
qed

lemma current_index_less: "current_index h = Some i \<Longrightarrow> i < length (ho_nodes h)"
  by (auto simp: current_index_def Let_def split: if_splits)

section \<open>Events\<close>

datatype host_event =
  He_Start | He_Shutdown | He_Setup setup_request | He_Create setup_request | He_Settings settings_request | He_Select string
| He_Pause | He_Resume | He_Rescan | He_Block string | He_Unblock string | He_Public public_env dash_request writer
| He_Download public_env dash_request writer | He_Node nat node_event

fun host_event_step :: "'s host_env \<Rightarrow> 's local_host \<times> disk \<Rightarrow> host_event \<Rightarrow> 's local_host \<times> disk" where
  "host_event_step env (h, d) He_Start = snd (host_start env h d)"
| "host_event_step env (h, d) He_Shutdown = (snd (host_shutdown env h), d)"
| "host_event_step env (h, d) (He_Setup q) = snd (host_setup env q h d)"
| "host_event_step env (h, d) (He_Create q) = snd (create_profile env q h d)"
| "host_event_step env (h, d) (He_Settings q) = snd (host_settings env q h d)"
| "host_event_step env (h, d) (He_Select i) = snd (select_profile env i h d)"
| "host_event_step env (h, d) He_Pause = (snd (host_pause env h), d)"
| "host_event_step env (h, d) He_Resume = (snd (host_resume env h), d)"
| "host_event_step env (h, d) He_Rescan = (snd (host_rescan env h), d)"
| "host_event_step env (h, d) (He_Block t) = (snd (host_block env t h), d)"
| "host_event_step env (h, d) (He_Unblock t) = (snd (host_unblock env t h), d)"
| "host_event_step env (h, d) (He_Public pe r w) = (fst (serve_public env pe d r (h, w)), d)"
| "host_event_step env (h, d) (He_Download pe r w) = (fst (host_download env pe r (h, w)), d)"
| "host_event_step env (h, d) (He_Node i e) =
     (if i < length (ho_nodes h)
      then (case node_event_step (world_of env (ho_nodes h ! i)) (ho_nodes h ! i, d) e of
          (n, d1) \<Rightarrow> (h\<lparr>ho_nodes := (ho_nodes h)[i := n]\<rparr>, d1))
      else (h, d))"

definition host_run_step :: "'s local_host \<times> disk \<Rightarrow> 's host_env \<times> host_event \<Rightarrow> 's local_host \<times> disk" where
  "host_run_step st e = host_event_step (fst e) st (snd e)"

section \<open>What every operation leaves alone\<close>

definition anchor :: "'s local_host \<Rightarrow> string \<times> service" where "anchor h = (ho_home h, ho_empty h)"

lemma anchor_updates [simp]:
  "anchor (h\<lparr>ho_nodes := ns\<rparr>) = anchor h" "anchor (h\<lparr>ho_app := a\<rparr>) = anchor h" "anchor (h\<lparr>ho_store := st\<rparr>) = anchor h"
  "anchor (h\<lparr>ho_selected := i\<rparr>) = anchor h" "anchor (h\<lparr>ho_http := b\<rparr>) = anchor h" "anchor (h\<lparr>ho_started := b\<rparr>) = anchor h"
  "anchor (h\<lparr>ho_url := u\<rparr>) = anchor h"
  by (simp_all add: anchor_def)

lemma anchor_multi [simp]:
  "anchor (h\<lparr>ho_app := a, ho_nodes := ns\<rparr>) = anchor h" "anchor (h\<lparr>ho_nodes := ns, ho_selected := i\<rparr>) = anchor h"
  "anchor (h\<lparr>ho_app := a, ho_nodes := ns, ho_selected := i\<rparr>) = anchor h" "anchor (h\<lparr>ho_app := a, ho_selected := i\<rparr>) = anchor h"
  "anchor (h\<lparr>ho_nodes := ns, ho_http := b, ho_url := u\<rparr>) = anchor h"
  by (simp_all add: anchor_def)

lemma keep_anchor [simp]: "anchor (keep_data n h) = anchor h" "anchor (fold keep_data ns h) = anchor h"
proof -
  show one: "anchor (keep_data n h) = anchor h" for n :: "'a local_node" and h by (simp add: keep_data_def)
  show "anchor (fold keep_data ns h) = anchor h" by (induction ns arbitrary: h) (simp_all add: one)
qed

lemma stop_anchor [simp]: "anchor (snd (stop_nodes env h)) = anchor h"
  by (simp add: stop_nodes_def Let_def)

lemma boot_anchor: "boot_profile env i h d = (e, h1, d1) \<Longrightarrow> anchor h1 = anchor h"
  by (auto simp: boot_profile_def Let_def split: sum.splits option.splits prod.splits)

lemma boot_all_anchor: "boot_all env is h d = (e, h1, d1) \<Longrightarrow> anchor h1 = anchor h"
proof (induction "is" arbitrary: h d)
  case (Cons i "is")
  obtain e2 h2 d2 where b: "boot_profile env i h d = (e2, h2, d2)" by (metis prod_cases3)
  show ?case
  proof (cases e2)
    case None
    then show ?thesis using Cons.IH [of h2 d2] Cons.prems b boot_anchor [OF b] by simp
  next
    case (Some x)
    then have "h1 = snd (stop_nodes env h2)" using Cons.prems b by simp
    then show ?thesis using boot_anchor [OF b] by simp
  qed
qed simp

lemma start_anchor: "anchor (fst (snd (host_start env h d))) = anchor h"
proof -
  have sel: "anchor (fst (select_first env m x)) = anchor m" for m x by (simp add: select_first_def Let_def)
  have http: "anchor (snd (host_start_http env m)) = anchor m" for m by (simp add: host_start_http_def Let_def split: option.split)
  show ?thesis
  proof (cases "ho_started h")
    case False
    show ?thesis
    proof (cases "list_profile_ids (nv_os (hv_self env)) (host_dir h) d")
      case (Inr ids)
      obtain e h1 d1 where b: "boot_all env ids h d = (e, h1, d1)" by (metis prod_cases3)
      obtain h2 d2 where s: "select_first env h1 d1 = (h2, d2)" by fastforce
      obtain e3 h3 where t: "host_start_http env h2 = (e3, h3)" by fastforce
      have "anchor h3 = anchor h" "anchor h1 = anchor h"
        using boot_all_anchor [OF b] sel [of h1 d1] http [of h2] s t by simp_all
      then show ?thesis using False Inr b s t by (auto simp: host_start_def split: option.split)
    qed (simp add: host_start_def False)
  qed (simp add: host_start_def)
qed

lemma shutdown_anchor: "anchor (snd (host_shutdown env h)) = anchor h"
proof -
  obtain e h1 where s: "stop_nodes env (h\<lparr>ho_http := False\<rparr>) = (e, h1)" by fastforce
  then show ?thesis using stop_anchor [of env "h\<lparr>ho_http := False\<rparr>"] by (simp add: host_shutdown_def)
qed

lemma gateway_anchor: "with_app_gateway env q h d = (q1, h1, d1) \<Longrightarrow> anchor h1 = anchor h"
  by (auto simp: with_app_gateway_def Let_def)

lemma launch_anchor: "anchor (fst (snd (launch_profile env q i h d))) = anchor h"
  by (simp add: launch_profile_def Let_def split: sum.split option.split prod.split)

lemma create_anchor: "anchor (fst (snd (create_profile env q h d))) = anchor h"
proof -
  obtain q1 h1 d1 where g: "with_app_gateway env q h d = (q1, h1, d1)" by (metis prod_cases3)
  have l: "anchor (fst (snd (launch_profile env q1 i h1 x))) = anchor h" for i x
    using launch_anchor gateway_anchor [OF g] by metis
  show ?thesis
    using l gateway_anchor [OF g] by (simp add: create_profile_def g Let_def split: sum.split option.split prod.split)
qed

lemma on_current_anchor:
  "anchor (snd (on_current f r h)) = anchor h" "anchor (fst (snd (on_current_disk g r h d))) = anchor h"
  by (simp_all add: on_current_def on_current_disk_def split: option.split prod.split)

lemma setup_anchor: "anchor (fst (snd (host_setup env q h d))) = anchor h"
proof -
  obtain q1 h1 d1 where g: "with_app_gateway env q h d = (q1, h1, d1)" by (metis prod_cases3)
  show ?thesis using gateway_anchor [OF g]
    by (simp add: host_setup_def g create_anchor on_current_anchor split: option.split)
qed

lemma settings_anchor: "anchor (fst (snd (host_settings env q h d))) = anchor h"
proof -
  obtain h1 d1 where a: "apply_app env q h d = (h1, d1)" by fastforce
  then have "anchor h1 = anchor h" by (auto simp: apply_app_def Let_def split: if_splits prod.splits)
  then show ?thesis by (simp add: host_settings_def a on_current_anchor)
qed

lemma select_anchor: "anchor (fst (snd (select_profile env i h d))) = anchor h"
  by (simp add: select_profile_def Let_def split: prod.split)

lemma public_anchor:
  "anchor (fst (serve_public env pe d r hw)) = anchor (fst hw)" "anchor (fst (host_download env pe r hw)) = anchor (fst hw)"
  by (simp_all add: serve_public_def host_download_def Let_def split: option.split prod.split)

lemma host_step_anchor: "anchor (fst (host_event_step env st e)) = anchor (fst st)"
proof -
  obtain h d where st: "st = (h, d)" by fastforce
  show ?thesis
    by (cases e) (simp_all add: st start_anchor shutdown_anchor setup_anchor create_anchor settings_anchor select_anchor
        host_pause_def host_resume_def host_rescan_def host_block_def host_unblock_def on_current_anchor public_anchor split: prod.split)
qed

interpretation anchored: machine host_run_step "\<lambda>st. anchor (fst st) = a" for a
  by unfold_locales (simp add: host_run_step_def host_step_anchor)

end
