(* ===== verification/Host_Properties.thy ===== *)
theory Host_Properties
  imports Host_Facts
begin

text \<open>
  What a public request can get from the host: a file of the profile its address names, or nothing of the share.
\<close>

section \<open>Public downloads\<close>

lemma download_status: "status (fst (download env r l)) \<in> {200, 206, 304, 416, 403, 404, 405, 503, 429}"
proof (cases "admit env r")
  case (Inl x)
  then show ?thesis using admit_refused [of env r "fst x" "snd x"] by (cases x) (auto simp: download_def)
next
  case (Inr x)
  obtain rc i data where x: "x = (rc, i, data)" by (cases x)
  show ?thesis
    using serve_file_status [of env r rc i data] Inr x by (auto simp: download_def split: sum.split prod.split)
qed

lemma node_download_status: "status (fst (node_download env fs p q n)) \<in> {200, 206, 304, 416, 403, 404, 405, 503, 429}"
  using download_status [of "node_download_env env fs p n" q "nd_limiter n"]
  by (cases "download (node_download_env env fs p n) q (nd_limiter n)") (simp add: node_download_def)

text \<open>What is sent with a status of success, on a writer that has sent nothing.\<close>

lemma emit_sent:
  assumes "w_sent w = None" "200 \<le> status resp" "status resp < 600" "w_sent (emit_response resp w) = Some (c, hs)"
  shows "c = int (status resp)" "c \<in> {200, 206} \<Longrightarrow> w_body (emit_response resp w) = w_body w @ body resp"
  using assms by (auto simp: emit_response_def Let_def write_header_def write_data_def body_allowed_def or_keep_def split: if_splits)

lemma error_sent:
  "w_sent (writer_error msg code w) = Some (c, hs) \<Longrightarrow> w_sent w = None \<Longrightarrow> 200 \<le> code \<Longrightarrow> code \<le> 999 \<Longrightarrow> c = code"
  by (auto simp: writer_error_def Let_def write_header_def write_data_def split: if_splits)

lemma redirect_sent: "w_sent (mux_redirect p w) = Some (c, hs) \<Longrightarrow> w_sent w = None \<Longrightarrow> c = 301"
  by (simp add: mux_redirect_def Let_def write_header_def or_keep_def set_header_def)

lemma node_download_bytes:
  assumes "req_method q = ''GET''" "node_download env fs p q n = (resp, n1)" "status resp \<in> {200, 206}"
  shows "\<exists>l. n1 = n\<lparr>nd_limiter := l\<rparr>" "\<not> nd_paused n"
    "\<exists>rc path i. get_by_id (live_files env n) (path_id q) (da_files (nd_data n)) = Inr rc \<and> available rc \<and> is_public rc \<and>
      inside_share fs (cf_share (nd_cfg n)) path \<and> fs path = Some i \<and> fi_kind i = Regular \<and>
      (status resp = 200 \<and> body resp = fi_data i \<and> parse_range (h_range q) (fi_size i) = Inr [] \<or>
       (\<exists>s e. status resp = 206 \<and> parse_range (h_range q) (fi_size i) = Inr [(s, e)] \<and> body resp = slice s e (fi_data i)))"
proof -
  let ?e = "node_download_env env fs p n"
  have e: "env_fs ?e = fs" "env_root ?e = cf_share (nd_cfg n)" "env_paused ?e = nd_paused n"
    by (simp_all add: node_download_env_def)
  have resp: "resp = fst (download ?e q (nd_limiter n))" "n1 = n\<lparr>nd_limiter := snd (download ?e q (nd_limiter n))\<rparr>"
    using assms(2) by (auto simp: node_download_def split: prod.splits)
  then show "\<exists>l. n1 = n\<lparr>nd_limiter := l\<rparr>" by blast
  have "status (fst (download ?e q (nd_limiter n))) \<in> {200, 206, 304, 416}" using assms(3) resp by auto
  then obtain rc i data h l where a: "admit ?e q = Inr (rc, i, data)"
      and d: "download ?e q (nd_limiter n) = (serve_file ?e q rc i data, release h l)" by (rule download_serves)
  note adm = admitted [OF a]
  show "\<not> nd_paused n" using adm(3) by (simp add: e)
  obtain path where path: "resolve_under_root fs (cf_share (nd_cfg n)) (relative_path rc) = Inr path" "fs path = Some i"
      "fi_kind i = Regular" "data = fi_data i" using adm(7) unfolding e by blast
  have "get_by_id (live_files env n) (path_id q) (da_files (nd_data n)) = Inr rc"
    using adm(4) by (simp add: node_download_env_def split: if_splits)
  moreover have "inside_share fs (cf_share (nd_cfg n)) path" using path(1) by (rule share.resolve_inside)
  moreover have "status resp = 200 \<and> body resp = fi_data i \<and> parse_range (h_range q) (fi_size i) = Inr [] \<or>
       (\<exists>s e. status resp = 206 \<and> parse_range (h_range q) (fi_size i) = Inr [(s, e)] \<and> body resp = slice s e (fi_data i))"
  proof -
    have r: "resp = serve_file ?e q rc i data" using resp(1) d by simp
    have "status (serve_file ?e q rc i data) \<in> {200, 206}" using assms(3) r by simp
    from serve_file_body [OF this path(4) [symmetric] assms(1)] show ?thesis unfolding r path(4) fi_size_def by blast
  qed
  ultimately show "\<exists>rc path i. get_by_id (live_files env n) (path_id q) (da_files (nd_data n)) = Inr rc \<and> available rc \<and> is_public rc \<and>
      inside_share fs (cf_share (nd_cfg n)) path \<and> fs path = Some i \<and> fi_kind i = Regular \<and>
      (status resp = 200 \<and> body resp = fi_data i \<and> parse_range (h_range q) (fi_size i) = Inr [] \<or>
       (\<exists>s e. status resp = 206 \<and> parse_range (h_range q) (fi_size i) = Inr [(s, e)] \<and> body resp = slice s e (fi_data i)))"
    using adm(5,6) path(2,3) by blast
qed

lemma public_user_file:
  assumes "node_public env pe d r (n, w) = (n1, w1)" "find_route (dq_method r) (dq_escaped r) = Some Pr_User_File" "w_sent w = None"
    and "w_sent w1 = Some (c, hs)" "c \<in> {200, 206}"
  shows "configured (nd_cfg n)" "equal_fold (path_value 2 r) (cf_username (nd_cfg n))"
    "serve_download env pe (path_value 4 r) r (n, w) = (n1, w1)"
proof -
  let ?src = "node_source env d (signed_request_of pe r) n"
  have clean: "mux_clean (dq_escaped r) = dq_escaped r"
  proof (rule ccontr)
    assume "\<not> ?thesis"
    then have "w1 = mux_redirect (mux_clean (dq_escaped r)) w" using assms(1) by (simp add: node_public_def Let_def)
    then show False using redirect_sent [of _ w c hs] assms(3-5) by auto
  qed
  have u: "match_user ?src (path_value 2 r)"
  proof (rule ccontr)
    assume "\<not> ?thesis"
    then have "w1 = not_found w"
      using assms(1,2) clean by (simp add: node_public_def Let_def serve_route_def ap_request_of_def)
    then show False using error_sent [of _ 404 w c hs] assms(3-5) by (auto simp: not_found_def)
  qed
  show "configured (nd_cfg n)" "equal_fold (path_value 2 r) (cf_username (nd_cfg n))"
    using u by (simp_all add: match_user_def node_source_def Let_def)
  show "serve_download env pe (path_value 4 r) r (n, w) = (n1, w1)"
    using assms(1,2) clean u by (simp add: node_public_def Let_def serve_route_def ap_request_of_def)
qed

text \<open>
  C5. A file that is sent for a public address under a user's name is a file that user shares: the request is
  handled by one profile whose name is the one of the address, which is configured and not paused, only its
  download limiter changes, and the bytes are those of a public file inside its share directory: the whole file,
  or the range the \<open>Range\<close> header asks for.
\<close>

theorem public_file_of_named_profile:
  assumes "serve_public env pe d r (h, w) = (h1, w1)" "w_sent w = None" "w_body w = []"
    and "find_route (dq_method r) (dq_escaped r) = Some Pr_User_File" "dq_method r = ''GET''"
    and "w_sent w1 = Some (c, hs)" "c \<in> {200, 206}"
  shows "\<exists>i n l. i < length (ho_nodes h) \<and> n = ho_nodes h ! i \<and> h1 = h\<lparr>ho_nodes := (ho_nodes h)[i := n\<lparr>nd_limiter := l\<rparr>]\<rparr> \<and>
    equal_fold (path_value 2 r) (cf_username (nd_cfg n)) \<and> configured (nd_cfg n) \<and> \<not> nd_paused n \<and>
    (\<exists>rc path fi. get_by_id (live_files (world_of env n) n) (path_value 4 r) (da_files (nd_data n)) = Inr rc \<and>
      available rc \<and> is_public rc \<and> inside_share (pb_fs pe) (cf_share (nd_cfg n)) path \<and> pb_fs pe path = Some fi \<and>
      fi_kind fi = Regular \<and> (c = 200 \<and> w_body w1 = fi_data fi \<and> parse_range (header_get ''Range'' (dq_header r)) (fi_size fi) = Inr [] \<or>
       (\<exists>s e. c = 206 \<and> parse_range (header_get ''Range'' (dq_header r)) (fi_size fi) = Inr [(s, e)] \<and>
          w_body w1 = slice s e (fi_data fi))))"
proof (cases "public_index (public_user r) h")
  case None
  then have "w1 = not_found w" using assms(1) by (simp add: serve_public_def)
  then have "c = 404" using error_sent [of "''404 page not found''" 404 w c hs] assms(2,6) by (simp add: not_found_def)
  then show ?thesis using assms(7) by simp
next
  case (Some i)
  let ?n = "ho_nodes h ! i"
  obtain n1 where n1: "node_public (world_of env ?n) pe d r (?n, w) = (n1, w1)" "h1 = h\<lparr>ho_nodes := (ho_nodes h)[i := n1]\<rparr>"
    using assms(1) Some by (auto simp: serve_public_def Let_def split: prod.splits)
  note pf = public_user_file [OF n1(1) assms(4,2,6,7)]
  let ?q = "download_request pe (path_value 4 r) r"
  obtain resp m where m: "node_download (world_of env ?n) (pb_fs pe) (pb_time pe) ?q ?n = (resp, m)" by fastforce
  then have w1: "n1 = m" "w1 = emit_response resp w" using pf(3) by (simp_all add: serve_download_def)
  have st: "status resp \<in> {200, 206, 304, 416, 403, 404, 405, 503, 429}"
    using node_download_status [of "world_of env ?n" "pb_fs pe" "pb_time pe" ?q ?n] m by simp
  then have "200 \<le> status resp" "status resp < 600" by auto
  note sent = emit_sent [OF assms(2) this assms(6) [unfolded w1]]
  have get: "req_method ?q = ''GET''" "path_id ?q = path_value 4 r" "h_range ?q = header_get ''Range'' (dq_header r)" using assms(5) by (simp_all add: download_request_def)
  have ok: "status resp \<in> {200, 206}" using sent(1) assms(7) by auto
  note bytes = node_download_bytes [OF get(1) m ok]
  have body: "w_body w1 = body resp" using sent(2) [OF assms(7)] assms(3) w1 by simp
  have c: "c = 200 \<longleftrightarrow> status resp = 200" "c = 206 \<longleftrightarrow> status resp = 206" using sent(1) by auto
  have i: "i < length (ho_nodes h)" using public_index_Some [OF Some] by simp
  show ?thesis using bytes i pf(1,2) n1(2) unfolding w1(1) get(2,3) c(1) c(2) body by blast
qed

section \<open>A host with two profiles\<close>

definition demo_sharing :: "string list local_node" where
  "demo_sharing = (demo_running demo_config)\<lparr>nd_profile := ''b'', nd_limiter := demo_limiter,
     nd_data := demo_data\<lparr>da_files := \<lparr>file_rows = [demo_rec], dir_rows = []\<rparr>\<rparr>\<rparr>"

definition demo_other :: "string list local_node" where
  "demo_other = (demo_running (demo_config\<lparr>cf_username := ''alice'', cf_share := ''/srv/alice''\<rparr>))\<lparr>nd_profile := ''a''\<rparr>"

definition demo_host :: "string list local_host" where
  "demo_host = \<lparr>ho_home = ''/h'', ho_app = default_app, ho_nodes = [demo_other, demo_sharing], ho_selected = ''a'', ho_http = True,
     ho_url = ''http://127.0.0.1:17890'', ho_empty = setup_required, ho_started = True, ho_store = (\<lambda>_. demo_data)\<rparr>"

definition demo_host_env :: "string list host_env" where
  "demo_host_env = \<lparr>hv_node = (\<lambda>_. demo_world), hv_self = demo_world, hv_random = Some ''0123456789''\<rparr>"

definition demo_get :: dash_request where
  "demo_get = \<lparr>dq_method = ''GET'', dq_escaped = ''/users/bob/download/0123456789abcdef'', dq_host = ''localhost'', dq_header = Map.empty,
     dq_query = (\<lambda>_. []), dq_form_token = [], dq_body = []\<rparr>"

definition demo_public :: public_env where
  "demo_public = \<lparr>pb_ap = \<lparr>ap_encode = (\<lambda>_. []), ap_render = (\<lambda>_. None), ap_url = simple_url, ap_now = 0, ap_fmt = (\<lambda>_. [])\<rparr>,
     pb_fs = demo_fs, pb_time = (\<lambda>_. None), pb_remote = ''10.0.0.1:5'', pb_url = None\<rparr>"

definition demo_share_env :: download_env where
  "demo_share_env = \<lparr>env_fs = demo_fs, env_root = ''/srv/share'',
     env_lookup = (\<lambda>i. get_by_id demo_env_files i \<lparr>file_rows = [demo_rec], dir_rows = []\<rparr>),
     env_paused = False, env_seek = (\<lambda>_. True), parse_time = (\<lambda>_. None), format_time = (\<lambda>_. [])\<rparr>"

lemma demo_shared:
  "status (fst (download demo_share_env (download_request demo_public ''0123456789abcdef'' demo_get) demo_limiter)) = 200"
  "body (fst (download demo_share_env (download_request demo_public ''0123456789abcdef'' demo_get) demo_limiter)) = ''hello world''"
  by code_simp+

lemma demo_request_values:
  "public_user demo_get = ''bob''" "path_value 2 demo_get = ''bob''" "path_value 4 demo_get = ''0123456789abcdef''"
  "mux_clean (dq_escaped demo_get) = dq_escaped demo_get" "find_route (dq_method demo_get) (dq_escaped demo_get) = Some Pr_User_File"
  by code_simp+

lemma demo_served:
  obtains h1 w1 hs where "serve_public demo_host_env demo_public [] demo_get (demo_host, new_writer) = (h1, w1)"
    "w_sent w1 = Some (200, hs)" "w_body w1 = ''hello world''"
proof -
  have n: "nd_cfg demo_sharing = demo_config" "nd_ready demo_sharing" "nd_open demo_sharing" "\<not> nd_paused demo_sharing"
      "nd_limiter demo_sharing = demo_limiter" "nd_profile demo_sharing = ''b''"
      "da_files (nd_data demo_sharing) = \<lparr>file_rows = [demo_rec], dir_rows = []\<rparr>"
    by (simp_all add: demo_sharing_def demo_running_def fresh_node_def)
  have cfg: "cf_share demo_config = ''/srv/share''" "cf_username demo_config = ''bob''" "configured demo_config"
    by (simp_all add: demo_config_def configured_def)
  have other: "cf_username (nd_cfg demo_other) = ''alice''" by (simp add: demo_other_def demo_running_def fresh_node_def)
  have fold: "\<not> equal_fold ''alice'' ''bob''" "equal_fold ''bob'' ''bob''" by code_simp+
  have idx: "public_index (public_user demo_get) demo_host = Some 1"
    by (simp add: public_index_def demo_host_def demo_request_values other n(1) cfg fold)
  have at1: "ho_nodes demo_host ! Suc 0 = demo_sharing" by (simp add: demo_host_def)
  have w: "world_of demo_host_env demo_sharing = demo_world" by (simp add: world_of_def demo_host_env_def)
  have env: "node_download_env demo_world demo_fs (\<lambda>_. None) demo_sharing = demo_share_env"
    by (simp add: node_download_env_def demo_share_env_def n cfg live_files_def) (simp add: demo_world_def)
  have mu: "match_user (node_source demo_world [] sg demo_sharing) ''bob''" for sg
    by (simp add: match_user_def node_source_def Let_def n cfg fold)
  define resp where "resp = fst (download demo_share_env (download_request demo_public ''0123456789abcdef'' demo_get) demo_limiter)"
  obtain m where m: "node_download demo_world demo_fs (\<lambda>_. None) (download_request demo_public ''0123456789abcdef'' demo_get) demo_sharing = (resp, m)"
    by (cases "download demo_share_env (download_request demo_public ''0123456789abcdef'' demo_get) demo_limiter")
      (simp add: node_download_def env n resp_def)
  have np: "node_public demo_world demo_public [] demo_get (demo_sharing, new_writer) = (m, emit_response resp new_writer)"
    using m by (simp add: node_public_def Let_def demo_request_values serve_route_def ap_request_of_def mu serve_download_def)
      (simp add: demo_public_def)
  obtain h1 where h1: "serve_public demo_host_env demo_public [] demo_get (demo_host, new_writer) = (h1, emit_response resp new_writer)"
    by (simp add: serve_public_def idx at1 w np Let_def)
  have r: "status resp = 200" "body resp = ''hello world''" using demo_shared by (simp_all add: resp_def)
  have "w_sent new_writer = None" "w_body new_writer = []" by (simp_all add: new_writer_def)
  then obtain hs where "w_sent (emit_response resp new_writer) = Some (200, hs)" "w_body (emit_response resp new_writer) = ''hello world''"
    by (simp add: emit_response_def Let_def r write_header_def write_data_def body_allowed_def or_keep_def)
  then show thesis using that [OF h1] by blast
qed

theorem public_file_of_named_profile_witness:
  "\<exists>h1 w1. serve_public demo_host_env demo_public [] demo_get (demo_host, new_writer) = (h1, w1) \<and> w_body w1 = ''hello world'' \<and>
    (\<exists>n \<in> set (ho_nodes demo_host). equal_fold ''bob'' (cf_username (nd_cfg n)) \<and> \<not> nd_paused n)"
proof -
  obtain h1 w1 hs where s: "serve_public demo_host_env demo_public [] demo_get (demo_host, new_writer) = (h1, w1)"
    "w_sent w1 = Some (200, hs)" "w_body w1 = ''hello world''" by (rule demo_served)
  have w: "w_sent new_writer = None" "w_body new_writer = []" "dq_method demo_get = ''GET''" by (simp_all add: new_writer_def demo_get_def)
  from public_file_of_named_profile [OF s(1) w(1,2) demo_request_values(5) w(3) s(2)]
  have "\<exists>n \<in> set (ho_nodes demo_host). equal_fold ''bob'' (cf_username (nd_cfg n)) \<and> \<not> nd_paused n"
    unfolding demo_request_values by (metis insertI1 nth_mem)
  then show ?thesis using s by blast
qed

end
