(* ===== verification/Program_Properties.thy ===== *)
theory Program_Properties
  imports Host_Properties
begin

text \<open>
  Properties of the program as it starts and runs: settings the dashboard accepts and the next start refuses, the
  folders a profile may share, and what the tray shows and does.
\<close>

section \<open>What survives a change of settings\<close>

definition not_config :: "fs_path \<Rightarrow> bool" where
  "not_config p \<longleftrightarrow> (\<forall>home. p \<noteq> config_path home \<and> p \<noteq> config_tmp home)"

lemma app_not_config: "not_config (app_path home)"
  by (simp add: not_config_def app_path_def config_path_def config_tmp_def)

lemma save_config_keeps:
  assumes "save_config parse cd os home c d = (e, d1)" "disk_ok d" "at d p = Some x" "not_config p"
  shows "disk_ok d1 \<and> at d1 p = Some x"
  using assms(1)
proof (cases rule: save_config_cases)
  case (2 d2)
  then show ?thesis using ensure_home_ok ensure_home_keeps assms(2,3) by blast
next
  case (3 d2 b)
  have d2: "disk_ok d2" "at d2 p = Some x" using ensure_home_ok [OF 3(1) assms(2)] ensure_home_keeps [OF 3(1) assms(3)] by auto
  have "p \<noteq> config_path home" "p \<noteq> config_tmp home" using assms(4) by (auto simp: not_config_def)
  then show ?thesis using replace_file_at(1,2) [OF 3(3) d2(1) config_paths(1,2)] d2(2) by auto
qed (use assms in simp)

lemma save_settings_keeps:
  assumes "save_settings env c n d = (r, n1, d1)" "disk_ok d" "at d p = Some x" "not_config p"
  shows "disk_ok d1 \<and> at d1 p = Some x"
proof -
  obtain b d2 where b: "(if cf_share c = [] then (True, d) else mkdir_all (nv_os env) (path_parts (cf_share c)) d) = (b, d2)" by fastforce
  have d2: "disk_ok d2" "at d2 p = Some x"
    using b assms(2,3) mkdir_all_ok mkdir_all_at by (auto split: if_splits)
  obtain e d3 where e: "save_config (nv_parse env) (nv_codec env) (nv_os env) (node_dir n) c d2 = (e, d3)" by fastforce
  have "d1 \<in> {d2, d3}" using assms(1) b e by (auto simp: save_settings_def split: bool.splits option.splits)
  then show ?thesis using d2 save_config_keeps [OF e d2 assms(4)] by auto
qed

lemma node_settings_keeps:
  assumes "node_settings env q n d = (r, n1, d1)" "disk_ok d" "at d p = Some x" "not_config p"
  shows "disk_ok d1 \<and> at d1 p = Some x"
proof -
  obtain e n2 d2 where s: "save_settings env (settings_config q (nd_cfg n)) n d = (e, n2, d2)" by (metis prod_cases3)
  have "d1 \<in> {d, d2}" using assms(1) s by (auto simp: node_settings_def Let_def split: option.splits prod.splits)
  then show ?thesis using save_settings_keeps [OF s assms(2-4)] assms(2,3) by auto
qed

lemma push_keeps:
  "push_gateway env g ns d = (ms, d1) \<Longrightarrow> disk_ok d \<Longrightarrow> at d p = Some x \<Longrightarrow> not_config p \<Longrightarrow> disk_ok d1 \<and> at d1 p = Some x"
proof (induction ns arbitrary: d ms)
  case (Cons n ns)
  obtain r n1 d2 where s: "node_settings (world_of env n) (gateway_change g) n d = (r, n1, d2)" by (metis prod_cases3)
  obtain ks where "push_gateway env g ns d2 = (ks, d1)" using Cons.prems(1) s by (auto split: prod.splits)
  then show ?case using Cons.IH node_settings_keeps [OF s Cons.prems(2-4)] Cons.prems(4) by blast
qed simp

lemma host_settings_result:
  "apply_app env q h d = (h1, d1) \<Longrightarrow> (\<forall>n. current h1 = Some n \<longrightarrow> fst (node_settings (world_of env n) (profile_part q) n d1) = None) \<Longrightarrow>
   fst (host_settings env q h d) = None"
  by (auto simp: host_settings_def on_current_disk_def current_def split: option.split prod.split)

lemma host_settings_app:
  assumes "host_settings env q h d = (r, h1, d1)" "app_change q" "disk_ok d"
    and "fst (save_host_app env (h\<lparr>ho_app := changed_app q (ho_app h)\<rparr>) d) = None"
  shows "disk_ok d1" "at d1 (app_path (host_dir h)) = Some (File (app_text (nv_codec (hv_self env)) (changed_app q (ho_app h))))"
proof -
  let ?h = "h\<lparr>ho_app := changed_app q (ho_app h)\<rparr>" and ?p = "app_path (host_dir h)"
  obtain d2 where d2: "save_host_app env ?h d = (None, d2)" using assms(4) by (metis prod.collapse)
  then have s: "save_app (nv_codec (hv_self env)) (nv_os (hv_self env)) (host_dir h) (changed_app q (ho_app h)) d = (None, d2)"
    by (auto simp: save_host_app_def host_dir_def split: prod.splits option.splits)
  have n: "normalize_app (changed_app q (ho_app h)) = changed_app q (ho_app h)" by (simp add: changed_app_def normalize_app_idem)
  have d2': "disk_ok d2" "at d2 ?p = Some (File (app_text (nv_codec (hv_self env)) (changed_app q (ho_app h))))"
    using save_app_ok(1,3) [OF s assms(3)] n by simp_all
  obtain ns d3 where p: "push_gateway env (ap_gateway (changed_app q (ho_app h))) (ho_nodes h) d2 = (ns, d3)" by fastforce
  note d3 = push_keeps [OF p d2' app_not_config]
  have a: "apply_app env q h d = (?h\<lparr>ho_nodes := ns\<rparr>, d3)" using assms(2) d2 p by (simp add: apply_app_def Let_def)
  have "disk_ok d1 \<and> at d1 ?p = Some (File (app_text (nv_codec (hv_self env)) (changed_app q (ho_app h))))"
  proof (cases "current_index (?h\<lparr>ho_nodes := ns\<rparr>)")
    case None
    then show ?thesis using assms(1) d3 by (simp add: host_settings_def a on_current_disk_def)
  next
    case (Some i)
    obtain r2 n2 d4 where s4: "node_settings (world_of env (ns ! i)) (profile_part q) (ns ! i) d3 = (r2, n2, d4)" by (metis prod_cases3)
    then have "d1 = d4" using assms(1) Some by (simp add: host_settings_def a on_current_disk_def)
    then show ?thesis using node_settings_keeps [OF s4 d3 [THEN conjunct1] d3 [THEN conjunct2] app_not_config] by simp
  qed
  then show "disk_ok d1" "at d1 ?p = Some (File (app_text (nv_codec (hv_self env)) (changed_app q (ho_app h))))" by auto
qed

section \<open>The next start\<close>

lemma parse_level_norm: "parse_level (to_lower (trim_space s)) = parse_level s"
  by (simp add: parse_level_def norm_text)

lemma bad_level_kept:
  assumes "parse_level lv = None"
  shows "ap_log (normalize_app (a\<lparr>ap_log := lv\<rparr>)) = to_lower (trim_space lv)" "parse_level (ap_log (normalize_app (a\<lparr>ap_log := lv\<rparr>))) = None"
proof -
  have "to_lower (trim_space lv) \<noteq> []" using assms by (auto simp: parse_level_def)
  then show "ap_log (normalize_app (a\<lparr>ap_log := lv\<rparr>)) = to_lower (trim_space lv)" by (simp add: normalize_app_def)
  then show "parse_level (ap_log (normalize_app (a\<lparr>ap_log := lv\<rparr>))) = None" using assms by (simp add: parse_level_norm)
qed

text \<open>No start gets past a level in \<open>app.json\<close> that the log does not know, and it leaves the file as it is.\<close>

lemma bad_level_no_start:
  assumes "at d (app_path (path_parts home)) = Some (File t)" "cd_parse (nv_codec (hv_self env)) t = Some (app_json a)"
    and "in_int64 (ap_port a)" "parse_level (ap_log a) = None"
    and "resolve_home pe (fl_data fl) = Some home" "fl_log fl = []"
    and "\<not> os_fault (nv_os (hv_self env)) (Stat_Call (app_path (path_parts home)))"
  shows "\<exists>e d1. program_start env pe fl store d = (Inl e, d1) \<and> at d1 (app_path (path_parts home)) = Some (File t)"
proof -
  let ?os = "nv_os (hv_self env)" and ?dir = "path_parts home" and ?cd = "nv_codec (hv_self env)"
  obtain e1 d1 where e1: "ensure_home ?os ?dir d = (e1, d1)" by fastforce
  have d1: "at d1 (app_path ?dir) = Some (File t)" by (rule ensure_home_keeps [OF e1 assms(1)])
  then have m: "migrate_legacy_home (nv_parse (hv_self env)) ?cd ?os (hv_random env) ?dir d1 = (None, d1)"
    using assms(7) by (simp add: migrate_legacy_home_def stat_def)
  show ?thesis
  proof (cases "e1 = None \<and> \<not> os_fault ?os (Read_Call (app_path ?dir))")
    case False
    then show ?thesis
      using e1 m d1 assms(5) by (cases e1) (auto simp: program_start_def Let_def load_app_def read_file_def)
  next
    case True
    have "a\<lparr>ap_log := ap_log a\<rparr> = a" by simp
    then have lv: "parse_level (ap_log (normalize_app a)) = None" using bad_level_kept(2) [OF assms(4), of a] by simp
    have "load_app ?cd ?os ?dir d1 = Inr (normalize_app a)"
      using True d1 assms(2) read_app_json [OF assms(3), of default_app] by (simp add: load_app_def read_file_def app_json_def)
    then show ?thesis
      using True e1 m d1 assms(5,6) lv by (simp add: program_start_def Let_def override_level_def setup_log_def)
  qed
qed

text \<open>
  A start without \<open>--log-level\<close> in the data directory \<open>dir\<close>, with the same JSON library, whose look for
  \<open>app.json\<close> works; and a row of starts, each on the disk the one before has left.
\<close>

type_synonym 's start = "'s host_env \<times> prog_env \<times> prog_flags \<times> (string \<Rightarrow> 's node_data)"

definition plain_start :: "json_codec \<Rightarrow> fs_path \<Rightarrow> 's start \<Rightarrow> bool" where
  "plain_start cd dir st \<longleftrightarrow>
     (case st of (env, pe, fl, store) \<Rightarrow>
        nv_codec (hv_self env) = cd \<and> map_option path_parts (resolve_home pe (fl_data fl)) = Some dir \<and> fl_log fl = [] \<and>
        \<not> os_fault (nv_os (hv_self env)) (Stat_Call (app_path dir)))"

fun starts :: "'s start list \<Rightarrow> disk \<Rightarrow> (go_error + 's local_host) list" where
  "starts [] d = []"
| "starts ((env, pe, fl, store) # sts) d = (case program_start env pe fl store d of (r, d1) \<Rightarrow> r # starts sts d1)"

lemma bad_level_no_starts:
  assumes "cd_parse cd t = Some (app_json a)" "in_int64 (ap_port a)" "parse_level (ap_log a) = None"
  shows "at d (app_path dir) = Some (File t) \<Longrightarrow> list_all (plain_start cd dir) sts \<Longrightarrow> list_all isl (starts sts d)"
proof (induction sts arbitrary: d)
  case (Cons st sts)
  obtain env pe fl store where st: "st = (env, pe, fl, store)" by (metis prod_cases4)
  obtain home where home: "resolve_home pe (fl_data fl) = Some home" "path_parts home = dir"
    using Cons.prems(2) by (auto simp: st plain_start_def)
  obtain e d1 where "program_start env pe fl store d = (Inl e, d1)" "at d1 (app_path dir) = Some (File t)"
    using bad_level_no_start [of d home t env a pe fl store] Cons.prems assms home by (auto simp: st plain_start_def)
  then show ?case using Cons by (simp add: st)
qed simp

text \<open>
  C34. A log level the program does not know is accepted by the dashboard and then keeps the program from starting:
  a settings change with it reports success whenever the selected profile, if there is one, takes the rest of the
  change and \<open>app.json\<close> can be written; and from then on every start without \<open>--log-level\<close> fails, however
  often it is tried.
\<close>

theorem accepted_level_prevents_start:
  assumes "se_log q = Some lv" "parse_level lv = None" "disk_ok d" "apply_app env q h d = (h2, d2)"
    and "\<forall>n. current h2 = Some n \<longrightarrow> fst (node_settings (world_of env n) (profile_part q) n d2) = None"
    and "fst (save_host_app env (h\<lparr>ho_app := changed_app q (ho_app h)\<rparr>) d) = None" "in_int64 (ap_port (changed_app q (ho_app h)))"
    and "cd_parse (nv_codec (hv_self env)) (app_text (nv_codec (hv_self env)) (changed_app q (ho_app h))) = Some (app_json (changed_app q (ho_app h)))"
    and "list_all (plain_start (nv_codec (hv_self env)) (host_dir h)) sts"
  shows "\<exists>h1 d1. host_settings env q h d = (None, h1, d1) \<and> list_all isl (starts sts d1)"
proof -
  obtain h1 d1 where s: "host_settings env q h d = (None, h1, d1)"
    using host_settings_result [OF assms(4,5)] by (metis prod.collapse)
  have "app_change q" using assms(1) by (simp add: app_change_def)
  note f = host_settings_app(2) [OF s this assms(3,6)]
  let ?a = "\<lparr>ap_gateway = (case se_gateway q of None \<Rightarrow> ap_gateway (ho_app h) | Some g \<Rightarrow> trim_space g),
       ap_port = or_else (se_port q) (ap_port (ho_app h)), ap_log = [],
       ap_login = or_else (se_login q) (ap_login (ho_app h)), ap_selected = ap_selected (ho_app h)\<rparr>"
  have "changed_app q (ho_app h) = normalize_app (?a\<lparr>ap_log := lv\<rparr>)" using assms(1) by (simp add: changed_app_def or_else_def)
  then have lv: "parse_level (ap_log (changed_app q (ho_app h))) = None" using bad_level_kept(2) [OF assms(2), of ?a] by simp
  from s bad_level_no_starts [OF assms(8,7) lv f assms(9)] show ?thesis by blast
qed

definition level_change :: settings_request where "level_change = no_change\<lparr>se_log := Some ''verbose''\<rparr>"

definition demo_app_json :: json_codec where
  "demo_app_json = \<lparr>cd_parse = (\<lambda>t. if t = ''A'' @ [CHR 0x0A] then Some (app_json (changed_app level_change default_app)) else None),
     cd_print = (\<lambda>j. ''A'')\<rparr>"

definition demo_app_env :: "string list host_env" where
  "demo_app_env = demo_host_env\<lparr>hv_self := demo_world\<lparr>nv_codec := demo_app_json\<rparr>\<rparr>"

definition demo_idle :: "string list local_host" where "demo_idle = demo_host\<lparr>ho_nodes := [], ho_selected := []\<rparr>"

definition demo_prog :: prog_env where "demo_prog = \<lparr>pv_config_dir = None, pv_os = ''linux'', pv_cwd = None\<rparr>"

definition demo_start :: "string list start" where
  "demo_start = (demo_app_env, demo_prog, \<lparr>fl_data = ''/h'', fl_log = []\<rparr>, (\<lambda>_. demo_data))"

theorem accepted_level_prevents_start_witness:
  "\<exists>h1 d1. host_settings demo_app_env level_change demo_idle demo_disk = (None, h1, d1) \<and>
     list_all isl (starts [demo_start, demo_start] d1)"
proof -
  let ?a = "changed_app level_change default_app"
  have h: "ho_app demo_idle = default_app" "host_dir demo_idle = [''h'']" "ho_nodes demo_idle = []"
    by (simp_all add: demo_idle_def demo_host_def host_dir_def) code_simp
  have w: "nv_codec (hv_self demo_app_env) = demo_app_json" "nv_os (hv_self demo_app_env) = calm"
    by (simp_all add: demo_app_env_def demo_host_env_def demo_world_def)
  obtain h2 d2 where s: "apply_app demo_app_env level_change demo_idle demo_disk = (h2, d2)" by fastforce
  have c: "app_change level_change" by (simp add: app_change_def level_change_def no_change_def)
  have none: "current h2 = None"
    using s c h by (auto simp: apply_app_def Let_def current_def current_index_def split: prod.splits)
  have "fst (save_app demo_app_json calm [''h''] (changed_app level_change default_app) demo_disk) = None" by code_simp
  then have sv: "fst (save_host_app demo_app_env (demo_idle\<lparr>ho_app := changed_app level_change (ho_app demo_idle)\<rparr>) demo_disk) = None"
    using h by (cases "save_app demo_app_json calm [''h''] (changed_app level_change default_app) demo_disk")
      (simp add: save_host_app_def w host_dir_def)
  have lv: "se_log level_change = Some ''verbose''" "parse_level ''verbose'' = None"
    by (simp add: level_change_def no_change_def) code_simp
  have i: "in_int64 (ap_port ?a)" by code_simp
  have p: "cd_parse demo_app_json (app_text demo_app_json ?a) = Some (app_json ?a)" by (simp add: demo_app_json_def app_text_def)
  have rh: "resolve_home demo_prog ''/h'' = Some ''/h''" "path_parts ''/h'' = [''h'']" by code_simp+
  show ?thesis
    by (rule accepted_level_prevents_start [OF lv demo_disk_ok s _ sv])
      (use i p rh h w none in \<open>simp_all add: calm_def demo_start_def plain_start_def\<close>)
qed

section \<open>Folders of other profiles\<close>

lemma path_join_abs: "is_abs a \<Longrightarrow> proper x \<Longrightarrow> path_join a x = abs_path (comps a @ [x])"
proof -
  assume a: "is_abs a" and x: "proper x"
  have "split_on slash x = [x]" using x split_on_join [of "[x]" slash] by (simp add: proper_def)
  then have "comps (a @ slash # x) = comps a @ [x]"
    using clean_parts_proper [of "[x]" True "rev (comps a)" "[]"] x by (simp add: comps_append)
  moreover have "is_abs (a @ slash # x)" "a \<noteq> []" "x \<noteq> []"
    using a x by (cases a; simp add: is_abs_def has_prefix_def proper_def)+
  ultimately show ?thesis by (simp add: path_join_def clean_abs)
qed

lemma profile_home_abs:
  assumes "is_abs home" "proper i"
  shows "profile_home_text home i = abs_path (comps home @ [''profiles'', i])"
proof -
  have p: "proper ''profiles''" by (simp add: proper_def)
  have "list_all proper (comps home @ [''profiles''])" using comps_proper p by simp
  then show ?thesis using assms p by (simp add: profile_home_text_def path_join_abs comps_abs_path)
qed

text \<open>
  C32. A profile may share the directory of another profile, with its private key: a settings change only compares
  the folder with the profile's own directory, although a folder inside the application's directory is refused
  when a profile is created.
\<close>

theorem sibling_key_can_be_shared:
  assumes "is_abs (ho_home h)" "proper i" "proper j" "i \<noteq> j"
    and "nd_home n = profile_home_text (ho_home h) i" "cf_share c = profile_home_text (ho_home h) j"
    and "clean_share_root fs (cf_share c) = Inr (abs_path (comps (ho_home h) @ [''profiles'', j]))"
    and "\<forall>k < 2. \<exists>f. fs (abs_path (comps (ho_home h) @ [''profiles'', j] @ take (Suc k) [''keys'', ''actor.pem''])) = Some f \<and> fi_kind f \<noteq> Symlink"
  shows "check_share env n c = None \<and> validate_share_root (cf_share c) (ho_home h) = Some Share_In_Home \<and>
    resolve_under_root fs (cf_share c) ''keys/actor.pem'' = Inr (abs_path (comps (ho_home h) @ [''profiles'', j, ''keys'', ''actor.pem'']))"
proof -
  let ?cs = "comps (ho_home h)"
  have ok: "list_all proper ?cs" "proper ''profiles''" using comps_proper by (simp_all add: proper_def)
  have ps: "list_all proper (?cs @ [''profiles'', i])" "list_all proper (?cs @ [''profiles'', j])" using ok assms(2,3) by simp_all
  note pi = profile_home_abs [OF assms(1,2)] and pj = profile_home_abs [OF assms(1,3)]
  have "\<not> contains_path (abs_path (?cs @ [''profiles'', j])) (abs_path (?cs @ [''profiles'', i]))"
    "\<not> contains_path (abs_path (?cs @ [''profiles'', i])) (abs_path (?cs @ [''profiles'', j]))"
    unfolding contains_path_iff [OF ps(1) ps(2)] contains_path_iff [OF ps(2) ps(1)] using assms(4) by auto
  then have "check_share env n c = None"
    using ps assms(4) by (simp add: check_share_def assms(5,6) pi pj validate_share_root_def Let_def abs_path_inject)
  moreover have "contains_path (abs_path (?cs @ [''profiles'', j])) (abs_path ?cs)"
    unfolding contains_path_iff [OF ps(2) ok(1)] by blast
  then have "validate_share_root (cf_share c) (ho_home h) = Some Share_In_Home"
    using ps ok by (simp add: assms(6) pj validate_share_root_def Let_def clean_abs [OF assms(1)] abs_path_inject)
  moreover have "resolve_under_root fs (cf_share c) (join ''/'' [''keys'', ''actor.pem'']) = Inr (abs_path ((?cs @ [''profiles'', j]) @ [''keys'', ''actor.pem'']))"
  proof -
    have v: "list_all visible [''keys'', ''actor.pem'']" "plain_name (join ''/'' [''keys'', ''actor.pem''])" by code_simp+
    have "\<forall>k < length [''keys'', ''actor.pem'']. \<exists>f. fs (abs_path ((?cs @ [''profiles'', j]) @ take (Suc k) [''keys'', ''actor.pem''])) = Some f \<and> fi_kind f \<noteq> Symlink"
      using assms(8) by simp
    then show ?thesis using resolve_complete [OF assms(7) ps(2) v(1) _ v(2)] by blast
  qed
  ultimately show ?thesis by simp
qed

definition demo_home_fs :: fs where
  "demo_home_fs p =
     (if p \<in> {''/h/profiles/b'', ''/h/profiles/b/keys''} then Some \<lparr>fi_kind = Directory, fi_mtime = 0, fi_data = [], fi_readable = True\<rparr>
      else if p = ''/h/profiles/b/keys/actor.pem'' then Some \<lparr>fi_kind = Regular, fi_mtime = 0, fi_data = ''KEY'', fi_readable = True\<rparr>
      else None)"

theorem sibling_key_can_be_shared_witness:
  "check_share demo_world (demo_other\<lparr>nd_home := ''/h/profiles/a''\<rparr>) (demo_config\<lparr>cf_share := ''/h/profiles/b''\<rparr>) = None \<and>
   resolve_under_root demo_home_fs ''/h/profiles/b'' ''keys/actor.pem'' = Inr ''/h/profiles/b/keys/actor.pem''"
proof -
  have h: "ho_home demo_host = ''/h''" by (simp add: demo_host_def)
  have c: "is_abs ''/h''" "proper ''a''" "proper ''b''" "profile_home_text ''/h'' ''a'' = ''/h/profiles/a''" "profile_home_text ''/h'' ''b'' = ''/h/profiles/b''"
    "comps ''/h'' = [''h'']" by code_simp+
  have r: "clean_share_root demo_home_fs ''/h/profiles/b'' = Inr (abs_path [''h'', ''profiles'', ''b''])" by code_simp
  have k: "\<forall>k < 2. \<exists>f. demo_home_fs (abs_path ([''h'', ''profiles'', ''b''] @ take (Suc k) [''keys'', ''actor.pem''])) = Some f \<and> fi_kind f \<noteq> Symlink"
    by (simp add: less_Suc_eq numeral_2_eq_2 all_conj_distrib abs_path_def demo_home_fs_def)
  have e: "abs_path [''h'', ''profiles'', ''b'', ''keys'', ''actor.pem''] = ''/h/profiles/b/keys/actor.pem''" by code_simp
  show ?thesis
    using sibling_key_can_be_shared [of demo_host "''a''" "''b''" "demo_other\<lparr>nd_home := ''/h/profiles/a''\<rparr>" "demo_config\<lparr>cf_share := ''/h/profiles/b''\<rparr>"
        demo_home_fs demo_world] r k by (simp add: h c e)
qed

section \<open>The tray\<close>

lemma start_empty: "program_start env pe fl store d = (Inr h, d1) \<Longrightarrow> ho_empty h = setup_required"
proof -
  assume "program_start env pe fl store d = (Inr h, d1)"
  then obtain home d4 h0 d5 h1 where n: "new_host env home store d4 = (Inr h0, d5)" and s: "host_start env h0 d5 = (None, h, h1)"
    by (auto simp: program_start_def Let_def split: option.splits prod.splits sum.splits)
  have "ho_empty h0 = setup_required" using n by (auto simp: new_host_def Let_def split: if_splits option.splits prod.splits sum.splits)
  moreover have "anchor h = anchor h0" using start_anchor [of env h0 d5] s by simp
  ultimately show ?thesis by (simp add: anchor_def)
qed

lemma setup_menu: "apply_menu (snap setup_required) = \<lparr>tm_status = ''Status: Offline'', tm_identity = ''Identity: not set'',
    tm_files = ''Shared files: 0'', tm_pause = ''Pause sharing'', tm_tooltip = tray_title ''Setup required'',
    tm_icon = ''tray-offline.png'', tm_enabled = False\<rparr>"
proof -
  have v: "snap setup_required = zero_snapshot\<lparr>snap_state := StateOffline, message := ''Setup required''\<rparr>"
    by (simp add: setup_required_def snap_set_fields snap_set_state new_service_def zero_snapshot_def Let_def can_transition_def)
  have "format_int 0 = ''0''" by code_simp
  then show ?thesis
    by (simp add: v apply_menu_def status_line_def identity_line_def files_line_def pause_title_def tray_tooltip_def tray_icon_def zero_snapshot_def)
qed

text \<open>
  C39. When the program was started without a profile, its tray never shows one: whatever profiles are created and
  whatever they do, it says that setup is required and none of its entries on the share can be clicked.
\<close>

theorem tray_stays_at_setup:
  assumes "program_start env pe fl store d = (Inr h, d1)" "ho_nodes h = []" "run host_run_step (h, d1) es = (h2, d2)"
  shows "\<exists>m. tray_shows (tray_source h) h2 = Some m \<and> tm_tooltip m = tray_title ''Setup required'' \<and> \<not> tm_enabled m"
proof -
  have "anchor (fst (run host_run_step (h, d1) es)) = anchor h" by (rule anchored.run_invar) simp
  then have "ho_empty h2 = setup_required" using assms(3) start_empty [OF assms(1)] by (simp add: anchor_def)
  moreover have "tray_source h = None" using assms(2) by (simp add: tray_source_def current_def current_index_def)
  ultimately show ?thesis by (simp add: tray_shows_def tray_service_def setup_menu)
qed

definition demo_start_json :: json_codec where
  "demo_start_json = \<lparr>cd_parse = (\<lambda>t. if t = ''A'' @ [CHR 0x0A] then Some (app_json default_app) else None), cd_print = (\<lambda>j. ''A'')\<rparr>"

definition demo_start_env :: "string list host_env" where
  "demo_start_env = demo_host_env\<lparr>hv_self := demo_world\<lparr>nv_codec := demo_start_json\<rparr>\<rparr>"

definition demo_d1 :: disk where "demo_d1 = snd (ensure_home calm [''h''] [([], Dir)])"
definition demo_d2 :: disk where
  "demo_d2 = snd (migrate_legacy_home simple_url demo_start_json calm (Some ''0123456789'') [''h''] demo_d1)"
definition demo_d3 :: disk where "demo_d3 = snd (setup_log calm ''info'' (log_path [''h'']) demo_d2)"

lemma demo_start_steps:
  "ensure_home calm [''h''] [([], Dir)] = (None, demo_d1)"
  "migrate_legacy_home simple_url demo_start_json calm (Some ''0123456789'') [''h''] demo_d1 = (None, demo_d2)"
  "load_app demo_start_json calm [''h''] demo_d2 = Inr default_app"
  "setup_log calm ''info'' (log_path [''h'']) demo_d2 = (Some Level_Info, demo_d3)"
  "ensure_home calm [''h''] demo_d3 = (None, demo_d3)"
  "migrate_legacy_home simple_url demo_start_json calm (Some ''0123456789'') [''h''] demo_d3 = (None, demo_d3)"
  "load_app demo_start_json calm [''h''] demo_d3 = Inr default_app"
  "list_profile_ids calm [''h''] demo_d3 = Inr []"
  by code_simp+

lemma demo_started:
  obtains h d1 where "program_start demo_start_env demo_prog \<lparr>fl_data = ''/h'', fl_log = []\<rparr> (\<lambda>_. demo_data) [([], Dir)] = (Inr h, d1)" "ho_nodes h = []"
proof -
  have w: "nv_codec (hv_self demo_start_env) = demo_start_json" "nv_os (hv_self demo_start_env) = calm" "nv_parse (hv_self demo_start_env) = simple_url"
      "hv_random demo_start_env = Some ''0123456789''" "nv_handler (hv_self demo_start_env)"
      "nv_listen (hv_self demo_start_env) = (\<lambda>_. Some ''127.0.0.1:17890'')"
    by (simp_all add: demo_start_env_def demo_host_env_def demo_world_def)
  have rh: "resolve_home demo_prog ''/h'' = Some ''/h''" "path_parts ''/h'' = [''h'']" by code_simp+
  have lg: "ap_log default_app = ''info''" by code_simp
  show thesis
    using that by (simp add: program_start_def Let_def w rh demo_start_steps lg override_level_def new_host_def host_start_def host_dir_def
        select_first_def host_start_http_def)
qed

theorem tray_stays_at_setup_witness:
  "\<exists>h d1 h2 d2 m. program_start demo_start_env demo_prog \<lparr>fl_data = ''/h'', fl_log = []\<rparr> (\<lambda>_. demo_data) [([], Dir)] = (Inr h, d1) \<and>
    run host_run_step (h, d1) [(demo_start_env, He_Create \<lparr>su_display = [], su_username = ''bob'', su_share = ''/srv/share'', su_gateway = [], su_summary = []\<rparr>)] = (h2, d2) \<and>
    tray_shows (tray_source h) h2 = Some m \<and> \<not> tm_enabled m"
proof -
  let ?es = "[(demo_start_env, He_Create \<lparr>su_display = [], su_username = ''bob'', su_share = ''/srv/share'', su_gateway = [], su_summary = []\<rparr>)]"
  obtain h d1 where s: "program_start demo_start_env demo_prog \<lparr>fl_data = ''/h'', fl_log = []\<rparr> (\<lambda>_. demo_data) [([], Dir)] = (Inr h, d1)" "ho_nodes h = []"
    by (rule demo_started)
  obtain h2 d2 where r: "run host_run_step (h, d1) ?es = (h2, d2)" by fastforce
  from tray_stays_at_setup [OF s r] s r show ?thesis by blast
qed

lemma find_update: "i < length xs \<Longrightarrow> \<not> P (xs ! i) \<Longrightarrow> \<not> P x \<Longrightarrow> List.find P (xs[i := x]) = List.find P xs"
  by (induction xs arbitrary: i) (auto split: nat.split)

lemma paused_profile: "nd_profile (snd (save_paused env p n)) = nd_profile n"
proof -
  have f: "nd_profile (snd (refresh env m)) = nd_profile m" for m using refresh_only [of env m] by auto
  obtain e r where r: "set_config (nv_conf env) (nv_now env) paused_key (if p then ''1'' else ''0'') (da_conf (nd_data n)) = (e, r)"
    by fastforce
  show ?thesis by (cases e) (simp_all add: save_paused_def Let_def r f)
qed

lemma resumed: "nd_paused (snd (save_paused env False n)) = False"
proof -
  obtain e r where r: "set_config (nv_conf env) (nv_now env) paused_key ''0'' (da_conf (nd_data n)) = (e, r)" by fastforce
  show ?thesis by (cases e) (simp_all add: save_paused_def Let_def r)
qed

text \<open>
  C40. The tray's pause entry shows one profile and acts on another: once another profile is selected, a click on
  the \<open>Resume sharing\<close> of the paused profile resumes the selected one and leaves the paused one as it is.
\<close>

theorem tray_resumes_other_profile:
  assumes "tray_service (Some a) h = Some s" "snap_state (snap s) = StatePaused"
    and "current_index h = Some i" "nd_profile (ho_nodes h ! i) \<noteq> a"
  shows "click_pause env (Some a) h = host_resume env h \<and>
    tray_service (Some a) (snd (click_pause env (Some a) h)) = Some s \<and>
    nd_paused (ho_nodes (snd (click_pause env (Some a) h)) ! i) = False"
proof -
  let ?n = "ho_nodes h ! i"
  have c: "click_pause env (Some a) h = host_resume env h" using assms(1,2) by (simp add: click_pause_def)
  have i: "i < length (ho_nodes h)" using current_index_less [OF assms(3)] .
  have h: "ho_nodes (snd (host_resume env h)) = (ho_nodes h)[i := snd (node_resume (world_of env ?n) ?n)]"
    by (simp add: host_resume_def on_current_def assms(3) split: prod.split)
  have "nd_profile (snd (node_resume (world_of env ?n) ?n)) \<noteq> a" using assms(4) by (simp add: node_resume_def paused_profile)
  then have "tray_service (Some a) (snd (host_resume env h)) = tray_service (Some a) h"
    using find_update [OF i, of "\<lambda>n. nd_profile n = a"] assms(4) by (simp add: tray_service_def h)
  moreover have "nd_paused (snd (node_resume (world_of env ?n) ?n)) = False" by (simp add: node_resume_def resumed)
  ultimately show ?thesis using assms(1) i by (simp add: c h)
qed

definition demo_paused_svc :: service where
  "demo_paused_svc = snd (set_state StatePaused new_service)"

definition demo_two :: "string list local_host" where
  "demo_two = demo_host\<lparr>ho_nodes := [demo_other, demo_sharing\<lparr>nd_svc := demo_paused_svc, nd_paused := True\<rparr>]\<rparr>"

theorem tray_resumes_other_profile_witness:
  "tray_service (Some ''b'') (snd (click_pause demo_host_env (Some ''b'') demo_two)) = Some demo_paused_svc \<and>
    current_index demo_two = Some 0"
proof -
  have p: "nd_profile demo_other = ''a''" "nd_profile demo_sharing = ''b''" "ho_selected demo_two = ''a''" "ho_nodes demo_two ! 0 = demo_other"
    by (simp_all add: demo_other_def demo_sharing_def demo_two_def demo_host_def)
  have t: "tray_service (Some ''b'') demo_two = Some demo_paused_svc" using p by (simp add: tray_service_def demo_two_def)
  have i: "current_index demo_two = Some 0" using p by (simp add: current_index_def demo_two_def demo_host_def)
  have s: "snap_state (snap demo_paused_svc) = StatePaused"
    by (simp add: demo_paused_svc_def snap_set_state new_service_def zero_snapshot_def Let_def can_transition_def)
  have a: "nd_profile (ho_nodes demo_two ! 0) \<noteq> ''b''" using p by simp
  from tray_resumes_other_profile [OF t s i a] i show ?thesis by blast
qed

end
