(* ===== verification/Upgrade.thy ===== *)
theory Upgrade
  imports Http_Header Json
begin

text \<open>
  \<open>internal/tunnel/upgrade.go\<close>: how a node and a gateway turn an HTTP/1.1 connection into a tunnel. Dialling, TLS,
  the writes and \<open>http.ReadResponse\<close> belong to the environment; the frames follow on the same connection.
\<close>

definition upgrade_protocol :: string where "upgrade_protocol = ''fedishare-tunnel''"
definition crlf :: string where "crlf = [CHR 0x0D, CHR 0x0A]"

text \<open>\<open>net.JoinHostPort\<close>: a host with a colon is put in brackets.\<close>

definition join_host_port :: "string \<Rightarrow> string \<Rightarrow> string" where
  "join_host_port h p = (if CHR '':'' \<in> set h then ''['' @ h @ '']:'' @ p else h @ '':'' @ p)"

datatype upgrade_error =
  Invalid_Gateway | Dial_Failed | Tls_Failed | Conn_Failed | Upgrade_Status int | Upgrade_Refused | Upgrade_Missing | No_Hijack

text \<open>\<open>dl_response\<close> is the response that is read, with the bytes that stay in the reader's buffer.\<close>

record dial_env =
  dl_parse :: url_parser
  dl_dial :: "string \<Rightarrow> bool"
  dl_tls :: "string \<Rightarrow> bool"
  dl_write :: "string \<Rightarrow> bool"
  dl_response :: "(int \<times> header \<times> string) option"

definition dial_target :: "url \<Rightarrow> string" where
  "dial_target u =
     (if u_port u = [] then join_host_port (u_hostname u) (if u_scheme u = ''https'' then ''443'' else ''80'') else u_host u)"

definition upgrade_request :: "url \<Rightarrow> string" where
  "upgrade_request u =
     ''GET /v1/tunnel HTTP/1.1'' @ crlf @ ''Host: '' @ u_host u @ crlf @ ''Connection: Upgrade'' @ crlf @
     ''Upgrade: '' @ upgrade_protocol @ crlf @ crlf"

definition dial_upgrade :: "dial_env \<Rightarrow> string \<Rightarrow> upgrade_error + string" where
  "dial_upgrade env raw =
     (case dl_parse env (trim_space raw) of
        None \<Rightarrow> Inl Invalid_Gateway
      | Some u \<Rightarrow>
          if u_host u = [] then Inl Invalid_Gateway
          else if \<not> dl_dial env (dial_target u) then Inl Dial_Failed
          else if u_scheme u = ''https'' \<and> \<not> dl_tls env (u_hostname u) then Inl Tls_Failed
          else if \<not> dl_write env (upgrade_request u) then Inl Conn_Failed
          else (case dl_response env of
              None \<Rightarrow> Inl Conn_Failed
            | Some (code, h, rest) \<Rightarrow>
                if code \<noteq> 101 then Inl (Upgrade_Status code)
                else if \<not> equal_fold (header_get ''Upgrade'' h) upgrade_protocol then Inl Upgrade_Refused
                else Inr rest))"

text \<open>The server's side; on success the text it has written.\<close>

record accept_env =
  ac_hijacker :: bool
  ac_hijack :: bool
  ac_write :: bool
  ac_flush :: bool

definition switching_text :: string where
  "switching_text =
     ''HTTP/1.1 101 Switching Protocols'' @ crlf @ ''Connection: Upgrade'' @ crlf @ ''Upgrade: '' @ upgrade_protocol @ crlf @ crlf"

definition accept_upgrade :: "accept_env \<Rightarrow> header \<Rightarrow> upgrade_error + string" where
  "accept_upgrade env h =
     (if \<not> equal_fold (header_get ''Upgrade'' h) upgrade_protocol then Inl Upgrade_Missing
      else if \<not> ac_hijacker env \<or> \<not> ac_hijack env then Inl No_Hijack
      else if \<not> ac_write env \<or> \<not> ac_flush env then Inl Conn_Failed
      else Inr switching_text)"

end
