(* ===== verification/Gateway_Program.thy ===== *)
theory Gateway_Program
  imports Gateway_Directory Upgrade Dashboard Desktop
begin

text \<open>
  The public HTTP surface of the gateway (\<open>Server.Handler\<close>) and the start of its program
  (\<open>cmd/fedishare-gateway\<close>). A request is answered at once, becomes a tunnel, or goes on to a session's proxy.
\<close>

section \<open>Routes\<close>

datatype gateway_endpoint = Ge_Health | Ge_Network | Ge_Tunnel | Ge_Public

definition gateway_routes :: "(string \<times> gateway_endpoint) list" where
  "gateway_routes = [(''/healthz'', Ge_Health), (''/.well-known/fedishare-network'', Ge_Network), (''/v1/tunnel'', Ge_Tunnel)]"

text \<open>A route of \<open>ServeMux\<close> for GET takes HEAD; every other request ends at the pattern of the root.\<close>

definition gateway_endpoint_of :: "string \<Rightarrow> string \<Rightarrow> gateway_endpoint" where
  "gateway_endpoint_of m path =
     (if match_method ''GET'' m then (case List.find (\<lambda>(pp, _). match_path pp path) gateway_routes of Some (_, e) \<Rightarrow> e | None \<Rightarrow> Ge_Public) else Ge_Public)"

record gateway_server =
  gs_public_url :: string
  gs_view :: gw_view
  gs_net :: net_env
  gs_encode :: "json \<Rightarrow> string"
  gs_tls :: bool
  gs_accept :: accept_env

definition new_gateway_url :: "string \<Rightarrow> string" where
  "new_gateway_url public_url = trim_right_set {slash} (trim_space public_url)"

definition healthz :: "string \<Rightarrow> writer \<Rightarrow> writer" where
  "healthz version w =
     (let w1 = set_header ''Content-Type'' ''application/json'' w in
      or_keep w1 (write_data (''{'' @ dq_text ''ok'' @ '':true,'' @ dq_text ''service'' @ '':'' @ dq_text ''fedishare-gateway'' @ '','' @
        dq_text ''version'' @ '':'' @ dq_text version @ ''}'') w1))"

datatype gateway_reply = Reply writer | Tunnel_Open string | Proxied public_start

definition upgrade_handler :: "accept_env \<Rightarrow> header \<Rightarrow> writer \<Rightarrow> gateway_reply" where
  "upgrade_handler ac h w =
     (case accept_upgrade ac h of
        Inl e \<Rightarrow> Reply (writer_error ''upgrade required'' 426 w)
      | Inr t \<Rightarrow> Tunnel_Open t)"

definition gateway_handler :: "gateway_server \<Rightarrow> gw_request \<Rightarrow> string \<Rightarrow> sessions \<Rightarrow> gw_db \<Rightarrow> gateway_reply" where
  "gateway_handler gs r resource ss db =
     (let p = mux_clean (gr_escaped r); w = new_writer in
      if p \<noteq> gr_escaped r then Reply (mux_redirect p w)
      else case gateway_endpoint_of (gr_method r) p of
        Ge_Health \<Rightarrow> Reply (healthz (gv_version (gs_view gs)) w)
      | Ge_Network \<Rightarrow>
          Reply (network_handler (gs_net gs) (gv_env (gs_view gs)) (gs_encode gs)
            (gateway_base (gs_public_url gs) (gs_tls gs) (gr_host r)) db ss w)
      | Ge_Tunnel \<Rightarrow> upgrade_handler (gs_accept gs) (gr_header r) w
      | Ge_Public \<Rightarrow> Proxied (public_begin (gs_view gs) r resource ss db))"

section \<open>The program\<close>

definition env_or :: "(string \<Rightarrow> string) \<Rightarrow> string \<Rightarrow> string \<Rightarrow> string" where
  "env_or getenv key fallback = (if getenv key \<noteq> [] then getenv key else fallback)"

fun first_env :: "(string \<Rightarrow> string) \<Rightarrow> string list \<Rightarrow> string" where
  "first_env getenv [] = []"
| "first_env getenv (k # ks) = (if getenv k \<noteq> [] then getenv k else first_env getenv ks)"

record gateway_flags =
  gf_listen :: string
  gf_data :: string
  gf_public :: string
  gf_cert :: string
  gf_key :: string
  gf_log :: string

definition default_flags :: "(string \<Rightarrow> string) \<Rightarrow> gateway_flags" where
  "default_flags getenv =
     \<lparr>gf_listen = env_or getenv ''FEDISHARE_LISTEN'' ''127.0.0.1:8080'', gf_data = first_env getenv [''FEDISHARE_DATA_DIR''],
      gf_public = first_env getenv [''FEDISHARE_PUBLIC_URL'', ''CLOUDRON_APP_ORIGIN''],
      gf_cert = first_env getenv [''FEDISHARE_TLS_CERT''], gf_key = first_env getenv [''FEDISHARE_TLS_KEY''],
      gf_log = env_or getenv ''FEDISHARE_LOG_LEVEL'' ''info''\<rparr>"

datatype gateway_start_error =
  Data_Dir_Required | Abs_Failed | Data_Dir_Failed | Log_Failed | Store_Failed | Listen_Failed | Tls_Pair_Required

text \<open>\<open>gp_store\<close> opens the database in a directory, \<open>gp_log\<close> the log file.\<close>

record gateway_prog_env =
  gp_cwd :: "string option"
  gp_mkdir :: "string \<Rightarrow> bool"
  gp_log :: "string \<Rightarrow> bool"
  gp_store :: "string \<Rightarrow> bool"
  gp_listen :: "string \<Rightarrow> string option"

text \<open>The address it listens on, the public URL, and the certificate and key files if it speaks TLS.\<close>

definition gateway_start ::
  "gateway_prog_env \<Rightarrow> gateway_flags \<Rightarrow> gateway_start_error + (string \<times> string \<times> (string \<times> string) option)" where
  "gateway_start pe fl =
     (if gf_data fl = [] then Inl Data_Dir_Required
      else case path_abs (gp_cwd pe) (gf_data fl) of
        None \<Rightarrow> Inl Abs_Failed
      | Some dir \<Rightarrow>
          if \<not> gp_mkdir pe dir then Inl Data_Dir_Failed
          else if parse_level (gf_log fl) = None \<or> \<not> gp_log pe (path_join dir ''gateway.log'') then Inl Log_Failed
          else if \<not> gp_store pe (path_join dir ''gateway.db'') then Inl Store_Failed
          else (case gp_listen pe (gf_listen fl) of
              None \<Rightarrow> Inl Listen_Failed
            | Some addr \<Rightarrow>
                if gf_cert fl \<noteq> [] \<or> gf_key fl \<noteq> [] then
                  (if gf_cert fl = [] \<or> gf_key fl = [] then Inl Tls_Pair_Required
                   else Inr (addr, new_gateway_url (gf_public fl), Some (gf_cert fl, gf_key fl)))
                else Inr (addr, new_gateway_url (gf_public fl), None)))"

end
