(* ===== verification/Share_Summary.thy ===== *)
theory Share_Summary
  imports Indexer
begin

text \<open>
  \<open>files.Inspect\<close> (scan.go): the summary of a share directory by one walk over its tree, without an index. A tree
  is the \<open>node\<close> of the indexer, \<open>None\<close> a walk that failed.
\<close>

datatype inspect_error = Share_Unset | Share_Relative | Share_Missing | Share_Symlink | Share_No_Directory | Share_Walk

definition default_list_limit :: int where "default_list_limit = 200"

text \<open>The files a walk counts: their relative paths, names and sizes.\<close>

type_synonym seen_file = "string \<times> string \<times> int"

fun join_walks :: "seen_file list option list \<Rightarrow> seen_file list option" where
  "join_walks [] = Some []"
| "join_walks (None # ws) = None"
| "join_walks (Some a # ws) = map_option (append a) (join_walks ws)"

fun inspect_node :: "string \<Rightarrow> string \<Rightarrow> node \<Rightarrow> seen_file list option" where
  "inspect_node root dir (Node name k info listed children) =
     (let p = path_join dir name;
          below = (if k \<noteq> Directory then Some []
                   else if \<not> listed then None
                   else join_walks (map (inspect_node root p) children)) in
      case rel root p of
        None \<Rightarrow> None
      | Some r \<Rightarrow>
          if r = ''.'' \<or> has_prefix r ''../'' then None
          else (case info of
              None \<Rightarrow> below
            | Some i \<Rightarrow>
                if fi_kind i = Symlink \<or> has_prefix name ''.'' then Some []
                else if k = Directory then below
                else if fi_kind i \<noteq> Regular then Some []
                else Some [(r, name, fi_size i)]))"

definition inspect :: "fs \<Rightarrow> string \<Rightarrow> int \<Rightarrow> node \<Rightarrow> inspect_error + ((nat \<times> int) \<times> seen_file list)" where
  "inspect fs share limit0 tree =
     (if share = [] then Inl Share_Unset
      else if \<not> is_abs share then Inl Share_Relative
      else let root = clean share; limit = (if limit0 \<le> 0 then default_list_limit else limit0) in
        case fs root of
          None \<Rightarrow> Inl Share_Missing
        | Some i \<Rightarrow>
            if fi_kind i = Symlink then Inl Share_Symlink
            else if fi_kind i \<noteq> Directory then Inl Share_No_Directory
            else (case tree of Node name k info listed children \<Rightarrow>
                case (if listed then join_walks (map (inspect_node root root) children) else None) of
                  None \<Rightarrow> Inl Share_Walk
                | Some seen \<Rightarrow> Inr ((length seen, sum_list (map (\<lambda>(_, _, n). n) seen)), take (nat limit) seen)))"

end
