(* ===== verification/Spec2Isabelle.thy ===== *)
theory Spec2Isabelle
  imports Status Limiter Share_Path File_Types Serve File_Store Indexer Watcher Base64
    Http_Header Frame Json Tunnel_Auth
    Database Gateway_Store Http_Writer Tunnel_Client Gateway_Session Tunnel_Proxy Activity_Streams Activity_Html
    Activity_Handler Gateway Gateway_Auth Federation_Store Httpsig Security Federation_Inbox Federation_Delivery Federation Federation_Safety Delivery_Queue
    Go_Utf8 Disk Config Config_Facts Key_Store Apperr Dashboard Dashboard_Safety Network Network_Facts Gateway_Directory Node Node_Ops Node_Facts Node_Safety Node_Properties
    Node_Public Desktop Host Program Host_Facts Host_Properties Program_Properties
    Upgrade Gateway_Program Share_Summary
begin

text \<open>
  FediShare shares one directory of a desktop computer over HTTP and ActivityPub. A profile (a \<open>node\<close>) owns a
  share, a key pair and a database; a desktop program runs a \<open>host\<close> of several profiles with a dashboard on the
  loopback address and a tray; a public \<open>gateway\<close> gives each node a public name and passes requests to it through
  a tunnel that the node opens. This development models both programs, all paths below are under \<open>src/\<close>.

  \<^bold>\<open>How the parts interact.\<close> The indexer walks the share, writes records to the file store and reports changes; the
  publisher turns changes into activities and queued deliveries; the delivery worker sends them, signed, through
  the destination policy. Requests from outside reach the gateway, which proxies them over a session to the
  tunnel client of the node; there \<open>PublicHandler\<close> sends them to the ActivityPub endpoints, the inbox or the
  download handler. The owner acts through the dashboard, whose backend is the host; the host passes the calls on to
  the selected node. Node and host change the configuration files and the config table of the database, and every
  change of a node's state is published by its status service.

  \<^bold>\<open>Modelling.\<close> A struct is a record, an enumeration a datatype, a method that changes state a function that returns
  the new state; errors are values of \<open>option\<close> or sum types, one constructor or text for each return of the code.
  Strings are byte strings, as in Go. Integers are \<open>int\<close> or \<open>nat\<close> where they cannot leave their width and words
  where they can: the paced reader (\<open>Limiter\<close>) and the back-off of the delivery worker (\<open>Federation_Delivery\<close>)
  are 64-bit words, page offsets (\<open>Activity_Handler\<close>) are reduced to 64 bits. Everything outside the repository is
  in the environment record of the operation that meets it (the records \<open>..._env\<close>): which statements and
  system calls fail, the clock, random identifiers, the order of a Go map, the answers of the network, the text level
  of JSON, cryptography. A run is a fold of the step function over a list of events; a mutex makes an operation one
  step, goroutines and timers are events, so an interleaving of them is a list.

  \<^bold>\<open>Foundations.\<close>
  \<^item> \<open>Prelude\<close>: theorem collections, \<open>run\<close> and the locale \<open>machine\<close>, clock values, lemmas on lists.
  \<^item> \<open>Go_Strings\<close>, \<open>Go_Utf8\<close>, \<open>Go_Path\<close>, \<open>Base64\<close>, \<open>Http_Header\<close> (with \<open>internal/tunnel/hop.go\<close>), \<open>Http_Writer\<close>,
    \<open>Json\<close> (with \<open>internal/federation/jsonutil.go\<close>): what the source uses of the standard library.
  \<^item> \<open>Sql\<close>: the statements the stores issue, on tables as lists of rows; the locale \<open>kv_table\<close>.
  \<^item> \<open>Disk\<close>: the files under the data directory and the calls of package \<open>os\<close>, each of which may fail; a failed
    write may leave any content behind.

  \<^bold>\<open>Files and downloads.\<close>
  \<^item> \<open>Share_Path\<close>: \<open>internal/files/path.go\<close>, \<open>open_unix.go\<close>. \<open>File_Types\<close>: \<open>types.go\<close>. \<open>File_Store\<close>: \<open>store.go\<close>.
    \<open>Share_Summary\<close>: \<open>scan.go\<close>.
  \<^item> \<open>Limiter\<close>: \<open>internal/files/limiter.go\<close>. \<open>Serve\<close>: \<open>internal/files/serve.go\<close>, the whole download handler.
  \<^item> \<open>Indexer\<close>: \<open>internal/indexer/indexer.go\<close> with \<open>internal/files/mime.go\<close> and \<open>hash.go\<close>. \<open>Watcher\<close>: \<open>watch.go\<close>.

  \<^bold>\<open>Documents and federation.\<close>
  \<^item> \<open>Activity_Streams\<close>: \<open>internal/activitystreams\<close>. \<open>Activity_Html\<close>: \<open>internal/activitypub/html.go\<close>, \<open>negotiate.go\<close>.
    \<open>Activity_Handler\<close>: \<open>handler.go\<close>, \<open>webfinger.go\<close>, \<open>source.go\<close>.
  \<^item> \<open>Httpsig\<close>: \<open>internal/httpsig\<close>. \<open>Security\<close>: \<open>internal/security/ssrf.go\<close>.
  \<^item> \<open>Federation_Store\<close>: \<open>internal/federation/store.go\<close>, \<open>types.go\<close>. \<open>Federation_Inbox\<close>: \<open>fetch.go\<close>, \<open>inbox.go\<close>.
    \<open>Federation_Delivery\<close>: \<open>publish.go\<close>, \<open>queue.go\<close>.
  \<^item> \<open>Federation\<close> composes them over one store, with the locale \<open>fed_client\<close>; \<open>Federation_Safety\<close> and
    \<open>Delivery_Queue\<close> hold the properties of the inbox and of the queue.
  \<^item> \<open>Network\<close>: \<open>internal/network\<close>, the lookup of gateways and profiles; \<open>Network_Facts\<close> its lemmas.

  \<^bold>\<open>Tunnel and gateway.\<close>
  \<^item> \<open>Frame\<close>: \<open>internal/tunnel/frame.go\<close>. \<open>Tunnel_Auth\<close>: \<open>auth.go\<close>, \<open>proto.go\<close>. \<open>Upgrade\<close>: \<open>upgrade.go\<close>.
    \<open>Tunnel_Client\<close>: \<open>client.go\<close>.
  \<^item> \<open>Gateway_Store\<close>: \<open>internal/gateway/store.go\<close>. \<open>Gateway_Session\<close> and \<open>Gateway\<close>: \<open>server.go\<close>. \<open>Gateway_Auth\<close>: the
    properties of the handshake and of the answers. \<open>Gateway_Directory\<close>: \<open>network.go\<close> and its round trip with
    \<open>Network\<close>. \<open>Gateway_Program\<close>: the routes of \<open>Server.Handler\<close> and \<open>cmd/fedishare-gateway\<close>.
  \<^item> \<open>Tunnel_Proxy\<close>: both ends together; its specification is the handler on a plain \<open>net/http\<close> writer.

  \<^bold>\<open>Desktop.\<close>
  \<^item> \<open>Status\<close>: \<open>internal/status/status.go\<close>. \<open>Database\<close>: \<open>internal/database/database.go\<close>. \<open>Config\<close>, \<open>Config_Facts\<close>:
    \<open>internal/config\<close>. \<open>Key_Store\<close>: \<open>internal/crypto/keys.go\<close>. \<open>Apperr\<close>: \<open>internal/apperr\<close>.
  \<^item> \<open>Dashboard\<close>, \<open>Dashboard_Safety\<close>: \<open>internal/httpserver\<close>; the interface \<open>Backend\<close> is a record of functions.
  \<^item> \<open>Node\<close>, \<open>Node_Ops\<close>, \<open>Node_Public\<close>: \<open>internal/node/node.go\<close>, \<open>tunnel.go\<close>, \<open>federation.go\<close>, \<open>network.go\<close>,
    \<open>internal/identity\<close> and the public routes. \<open>local_node\<close> is the struct \<open>Node\<close>, \<open>nd_data\<close> the content of its
    database, \<open>nd_run\<close> the context of the running node. \<open>Node_Facts\<close>, \<open>Node_Safety\<close>, \<open>Node_Properties\<close>: the events of a
    node's runs, its invariants, its properties.
  \<^item> \<open>Host\<close>: \<open>internal/node/host.go\<close>; \<open>Host_Facts\<close>, \<open>Host_Properties\<close>: runs of the host and what the public gets.
  \<^item> \<open>Desktop\<close>: \<open>internal/tray\<close>, \<open>internal/desktop\<close>, \<open>internal/logging\<close>. \<open>Program\<close>: \<open>cmd/fedishare/main.go\<close>.
    \<open>Program_Properties\<close>: what a start, the tray and a change of settings do.

  \<^bold>\<open>Interfaces.\<close> Each locale is interpreted on the definitions of the program.
  \<^item> \<open>machine\<close> (a step keeps an invariant, so every run does): the status service twice (\<open>errors\<close>, \<open>shutdown\<close>), the
    download pool (\<open>pool\<close>), the file tables (\<open>file_tables\<close>), the watcher (\<open>watching\<close>), the gateway's tables
    (\<open>gw\<close>, \<open>binding\<close>), the runs of a node (\<open>pausing\<close>, \<open>configured_node\<close>, \<open>stopping\<close>) and of the host (\<open>anchored\<close>).
  \<^item> \<open>kv_table\<close> (what reads return after writes): the config table (\<open>config\<close>) and the blocks (\<open>blocks\<close>).
  \<^item> \<open>framing\<close> (a written frame is read back): the tunnel's frames (\<open>frames\<close>).
  \<^item> \<open>slot_pool\<close> (what a handler may rely on of admission): the limiter (\<open>slots\<close>).
  \<^item> \<open>share_resolver\<close> (what a handler may rely on of paths): \<open>ResolveUnderRoot\<close> and \<open>openNoFollow\<close> (\<open>share\<close>).
  \<^item> \<open>fed_client\<close> (what a property of the federation tables must satisfy at each statement to survive every run):
    their type (\<open>inv\<close>), finished jobs (\<open>finished\<close>), seen signatures (\<open>seen\<close>).

  \<^bold>\<open>What the theorems show.\<close> The properties carry the names C1 to C40 in the texts above them.
  \<^item> What outsiders get: only public files inside the share of an unpaused node (C1, C5, C6, C8), and through the
    tunnel what the node's handler wrote (C7).
  \<^item> What outsiders can change: a signed activity, once (C2, C10); a request with the dashboard's token and no foreign
    origin (C3); a session for the holder of the bound key (C4, C27); a node contacts only allowed addresses (C12, C18).
  \<^item> Consistency: the index describes the disk, save for files whose indexing failed (C9, C15, C25), the configuration file the settings (C19), the share
    stays apart from the data (C13, C20), the federation tables keep their type (C14), the limiter counts (C23, C24),
    a stopped or failed node is what it says (C35, C36).
  \<^item> Progress: the queue is emptied by regular wake-ups over a long enough time, with a bounded number of
    requests (C11, C16, C28), honest nodes and signatures are accepted (C22, C26), frames, directories and
    searches mean what was written (C29, C30, C37).
  \<^item> Where the code does not do what it means to: C17, C21, C31 to C34, C38 to C40 prove the behaviour as it is. A
    finished delivery is final even if the file is shared again; a key document may name any actor; a block is evaded
    by another spelling; a paused queue blocks accepts; a settings change may share another profile's key or keep the
    program from starting; a renamed node keeps the connection it has under its old name; the tray shows another profile
    than it acts on. A directory too large for the client is served but not read (C30).

  \<^bold>\<open>Bounds.\<close> No definition uses fuel: recursion is structural or has a measure. The redirect loop of \<open>Security\<close> ends
  because \<open>CheckRedirect\<close> refuses the third redirect; the queue's progress is measured by the attempts left (twelve per
  job); loops that run until they are cancelled (worker, watcher, index and tunnel loops) are steps, and the
  theorems are about every list of them. The limits of the code (frames of 8 MiB, 32 pending requests, 256 KiB of cached
  document, 1 MiB of request body, 500 entries of a directory) are constants with the code's values.

  \<^bold>\<open>Not modelled.\<close>
  \<^item> \<open>scripts/genicons\<close>, a script that draws icons; the \<open>go:embed\<close> files and the HTML templates, which are parameters;
    \<open>open_windows.go\<close>, \<open>run_nocgo.go\<close>: the variants for other builds.
  \<^item> The network, TLS, HTTP framing, deadlines and time-outs, SQLite (a schema is an abstract value, a PRAGMA has no
    effect), RSA, SHA-256, PEM and the text level of JSON, URLs and dates: parameters. The hypotheses about them are
    those of the standard (a printed document parses to itself, a signature verifies under its key) and stand in
    the theorems that use them.
  \<^item> File modes, log lines, flag parsing, signals, the event loop of the tray and the commands that open a browser.
  \<^item> Interleavings finer than a critical section: a write to a proxied request whose caller has just given up, the
    replacement of a file between \<open>Lstat\<close> and \<open>open\<close> within one request, two calls of \<open>Inbox.Process\<close> at the same
    time (the theory \<open>Federation_Inbox\<close> says what the code lets happen then).
  \<^item> \<open>LIKE\<close> on texts that contain a NUL byte, which SQLite leaves undefined. The requests inside one call of
    \<open>Client.Do\<close> are one entry of a log, with the addresses of all of them.
  \<^item> The Unicode tables behind \<open>strings.ToLower\<close>, \<open>TrimSpace\<close> and \<open>EqualFold\<close>: bytes from 128 up are left alone.
\<close>

end
